(* ===== verification/Prelude.thy ===== *)
theory Prelude
  imports Main "HOL-Library.Char_ord" "HOL-Library.List_Lexorder"
begin

text \<open>Shared ground of the development: the collections of simplification rules that the
component theories fill and use, the result type of operations that can fail, and the generic
facts on lists, finite maps and sums that more than one component needs.

Identifiers (user ids, match ids, uuids) are strings, ordered as the program orders them with
\<open><\<close>; instants are integers, in milliseconds since the epoch unless a definition says otherwise.\<close>

type_synonym user_id = string
type_synonym match_id = string
type_synonym row_id = string
type_synonym instant = int

text \<open>\<open>table_simps\<close> collects lookups after updates, \<open>guard_simps\<close> the facts that take apart a
successful result of a guarded operation.\<close>

named_theorems table_simps
named_theorems guard_simps

section \<open>Results\<close>

text \<open>An operation that may throw returns \<open>Inl\<close> the error or \<open>Inr\<close> the value.\<close>

abbreviation Throw :: "'e \<Rightarrow> 'e + 'a" where "Throw \<equiv> Inl"
abbreviation Ok :: "'a \<Rightarrow> 'e + 'a" where "Ok \<equiv> Inr"

text \<open>Sequencing of fallible operations: the first \<open>throw\<close> wins.\<close>

fun andThen :: "'e + 'a \<Rightarrow> ('a \<Rightarrow> 'e + 'b) \<Rightarrow> 'e + 'b" where
  "andThen (Inl e) f = Inl e"
| "andThen (Inr x) f = f x"

text \<open>\<open>if (bad) throw err;\<close>\<close>

definition throwIf :: "bool \<Rightarrow> 'e \<Rightarrow> 'e + unit" where
  "throwIf b e = (if b then Inl e else Inr ())"

lemma andThen_Inr [guard_simps]:
  "andThen m f = Inr y \<longleftrightarrow> (\<exists>x. m = Inr x \<and> f x = Inr y)"
  by (cases m) auto

lemma throwIf_Inr [guard_simps]: "throwIf b e = Inr u \<longleftrightarrow> \<not> b"
  by (simp add: throwIf_def)

lemma throwIf_Inl [simp]: "throwIf b e = Inl e' \<longleftrightarrow> b \<and> e' = e"
  by (auto simp: throwIf_def)

lemma andThen_throwIf:
  "andThen (throwIf b e) f = (if b then Inl e else f ())"
  by (simp add: throwIf_def)

section \<open>Lists\<close>

text \<open>\<open>[...new Set(xs)]\<close>: duplicates dropped, the first occurrence kept.\<close>

fun dedup_acc :: "'a list \<Rightarrow> 'a list \<Rightarrow> 'a list" where
  "dedup_acc seen [] = []"
| "dedup_acc seen (x # xs) =
     (if x \<in> set seen then dedup_acc seen xs else x # dedup_acc (x # seen) xs)"

definition dedup :: "'a list \<Rightarrow> 'a list" where
  "dedup xs = dedup_acc [] xs"

lemma set_dedup_acc: "set (dedup_acc seen xs) = set xs - set seen"
  by (induction xs arbitrary: seen) auto

lemma distinct_dedup_acc: "distinct (dedup_acc seen xs)"
  by (induction xs arbitrary: seen) (auto simp: set_dedup_acc)

lemma set_dedup [simp]: "set (dedup xs) = set xs"
  by (simp add: dedup_def set_dedup_acc)

lemma distinct_dedup [simp]: "distinct (dedup xs)"
  by (simp add: dedup_def distinct_dedup_acc)

lemma dedup_acc_distinct:
  "distinct xs \<Longrightarrow> set xs \<inter> set seen = {} \<Longrightarrow> dedup_acc seen xs = xs"
  by (induction xs arbitrary: seen) auto

lemma dedup_distinct: "distinct xs \<Longrightarrow> dedup xs = xs"
  by (simp add: dedup_def dedup_acc_distinct)

lemma dedup_idem [simp]: "dedup (dedup xs) = dedup xs"
  by (simp add: dedup_distinct)

text \<open>\<open>xs.find(p)\<close>.\<close>

lemma find_Some_iff2:
  "find P xs = Some x \<Longrightarrow> x \<in> set xs \<and> P x"
  by (induction xs) (auto split: if_splits)

lemma find_None_iff2: "find P xs = None \<longleftrightarrow> (\<forall>x\<in>set xs. \<not> P x)"
  by (induction xs) auto

text \<open>Sums over updated lists, for the accounting invariants.\<close>

lemma sum_list_append_single [simp]:
  "sum_list (xs @ [x]) = sum_list xs + (x :: 'a :: comm_monoid_add)"
  by (simp add: add.commute)

lemma filter_empty_iff_all: "filter P xs = [] \<longleftrightarrow> (\<forall>x\<in>set xs. \<not> P x)"
  by (simp add: filter_empty_conv)

lemma length_filter_le_one_if_distinct_map:
  "distinct (map f xs) \<Longrightarrow> length (filter (\<lambda>x. f x = k) xs) \<le> 1"
proof (induction xs)
  case (Cons x xs)
  have "filter (\<lambda>y. f y = k) xs = []" if "f x = k"
    using Cons.prems that by (auto simp: filter_empty_conv image_iff)
  then show ?case using Cons by (cases "f x = k") simp_all
qed simp

section \<open>Finite maps\<close>

text \<open>A table is a partial map from keys to rows. \<open>update ... where key\<close> on a row that exists,
and \<open>delete\<close> of a set of keys.\<close>

definition tableModify :: "'k \<Rightarrow> ('v \<Rightarrow> 'v) \<Rightarrow> ('k \<rightharpoonup> 'v) \<Rightarrow> ('k \<rightharpoonup> 'v)" where
  "tableModify k f t = (case t k of None \<Rightarrow> t | Some v \<Rightarrow> t(k \<mapsto> f v))"

definition tableMap :: "('v \<Rightarrow> 'v) \<Rightarrow> ('k \<rightharpoonup> 'v) \<Rightarrow> ('k \<rightharpoonup> 'v)" where
  "tableMap f t = (\<lambda>k. map_option f (t k))"

definition tableDelete :: "'k \<Rightarrow> ('k \<rightharpoonup> 'v) \<Rightarrow> ('k \<rightharpoonup> 'v)" where
  "tableDelete k t = t(k := None)"

lemma tableModify_same [table_simps]: "tableModify k f t k = map_option f (t k)"
  by (simp add: tableModify_def split: option.split)

lemma tableModify_other [table_simps]: "k' \<noteq> k \<Longrightarrow> tableModify k f t k' = t k'"
  by (simp add: tableModify_def split: option.split)

lemma tableModify_apply:
  "tableModify k f t k' = (if k' = k then map_option f (t k) else t k')"
  by (simp add: table_simps)

lemma dom_tableModify [simp]: "dom (tableModify k f t) = dom t"
  by (auto simp: tableModify_def split: option.split)

lemma tableMap_apply [table_simps]: "tableMap f t k = map_option f (t k)"
  by (simp add: tableMap_def)

lemma dom_tableMap [simp]: "dom (tableMap f t) = dom t"
  by (auto simp: tableMap_def)

lemma tableDelete_apply [table_simps]:
  "tableDelete k t k' = (if k' = k then None else t k')"
  by (simp add: tableDelete_def)

lemma dom_tableDelete [simp]: "dom (tableDelete k t) = dom t - {k}"
  by (simp add: tableDelete_def)

end
