(* ===== verification/Enums.thy ===== *)
theory Enums
  imports Prelude
begin

text \<open>The domain enumerations of \<^verbatim>\<open>packages/types/src/enums.ts\<close>. A frozen const object with its
union of literals is a datatype whose constructors carry the object's name, so
\<^verbatim>\<open>SessionState.IDLE\<close> is \<open>SessionState_IDLE\<close>. \<open>UserRole\<close> is ordered by the privilege ladder.\<close>

datatype Gender =
  Gender_MALE | Gender_FEMALE | Gender_NON_BINARY | Gender_OTHER | Gender_UNSPECIFIED

datatype GenderPreference =
  GenderPreference_MALE | GenderPreference_FEMALE | GenderPreference_ANY

datatype AccountStatus =
  AccountStatus_PENDING_VERIFICATION | AccountStatus_ACTIVE | AccountStatus_SUSPENDED
   | AccountStatus_BANNED | AccountStatus_DEACTIVATED

datatype UserRole =
  UserRole_USER | UserRole_MODERATOR | UserRole_ADMIN | UserRole_SUPER_ADMIN

datatype PlanTier =
  PlanTier_FREE | PlanTier_PLUS | PlanTier_PREMIUM

datatype SubscriptionStatus =
  SubscriptionStatus_ACTIVE | SubscriptionStatus_TRIALING | SubscriptionStatus_PAST_DUE
   | SubscriptionStatus_CANCELED | SubscriptionStatus_INCOMPLETE
   | SubscriptionStatus_EXPIRED

datatype BillingProvider =
  BillingProvider_STRIPE | BillingProvider_APPLE | BillingProvider_GOOGLE
   | BillingProvider_MANUAL

datatype ReportCategory =
  ReportCategory_NUDITY | ReportCategory_HARASSMENT | ReportCategory_HATE
   | ReportCategory_UNDERAGE | ReportCategory_VIOLENCE | ReportCategory_SPAM
   | ReportCategory_SCAM | ReportCategory_IMPERSONATION | ReportCategory_OTHER

datatype ReportStatus =
  ReportStatus_PENDING | ReportStatus_UNDER_REVIEW | ReportStatus_ACTIONED
   | ReportStatus_DISMISSED

datatype ModerationActionType =
  ModerationActionType_NOTE | ModerationActionType_WARNING
   | ModerationActionType_SUSPENSION | ModerationActionType_UNSUSPEND
   | ModerationActionType_BAN | ModerationActionType_UNBAN
   | ModerationActionType_DISMISS_REPORT | ModerationActionType_FORCE_LOGOUT

datatype BanScope =
  BanScope_ACCOUNT | BanScope_DEVICE | BanScope_NETWORK

datatype MatchEndReason =
  MatchEndReason_SKIPPED | MatchEndReason_ENDED | MatchEndReason_DISCONNECTED
   | MatchEndReason_REPORTED | MatchEndReason_BLOCKED | MatchEndReason_TIMEOUT
   | MatchEndReason_ERROR | MatchEndReason_SERVER_SHUTDOWN | MatchEndReason_MODERATED

datatype ConnectionRequestStatus =
  ConnectionRequestStatus_PENDING | ConnectionRequestStatus_ACCEPTED
   | ConnectionRequestStatus_DECLINED | ConnectionRequestStatus_CANCELLED
   | ConnectionRequestStatus_EXPIRED

datatype PresenceState =
  PresenceState_OFFLINE | PresenceState_ONLINE | PresenceState_MATCHING
   | PresenceState_CONNECTED | PresenceState_AWAY

datatype SessionState =
  SessionState_IDLE | SessionState_REQUESTING_PERMISSIONS | SessionState_READY
   | SessionState_QUEUED | SessionState_MATCH_FOUND | SessionState_SIGNALING
   | SessionState_CONNECTING | SessionState_CONNECTED | SessionState_PARTNER_LEFT
   | SessionState_SKIPPING | SessionState_RECONNECTING | SessionState_ERROR

datatype ConnectionQuality =
  ConnectionQuality_EXCELLENT | ConnectionQuality_GOOD | ConnectionQuality_FAIR
   | ConnectionQuality_POOR | ConnectionQuality_UNKNOWN

datatype FieldVisibility =
  FieldVisibility_PUBLIC | FieldVisibility_CONNECTIONS | FieldVisibility_PRIVATE

datatype AgeBracket =
  AgeBracket_AGE_18_24 | AgeBracket_AGE_25_34 | AgeBracket_AGE_35_44
   | AgeBracket_AGE_45_54 | AgeBracket_AGE_55_PLUS

datatype AuditActorType =
  AuditActorType_USER | AuditActorType_ADMIN | AuditActorType_SYSTEM

datatype Locale =
  Locale_EN | Locale_ES | Locale_PT | Locale_FR | Locale_DE | Locale_IT

section \<open>Derived lists\<close>

definition GENDERS :: "Gender list" where
  "GENDERS = [Gender_MALE, Gender_FEMALE, Gender_NON_BINARY, Gender_OTHER, Gender_UNSPECIFIED]"

definition GENDER_PREFERENCES :: "GenderPreference list" where
  "GENDER_PREFERENCES = [GenderPreference_MALE, GenderPreference_FEMALE, GenderPreference_ANY]"

definition AGE_BRACKETS :: "AgeBracket list" where
  "AGE_BRACKETS = [AgeBracket_AGE_18_24, AgeBracket_AGE_25_34, AgeBracket_AGE_35_44,
     AgeBracket_AGE_45_54, AgeBracket_AGE_55_PLUS]"

definition NON_MATCHABLE_STATUSES :: "AccountStatus list" where
  "NON_MATCHABLE_STATUSES =
     [AccountStatus_SUSPENDED, AccountStatus_BANNED, AccountStatus_DEACTIVATED]"

definition PRIORITY_REPORT_CATEGORIES :: "ReportCategory list" where
  "PRIORITY_REPORT_CATEGORIES = [ReportCategory_UNDERAGE, ReportCategory_VIOLENCE]"

section \<open>The privilege ladder\<close>

definition ROLE_HIERARCHY :: "UserRole list" where
  "ROLE_HIERARCHY = [UserRole_USER, UserRole_MODERATOR, UserRole_ADMIN, UserRole_SUPER_ADMIN]"

text \<open>\<^verbatim>\<open>indexOf\<close>, with the \<open>-1\<close> of an absent element.\<close>

fun indexOf_from :: "int \<Rightarrow> 'a list \<Rightarrow> 'a \<Rightarrow> int" where
  "indexOf_from i [] x = - 1"
| "indexOf_from i (y # ys) x = (if y = x then i else indexOf_from (i + 1) ys x)"

definition indexOf :: "'a list \<Rightarrow> 'a \<Rightarrow> int" where
  "indexOf xs x = indexOf_from 0 xs x"

definition roleRank :: "UserRole \<Rightarrow> int" where
  "roleRank r = indexOf ROLE_HIERARCHY r"

lemma roleRank_simps [simp]:
  "roleRank UserRole_USER = 0"
  "roleRank UserRole_MODERATOR = 1"
  "roleRank UserRole_ADMIN = 2"
  "roleRank UserRole_SUPER_ADMIN = 3"
  by (simp_all add: roleRank_def indexOf_def ROLE_HIERARCHY_def)

lemma roleRank_inject: "roleRank r = roleRank s \<longleftrightarrow> r = s"
  by (cases r; cases s) simp_all

instantiation UserRole :: linorder
begin

definition less_eq_UserRole :: "UserRole \<Rightarrow> UserRole \<Rightarrow> bool" where
  "less_eq_UserRole r s = (roleRank r \<le> roleRank s)"

definition less_UserRole :: "UserRole \<Rightarrow> UserRole \<Rightarrow> bool" where
  "less_UserRole r s = (roleRank r < roleRank s)"

instance
  by standard (auto simp: less_eq_UserRole_def less_UserRole_def roleRank_inject)

end

lemma roleRank_less_iff: "roleRank r < roleRank s \<longleftrightarrow> r < s"
  by (simp add: less_UserRole_def)

lemma roleRank_le_iff: "roleRank r \<le> roleRank s \<longleftrightarrow> r \<le> s"
  by (simp add: less_eq_UserRole_def)

lemma USER_least [simp]: "UserRole_USER \<le> r"
  by (cases r) (simp_all add: less_eq_UserRole_def)

lemma SUPER_ADMIN_greatest [simp]: "r \<le> UserRole_SUPER_ADMIN"
  by (cases r) (simp_all add: less_eq_UserRole_def)

end
