(* ===== verification/Privacy.thy ===== *)
theory Privacy
  imports Enums
begin

text \<open>The privacy funnel of \<^verbatim>\<open>packages/shared/src/privacy.ts\<close>: the projection of a user record to
what a match partner may see, the check that a payload carries no private field at any depth, and
the coarse age. A payload is a JSON tree; a date is its UTC calendar fields, months from 0 as
\<^verbatim>\<open>getUTCMonth\<close> counts them.\<close>

section \<open>Dates and age\<close>

record UtcDate =
  utcYear :: int
  utcMonth :: int
  utcDay :: int

text \<open>\<^verbatim>\<open>Date | string | null\<close> after parsing: absent, a string that is no date, or a date.\<close>

datatype BirthDate = NoBirthDate | UnparseableBirthDate | BirthDate UtcDate

fun calculateAge :: "BirthDate \<Rightarrow> UtcDate \<Rightarrow> int option" where
  "calculateAge NoBirthDate now = None"
| "calculateAge UnparseableBirthDate now = None"
| "calculateAge (BirthDate dob) now =
     (let age = utcYear now - utcYear dob;
          monthDelta = utcMonth now - utcMonth dob
      in Some (if monthDelta < 0 \<or> (monthDelta = 0 \<and> utcDay now < utcDay dob) then age - 1 else age))"

definition ageBracketFor :: "BirthDate \<Rightarrow> UtcDate \<Rightarrow> AgeBracket option" where
  "ageBracketFor birthDate now =
     (case calculateAge birthDate now of
        None \<Rightarrow> None
      | Some age \<Rightarrow>
          if age < 0 then None
          else if age < 25 then Some AgeBracket_AGE_18_24
          else if age < 35 then Some AgeBracket_AGE_25_34
          else if age < 45 then Some AgeBracket_AGE_35_44
          else if age < 55 then Some AgeBracket_AGE_45_54
          else Some AgeBracket_AGE_55_PLUS)"

definition meetsMinimumAge :: "BirthDate \<Rightarrow> int \<Rightarrow> UtcDate \<Rightarrow> bool" where
  "meetsMinimumAge birthDate minimumAge now =
     (case calculateAge birthDate now of None \<Rightarrow> False | Some age \<Rightarrow> age \<ge> minimumAge)"

section \<open>The funnel\<close>

record InternalUserRecord =
  iu_id :: user_id
  iu_username :: string
  iu_displayName :: "string option"
  iu_avatarUrl :: "string option"
  iu_country :: "string option"
  iu_birthDate :: BirthDate
  iu_languages :: "string list"
  iu_gender :: "Gender option"
  iu_interests :: "string list"
  iu_bio :: "string option"
  iu_emailVerified :: bool
  iu_plan :: PlanTier
  iu_email :: "string option"
  iu_passwordHash :: "string option"
  iu_lastIpHash :: "string option"
  iu_safetyScore :: "int option"
  iu_role :: "string option"
  iu_status :: "string option"
  iu_moderatorNotes :: "string option"
  iu_city :: "string option"
  iu_latitude :: "int option"
  iu_longitude :: "int option"

record PrivacySettings =
  showDisplayName :: bool
  showCountry :: bool
  showAgeBracket :: bool
  showGender :: bool
  showInterests :: bool
  showBio :: bool
  allowConnectionRequests :: bool
  fieldOverrides :: "(string \<times> FieldVisibility) list"

record PublicProfile =
  pp_id :: user_id
  pp_username :: string
  pp_displayName :: "string option"
  pp_avatarUrl :: "string option"
  pp_country :: "string option"
  pp_ageBracket :: "AgeBracket option"
  pp_languages :: "string list"
  pp_gender :: "Gender option"
  pp_interests :: "string list"
  pp_bio :: "string option"
  pp_verified :: bool
  pp_plan :: PlanTier

definition DEFAULT_PRIVACY_SETTINGS :: PrivacySettings where
  "DEFAULT_PRIVACY_SETTINGS =
     \<lparr>showDisplayName = True, showCountry = True, showAgeBracket = True, showGender = True,
      showInterests = True, showBio = True, allowConnectionRequests = True, fieldOverrides = []\<rparr>"

definition toPublicProfile ::
    "InternalUserRecord \<Rightarrow> PrivacySettings \<Rightarrow> UtcDate \<Rightarrow> PublicProfile" where
  "toPublicProfile user privacy now =
     \<lparr>pp_id = iu_id user,
      pp_username = iu_username user,
      pp_displayName = (if showDisplayName privacy then iu_displayName user else None),
      pp_avatarUrl = iu_avatarUrl user,
      pp_country = (if showCountry privacy then iu_country user else None),
      pp_ageBracket = (if showAgeBracket privacy then ageBracketFor (iu_birthDate user) now else None),
      pp_languages = iu_languages user,
      pp_gender = (if showGender privacy then iu_gender user else None),
      pp_interests = (if showInterests privacy then iu_interests user else []),
      pp_bio = (if showBio privacy then iu_bio user else None),
      pp_verified = iu_emailVerified user,
      pp_plan = iu_plan user\<rparr>"

section \<open>Payloads\<close>

datatype json =
    JNull | JBool bool | JNum int | JStr string
  | JArr "json list" | JObj "(string \<times> json) list"

definition FORBIDDEN_PARTNER_FIELDS :: "string list" where
  "FORBIDDEN_PARTNER_FIELDS =
     [''email'', ''passwordHash'', ''password'', ''lastIpHash'', ''ipAddress'', ''safetyScore'',
      ''role'', ''status'', ''moderatorNotes'', ''city'', ''latitude'', ''longitude'',
      ''birthDate'', ''accessToken'', ''refreshToken'']"

text \<open>The decimal text of an array index, for the path of the error message.\<close>

fun natText :: "nat \<Rightarrow> string" where
  "natText n = (if n < 10 then [char_of (48 + n)] else natText (n div 10) @ [char_of (48 + n mod 10)])"

declare natText.simps [simp del]

text \<open>The recursive assertion; the two helpers are the \<^verbatim>\<open>forEach\<close> over an array with its index and
the loop over \<^verbatim>\<open>Object.entries\<close>. \<open>Throw\<close> carries the message of the error.\<close>

fun assertNoPrivateFields :: "json \<Rightarrow> string \<Rightarrow> string + unit"
  and assertItems :: "json list \<Rightarrow> nat \<Rightarrow> string \<Rightarrow> string + unit"
  and assertEntries :: "(string \<times> json) list \<Rightarrow> string \<Rightarrow> string + unit" where
  "assertNoPrivateFields (JArr items) path = assertItems items 0 path"
| "assertNoPrivateFields (JObj entries) path = assertEntries entries path"
| "assertNoPrivateFields v path = Ok ()"
| "assertItems [] i path = Ok ()"
| "assertItems (x # xs) i path =
     andThen (assertNoPrivateFields x (path @ ''['' @ natText i @ '']''))
       (\<lambda>_. assertItems xs (i + 1) path)"
| "assertEntries [] path = Ok ()"
| "assertEntries ((key, v) # es) path =
     andThen (throwIf (key \<in> set FORBIDDEN_PARTNER_FIELDS)
               (''Private field '' @ [char_of (34 :: nat)] @ key @ [char_of (34 :: nat)] @
                '' would be exposed at '' @ path @ ''.'' @ key))
       (\<lambda>_. andThen (assertNoPrivateFields v (path @ ''.'' @ key)) (\<lambda>_. assertEntries es path))"

text \<open>Every key of a payload, at any depth.\<close>

fun keysOf :: "json \<Rightarrow> string list"
  and keysOfItems :: "json list \<Rightarrow> string list"
  and keysOfEntries :: "(string \<times> json) list \<Rightarrow> string list" where
  "keysOf (JArr items) = keysOfItems items"
| "keysOf (JObj entries) = keysOfEntries entries"
| "keysOf v = []"
| "keysOfItems [] = []"
| "keysOfItems (x # xs) = keysOf x @ keysOfItems xs"
| "keysOfEntries [] = []"
| "keysOfEntries ((key, v) # es) = key # keysOf v @ keysOfEntries es"

lemma assertNoPrivateFields_iff:
  "assertNoPrivateFields v path = Inr () \<longleftrightarrow> set (keysOf v) \<inter> set FORBIDDEN_PARTNER_FIELDS = {}"
  "assertItems items i path = Inr () \<longleftrightarrow>
     set (keysOfItems items) \<inter> set FORBIDDEN_PARTNER_FIELDS = {}"
  "assertEntries entries path = Inr () \<longleftrightarrow>
     set (keysOfEntries entries) \<inter> set FORBIDDEN_PARTNER_FIELDS = {}"
  by (induction v path and items i path and entries path
      rule: assertNoPrivateFields_assertItems_assertEntries.induct)
     (auto simp: guard_simps)

text \<open>The profile as the payload that leaves the server.\<close>

definition jOpt :: "('a \<Rightarrow> json) \<Rightarrow> 'a option \<Rightarrow> json" where
  "jOpt f x = (case x of None \<Rightarrow> JNull | Some y \<Rightarrow> f y)"

fun genderText :: "Gender \<Rightarrow> string" where
  "genderText Gender_MALE = ''MALE''"
| "genderText Gender_FEMALE = ''FEMALE''"
| "genderText Gender_NON_BINARY = ''NON_BINARY''"
| "genderText Gender_OTHER = ''OTHER''"
| "genderText Gender_UNSPECIFIED = ''UNSPECIFIED''"

fun ageBracketText :: "AgeBracket \<Rightarrow> string" where
  "ageBracketText AgeBracket_AGE_18_24 = ''AGE_18_24''"
| "ageBracketText AgeBracket_AGE_25_34 = ''AGE_25_34''"
| "ageBracketText AgeBracket_AGE_35_44 = ''AGE_35_44''"
| "ageBracketText AgeBracket_AGE_45_54 = ''AGE_45_54''"
| "ageBracketText AgeBracket_AGE_55_PLUS = ''AGE_55_PLUS''"

fun planText :: "PlanTier \<Rightarrow> string" where
  "planText PlanTier_FREE = ''FREE''"
| "planText PlanTier_PLUS = ''PLUS''"
| "planText PlanTier_PREMIUM = ''PREMIUM''"

definition publicProfileJson :: "PublicProfile \<Rightarrow> json" where
  "publicProfileJson p = JObj
     [(''id'', JStr (pp_id p)),
      (''username'', JStr (pp_username p)),
      (''displayName'', jOpt JStr (pp_displayName p)),
      (''avatarUrl'', jOpt JStr (pp_avatarUrl p)),
      (''country'', jOpt JStr (pp_country p)),
      (''ageBracket'', jOpt (JStr \<circ> ageBracketText) (pp_ageBracket p)),
      (''languages'', JArr (map JStr (pp_languages p))),
      (''gender'', jOpt (JStr \<circ> genderText) (pp_gender p)),
      (''interests'', JArr (map JStr (pp_interests p))),
      (''bio'', jOpt JStr (pp_bio p)),
      (''verified'', JBool (pp_verified p)),
      (''plan'', JStr (planText (pp_plan p)))]"

lemma keysOfItems_strings [simp]: "keysOfItems (map JStr xs) = []"
  by (induction xs) simp_all

lemma keysOf_jOpt_string [simp]:
  "keysOf (jOpt JStr x) = []" "keysOf (jOpt (JStr \<circ> f) y) = []"
  by (simp_all add: jOpt_def split: option.split)

text \<open>Calendar order: the fields compared from the year down.\<close>

definition dateLe :: "int \<times> int \<times> int \<Rightarrow> int \<times> int \<times> int \<Rightarrow> bool" where
  "dateLe a b = (case (a, b) of ((y, m, d), (y', m', d')) \<Rightarrow>
     y < y' \<or> y = y' \<and> (m < m' \<or> m = m' \<and> d \<le> d'))"

definition anniversary :: "UtcDate \<Rightarrow> int \<Rightarrow> int \<times> int \<times> int" where
  "anniversary dob n = (utcYear dob + n, utcMonth dob, utcDay dob)"

definition dateFields :: "UtcDate \<Rightarrow> int \<times> int \<times> int" where
  "dateFields d = (utcYear d, utcMonth d, utcDay d)"

lemma calculateAge_anniversary:
  "calculateAge (BirthDate dob) now = Some n \<longleftrightarrow>
   dateLe (anniversary dob n) (dateFields now) \<and> \<not> dateLe (anniversary dob (n + 1)) (dateFields now)"
  by (auto simp: dateLe_def anniversary_def dateFields_def Let_def)

lemma meetsMinimumAge_anniversary:
  "meetsMinimumAge (BirthDate dob) a now \<longleftrightarrow> dateLe (anniversary dob a) (dateFields now)"
  unfolding meetsMinimumAge_def dateLe_def anniversary_def dateFields_def
  by (simp add: Let_def) linarith

section \<open>Properties\<close>

text \<open>A payload passes the assertion exactly when none of its keys, at any depth of arrays and
objects, is a forbidden field.\<close>

theorem assertNoPrivateFields_exact:
  "assertNoPrivateFields v path = Ok () \<longleftrightarrow>
   (\<not> list_ex (\<lambda>k. k \<in> set FORBIDDEN_PARTNER_FIELDS) (keysOf v))"
  by (auto simp: assertNoPrivateFields_iff list_ex_iff)

text \<open>Whatever a user record holds and whatever the privacy settings are, the profile that
\<open>toPublicProfile\<close> makes of it is a payload without private fields.\<close>

theorem public_profile_passes_assertion:
  "assertNoPrivateFields (publicProfileJson (toPublicProfile user privacy now)) path = Ok ()"
  by (simp add: assertNoPrivateFields_iff publicProfileJson_def FORBIDDEN_PARTNER_FIELDS_def
      del: assertNoPrivateFields.simps)

text \<open>C40: The profile a stranger sees is determined by the always-public columns and by the gated
ones whose switch is on: two users that agree on these are indistinguishable, whatever their e-mail,
role, status, location, notes, exact birth date or hidden fields are.\<close>

theorem public_profile_noninterference:
  assumes "iu_id u = iu_id v" "iu_username u = iu_username v" "iu_avatarUrl u = iu_avatarUrl v"
    and "iu_languages u = iu_languages v" "iu_emailVerified u = iu_emailVerified v"
    and "iu_plan u = iu_plan v"
    and "showDisplayName p \<longrightarrow> iu_displayName u = iu_displayName v"
    and "showCountry p \<longrightarrow> iu_country u = iu_country v"
    and "showAgeBracket p \<longrightarrow>
         ageBracketFor (iu_birthDate u) now = ageBracketFor (iu_birthDate v) now"
    and "showGender p \<longrightarrow> iu_gender u = iu_gender v"
    and "showInterests p \<longrightarrow> iu_interests u = iu_interests v"
    and "showBio p \<longrightarrow> iu_bio u = iu_bio v"
  shows "toPublicProfile u p now = toPublicProfile v p now"
  using assms by (simp add: toPublicProfile_def)

definition exampleUser :: InternalUserRecord where
  "exampleUser =
     \<lparr>iu_id = ''u1'', iu_username = ''ana'', iu_displayName = Some ''Ana'', iu_avatarUrl = None,
      iu_country = Some ''PT'',
      iu_birthDate = BirthDate \<lparr>utcYear = 2000, utcMonth = 1, utcDay = 29\<rparr>,
      iu_languages = [''pt''], iu_gender = None, iu_interests = [], iu_bio = Some ''hi'',
      iu_emailVerified = True, iu_plan = PlanTier_FREE, iu_email = Some ''ana@example.com'',
      iu_passwordHash = Some ''h'', iu_lastIpHash = None, iu_safetyScore = Some 90,
      iu_role = Some ''USER'', iu_status = Some ''ACTIVE'', iu_moderatorNotes = None,
      iu_city = None, iu_latitude = None, iu_longitude = None\<rparr>"

lemma public_profile_noninterference_witness:
  "toPublicProfile exampleUser (DEFAULT_PRIVACY_SETTINGS \<lparr>showBio := False\<rparr>)
     \<lparr>utcYear = 2025, utcMonth = 1, utcDay = 28\<rparr> =
   toPublicProfile (exampleUser \<lparr>iu_bio := None, iu_email := None, iu_role := Some ''ADMIN''\<rparr>)
     (DEFAULT_PRIVACY_SETTINGS \<lparr>showBio := False\<rparr>) \<lparr>utcYear = 2025, utcMonth = 1, utcDay = 28\<rparr>"
  by (rule public_profile_noninterference)
     (simp_all add: exampleUser_def DEFAULT_PRIVACY_SETTINGS_def)

text \<open>The age is the number of anniversaries of the birth date that have come: it is \<open>n\<close> exactly
when the \<open>n\<close>-th anniversary is not after today and the next one is; and the age gate opens exactly on
the anniversary of the minimum age, not a day earlier.\<close>

theorem age_gate_exact:
  "(calculateAge (BirthDate dob) now = Some n \<longleftrightarrow>
      dateLe (anniversary dob n) (dateFields now) \<and>
      \<not> dateLe (anniversary dob (n + 1)) (dateFields now)) \<and>
   (meetsMinimumAge (BirthDate dob) minimumAge now \<longleftrightarrow>
      dateLe (anniversary dob minimumAge) (dateFields now))"
  using calculateAge_anniversary meetsMinimumAge_anniversary by blast

end
