(* ===== verification/Utils.thy ===== *)
theory Utils
  imports Enums Privacy Complex_Main "HOL-Library.Word"
begin

text \<open>The helpers of \<^verbatim>\<open>packages/shared/src/utils.ts\<close>. Free text is a list of UTF-16 code units
(\<open>nat\<close>), since the sanitiser works on code points that no 8-bit character has; the 32-bit hash is
kept on \<open>32 word\<close>. A fractional number is a rational.\<close>

unbundle bit_operations_syntax

section \<open>Numbers\<close>

definition clamp :: "rat \<Rightarrow> rat \<Rightarrow> rat \<Rightarrow> rat" where
  "clamp v lo hi = min (max v lo) hi"

definition pad2 :: "nat \<Rightarrow> string" where
  "pad2 n = (let t = natText n in replicate (2 - length t) (CHR ''0'') @ t)"

definition formatDuration :: "rat \<Rightarrow> string" where
  "formatDuration totalSeconds =
     (let seconds = nat (max 0 \<lfloor>totalSeconds\<rfloor>);
          h = seconds div 3600; m = (seconds mod 3600) div 60; s = seconds mod 60
      in if h > 0 then natText h @ '':'' @ pad2 m @ '':'' @ pad2 s
         else natText m @ '':'' @ pad2 s)"

definition deriveConnectionQuality :: "rat option \<Rightarrow> rat option \<Rightarrow> ConnectionQuality" where
  "deriveConnectionQuality roundTripTimeMs packetsLostPct =
     (if roundTripTimeMs = None \<and> packetsLostPct = None then ConnectionQuality_UNKNOWN
      else let rtt = (case roundTripTimeMs of None \<Rightarrow> 0 | Some r \<Rightarrow> r);
               loss = (case packetsLostPct of None \<Rightarrow> 0 | Some l \<Rightarrow> l)
           in if rtt > 400 \<or> loss > 8 then ConnectionQuality_POOR
              else if rtt > 250 \<or> loss > 4 then ConnectionQuality_FAIR
              else if rtt > 120 \<or> loss > 3 / 2 then ConnectionQuality_GOOD
              else ConnectionQuality_EXCELLENT)"

text \<open>\<open>random\<close> is the result of \<^verbatim>\<open>Math.random()\<close>, in the half-open unit interval.\<close>

definition backoffDelay :: "nat \<Rightarrow> rat \<Rightarrow> rat \<Rightarrow> rat \<Rightarrow> int" where
  "backoffDelay attempt baseMs maxMs random =
     (let ceiling = min maxMs (baseMs * 2 ^ attempt) in \<lfloor>random * ceiling\<rfloor>)"

section \<open>Rollout buckets\<close>

text \<open>One round of the FNV-1a loop: \<^verbatim>\<open>hash ^= c; hash = Math.imul(hash, 16777619)\<close>.\<close>

definition fnvStep :: "32 word \<Rightarrow> nat \<Rightarrow> 32 word" where
  "fnvStep hash c = (hash XOR of_nat c) * 16777619"

definition hashString :: "nat list \<Rightarrow> nat" where
  "hashString input = unat (foldl fnvStep 2166136261 input)"

definition codeUnits :: "string \<Rightarrow> nat list" where
  "codeUnits s = map of_char s"

definition isInRollout :: "string \<Rightarrow> user_id \<Rightarrow> int \<Rightarrow> bool" where
  "isInRollout flagKey userId percentage =
     (if percentage \<ge> 100 then True
      else if percentage \<le> 0 then False
      else int (hashString (codeUnits (flagKey @ '':'' @ userId)) mod 100) < percentage)"

section \<open>Lists of strings\<close>

text \<open>A \<open>string\<close> is a list of UTF-16 code units below 256; \<^verbatim>\<open>toLowerCase\<close> maps them among themselves.\<close>

definition toLowerChar :: "char \<Rightarrow> char" where
  "toLowerChar c =
     (let n = (of_char c :: nat) in
      if 65 \<le> n \<and> n \<le> 90 \<or> 192 \<le> n \<and> n \<le> 222 \<and> n \<noteq> 215 then char_of (n + 32) else c)"

definition toLowerCase :: "string \<Rightarrow> string" where
  "toLowerCase s = map toLowerChar s"

definition intersect :: "string list \<Rightarrow> string list \<Rightarrow> string list" where
  "intersect a b = filter (\<lambda>v. toLowerCase v \<in> set (map toLowerCase b)) a"

definition unique :: "'a list \<Rightarrow> 'a list" where
  "unique items = dedup items"

section \<open>Sanitising display text\<close>

text \<open>The \<^verbatim>\<open>\\s\<close> class of the language, which \<^verbatim>\<open>trim\<close> removes too.\<close>

definition isSpace :: "nat \<Rightarrow> bool" where
  "isSpace c =
     (9 \<le> c \<and> c \<le> 13 \<or> c = 32 \<or> c = 0xa0 \<or> c = 0x1680 \<or> 0x2000 \<le> c \<and> c \<le> 0x200a \<or>
      c = 0x2028 \<or> c = 0x2029 \<or> c = 0x202f \<or> c = 0x205f \<or> c = 0x3000 \<or> c = 0xfeff)"

function collapseSpace :: "nat list \<Rightarrow> nat list" where
  "collapseSpace [] = []"
| "collapseSpace (c # cs) =
     (if isSpace c then 32 # collapseSpace (dropWhile isSpace cs) else c # collapseSpace cs)"
  by pat_completeness auto
termination
  by (relation "measure length") (auto simp: less_Suc_eq_le length_dropWhile_le)

definition trimSpace :: "nat list \<Rightarrow> nat list" where
  "trimSpace cs = rev (dropWhile isSpace (rev (dropWhile isSpace cs)))"

definition normalizeWhitespace :: "nat list \<Rightarrow> nat list" where
  "normalizeWhitespace v = trimSpace (collapseSpace v)"

definition INVISIBLE_CODE_POINT_RANGES :: "(nat \<times> nat) list" where
  "INVISIBLE_CODE_POINT_RANGES =
     [(0x0000, 0x001f), (0x007f, 0x009f), (0x00ad, 0x00ad), (0x200b, 0x200f), (0x202a, 0x202e),
      (0x2060, 0x206f), (0xfeff, 0xfeff)]"

definition isInvisible :: "nat \<Rightarrow> bool" where
  "isInvisible c = list_ex (\<lambda>(from, to). from \<le> c \<and> c \<le> to) INVISIBLE_CODE_POINT_RANGES"

definition stripInvisibleCharacters :: "nat list \<Rightarrow> nat list" where
  "stripInvisibleCharacters v = filter (\<lambda>c. \<not> isInvisible c) v"

definition sanitizeDisplayText :: "nat list \<Rightarrow> nat list" where
  "sanitizeDisplayText v = normalizeWhitespace (stripInvisibleCharacters v)"

section \<open>Masking and narrowing\<close>

text \<open>\<^verbatim>\<open>email.split('@')\<close> destructured to its first two pieces; the second is missing when there
is no separator.\<close>

fun splitOn :: "char \<Rightarrow> string \<Rightarrow> string list" where
  "splitOn sep [] = [[]]"
| "splitOn sep (c # cs) =
     (if c = sep then [] # splitOn sep cs
      else case splitOn sep cs of [] \<Rightarrow> [[c]] | w # ws \<Rightarrow> (c # w) # ws)"

definition maskEmail :: "string \<Rightarrow> string" where
  "maskEmail email =
     (case splitOn (CHR ''@'') email of
        local # domain # rest \<Rightarrow>
          if local = [] \<or> domain = [] then ''***''
          else take 2 local @ replicate (max 1 (length local - 2)) (CHR ''*'') @ ''@'' @ domain
      | other \<Rightarrow> ''***'')"

fun isRecord :: "json \<Rightarrow> bool" where
  "isRecord (JObj entries) = True"
| "isRecord v = False"

section \<open>What sanitised text looks like\<close>

definition cleanText :: "nat list \<Rightarrow> bool" where
  "cleanText cs \<longleftrightarrow>
     (\<forall>c\<in>set cs. \<not> isInvisible c \<and> (isSpace c \<longrightarrow> c = 32)) \<and>
     successively (\<lambda>a b. \<not> (isSpace a \<and> isSpace b)) cs \<and>
     (cs \<noteq> [] \<longrightarrow> \<not> isSpace (hd cs) \<and> \<not> isSpace (last cs))"

lemma collapseSpace_spaces: "c \<in> set (collapseSpace cs) \<Longrightarrow> isSpace c \<Longrightarrow> c = 32"
  by (induction cs rule: collapseSpace.induct) (auto split: if_splits)

lemma set_collapseSpace: "set (collapseSpace cs) \<subseteq> set cs \<union> {32}"
  by (induction cs rule: collapseSpace.induct)
     (auto split: if_splits dest: set_dropWhileD)

lemma collapseSpace_hd:
  "cs \<noteq> [] \<Longrightarrow> \<not> isSpace (hd cs) \<Longrightarrow> collapseSpace cs \<noteq> [] \<and> \<not> isSpace (hd (collapseSpace cs))"
  by (cases cs) auto

lemma collapseSpace_successively:
  "successively (\<lambda>a b. \<not> (isSpace a \<and> isSpace b)) (collapseSpace cs)"
proof (induction cs rule: collapseSpace.induct)
  case (2 c cs)
  show ?case
  proof (cases "isSpace c")
    case True
    show ?thesis
    proof (cases "dropWhile isSpace cs")
      case (Cons d ds)
      then have "\<not> isSpace d" using hd_dropWhile [of isSpace cs] by simp
      then show ?thesis using 2(1) [OF True] True Cons by (simp add: successively_Cons)
    qed (use True in \<open>simp del: dropWhile_eq_Nil_conv\<close>)
  qed (use 2(2) in \<open>auto simp: successively_Cons\<close>)
qed simp

lemma successively_dropWhile: "successively P xs \<Longrightarrow> successively P (dropWhile Q xs)"
  by (induction xs) (auto simp: successively_Cons)

lemma successively_trimSpace:
  assumes sym: "\<And>a b. P a b = P b a" and cs: "successively P cs"
  shows "successively P (trimSpace cs)"
proof -
  have flip: "(\<lambda>x y. P y x) = P" using sym by (intro ext)
  then have rev: "successively P (rev xs) = successively P xs" for xs
    unfolding successively_rev by (rule arg_cong [where f = "\<lambda>Q. successively Q xs"])
  show ?thesis
    unfolding trimSpace_def rev by (intro successively_dropWhile, subst rev) (intro successively_dropWhile cs)
qed

lemma set_trimSpace: "set (trimSpace cs) \<subseteq> set cs"
  by (auto simp: trimSpace_def dest!: set_dropWhileD)

lemma trimSpace_ends:
  "trimSpace cs \<noteq> [] \<Longrightarrow> \<not> isSpace (hd (trimSpace cs)) \<and> \<not> isSpace (last (trimSpace cs))"
proof -
  define ds where "ds = dropWhile isSpace cs"
  assume ne: "trimSpace cs \<noteq> []"
  then have "\<not> isSpace (last (trimSpace cs))"
    using hd_dropWhile [of isSpace "rev ds"]
    by (simp add: trimSpace_def ds_def [symmetric] last_rev)
  moreover have "\<not> isSpace (hd (trimSpace cs))"
  proof -
    obtain e where e: "ds = trimSpace cs @ e"
      using takeWhile_dropWhile_id [of isSpace "rev ds"]
      by (metis trimSpace_def ds_def rev_append rev_rev_ident)
    then have "ds \<noteq> []" "hd ds = hd (trimSpace cs)" using ne by auto
    then show ?thesis using hd_dropWhile [of isSpace cs] by (simp add: ds_def)
  qed
  ultimately show ?thesis by blast
qed

lemma collapseSpace_id:
  "\<forall>c\<in>set cs. isSpace c \<longrightarrow> c = 32 \<Longrightarrow> successively (\<lambda>a b. \<not> (isSpace a \<and> isSpace b)) cs \<Longrightarrow>
   collapseSpace cs = cs"
proof (induction cs rule: collapseSpace.induct)
  case (2 c cs)
  have "dropWhile isSpace cs = cs" if "isSpace c"
    using 2(4) that by (cases cs) (auto simp: successively_Cons)
  then show ?case using 2 by (auto simp: successively_Cons)
qed simp

lemma trimSpace_id:
  "cs \<noteq> [] \<longrightarrow> \<not> isSpace (hd cs) \<and> \<not> isSpace (last cs) \<Longrightarrow> trimSpace cs = cs"
proof (cases "cs = []")
  case False
  assume "cs \<noteq> [] \<longrightarrow> \<not> isSpace (hd cs) \<and> \<not> isSpace (last cs)"
  with False have "dropWhile isSpace cs = cs" "dropWhile isSpace (rev cs) = rev cs"
    by (simp_all add: dropWhile_eq_self_iff hd_rev)
  then show ?thesis by (simp add: trimSpace_def)
qed (simp add: trimSpace_def)

lemma isInvisible_space: "\<not> isInvisible 32"
  by (simp add: isInvisible_def INVISIBLE_CODE_POINT_RANGES_def)

lemma cleanText_sanitize: "cleanText (sanitizeDisplayText v)"
proof -
  have "set (sanitizeDisplayText v) \<subseteq> set (collapseSpace (stripInvisibleCharacters v))"
    by (simp add: sanitizeDisplayText_def normalizeWhitespace_def set_trimSpace)
  moreover have "\<forall>c\<in>set (collapseSpace (stripInvisibleCharacters v)). \<not> isInvisible c"
    using set_collapseSpace [of "stripInvisibleCharacters v"] isInvisible_space
    by (auto simp: stripInvisibleCharacters_def)
  ultimately show ?thesis
    using collapseSpace_spaces trimSpace_ends
      successively_trimSpace [OF _ collapseSpace_successively [of "stripInvisibleCharacters v"]]
    unfolding cleanText_def sanitizeDisplayText_def normalizeWhitespace_def by blast
qed

lemma sanitize_clean_id: "cleanText v \<Longrightarrow> sanitizeDisplayText v = v"
  by (simp add: cleanText_def sanitizeDisplayText_def normalizeWhitespace_def
      stripInvisibleCharacters_def collapseSpace_id trimSpace_id)

section \<open>Properties\<close>

text \<open>Sanitised display text holds no invisible character, its only whitespace is single interior
spaces, and text that already looks like this is left untouched; so sanitising twice changes nothing.\<close>

theorem sanitizeDisplayText_clean:
  "cleanText (sanitizeDisplayText v) \<and> (cleanText v \<longleftrightarrow> sanitizeDisplayText v = v) \<and>
   sanitizeDisplayText (sanitizeDisplayText v) = sanitizeDisplayText v"
  using cleanText_sanitize sanitize_clean_id by metis

text \<open>Raising the percentage of a rollout never removes a user from it, 100 percent includes and
0 percent excludes everybody.\<close>

theorem isInRollout_monotone:
  assumes "isInRollout flagKey userId p" and "p \<le> q"
  shows "isInRollout flagKey userId q \<and> isInRollout flagKey userId 100 \<and>
         \<not> isInRollout flagKey userId 0"
  using assms by (auto simp: isInRollout_def split: if_splits)

lemma isInRollout_monotone_witness:
  "isInRollout ''video'' ''u1'' 100 \<and> isInRollout ''video'' ''u1'' 100 \<and>
   \<not> isInRollout ''video'' ''u1'' 0"
  by (rule isInRollout_monotone [where p = 100]) (simp_all add: isInRollout_def)

text \<open>With a random number of the unit interval, the jittered reconnect delay stays between zero
and the current ceiling, and the ceiling never exceeds the maximum.\<close>

theorem backoffDelay_bounds:
  assumes "0 \<le> r" "r < 1" "0 < base" "0 < mx"
  shows "0 \<le> backoffDelay attempt base mx r \<and>
         of_int (backoffDelay attempt base mx r) < min mx (base * 2 ^ attempt) \<and>
         of_int (backoffDelay attempt base mx r) < mx"
proof -
  define c where "c = min mx (base * 2 ^ attempt)"
  have c: "0 < c" "c \<le> mx" using assms by (simp_all add: c_def)
  have "r * c < c" using c assms by (simp add: mult_less_cancel_right2)
  moreover have "0 \<le> r * c" using c assms by simp
  moreover have "of_int \<lfloor>r * c\<rfloor> \<le> r * c" by (rule of_int_floor_le)
  ultimately have "of_int \<lfloor>r * c\<rfloor> < c" "of_int \<lfloor>r * c\<rfloor> < mx" "0 \<le> \<lfloor>r * c\<rfloor>"
    using c by linarith+
  then show ?thesis by (simp add: backoffDelay_def Let_def c_def [symmetric])
qed

lemma backoffDelay_bounds_witness:
  "0 \<le> backoffDelay 3 500 15000 (1/2) \<and>
   of_int (backoffDelay 3 500 15000 (1/2)) < min 15000 (500 * 2 ^ 3 :: rat) \<and>
   of_int (backoffDelay 3 500 15000 (1/2)) < (15000 :: rat)"
  by (rule backoffDelay_bounds) simp_all

end
