(* ===== verification/Redis_Keys.thy ===== *)
theory Redis_Keys
  imports Prelude
begin

text \<open>The registry of Redis keys of \<^verbatim>\<open>packages/shared/src/redis-keys.ts\<close>. A key is a constructor of
\<open>RedisKey\<close>; \<open>createRedisKeys\<close> renders it to the string the program uses. Rendering is injective, which
is what allows the stores of the other theories to be maps per kind of key.\<close>

datatype RedisKey =
    K_presence user_id | K_onlineSet | K_userSockets user_id
  | K_queue string | K_queueEntry user_id | K_activeShards
  | K_match match_id | K_userMatch user_id | K_matchLock user_id | K_recentPartners user_id
  | K_blockCache user_id | K_rateLimit string string | K_skipCooldown user_id
  | K_oneTimeToken string string | K_refreshFamily string | K_revokedSession string
  | K_systemSettings | K_featureFlags | K_userChannel user_id | K_lock string
  | K_statCounter string string

text \<open>\<^verbatim>\<open>[...].join(':')\<close>.\<close>

fun joinColon :: "string list \<Rightarrow> string" where
  "joinColon [] = []"
| "joinColon [p] = p"
| "joinColon (p # ps) = p @ '':'' @ joinColon ps"

fun keyParts :: "RedisKey \<Rightarrow> string list" where
  "keyParts (K_presence userId) = [''presence'', userId]"
| "keyParts K_onlineSet = [''online'']"
| "keyParts (K_userSockets userId) = [''sockets'', userId]"
| "keyParts (K_queue shard) = [''queue'', shard]"
| "keyParts (K_queueEntry userId) = [''queue-entry'', userId]"
| "keyParts K_activeShards = [''queue-shards'']"
| "keyParts (K_match matchId) = [''match'', matchId]"
| "keyParts (K_userMatch userId) = [''user-match'', userId]"
| "keyParts (K_matchLock userId) = [''match-lock'', userId]"
| "keyParts (K_recentPartners userId) = [''recent-partners'', userId]"
| "keyParts (K_blockCache userId) = [''blocks'', userId]"
| "keyParts (K_rateLimit bucket identity) = [''rate-limit'', bucket, identity]"
| "keyParts (K_skipCooldown userId) = [''skip-cooldown'', userId]"
| "keyParts (K_oneTimeToken kind tokenHash) = [''ott'', kind, tokenHash]"
| "keyParts (K_refreshFamily sessionId) = [''refresh-family'', sessionId]"
| "keyParts (K_revokedSession sessionId) = [''revoked-session'', sessionId]"
| "keyParts K_systemSettings = [''settings'']"
| "keyParts K_featureFlags = [''flags'']"
| "keyParts (K_userChannel userId) = [''channel'', ''user'', userId]"
| "keyParts (K_lock name) = [''lock'', name]"
| "keyParts (K_statCounter name bucket) = [''stat'', name, bucket]"

definition createRedisKeys :: "string \<Rightarrow> RedisKey \<Rightarrow> string" where
  "createRedisKeys pfx key = joinColon (pfx # keyParts key)"

definition EPHEMERAL_KEY_PREFIXES :: "string list" where
  "EPHEMERAL_KEY_PREFIXES =
     [''presence'', ''online'', ''sockets'', ''queue'', ''queue-entry'', ''queue-shards'', ''match'',
      ''user-match'', ''match-lock'', ''recent-partners'', ''skip-cooldown'', ''rate-limit'',
      ''channel'', ''lock'']"

text \<open>Times to live, in seconds.\<close>

record RedisTtl =
  ttl_presence :: int
  ttl_queueEntry :: int
  ttl_match :: int
  ttl_userMatch :: int
  ttl_matchLock :: int
  ttl_recentPartner :: int
  ttl_blockCache :: int
  ttl_settings :: int
  ttl_revokedSession :: int

definition REDIS_TTL :: RedisTtl where
  "REDIS_TTL =
     \<lparr>ttl_presence = 90, ttl_queueEntry = 600, ttl_match = 3600, ttl_userMatch = 3600,
      ttl_matchLock = 10, ttl_recentPartner = 1800, ttl_blockCache = 300, ttl_settings = 60,
      ttl_revokedSession = 3600\<rparr>"

section \<open>Rendering is injective\<close>

lemma joinColon_Cons: "ps \<noteq> [] \<Longrightarrow> joinColon (p # ps) = p @ '':'' @ joinColon ps"
  by (cases ps) simp_all

lemma keyParts_nonempty [simp]: "keyParts k \<noteq> []"
  by (cases k) simp_all

text \<open>A segment without a colon can be read back from the front of a joined text.\<close>

lemma append_colon_inject:
  "CHR '':'' \<notin> set p \<Longrightarrow> CHR '':'' \<notin> set q \<Longrightarrow> p @ CHR '':'' # r = q @ CHR '':'' # s \<longleftrightarrow> p = q \<and> r = s"
proof (induction p arbitrary: q)
  case (Cons c p)
  then show ?case by (cases q) auto
qed (auto simp: neq_Nil_conv Cons_eq_append_conv)

lemma colon_free_neq: "CHR '':'' \<notin> set p \<Longrightarrow> p \<noteq> q @ CHR '':'' # s"
  by auto

fun plainParts :: "RedisKey \<Rightarrow> bool" where
  "plainParts (K_rateLimit bucket identity) = (CHR '':'' \<notin> set bucket)"
| "plainParts (K_oneTimeToken kind tokenHash) = (CHR '':'' \<notin> set kind)"
| "plainParts (K_statCounter name bucket) = (CHR '':'' \<notin> set name)"
| "plainParts k = True"

text \<open>Two keys of the registry never share a Redis key: for a fixed prefix the rendered strings of
different keys differ, as long as the first argument of the three two-argument builders has no colon
(the second may have any, as an IPv6 identity of a rate limit does).\<close>

theorem createRedisKeys_injective:
  assumes "plainParts k" and "plainParts k'"
  shows "createRedisKeys pfx k = createRedisKeys pfx k' \<longleftrightarrow> k = k'"
proof
  assume "createRedisKeys pfx k = createRedisKeys pfx k'"
  then have "joinColon (keyParts k) = joinColon (keyParts k')"
    by (simp add: createRedisKeys_def joinColon_Cons)
  then show "k = k'"
    using assms by (cases k; cases k') (auto simp: append_colon_inject)
qed simp

lemma createRedisKeys_injective_witness:
  "createRedisKeys ''t2w'' (K_rateLimit ''login'' ''2001:db8::1'') \<noteq>
   createRedisKeys ''t2w'' (K_oneTimeToken ''login'' ''2001:db8::1'')"
  by (subst createRedisKeys_injective) simp_all

end
