(* ===== verification/Session_Machine.thy ===== *)
theory Session_Machine
  imports Enums
begin

text \<open>The conversation state machine of \<^verbatim>\<open>packages/shared/src/session-machine.ts\<close>: the
transition table, the guarded move \<open>transition\<close> and the predicates the interface reads off a
state. The lemmas describe the graph the table spans: which states lead into a match, that a
match is always entered through \<open>MATCH_FOUND\<close>, and that no state is a dead end.\<close>

section \<open>The table and the guarded move\<close>

definition ALWAYS_ALLOWED :: "SessionState list" where
  "ALWAYS_ALLOWED = [SessionState_ERROR, SessionState_IDLE]"

fun TRANSITIONS :: "SessionState \<Rightarrow> SessionState list" where
  "TRANSITIONS SessionState_IDLE = [SessionState_REQUESTING_PERMISSIONS, SessionState_READY]"
| "TRANSITIONS SessionState_REQUESTING_PERMISSIONS = [SessionState_READY]"
| "TRANSITIONS SessionState_READY = [SessionState_QUEUED, SessionState_REQUESTING_PERMISSIONS]"
| "TRANSITIONS SessionState_QUEUED = [SessionState_MATCH_FOUND, SessionState_READY]"
| "TRANSITIONS SessionState_MATCH_FOUND =
     [SessionState_SIGNALING, SessionState_QUEUED, SessionState_READY]"
| "TRANSITIONS SessionState_SIGNALING =
     [SessionState_CONNECTING, SessionState_PARTNER_LEFT, SessionState_SKIPPING,
      SessionState_QUEUED, SessionState_READY]"
| "TRANSITIONS SessionState_CONNECTING =
     [SessionState_CONNECTED, SessionState_RECONNECTING, SessionState_PARTNER_LEFT,
      SessionState_SKIPPING, SessionState_QUEUED, SessionState_READY]"
| "TRANSITIONS SessionState_CONNECTED =
     [SessionState_SKIPPING, SessionState_PARTNER_LEFT, SessionState_RECONNECTING,
      SessionState_READY]"
| "TRANSITIONS SessionState_PARTNER_LEFT = [SessionState_QUEUED, SessionState_READY]"
| "TRANSITIONS SessionState_SKIPPING = [SessionState_QUEUED, SessionState_READY]"
| "TRANSITIONS SessionState_RECONNECTING =
     [SessionState_CONNECTED, SessionState_PARTNER_LEFT, SessionState_QUEUED,
      SessionState_READY]"
| "TRANSITIONS SessionState_ERROR = [SessionState_READY, SessionState_REQUESTING_PERMISSIONS]"

definition canTransition :: "SessionState \<Rightarrow> SessionState \<Rightarrow> bool" where
  "canTransition from to =
     (if from = to then True
      else if to \<in> set ALWAYS_ALLOWED then True
      else to \<in> set (TRANSITIONS from))"

datatype InvalidSessionTransitionError = InvalidSessionTransitionError SessionState SessionState

definition transition ::
    "SessionState \<Rightarrow> SessionState \<Rightarrow> InvalidSessionTransitionError + SessionState" where
  "transition from to =
     (if \<not> canTransition from to then Throw (InvalidSessionTransitionError from to) else Ok to)"

section \<open>Predicates on a state\<close>

definition IN_MATCH_STATES :: "SessionState list" where
  "IN_MATCH_STATES = [SessionState_MATCH_FOUND, SessionState_SIGNALING, SessionState_CONNECTING,
     SessionState_CONNECTED, SessionState_RECONNECTING]"

definition isInMatch :: "SessionState \<Rightarrow> bool" where
  "isInMatch s = (s \<in> set IN_MATCH_STATES)"

definition isBusy :: "SessionState \<Rightarrow> bool" where
  "isBusy s =
     (s = SessionState_REQUESTING_PERMISSIONS \<or> s = SessionState_QUEUED \<or>
      s = SessionState_MATCH_FOUND \<or> s = SessionState_SIGNALING \<or>
      s = SessionState_CONNECTING \<or> s = SessionState_RECONNECTING \<or> s = SessionState_SKIPPING)"

definition canSkip :: "SessionState \<Rightarrow> bool" where
  "canSkip s =
     (s = SessionState_CONNECTED \<or> s = SessionState_CONNECTING \<or>
      s = SessionState_SIGNALING \<or> s = SessionState_RECONNECTING)"

definition needsLocalMedia :: "SessionState \<Rightarrow> bool" where
  "needsLocalMedia s = (s \<noteq> SessionState_IDLE \<and> s \<noteq> SessionState_ERROR)"

lemmas session_simps =
  canTransition_def ALWAYS_ALLOWED_def isInMatch_def IN_MATCH_STATES_def

section \<open>The graph of the table\<close>

text \<open>Successive guarded moves: the fold of \<open>transition\<close> over the requested states, stopping at
the first refusal.\<close>

fun transitions :: "SessionState \<Rightarrow> SessionState list \<Rightarrow> InvalidSessionTransitionError + SessionState" where
  "transitions s [] = Ok s"
| "transitions s (t # ts) = andThen (transition s t) (\<lambda>s'. transitions s' ts)"

lemma transition_Ok [guard_simps]: "transition s t = Inr u \<longleftrightarrow> canTransition s t \<and> u = t"
  by (auto simp: transition_def)

lemma transition_Throw [guard_simps]:
  "transition s t = Inl e \<longleftrightarrow> \<not> canTransition s t \<and> e = InvalidSessionTransitionError s t"
  by (auto simp: transition_def)

lemma transitions_append:
  "transitions s (xs @ ys) = andThen (transitions s xs) (\<lambda>u. transitions u ys)"
proof (induction xs arbitrary: s)
  case (Cons x xs)
  then show ?case by (cases "transition s x") simp_all
qed simp

lemma enters_match_through_MATCH_FOUND:
  "canTransition s t \<Longrightarrow> \<not> isInMatch s \<Longrightarrow> isInMatch t \<Longrightarrow> t = SessionState_MATCH_FOUND"
  by (cases s; cases t) (simp_all add: session_simps)

lemma MATCH_FOUND_only_from_QUEUED:
  "canTransition s SessionState_MATCH_FOUND \<Longrightarrow>
   s = SessionState_QUEUED \<or> s = SessionState_MATCH_FOUND"
  by (cases s) (simp_all add: session_simps)

lemma path_into_match_aux:
  "transitions s ts = Inr u \<Longrightarrow> \<not> isInMatch s \<Longrightarrow> isInMatch u \<Longrightarrow>
   SessionState_MATCH_FOUND \<in> set ts"
proof (induction ts arbitrary: s)
  case (Cons t ts)
  then show ?case
    using enters_match_through_MATCH_FOUND by (cases "isInMatch t") (auto simp: guard_simps)
qed simp

text \<open>The state just before \<open>MATCH_FOUND\<close> is \<open>QUEUED\<close>: nobody is matched who did not queue.\<close>

lemma path_to_MATCH_FOUND_queued:
  "transitions s (ts @ [SessionState_MATCH_FOUND]) = Inr u \<Longrightarrow>
   transitions s ts = Inr SessionState_QUEUED \<or> transitions s ts = Inr SessionState_MATCH_FOUND"
  using MATCH_FOUND_only_from_QUEUED
  by (auto simp: transitions_append guard_simps)

text \<open>A route between any two states, by way of \<open>IDLE\<close>.\<close>

fun routeFromIdle :: "SessionState \<Rightarrow> SessionState list" where
  "routeFromIdle SessionState_IDLE = [SessionState_IDLE]"
| "routeFromIdle SessionState_REQUESTING_PERMISSIONS = [SessionState_REQUESTING_PERMISSIONS]"
| "routeFromIdle SessionState_READY = [SessionState_READY]"
| "routeFromIdle SessionState_QUEUED = [SessionState_READY, SessionState_QUEUED]"
| "routeFromIdle SessionState_MATCH_FOUND =
     [SessionState_READY, SessionState_QUEUED, SessionState_MATCH_FOUND]"
| "routeFromIdle SessionState_SIGNALING =
     [SessionState_READY, SessionState_QUEUED, SessionState_MATCH_FOUND, SessionState_SIGNALING]"
| "routeFromIdle SessionState_ERROR = [SessionState_ERROR]"
| "routeFromIdle SessionState_PARTNER_LEFT =
     [SessionState_READY, SessionState_QUEUED, SessionState_MATCH_FOUND, SessionState_SIGNALING,
      SessionState_PARTNER_LEFT]"
| "routeFromIdle SessionState_SKIPPING =
     [SessionState_READY, SessionState_QUEUED, SessionState_MATCH_FOUND, SessionState_SIGNALING,
      SessionState_SKIPPING]"
| "routeFromIdle s =
     [SessionState_READY, SessionState_QUEUED, SessionState_MATCH_FOUND, SessionState_SIGNALING,
      SessionState_CONNECTING, s]"

lemma route_reaches: "transitions s (SessionState_IDLE # routeFromIdle t) = Inr t"
  by (cases t) (simp_all add: transition_def session_simps)

lemma length_routeFromIdle: "length (routeFromIdle t) \<le> 6"
  by (cases t) simp_all

text \<open>Every state of a match can be left for the lobby or, short of \<open>CONNECTED\<close>, for the queue.\<close>

lemma in_match_to_READY: "isInMatch s \<Longrightarrow> canTransition s SessionState_READY"
  by (cases s) (simp_all add: session_simps)

lemma in_match_busy: "isInMatch s \<Longrightarrow> isBusy s \<or> s = SessionState_CONNECTED"
  by (cases s) (simp_all add: session_simps isBusy_def)

lemma canSkip_in_match: "canSkip s \<Longrightarrow> isInMatch s"
  by (cases s) (simp_all add: session_simps canSkip_def)

section \<open>Properties\<close>

text \<open>Whatever moves the client asks for, a run of accepted moves that starts outside a match
and ends inside one passes through \<open>MATCH_FOUND\<close>, and the move into \<open>MATCH_FOUND\<close> is made from
\<open>QUEUED\<close>: the screens "in a call without a match" and "matched without having searched" are
unreachable.\<close>

theorem match_only_through_queue:
  assumes "transitions s ts = Inr u" and "\<not> isInMatch s" and "isInMatch u"
  shows "\<exists>before after. ts = before @ SessionState_MATCH_FOUND # after \<and>
           transitions s before = Inr SessionState_QUEUED"
proof -
  have "SessionState_MATCH_FOUND \<in> set ts"
    using path_into_match_aux assms by blast
  then obtain pre post where ts: "ts = pre @ SessionState_MATCH_FOUND # post"
    and fresh: "SessionState_MATCH_FOUND \<notin> set pre"
    by (meson split_list_first)
  have "transitions s ((pre @ [SessionState_MATCH_FOUND]) @ post) = Inr u"
    using assms(1) ts by simp
  then obtain v where "transitions s (pre @ [SessionState_MATCH_FOUND]) = Inr v"
    unfolding transitions_append [of s "pre @ [SessionState_MATCH_FOUND]"] by (auto simp: guard_simps)
  then have "transitions s pre = Inr SessionState_QUEUED \<or>
      transitions s pre = Inr SessionState_MATCH_FOUND"
    by (rule path_to_MATCH_FOUND_queued)
  moreover have "transitions s pre \<noteq> Inr SessionState_MATCH_FOUND"
    using path_into_match_aux [of s pre] assms(2) fresh by (auto simp: isInMatch_def IN_MATCH_STATES_def)
  ultimately show ?thesis using ts by blast
qed

lemma match_only_through_queue_witness:
  "\<exists>before after. [SessionState_READY, SessionState_QUEUED, SessionState_MATCH_FOUND,
        SessionState_SIGNALING] = before @ SessionState_MATCH_FOUND # after \<and>
      transitions SessionState_IDLE before = Inr SessionState_QUEUED"
  by (rule match_only_through_queue [where u = SessionState_SIGNALING])
     (simp_all add: transition_def session_simps)

text \<open>No state of the machine is a dead end and none is unreachable: from every state, at most
seven accepted moves lead to any other state.\<close>

theorem session_machine_connected:
  "\<exists>ts. length ts \<le> 7 \<and> transitions s ts = Inr t"
  using route_reaches length_routeFromIdle [of t]
  by (intro exI [of _ "SessionState_IDLE # routeFromIdle t"]) simp

text \<open>The Next button and the table disagree on one state: every state in which \<open>canSkip\<close>
enables the button accepts the move to \<open>SKIPPING\<close>, except \<open>RECONNECTING\<close>, where the move is
refused.\<close>

theorem canSkip_reconnecting_refused:
  "canSkip s \<longleftrightarrow> canTransition s SessionState_SKIPPING \<and> s \<noteq> SessionState_SKIPPING \<or>
     s = SessionState_RECONNECTING \<and> \<not> canTransition s SessionState_SKIPPING"
  by (cases s) (simp_all add: session_simps canSkip_def)

end
