(* ===== verification/Redis_Store.thy ===== *)
theory Redis_Store
  imports Prelude
begin

text \<open>The Redis data types the realtime service uses: string registers with a time to live
(\<^verbatim>\<open>SET .. EX .. NX\<close>, compare-and-delete), sorted sets and plain sets. A register maps a key to
its value and the instant at which it expires; reading takes the current instant. The locale
\<open>nx_register\<close> is the contract both the pairing locks and the occupancy claims are used under, with
the two-key acquisition and its rollback that the program performs on each of them.\<close>

section \<open>Registers with a time to live\<close>

type_synonym ('k, 'v) register = "'k \<rightharpoonup> 'v \<times> instant"

definition live :: "('k, 'v) register \<Rightarrow> instant \<Rightarrow> 'k \<Rightarrow> 'v option" where
  "live r now k =
     (case r k of None \<Rightarrow> None | Some (v, expiresAt) \<Rightarrow> if now < expiresAt then Some v else None)"

definition expiry :: "instant \<Rightarrow> int \<Rightarrow> instant" where
  "expiry now seconds = now + seconds * 1000"

definition setEx :: "instant \<Rightarrow> int \<Rightarrow> 'k \<Rightarrow> 'v \<Rightarrow> ('k, 'v) register \<Rightarrow> ('k, 'v) register" where
  "setEx now ttl k v r = r(k \<mapsto> (v, expiry now ttl))"

text \<open>\<^verbatim>\<open>SET k v EX ttl NX\<close>: whether it answered OK, and the register.\<close>

definition setNxEx ::
    "instant \<Rightarrow> int \<Rightarrow> 'k \<Rightarrow> 'v \<Rightarrow> ('k, 'v) register \<Rightarrow> bool \<times> ('k, 'v) register" where
  "setNxEx now ttl k v r =
     (case live r now k of None \<Rightarrow> (True, setEx now ttl k v r) | Some w \<Rightarrow> (False, r))"

text \<open>\<^verbatim>\<open>EXPIRE k ttl\<close>, which is a no-op on a missing key and deletes on a non-positive time.\<close>

definition expireKey :: "instant \<Rightarrow> int \<Rightarrow> 'k \<Rightarrow> ('k, 'v) register \<Rightarrow> ('k, 'v) register" where
  "expireKey now ttl k r =
     (case live r now k of None \<Rightarrow> r(k := None)
      | Some v \<Rightarrow> if ttl \<le> 0 then r(k := None) else r(k \<mapsto> (v, expiry now ttl)))"

definition delKey :: "'k \<Rightarrow> ('k, 'v) register \<Rightarrow> ('k, 'v) register" where
  "delKey k r = r(k := None)"

text \<open>The Lua script: delete only if the value is still the given one.\<close>

definition delIfEquals :: "instant \<Rightarrow> 'k \<Rightarrow> 'v \<Rightarrow> ('k, 'v) register \<Rightarrow> ('k, 'v) register" where
  "delIfEquals now k v r = (if live r now k = Some v then r(k := None) else r)"

lemma live_setEx [table_simps]:
  "0 < ttl \<Longrightarrow> live (setEx now ttl k v r) now k' = (if k' = k then Some v else live r now k')"
  by (simp add: live_def setEx_def expiry_def)

lemma live_delKey [table_simps]:
  "live (delKey k r) now k' = (if k' = k then None else live r now k')"
  by (simp add: live_def delKey_def)

lemma live_delIfEquals [table_simps]:
  "live (delIfEquals now k v r) now k' =
   (if k' = k \<and> live r now k = Some v then None else live r now k')"
  by (simp add: live_def delIfEquals_def)

lemma live_None [simp]: "live (\<lambda>k. None) now k = None"
  by (simp add: live_def)

lemma setNxEx_fst [simp]: "fst (setNxEx now ttl k v r) \<longleftrightarrow> live r now k = None"
  by (simp add: setNxEx_def split: option.split)

lemma live_setNxEx [table_simps]:
  "0 < ttl \<Longrightarrow> live (snd (setNxEx now ttl k v r)) now k' =
     (if k' = k \<and> live r now k = None then Some v else live r now k')"
  by (simp add: setNxEx_def live_setEx split: option.split)

section \<open>The contract of an exclusive register\<close>

text \<open>Take two keys one after the other; when the second is taken by somebody else, give the first one
back.\<close>

definition acquireTwo ::
    "('k \<Rightarrow> 'v \<Rightarrow> 's \<Rightarrow> bool \<times> 's) \<Rightarrow> ('k \<Rightarrow> 'v \<Rightarrow> 's \<Rightarrow> 's) \<Rightarrow> 'k \<Rightarrow> 'k \<Rightarrow> 'v \<Rightarrow> 's \<Rightarrow> bool \<times> 's" where
  "acquireTwo acquire release first second v s =
     (let (ok1, s1) = acquire first v s in
      if \<not> ok1 then (False, s1)
      else let (ok2, s2) = acquire second v s1 in
        if \<not> ok2 then (False, release first v s2) else (True, s2))"

definition releaseTwo :: "('k \<Rightarrow> 'v \<Rightarrow> 's \<Rightarrow> 's) \<Rightarrow> 'k \<Rightarrow> 'k \<Rightarrow> 'v \<Rightarrow> 's \<Rightarrow> 's" where
  "releaseTwo release first second v s = release second v (release first v s)"

locale nx_register =
  fixes holder :: "'s \<Rightarrow> 'k \<Rightarrow> 'v option"
    and acquire :: "'k \<Rightarrow> 'v \<Rightarrow> 's \<Rightarrow> bool \<times> 's"
    and release :: "'k \<Rightarrow> 'v \<Rightarrow> 's \<Rightarrow> 's"
  assumes acquire_ok: "fst (acquire k v s) \<longleftrightarrow> holder s k = None"
    and acquire_holder:
      "holder (snd (acquire k v s)) k' = (if k' = k \<and> holder s k = None then Some v else holder s k')"
    and release_holder:
      "holder (release k v s) k' = (if k' = k \<and> holder s k = Some v then None else holder s k')"
begin

text \<open>All or nothing: both keys when both were free, and otherwise nothing has changed hands.\<close>

lemma acquireTwo_ok:
  "a \<noteq> b \<Longrightarrow> fst (acquireTwo acquire release a b v s) \<longleftrightarrow> holder s a = None \<and> holder s b = None"
  by (auto simp: acquireTwo_def acquire_ok acquire_holder prod.case_eq_if)

lemma acquireTwo_same_key: "\<not> fst (acquireTwo acquire release a a v s)"
  by (auto simp: acquireTwo_def acquire_ok acquire_holder prod.case_eq_if)

lemma acquireTwo_success:
  "a \<noteq> b \<Longrightarrow> fst (acquireTwo acquire release a b v s) \<Longrightarrow>
   holder (snd (acquireTwo acquire release a b v s)) = (holder s)(a \<mapsto> v, b \<mapsto> v)"
  by (auto simp: acquireTwo_def acquire_ok acquire_holder prod.case_eq_if fun_eq_iff)

lemma acquireTwo_failure:
  "a \<noteq> b \<Longrightarrow> \<not> fst (acquireTwo acquire release a b v s) \<Longrightarrow>
   holder (snd (acquireTwo acquire release a b v s)) = holder s"
  by (auto simp: acquireTwo_def acquire_ok acquire_holder release_holder prod.case_eq_if fun_eq_iff)

lemma releaseTwo_holder:
  "holder (releaseTwo release a b v s) k =
   (if (k = a \<or> k = b) \<and> holder s k = Some v then None else holder s k)"
  by (auto simp: releaseTwo_def release_holder)

text \<open>Releasing after a successful acquisition of both gives the original owners' view back.\<close>

lemma release_after_acquire:
  "a \<noteq> b \<Longrightarrow> fst (acquireTwo acquire release a b v s) \<Longrightarrow>
   holder (releaseTwo release a b v (snd (acquireTwo acquire release a b v s))) = holder s"
  by (auto simp: releaseTwo_holder acquireTwo_success acquireTwo_ok fun_eq_iff)

end

section \<open>Sorted sets\<close>

text \<open>Members with their scores, ordered by score and then by member, as \<^verbatim>\<open>ZRANGE\<close> returns them.\<close>

type_synonym zset = "(string \<times> int) list"

definition zLess :: "string \<times> int \<Rightarrow> string \<times> int \<Rightarrow> bool" where
  "zLess x y = (snd x < snd y \<or> snd x = snd y \<and> fst x < fst y)"

fun zInsert :: "string \<times> int \<Rightarrow> zset \<Rightarrow> zset" where
  "zInsert x [] = [x]"
| "zInsert x (y # ys) = (if zLess x y then x # y # ys else y # zInsert x ys)"

definition zrem :: "string \<Rightarrow> zset \<Rightarrow> zset" where
  "zrem m z = filter (\<lambda>(n, s). n \<noteq> m) z"

definition zadd :: "string \<Rightarrow> int \<Rightarrow> zset \<Rightarrow> zset" where
  "zadd m s z = zInsert (m, s) (zrem m z)"

definition zrange :: "nat \<Rightarrow> zset \<Rightarrow> string list" where
  "zrange n z = map fst (take n z)"

definition zremrangebyscore :: "int \<Rightarrow> int \<Rightarrow> zset \<Rightarrow> zset" where
  "zremrangebyscore lo hi z = filter (\<lambda>(m, s). \<not> (lo \<le> s \<and> s \<le> hi)) z"

definition zmembers :: "zset \<Rightarrow> string set" where
  "zmembers z = fst ` set z"

fun zrankFrom :: "nat \<Rightarrow> string \<Rightarrow> zset \<Rightarrow> nat option" where
  "zrankFrom i m [] = None"
| "zrankFrom i m (x # xs) = (if fst x = m then Some i else zrankFrom (i + 1) m xs)"

definition zrank :: "string \<Rightarrow> zset \<Rightarrow> nat option" where
  "zrank m z = zrankFrom 0 m z"

text \<open>A well-formed sorted set: ordered, and no member twice.\<close>

definition zsorted :: "zset \<Rightarrow> bool" where
  "zsorted z = (sorted_wrt zLess z \<and> distinct (map fst z))"

lemma set_zInsert [simp]: "set (zInsert x z) = insert x (set z)"
  by (induction z) auto

lemma zLess_total: "fst x \<noteq> fst y \<Longrightarrow> zLess x y \<or> zLess y x"
  by (auto simp: zLess_def)

lemma zLess_trans: "zLess x y \<Longrightarrow> zLess y z \<Longrightarrow> zLess x z"
  by (auto simp: zLess_def)

lemma zInsert_sorted:
  "sorted_wrt zLess z \<Longrightarrow> fst x \<notin> fst ` set z \<Longrightarrow> sorted_wrt zLess (zInsert x z)"
proof (induction z)
  case (Cons y ys)
  then show ?case using zLess_total [of x y] zLess_trans by (auto simp: image_iff)
qed simp

lemma zInsert_distinct:
  "distinct (map fst z) \<Longrightarrow> fst x \<notin> fst ` set z \<Longrightarrow> distinct (map fst (zInsert x z))"
  by (induction z) auto

lemma zsorted_zrem: "zsorted z \<Longrightarrow> zsorted (zrem m z)"
  by (simp add: zsorted_def zrem_def sorted_wrt_filter distinct_map_filter)

lemma zmembers_zrem [simp]: "zmembers (zrem m z) = zmembers z - {m}"
  by (auto simp: zmembers_def zrem_def)

lemma zsorted_zadd: "zsorted z \<Longrightarrow> zsorted (zadd m s z)"
proof -
  assume "zsorted z"
  then have "zsorted (zrem m z)" "m \<notin> fst ` set (zrem m z)"
    using zmembers_zrem [of m z] by (auto simp: zsorted_zrem zmembers_def)
  then show ?thesis
    by (simp add: zsorted_def zadd_def zInsert_sorted zInsert_distinct)
qed

lemma zmembers_zadd [simp]: "zmembers (zadd m s z) = insert m (zmembers z)"
  by (auto simp: zadd_def zmembers_def zrem_def)

lemma zsorted_zremrangebyscore: "zsorted z \<Longrightarrow> zsorted (zremrangebyscore lo hi z)"
  by (simp add: zsorted_def zremrangebyscore_def sorted_wrt_filter distinct_map_filter)

lemma zsorted_Nil [simp]: "zsorted []"
  by (simp add: zsorted_def)

lemma set_zrange: "set (zrange n z) \<subseteq> zmembers z"
  by (auto simp: zrange_def zmembers_def dest: in_set_takeD)

lemma zrange_all: "length z \<le> n \<Longrightarrow> set (zrange n z) = zmembers z"
  by (simp add: zrange_def zmembers_def)

text \<open>What a bounded range leaves out scored no lower than everything it returns.\<close>

lemma zrange_oldest:
  assumes "zsorted z" "(m, s) \<in> set z" "m \<notin> set (zrange n z)" "(m', s') \<in> set z" "m' \<in> set (zrange n z)"
  shows "s' \<le> s"
proof -
  have "(m, s) \<in> set (drop n z)"
    using assms(2,3) append_take_drop_id [of n z] unfolding zrange_def
    by (metis UnE fst_conv image_eqI list.set_map set_append)
  moreover have "(m', s') \<in> set (take n z)"
  proof -
    obtain t where t: "(m', t) \<in> set (take n z)" using assms(5) by (auto simp: zrange_def)
    then have "(m', t) \<in> set z" by (rule in_set_takeD)
    then have "t = s'" using assms(1,4) by (metis eq_key_imp_eq_value zsorted_def)
    with t show ?thesis by simp
  qed
  moreover have "sorted_wrt zLess (take n z @ drop n z)" using assms(1) by (simp add: zsorted_def)
  ultimately have "zLess (m', s') (m, s)" unfolding sorted_wrt_append by blast
  then show ?thesis by (auto simp: zLess_def)
qed

section \<open>Plain sets\<close>

definition sadd :: "string list \<Rightarrow> string list \<Rightarrow> string list" where
  "sadd ms s = fold List.insert ms s"

definition srem :: "string \<Rightarrow> string list \<Rightarrow> string list" where
  "srem m s = removeAll m s"

lemma set_sadd [simp]: "set (sadd ms s) = set ms \<union> set s"
  unfolding sadd_def by (induction ms arbitrary: s) auto

lemma set_srem [simp]: "set (srem m s) = set s - {m}"
  by (simp add: srem_def)

end
