(* ===== verification/Matchmaking.thy ===== *)
theory Matchmaking
  imports Session_Machine Complex_Main "HOL-Library.Multiset"
begin

text \<open>The pairing policy of \<^verbatim>\<open>packages/shared/src/matchmaking.ts\<close>: relaxation stages, hard rules,
soft preferences, the score of a pair, the choice of a partner from a pool, and the queue shards.
A score keeps the fractional seconds of the waiting time as an exact rational. The choice is a loop
that replaces its best candidate only by a strictly better one; the locale \<open>best_fold\<close> holds what
such a loop promises for any strict weak order, and is interpreted on the order of \<open>isBetter\<close>.\<close>

section \<open>Data\<close>

datatype RelaxableConstraint = Interests | AgeBracketC | Language | Country | GenderC

record RelaxationStage =
  afterSeconds :: int
  dropC :: "RelaxableConstraint list"
  stageLabel :: string

record QueueCandidate =
  qc_userId :: user_id
  qc_queuedAt :: instant
  qc_gender :: "Gender option"
  qc_country :: "string option"
  qc_languages :: "string list"
  qc_ageBracket :: "AgeBracket option"
  qc_interestIds :: "string list"
  qc_preferredGender :: GenderPreference
  qc_preferredCountries :: "string list"
  qc_preferredLanguages :: "string list"
  qc_preferredAgeBrackets :: "AgeBracket list"
  qc_excludedUserIds :: "user_id list"
  qc_recentPartnerIds :: "user_id list"
  qc_priority :: int

definition DEFAULT_RELAXATION_STAGES :: "RelaxationStage list" where
  "DEFAULT_RELAXATION_STAGES =
     [\<lparr>afterSeconds = 0, dropC = [], stageLabel = ''strict''\<rparr>,
      \<lparr>afterSeconds = 5, dropC = [Interests], stageLabel = ''relaxed-interests''\<rparr>,
      \<lparr>afterSeconds = 15, dropC = [Interests, AgeBracketC, Language],
        stageLabel = ''relaxed-secondary''\<rparr>,
      \<lparr>afterSeconds = 30, dropC = [Interests, AgeBracketC, Language, Country],
        stageLabel = ''relaxed-location''\<rparr>,
      \<lparr>afterSeconds = 60, dropC = [Interests, AgeBracketC, Language, Country, GenderC],
        stageLabel = ''any-available''\<rparr>]"

section \<open>Relaxation stages\<close>

text \<open>The loop over the stages, \<open>i\<close> the position reached and \<open>index\<close> the result so far.\<close>

fun stageLoop :: "rat \<Rightarrow> RelaxationStage list \<Rightarrow> nat \<Rightarrow> nat \<Rightarrow> nat" where
  "stageLoop waited [] i index = index"
| "stageLoop waited (s # ss) i index =
     stageLoop waited ss (i + 1) (if waited \<ge> of_int (afterSeconds s) then i else index)"

definition waitedSeconds :: "instant \<Rightarrow> instant \<Rightarrow> rat" where
  "waitedSeconds queued now = max 0 (of_int (now - queued) / 1000)"

definition relaxationStageFor :: "QueueCandidate \<Rightarrow> instant \<Rightarrow> RelaxationStage list \<Rightarrow> nat" where
  "relaxationStageFor c now stages = stageLoop (waitedSeconds (qc_queuedAt c) now) stages 0 0"

definition ALL_CONSTRAINTS :: "RelaxableConstraint list" where
  "ALL_CONSTRAINTS = [Interests, AgeBracketC, Language, Country, GenderC]"

definition activeConstraints :: "nat \<Rightarrow> RelaxationStage list \<Rightarrow> RelaxableConstraint list" where
  "activeConstraints stageIndex stages =
     (let dropped = (if stageIndex < length stages then dropC (stages ! stageIndex) else [])
      in filter (\<lambda>c. c \<notin> set dropped) ALL_CONSTRAINTS)"

section \<open>Hard rules\<close>

datatype HardRuleViolation =
  HardRuleViolation_SELF | HardRuleViolation_BLOCKED | HardRuleViolation_OCCUPIED

definition checkHardRules ::
    "QueueCandidate \<Rightarrow> QueueCandidate \<Rightarrow> user_id list \<Rightarrow> HardRuleViolation option" where
  "checkHardRules seeker candidate occupied =
     (if qc_userId seeker = qc_userId candidate then Some HardRuleViolation_SELF
      else if qc_userId candidate \<in> set (qc_excludedUserIds seeker) \<or>
              qc_userId seeker \<in> set (qc_excludedUserIds candidate)
        then Some HardRuleViolation_BLOCKED
      else if qc_userId candidate \<in> set occupied \<or> qc_userId seeker \<in> set occupied
        then Some HardRuleViolation_OCCUPIED
      else None)"

section \<open>Soft rules\<close>

text \<open>\<^verbatim>\<open>preference === actual\<close> compares the two string values.\<close>

fun sameGenderText :: "GenderPreference \<Rightarrow> Gender \<Rightarrow> bool" where
  "sameGenderText GenderPreference_MALE g = (g = Gender_MALE)"
| "sameGenderText GenderPreference_FEMALE g = (g = Gender_FEMALE)"
| "sameGenderText GenderPreference_ANY g = False"

definition genderSatisfied :: "GenderPreference \<Rightarrow> Gender option \<Rightarrow> bool" where
  "genderSatisfied preference actual =
     (if preference = GenderPreference_ANY then True
      else case actual of None \<Rightarrow> False | Some g \<Rightarrow> sameGenderText preference g)"

text \<open>\<^verbatim>\<open>!country\<close>: the empty code counts as missing too.\<close>

definition missingText :: "string option \<Rightarrow> bool" where
  "missingText c = (c = None \<or> c = Some [])"

definition satisfiesPreferences ::
    "QueueCandidate \<Rightarrow> QueueCandidate \<Rightarrow> RelaxableConstraint list \<Rightarrow> bool" where
  "satisfiesPreferences seeker candidate active =
     (if GenderC \<in> set active \<and> \<not> genderSatisfied (qc_preferredGender seeker) (qc_gender candidate)
        then False
      else if Country \<in> set active \<and> qc_preferredCountries seeker \<noteq> [] \<and>
         (missingText (qc_country candidate) \<or>
          the (qc_country candidate) \<notin> set (qc_preferredCountries seeker))
        then False
      else if Language \<in> set active \<and> qc_preferredLanguages seeker \<noteq> [] \<and>
         \<not> list_ex (\<lambda>l. l \<in> set (qc_preferredLanguages seeker)) (qc_languages candidate)
        then False
      else if AgeBracketC \<in> set active \<and> qc_preferredAgeBrackets seeker \<noteq> [] \<and>
         (qc_ageBracket candidate = None \<or>
          the (qc_ageBracket candidate) \<notin> set (qc_preferredAgeBrackets seeker))
        then False
      else True)"

section \<open>Scoring\<close>

record ScoreBreakdown =
  sc_total :: rat
  sc_sharedInterests :: int
  sc_sharedLanguages :: int
  sc_countryPreference :: int
  sc_waitTime :: rat
  sc_priority :: int
  sc_recentPartnerPenalty :: int

record ScoreWeights =
  perSharedInterest :: int
  maxInterestBonus :: int
  perSharedLanguage :: int
  maxLanguageBonus :: int
  mutualCountryPreference :: int
  oneSidedCountryPreference :: int
  perWaitSecond :: rat
  maxWaitBonus :: rat
  perPriorityLevel :: int
  recentPartnerPenaltyWeight :: int

definition SCORE_WEIGHTS :: ScoreWeights where
  "SCORE_WEIGHTS =
     \<lparr>perSharedInterest = 12, maxInterestBonus = 48, perSharedLanguage = 8, maxLanguageBonus = 16,
      mutualCountryPreference = 15, oneSidedCountryPreference = 7, perWaitSecond = 3 / 2,
      maxWaitBonus = 60, perPriorityLevel = 10, recentPartnerPenaltyWeight = - 500\<rparr>"

definition sharedItems :: "string list \<Rightarrow> string list \<Rightarrow> string list" where
  "sharedItems xs ys = filter (\<lambda>i. i \<in> set ys) xs"

definition wantsCountry :: "string list \<Rightarrow> string option \<Rightarrow> bool" where
  "wantsCountry preferred country =
     (preferred \<noteq> [] \<and> (case country of None \<Rightarrow> False | Some c \<Rightarrow> c \<in> set preferred))"

definition isRecentPartner :: "QueueCandidate \<Rightarrow> QueueCandidate \<Rightarrow> bool" where
  "isRecentPartner seeker candidate =
     (qc_userId candidate \<in> set (qc_recentPartnerIds seeker) \<or>
      qc_userId seeker \<in> set (qc_recentPartnerIds candidate))"

definition scorePair :: "QueueCandidate \<Rightarrow> QueueCandidate \<Rightarrow> instant \<Rightarrow> ScoreBreakdown" where
  "scorePair seeker candidate now =
     (let w = SCORE_WEIGHTS;
          sharedInterests =
            min (int (length (sharedItems (qc_interestIds seeker) (qc_interestIds candidate)))
                 * perSharedInterest w) (maxInterestBonus w);
          sharedLanguages =
            min (int (length (sharedItems (qc_languages seeker) (qc_languages candidate)))
                 * perSharedLanguage w) (maxLanguageBonus w);
          seekerWants = wantsCountry (qc_preferredCountries seeker) (qc_country candidate);
          candidateWants = wantsCountry (qc_preferredCountries candidate) (qc_country seeker);
          countryPreference =
            (if seekerWants \<and> candidateWants then mutualCountryPreference w
             else if seekerWants \<or> candidateWants then oneSidedCountryPreference w else 0);
          oldestQueuedAt = min (qc_queuedAt seeker) (qc_queuedAt candidate);
          waitTime = min (of_int (now - oldestQueuedAt) / 1000 * perWaitSecond w) (maxWaitBonus w);
          priority = qc_priority candidate * perPriorityLevel w;
          penalty = (if isRecentPartner seeker candidate then recentPartnerPenaltyWeight w else 0)
      in \<lparr>sc_total = of_int sharedInterests + of_int sharedLanguages + of_int countryPreference
            + waitTime + of_int priority + of_int penalty,
          sc_sharedInterests = sharedInterests, sc_sharedLanguages = sharedLanguages,
          sc_countryPreference = countryPreference, sc_waitTime = waitTime,
          sc_priority = priority, sc_recentPartnerPenalty = penalty\<rparr>)"

section \<open>Selection\<close>

record MatchSelection =
  ms_candidate :: QueueCandidate
  ms_score :: ScoreBreakdown
  ms_sharedInterestIds :: "string list"
  ms_seekerStage :: nat
  ms_candidateStage :: nat

definition isBetter :: "ScoreBreakdown \<Rightarrow> QueueCandidate \<Rightarrow> MatchSelection \<Rightarrow> bool" where
  "isBetter score candidate current =
     (if sc_total score \<noteq> sc_total (ms_score current)
        then sc_total score > sc_total (ms_score current)
      else if qc_queuedAt candidate \<noteq> qc_queuedAt (ms_candidate current)
        then qc_queuedAt candidate < qc_queuedAt (ms_candidate current)
      else qc_userId candidate < qc_userId (ms_candidate current))"

definition mkSelection ::
    "QueueCandidate \<Rightarrow> instant \<Rightarrow> RelaxationStage list \<Rightarrow> QueueCandidate \<Rightarrow> MatchSelection" where
  "mkSelection seeker now stages candidate =
     \<lparr>ms_candidate = candidate, ms_score = scorePair seeker candidate now,
      ms_sharedInterestIds = sharedItems (qc_interestIds seeker) (qc_interestIds candidate),
      ms_seekerStage = relaxationStageFor seeker now stages,
      ms_candidateStage = relaxationStageFor candidate now stages\<rparr>"

text \<open>One round of the loop: the three \<^verbatim>\<open>continue\<close> guards, then the comparison.\<close>

definition selectStep ::
    "QueueCandidate \<Rightarrow> instant \<Rightarrow> RelaxationStage list \<Rightarrow> user_id list \<Rightarrow>
     MatchSelection option \<Rightarrow> QueueCandidate \<Rightarrow> MatchSelection option" where
  "selectStep seeker now stages occupied best candidate =
     (if checkHardRules seeker candidate occupied \<noteq> None then best
      else if \<not> satisfiesPreferences seeker candidate
                 (activeConstraints (relaxationStageFor seeker now stages) stages) then best
      else if \<not> satisfiesPreferences candidate seeker
                 (activeConstraints (relaxationStageFor candidate now stages) stages) then best
      else let score = scorePair seeker candidate now in
        (case best of
           None \<Rightarrow> Some (mkSelection seeker now stages candidate)
         | Some current \<Rightarrow>
             if isBetter score candidate current then Some (mkSelection seeker now stages candidate)
             else best))"

definition selectBestMatch ::
    "QueueCandidate \<Rightarrow> QueueCandidate list \<Rightarrow> instant \<Rightarrow> RelaxationStage list \<Rightarrow> user_id list \<Rightarrow>
     MatchSelection option" where
  "selectBestMatch seeker pool now stages occupied =
     foldl (selectStep seeker now stages occupied) None pool"

section \<open>Shards\<close>

definition GLOBAL_SHARD :: string where
  "GLOBAL_SHARD = ''global''"

definition toUpperChar :: "char \<Rightarrow> char" where
  "toUpperChar c =
     (if 97 \<le> (of_char c :: nat) \<and> (of_char c :: nat) \<le> 122 then char_of ((of_char c :: nat) - 32) else c)"

definition REGION_BY_COUNTRY :: "(string \<times> string) list" where
  "REGION_BY_COUNTRY =
     [(''PT'', ''eu''), (''ES'', ''eu''), (''FR'', ''eu''), (''DE'', ''eu''), (''IT'', ''eu''),
      (''GB'', ''eu''), (''IE'', ''eu''), (''NL'', ''eu''), (''BE'', ''eu''), (''LU'', ''eu''),
      (''AT'', ''eu''), (''CH'', ''eu''), (''PL'', ''eu''), (''CZ'', ''eu''), (''SK'', ''eu''),
      (''HU'', ''eu''), (''RO'', ''eu''), (''BG'', ''eu''), (''GR'', ''eu''), (''HR'', ''eu''),
      (''SI'', ''eu''), (''RS'', ''eu''), (''SE'', ''eu''), (''NO'', ''eu''), (''DK'', ''eu''),
      (''FI'', ''eu''), (''IS'', ''eu''), (''EE'', ''eu''), (''LV'', ''eu''), (''LT'', ''eu''),
      (''UA'', ''eu''), (''TR'', ''eu''), (''US'', ''na''), (''CA'', ''na''), (''MX'', ''na''),
      (''BR'', ''sa''), (''AR'', ''sa''), (''CL'', ''sa''), (''CO'', ''sa''), (''PE'', ''sa''),
      (''UY'', ''sa''), (''PY'', ''sa''), (''BO'', ''sa''), (''EC'', ''sa''), (''VE'', ''sa''),
      (''JP'', ''as''), (''KR'', ''as''), (''CN'', ''as''), (''TW'', ''as''), (''HK'', ''as''),
      (''SG'', ''as''), (''MY'', ''as''), (''TH'', ''as''), (''VN'', ''as''), (''PH'', ''as''),
      (''ID'', ''as''), (''IN'', ''as''), (''PK'', ''as''), (''BD'', ''as''), (''AE'', ''as''),
      (''SA'', ''as''), (''IL'', ''as''), (''ZA'', ''af''), (''NG'', ''af''), (''KE'', ''af''),
      (''EG'', ''af''), (''MA'', ''af''), (''GH'', ''af''), (''TZ'', ''af''), (''ET'', ''af''),
      (''AO'', ''af''), (''MZ'', ''af''), (''CV'', ''af''), (''AU'', ''oc''), (''NZ'', ''oc''),
      (''FJ'', ''oc'')]"

definition shardFor :: "string option \<Rightarrow> string" where
  "shardFor country =
     (if missingText country then GLOBAL_SHARD
      else case map_of REGION_BY_COUNTRY (map toUpperChar (the country)) of
             None \<Rightarrow> GLOBAL_SHARD | Some r \<Rightarrow> r)"

definition shardsToScan :: "QueueCandidate \<Rightarrow> nat \<Rightarrow> RelaxationStage list \<Rightarrow> string list" where
  "shardsToScan seeker stageIndex stages =
     (let active = activeConstraints stageIndex stages;
          base = [GLOBAL_SHARD, shardFor (qc_country seeker)];
          wanted = map (\<lambda>c. shardFor (Some c)) (qc_preferredCountries seeker);
          widened = (if Country \<notin> set active then dedup (map snd REGION_BY_COUNTRY) else [])
      in dedup (base @ wanted @ widened))"


section \<open>Loops that keep the best\<close>

text \<open>\<open>bestOf\<close> is the shape of the selection loop: walk the list, skip what is not viable, replace
the best so far only by something strictly better.\<close>

definition pickBest :: "('a \<Rightarrow> bool) \<Rightarrow> ('a \<Rightarrow> 'a \<Rightarrow> bool) \<Rightarrow> 'a option \<Rightarrow> 'a \<Rightarrow> 'a option" where
  "pickBest viable better best x =
     (if \<not> viable x then best
      else case best of None \<Rightarrow> Some x | Some y \<Rightarrow> if better x y then Some x else best)"

definition bestOf :: "('a \<Rightarrow> bool) \<Rightarrow> ('a \<Rightarrow> 'a \<Rightarrow> bool) \<Rightarrow> 'a list \<Rightarrow> 'a option" where
  "bestOf viable better xs = foldl (pickBest viable better) None xs"

lemma bestOf_snoc: "bestOf V B (xs @ [x]) = pickBest V B (bestOf V B xs) x"
  by (simp add: bestOf_def)

locale best_fold =
  fixes viable :: "'a \<Rightarrow> bool" and better :: "'a \<Rightarrow> 'a \<Rightarrow> bool"
  assumes better_asym: "better x y \<Longrightarrow> \<not> better y x"
    and better_cotrans: "better x z \<Longrightarrow> better x y \<or> better y z"
begin

lemma better_irrefl: "\<not> better x x"
  using better_asym by blast

lemma bestOf_None_iff: "bestOf viable better xs = None \<longleftrightarrow> (\<forall>x\<in>set xs. \<not> viable x)"
  by (induction xs rule: rev_induct)
     (auto simp: bestOf_snoc pickBest_def bestOf_def split: option.splits)

lemma bestOf_Some:
  "bestOf viable better xs = Some x \<Longrightarrow>
   x \<in> set xs \<and> viable x \<and> (\<forall>y\<in>set xs. viable y \<longrightarrow> \<not> better y x)"
proof (induction xs arbitrary: x rule: rev_induct)
  case (snoc a xs)
  show ?case
  proof (cases "bestOf viable better xs")
    case None
    then show ?thesis
      using snoc.prems bestOf_None_iff [of xs] better_irrefl
      by (auto simp: bestOf_snoc pickBest_def split: if_splits)
  next
    case (Some b)
    note b = snoc.IH [OF Some]
    have "\<not> better y a" if "better a b" "y \<in> set xs" "viable y" for y
      using b that better_asym better_cotrans by blast
    then show ?thesis
      using snoc.prems Some b better_irrefl
      by (auto simp: bestOf_snoc pickBest_def split: if_splits)
  qed
qed (simp add: bestOf_def)

text \<open>Where the order decides between any two viable elements, the result is the one element that
beats all others, whatever the order of the list.\<close>

lemma bestOf_unique:
  assumes "\<And>x y. x \<in> set xs \<Longrightarrow> y \<in> set xs \<Longrightarrow> viable x \<Longrightarrow> viable y \<Longrightarrow> x \<noteq> y \<Longrightarrow>
             better x y \<or> better y x"
  shows "bestOf viable better xs = Some x \<longleftrightarrow>
         x \<in> set xs \<and> viable x \<and> (\<forall>y\<in>set xs. viable y \<and> y \<noteq> x \<longrightarrow> better x y)"
proof
  assume "bestOf viable better xs = Some x"
  from bestOf_Some [OF this] assms
  show "x \<in> set xs \<and> viable x \<and> (\<forall>y\<in>set xs. viable y \<and> y \<noteq> x \<longrightarrow> better x y)" by blast
next
  assume x: "x \<in> set xs \<and> viable x \<and> (\<forall>y\<in>set xs. viable y \<and> y \<noteq> x \<longrightarrow> better x y)"
  then obtain z where z: "bestOf viable better xs = Some z"
    using bestOf_None_iff [of xs] by fastforce
  then have "z = x" using bestOf_Some [OF z] x by blast
  with z show "bestOf viable better xs = Some x" by simp
qed

lemma bestOf_order_independent:
  assumes "set xs = set ys"
    and total: "\<And>x y. x \<in> set xs \<Longrightarrow> y \<in> set xs \<Longrightarrow> viable x \<Longrightarrow> viable y \<Longrightarrow> x \<noteq> y \<Longrightarrow>
             better x y \<or> better y x"
  shows "bestOf viable better xs = bestOf viable better ys"
proof (cases "bestOf viable better xs")
  case None
  then show ?thesis using assms(1) bestOf_None_iff [of xs] bestOf_None_iff [of ys] by simp
next
  case (Some x)
  then have "bestOf viable better ys = Some x"
    using bestOf_unique [of xs x, OF total] bestOf_unique [of ys x] total assms(1) by simp
  with Some show ?thesis by simp
qed

end

section \<open>The selection loop as an instance\<close>

definition legalPair ::
    "QueueCandidate \<Rightarrow> instant \<Rightarrow> RelaxationStage list \<Rightarrow> user_id list \<Rightarrow> QueueCandidate \<Rightarrow> bool" where
  "legalPair seeker now stages occupied candidate =
     (checkHardRules seeker candidate occupied = None \<and>
      satisfiesPreferences seeker candidate
        (activeConstraints (relaxationStageFor seeker now stages) stages) \<and>
      satisfiesPreferences candidate seeker
        (activeConstraints (relaxationStageFor candidate now stages) stages))"

definition preferredTo :: "QueueCandidate \<Rightarrow> instant \<Rightarrow> QueueCandidate \<Rightarrow> QueueCandidate \<Rightarrow> bool" where
  "preferredTo seeker now c d =
     (sc_total (scorePair seeker c now) > sc_total (scorePair seeker d now) \<or>
      sc_total (scorePair seeker c now) = sc_total (scorePair seeker d now) \<and>
      (qc_queuedAt c < qc_queuedAt d \<or>
       qc_queuedAt c = qc_queuedAt d \<and> qc_userId c < qc_userId d))"

interpretation selection: best_fold "legalPair seeker now stages occupied" "preferredTo seeker now"
  for seeker now stages occupied
  by unfold_locales (auto simp: preferredTo_def)

lemma isBetter_mkSelection:
  "isBetter (scorePair seeker c now) c (mkSelection seeker now stages d) = preferredTo seeker now c d"
  by (auto simp: isBetter_def mkSelection_def preferredTo_def)

lemma ms_candidate_mkSelection [simp]: "ms_candidate (mkSelection seeker now stages c) = c"
  by (simp add: mkSelection_def)

lemma selectStep_pickBest:
  "selectStep seeker now stages occupied (map_option (mkSelection seeker now stages) b) c =
   map_option (mkSelection seeker now stages)
     (pickBest (legalPair seeker now stages occupied) (preferredTo seeker now) b c)"
  by (cases b)
     (simp_all add: selectStep_def pickBest_def legalPair_def isBetter_mkSelection)

lemma selectBestMatch_bestOf:
  "selectBestMatch seeker pool now stages occupied =
   map_option (mkSelection seeker now stages)
     (bestOf (legalPair seeker now stages occupied) (preferredTo seeker now) pool)"
proof (induction pool rule: rev_induct)
  case (snoc c pool)
  then show ?case by (simp add: selectBestMatch_def bestOf_snoc selectStep_pickBest)
qed (simp add: selectBestMatch_def bestOf_def)

lemma selectBestMatch_None_iff:
  "selectBestMatch seeker pool now stages occupied = None \<longleftrightarrow>
   (\<forall>c\<in>set pool. \<not> legalPair seeker now stages occupied c)"
  by (simp add: selectBestMatch_bestOf selection.bestOf_None_iff)

lemma selectBestMatch_Some:
  assumes "selectBestMatch seeker pool now stages occupied = Some m"
  shows "m = mkSelection seeker now stages (ms_candidate m)"
    and "ms_candidate m \<in> set pool"
    and "legalPair seeker now stages occupied (ms_candidate m)"
    and "c \<in> set pool \<Longrightarrow> legalPair seeker now stages occupied c \<Longrightarrow>
         \<not> preferredTo seeker now c (ms_candidate m)"
  using assms selection.bestOf_Some [of seeker now stages occupied pool]
  by (auto simp: selectBestMatch_bestOf)

lemma preferredTo_total:
  "qc_userId c \<noteq> qc_userId d \<Longrightarrow> preferredTo seeker now c d \<or> preferredTo seeker now d c"
  by (auto simp: preferredTo_def)


section \<open>Relaxation only loosens\<close>

definition growingDrops :: "RelaxationStage list \<Rightarrow> bool" where
  "growingDrops stages =
     sorted_wrt (\<lambda>s t. set (dropC s) \<subseteq> set (dropC t)) stages"

lemma growingDrops_nth:
  "growingDrops stages \<Longrightarrow> i \<le> j \<Longrightarrow> j < length stages \<Longrightarrow>
   set (dropC (stages ! i)) \<subseteq> set (dropC (stages ! j))"
  by (cases "i = j") (auto simp: growingDrops_def sorted_wrt_iff_nth_less)

lemma stageLoop_mono:
  "w \<le> w' \<Longrightarrow> k \<le> k' \<Longrightarrow> k \<le> i \<Longrightarrow> k' \<le> i \<Longrightarrow> stageLoop w ss i k \<le> stageLoop w' ss i k'"
  by (induction ss arbitrary: i k k') auto

lemma stageLoop_range:
  "stageLoop w ss i k = k \<or> i \<le> stageLoop w ss i k \<and> stageLoop w ss i k < i + length ss"
proof (induction ss arbitrary: i k)
  case (Cons s ss)
  show ?case
    using Cons.IH [of "i + 1" "if w \<ge> of_int (afterSeconds s) then i else k"] by auto
qed simp

lemma waitedSeconds_mono: "now \<le> now' \<Longrightarrow> waitedSeconds q now \<le> waitedSeconds q now'"
  by (simp add: waitedSeconds_def max_def divide_right_mono)

lemma relaxationStageFor_mono:
  "now \<le> now' \<Longrightarrow> relaxationStageFor c now stages \<le> relaxationStageFor c now' stages"
  by (simp add: relaxationStageFor_def stageLoop_mono waitedSeconds_mono)

lemma relaxationStageFor_less:
  "stages \<noteq> [] \<Longrightarrow> relaxationStageFor c now stages < length stages"
  using stageLoop_range [of "waitedSeconds (qc_queuedAt c) now" stages 0 0]
  by (auto simp: relaxationStageFor_def)

lemma activeConstraints_antimono:
  "growingDrops stages \<Longrightarrow> i \<le> j \<Longrightarrow> j < length stages \<Longrightarrow>
   set (activeConstraints j stages) \<subseteq> set (activeConstraints i stages)"
  using growingDrops_nth [of stages i j] by (auto simp: activeConstraints_def)

text \<open>The guards of \<open>satisfiesPreferences\<close> as independent clauses, one per constraint.\<close>

lemma satisfiesPreferences_iff:
  "satisfiesPreferences s c A \<longleftrightarrow>
     (GenderC \<in> set A \<longrightarrow> genderSatisfied (qc_preferredGender s) (qc_gender c)) \<and>
     (Country \<in> set A \<longrightarrow> qc_preferredCountries s \<noteq> [] \<longrightarrow>
        \<not> missingText (qc_country c) \<and> the (qc_country c) \<in> set (qc_preferredCountries s)) \<and>
     (Language \<in> set A \<longrightarrow> qc_preferredLanguages s \<noteq> [] \<longrightarrow>
        list_ex (\<lambda>l. l \<in> set (qc_preferredLanguages s)) (qc_languages c)) \<and>
     (AgeBracketC \<in> set A \<longrightarrow> qc_preferredAgeBrackets s \<noteq> [] \<longrightarrow>
        qc_ageBracket c \<noteq> None \<and> the (qc_ageBracket c) \<in> set (qc_preferredAgeBrackets s))"
  unfolding satisfiesPreferences_def by (simp del: not_None_eq) blast

lemma satisfiesPreferences_antimono:
  "set B \<subseteq> set A \<Longrightarrow> satisfiesPreferences s c A \<Longrightarrow> satisfiesPreferences s c B"
  unfolding satisfiesPreferences_iff by blast

lemma satisfiesPreferences_later:
  assumes "growingDrops stages" "now \<le> now'"
    and "satisfiesPreferences s c (activeConstraints (relaxationStageFor d now stages) stages)"
  shows "satisfiesPreferences s c (activeConstraints (relaxationStageFor d now' stages) stages)"
proof (cases "stages = []")
  case False
  show ?thesis
    by (rule satisfiesPreferences_antimono
         [OF activeConstraints_antimono [OF assms(1) relaxationStageFor_mono [OF assms(2)]]
             assms(3)])
       (rule relaxationStageFor_less [OF False])
qed (use assms(3) in \<open>simp add: activeConstraints_def\<close>)

lemma growingDrops_default: "growingDrops DEFAULT_RELAXATION_STAGES"
  by (simp add: growingDrops_def DEFAULT_RELAXATION_STAGES_def)

lemma relaxationStageFor_60s:
  assumes "now - qc_queuedAt c \<ge> 60000"
  shows "relaxationStageFor c now DEFAULT_RELAXATION_STAGES = 4"
proof -
  have "(60000 :: rat) \<le> of_int (now - qc_queuedAt c)"
    using assms by (metis of_int_le_iff of_int_numeral)
  then have "60 \<le> waitedSeconds (qc_queuedAt c) now"
    by (simp add: waitedSeconds_def le_max_iff_disj)
  then show ?thesis
    by (simp add: relaxationStageFor_def DEFAULT_RELAXATION_STAGES_def)
qed

lemma activeConstraints_last: "activeConstraints 4 DEFAULT_RELAXATION_STAGES = []"
  by (simp add: activeConstraints_def DEFAULT_RELAXATION_STAGES_def ALL_CONSTRAINTS_def)

lemma satisfiesPreferences_60s:
  "now - qc_queuedAt d \<ge> 60000 \<Longrightarrow>
   satisfiesPreferences s c
     (activeConstraints (relaxationStageFor d now DEFAULT_RELAXATION_STAGES) DEFAULT_RELAXATION_STAGES)"
  by (simp add: relaxationStageFor_60s activeConstraints_last satisfiesPreferences_iff)

section \<open>Bounds of the score\<close>

text \<open>What the score can be without priority and penalty: between 0 and 139.\<close>

lemma scorePair_bounds:
  assumes "qc_queuedAt seeker \<le> now" "0 \<le> qc_priority c" "qc_priority c \<le> 36"
  shows "isRecentPartner seeker c \<Longrightarrow> sc_total (scorePair seeker c now) < 0"
    and "\<not> isRecentPartner seeker c \<Longrightarrow> 0 \<le> sc_total (scorePair seeker c now)"
proof -
  define w where "w = sc_waitTime (scorePair seeker c now)"
  define b where "b = sc_sharedInterests (scorePair seeker c now)
    + sc_sharedLanguages (scorePair seeker c now) + sc_countryPreference (scorePair seeker c now)
    + sc_priority (scorePair seeker c now)"
  have total: "sc_total (scorePair seeker c now) =
      of_int (b + (if isRecentPartner seeker c then - 500 else 0)) + w"
    by (simp add: scorePair_def Let_def w_def b_def SCORE_WEIGHTS_def)
  have w: "0 \<le> w" "w \<le> 60"
    using assms(1) by (simp_all add: w_def scorePair_def Let_def SCORE_WEIGHTS_def min_def)
  have b: "0 \<le> b" "b \<le> 439"
    using assms(2,3) by (simp_all add: b_def scorePair_def Let_def SCORE_WEIGHTS_def min_def)
  from b have "(of_int b :: rat) \<le> 439" "(0 :: rat) \<le> of_int b" by simp_all
  with total w show "isRecentPartner seeker c \<Longrightarrow> sc_total (scorePair seeker c now) < 0"
    and "\<not> isRecentPartner seeker c \<Longrightarrow> 0 \<le> sc_total (scorePair seeker c now)"
    by simp_all
qed

section \<open>Properties\<close>

text \<open>A queued user with no preferences, for the concrete instances below.\<close>

definition plainCandidate :: "user_id \<Rightarrow> instant \<Rightarrow> QueueCandidate" where
  "plainCandidate u t =
     \<lparr>qc_userId = u, qc_queuedAt = t, qc_gender = None, qc_country = None, qc_languages = [],
      qc_ageBracket = None, qc_interestIds = [], qc_preferredGender = GenderPreference_ANY,
      qc_preferredCountries = [], qc_preferredLanguages = [], qc_preferredAgeBrackets = [],
      qc_excludedUserIds = [], qc_recentPartnerIds = [], qc_priority = 0\<rparr>"

text \<open>C36: The partner that \<open>selectBestMatch\<close> picks is in the pool, passes the hard rules, satisfies
the seeker's preferences at the seeker's stage and is satisfied by the seeker at its own stage, and
no other legal candidate of the pool is preferred to it (higher score, then longer wait, then
smaller id). \<open>null\<close> is returned exactly when the pool holds no legal candidate.\<close>

theorem selectBestMatch_correct:
  "(case selectBestMatch seeker pool now stages occupied of
      None \<Rightarrow> \<forall>c\<in>set pool. \<not> legalPair seeker now stages occupied c
    | Some m \<Rightarrow> m = mkSelection seeker now stages (ms_candidate m) \<and>
        ms_candidate m \<in> set pool \<and> legalPair seeker now stages occupied (ms_candidate m) \<and>
        (\<forall>c\<in>set pool. legalPair seeker now stages occupied c \<longrightarrow>
           \<not> preferredTo seeker now c (ms_candidate m)))"
  using selectBestMatch_None_iff selectBestMatch_Some by (auto split: option.splits)

lemma selectBestMatch_correct_witness:
  "(case selectBestMatch (plainCandidate ''a'' 0) [plainCandidate ''b'' 5, plainCandidate ''c'' 3]
        1000 DEFAULT_RELAXATION_STAGES [] of
      None \<Rightarrow> False
    | Some m \<Rightarrow> \<not> preferredTo (plainCandidate ''a'' 0) 1000 (plainCandidate ''b'' 5) (ms_candidate m))"
proof -
  have legal: "legalPair (plainCandidate ''a'' 0) 1000 DEFAULT_RELAXATION_STAGES []
      (plainCandidate ''b'' 5)"
    by (simp add: legalPair_def plainCandidate_def checkHardRules_def satisfiesPreferences_def
        genderSatisfied_def)
  then show ?thesis
    using selectBestMatch_correct [where seeker = "plainCandidate ''a'' 0"
        and pool = "[plainCandidate ''b'' 5, plainCandidate ''c'' 3]" and now = 1000
        and stages = DEFAULT_RELAXATION_STAGES and occupied = "[]"]
    by (auto split: option.splits)
qed

text \<open>Two realtime nodes that see the same waiting users, in whatever order Redis hands them
over, pick the same partner: the choice depends only on the set of candidates, provided no two of
them share a user id.\<close>

theorem selectBestMatch_deterministic:
  assumes "mset pool = mset pool'" and "distinct (map qc_userId pool)"
  shows "selectBestMatch seeker pool now stages occupied =
         selectBestMatch seeker pool' now stages occupied"
proof -
  have "qc_userId x \<noteq> qc_userId y" if "x \<in> set pool" "y \<in> set pool" "x \<noteq> y" for x y
    using assms(2) that by (auto simp: distinct_map inj_on_def)
  then show ?thesis
    using selection.bestOf_order_independent [OF mset_eq_setD [OF assms(1)]] preferredTo_total
    by (simp add: selectBestMatch_bestOf)
qed

lemma selectBestMatch_deterministic_witness:
  "selectBestMatch (plainCandidate ''a'' 0) [plainCandidate ''b'' 5, plainCandidate ''c'' 5] 9
     DEFAULT_RELAXATION_STAGES [] =
   selectBestMatch (plainCandidate ''a'' 0) [plainCandidate ''c'' 5, plainCandidate ''b'' 5] 9
     DEFAULT_RELAXATION_STAGES []"
  by (rule selectBestMatch_deterministic) (simp_all add: plainCandidate_def)

text \<open>Waiting never costs a user a partner. With a stage table whose drop lists only grow (as
the default one), a pair that is legal at some instant is legal at every later instant, for both
sides' stages.\<close>

theorem legalPair_monotone_in_time:
  assumes "growingDrops stages" and "now \<le> now'" and "legalPair seeker now stages occupied c"
  shows "legalPair seeker now' stages occupied c"
  using assms satisfiesPreferences_later [OF assms(1,2)] by (simp add: legalPair_def)

lemma legalPair_monotone_in_time_witness:
  "legalPair (plainCandidate ''a'' 0) 90000 DEFAULT_RELAXATION_STAGES [] (plainCandidate ''b'' 0)"
  by (rule legalPair_monotone_in_time [OF growingDrops_default, of 10])
     (simp_all add: legalPair_def plainCandidate_def checkHardRules_def satisfiesPreferences_def
        genderSatisfied_def)

text \<open>No preference starves anybody: with the default stages, once the seeker and some
candidate of the pool have both waited sixty seconds and no hard rule separates them, the selection
returns a partner, whatever either of them prefers.\<close>

theorem selectBestMatch_no_starvation:
  assumes "c \<in> set pool" and "checkHardRules seeker c occupied = None"
    and "now - qc_queuedAt seeker \<ge> 60000" and "now - qc_queuedAt c \<ge> 60000"
  shows "selectBestMatch seeker pool now DEFAULT_RELAXATION_STAGES occupied \<noteq> None"
  using assms satisfiesPreferences_60s
  by (auto simp: selectBestMatch_None_iff legalPair_def)

lemma selectBestMatch_no_starvation_witness:
  "selectBestMatch (plainCandidate ''a'' 0 \<lparr>qc_preferredGender := GenderPreference_MALE\<rparr>)
     [plainCandidate ''b'' 0 \<lparr>qc_gender := Some Gender_FEMALE\<rparr>] 60000 DEFAULT_RELAXATION_STAGES [] \<noteq> None"
  by (rule selectBestMatch_no_starvation
        [where c = "plainCandidate ''b'' 0 \<lparr>qc_gender := Some Gender_FEMALE\<rparr>"])
     (simp_all add: plainCandidate_def checkHardRules_def)

text \<open>A user is sent back to a recent partner only when nobody else is legal. The penalty of
500 outweighs every bonus as long as priorities stay between 0 and 36.\<close>

theorem recent_partner_last_resort:
  assumes "selectBestMatch seeker pool now stages occupied = Some m"
    and "isRecentPartner seeker (ms_candidate m)"
    and "qc_queuedAt seeker \<le> now" and "\<forall>c\<in>set pool. 0 \<le> qc_priority c \<and> qc_priority c \<le> 36"
  shows "\<forall>c\<in>set pool. legalPair seeker now stages occupied c \<longrightarrow> isRecentPartner seeker c"
proof (intro ballI impI)
  fix c assume c: "c \<in> set pool" "legalPair seeker now stages occupied c"
  note m = selectBestMatch_Some [OF assms(1)]
  show "isRecentPartner seeker c"
  proof (rule ccontr)
    assume "\<not> isRecentPartner seeker c"
    then have "sc_total (scorePair seeker (ms_candidate m) now) < sc_total (scorePair seeker c now)"
      using scorePair_bounds assms(2,3,4) c(1) m(2) by (meson less_le_trans)
    then show False using m(4) [OF c] by (simp add: preferredTo_def)
  qed
qed

lemma recent_partner_last_resort_witness:
  "isRecentPartner (plainCandidate ''a'' 0 \<lparr>qc_recentPartnerIds := [''b'']\<rparr>) (plainCandidate ''b'' 0)"
proof -
  define a where "a = plainCandidate ''a'' 0 \<lparr>qc_recentPartnerIds := [''b'']\<rparr>"
  define b where "b = plainCandidate ''b'' 0"
  have legal: "legalPair a 10 DEFAULT_RELAXATION_STAGES [] b"
    by (simp add: a_def b_def plainCandidate_def legalPair_def checkHardRules_def
        satisfiesPreferences_def genderSatisfied_def)
  then have "selectBestMatch a [b] 10 DEFAULT_RELAXATION_STAGES [] =
      Some (mkSelection a 10 DEFAULT_RELAXATION_STAGES b)"
    by (simp add: selectBestMatch_bestOf bestOf_def pickBest_def)
  from recent_partner_last_resort [OF this] legal show ?thesis
    by (simp add: a_def b_def plainCandidate_def isRecentPartner_def)
qed

text \<open>The shards a seeker scans miss nobody the seeker asked for: a candidate that satisfies the
seeker's preferences sits in a scanned shard whenever the seeker named countries or has dropped the
country constraint; a seeker who named none still scans the own region and the global shard.\<close>

theorem shardsToScan_complete:
  "(satisfiesPreferences seeker c (activeConstraints idx stages) \<and>
      (qc_preferredCountries seeker \<noteq> [] \<or> Country \<notin> set (activeConstraints idx stages)) \<longrightarrow>
      shardFor (qc_country c) \<in> set (shardsToScan seeker idx stages)) \<and>
   {GLOBAL_SHARD, shardFor (qc_country seeker)} \<subseteq> set (shardsToScan seeker idx stages)"
proof -
  have "shardFor x = GLOBAL_SHARD \<or> shardFor x \<in> snd ` set REGION_BY_COUNTRY" for x
    by (auto simp: shardFor_def split: option.split dest!: map_of_SomeD intro: rev_image_eqI)
  then show ?thesis
    by (cases "qc_country c")
       (auto simp: shardsToScan_def Let_def satisfiesPreferences_def missingText_def
         split: if_splits)
qed

lemma shardsToScan_complete_witness:
  "''as'' \<in> set (shardsToScan (plainCandidate ''a'' 0 \<lparr>qc_preferredCountries := [''JP'']\<rparr>) 0
            DEFAULT_RELAXATION_STAGES)"
proof -
  have "shardFor (Some ''JP'') = ''as''" by code_simp
  then show ?thesis
    using shardsToScan_complete [of "plainCandidate ''a'' 0 \<lparr>qc_preferredCountries := [''JP'']\<rparr>"
        "plainCandidate ''b'' 0 \<lparr>qc_country := Some ''JP''\<rparr>" 0 DEFAULT_RELAXATION_STAGES]
    by (simp add: plainCandidate_def satisfiesPreferences_def missingText_def genderSatisfied_def)
qed

end
