(* ===== verification/Queue_Repository.thy ===== *)
theory Queue_Repository
  imports Redis_Store Redis_Keys Matchmaking
begin

text \<open>The Redis-backed queue of \<^verbatim>\<open>apps/realtime/src/queue.repository.ts\<close>: membership, occupancy,
the registry of live matches, pairing locks, recent partners, the skip cooldown and the block cache.
Every operation takes the instant at which it runs; a pipeline is one step. \<open>RedisState\<close> holds one
map per kind of key of \<open>RedisKey\<close>.\<close>

section \<open>State\<close>

text \<open>A stored JSON text: what \<^verbatim>\<open>JSON.parse\<close> makes of it.\<close>

datatype 'a stored = Parsed 'a | Corrupt

record LiveMatch =
  lm_userA :: user_id
  lm_userB :: user_id
  lm_startedAt :: instant

record PresenceHash =
  ph_state :: "PresenceState option"
  ph_nodeId :: "string option"
  ph_lastSeenAt :: "instant option"

record RedisState =
  rd_queueEntry :: "(user_id, QueueCandidate stored) register"
  rd_queue :: "string \<Rightarrow> zset"
  rd_activeShards :: "string list"
  rd_userMatch :: "(user_id, match_id) register"
  rd_match :: "(match_id, LiveMatch) register"
  rd_matchLock :: "(user_id, string) register"
  rd_recentPartners :: "(user_id, zset) register"
  rd_skipCooldown :: "(user_id, unit) register"
  rd_blockCache :: "(user_id, string list) register"
  rd_presence :: "(user_id, PresenceHash) register"
  rd_userSockets :: "(user_id, string list) register"
  rd_onlineSet :: "string list"

definition emptyRedis :: RedisState where
  "emptyRedis =
     \<lparr>rd_queueEntry = (\<lambda>k. None), rd_queue = (\<lambda>k. []), rd_activeShards = [],
      rd_userMatch = (\<lambda>k. None), rd_match = (\<lambda>k. None), rd_matchLock = (\<lambda>k. None),
      rd_recentPartners = (\<lambda>k. None), rd_skipCooldown = (\<lambda>k. None), rd_blockCache = (\<lambda>k. None),
      rd_presence = (\<lambda>k. None), rd_userSockets = (\<lambda>k. None), rd_onlineSet = []\<rparr>"

definition SCAN_LIMIT :: nat where
  "SCAN_LIMIT = 250"

section \<open>Membership\<close>

definition updShard :: "string \<Rightarrow> (zset \<Rightarrow> zset) \<Rightarrow> RedisState \<Rightarrow> RedisState" where
  "updShard shard f s = s\<lparr>rd_queue := (rd_queue s)(shard := f (rd_queue s shard))\<rparr>"

definition join :: "instant \<Rightarrow> QueueCandidate \<Rightarrow> RedisState \<Rightarrow> RedisState" where
  "join now candidate s =
     (let shard = shardFor (qc_country candidate);
          uid = qc_userId candidate;
          s1 = s\<lparr>rd_queueEntry :=
                 setEx now (ttl_queueEntry REDIS_TTL) uid (Parsed candidate) (rd_queueEntry s)\<rparr>;
          s2 = updShard shard (zadd uid (qc_queuedAt candidate)) s1;
          s3 = (if shard \<noteq> GLOBAL_SHARD
                then updShard GLOBAL_SHARD (zadd uid (qc_queuedAt candidate)) s2 else s2)
      in s3\<lparr>rd_activeShards := sadd [shard, GLOBAL_SHARD] (rd_activeShards s3)\<rparr>)"

definition leave :: "user_id \<Rightarrow> string option \<Rightarrow> RedisState \<Rightarrow> RedisState" where
  "leave userId country s =
     updShard GLOBAL_SHARD (zrem userId)
       (updShard (shardFor country) (zrem userId)
         (s\<lparr>rd_queueEntry := delKey userId (rd_queueEntry s)\<rparr>))"

definition isQueued :: "instant \<Rightarrow> user_id \<Rightarrow> RedisState \<Rightarrow> bool" where
  "isQueued now userId s = (live (rd_queueEntry s) now userId \<noteq> None)"

text \<open>A corrupt entry is dropped on reading.\<close>

definition getEntry :: "instant \<Rightarrow> user_id \<Rightarrow> RedisState \<Rightarrow> QueueCandidate option \<times> RedisState" where
  "getEntry now userId s =
     (case live (rd_queueEntry s) now userId of
        None \<Rightarrow> (None, s)
      | Some (Parsed c) \<Rightarrow> (Some c, s)
      | Some Corrupt \<Rightarrow> (None, s\<lparr>rd_queueEntry := delKey userId (rd_queueEntry s)\<rparr>))"

definition parsedEntry :: "instant \<Rightarrow> RedisState \<Rightarrow> user_id \<Rightarrow> QueueCandidate option" where
  "parsedEntry now s userId =
     (case live (rd_queueEntry s) now userId of Some (Parsed c) \<Rightarrow> Some c | other \<Rightarrow> None)"

definition scannedIds :: "string list \<Rightarrow> user_id \<Rightarrow> RedisState \<Rightarrow> user_id list" where
  "scannedIds shards excludeUserId s =
     filter (\<lambda>i. i \<noteq> excludeUserId)
       (dedup (concat (map (\<lambda>shard. zrange SCAN_LIMIT (rd_queue s shard)) (dedup shards))))"

definition loadCandidates ::
    "instant \<Rightarrow> string list \<Rightarrow> user_id \<Rightarrow> RedisState \<Rightarrow> QueueCandidate list \<times> RedisState" where
  "loadCandidates now shards excludeUserId s =
     (let ids = scannedIds shards excludeUserId s in
      if ids = [] then ([], s)
      else let candidates = List.map_filter (parsedEntry now s) ids;
               stale = filter (\<lambda>i. parsedEntry now s i = None) ids
           in (candidates,
               if stale = [] then s
               else s\<lparr>rd_queue := (\<lambda>shard. if shard \<in> set (dedup shards)
                                     then fold zrem stale (rd_queue s shard) else rd_queue s shard)\<rparr>))"

definition queueSize :: "string \<Rightarrow> RedisState \<Rightarrow> nat" where
  "queueSize shard s = length (rd_queue s shard)"

definition position :: "user_id \<Rightarrow> string option \<Rightarrow> RedisState \<Rightarrow> nat option" where
  "position userId country s = map_option (\<lambda>r. r + 1) (zrank userId (rd_queue s (shardFor country)))"

section \<open>Occupancy\<close>

definition currentMatch :: "instant \<Rightarrow> user_id \<Rightarrow> RedisState \<Rightarrow> match_id option" where
  "currentMatch now userId s = live (rd_userMatch s) now userId"

definition claimForMatch ::
    "instant \<Rightarrow> user_id \<Rightarrow> match_id \<Rightarrow> RedisState \<Rightarrow> bool \<times> RedisState" where
  "claimForMatch now userId matchId s =
     (let (ok, r) = setNxEx now (ttl_userMatch REDIS_TTL) userId matchId (rd_userMatch s)
      in (ok, s\<lparr>rd_userMatch := r\<rparr>))"

definition releaseMatch :: "instant \<Rightarrow> user_id \<Rightarrow> match_id \<Rightarrow> RedisState \<Rightarrow> RedisState" where
  "releaseMatch now userId matchId s =
     s\<lparr>rd_userMatch := delIfEquals now userId matchId (rd_userMatch s)\<rparr>"

section \<open>The registry of live matches\<close>

definition saveMatch :: "instant \<Rightarrow> match_id \<Rightarrow> user_id \<Rightarrow> user_id \<Rightarrow> RedisState \<Rightarrow> RedisState" where
  "saveMatch now matchId userA userB s =
     s\<lparr>rd_match := setEx now (ttl_match REDIS_TTL) matchId
         \<lparr>lm_userA = userA, lm_userB = userB, lm_startedAt = now\<rparr> (rd_match s)\<rparr>"

definition getMatchParticipants ::
    "instant \<Rightarrow> match_id \<Rightarrow> RedisState \<Rightarrow> (user_id \<times> user_id) option" where
  "getMatchParticipants now matchId s =
     (case live (rd_match s) now matchId of
        None \<Rightarrow> None
      | Some m \<Rightarrow> if lm_userA m = [] \<or> lm_userB m = [] then None else Some (lm_userA m, lm_userB m))"

definition resolvePeer :: "instant \<Rightarrow> match_id \<Rightarrow> user_id \<Rightarrow> RedisState \<Rightarrow> user_id option" where
  "resolvePeer now matchId userId s =
     (case getMatchParticipants now matchId s of
        None \<Rightarrow> None
      | Some (userA, userB) \<Rightarrow>
          if userA = userId then Some userB else if userB = userId then Some userA else None)"

definition deleteMatch :: "match_id \<Rightarrow> RedisState \<Rightarrow> RedisState" where
  "deleteMatch matchId s = s\<lparr>rd_match := delKey matchId (rd_match s)\<rparr>"

section \<open>Pairing locks\<close>

definition acquireLock :: "instant \<Rightarrow> user_id \<Rightarrow> string \<Rightarrow> RedisState \<Rightarrow> bool \<times> RedisState" where
  "acquireLock now userId token s =
     (let (ok, r) = setNxEx now (ttl_matchLock REDIS_TTL) userId token (rd_matchLock s)
      in (ok, s\<lparr>rd_matchLock := r\<rparr>))"

definition releaseLock :: "instant \<Rightarrow> user_id \<Rightarrow> string \<Rightarrow> RedisState \<Rightarrow> RedisState" where
  "releaseLock now userId token s =
     s\<lparr>rd_matchLock := delIfEquals now userId token (rd_matchLock s)\<rparr>"

text \<open>Always in ascending order of the user ids.\<close>

definition lockOrder :: "user_id \<Rightarrow> user_id \<Rightarrow> user_id \<times> user_id" where
  "lockOrder userA userB = (if userA < userB then (userA, userB) else (userB, userA))"

definition acquirePairLocks ::
    "instant \<Rightarrow> user_id \<Rightarrow> user_id \<Rightarrow> string \<Rightarrow> RedisState \<Rightarrow> bool \<times> RedisState" where
  "acquirePairLocks now userA userB token s =
     (let (first, second) = lockOrder userA userB
      in acquireTwo (acquireLock now) (releaseLock now) first second token s)"

definition releasePairLocks ::
    "instant \<Rightarrow> user_id \<Rightarrow> user_id \<Rightarrow> string \<Rightarrow> RedisState \<Rightarrow> RedisState" where
  "releasePairLocks now userA userB token s =
     (let (first, second) = lockOrder userA userB
      in releaseTwo (releaseLock now) first second token s)"

section \<open>Recent partners and the skip cooldown\<close>

definition zsetAt :: "instant \<Rightarrow> (user_id, zset) register \<Rightarrow> user_id \<Rightarrow> zset" where
  "zsetAt now r k = (case live r now k of None \<Rightarrow> [] | Some z \<Rightarrow> z)"

definition recordRecentPartner ::
    "instant \<Rightarrow> user_id \<Rightarrow> user_id \<Rightarrow> int \<Rightarrow> RedisState \<Rightarrow> RedisState" where
  "recordRecentPartner now userId partnerId ttlSeconds s =
     (let z = zremrangebyscore 0 now
                (zadd partnerId (now + ttlSeconds * 1000) (zsetAt now (rd_recentPartners s) userId))
      in s\<lparr>rd_recentPartners :=
            (if z = [] \<or> ttlSeconds \<le> 0 then delKey userId (rd_recentPartners s)
             else setEx now ttlSeconds userId z (rd_recentPartners s))\<rparr>)"

definition recentPartners :: "instant \<Rightarrow> user_id \<Rightarrow> RedisState \<Rightarrow> user_id list \<times> RedisState" where
  "recentPartners now userId s =
     (case rd_recentPartners s userId of
        None \<Rightarrow> ([], s)
      | Some (z, e) \<Rightarrow>
          if \<not> now < e then ([], s)
          else let z' = zremrangebyscore 0 now z
               in (map fst z',
                   s\<lparr>rd_recentPartners := (rd_recentPartners s)
                       (userId := if z' = [] then None else Some (z', e))\<rparr>))"

text \<open>\<open>minSeconds\<close> is a number of the settings, \<^verbatim>\<open>Math.ceil\<close> of it the time to live. The answer of
\<^verbatim>\<open>TTL\<close> is the remaining time rounded to whole seconds, as the Redis server rounds it.\<close>

definition checkSkipCooldown ::
    "instant \<Rightarrow> user_id \<Rightarrow> rat \<Rightarrow> RedisState \<Rightarrow> int \<times> RedisState" where
  "checkSkipCooldown now userId minSeconds s =
     (if minSeconds \<le> 0 then (0, s)
      else case rd_skipCooldown s userId of
        Some (v, e) \<Rightarrow>
          if now < e then (max 0 ((e - now + 500) div 1000), s)
          else (0, s\<lparr>rd_skipCooldown := setEx now \<lceil>minSeconds\<rceil> userId () (rd_skipCooldown s)\<rparr>)
      | None \<Rightarrow> (0, s\<lparr>rd_skipCooldown := setEx now \<lceil>minSeconds\<rceil> userId () (rd_skipCooldown s)\<rparr>))"

section \<open>Block cache\<close>

definition NO_BLOCKS :: string where
  "NO_BLOCKS = ''__none__''"

definition cacheBlocks :: "instant \<Rightarrow> user_id \<Rightarrow> user_id list \<Rightarrow> RedisState \<Rightarrow> RedisState" where
  "cacheBlocks now userId blockedIds s =
     s\<lparr>rd_blockCache := setEx now (ttl_blockCache REDIS_TTL) userId
         (sadd (NO_BLOCKS # blockedIds) []) (delKey userId (rd_blockCache s))\<rparr>"

definition getCachedBlocks :: "instant \<Rightarrow> user_id \<Rightarrow> RedisState \<Rightarrow> user_id list option" where
  "getCachedBlocks now userId s =
     (case live (rd_blockCache s) now userId of
        None \<Rightarrow> None
      | Some members \<Rightarrow> if members = [] then None else Some (filter (\<lambda>m. m \<noteq> NO_BLOCKS) members))"

definition invalidateBlocks :: "user_id \<Rightarrow> RedisState \<Rightarrow> RedisState" where
  "invalidateBlocks userId s = s\<lparr>rd_blockCache := delKey userId (rd_blockCache s)\<rparr>"

section \<open>The exclusive registers\<close>

lemma ttl_pos [simp]:
  "0 < ttl_userMatch REDIS_TTL" "0 < ttl_matchLock REDIS_TTL" "0 < ttl_match REDIS_TTL"
  "0 < ttl_queueEntry REDIS_TTL" "0 < ttl_blockCache REDIS_TTL" "0 < ttl_presence REDIS_TTL"
  by (simp_all add: REDIS_TTL_def)

interpretation occupancy: nx_register
  "\<lambda>s u. currentMatch now u s" "claimForMatch now" "releaseMatch now" for now
  by unfold_locales
     (simp_all add: currentMatch_def claimForMatch_def releaseMatch_def live_setNxEx live_delIfEquals
       prod.case_eq_if)

interpretation locks: nx_register
  "\<lambda>s u. live (rd_matchLock s) now u" "acquireLock now" "releaseLock now" for now
  by unfold_locales
     (simp_all add: acquireLock_def releaseLock_def live_setNxEx live_delIfEquals prod.case_eq_if)

lemma lockOrder_commute: "lockOrder a b = lockOrder b a"
  by (auto simp: lockOrder_def)

lemma acquireTwo_lock_frame:
  "rd_queueEntry (snd (acquireTwo (acquireLock now) (releaseLock now) a b v s)) = rd_queueEntry s"
  "rd_queue (snd (acquireTwo (acquireLock now) (releaseLock now) a b v s)) = rd_queue s"
  "rd_userMatch (snd (acquireTwo (acquireLock now) (releaseLock now) a b v s)) = rd_userMatch s"
  "rd_match (snd (acquireTwo (acquireLock now) (releaseLock now) a b v s)) = rd_match s"
  "rd_recentPartners (snd (acquireTwo (acquireLock now) (releaseLock now) a b v s)) = rd_recentPartners s"
  by (simp_all add: acquireTwo_def acquireLock_def releaseLock_def prod.case_eq_if)

lemma acquireTwo_claim_frame:
  "rd_queueEntry (snd (acquireTwo (claimForMatch now) (releaseMatch now) a b v s)) = rd_queueEntry s"
  "rd_queue (snd (acquireTwo (claimForMatch now) (releaseMatch now) a b v s)) = rd_queue s"
  "rd_matchLock (snd (acquireTwo (claimForMatch now) (releaseMatch now) a b v s)) = rd_matchLock s"
  "rd_match (snd (acquireTwo (claimForMatch now) (releaseMatch now) a b v s)) = rd_match s"
  "rd_recentPartners (snd (acquireTwo (claimForMatch now) (releaseMatch now) a b v s)) = rd_recentPartners s"
  by (simp_all add: acquireTwo_def claimForMatch_def releaseMatch_def prod.case_eq_if)


section \<open>The index of waiting users\<close>

text \<open>A user with a readable entry is a member of the own shard and of the global one.\<close>

definition queueIndexed :: "instant \<Rightarrow> RedisState \<Rightarrow> bool" where
  "queueIndexed now s \<longleftrightarrow>
     (\<forall>shard. zsorted (rd_queue s shard)) \<and>
     (\<forall>u c. parsedEntry now s u = Some c \<longrightarrow>
        qc_userId c = u \<and> u \<in> zmembers (rd_queue s (shardFor (qc_country c))) \<and>
        u \<in> zmembers (rd_queue s GLOBAL_SHARD))"

text \<open>The steps that can touch the queue, on any node, in any order, with time passing in between. An
operation of another kind leaves entries and sorted sets alone.\<close>

inductive queueStep :: "instant \<times> RedisState \<Rightarrow> instant \<times> RedisState \<Rightarrow> bool" where
  step_join: "queueStep (now, s) (now, join now c s)"
| step_leave: "queueStep (now, s) (now, leave u country s)"
| step_get: "queueStep (now, s) (now, snd (getEntry now u s))"
| step_load: "queueStep (now, s) (now, snd (loadCandidates now shards u s))"
| step_time: "now \<le> now' \<Longrightarrow> queueStep (now, s) (now', s)"
| step_other: "rd_queueEntry s' = rd_queueEntry s \<Longrightarrow> rd_queue s' = rd_queue s \<Longrightarrow>
    queueStep (now, s) (now, s')"

inductive queueReachable :: "instant \<times> RedisState \<Rightarrow> bool" where
  reach_init: "queueReachable (now, emptyRedis)"
| reach_step: "queueReachable x \<Longrightarrow> queueStep x y \<Longrightarrow> queueReachable y"

inductive_cases queueStepE: "queueStep (now, s) y"

lemma parsedEntry_Some [guard_simps]:
  "parsedEntry now s u = Some c \<longleftrightarrow> live (rd_queueEntry s) now u = Some (Parsed c)"
  by (auto simp: parsedEntry_def split: option.splits stored.splits)

lemma rd_queue_updShard [table_simps]:
  "rd_queue (updShard shard f s) = (rd_queue s)(shard := f (rd_queue s shard))"
  "rd_queueEntry (updShard shard f s) = rd_queueEntry s"
  by (simp_all add: updShard_def)

lemma zmembers_fold_zrem [simp]: "zmembers (fold zrem ms z) = zmembers z - set ms"
  by (induction ms arbitrary: z) auto

lemma zsorted_fold_zrem: "zsorted z \<Longrightarrow> zsorted (fold zrem ms z)"
  by (induction ms arbitrary: z) (simp_all add: zsorted_zrem)

lemma join_entry:
  "rd_queueEntry (join now c s) =
   setEx now (ttl_queueEntry REDIS_TTL) (qc_userId c) (Parsed c) (rd_queueEntry s)"
  by (simp add: join_def Let_def table_simps)

lemma join_members:
  "zmembers (rd_queue (join now c s) shard) =
   (if shard = shardFor (qc_country c) \<or> shard = GLOBAL_SHARD
    then insert (qc_userId c) (zmembers (rd_queue s shard)) else zmembers (rd_queue s shard))"
  by (auto simp: join_def Let_def table_simps)

lemma join_sorted:
  "\<forall>sh. zsorted (rd_queue s sh) \<Longrightarrow> zsorted (rd_queue (join now c s) shard)"
  by (simp add: join_def Let_def table_simps zsorted_zadd)

lemma leave_members:
  "zmembers (rd_queue (leave u country s) shard) =
   (if shard = shardFor country \<or> shard = GLOBAL_SHARD
    then zmembers (rd_queue s shard) - {u} else zmembers (rd_queue s shard))"
  by (auto simp: leave_def table_simps)

lemma leave_entry: "rd_queueEntry (leave u country s) = delKey u (rd_queueEntry s)"
  by (simp add: leave_def table_simps)

lemma leave_sorted:
  "\<forall>sh. zsorted (rd_queue s sh) \<Longrightarrow> zsorted (rd_queue (leave u country s) shard)"
  by (simp add: leave_def table_simps zsorted_zrem)

lemma queueIndexed_join: "queueIndexed now s \<Longrightarrow> queueIndexed now (join now c s)"
  unfolding queueIndexed_def
  by (auto simp: guard_simps join_entry join_members join_sorted live_setEx split: if_splits)

lemma queueIndexed_leave: "queueIndexed now s \<Longrightarrow> queueIndexed now (leave u country s)"
  unfolding queueIndexed_def
  by (auto simp: guard_simps leave_entry leave_members leave_sorted live_delKey split: if_splits)

lemma queueIndexed_get: "queueIndexed now s \<Longrightarrow> queueIndexed now (snd (getEntry now u s))"
  unfolding queueIndexed_def getEntry_def
  by (auto simp: guard_simps live_delKey split: option.splits stored.splits if_splits)

lemma loadCandidates_entry:
  "rd_queueEntry (snd (loadCandidates now shards u s)) = rd_queueEntry s"
  by (simp add: loadCandidates_def Let_def)

lemma loadCandidates_members:
  "parsedEntry now s v = Some c \<Longrightarrow> v \<in> zmembers (rd_queue s shard) \<Longrightarrow>
   v \<in> zmembers (rd_queue (snd (loadCandidates now shards u s)) shard)"
  by (auto simp: loadCandidates_def Let_def)

lemma loadCandidates_sorted:
  "\<forall>sh. zsorted (rd_queue s sh) \<Longrightarrow> zsorted (rd_queue (snd (loadCandidates now shards u s)) shard)"
  by (simp add: loadCandidates_def Let_def zsorted_fold_zrem)

lemma queueIndexed_load:
  "queueIndexed now s \<Longrightarrow> queueIndexed now (snd (loadCandidates now shards u s))"
  using loadCandidates_members loadCandidates_sorted
  unfolding queueIndexed_def parsedEntry_def loadCandidates_entry by metis

lemma live_later: "now \<le> now' \<Longrightarrow> live r now' k = Some v \<Longrightarrow> live r now k = Some v"
  by (auto simp: live_def split: option.splits if_splits)

lemma queueIndexed_time: "now \<le> now' \<Longrightarrow> queueIndexed now s \<Longrightarrow> queueIndexed now' s"
  using live_later by (fastforce simp: queueIndexed_def guard_simps)

lemma queueIndexed_step:
  "queueIndexed (fst x) (snd x) \<Longrightarrow> queueStep x y \<Longrightarrow> queueIndexed (fst y) (snd y)"
  by (cases x, cases y)
     (auto elim!: queueStepE simp: queueIndexed_join queueIndexed_leave queueIndexed_get
       queueIndexed_load queueIndexed_time, simp add: queueIndexed_def parsedEntry_def)

lemma queueIndexed_reachable: "queueReachable x \<Longrightarrow> queueIndexed (fst x) (snd x)"
  by (induction rule: queueReachable.induct)
     (auto simp: queueIndexed_step, simp add: queueIndexed_def parsedEntry_def emptyRedis_def)

lemma scannedIds_global:
  assumes "GLOBAL_SHARD \<in> set shards" "length (rd_queue s GLOBAL_SHARD) \<le> SCAN_LIMIT"
    and "v \<in> zmembers (rd_queue s GLOBAL_SHARD)" "v \<noteq> u"
  shows "v \<in> set (scannedIds shards u s)"
  using assms zrange_all [OF assms(2)] by (auto simp: scannedIds_def)

lemma loadCandidates_result:
  "set (fst (loadCandidates now shards u s)) =
   {c. \<exists>v\<in>set (scannedIds shards u s). parsedEntry now s v = Some c}"
  by (auto simp: loadCandidates_def Let_def List.map_filter_def image_def)

section \<open>Properties\<close>

text \<open>Nobody who waits is overlooked. In every state that joins, leaves, scans with their lazy
clean-up and the passing of time can produce, a waiting user's snapshot is among the candidates of any
other user's scan at any relaxation stage, as long as the global shard holds at most the 250 users a
scan reads; and what a scan returns are exactly the readable entries of the scanned members.\<close>

theorem waiting_user_is_scanned:
  assumes "queueReachable (now, s)" and "parsedEntry now s v = Some c" and "v \<noteq> qc_userId seeker"
    and "length (rd_queue s GLOBAL_SHARD) \<le> SCAN_LIMIT"
  shows "c \<in> set (fst (loadCandidates now (shardsToScan seeker stage stages) (qc_userId seeker) s)) \<and>
         qc_userId c = v"
proof -
  have idx: "queueIndexed now s" using queueIndexed_reachable [OF assms(1)] by simp
  have "GLOBAL_SHARD \<in> set (shardsToScan seeker stage stages)"
    by (simp add: shardsToScan_def Let_def)
  with idx assms show ?thesis
    by (auto simp: loadCandidates_result queueIndexed_def intro!: bexI scannedIds_global)
qed

lemma waiting_user_is_scanned_witness:
  "plainCandidate ''b'' 0 \<in> set (fst (loadCandidates 0
      (shardsToScan (plainCandidate ''a'' 0) 0 DEFAULT_RELAXATION_STAGES) (qc_userId (plainCandidate ''a'' 0))
      (join 0 (plainCandidate ''b'' 0) emptyRedis))) \<and> qc_userId (plainCandidate ''b'' 0) = ''b''"
proof (rule waiting_user_is_scanned)
  show "queueReachable (0, join 0 (plainCandidate ''b'' 0) emptyRedis)"
    by (rule reach_step [OF reach_init step_join])
  show "parsedEntry 0 (join 0 (plainCandidate ''b'' 0) emptyRedis) ''b'' = Some (plainCandidate ''b'' 0)"
    by (simp add: guard_simps join_entry live_setEx) (simp add: plainCandidate_def)
  show "length (rd_queue (join 0 (plainCandidate ''b'' 0) emptyRedis) GLOBAL_SHARD) \<le> SCAN_LIMIT"
    by (simp add: join_def Let_def table_simps plainCandidate_def shardFor_def missingText_def
        emptyRedis_def zadd_def zrem_def SCAN_LIMIT_def)
qed (simp add: plainCandidate_def)

text \<open>Pairing locks are all or nothing and do not depend on the order in which the two users are
named: both are taken exactly when both were free, otherwise every lock is held by whoever held it
before; and releasing after a success restores the locks of before.\<close>

theorem acquirePairLocks_all_or_nothing:
  assumes "a \<noteq> b"
  shows "(let (ok, s') = acquirePairLocks now a b token s;
              held = (\<lambda>t u. live (rd_matchLock t) now u) in
            (ok \<longleftrightarrow> held s a = None \<and> held s b = None) \<and>
            held s' = (if ok then (held s)(a \<mapsto> token, b \<mapsto> token) else held s) \<and>
            (ok \<longrightarrow> held (releasePairLocks now a b token s') = held s)) \<and>
         acquirePairLocks now a b token s = acquirePairLocks now b a token s"
proof -
  obtain f g where fg: "lockOrder a b = (f, g)" by (cases "lockOrder a b")
  then have "f \<noteq> g" and ab: "a = f \<and> b = g \<or> a = g \<and> b = f"
    using assms by (auto simp: lockOrder_def split: if_splits)
  then show ?thesis
    using locks.acquireTwo_ok [of f g now token s] locks.acquireTwo_success [of f g now token s]
      locks.acquireTwo_failure [of f g now token s] locks.release_after_acquire [of f g now token s]
    by (auto simp: acquirePairLocks_def releasePairLocks_def fg lockOrder_commute [of b a]
        prod.case_eq_if Let_def fun_upd_twist)
qed

lemma acquirePairLocks_all_or_nothing_witness:
  "acquirePairLocks 0 ''b'' ''a'' ''t'' emptyRedis = acquirePairLocks 0 ''a'' ''b'' ''t'' emptyRedis"
  using acquirePairLocks_all_or_nothing [of "''a''" "''b''" 0 "''t''" emptyRedis] by simp

text \<open>The cached block list reads back what was stored, the empty list included, until its time to
live ends; an invalidation makes the next read miss.\<close>

theorem block_cache_roundtrip:
  assumes "NO_BLOCKS \<notin> set bs" and "now \<le> now'" and "now' < now + 300000"
  shows "(\<exists>cached. getCachedBlocks now' u (cacheBlocks now u bs s) = Some cached \<and> set cached = set bs) \<and>
         getCachedBlocks now' u (invalidateBlocks u (cacheBlocks now u bs s)) = None"
proof -
  have "live (rd_blockCache (cacheBlocks now u bs s)) now' u = Some (sadd (NO_BLOCKS # bs) [])"
    using assms by (simp add: cacheBlocks_def live_def setEx_def expiry_def REDIS_TTL_def)
  moreover have "sadd (NO_BLOCKS # bs) [] \<noteq> []"
    using set_sadd [of "NO_BLOCKS # bs" "[]"] by fastforce
  ultimately show ?thesis
    using assms(1) by (auto simp: getCachedBlocks_def invalidateBlocks_def live_delKey)
qed

lemma block_cache_roundtrip_witness:
  "(\<exists>cached. getCachedBlocks 1000 ''u'' (cacheBlocks 0 ''u'' [] emptyRedis) = Some cached \<and> set cached = set []) \<and>
   getCachedBlocks 1000 ''u'' (invalidateBlocks ''u'' (cacheBlocks 0 ''u'' [] emptyRedis)) = None"
  by (rule block_cache_roundtrip) simp_all

text \<open>Pressing Next twice within the cooldown is refused with a positive wait: after an allowed
press, every press in the following \<open>minSeconds\<close> (rounded up, less the half second of rounding of the
time to live) is answered with the remaining seconds, which never exceed the cooldown.\<close>

theorem skip_cooldown_enforced:
  assumes "0 < minSeconds" and "live (rd_skipCooldown s) now u = None"
    and "now \<le> now'" and "now' + 500 \<le> now + \<lceil>minSeconds\<rceil> * 1000"
  shows "fst (checkSkipCooldown now u minSeconds s) = 0 \<and>
         0 < fst (checkSkipCooldown now' u minSeconds (snd (checkSkipCooldown now u minSeconds s))) \<and>
         fst (checkSkipCooldown now' u minSeconds (snd (checkSkipCooldown now u minSeconds s)))
           \<le> \<lceil>minSeconds\<rceil>"
proof -
  have first: "checkSkipCooldown now u minSeconds s =
      (0, s\<lparr>rd_skipCooldown := setEx now \<lceil>minSeconds\<rceil> u () (rd_skipCooldown s)\<rparr>)"
    using assms(1,2) by (auto simp: checkSkipCooldown_def live_def split: option.splits if_splits)
  have "checkSkipCooldown now' u minSeconds (snd (checkSkipCooldown now u minSeconds s)) =
      (max 0 ((now + \<lceil>minSeconds\<rceil> * 1000 - now' + 500) div 1000),
       snd (checkSkipCooldown now u minSeconds s))"
    using assms unfolding first by (simp add: checkSkipCooldown_def setEx_def expiry_def)
  then show ?thesis using first assms(3,4) by auto
qed

lemma skip_cooldown_enforced_witness:
  "fst (checkSkipCooldown 0 ''u'' 2 emptyRedis) = 0 \<and>
   0 < fst (checkSkipCooldown 700 ''u'' 2 (snd (checkSkipCooldown 0 ''u'' 2 emptyRedis))) \<and>
   fst (checkSkipCooldown 700 ''u'' 2 (snd (checkSkipCooldown 0 ''u'' 2 emptyRedis))) \<le> \<lceil>2 :: rat\<rceil>"
  by (rule skip_cooldown_enforced) (simp_all add: emptyRedis_def)

text \<open>Occupancy does not survive the hour. A claim made at \<open>now\<close> holds while nobody releases it for
3600 seconds and lapses then, although no operation of the repository renews it and the conversation may
still be running: from that instant another match can claim the user.\<close>

theorem occupancy_lapses_after_an_hour:
  assumes "currentMatch now u s = None"
  shows "(let s' = snd (claimForMatch now u m s) in
            (\<forall>t. now \<le> t \<and> t < now + 3600000 \<longrightarrow> currentMatch t u s' = Some m) \<and>
            currentMatch (now + 3600000) u s' = None \<and>
            fst (claimForMatch (now + 3600000) u m' s'))"
  using assms
  by (auto simp: claimForMatch_def currentMatch_def setNxEx_def setEx_def live_def expiry_def
      REDIS_TTL_def split: option.splits if_splits)

lemma occupancy_lapses_after_an_hour_witness:
  "(let s' = snd (claimForMatch 0 ''u'' ''m1'' emptyRedis) in
      currentMatch 3600000 ''u'' s' = None \<and> fst (claimForMatch 3600000 ''u'' ''m2'' s'))"
  using occupancy_lapses_after_an_hour [of 0 "''u''" emptyRedis "''m1''" "''m2''"]
  by (simp add: Let_def emptyRedis_def currentMatch_def)

end
