(* ===== verification/Database.thy ===== *)
theory Database
  imports Matchmaking Privacy
begin

text \<open>The rows of the identity, safety and match tables of \<^verbatim>\<open>packages/database/prisma/schema.prisma\<close>
as far as the modelled code reads or writes them, and the query helpers of
\<^verbatim>\<open>packages/database/src/queries.ts\<close>. A table that is read by its key is a map, a table that is
scanned or ordered by time is a list in insertion order (the user table has both: the rows by id,
and the ids in order); one row update is one function on the
whole \<open>Db\<close>. The store itself (Postgres behind Prisma) is taken as reliable.\<close>

section \<open>Rows\<close>

record ProfileRow =
  pr_displayName :: "string option"
  pr_avatarUrl :: "string option"
  pr_bio :: "string option"
  pr_birthDate :: BirthDate
  pr_gender :: Gender
  pr_country :: "string option"
  pr_languages :: "string list"
  pr_locale :: string

record PreferenceRow =
  pf_preferredGender :: GenderPreference
  pf_preferredCountries :: "string list"
  pf_preferredLanguages :: "string list"
  pf_preferredAgeBrackets :: "AgeBracket list"

record UserRow =
  u_email :: string
  u_username :: string
  u_passwordHash :: "string option"
  u_role :: UserRole
  u_status :: AccountStatus
  u_plan :: PlanTier
  u_emailVerified :: bool
  u_emailVerifiedAt :: "instant option"
  u_tokenGeneration :: int
  u_failedLoginAttempts :: int
  u_lockedUntil :: "instant option"
  u_lastLoginAt :: "instant option"
  u_lastIpHash :: "string option"
  u_createdAt :: instant
  u_deletionRequestedAt :: "instant option"
  u_deletedAt :: "instant option"
  u_profile :: "ProfileRow option"
  u_privacy :: "PrivacySettings option"
  u_preference :: "PreferenceRow option"
  u_interests :: "string list"

record SessionRow =
  s_id :: row_id
  s_userId :: user_id
  s_refreshTokenHash :: string
  s_rotationCounter :: int
  s_revokedAt :: "instant option"
  s_revokedReason :: "string option"
  s_expiresAt :: instant
  s_lastUsedAt :: instant
  s_userAgent :: "string option"
  s_ipHash :: string

datatype VerificationTokenKind = EMAIL_VERIFICATION | PASSWORD_RESET | EMAIL_CHANGE

record VerificationTokenRow =
  v_id :: row_id
  v_userId :: user_id
  v_kind :: VerificationTokenKind
  v_tokenHash :: string
  v_consumedAt :: "instant option"
  v_expiresAt :: instant
  v_createdAt :: instant

record BlockRow =
  b_blockerId :: user_id
  b_blockedUserId :: user_id

record ConnectionRow =
  c_id :: row_id
  c_userAId :: user_id
  c_userBId :: user_id
  c_originMatchId :: "match_id option"
  c_createdAt :: instant

record ConnectionRequestRow =
  q_id :: row_id
  q_fromUserId :: user_id
  q_toUserId :: user_id
  q_status :: ConnectionRequestStatus
  q_message :: "string option"
  q_matchId :: "match_id option"
  q_respondedAt :: "instant option"
  q_expiresAt :: "instant option"
  q_createdAt :: instant

record MatchRow =
  m_startedAt :: instant
  m_endedAt :: "instant option"
  m_durationSeconds :: "int option"
  m_endReason :: "MatchEndReason option"
  m_endedById :: "user_id option"
  m_seekerStage :: "nat option"
  m_candidateStage :: "nat option"
  m_nodeId :: "string option"

record ParticipantRow =
  p_matchId :: match_id
  p_userId :: user_id
  p_wasInitiator :: bool
  p_connectionQuality :: "ConnectionQuality option"
  p_leftAt :: "instant option"

record ReportRow =
  r_id :: row_id
  r_reporterId :: "user_id option"
  r_reportedUserId :: user_id
  r_matchId :: "match_id option"
  r_category :: ReportCategory
  r_details :: "string option"
  r_status :: ReportStatus
  r_reviewedById :: "user_id option"
  r_reviewedAt :: "instant option"
  r_moderatorNotes :: "string option"
  r_createdAt :: instant

record ModerationActionRow =
  a_targetUserId :: user_id
  a_moderatorId :: "user_id option"
  a_type :: ModerationActionType
  a_reason :: string
  a_notes :: "string option"
  a_expiresAt :: "instant option"
  a_createdAt :: instant

record BanRow =
  n_userId :: user_id
  n_issuedById :: "user_id option"
  n_scope :: BanScope
  n_reason :: string
  n_permanent :: bool
  n_expiresAt :: "instant option"
  n_liftedAt :: "instant option"
  n_liftedById :: "user_id option"
  n_createdAt :: instant

record AuditRow =
  l_actorId :: "user_id option"
  l_actorType :: AuditActorType
  l_action :: string
  l_targetType :: "string option"
  l_targetId :: "string option"
  l_ipHash :: "string option"
  l_createdAt :: instant

record Db =
  db_users :: "user_id \<rightharpoonup> UserRow"
  db_userIds :: "user_id list"
  db_sessions :: "SessionRow list"
  db_verificationTokens :: "VerificationTokenRow list"
  db_blocks :: "BlockRow list"
  db_connections :: "ConnectionRow list"
  db_requests :: "ConnectionRequestRow list"
  db_matches :: "match_id \<rightharpoonup> MatchRow"
  db_participants :: "ParticipantRow list"
  db_reports :: "ReportRow list"
  db_modActions :: "ModerationActionRow list"
  db_bans :: "BanRow list"
  db_audit :: "AuditRow list"

definition emptyDb :: Db where
  "emptyDb =
     \<lparr>db_users = (\<lambda>k. None), db_userIds = [], db_sessions = [], db_verificationTokens = [], db_blocks = [],
      db_connections = [], db_requests = [], db_matches = (\<lambda>k. None), db_participants = [],
      db_reports = [], db_modActions = [], db_bans = [], db_audit = []\<rparr>"

text \<open>\<^verbatim>\<open>updateMany({ where: P, data })\<close> and \<^verbatim>\<open>findFirst({ orderBy: { createdAt: 'desc' } })\<close>.\<close>

definition updateWhere :: "('r \<Rightarrow> bool) \<Rightarrow> ('r \<Rightarrow> 'r) \<Rightarrow> 'r list \<Rightarrow> 'r list" where
  "updateWhere P f rows = map (\<lambda>r. if P r then f r else r) rows"

definition latestBy :: "('r \<Rightarrow> instant) \<Rightarrow> 'r list \<Rightarrow> 'r option" where
  "latestBy createdAt rows =
     foldl (\<lambda>best r. case best of None \<Rightarrow> Some r
             | Some b \<Rightarrow> if createdAt b \<le> createdAt r then Some r else best) None rows"

definition updateUser :: "user_id \<Rightarrow> (UserRow \<Rightarrow> UserRow) \<Rightarrow> Db \<Rightarrow> Db" where
  "updateUser u f db = db\<lparr>db_users := tableModify u f (db_users db)\<rparr>"

lemma length_updateWhere [simp]: "length (updateWhere P f rows) = length rows"
  by (simp add: updateWhere_def)

lemma set_updateWhere: "r \<in> set (updateWhere P f rows) \<longleftrightarrow>
    (\<exists>q\<in>set rows. r = (if P q then f q else q))"
  by (auto simp: updateWhere_def)

lemma map_updateWhere [simp]:
  "(\<And>r. g (f r) = g r) \<Longrightarrow> map g (updateWhere P f rows) = map g rows"
  by (induction rows) (auto simp: updateWhere_def)

lemma find_updateWhere:
  "(\<And>r. P (f r) = P r) \<Longrightarrow> find P (updateWhere Q f rows) = map_option (\<lambda>r. if Q r then f r else r) (find P rows)"
  by (induction rows) (auto simp: updateWhere_def)

lemma filter_updateWhere:
  "(\<And>r. P r \<Longrightarrow> \<not> Q r \<and> \<not> Q (f r)) \<Longrightarrow> filter Q (updateWhere P f rows) = filter Q rows"
  by (induction rows) (auto simp: updateWhere_def)

lemma latestBy_snoc:
  "latestBy t (rows @ [r]) =
   (case latestBy t rows of None \<Rightarrow> Some r | Some b \<Rightarrow> if t b \<le> t r then Some r else Some b)"
  by (auto simp: latestBy_def split: option.split)

lemma latestBy_None [simp]: "latestBy t rows = None \<longleftrightarrow> rows = []"
  by (induction rows rule: rev_induct) (auto simp: latestBy_snoc latestBy_def split: option.splits)

lemma latestBy_Some:
  "latestBy t rows = Some b \<Longrightarrow> b \<in> set rows \<and> (\<forall>r\<in>set rows. t r \<le> t b)"
proof (induction rows arbitrary: b rule: rev_induct)
  case (snoc r rows)
  then show ?case
    by (cases "latestBy t rows") (auto simp: latestBy_snoc split: if_splits)
qed (simp add: latestBy_def)

lemma db_users_updateUser [table_simps]:
  "db_users (updateUser u f db) v = (if v = u then map_option f (db_users db u) else db_users db v)"
  by (simp add: updateUser_def tableModify_apply)

lemma updateUser_other [simp]:
  "db_userIds (updateUser u f db) = db_userIds db"
  "db_sessions (updateUser u f db) = db_sessions db"
  "db_verificationTokens (updateUser u f db) = db_verificationTokens db"
  "db_blocks (updateUser u f db) = db_blocks db"
  "db_connections (updateUser u f db) = db_connections db"
  "db_requests (updateUser u f db) = db_requests db"
  "db_matches (updateUser u f db) = db_matches db"
  "db_participants (updateUser u f db) = db_participants db"
  "db_reports (updateUser u f db) = db_reports db"
  "db_modActions (updateUser u f db) = db_modActions db"
  "db_bans (updateUser u f db) = db_bans db"
  "db_audit (updateUser u f db) = db_audit db"
  by (simp_all add: updateUser_def)

section \<open>Blocks and connections\<close>

definition getBlockedUserIds :: "user_id \<Rightarrow> Db \<Rightarrow> user_id list" where
  "getBlockedUserIds userId db =
     dedup (map (\<lambda>row. if b_blockerId row = userId then b_blockedUserId row else b_blockerId row)
       (filter (\<lambda>row. b_blockerId row = userId \<or> b_blockedUserId row = userId) (db_blocks db)))"

definition orderConnectionPair :: "user_id \<Rightarrow> user_id \<Rightarrow> user_id \<times> user_id" where
  "orderConnectionPair a b = (if a < b then (a, b) else (b, a))"

definition areConnected :: "user_id \<Rightarrow> user_id \<Rightarrow> Db \<Rightarrow> bool" where
  "areConnected a b db =
     (let (x, y) = orderConnectionPair a b
      in list_ex (\<lambda>c. c_userAId c = x \<and> c_userBId c = y) (db_connections db))"

definition isBlockedBetween :: "user_id \<Rightarrow> user_id \<Rightarrow> Db \<Rightarrow> bool" where
  "isBlockedBetween a b db =
     list_ex (\<lambda>r. b_blockerId r = a \<and> b_blockedUserId r = b \<or>
                  b_blockerId r = b \<and> b_blockedUserId r = a) (db_blocks db)"

text \<open>\<^verbatim>\<open>block.upsert\<close> on the unique pair, with an empty update.\<close>

definition upsertBlock :: "user_id \<Rightarrow> user_id \<Rightarrow> Db \<Rightarrow> Db" where
  "upsertBlock blocker blocked db =
     (if list_ex (\<lambda>r. b_blockerId r = blocker \<and> b_blockedUserId r = blocked) (db_blocks db) then db
      else db\<lparr>db_blocks := db_blocks db @ [\<lparr>b_blockerId = blocker, b_blockedUserId = blocked\<rparr>]\<rparr>)"

section \<open>Candidates and profiles\<close>

definition loadMatchCandidate :: "user_id \<Rightarrow> Db \<Rightarrow> UserRow option" where
  "loadMatchCandidate userId db =
     (case db_users db userId of
        None \<Rightarrow> None | Some u \<Rightarrow> if u_deletedAt u = None then Some u else None)"

definition internalRecordOf :: "user_id \<Rightarrow> UserRow \<Rightarrow> InternalUserRecord" where
  "internalRecordOf uid row =
     \<lparr>iu_id = uid, iu_username = u_username row,
      iu_displayName = Option.bind (u_profile row) pr_displayName,
      iu_avatarUrl = Option.bind (u_profile row) pr_avatarUrl,
      iu_country = Option.bind (u_profile row) pr_country,
      iu_birthDate = (case u_profile row of None \<Rightarrow> NoBirthDate | Some p \<Rightarrow> pr_birthDate p),
      iu_languages = (case u_profile row of None \<Rightarrow> [] | Some p \<Rightarrow> pr_languages p),
      iu_gender = map_option pr_gender (u_profile row),
      iu_interests = u_interests row,
      iu_bio = Option.bind (u_profile row) pr_bio,
      iu_emailVerified = u_emailVerified row, iu_plan = u_plan row,
      iu_email = None, iu_passwordHash = None, iu_lastIpHash = None, iu_safetyScore = None,
      iu_role = None, iu_status = None, iu_moderatorNotes = None, iu_city = None,
      iu_latitude = None, iu_longitude = None\<rparr>"

text \<open>\<^verbatim>\<open>{ ...DEFAULT, ...row.privacy, fieldOverrides: {} }\<close>: every switch comes from the row.\<close>

definition effectivePrivacy :: "PrivacySettings option \<Rightarrow> PrivacySettings" where
  "effectivePrivacy p =
     (case p of None \<Rightarrow> DEFAULT_PRIVACY_SETTINGS | Some q \<Rightarrow> q\<lparr>fieldOverrides := []\<rparr>)"

definition toPublicProfileFromRow :: "user_id \<Rightarrow> UserRow \<Rightarrow> UtcDate \<Rightarrow> PublicProfile" where
  "toPublicProfileFromRow uid row today =
     toPublicProfile (internalRecordOf uid row) (effectivePrivacy (u_privacy row)) today"

section \<open>Restrictions\<close>

record Restriction =
  rs_status :: AccountStatus
  rs_reason :: string
  rs_expiresAt :: "instant option"

definition pastExpiry :: "instant option \<Rightarrow> instant \<Rightarrow> bool" where
  "pastExpiry e now = (case e of None \<Rightarrow> False | Some t \<Rightarrow> t \<le> now)"

definition getActiveRestriction :: "user_id \<Rightarrow> instant \<Rightarrow> Db \<Rightarrow> Restriction option \<times> Db" where
  "getActiveRestriction userId now db =
     (case db_users db userId of
        None \<Rightarrow> (None, db)
      | Some user \<Rightarrow>
          if u_status user = AccountStatus_BANNED then
            (let openBan = (\<lambda>n. n_userId n = userId \<and> n_liftedAt n = None);
                 ban = latestBy n_createdAt (filter openBan (db_bans db))
             in case ban of
                  Some b \<Rightarrow>
                    if \<not> n_permanent b \<and> pastExpiry (n_expiresAt b) now then
                      (None, updateUser userId (\<lambda>u. u\<lparr>u_status := AccountStatus_ACTIVE\<rparr>)
                        (db\<lparr>db_bans := updateWhere openBan (\<lambda>n. n\<lparr>n_liftedAt := Some now\<rparr>) (db_bans db)\<rparr>))
                    else (Some \<lparr>rs_status = AccountStatus_BANNED, rs_reason = n_reason b,
                                rs_expiresAt = n_expiresAt b\<rparr>, db)
                | None \<Rightarrow>
                    (Some \<lparr>rs_status = AccountStatus_BANNED,
                           rs_reason = ''Your account has been permanently restricted.'',
                           rs_expiresAt = None\<rparr>, db))
          else if u_status user = AccountStatus_SUSPENDED then
            (let suspension = latestBy a_createdAt
                   (filter (\<lambda>a. a_targetUserId a = userId \<and> a_type a = ModerationActionType_SUSPENSION)
                     (db_modActions db))
             in case suspension of
                  Some s \<Rightarrow>
                    if pastExpiry (a_expiresAt s) now then
                      (None, updateUser userId (\<lambda>u. u\<lparr>u_status := AccountStatus_ACTIVE\<rparr>) db)
                    else (Some \<lparr>rs_status = AccountStatus_SUSPENDED, rs_reason = a_reason s,
                                rs_expiresAt = a_expiresAt s\<rparr>, db)
                | None \<Rightarrow>
                    (Some \<lparr>rs_status = AccountStatus_SUSPENDED,
                           rs_reason = ''Your account is temporarily restricted.'',
                           rs_expiresAt = None\<rparr>, db))
          else (None, db))"

definition getReportHistory :: "user_id \<Rightarrow> Db \<Rightarrow> nat \<times> nat" where
  "getReportHistory userId db =
     (length (filter (\<lambda>r. r_reportedUserId r = userId) (db_reports db)),
      length (filter (\<lambda>r. r_reportedUserId r = userId \<and> r_status r = ReportStatus_ACTIONED)
        (db_reports db)))"

section \<open>Facts\<close>

lemma getBlockedUserIds_iff:
  "a \<noteq> b \<Longrightarrow> b \<in> set (getBlockedUserIds a db) \<longleftrightarrow> isBlockedBetween a b db"
  by (auto simp: getBlockedUserIds_def isBlockedBetween_def list_ex_iff)

lemma isBlockedBetween_commute: "isBlockedBetween a b db = isBlockedBetween b a db"
  by (auto simp: isBlockedBetween_def list_ex_iff)

lemma orderConnectionPair_commute: "orderConnectionPair a b = orderConnectionPair b a"
  by (auto simp: orderConnectionPair_def)

lemma areConnected_commute: "areConnected a b db = areConnected b a db"
  by (simp add: areConnected_def orderConnectionPair_commute [of a b])

lemma orderConnectionPair_inject:
  "orderConnectionPair a b = orderConnectionPair c d \<longleftrightarrow> {a, b} = {c, d}"
  by (auto simp: orderConnectionPair_def doubleton_eq_iff split: if_splits)

lemma upsertBlock_blocks: "isBlockedBetween a b (upsertBlock a b db)"
  by (auto simp: upsertBlock_def isBlockedBetween_def list_ex_iff)

lemma upsertBlock_mono:
  "isBlockedBetween a b db \<Longrightarrow> isBlockedBetween a b (upsertBlock c d db)"
  by (auto simp: upsertBlock_def isBlockedBetween_def list_ex_iff)

lemma upsertBlock_unique:
  "distinct (db_blocks db) \<Longrightarrow> distinct (db_blocks (upsertBlock a b db))"
  by (auto simp: upsertBlock_def list_ex_iff)

lemma upsertBlock_users [simp]: "db_users (upsertBlock a b db) = db_users db"
  by (simp add: upsertBlock_def)

lemma getActiveRestriction_status:
  assumes "getActiveRestriction userId now db = (Some r, db')"
  shows "\<exists>u. db_users db userId = Some u \<and> rs_status r = u_status u \<and> db' = db \<and>
             u_status u \<in> {AccountStatus_BANNED, AccountStatus_SUSPENDED}"
  using assms
  by (auto simp: getActiveRestriction_def Let_def split: option.splits if_splits)

lemma getActiveRestriction_cleared:
  assumes "getActiveRestriction userId now db = (None, db')" and "db_users db userId = Some u"
  shows "\<exists>u'. db_users db' userId = Some u' \<and> u_status u' \<notin> {AccountStatus_BANNED, AccountStatus_SUSPENDED}"
  using assms
  by (auto simp: getActiveRestriction_def Let_def table_simps split: option.splits if_splits)


lemma getActiveRestriction_lapsed:
  assumes "db_users db userId = Some u" and "u_status u = AccountStatus_SUSPENDED"
    and "latestBy a_createdAt (filter (\<lambda>a. a_targetUserId a = userId \<and>
           a_type a = ModerationActionType_SUSPENSION) (db_modActions db)) = Some s"
  shows "fst (getActiveRestriction userId now db) = None \<longleftrightarrow> pastExpiry (a_expiresAt s) now"
  using assms by (simp add: getActiveRestriction_def)

section \<open>Properties\<close>

text \<open>A block keeps two users apart in both directions, whoever placed it: each finds the other in
the list of excluded users, and a seeker whose exclusions were read from the table is never handed the
other, whatever the stage, the score or the pool.\<close>

theorem blocked_pair_never_selected:
  assumes "isBlockedBetween a b db" and "a \<noteq> b"
    and "qc_userId seeker = a" and "qc_excludedUserIds seeker = getBlockedUserIds a db"
  shows "b \<in> set (getBlockedUserIds a db) \<and> a \<in> set (getBlockedUserIds b db) \<and>
         (case selectBestMatch seeker pool now stages occupied of
            None \<Rightarrow> True | Some m \<Rightarrow> qc_userId (ms_candidate m) \<noteq> b)"
proof -
  have in_a: "b \<in> set (getBlockedUserIds a db)" and "a \<in> set (getBlockedUserIds b db)"
    using assms(1,2) getBlockedUserIds_iff isBlockedBetween_commute [of a b db] by auto
  moreover have "checkHardRules seeker c occupied \<noteq> None" if "qc_userId c = b" for c
    using in_a assms that by (simp add: checkHardRules_def)
  ultimately show ?thesis
    using selectBestMatch_Some(3) [of seeker pool now stages occupied]
    by (auto simp: legalPair_def split: option.split) (metis option.distinct(1))
qed

lemma blocked_pair_never_selected_witness:
  "''b'' \<in> set (getBlockedUserIds ''a'' (upsertBlock ''b'' ''a'' emptyDb)) \<and>
   ''a'' \<in> set (getBlockedUserIds ''b'' (upsertBlock ''b'' ''a'' emptyDb)) \<and>
   (case selectBestMatch (plainCandidate ''a'' 0 \<lparr>qc_excludedUserIds := [''b'']\<rparr>)
      [plainCandidate ''b'' 0] 10 DEFAULT_RELAXATION_STAGES [] of
      None \<Rightarrow> True | Some m \<Rightarrow> qc_userId (ms_candidate m) \<noteq> ''b'')"
  by (rule blocked_pair_never_selected)
     (simp_all add: upsertBlock_def emptyDb_def isBlockedBetween_def getBlockedUserIds_def
        dedup_def plainCandidate_def)

text \<open>After \<open>getActiveRestriction\<close> the stored status and the answer agree: a restriction is reported
exactly when the account is still stored as banned or suspended, it names that status, and reading
never changes an account that stays restricted.\<close>

theorem getActiveRestriction_agrees:
  assumes "db_users db userId = Some u" and "getActiveRestriction userId now db = (r, db')"
  shows "(case r of
            None \<Rightarrow> (\<exists>u'. db_users db' userId = Some u' \<and>
                      u_status u' \<notin> {AccountStatus_BANNED, AccountStatus_SUSPENDED})
          | Some x \<Rightarrow> db' = db \<and> rs_status x = u_status u \<and>
                      u_status u \<in> {AccountStatus_BANNED, AccountStatus_SUSPENDED})"
  using assms getActiveRestriction_status [of userId now db] getActiveRestriction_cleared [of userId now db]
  by (cases r) (simp, fastforce)

definition exampleRow :: UserRow where
  "exampleRow =
     \<lparr>u_email = ''ana@example.com'', u_username = ''ana'', u_passwordHash = Some ''h'',
      u_role = UserRole_USER, u_status = AccountStatus_ACTIVE, u_plan = PlanTier_FREE,
      u_emailVerified = True, u_emailVerifiedAt = None, u_tokenGeneration = 0, u_failedLoginAttempts = 0,
      u_lockedUntil = None, u_lastLoginAt = None, u_lastIpHash = None, u_createdAt = 0,
      u_deletionRequestedAt = None, u_deletedAt = None,
      u_profile = None, u_privacy = None, u_preference = None, u_interests = []\<rparr>"

lemma getActiveRestriction_agrees_witness:
  "\<exists>u'. db_users (emptyDb\<lparr>db_users := [''u'' \<mapsto> exampleRow]\<rparr>) ''u'' = Some u' \<and>
     u_status u' \<notin> {AccountStatus_BANNED, AccountStatus_SUSPENDED}"
  using getActiveRestriction_agrees [of "emptyDb\<lparr>db_users := [''u'' \<mapsto> exampleRow]\<rparr>" "''u''"
      exampleRow 0 None "emptyDb\<lparr>db_users := [''u'' \<mapsto> exampleRow]\<rparr>"]
  by (simp add: getActiveRestriction_def exampleRow_def)

end
