(* ===== verification/Matchmaker.thy ===== *)
theory Matchmaker
  imports Queue_Repository Database
begin

text \<open>The engine of \<^verbatim>\<open>apps/realtime/src/matchmaker.ts\<close>: \<open>tryMatch\<close> reads candidates, selects, locks,
re-verifies, claims both users and persists the match; \<open>endMatch\<close> releases them and finalises the row.
\<open>World\<close> is Redis with the database. Fresh uuids are arguments. \<open>pairStep\<close> interleaves the claims and
releases of any number of concurrent attempts on any number of nodes, one Redis command per step.\<close>

section \<open>State and results\<close>

record World =
  w_redis :: RedisState
  w_db :: Db

record MatchmakingSettings =
  relaxationStages :: "RelaxationStage list"
  maxQueueSeconds :: int
  skipCooldownSeconds :: int
  minSecondsBetweenSkips :: rat
  negotiationTimeoutMs :: int

record MatchResult =
  mr_matchId :: match_id
  mr_seekerId :: user_id
  mr_seekerIsInitiator :: bool
  mr_partnerId :: user_id
  mr_partnerIsInitiator :: bool
  mr_sharedInterestIds :: "string list"
  mr_seekerStage :: nat
  mr_candidateStage :: nat

definition onRedis :: "(RedisState \<Rightarrow> RedisState) \<Rightarrow> World \<Rightarrow> World" where
  "onRedis f w = w\<lparr>w_redis := f (w_redis w)\<rparr>"

section \<open>Building a candidate\<close>

fun PLAN_PRIORITY :: "PlanTier \<Rightarrow> int" where
  "PLAN_PRIORITY PlanTier_FREE = 0"
| "PLAN_PRIORITY PlanTier_PLUS = 1"
| "PLAN_PRIORITY PlanTier_PREMIUM = 2"

definition buildCandidate ::
    "instant \<Rightarrow> user_id \<Rightarrow> PlanTier \<Rightarrow> PublicProfile \<Rightarrow> PreferenceRow \<Rightarrow> string list \<Rightarrow> user_id list \<Rightarrow>
     user_id list \<Rightarrow> bool \<Rightarrow> QueueCandidate" where
  "buildCandidate now userId plan profile preferences interestIds excluded recent priorityQueueEnabled =
     \<lparr>qc_userId = userId, qc_queuedAt = now, qc_gender = pp_gender profile,
      qc_country = pp_country profile, qc_languages = pp_languages profile,
      qc_ageBracket = pp_ageBracket profile, qc_interestIds = interestIds,
      qc_preferredGender = pf_preferredGender preferences,
      qc_preferredCountries = pf_preferredCountries preferences,
      qc_preferredLanguages = pf_preferredLanguages preferences,
      qc_preferredAgeBrackets = pf_preferredAgeBrackets preferences,
      qc_excludedUserIds = excluded, qc_recentPartnerIds = recent,
      qc_priority = (if priorityQueueEnabled then PLAN_PRIORITY plan else 0)\<rparr>"

section \<open>Pairing\<close>

text \<open>The write of the match row; a failing insert (the id exists, a user row is gone) is logged and
otherwise ignored.\<close>

definition persistMatch ::
    "instant \<Rightarrow> string \<Rightarrow> match_id \<Rightarrow> user_id \<Rightarrow> user_id \<Rightarrow> MatchSelection \<Rightarrow> Db \<Rightarrow> Db" where
  "persistMatch now nodeId matchId seekerId partnerId selection db =
     (if db_matches db matchId \<noteq> None \<or> db_users db seekerId = None \<or> db_users db partnerId = None
      then db
      else db\<lparr>db_matches := (db_matches db)(matchId \<mapsto>
                 \<lparr>m_startedAt = now, m_endedAt = None, m_durationSeconds = None, m_endReason = None,
                  m_endedById = None, m_seekerStage = Some (ms_seekerStage selection),
                  m_candidateStage = Some (ms_candidateStage selection), m_nodeId = Some nodeId\<rparr>),
              db_participants := db_participants db @
                [\<lparr>p_matchId = matchId, p_userId = seekerId, p_wasInitiator = True,
                  p_connectionQuality = None, p_leftAt = None\<rparr>,
                 \<lparr>p_matchId = matchId, p_userId = partnerId, p_wasInitiator = False,
                  p_connectionQuality = None, p_leftAt = None\<rparr>]\<rparr>)"

definition claimBoth :: "instant \<Rightarrow> user_id \<Rightarrow> user_id \<Rightarrow> match_id \<Rightarrow> RedisState \<Rightarrow> bool \<times> RedisState" where
  "claimBoth now seekerId partnerId matchId s =
     acquireTwo (claimForMatch now) (releaseMatch now) seekerId partnerId matchId s"

text \<open>What happens while the pairing locks are held: verify again, claim, leave the queue, persist,
remember the partners.\<close>

definition commitPair ::
    "instant \<Rightarrow> string \<Rightarrow> user_id \<Rightarrow> QueueCandidate \<Rightarrow> MatchSelection \<Rightarrow> MatchmakingSettings \<Rightarrow> match_id \<Rightarrow>
     World \<Rightarrow> bool \<times> World" where
  "commitPair now nodeId seekerId seeker selection settings matchId w =
     (let partnerId = qc_userId (ms_candidate selection);
          r = w_redis w in
      if \<not> isQueued now seekerId r \<or> \<not> isQueued now partnerId r \<or>
         currentMatch now seekerId r \<noteq> None \<or> currentMatch now partnerId r \<noteq> None
      then (False, w)
      else let (ok, r1) = claimBoth now seekerId partnerId matchId r in
        if \<not> ok then (False, w\<lparr>w_redis := r1\<rparr>)
        else let r2 = leave partnerId (qc_country (ms_candidate selection))
                        (leave seekerId (qc_country seeker) r1);
                 db = persistMatch now nodeId matchId seekerId partnerId selection (w_db w);
                 r3 = recordRecentPartner now partnerId seekerId (skipCooldownSeconds settings)
                        (recordRecentPartner now seekerId partnerId (skipCooldownSeconds settings) r2)
             in (True, \<lparr>w_redis = r3, w_db = db\<rparr>))"

definition tryMatch ::
    "instant \<Rightarrow> string \<Rightarrow> user_id \<Rightarrow> MatchmakingSettings \<Rightarrow> string \<Rightarrow> match_id \<Rightarrow> World \<Rightarrow>
     MatchResult option \<times> World" where
  "tryMatch now nodeId seekerId settings lockToken matchId w =
     (case getEntry now seekerId (w_redis w) of
        (None, r) \<Rightarrow> (None, w\<lparr>w_redis := r\<rparr>)
      | (Some seeker, r) \<Rightarrow>
          if currentMatch now seekerId r \<noteq> None then (None, w\<lparr>w_redis := r\<rparr>)
          else
            let stages = relaxationStages settings;
                stage = relaxationStageFor seeker now stages;
                (pool, r1) = loadCandidates now (shardsToScan seeker stage stages) seekerId r in
            if pool = [] then (None, w\<lparr>w_redis := r1\<rparr>)
            else
              let (recent, r2) = recentPartners now seekerId r1 in
              (case selectBestMatch (seeker\<lparr>qc_recentPartnerIds := recent\<rparr>) pool now stages [] of
                 None \<Rightarrow> (None, w\<lparr>w_redis := r2\<rparr>)
               | Some selection \<Rightarrow>
                   let partnerId = qc_userId (ms_candidate selection);
                       (acquired, r3) = acquirePairLocks now seekerId partnerId lockToken r2 in
                   if \<not> acquired then (None, w\<lparr>w_redis := r3\<rparr>)
                   else
                     let (ok, w4) = commitPair now nodeId seekerId seeker selection settings matchId
                                      (w\<lparr>w_redis := r3\<rparr>);
                         w5 = onRedis (releasePairLocks now seekerId partnerId lockToken) w4
                     in (if ok
                         then Some \<lparr>mr_matchId = matchId, mr_seekerId = seekerId,
                                    mr_seekerIsInitiator = True, mr_partnerId = partnerId,
                                    mr_partnerIsInitiator = False,
                                    mr_sharedInterestIds = ms_sharedInterestIds selection,
                                    mr_seekerStage = ms_seekerStage selection,
                                    mr_candidateStage = ms_candidateStage selection\<rparr>
                         else None, w5)))"

section \<open>Teardown\<close>

text \<open>\<^verbatim>\<open>Math.round\<close> of milliseconds to seconds.\<close>

definition roundSeconds :: "int \<Rightarrow> int" where
  "roundSeconds ms = (ms + 500) div 1000"

definition finaliseMatch ::
    "instant \<Rightarrow> match_id \<Rightarrow> MatchEndReason \<Rightarrow> user_id option \<Rightarrow> Db \<Rightarrow> Db" where
  "finaliseMatch now matchId reason endedById db =
     (case db_matches db matchId of
        None \<Rightarrow> db
      | Some m \<Rightarrow>
          if m_endedAt m \<noteq> None then db
          else db\<lparr>db_matches := (db_matches db)(matchId \<mapsto>
                     m\<lparr>m_endedAt := Some now, m_endReason := Some reason, m_endedById := endedById,
                       m_durationSeconds := Some (roundSeconds (now - m_startedAt m))\<rparr>),
                  db_participants :=
                    updateWhere (\<lambda>p. p_matchId p = matchId \<and> p_leftAt p = None)
                      (\<lambda>p. p\<lparr>p_leftAt := Some now\<rparr>) (db_participants db)\<rparr>)"

definition endMatch ::
    "instant \<Rightarrow> match_id \<Rightarrow> user_id list \<Rightarrow> MatchEndReason \<Rightarrow> user_id option \<Rightarrow> World \<Rightarrow> World" where
  "endMatch now matchId participantIds reason endedById w =
     \<lparr>w_redis = fold (\<lambda>u. releaseMatch now u matchId) participantIds (w_redis w),
      w_db = finaliseMatch now matchId reason endedById (w_db w)\<rparr>"

section \<open>What the steps leave alone\<close>

lemma currentMatch_frame [simp]:
  "currentMatch now u (s\<lparr>rd_queueEntry := x1\<rparr>) = currentMatch now u s"
  "currentMatch now u (s\<lparr>rd_queue := x2\<rparr>) = currentMatch now u s"
  "currentMatch now u (s\<lparr>rd_matchLock := x3\<rparr>) = currentMatch now u s"
  "currentMatch now u (s\<lparr>rd_recentPartners := x4\<rparr>) = currentMatch now u s"
  "currentMatch now u (s\<lparr>rd_match := x5\<rparr>) = currentMatch now u s"
  "currentMatch now u (s\<lparr>rd_activeShards := x6\<rparr>) = currentMatch now u s"
  by (simp_all add: currentMatch_def)

lemma currentMatch_leave [simp]: "currentMatch now u (leave v c s) = currentMatch now u s"
  by (simp add: leave_def updShard_def)

lemma currentMatch_recent [simp]:
  "currentMatch now u (recordRecentPartner now' v p t s) = currentMatch now u s"
  by (simp add: recordRecentPartner_def Let_def)

lemma currentMatch_recentPartners [simp]:
  "currentMatch now u (snd (recentPartners now' v s)) = currentMatch now u s"
  by (simp add: recentPartners_def Let_def split: option.split prod.split)

lemma currentMatch_getEntry [simp]:
  "currentMatch now u (snd (getEntry now' v s)) = currentMatch now u s"
  by (simp add: getEntry_def split: option.split stored.split)

lemma currentMatch_load [simp]:
  "currentMatch now u (snd (loadCandidates now' shards v s)) = currentMatch now u s"
  by (simp add: loadCandidates_def Let_def)

lemma currentMatch_locks [simp]:
  "currentMatch now u (snd (acquirePairLocks now' a b t s)) = currentMatch now u s"
  "currentMatch now u (releasePairLocks now' a b t s) = currentMatch now u s"
  by (simp_all add: acquirePairLocks_def releasePairLocks_def releaseTwo_def releaseLock_def
      currentMatch_def acquireTwo_lock_frame prod.case_eq_if)

lemma isQueued_leave: "isQueued now u (leave v c s) \<longleftrightarrow> u \<noteq> v \<and> isQueued now u s"
  by (simp add: isQueued_def leave_entry live_delKey)

lemma isQueued_recent [simp]:
  "isQueued now u (recordRecentPartner now' v p t s) = isQueued now u s"
  by (simp add: recordRecentPartner_def Let_def isQueued_def)

lemma isQueued_claimBoth [simp]:
  "isQueued now u (snd (claimBoth now' a b m s)) = isQueued now u s"
  by (simp add: claimBoth_def isQueued_def acquireTwo_claim_frame)

lemma isQueued_locks [simp]:
  "isQueued now u (snd (acquirePairLocks now' a b t s)) = isQueued now u s"
  "isQueued now u (releasePairLocks now' a b t s) = isQueued now u s"
  by (simp_all add: acquirePairLocks_def releasePairLocks_def releaseTwo_def releaseLock_def
      isQueued_def acquireTwo_lock_frame prod.case_eq_if)

lemma isQueued_recentPartners [simp]:
  "isQueued now u (snd (recentPartners now' v s)) = isQueued now u s"
  by (simp add: recentPartners_def isQueued_def Let_def split: option.split prod.split)

lemma isQueued_load [simp]:
  "isQueued now u (snd (loadCandidates now' shards v s)) = isQueued now u s"
  by (simp add: loadCandidates_def isQueued_def Let_def)

section \<open>Commit and rollback\<close>

lemma commitPair_success:
  assumes "commitPair now nodeId a seeker sel settings m w = (True, w')"
    and "qc_userId (ms_candidate sel) = b" and "a \<noteq> b"
  shows "isQueued now a (w_redis w)" "isQueued now b (w_redis w)"
    "currentMatch now a (w_redis w) = None" "currentMatch now b (w_redis w) = None"
    "(\<lambda>u. currentMatch now u (w_redis w')) =
       (\<lambda>u. currentMatch now u (w_redis w))(a \<mapsto> m, b \<mapsto> m)"
    "isQueued now u (w_redis w') \<longleftrightarrow> u \<noteq> a \<and> u \<noteq> b \<and> isQueued now u (w_redis w)"
    "w_db w' = persistMatch now nodeId m a b sel (w_db w)"
  using assms occupancy.acquireTwo_success [of a b now m "w_redis w"]
  by (auto simp: commitPair_def Let_def claimBoth_def [symmetric] isQueued_leave prod.case_eq_if
      split: if_splits)

lemma commitPair_failure:
  assumes "commitPair now nodeId a seeker sel settings m w = (False, w')"
    and "a \<noteq> qc_userId (ms_candidate sel)"
  shows "currentMatch now u (w_redis w') = currentMatch now u (w_redis w)"
    and "isQueued now u (w_redis w') = isQueued now u (w_redis w)"
    and "w_db w' = w_db w"
  using assms occupancy.acquireTwo_failure [OF assms(2), of now m "w_redis w"]
    isQueued_claimBoth [of now u now a "qc_userId (ms_candidate sel)" m "w_redis w"]
  by (auto simp: commitPair_def Let_def claimBoth_def prod.case_eq_if fun_eq_iff split: if_splits)

text \<open>The lock registers after an attempt.\<close>

lemma lock_frame [simp]:
  "rd_matchLock (leave u c s) = rd_matchLock s"
  "rd_matchLock (recordRecentPartner now v p t s) = rd_matchLock s"
  "rd_matchLock (snd (claimBoth now a b m s)) = rd_matchLock s"
  "rd_matchLock (snd (recentPartners now v s)) = rd_matchLock s"
  "rd_matchLock (snd (getEntry now v s)) = rd_matchLock s"
  "rd_matchLock (snd (loadCandidates now shards v s)) = rd_matchLock s"
  by (simp_all add: leave_def updShard_def recordRecentPartner_def Let_def claimBoth_def
      acquireTwo_claim_frame recentPartners_def getEntry_def loadCandidates_def
      split: option.split prod.split stored.split)

lemma commitPair_locks:
  "rd_matchLock (w_redis (snd (commitPair now nodeId a seeker sel settings m w))) = rd_matchLock (w_redis w)"
  by (simp add: commitPair_def Let_def prod.case_eq_if)


lemma acquirePairLocks_distinct:
  "fst (acquirePairLocks now a b t s) \<Longrightarrow> a \<noteq> b"
  using locks.acquireTwo_same_key by (auto simp: acquirePairLocks_def lockOrder_def)

text \<open>The one way to a match: every read before the locks leaves occupancy and queue alone.\<close>

lemma tryMatch_SomeE:
  assumes "tryMatch now nodeId a settings tok m w = (Some r, w')"
  obtains seeker pool recent sel r3 w4 where
    "live (rd_queueEntry (w_redis w)) now a = Some (Parsed seeker)"
    "selectBestMatch (seeker\<lparr>qc_recentPartnerIds := recent\<rparr>) pool now (relaxationStages settings) [] = Some sel"
    "commitPair now nodeId a seeker sel settings m (w\<lparr>w_redis := r3\<rparr>) = (True, w4)"
    "w' = onRedis (releasePairLocks now a (qc_userId (ms_candidate sel)) tok) w4"
    "a \<noteq> qc_userId (ms_candidate sel)"
    "\<And>u. currentMatch now u r3 = currentMatch now u (w_redis w)"
    "\<And>u. isQueued now u r3 = isQueued now u (w_redis w)"
    "mr_matchId r = m" "mr_seekerId r = a" "mr_partnerId r = qc_userId (ms_candidate sel)"
    "mr_seekerIsInitiator r" "\<not> mr_partnerIsInitiator r"
proof -
  obtain seeker where e: "getEntry now a (w_redis w) = (Some seeker, w_redis w)"
    and l: "live (rd_queueEntry (w_redis w)) now a = Some (Parsed seeker)"
    using assms by (auto simp: tryMatch_def getEntry_def split: option.splits stored.splits)
  define stages where "stages = relaxationStages settings"
  obtain pool r1 where pool: "loadCandidates now
      (shardsToScan seeker (relaxationStageFor seeker now stages) stages) a (w_redis w) = (pool, r1)"
    by fastforce
  obtain recent r2 where recent: "recentPartners now a r1 = (recent, r2)" by fastforce
  obtain sel where sel: "selectBestMatch (seeker\<lparr>qc_recentPartnerIds := recent\<rparr>) pool now stages [] = Some sel"
    using assms by (auto simp: tryMatch_def e pool recent Let_def stages_def [symmetric]
        split: if_splits option.splits)
  obtain ok r3 where locks: "acquirePairLocks now a (qc_userId (ms_candidate sel)) tok r2 = (ok, r3)"
    by fastforce
  obtain ok2 w4 where commit: "commitPair now nodeId a seeker sel settings m (w\<lparr>w_redis := r3\<rparr>) = (ok2, w4)"
    by fastforce
  have ok: "ok" "ok2" and w': "w' = onRedis (releasePairLocks now a (qc_userId (ms_candidate sel)) tok) w4"
    and r: "mr_matchId r = m" "mr_seekerId r = a" "mr_partnerId r = qc_userId (ms_candidate sel)"
      "mr_seekerIsInitiator r" "\<not> mr_partnerIsInitiator r"
    using assms
    by (auto simp: tryMatch_def e pool recent sel locks commit Let_def stages_def [symmetric]
        split: if_splits)
  have "currentMatch now u r3 = currentMatch now u (w_redis w)" for u
    using currentMatch_locks(1) [of now u now a _ tok r2] currentMatch_recentPartners [of now u now a r1]
      currentMatch_load [of now u now _ a "w_redis w"] pool recent locks
    by (metis snd_conv)
  moreover have "isQueued now u r3 = isQueued now u (w_redis w)" for u
    using isQueued_locks(1) [of now u now a _ tok r2] isQueued_recentPartners [of now u now a r1]
      isQueued_load [of now u now _ a "w_redis w"] pool recent locks
    by (metis snd_conv)
  moreover have "a \<noteq> qc_userId (ms_candidate sel)"
    using acquirePairLocks_distinct [of now a _ tok r2] locks ok by force
  ultimately show ?thesis
    using that [OF l sel [unfolded stages_def]] commit ok w' r by auto
qed

lemma tryMatch_None_currentMatch:
  assumes "tryMatch now nodeId a settings tok m w = (None, w')"
  shows "currentMatch now u (w_redis w') = currentMatch now u (w_redis w) \<and> w_db w' = w_db w"
proof (cases "getEntry now a (w_redis w)")
  case (Pair e r)
  have r: "currentMatch now u r = currentMatch now u (w_redis w)" for u
    using currentMatch_getEntry [of now u now a "w_redis w"] Pair by simp
  show ?thesis
  proof (cases e)
    case (Some seeker)
    define stages where "stages = relaxationStages settings"
    obtain pool r1 where pool: "loadCandidates now
        (shardsToScan seeker (relaxationStageFor seeker now stages) stages) a r = (pool, r1)"
      by fastforce
    have r1: "currentMatch now u r1 = currentMatch now u r"
      using currentMatch_load [of now u now _ a r] pool by (metis snd_conv)
    obtain recent r2 where recent: "recentPartners now a r1 = (recent, r2)" by fastforce
    have r2: "currentMatch now u r2 = currentMatch now u r1"
      using currentMatch_recentPartners [of now u now a r1] recent by simp
    show ?thesis
    proof (cases "selectBestMatch (seeker\<lparr>qc_recentPartnerIds := recent\<rparr>) pool now stages []")
      case None
      then show ?thesis using assms r [of u] r1 r2
        by (auto simp: tryMatch_def Pair Some pool recent Let_def stages_def [symmetric] split: if_splits)
    next
      case (Some sel)
      obtain ok r3 where locks: "acquirePairLocks now a (qc_userId (ms_candidate sel)) tok r2 = (ok, r3)"
        by fastforce
      have r3: "currentMatch now u r3 = currentMatch now u r2"
        using currentMatch_locks(1) [of now u now a _ tok r2] locks by (metis snd_conv)
      obtain ok2 w4 where commit: "commitPair now nodeId a seeker sel settings m (w\<lparr>w_redis := r3\<rparr>) = (ok2, w4)"
        by fastforce
      have "a \<noteq> qc_userId (ms_candidate sel)" if ok
        using acquirePairLocks_distinct [of now a "qc_userId (ms_candidate sel)" tok r2] locks that by simp
      then show ?thesis
        using assms r [of u] r1 r2 r3 commit commitPair_failure(1) [of now nodeId a seeker sel settings m "w\<lparr>w_redis := r3\<rparr>" w4 u]
          commitPair_failure(3) [of now nodeId a seeker sel settings m "w\<lparr>w_redis := r3\<rparr>" w4]
        by (auto simp: tryMatch_def Pair \<open>e = Some seeker\<close> pool recent Some locks commit Let_def onRedis_def
            stages_def [symmetric] split: if_splits)
    qed
  qed (use assms r in \<open>auto simp: tryMatch_def Pair\<close>)
qed

section \<open>Interleaved claims\<close>

text \<open>Where the attempt behind a match id stands. The instant is that of its first claim.\<close>

datatype Phase =
  ClaimedFirst user_id user_id instant | Committed user_id user_id instant | RolledBack | Ended

record PairSystem =
  ps_now :: instant
  ps_redis :: RedisState
  ps_phase :: "match_id \<rightharpoonup> Phase"

inductive pairStep :: "PairSystem \<Rightarrow> PairSystem \<Rightarrow> bool" where
  claim_first: "ps_phase p m = None \<Longrightarrow> a \<noteq> b \<Longrightarrow> claimForMatch (ps_now p) a m (ps_redis p) = (True, r) \<Longrightarrow>
    pairStep p (p\<lparr>ps_redis := r, ps_phase := (ps_phase p)(m \<mapsto> ClaimedFirst a b (ps_now p))\<rparr>)"
| claim_second: "ps_phase p m = Some (ClaimedFirst a b t) \<Longrightarrow> ps_now p < expiry t (ttl_userMatch REDIS_TTL) \<Longrightarrow>
    claimForMatch (ps_now p) b m (ps_redis p) = (True, r) \<Longrightarrow>
    pairStep p (p\<lparr>ps_redis := r, ps_phase := (ps_phase p)(m \<mapsto> Committed a b t)\<rparr>)"
| roll_back: "ps_phase p m = Some (ClaimedFirst a b t) \<Longrightarrow>
    claimForMatch (ps_now p) b m (ps_redis p) = (False, r) \<Longrightarrow>
    pairStep p (p\<lparr>ps_redis := releaseMatch (ps_now p) a m r, ps_phase := (ps_phase p)(m \<mapsto> RolledBack)\<rparr>)"
| end_begin: "ps_phase p m = Some (Committed a b t) \<Longrightarrow>
    pairStep p (p\<lparr>ps_phase := (ps_phase p)(m \<mapsto> Ended)\<rparr>)"
| release_one: "ps_phase p m = Some Ended \<Longrightarrow>
    pairStep p (p\<lparr>ps_redis := releaseMatch (ps_now p) u m (ps_redis p)\<rparr>)"
| time_passes: "ps_now p \<le> t \<Longrightarrow> pairStep p (p\<lparr>ps_now := t\<rparr>)"
| other_keys: "rd_userMatch r = rd_userMatch (ps_redis p) \<Longrightarrow> pairStep p (p\<lparr>ps_redis := r\<rparr>)"

inductive pairReachable :: "PairSystem \<Rightarrow> bool" where
  pair_init: "pairReachable \<lparr>ps_now = t, ps_redis = emptyRedis, ps_phase = (\<lambda>m. None)\<rparr>"
| pair_next: "pairReachable p \<Longrightarrow> pairStep p q \<Longrightarrow> pairReachable q"

definition holdsUntil :: "RedisState \<Rightarrow> user_id \<Rightarrow> match_id \<Rightarrow> instant \<Rightarrow> bool" where
  "holdsUntil s u m e = (\<exists>e'. rd_userMatch s u = Some (m, e') \<and> e \<le> e')"

fun phaseOk :: "instant \<Rightarrow> RedisState \<Rightarrow> match_id \<Rightarrow> Phase \<Rightarrow> bool" where
  "phaseOk now s m (ClaimedFirst a b t) =
     (t \<le> now \<and> (now < expiry t (ttl_userMatch REDIS_TTL) \<longrightarrow>
        holdsUntil s a m (expiry t (ttl_userMatch REDIS_TTL))))"
| "phaseOk now s m (Committed a b t) =
     (t \<le> now \<and> (now < expiry t (ttl_userMatch REDIS_TTL) \<longrightarrow>
        holdsUntil s a m (expiry t (ttl_userMatch REDIS_TTL)) \<and>
        holdsUntil s b m (expiry t (ttl_userMatch REDIS_TTL))))"
| "phaseOk now s m ph = True"

definition pairInv :: "PairSystem \<Rightarrow> bool" where
  "pairInv p \<longleftrightarrow> (\<forall>m ph. ps_phase p m = Some ph \<longrightarrow> phaseOk (ps_now p) (ps_redis p) m ph)"

lemma holdsUntil_live:
  "holdsUntil s u m e \<Longrightarrow> now < e \<Longrightarrow> currentMatch now u s = Some m"
  by (auto simp: holdsUntil_def currentMatch_def live_def)

text \<open>A claim cannot take a held user, a release with another match id cannot free one.\<close>

lemma holdsUntil_claim:
  "holdsUntil s u m e \<Longrightarrow> now < e \<Longrightarrow> holdsUntil (snd (claimForMatch now v k s)) u m e"
  by (auto simp: holdsUntil_def claimForMatch_def setNxEx_def setEx_def live_def split: option.split)

lemma holdsUntil_release:
  "holdsUntil s u m e \<Longrightarrow> k \<noteq> m \<Longrightarrow> holdsUntil (releaseMatch now v k s) u m e"
  by (auto simp: holdsUntil_def releaseMatch_def delIfEquals_def live_def split: if_splits)

lemma holdsUntil_claimed:
  "claimForMatch now u m s = (True, s') \<Longrightarrow> holdsUntil s' u m (expiry now (ttl_userMatch REDIS_TTL))"
  by (auto simp: holdsUntil_def claimForMatch_def setNxEx_def setEx_def split: option.splits)

lemma holdsUntil_frame: "rd_userMatch r = rd_userMatch s \<Longrightarrow> holdsUntil r u m e = holdsUntil s u m e"
  by (simp add: holdsUntil_def)

lemma holdsUntil_weaken: "holdsUntil s u m e \<Longrightarrow> e' \<le> e \<Longrightarrow> holdsUntil s u m e'"
  by (auto simp: holdsUntil_def)

lemma expiry_mono: "t \<le> t' \<Longrightarrow> expiry t k \<le> expiry t' k"
  by (simp add: expiry_def)

lemma phaseOk_claim:
  "phaseOk now s m ph \<Longrightarrow> phaseOk now (snd (claimForMatch now v k s)) m ph"
  by (cases ph) (auto simp: holdsUntil_claim)

lemma phaseOk_release: "phaseOk now s m ph \<Longrightarrow> k \<noteq> m \<Longrightarrow> phaseOk now (releaseMatch now v k s) m ph"
  by (cases ph) (auto simp: holdsUntil_release)

lemma phaseOk_time: "phaseOk now s m ph \<Longrightarrow> now \<le> now' \<Longrightarrow> phaseOk now' s m ph"
  by (cases ph) auto

lemma phaseOk_frame: "phaseOk now s m ph \<Longrightarrow> rd_userMatch r = rd_userMatch s \<Longrightarrow> phaseOk now r m ph"
  by (cases ph) (simp_all add: holdsUntil_frame [of r s])

lemma claimForMatch_refused:
  "claimForMatch now u m s = (False, s') \<Longrightarrow> rd_userMatch s' = rd_userMatch s"
  by (auto simp: claimForMatch_def setNxEx_def split: option.splits)

lemma pairInv_step:
  assumes inv: "pairInv p" and "pairStep p q"
  shows "pairInv q"
  using assms(2)
proof cases
  case (claim_first m a b r)
  have r: "r = snd (claimForMatch (ps_now p) a m (ps_redis p))" using claim_first by simp
  have "phaseOk (ps_now p) r m (ClaimedFirst a b (ps_now p))"
    using holdsUntil_claimed claim_first by auto
  then show ?thesis
    using inv claim_first(1) phaseOk_claim unfolding pairInv_def r by auto
next
  case (claim_second m a b t r)
  have r: "r = snd (claimForMatch (ps_now p) b m (ps_redis p))" using claim_second by simp
  have first: "phaseOk (ps_now p) r m (ClaimedFirst a b t)"
    using inv claim_second(2) phaseOk_claim unfolding pairInv_def r by blast
  then have "holdsUntil r b m (expiry t (ttl_userMatch REDIS_TTL))"
    using holdsUntil_weaken [OF holdsUntil_claimed [OF claim_second(4)] expiry_mono] by simp
  with first have "phaseOk (ps_now p) r m (Committed a b t)" by simp
  then show ?thesis
    using inv claim_second(1) phaseOk_claim unfolding pairInv_def r by auto
next
  case (roll_back m a b t r)
  then show ?thesis
    using inv phaseOk_release phaseOk_frame [OF _ claimForMatch_refused [OF roll_back(3)]]
    unfolding pairInv_def by auto
next
  case (end_begin m a b t)
  then show ?thesis using inv unfolding pairInv_def by auto
next
  case (release_one m u)
  have "phaseOk (ps_now p) (releaseMatch (ps_now p) u m (ps_redis p)) k ph"
    if "ps_phase p k = Some ph" for k ph
  proof (cases "k = m")
    case False
    have "phaseOk (ps_now p) (ps_redis p) k ph" using inv that unfolding pairInv_def by blast
    then show ?thesis by (rule phaseOk_release) (use False in simp)
  qed (use that release_one in simp)
  then show ?thesis using release_one(1) unfolding pairInv_def by simp
next
  case (time_passes t)
  then show ?thesis using inv phaseOk_time [OF _ time_passes(2)] unfolding pairInv_def by auto
next
  case (other_keys r)
  then have "phaseOk (ps_now p) r m ph" if "ps_phase p m = Some ph" for m ph
    using inv that phaseOk_frame unfolding pairInv_def by blast
  then show ?thesis using other_keys(1) unfolding pairInv_def by simp
qed

lemma pairInv_reachable: "pairReachable p \<Longrightarrow> pairInv p"
  by (induction rule: pairReachable.induct) (auto simp: pairInv_step, simp add: pairInv_def)


lemma pairInv_committed:
  assumes "pairReachable p" "ps_phase p m = Some (Committed a b t)" "ps_now p < t + 3600000"
  shows "currentMatch (ps_now p) a (ps_redis p) = Some m"
    and "currentMatch (ps_now p) b (ps_redis p) = Some m"
proof -
  have "phaseOk (ps_now p) (ps_redis p) m (Committed a b t)"
    using pairInv_reachable [OF assms(1)] assms(2) unfolding pairInv_def by blast
  then show "currentMatch (ps_now p) a (ps_redis p) = Some m"
    and "currentMatch (ps_now p) b (ps_redis p) = Some m"
    using assms(3) holdsUntil_live by (auto simp: expiry_def REDIS_TTL_def)
qed

section \<open>Teardown facts\<close>

lemma currentMatch_release:
  "currentMatch now u (releaseMatch now v m s) =
   (if u = v \<and> currentMatch now v s = Some m then None else currentMatch now u s)"
  by (rule occupancy.release_holder)

lemma currentMatch_fold_release:
  "currentMatch now u (fold (\<lambda>v. releaseMatch now v m) us s) =
   (if u \<in> set us \<and> currentMatch now u s = Some m then None else currentMatch now u s)"
  by (induction us arbitrary: s) (auto simp: currentMatch_release)

lemma finaliseMatch_twice:
  "finaliseMatch now' m reason' endedBy' (finaliseMatch now m reason by db) = finaliseMatch now m reason by db"
  by (auto simp: finaliseMatch_def split: option.split)


section \<open>Properties\<close>

definition exampleSettings :: MatchmakingSettings where
  "exampleSettings =
     \<lparr>relaxationStages = DEFAULT_RELAXATION_STAGES, maxQueueSeconds = 180, skipCooldownSeconds = 1800,
      minSecondsBetweenSkips = 1, negotiationTimeoutMs = 20000\<rparr>"

definition exampleWorld :: World where
  "exampleWorld =
     \<lparr>w_redis = join 0 (plainCandidate ''b'' 0) (join 0 (plainCandidate ''a'' 0) emptyRedis),
      w_db = emptyDb\<lparr>db_users := [''a'' \<mapsto> exampleRow, ''b'' \<mapsto> exampleRow]\<rparr>\<rparr>"

lemma exampleWorld_matches:
  "case fst (tryMatch 0 ''n1'' ''a'' exampleSettings ''t'' ''m1'' exampleWorld) of
     None \<Rightarrow> False | Some r \<Rightarrow> mr_partnerId r = ''b''"
  by code_simp



text \<open>An attempt that reports no match has no effect on anybody: every occupancy and the whole
database are as before, whichever guard, lock or claim refused, the rolled-back claim included.\<close>

theorem tryMatch_fails_cleanly:
  assumes "tryMatch now nodeId a settings tok m w = (None, w')"
  shows "(\<lambda>u. currentMatch now u (w_redis w')) = (\<lambda>u. currentMatch now u (w_redis w)) \<and> w_db w' = w_db w"
  using tryMatch_None_currentMatch [OF assms] by auto

lemma tryMatch_fails_cleanly_witness:
  "\<exists>w'. tryMatch 0 ''n1'' ''c'' exampleSettings ''t'' ''m1'' exampleWorld = (None, w') \<and>
     (\<lambda>u. currentMatch 0 u (w_redis w')) = (\<lambda>u. currentMatch 0 u (w_redis exampleWorld)) \<and>
     w_db w' = w_db exampleWorld"
proof -
  have "live (rd_queueEntry (w_redis exampleWorld)) 0 ''c'' = None"
    by (simp add: exampleWorld_def join_entry live_setEx) (simp add: plainCandidate_def emptyRedis_def)
  then have t: "tryMatch 0 ''n1'' ''c'' exampleSettings ''t'' ''m1'' exampleWorld = (None, exampleWorld)"
    by (simp add: tryMatch_def getEntry_def)
  with tryMatch_fails_cleanly [OF t] show ?thesis by blast
qed

text \<open>C1: Nobody is ever booked twice. However the Redis commands of concurrent pairing attempts,
rollbacks, teardowns and other operations interleave over any number of nodes, two committed matches in
their first hour that share a participant are the same match, and both its participants are occupied by
it.\<close>

theorem no_double_booking:
  assumes "pairReachable p"
    and "ps_phase p m = Some (Committed a b t)" and "ps_now p < t + 3600000"
    and "ps_phase p m' = Some (Committed a' b' t')" and "ps_now p < t' + 3600000"
    and "{a, b} \<inter> {a', b'} \<noteq> {}"
  shows "m = m' \<and> currentMatch (ps_now p) a (ps_redis p) = Some m \<and>
         currentMatch (ps_now p) b (ps_redis p) = Some m"
  using pairInv_committed [OF assms(1-3)] pairInv_committed [OF assms(1,4,5)] assms(6) by auto

lemma no_double_booking_witness:
  "\<exists>p. pairReachable p \<and> ps_phase p ''m'' = Some (Committed ''a'' ''b'' 0) \<and>
       currentMatch (ps_now p) ''a'' (ps_redis p) = Some ''m''"
proof -
  define p0 where "p0 = \<lparr>ps_now = 0, ps_redis = emptyRedis, ps_phase = (\<lambda>m :: match_id. None :: Phase option)\<rparr>"
  define r1 where "r1 = snd (claimForMatch 0 ''a'' ''m'' emptyRedis)"
  define p1 where "p1 = p0\<lparr>ps_redis := r1, ps_phase := (ps_phase p0)(''m'' \<mapsto> ClaimedFirst ''a'' ''b'' 0)\<rparr>"
  define r2 where "r2 = snd (claimForMatch 0 ''b'' ''m'' r1)"
  define p2 where "p2 = p1\<lparr>ps_redis := r2, ps_phase := (ps_phase p1)(''m'' \<mapsto> Committed ''a'' ''b'' 0)\<rparr>"
  have c1: "claimForMatch 0 ''a'' ''m'' emptyRedis = (True, r1)"
    unfolding r1_def by (simp add: prod_eq_iff occupancy.acquire_ok) (simp add: currentMatch_def emptyRedis_def)
  have "currentMatch 0 ''b'' r1 = None"
    unfolding r1_def occupancy.acquire_holder by (simp add: currentMatch_def emptyRedis_def)
  then have c2: "claimForMatch 0 ''b'' ''m'' r1 = (True, r2)"
    unfolding r2_def by (simp add: prod_eq_iff occupancy.acquire_ok)
  have "pairReachable p0" unfolding p0_def by (rule pair_init)
  moreover have "pairStep p0 p1"
    using claim_first [of p0 "''m''" "''a''" "''b''" r1] c1 by (simp add: p0_def p1_def)
  moreover have "pairStep p1 p2"
    using claim_second [of p1 "''m''" "''a''" "''b''" 0 r2] c2
    by (simp add: p0_def p1_def p2_def expiry_def REDIS_TTL_def)
  ultimately have reach: "pairReachable p2" by (blast intro: pair_next)
  have ph: "ps_phase p2 ''m'' = Some (Committed ''a'' ''b'' 0)" "ps_now p2 = 0"
    by (simp_all add: p2_def p1_def p0_def)
  then show ?thesis
    using no_double_booking [OF reach ph(1) _ ph(1)] reach by auto
qed

text \<open>Ending a match frees exactly its own participants and is safe to repeat: a user already in
another conversation keeps it, whoever ends the old match and how often; and the row keeps the end, the
reason and the author of the first teardown.\<close>

theorem endMatch_precise:
  "(\<forall>u. currentMatch now u (w_redis (endMatch now m us reason endedBy w)) =
      (if u \<in> set us \<and> currentMatch now u (w_redis w) = Some m then None
       else currentMatch now u (w_redis w))) \<and>
   w_db (endMatch now' m us' reason' endedBy' (endMatch now m us reason endedBy w)) =
     w_db (endMatch now m us reason endedBy w)"
  by (simp add: endMatch_def currentMatch_fold_release finaliseMatch_twice)

end
