(* ===== verification/Tokens.thy ===== *)
theory Tokens
  imports Database Complex_Main
begin

text \<open>The token ledger of \<^verbatim>\<open>packages/database/src/tokens.service.ts\<close>. \<open>TokenDb\<close> holds the token tables;
a transaction is one function that either returns the new tables or throws and leaves the caller with
the old ones. A column of type \<^verbatim>\<open>Int\<close> holds 32 bits: a result outside them aborts, as does a foreign key
to a missing user. The locale \<open>ledger\<close> is the contract between the account store and everything that
moves tokens: from it follow that balances equal the sum of the ledger and that none is negative.\<close>

section \<open>Tables\<close>

datatype TokenErrorCode =
  INSUFFICIENT_FUNDS | INVALID_AMOUNT | SELF_TIP | TOKEN_NOT_FOUND | TOKEN_FORBIDDEN
  | ALREADY_ANSWERED | NO_OFFER

text \<open>What a token operation can throw: the service's own error, a violated unique index
(\<^verbatim>\<open>P2002\<close>), or another error of the database.\<close>

datatype TokenFailure = TokenError TokenErrorCode | UniqueViolation | DbError

record TokenAccount =
  ta_balance :: int
  ta_lifetimeEarned :: int
  ta_lifetimePurchased :: int

datatype TokenLedgerKind = PURCHASE | TIP_SENT | TIP_RECEIVED | REFUND | ADJUSTMENT | PROMO

record LedgerRow =
  lg_userId :: user_id
  lg_delta :: int
  lg_kind :: TokenLedgerKind
  lg_balanceAfter :: int
  lg_counterpartyId :: "user_id option"
  lg_matchId :: "match_id option"
  lg_purchaseId :: "row_id option"
  lg_tipId :: "row_id option"
  lg_campaignId :: "row_id option"
  lg_note :: "string option"

record TipRow =
  tp_matchId :: "match_id option"
  tp_fromUserId :: user_id
  tp_toUserId :: user_id
  tp_tokens :: int
  tp_message :: "string option"
  tp_offeredSeconds :: "int option"
  tp_accepted :: "bool option"
  tp_respondedAt :: "instant option"

record PackageRow =
  pk_id :: row_id
  pk_tokens :: int
  pk_priceCents :: int
  pk_currency :: string
  pk_active :: bool
  pk_sortOrder :: int

datatype PurchaseStatus =
  PurchaseStatus_PENDING | PurchaseStatus_COMPLETED | PurchaseStatus_FAILED | PurchaseStatus_REFUNDED

record PurchaseRow =
  pu_id :: row_id
  pu_userId :: user_id
  pu_packageId :: row_id
  pu_providerRef :: string
  pu_providerEventId :: "string option"
  pu_tokens :: int
  pu_amountCents :: int
  pu_currency :: string
  pu_status :: PurchaseStatus

datatype CampaignAudience = NEW_USERS | ALL_USERS
datatype CampaignStatus =
  CampaignStatus_DRAFT | CampaignStatus_ACTIVE | CampaignStatus_PAUSED | CampaignStatus_ENDED

record CampaignRow =
  cg_id :: row_id
  cg_name :: string
  cg_description :: "string option"
  cg_tokens :: int
  cg_audience :: CampaignAudience
  cg_status :: CampaignStatus
  cg_startsAt :: "instant option"
  cg_endsAt :: "instant option"
  cg_maxGrants :: "int option"
  cg_grantsIssued :: int
  cg_requiresVerifiedEmail :: bool
  cg_createdById :: "user_id option"
  cg_createdAt :: instant

record GrantRow =
  gr_campaignId :: row_id
  gr_userId :: user_id
  gr_tokens :: int

record TokenDb =
  td_users :: "user_id list"
  td_accounts :: "user_id \<rightharpoonup> TokenAccount"
  td_ledger :: "LedgerRow list"
  td_tips :: "row_id \<rightharpoonup> TipRow"
  td_packages :: "PackageRow list"
  td_purchases :: "PurchaseRow list"
  td_campaigns :: "CampaignRow list"
  td_grants :: "GrantRow list"

definition emptyTokenDb :: "user_id list \<Rightarrow> TokenDb" where
  "emptyTokenDb users =
     \<lparr>td_users = users, td_accounts = (\<lambda>k. None), td_ledger = [], td_tips = (\<lambda>k. None),
      td_packages = [], td_purchases = [], td_campaigns = [], td_grants = []\<rparr>"

section \<open>Accounts\<close>

definition INT4_MAX :: int where
  "INT4_MAX = 2147483647"

definition fitsInt4 :: "TokenAccount \<Rightarrow> bool" where
  "fitsInt4 a = (ta_balance a \<le> INT4_MAX \<and> ta_lifetimeEarned a \<le> INT4_MAX \<and>
     ta_lifetimePurchased a \<le> INT4_MAX)"

definition newAccount :: TokenAccount where
  "newAccount = \<lparr>ta_balance = 0, ta_lifetimeEarned = 0, ta_lifetimePurchased = 0\<rparr>"

definition balanceOf :: "TokenDb \<Rightarrow> user_id \<Rightarrow> int" where
  "balanceOf td u = (case td_accounts td u of None \<Rightarrow> 0 | Some a \<Rightarrow> ta_balance a)"

definition getBalance :: "user_id \<Rightarrow> TokenDb \<Rightarrow> TokenFailure + TokenAccount \<times> TokenDb" where
  "getBalance userId td =
     (case td_accounts td userId of
        Some a \<Rightarrow> Ok (a, td)
      | None \<Rightarrow>
          if userId \<notin> set (td_users td) then Throw DbError
          else Ok (newAccount, td\<lparr>td_accounts := (td_accounts td)(userId \<mapsto> newAccount)\<rparr>))"

text \<open>One conditional update: no row with enough balance, no debit.\<close>

definition debit :: "user_id \<Rightarrow> int \<Rightarrow> TokenDb \<Rightarrow> TokenFailure + int \<times> TokenDb" where
  "debit userId amount td =
     (case td_accounts td userId of
        None \<Rightarrow> Throw (TokenError INSUFFICIENT_FUNDS)
      | Some a \<Rightarrow>
          if \<not> amount \<le> ta_balance a then Throw (TokenError INSUFFICIENT_FUNDS)
          else Ok (ta_balance a - amount,
                   td\<lparr>td_accounts := (td_accounts td)
                        (userId \<mapsto> a\<lparr>ta_balance := ta_balance a - amount\<rparr>)\<rparr>))"

definition creditedAccount :: "TokenAccount option \<Rightarrow> int \<Rightarrow> int \<Rightarrow> int \<Rightarrow> TokenAccount" where
  "creditedAccount acc amount earned purchased =
     (case acc of
        None \<Rightarrow> \<lparr>ta_balance = amount, ta_lifetimeEarned = earned, ta_lifetimePurchased = purchased\<rparr>
      | Some a \<Rightarrow> a\<lparr>ta_balance := ta_balance a + amount,
                    ta_lifetimeEarned := ta_lifetimeEarned a + earned,
                    ta_lifetimePurchased := ta_lifetimePurchased a + purchased\<rparr>)"

definition credit ::
    "user_id \<Rightarrow> int \<Rightarrow> int \<Rightarrow> int \<Rightarrow> TokenDb \<Rightarrow> TokenFailure + int \<times> TokenDb" where
  "credit userId amount earned purchased td =
     (let a = creditedAccount (td_accounts td userId) amount earned purchased in
      if userId \<notin> set (td_users td) \<or> \<not> fitsInt4 a then Throw DbError
      else Ok (ta_balance a, td\<lparr>td_accounts := (td_accounts td)(userId \<mapsto> a)\<rparr>))"

definition appendLedger :: "LedgerRow \<Rightarrow> TokenDb \<Rightarrow> TokenDb" where
  "appendLedger row td = td\<lparr>td_ledger := td_ledger td @ [row]\<rparr>"

definition ledgerRow ::
    "user_id \<Rightarrow> int \<Rightarrow> TokenLedgerKind \<Rightarrow> int \<Rightarrow> LedgerRow" where
  "ledgerRow userId delta kind balanceAfter =
     \<lparr>lg_userId = userId, lg_delta = delta, lg_kind = kind, lg_balanceAfter = balanceAfter,
      lg_counterpartyId = None, lg_matchId = None, lg_purchaseId = None, lg_tipId = None,
      lg_campaignId = None, lg_note = None\<rparr>"

section \<open>Tipping\<close>

record TipInput =
  ti_fromUserId :: user_id
  ti_toUserId :: user_id
  ti_tokens :: rat
  ti_matchId :: "match_id option"
  ti_message :: "string option"
  ti_offeredSeconds :: "int option"

definition isInteger :: "rat \<Rightarrow> bool" where
  "isInteger x = (of_int \<lfloor>x\<rfloor> = x)"

definition createTip :: "row_id \<Rightarrow> TipInput \<Rightarrow> TokenDb \<Rightarrow> TokenFailure + TokenDb" where
  "createTip tipId i td =
     (if ti_fromUserId i \<notin> set (td_users td) \<or> ti_toUserId i \<notin> set (td_users td) \<or>
         td_tips td tipId \<noteq> None
      then Throw DbError
      else Ok (td\<lparr>td_tips := (td_tips td)(tipId \<mapsto>
             \<lparr>tp_matchId = ti_matchId i, tp_fromUserId = ti_fromUserId i, tp_toUserId = ti_toUserId i,
              tp_tokens = \<lfloor>ti_tokens i\<rfloor>, tp_message = ti_message i,
              tp_offeredSeconds = ti_offeredSeconds i, tp_accepted = None, tp_respondedAt = None\<rparr>)\<rparr>))"

definition sendTip ::
    "row_id \<Rightarrow> TipInput \<Rightarrow> TokenDb \<Rightarrow> TokenFailure + (row_id \<times> int) \<times> TokenDb" where
  "sendTip tipId i td =
     (let n = \<lfloor>ti_tokens i\<rfloor> in
      if ti_fromUserId i = ti_toUserId i then Throw (TokenError SELF_TIP)
      else if \<not> isInteger (ti_tokens i) \<or> ti_tokens i \<le> 0 then Throw (TokenError INVALID_AMOUNT)
      else
        andThen (debit (ti_fromUserId i) n td) (\<lambda>(senderBalance, td1).
        andThen (createTip tipId i td1) (\<lambda>td2.
        andThen (credit (ti_toUserId i) n n 0 td2) (\<lambda>(recipientBalance, td3).
        Ok ((tipId, senderBalance),
          appendLedger ((ledgerRow (ti_toUserId i) n TIP_RECEIVED recipientBalance)
              \<lparr>lg_counterpartyId := Some (ti_fromUserId i), lg_matchId := ti_matchId i,
               lg_tipId := Some tipId\<rparr>)
            (appendLedger ((ledgerRow (ti_fromUserId i) (- n) TIP_SENT senderBalance)
                \<lparr>lg_counterpartyId := Some (ti_toUserId i), lg_matchId := ti_matchId i,
                 lg_tipId := Some tipId\<rparr>) td3))))))"

text \<open>\<open>respondToOffer\<close> is a read with its checks and an unconditional write; the two halves are
separate because nothing in the code ties them together.\<close>

definition respondRead :: "row_id \<Rightarrow> user_id \<Rightarrow> TokenDb \<Rightarrow> TokenFailure + (user_id \<times> int)" where
  "respondRead tipId userId td =
     (case td_tips td tipId of
        None \<Rightarrow> Throw (TokenError TOKEN_NOT_FOUND)
      | Some tip \<Rightarrow>
          if tp_toUserId tip \<noteq> userId then Throw (TokenError TOKEN_FORBIDDEN)
          else if tp_accepted tip \<noteq> None then Throw (TokenError ALREADY_ANSWERED)
          else case tp_offeredSeconds tip of
                 None \<Rightarrow> Throw (TokenError NO_OFFER)
               | Some seconds \<Rightarrow> Ok (tp_fromUserId tip, seconds))"

definition respondWrite :: "instant \<Rightarrow> row_id \<Rightarrow> bool \<Rightarrow> TokenDb \<Rightarrow> TokenDb" where
  "respondWrite now tipId accepted td =
     td\<lparr>td_tips := tableModify tipId
          (\<lambda>t. t\<lparr>tp_accepted := Some accepted, tp_respondedAt := Some now\<rparr>) (td_tips td)\<rparr>"

definition respondToOffer ::
    "instant \<Rightarrow> row_id \<Rightarrow> user_id \<Rightarrow> bool \<Rightarrow> TokenDb \<Rightarrow> TokenFailure + (user_id \<times> int) \<times> TokenDb" where
  "respondToOffer now tipId userId accepted td =
     andThen (respondRead tipId userId td) (\<lambda>r. Ok (r, respondWrite now tipId accepted td))"

section \<open>Purchases\<close>

definition listPackages :: "TokenDb \<Rightarrow> PackageRow list" where
  "listPackages td = sort_key pk_sortOrder (filter pk_active (td_packages td))"

definition createPurchase ::
    "row_id \<Rightarrow> user_id \<Rightarrow> row_id \<Rightarrow> string \<Rightarrow> TokenDb \<Rightarrow> TokenFailure + row_id \<times> TokenDb" where
  "createPurchase newId userId packageId providerRef td =
     (case find (\<lambda>p. pk_id p = packageId \<and> pk_active p) (td_packages td) of
        None \<Rightarrow> Throw (TokenError TOKEN_NOT_FOUND)
      | Some pkg \<Rightarrow>
          if list_ex (\<lambda>p. pu_providerRef p = providerRef \<or> pu_id p = newId) (td_purchases td)
          then Throw UniqueViolation
          else if userId \<notin> set (td_users td) then Throw DbError
          else Ok (newId, td\<lparr>td_purchases := td_purchases td @
                 [\<lparr>pu_id = newId, pu_userId = userId, pu_packageId = pk_id pkg,
                   pu_providerRef = providerRef, pu_providerEventId = None, pu_tokens = pk_tokens pkg,
                   pu_amountCents = pk_priceCents pkg, pu_currency = pk_currency pkg,
                   pu_status = PurchaseStatus_PENDING\<rparr>]\<rparr>))"

text \<open>The two halves of a delivery: what it reads, and what it writes for the purchase it read. The
default isolation lets another delivery run in between.\<close>

definition fulfilRead :: "string \<Rightarrow> TokenDb \<Rightarrow> PurchaseRow option" where
  "fulfilRead providerRef td =
     (case find (\<lambda>p. pu_providerRef p = providerRef) (td_purchases td) of
        None \<Rightarrow> None
      | Some p \<Rightarrow> if pu_status p = PurchaseStatus_COMPLETED then None else Some p)"

definition fulfilWrite :: "PurchaseRow \<Rightarrow> string \<Rightarrow> TokenDb \<Rightarrow> TokenFailure + TokenDb" where
  "fulfilWrite p providerEventId td =
     (if list_ex (\<lambda>q. pu_id q \<noteq> pu_id p \<and> pu_providerEventId q = Some providerEventId) (td_purchases td)
      then Throw UniqueViolation
      else
        let td1 = td\<lparr>td_purchases := updateWhere (\<lambda>q. pu_id q = pu_id p)
              (\<lambda>q. q\<lparr>pu_status := PurchaseStatus_COMPLETED, pu_providerEventId := Some providerEventId\<rparr>)
              (td_purchases td)\<rparr>
        in andThen (credit (pu_userId p) (pu_tokens p) 0 (pu_tokens p) td1) (\<lambda>(balance, td2).
           Ok (appendLedger ((ledgerRow (pu_userId p) (pu_tokens p) PURCHASE balance)
                 \<lparr>lg_purchaseId := Some (pu_id p)\<rparr>) td2)))"

definition fulfilPurchase :: "string \<Rightarrow> string \<Rightarrow> TokenDb \<Rightarrow> TokenFailure + bool \<times> TokenDb" where
  "fulfilPurchase providerRef providerEventId td =
     (case fulfilRead providerRef td of
        None \<Rightarrow> Ok (False, td)
      | Some p \<Rightarrow>
          (case fulfilWrite p providerEventId td of
             Inr td' \<Rightarrow> Ok (True, td')
           | Inl UniqueViolation \<Rightarrow> Ok (False, td)
           | Inl e \<Rightarrow> Throw e))"

section \<open>History and adjustment\<close>

text \<open>Newest first: the ledger is kept in the order of writing.\<close>

definition history :: "user_id \<Rightarrow> nat \<Rightarrow> nat \<Rightarrow> TokenDb \<Rightarrow> LedgerRow list \<times> nat \<times> bool" where
  "history userId page pageSize td =
     (let rows = filter (\<lambda>r. lg_userId r = userId) (td_ledger td); total = length rows
      in (take pageSize (drop ((page - 1) * pageSize) (rev rows)), total, page * pageSize < total))"

definition isBlank :: "string \<Rightarrow> bool" where
  "isBlank s = list_all (\<lambda>c. (of_char c :: nat) \<in> {9, 10, 11, 12, 13, 32, 160}) s"

definition adjust :: "user_id \<Rightarrow> rat \<Rightarrow> string \<Rightarrow> TokenDb \<Rightarrow> TokenFailure + int \<times> TokenDb" where
  "adjust userId delta note td =
     (let d = \<lfloor>delta\<rfloor> in
      if \<not> isInteger delta \<or> delta = 0 then Throw (TokenError INVALID_AMOUNT)
      else if isBlank note then Throw (TokenError INVALID_AMOUNT)
      else andThen (if delta > 0 then credit userId d 0 0 td else debit userId \<bar>d\<bar> td)
        (\<lambda>(balance, td1).
           Ok (balance, appendLedger ((ledgerRow userId d ADJUSTMENT balance)
                 \<lparr>lg_note := Some (take 200 note)\<rparr>) td1)))"


section \<open>The contract of a ledger\<close>

locale ledger =
  fixes balance :: "'s \<Rightarrow> 'u \<Rightarrow> int" and entries :: "'s \<Rightarrow> ('u \<times> int) list"
    and withdraw :: "'u \<Rightarrow> int \<Rightarrow> 's \<Rightarrow> 's option" and deposit :: "'u \<Rightarrow> int \<Rightarrow> 's \<Rightarrow> 's option"
    and post :: "'r \<Rightarrow> 's \<Rightarrow> 's" and entry :: "'r \<Rightarrow> 'u \<times> int"
  assumes withdraw_Some: "withdraw u n s = Some s' \<Longrightarrow>
      n \<le> balance s u \<and> balance s' = (balance s)(u := balance s u - n) \<and> entries s' = entries s"
    and deposit_Some: "deposit u n s = Some s' \<Longrightarrow>
      balance s' = (balance s)(u := balance s u + n) \<and> entries s' = entries s"
    and post_balance: "balance (post r s) = balance s"
    and post_entries: "entries (post r s) = entries s @ [entry r]"
begin

definition owed :: "'s \<Rightarrow> 'u \<Rightarrow> int" where
  "owed s u = sum_list (map snd (filter (\<lambda>e. fst e = u) (entries s)))"

definition balanced :: "'s \<Rightarrow> bool" where
  "balanced s \<longleftrightarrow> (\<forall>u. balance s u = owed s u)"

definition solvent :: "'s \<Rightarrow> bool" where
  "solvent s \<longleftrightarrow> (\<forall>u. 0 \<le> balance s u)"

definition total :: "'s \<Rightarrow> int" where
  "total s = sum_list (map snd (entries s))"

lemma owed_post: "owed (post r s) u = owed s u + (if fst (entry r) = u then snd (entry r) else 0)"
  by (simp add: owed_def post_entries)

lemma deposit_keeps:
  assumes "deposit u n s = Some s'" "entry r = (u, n)" "balanced s"
  shows "balanced (post r s')" and "0 \<le> n \<Longrightarrow> solvent s \<Longrightarrow> solvent (post r s')"
    and "total (post r s') = total s + n"
  using assms deposit_Some [OF assms(1)]
  by (auto simp: balanced_def owed_post post_balance solvent_def total_def post_entries owed_def)

lemma withdraw_keeps:
  assumes "withdraw u n s = Some s'" "entry r = (u, - n)" "balanced s"
  shows "balanced (post r s')" and "solvent s \<Longrightarrow> solvent (post r s')"
    and "total (post r s') = total s - n"
  using assms withdraw_Some [OF assms(1)]
  by (auto simp: balanced_def owed_post post_balance solvent_def total_def post_entries owed_def)

text \<open>A transfer: both sides move, nothing is created or destroyed. In between, something else may
have happened that touches neither balances nor entries.\<close>

lemma transfer_keeps:
  assumes w: "withdraw a n s = Some s1" and d: "deposit b n s2 = Some s3"
    and frame: "balance s2 = balance s1" "entries s2 = entries s1"
    and r: "entry ra = (a, - n)" "entry rb = (b, n)" and bal: "balanced s"
  shows "balanced (post rb (post ra s3))"
    and "0 \<le> n \<Longrightarrow> solvent s \<Longrightarrow> solvent (post rb (post ra s3))"
    and "total (post rb (post ra s3)) = total s"
  using withdraw_Some [OF w] deposit_Some [OF d] frame r bal
  by (auto simp: balanced_def owed_post post_balance solvent_def total_def post_entries owed_def)

end

definition okState :: "'e + 'a \<times> 's \<Rightarrow> 's option" where
  "okState r = (case r of Inl e \<Rightarrow> None | Inr (x, s) \<Rightarrow> Some s)"

definition ledgerEntries :: "TokenDb \<Rightarrow> (user_id \<times> int) list" where
  "ledgerEntries td = map (\<lambda>r. (lg_userId r, lg_delta r)) (td_ledger td)"

lemma okState_Some [guard_simps]: "okState r = Some s \<longleftrightarrow> (\<exists>x. r = Inr (x, s))"
  by (cases r) (auto simp: okState_def)

lemma debit_Ok [guard_simps]:
  "debit u n td = Inr (b, td') \<longleftrightarrow>
   (\<exists>a. td_accounts td u = Some a \<and> n \<le> ta_balance a \<and> b = ta_balance a - n \<and>
      td' = td\<lparr>td_accounts := (td_accounts td)(u \<mapsto> a\<lparr>ta_balance := ta_balance a - n\<rparr>)\<rparr>)"
  by (auto simp: debit_def split: option.splits)

lemma credit_Ok [guard_simps]:
  "credit u n earned purchased td = Inr (b, td') \<longleftrightarrow>
   u \<in> set (td_users td) \<and> fitsInt4 (creditedAccount (td_accounts td u) n earned purchased) \<and>
   b = ta_balance (creditedAccount (td_accounts td u) n earned purchased) \<and>
   td' = td\<lparr>td_accounts := (td_accounts td)(u \<mapsto> creditedAccount (td_accounts td u) n earned purchased)\<rparr>"
  by (auto simp: credit_def Let_def)

lemma ta_balance_credited [simp]:
  "ta_balance (creditedAccount acc n e p) = (case acc of None \<Rightarrow> 0 | Some a \<Rightarrow> ta_balance a) + n"
  by (simp add: creditedAccount_def split: option.split)

interpretation books: ledger
  balanceOf ledgerEntries
  "\<lambda>u n td. okState (debit u n td)" "\<lambda>u n td. okState (credit u n earned purchased td)"
  appendLedger "\<lambda>r. (lg_userId r, lg_delta r)" for earned purchased
  by unfold_locales
     (auto simp: guard_simps balanceOf_def ledgerEntries_def appendLedger_def fun_eq_iff
       split: option.split)

section \<open>The invariant of the token tables\<close>

text \<open>The balance a row records is the sum of its user's rows up to and including it.\<close>

definition userSum :: "user_id \<Rightarrow> LedgerRow list \<Rightarrow> int" where
  "userSum u rows = sum_list (map lg_delta (filter (\<lambda>r. lg_userId r = u) rows))"

definition replayOk :: "LedgerRow list \<Rightarrow> bool" where
  "replayOk rows \<longleftrightarrow> (\<forall>i<length rows.
     lg_balanceAfter (rows ! i) = userSum (lg_userId (rows ! i)) (take (Suc i) rows))"

definition amountsOk :: "TokenDb \<Rightarrow> bool" where
  "amountsOk td \<longleftrightarrow>
     (\<forall>p\<in>set (td_packages td). 0 \<le> pk_tokens p) \<and> (\<forall>p\<in>set (td_purchases td). 0 \<le> pu_tokens p) \<and>
     (\<forall>c\<in>set (td_campaigns td). 0 \<le> cg_tokens c)"

definition tokenInv :: "TokenDb \<Rightarrow> bool" where
  "tokenInv td \<longleftrightarrow>
     (\<forall>u. balanceOf td u = userSum u (td_ledger td)) \<and> (\<forall>u. 0 \<le> balanceOf td u) \<and>
     replayOk (td_ledger td) \<and> amountsOk td"

lemma owed_userSum: "books.owed td u = userSum u (td_ledger td)"
  by (simp add: books.owed_def ledgerEntries_def userSum_def filter_map o_def)

lemma tokenInv_iff:
  "tokenInv td \<longleftrightarrow> books.balanced td \<and> books.solvent td \<and> replayOk (td_ledger td) \<and> amountsOk td"
  by (simp add: tokenInv_def books.balanced_def books.solvent_def owed_userSum)

lemma userSum_snoc [simp]:
  "userSum u (rows @ [r]) = userSum u rows + (if lg_userId r = u then lg_delta r else 0)"
  by (simp add: userSum_def)

lemma userSum_Nil [simp]: "userSum u [] = 0"
  by (simp add: userSum_def)

lemma replayOk_snoc:
  "replayOk (rows @ [r]) \<longleftrightarrow>
   replayOk rows \<and> lg_balanceAfter r = userSum (lg_userId r) rows + lg_delta r"
  by (auto simp: replayOk_def nth_append All_less_Suc)

lemma replayOk_two:
  "replayOk (rows @ [q, r]) \<longleftrightarrow>
   replayOk rows \<and> lg_balanceAfter q = userSum (lg_userId q) rows + lg_delta q \<and>
   lg_balanceAfter r = userSum (lg_userId r) rows + (if lg_userId q = lg_userId r then lg_delta q else 0) +
     lg_delta r"
  using replayOk_snoc [of "rows @ [q]" r] by (simp add: replayOk_snoc)

lemma td_ledger_append [simp]: "td_ledger (appendLedger r td) = td_ledger td @ [r]"
  by (simp add: appendLedger_def)

lemma amountsOk_frame [simp]:
  "amountsOk (appendLedger r td) = amountsOk td"
  "amountsOk (td\<lparr>td_accounts := acc\<rparr>) = amountsOk td"
  "amountsOk (td\<lparr>td_tips := tips\<rparr>) = amountsOk td"
  "amountsOk (td\<lparr>td_grants := grants\<rparr>) = amountsOk td"
  by (simp_all add: amountsOk_def appendLedger_def)

lemma balanceOf_frame [simp]:
  "balanceOf (appendLedger r td) = balanceOf td"
  "balanceOf (td\<lparr>td_tips := tips\<rparr>) = balanceOf td"
  "balanceOf (td\<lparr>td_purchases := ps\<rparr>) = balanceOf td"
  "balanceOf (td\<lparr>td_campaigns := cs\<rparr>) = balanceOf td"
  "balanceOf (td\<lparr>td_grants := gs\<rparr>) = balanceOf td"
  by (simp_all add: balanceOf_def appendLedger_def fun_eq_iff)

lemma ledgerRow_simps [simp]:
  "lg_userId (ledgerRow u d k b) = u" "lg_delta (ledgerRow u d k b) = d"
  "lg_balanceAfter (ledgerRow u d k b) = b" "lg_kind (ledgerRow u d k b) = k"
  by (simp_all add: ledgerRow_def)

text \<open>The two movements every operation is made of.\<close>

lemma credit_posted:
  assumes c: "credit u n e p td = Inr (b, td')" and inv: "tokenInv td" and n: "0 \<le> n"
    and r: "lg_userId r = u" "lg_delta r = n" "lg_balanceAfter r = b"
  shows "tokenInv (appendLedger r td')" and "balanceOf (appendLedger r td') = (balanceOf td)(u := balanceOf td u + n)"
proof -
  have "okState (credit u n e p td) = Some td'" using c by (simp add: guard_simps)
  note k = books.deposit_keeps [OF this, of r] and d = books.deposit_Some [OF this]
  have l: "td_ledger td' = td_ledger td" "amountsOk td' = amountsOk td" and b: "b = balanceOf td u + n"
    using c by (auto simp: guard_simps balanceOf_def)
  have "balanceOf td u = userSum u (td_ledger td)" using inv by (simp add: tokenInv_def)
  then show "tokenInv (appendLedger r td')"
    using k inv n r l b by (simp add: tokenInv_iff replayOk_snoc)
  show "balanceOf (appendLedger r td') = (balanceOf td)(u := balanceOf td u + n)"
    using d by simp
qed

lemma debit_posted:
  assumes c: "debit u n td = Inr (b, td')" and inv: "tokenInv td"
    and r: "lg_userId r = u" "lg_delta r = - n" "lg_balanceAfter r = b"
  shows "tokenInv (appendLedger r td')" and "balanceOf (appendLedger r td') = (balanceOf td)(u := balanceOf td u - n)"
    and "n \<le> balanceOf td u"
proof -
  have "okState (debit u n td) = Some td'" using c by (auto simp: guard_simps)
  note k = books.withdraw_keeps [OF this, of r] and d = books.withdraw_Some [OF this]
  have l: "td_ledger td' = td_ledger td" "amountsOk td' = amountsOk td" and b: "b = balanceOf td u - n"
    using c by (auto simp: guard_simps balanceOf_def)
  have "balanceOf td u = userSum u (td_ledger td)" using inv by (simp add: tokenInv_def)
  then show "tokenInv (appendLedger r td')"
    using k inv r l b by (simp add: tokenInv_iff replayOk_snoc)
  show "balanceOf (appendLedger r td') = (balanceOf td)(u := balanceOf td u - n)" "n \<le> balanceOf td u"
    using d by simp_all
qed


section \<open>The operations keep the invariant\<close>

lemma createTip_Ok [guard_simps]:
  "createTip tipId i td = Inr td' \<longleftrightarrow>
   ti_fromUserId i \<in> set (td_users td) \<and> ti_toUserId i \<in> set (td_users td) \<and> td_tips td tipId = None \<and>
   td' = td\<lparr>td_tips := (td_tips td)(tipId \<mapsto>
     \<lparr>tp_matchId = ti_matchId i, tp_fromUserId = ti_fromUserId i, tp_toUserId = ti_toUserId i,
      tp_tokens = \<lfloor>ti_tokens i\<rfloor>, tp_message = ti_message i,
      tp_offeredSeconds = ti_offeredSeconds i, tp_accepted = None, tp_respondedAt = None\<rparr>)\<rparr>"
  by (auto simp: createTip_def)

lemma isInteger_pos: "isInteger x \<Longrightarrow> 0 < x \<Longrightarrow> 0 < \<lfloor>x\<rfloor>"
  by (metis isInteger_def of_int_0_less_iff)

lemma sendTip_OkE:
  assumes "sendTip tipId i td = Inr ((t, sb), td')"
  obtains td1 td2 td3 rb where
    "ti_fromUserId i \<noteq> ti_toUserId i" "isInteger (ti_tokens i)" "0 < \<lfloor>ti_tokens i\<rfloor>" "t = tipId"
    "debit (ti_fromUserId i) \<lfloor>ti_tokens i\<rfloor> td = Inr (sb, td1)"
    "createTip tipId i td1 = Inr td2"
    "credit (ti_toUserId i) \<lfloor>ti_tokens i\<rfloor> \<lfloor>ti_tokens i\<rfloor> 0 td2 = Inr (rb, td3)"
    "td' = appendLedger ((ledgerRow (ti_toUserId i) \<lfloor>ti_tokens i\<rfloor> TIP_RECEIVED rb)
              \<lparr>lg_counterpartyId := Some (ti_fromUserId i), lg_matchId := ti_matchId i,
               lg_tipId := Some tipId\<rparr>)
            (appendLedger ((ledgerRow (ti_fromUserId i) (- \<lfloor>ti_tokens i\<rfloor>) TIP_SENT sb)
                \<lparr>lg_counterpartyId := Some (ti_toUserId i), lg_matchId := ti_matchId i,
                 lg_tipId := Some tipId\<rparr>) td3)"
  using assms isInteger_pos [of "ti_tokens i"]
  by (auto simp: sendTip_def Let_def andThen_Inr split: if_splits)

lemma sendTip_effect:
  assumes "sendTip tipId i td = Inr ((t, sb), td')" and inv: "tokenInv td"
  defines "n \<equiv> \<lfloor>ti_tokens i\<rfloor>" and "a \<equiv> ti_fromUserId i" and "b \<equiv> ti_toUserId i"
  shows "tokenInv td'" "a \<noteq> b" "0 < n" "n \<le> balanceOf td a" "sb = balanceOf td a - n" "t = tipId"
    "balanceOf td' = (balanceOf td)(a := balanceOf td a - n, b := balanceOf td b + n)"
    "books.total td' = books.total td" "td_tips td tipId = None"
    "td_tips td' = (td_tips td)(tipId \<mapsto>
       \<lparr>tp_matchId = ti_matchId i, tp_fromUserId = a, tp_toUserId = b, tp_tokens = n,
        tp_message = ti_message i, tp_offeredSeconds = ti_offeredSeconds i, tp_accepted = None,
        tp_respondedAt = None\<rparr>)"
proof -
  from assms(1) obtain td1 td2 td3 rb where
    ne: "a \<noteq> b" and pos: "0 < n" and t: "t = tipId" and d: "debit a n td = Inr (sb, td1)" and
    c: "createTip tipId i td1 = Inr td2" and k: "credit b n n 0 td2 = Inr (rb, td3)" and
    td': "td' = appendLedger ((ledgerRow b n TIP_RECEIVED rb)
              \<lparr>lg_counterpartyId := Some a, lg_matchId := ti_matchId i, lg_tipId := Some tipId\<rparr>)
            (appendLedger ((ledgerRow a (- n) TIP_SENT sb)
                \<lparr>lg_counterpartyId := Some b, lg_matchId := ti_matchId i, lg_tipId := Some tipId\<rparr>) td3)"
    unfolding n_def a_def b_def by (rule sendTip_OkE)
  have w: "okState (debit a n td) = Some td1" and p: "okState (credit b n n 0 td2) = Some td3"
    using d k by (simp_all add: okState_def)
  have f: "balanceOf td2 = balanceOf td1" "ledgerEntries td2 = ledgerEntries td1"
    "td_ledger td2 = td_ledger td1" "amountsOk td2 = amountsOk td1"
    using c by (auto simp: guard_simps ledgerEntries_def)
  have l: "td_ledger td1 = td_ledger td" "td_ledger td3 = td_ledger td2" "amountsOk td1 = amountsOk td"
    "amountsOk td3 = amountsOk td2"
    using d k by (auto simp: guard_simps)
  note w1 = books.withdraw_Some [OF w] and p1 = books.deposit_Some [OF p]
  have sb: "sb = balanceOf td a - n" using d by (auto simp: guard_simps balanceOf_def)
  have rb: "rb = balanceOf td b + n"
    using k w1 f(1) ne by (auto simp: guard_simps balanceOf_def fun_eq_iff split: option.splits)
  have bal: "books.balanced td" "books.solvent td" "replayOk (td_ledger td)" "amountsOk td"
    using inv by (auto simp: tokenInv_iff)
  have us: "balanceOf td u = userSum u (td_ledger td)" for u using inv by (simp add: tokenInv_def)
  note keep = books.transfer_keeps [OF w p f(1,2) _ _ bal(1),
      of "(ledgerRow a (- n) TIP_SENT sb)
            \<lparr>lg_counterpartyId := Some b, lg_matchId := ti_matchId i, lg_tipId := Some tipId\<rparr>"
         "(ledgerRow b n TIP_RECEIVED rb)
            \<lparr>lg_counterpartyId := Some a, lg_matchId := ti_matchId i, lg_tipId := Some tipId\<rparr>"]
  have "replayOk (td_ledger td')"
    using bal(3) us [of a] us [of b] ne by (simp add: td' replayOk_two l f(3) sb rb)
  then show "tokenInv td'"
    using keep bal pos l f by (simp add: tokenInv_iff td')
  show "books.total td' = books.total td" using keep(3) by (simp add: td')
  show "a \<noteq> b" "0 < n" "t = tipId" "sb = balanceOf td a - n" by (fact ne pos t sb)+
  show "n \<le> balanceOf td a" using w1 by simp
  show "balanceOf td' = (balanceOf td)(a := balanceOf td a - n, b := balanceOf td b + n)"
    using w1 p1 f(1) ne by (auto simp: td' fun_eq_iff)
  show "td_tips td tipId = None" using c d by (auto simp: guard_simps)
  show "td_tips td' = (td_tips td)(tipId \<mapsto>
       \<lparr>tp_matchId = ti_matchId i, tp_fromUserId = a, tp_toUserId = b, tp_tokens = n,
        tp_message = ti_message i, tp_offeredSeconds = ti_offeredSeconds i, tp_accepted = None,
        tp_respondedAt = None\<rparr>)"
    using c d k by (auto simp: td' appendLedger_def guard_simps a_def b_def n_def)
qed

lemma getBalance_tokenInv: "getBalance u td = Inr (a, td') \<Longrightarrow> tokenInv td \<Longrightarrow> tokenInv td'"
proof -
  assume "getBalance u td = Inr (a, td')" "tokenInv td"
  moreover have "balanceOf (td\<lparr>td_accounts := (td_accounts td)(u \<mapsto> newAccount)\<rparr>) = balanceOf td"
    if "td_accounts td u = None"
    using that by (auto simp: balanceOf_def newAccount_def)
  ultimately show ?thesis
    by (auto simp: getBalance_def tokenInv_def split: option.splits if_splits)
qed

lemma respondWrite_tokenInv: "tokenInv (respondWrite now tipId acc td) = tokenInv td"
  by (simp add: respondWrite_def tokenInv_def)

lemma createPurchase_tokenInv:
  "createPurchase newId u pkg ref td = Inr (x, td') \<Longrightarrow> tokenInv td \<Longrightarrow> tokenInv td'"
  by (auto simp: createPurchase_def tokenInv_def amountsOk_def split: option.splits if_splits
      dest!: find_Some_iff2)

lemma fulfilWrite_Ok [guard_simps]:
  "fulfilWrite p ev td = Inr td' \<Longrightarrow>
   \<exists>b td2. credit (pu_userId p) (pu_tokens p) 0 (pu_tokens p)
        (td\<lparr>td_purchases := updateWhere (\<lambda>q. pu_id q = pu_id p)
           (\<lambda>q. q\<lparr>pu_status := PurchaseStatus_COMPLETED, pu_providerEventId := Some ev\<rparr>)
           (td_purchases td)\<rparr>) = Inr (b, td2) \<and>
     td' = appendLedger ((ledgerRow (pu_userId p) (pu_tokens p) PURCHASE b)\<lparr>lg_purchaseId := Some (pu_id p)\<rparr>) td2"
  by (auto simp: fulfilWrite_def Let_def andThen_Inr split: if_splits)

lemma tokenInv_purchases:
  "tokenInv td \<Longrightarrow> (\<And>q. q \<in> set ps \<Longrightarrow> 0 \<le> pu_tokens q) \<Longrightarrow> tokenInv (td\<lparr>td_purchases := ps\<rparr>)"
  by (auto simp: tokenInv_def amountsOk_def)

lemma fulfilWrite_effect:
  assumes "fulfilWrite p ev td = Inr td'" and inv: "tokenInv td" and "0 \<le> pu_tokens p"
  shows "tokenInv td'"
    and "balanceOf td' = (balanceOf td)(pu_userId p := balanceOf td (pu_userId p) + pu_tokens p)"
    and "td_purchases td' = updateWhere (\<lambda>q. pu_id q = pu_id p)
           (\<lambda>q. q\<lparr>pu_status := PurchaseStatus_COMPLETED, pu_providerEventId := Some ev\<rparr>) (td_purchases td)"
proof -
  define td1 where "td1 = td\<lparr>td_purchases := updateWhere (\<lambda>q. pu_id q = pu_id p)
      (\<lambda>q. q\<lparr>pu_status := PurchaseStatus_COMPLETED, pu_providerEventId := Some ev\<rparr>) (td_purchases td)\<rparr>"
  obtain b td2 where c: "credit (pu_userId p) (pu_tokens p) 0 (pu_tokens p) td1 = Inr (b, td2)"
    and td': "td' = appendLedger ((ledgerRow (pu_userId p) (pu_tokens p) PURCHASE b)\<lparr>lg_purchaseId := Some (pu_id p)\<rparr>) td2"
    using fulfilWrite_Ok [OF assms(1)] unfolding td1_def by blast
  have "\<forall>q\<in>set (td_purchases td). 0 \<le> pu_tokens q" using inv by (simp add: tokenInv_def amountsOk_def)
  then have "tokenInv td1"
    unfolding td1_def by (intro tokenInv_purchases [OF inv]) (auto simp: set_updateWhere)
  from credit_posted [OF c this assms(3), of "(ledgerRow (pu_userId p) (pu_tokens p) PURCHASE b)
        \<lparr>lg_purchaseId := Some (pu_id p)\<rparr>"]
  show "tokenInv td'" "balanceOf td' = (balanceOf td)(pu_userId p := balanceOf td (pu_userId p) + pu_tokens p)"
    by (simp_all add: td' td1_def)
  show "td_purchases td' = updateWhere (\<lambda>q. pu_id q = pu_id p)
           (\<lambda>q. q\<lparr>pu_status := PurchaseStatus_COMPLETED, pu_providerEventId := Some ev\<rparr>) (td_purchases td)"
    using c by (auto simp: td' appendLedger_def td1_def guard_simps)
qed

lemma fulfilRead_Some:
  "fulfilRead ref td = Some p \<Longrightarrow>
   p \<in> set (td_purchases td) \<and> pu_providerRef p = ref \<and> pu_status p \<noteq> PurchaseStatus_COMPLETED"
  by (auto simp: fulfilRead_def split: option.splits if_splits dest!: find_Some_iff2)

lemma fulfilPurchase_tokenInv:
  assumes "fulfilPurchase ref ev td = Inr (r, td')" "tokenInv td"
  shows "tokenInv td'"
proof (cases "fulfilRead ref td")
  case (Some p)
  then have "0 \<le> pu_tokens p"
    using fulfilRead_Some [OF Some] assms(2) by (auto simp: tokenInv_def amountsOk_def)
  then show ?thesis
    using assms Some fulfilWrite_effect(1) [of p ev td]
    by (auto simp: fulfilPurchase_def split: sum.splits TokenFailure.splits)
qed (use assms in \<open>simp add: fulfilPurchase_def\<close>)

lemma adjust_tokenInv:
  assumes "adjust u delta note td = Inr (b, td')" and inv: "tokenInv td"
  shows "tokenInv td'"
proof (cases "delta > 0")
  case True
  then have "0 < \<lfloor>delta\<rfloor>"
    using assms(1) isInteger_pos by (auto simp: adjust_def Let_def split: if_splits)
  with True obtain td1 where "credit u \<lfloor>delta\<rfloor> 0 0 td = Inr (b, td1)"
    and td': "td' = appendLedger ((ledgerRow u \<lfloor>delta\<rfloor> ADJUSTMENT b)\<lparr>lg_note := Some (take 200 note)\<rparr>) td1"
    using assms(1) by (auto simp: adjust_def Let_def andThen_Inr split: if_splits)
  from credit_posted(1) [OF this(1) inv] \<open>0 < \<lfloor>delta\<rfloor>\<close> show ?thesis by (simp add: td')
next
  case False
  with assms(1) have "delta < 0" "isInteger delta"
    by (auto simp: adjust_def Let_def split: if_splits)
  then have abs: "\<bar>\<lfloor>delta\<rfloor>\<bar> = - \<lfloor>delta\<rfloor>"
    by (simp add: isInteger_def)
  from False obtain td1 where "debit u \<bar>\<lfloor>delta\<rfloor>\<bar> td = Inr (b, td1)"
    and td': "td' = appendLedger ((ledgerRow u \<lfloor>delta\<rfloor> ADJUSTMENT b)\<lparr>lg_note := Some (take 200 note)\<rparr>) td1"
    using assms(1) by (auto simp: adjust_def Let_def andThen_Inr split: if_splits)
  from debit_posted(1) [OF this(1) inv] abs show ?thesis by (simp add: td')
qed


lemma fulfilRead_after:
  assumes "fulfilRead ref td = Some p"
    and "td_purchases td' = updateWhere (\<lambda>q. pu_id q = pu_id p)
           (\<lambda>q. q\<lparr>pu_status := PurchaseStatus_COMPLETED, pu_providerEventId := Some ev\<rparr>) (td_purchases td)"
  shows "fulfilRead ref td' = None"
  using assms by (auto simp: fulfilRead_def find_updateWhere split: option.splits if_splits)

text \<open>The only row with the event id is the purchase itself, so the unique index stays silent.\<close>

lemma fulfilWrite_again:
  assumes "fulfilWrite p ev td = Inr td1"
  shows "fulfilWrite p ev td1 \<noteq> Inl UniqueViolation"
proof -
  have u: "\<not> list_ex (\<lambda>q. pu_id q \<noteq> pu_id p \<and> pu_providerEventId q = Some ev) (td_purchases td)"
    and l: "td_purchases td1 = updateWhere (\<lambda>q. pu_id q = pu_id p)
           (\<lambda>q. q\<lparr>pu_status := PurchaseStatus_COMPLETED, pu_providerEventId := Some ev\<rparr>) (td_purchases td)"
    using assms
    by (auto simp: fulfilWrite_def Let_def andThen_Inr guard_simps appendLedger_def split: if_splits)
  then have "\<not> list_ex (\<lambda>q. pu_id q \<noteq> pu_id p \<and> pu_providerEventId q = Some ev) (td_purchases td1)"
    by (auto simp: list_ex_iff set_updateWhere split: if_splits)
  then show ?thesis
    by (auto simp: fulfilWrite_def Let_def credit_def appendLedger_def)
qed

section \<open>Properties\<close>

text \<open>A database in which one user holds tokens, has a pending purchase and was offered call time.\<close>

definition exampleTokenDb :: TokenDb where
  "exampleTokenDb = (emptyTokenDb [''ana'', ''bo''])
     \<lparr>td_accounts := [''ana'' \<mapsto> \<lparr>ta_balance = 50, ta_lifetimeEarned = 0, ta_lifetimePurchased = 50\<rparr>],
      td_ledger := [ledgerRow ''ana'' 50 PURCHASE 50],
      td_tips := [''t0'' \<mapsto> \<lparr>tp_matchId = None, tp_fromUserId = ''bo'', tp_toUserId = ''ana'', tp_tokens = 5,
          tp_message = None, tp_offeredSeconds = Some 60, tp_accepted = None, tp_respondedAt = None\<rparr>],
      td_purchases := [\<lparr>pu_id = ''p1'', pu_userId = ''ana'', pu_packageId = ''k'', pu_providerRef = ''cs_1'',
          pu_providerEventId = None, pu_tokens = 100, pu_amountCents = 999, pu_currency = ''EUR'',
          pu_status = PurchaseStatus_PENDING\<rparr>]\<rparr>"

lemma exampleTokenDb_inv: "tokenInv exampleTokenDb"
  by (simp add: tokenInv_def exampleTokenDb_def emptyTokenDb_def balanceOf_def userSum_def replayOk_def
      amountsOk_def ledgerRow_def)

definition exampleTip :: TipInput where
  "exampleTip = \<lparr>ti_fromUserId = ''ana'', ti_toUserId = ''bo'', ti_tokens = 20, ti_matchId = None,
     ti_message = None, ti_offeredSeconds = None\<rparr>"

lemma exampleTip_sent: "\<exists>r. sendTip ''t1'' exampleTip exampleTokenDb = Inr r"
  by (simp add: sendTip_def exampleTip_def exampleTokenDb_def emptyTokenDb_def isInteger_def debit_def
      createTip_def credit_def Let_def creditedAccount_def fitsInt4_def INT4_MAX_def)

text \<open>A sent tip moves exactly its amount from a sender who had it to another user, creates and
destroys nothing, records both sides in the ledger with the right running balances, and keeps every
balance equal to the sum of its ledger rows and non-negative.\<close>

theorem sendTip_transfers:
  assumes "sendTip tipId i td = Ok ((t, senderBalance), td')" and "tokenInv td"
  shows "ti_fromUserId i \<noteq> ti_toUserId i \<and> 0 < \<lfloor>ti_tokens i\<rfloor> \<and>
         \<lfloor>ti_tokens i\<rfloor> \<le> balanceOf td (ti_fromUserId i) \<and>
         senderBalance = balanceOf td' (ti_fromUserId i) \<and>
         balanceOf td' = (balanceOf td)
           (ti_fromUserId i := balanceOf td (ti_fromUserId i) - \<lfloor>ti_tokens i\<rfloor>,
            ti_toUserId i := balanceOf td (ti_toUserId i) + \<lfloor>ti_tokens i\<rfloor>) \<and>
         sum_list (map lg_delta (td_ledger td')) = sum_list (map lg_delta (td_ledger td)) \<and>
         tokenInv td'"
  using sendTip_effect [OF assms]
  by (simp add: books.total_def ledgerEntries_def o_def)

lemma sendTip_transfers_witness:
  "\<exists>td'. sendTip ''t1'' exampleTip exampleTokenDb = Ok ((''t1'', 30), td') \<and> balanceOf td' ''bo'' = 20 \<and>
     tokenInv td'"
proof -
  obtain t sb td' where r: "sendTip ''t1'' exampleTip exampleTokenDb = Inr ((t, sb), td')"
    using exampleTip_sent by (auto simp: split_paired_Ex)
  have "sb = 30" "t = ''t1''"
    using sendTip_effect(5,6) [OF r exampleTokenDb_inv]
    by (simp_all add: exampleTip_def exampleTokenDb_def emptyTokenDb_def balanceOf_def)
  moreover have "balanceOf td' ''bo'' = 20 \<and> tokenInv td'"
    using sendTip_transfers [OF r exampleTokenDb_inv]
    by (simp add: exampleTip_def exampleTokenDb_def emptyTokenDb_def balanceOf_def)
  ultimately show ?thesis using r by blast
qed

text \<open>What \<open>sendTip\<close> refuses, and with which error: a tip to oneself, an amount that is no positive
whole number, and an amount above the balance. Anything else is sent, unless a foreign key, a reused id
or the 32-bit columns stop it; a refusal writes nothing, since it returns no tables.\<close>

theorem sendTip_refuses:
  "sendTip tipId i td \<in>
     (if ti_fromUserId i = ti_toUserId i then {Throw (TokenError SELF_TIP)}
      else if \<not> isInteger (ti_tokens i) \<or> ti_tokens i \<le> 0 then {Throw (TokenError INVALID_AMOUNT)}
      else if balanceOf td (ti_fromUserId i) < \<lfloor>ti_tokens i\<rfloor> then {Throw (TokenError INSUFFICIENT_FUNDS)}
      else insert (Throw DbError) (range Ok))"
proof (cases "td_accounts td (ti_fromUserId i)")
  case None
  then show ?thesis
    using isInteger_pos [of "ti_tokens i"] by (auto simp: sendTip_def Let_def debit_def balanceOf_def)
next
  case (Some a)
  then show ?thesis
    by (auto simp: sendTip_def Let_def debit_def balanceOf_def createTip_def credit_def)
qed

text \<open>Fulfilment is idempotent: a delivery that credits the purchase credits exactly its tokens, and
every later delivery for the same checkout, with the same or another event id, answers false and changes
nothing.\<close>

theorem fulfilPurchase_idempotent:
  assumes "fulfilPurchase ref ev td = Ok (True, td')" and "tokenInv td"
  shows "(\<exists>p\<in>set (td_purchases td). pu_providerRef p = ref \<and>
            balanceOf td' = (balanceOf td)(pu_userId p := balanceOf td (pu_userId p) + pu_tokens p)) \<and>
         fulfilPurchase ref ev' td' = Ok (False, td')"
proof -
  obtain p where r: "fulfilRead ref td = Some p" and w: "fulfilWrite p ev td = Inr td'"
    using assms(1) by (auto simp: fulfilPurchase_def split: option.splits sum.splits TokenFailure.splits)
  have p: "p \<in> set (td_purchases td)" "pu_providerRef p = ref" using fulfilRead_Some [OF r] by auto
  then have "0 \<le> pu_tokens p" using assms(2) by (auto simp: tokenInv_def amountsOk_def)
  note e = fulfilWrite_effect [OF w assms(2) this]
  show ?thesis
    using p e(2) fulfilRead_after [OF r e(3)] by (auto simp: fulfilPurchase_def)
qed

lemma exampleFulfil: "\<exists>td'. fulfilPurchase ''cs_1'' ''ev_1'' exampleTokenDb = Ok (True, td')"
  by (simp add: fulfilPurchase_def fulfilRead_def fulfilWrite_def exampleTokenDb_def emptyTokenDb_def
      credit_def Let_def creditedAccount_def fitsInt4_def INT4_MAX_def)

lemma fulfilPurchase_idempotent_witness:
  "\<exists>td'. fulfilPurchase ''cs_1'' ''ev_1'' exampleTokenDb = Ok (True, td') \<and>
     fulfilPurchase ''cs_1'' ''ev_2'' td' = Ok (False, td')"
  using exampleFulfil fulfilPurchase_idempotent [OF _ exampleTokenDb_inv] by blast

text \<open>The idempotence does not survive concurrency. A delivery is a read and a later write, and the
write is guarded neither by the status nor, for the row itself, by the unique event id: when a second
delivery of the same event has read the purchase before the first one wrote, its write is not turned away
as a duplicate, and if it goes through the tokens are credited twice.\<close>

theorem fulfilPurchase_concurrent_double_credit:
  assumes "fulfilRead ref td = Some p" and "fulfilWrite p ev td = Ok td1" and "tokenInv td"
  shows "fulfilWrite p ev td1 \<noteq> Throw UniqueViolation \<and>
         (\<forall>td2. fulfilWrite p ev td1 = Ok td2 \<longrightarrow>
            balanceOf td2 (pu_userId p) = balanceOf td (pu_userId p) + 2 * pu_tokens p)"
proof -
  have n: "0 \<le> pu_tokens p"
    using fulfilRead_Some [OF assms(1)] assms(3) by (auto simp: tokenInv_def amountsOk_def)
  note e1 = fulfilWrite_effect [OF assms(2,3) n]
  show ?thesis
    using fulfilWrite_again [OF assms(2)] fulfilWrite_effect(2) [OF _ e1(1) n] e1(2) by auto
qed

lemma fulfilPurchase_concurrent_double_credit_witness:
  "\<exists>p td1 td2. fulfilRead ''cs_1'' exampleTokenDb = Some p \<and>
     fulfilWrite p ''ev_1'' exampleTokenDb = Ok td1 \<and> fulfilWrite p ''ev_1'' td1 = Ok td2 \<and>
     balanceOf td2 ''ana'' = 250"
proof -
  obtain p where r: "fulfilRead ''cs_1'' exampleTokenDb = Some p" and u: "pu_userId p = ''ana''" "pu_tokens p = 100"
    by (simp add: fulfilRead_def exampleTokenDb_def)
  obtain td1 where w: "fulfilWrite p ''ev_1'' exampleTokenDb = Ok td1"
    using exampleFulfil r by (auto simp: fulfilPurchase_def split: sum.splits TokenFailure.splits)
  have "\<exists>td2. fulfilWrite p ''ev_1'' td1 = Ok td2"
    using r w
    by (auto simp: fulfilRead_def exampleTokenDb_def emptyTokenDb_def fulfilWrite_def credit_def Let_def
        creditedAccount_def fitsInt4_def INT4_MAX_def appendLedger_def updateWhere_def)
  then obtain td2 where w2: "fulfilWrite p ''ev_1'' td1 = Ok td2" by blast
  then have "balanceOf td2 ''ana'' = balanceOf exampleTokenDb ''ana'' + 200"
    using fulfilPurchase_concurrent_double_credit [OF r w exampleTokenDb_inv] u by simp
  then have "balanceOf td2 ''ana'' = 250"
    by (simp add: balanceOf_def exampleTokenDb_def)
  with r w w2 show ?thesis by blast
qed

text \<open>An offer answered once cannot be answered again in sequence, but nothing makes the answer
atomic: two answers that both read the offer before either wrote are both accepted, and the one that
writes last decides what is stored.\<close>

theorem respondToOffer_once_but_racy:
  assumes "respondRead tipId userId td = Ok r"
  shows "(\<exists>td1. respondToOffer now tipId userId accepted td = Ok (r, td1) \<and>
            respondToOffer now' tipId userId accepted' td1 = Throw (TokenError ALREADY_ANSWERED)) \<and>
         (\<exists>tip. td_tips (respondWrite now' tipId accepted' (respondWrite now tipId accepted td)) tipId
                  = Some tip \<and> tp_accepted tip = Some accepted')"
  using assms
  by (auto simp: respondRead_def respondToOffer_def respondWrite_def table_simps
      split: option.splits if_splits)

lemma respondToOffer_once_but_racy_witness:
  "\<exists>tip. td_tips (respondWrite 2 ''t0'' False (respondWrite 1 ''t0'' True exampleTokenDb)) ''t0'' = Some tip \<and>
     tp_accepted tip = Some False"
proof -
  have "respondRead ''t0'' ''ana'' exampleTokenDb = Ok (''bo'', 60)"
    by (simp add: respondRead_def exampleTokenDb_def)
  from respondToOffer_once_but_racy [OF this] show ?thesis by blast
qed

end
