(* ===== verification/Campaigns.thy ===== *)
theory Campaigns
  imports Tokens
begin

text \<open>Promotional campaigns, \<^verbatim>\<open>packages/database/src/campaigns.service.ts\<close>: which campaigns are live,
who is eligible, the claim with its reservation, grant transaction and release, and the administrative
operations. \<open>claimStep\<close> interleaves the statements of concurrent claims.\<close>

section \<open>Eligibility\<close>

record EligibilityContext =
  ec_createdAt :: instant
  ec_emailVerified :: bool
  ec_deletedAt :: "instant option"

record GrantResult =
  gt_campaignId :: row_id
  gt_campaignName :: string
  gt_tokens :: int

definition isLive :: "instant \<Rightarrow> CampaignRow \<Rightarrow> bool" where
  "isLive now c =
     (cg_status c = CampaignStatus_ACTIVE \<and>
      (case cg_startsAt c of None \<Rightarrow> True | Some t \<Rightarrow> t \<le> now) \<and>
      (case cg_endsAt c of None \<Rightarrow> True | Some t \<Rightarrow> now \<le> t))"

definition liveCampaigns :: "instant \<Rightarrow> TokenDb \<Rightarrow> CampaignRow list" where
  "liveCampaigns now td = sort_key cg_createdAt (filter (isLive now) (td_campaigns td))"

text \<open>The three \<^verbatim>\<open>continue\<close> guards of the loop.\<close>

definition isEligible :: "EligibilityContext \<Rightarrow> CampaignRow \<Rightarrow> bool" where
  "isEligible ctx c =
     (if cg_requiresVerifiedEmail c \<and> \<not> ec_emailVerified ctx then False
      else if cg_audience c = NEW_USERS \<and>
              ec_createdAt ctx < (case cg_startsAt c of Some t \<Rightarrow> t | None \<Rightarrow> cg_createdAt c) then False
      else case cg_maxGrants c of None \<Rightarrow> True | Some m \<Rightarrow> \<not> m \<le> cg_grantsIssued c)"

section \<open>Claiming\<close>

definition MAX_SAFE_INTEGER :: int where
  "MAX_SAFE_INTEGER = 9007199254740991"

definition findCampaign :: "row_id \<Rightarrow> TokenDb \<Rightarrow> CampaignRow option" where
  "findCampaign cid td = find (\<lambda>c. cg_id c = cid) (td_campaigns td)"

definition hasGrant :: "row_id \<Rightarrow> user_id \<Rightarrow> TokenDb \<Rightarrow> bool" where
  "hasGrant cid u td = list_ex (\<lambda>g. gr_campaignId g = cid \<and> gr_userId g = u) (td_grants td)"

definition claimRead :: "row_id \<Rightarrow> user_id \<Rightarrow> TokenDb \<Rightarrow> CampaignRow option" where
  "claimRead cid u td =
     (case findCampaign cid td of
        None \<Rightarrow> None | Some c \<Rightarrow> if hasGrant cid u td then None else Some c)"

definition setIssued :: "row_id \<Rightarrow> (int \<Rightarrow> int) \<Rightarrow> TokenDb \<Rightarrow> TokenDb" where
  "setIssued cid f td =
     td\<lparr>td_campaigns := updateWhere (\<lambda>c. cg_id c = cid)
          (\<lambda>c. c\<lparr>cg_grantsIssued := f (cg_grantsIssued c)\<rparr>) (td_campaigns td)\<rparr>"

text \<open>The conditional update; the cap it compares with is the one read before.\<close>

definition reserveSlot :: "CampaignRow \<Rightarrow> TokenDb \<Rightarrow> TokenDb option" where
  "reserveSlot read td =
     (case findCampaign (cg_id read) td of
        None \<Rightarrow> None
      | Some c \<Rightarrow>
          if cg_status c = CampaignStatus_ACTIVE \<and>
             (cg_maxGrants c = None \<or>
              cg_grantsIssued c < (case cg_maxGrants read of Some m \<Rightarrow> m | None \<Rightarrow> MAX_SAFE_INTEGER))
          then Some (setIssued (cg_id read) (\<lambda>n. n + 1) td) else None)"

definition grantTx :: "CampaignRow \<Rightarrow> user_id \<Rightarrow> TokenDb \<Rightarrow> TokenFailure + TokenDb" where
  "grantTx read u td =
     (if hasGrant (cg_id read) u td then Throw UniqueViolation
      else
        andThen (credit u (cg_tokens read) (cg_tokens read) 0
            (td\<lparr>td_grants := td_grants td @
               [\<lparr>gr_campaignId = cg_id read, gr_userId = u, gr_tokens = cg_tokens read\<rparr>]\<rparr>))
          (\<lambda>(balance, td1).
             Ok (appendLedger ((ledgerRow u (cg_tokens read) PROMO balance)
                   \<lparr>lg_campaignId := Some (cg_id read), lg_note := Some (take 200 (cg_name read))\<rparr>) td1)))"

definition releaseSlot :: "row_id \<Rightarrow> TokenDb \<Rightarrow> TokenDb" where
  "releaseSlot cid td =
     (case findCampaign cid td of
        None \<Rightarrow> td
      | Some c \<Rightarrow> if 0 < cg_grantsIssued c then setIssued cid (\<lambda>n. n - 1) td else td)"

text \<open>A failed claim still has an effect, the released slot, so the tables are returned beside the
result.\<close>

definition claim :: "row_id \<Rightarrow> user_id \<Rightarrow> TokenDb \<Rightarrow> (TokenFailure + GrantResult option) \<times> TokenDb" where
  "claim cid u td =
     (case claimRead cid u td of
        None \<Rightarrow> (Ok None, td)
      | Some c \<Rightarrow>
          (case reserveSlot c td of
             None \<Rightarrow> (Ok None, td)
           | Some td1 \<Rightarrow>
               (case grantTx c u td1 of
                  Inr td2 \<Rightarrow> (Ok (Some \<lparr>gt_campaignId = cid, gt_campaignName = cg_name c,
                                 gt_tokens = cg_tokens c\<rparr>), td2)
                | Inl UniqueViolation \<Rightarrow> (Ok None, releaseSlot cid td1)
                | Inl e \<Rightarrow> (Throw e, releaseSlot cid td1))))"

text \<open>The loop over the live campaigns; a thrown error ends it and the result is empty, what was
granted before stays granted.\<close>

fun claimAll :: "EligibilityContext \<Rightarrow> user_id \<Rightarrow> CampaignRow list \<Rightarrow> GrantResult list \<Rightarrow> TokenDb \<Rightarrow>
    GrantResult list \<times> TokenDb" where
  "claimAll ctx u [] granted td = (granted, td)"
| "claimAll ctx u (c # cs) granted td =
     (if \<not> isEligible ctx c then claimAll ctx u cs granted td
      else case claim (cg_id c) u td of
             (Inl e, td') \<Rightarrow> ([], td')
           | (Inr None, td') \<Rightarrow> claimAll ctx u cs granted td'
           | (Inr (Some g), td') \<Rightarrow> claimAll ctx u cs (granted @ [g]) td')"

definition applyEligible ::
    "instant \<Rightarrow> (user_id \<rightharpoonup> EligibilityContext) \<Rightarrow> user_id \<Rightarrow> TokenDb \<Rightarrow> GrantResult list \<times> TokenDb" where
  "applyEligible now users u td =
     (case users u of
        None \<Rightarrow> ([], td)
      | Some ctx \<Rightarrow>
          if ec_deletedAt ctx \<noteq> None then ([], td)
          else claimAll ctx u (liveCampaigns now td) [] td)"

section \<open>Administration\<close>

definition createCampaign ::
    "row_id \<Rightarrow> instant \<Rightarrow> string \<Rightarrow> string option \<Rightarrow> int \<Rightarrow> CampaignAudience \<Rightarrow> instant option \<Rightarrow>
     instant option \<Rightarrow> int option \<Rightarrow> bool option \<Rightarrow> user_id \<Rightarrow> TokenDb \<Rightarrow> TokenDb" where
  "createCampaign newId now name description tokens audience startsAt endsAt maxGrants verified createdById td =
     td\<lparr>td_campaigns := td_campaigns td @
       [\<lparr>cg_id = newId, cg_name = name, cg_description = description, cg_tokens = tokens,
         cg_audience = audience, cg_status = CampaignStatus_DRAFT, cg_startsAt = startsAt,
         cg_endsAt = endsAt, cg_maxGrants = maxGrants, cg_grantsIssued = 0,
         cg_requiresVerifiedEmail = (case verified of None \<Rightarrow> True | Some b \<Rightarrow> b),
         cg_createdById = Some createdById, cg_createdAt = now\<rparr>]\<rparr>"

text \<open>\<open>None\<close> is a field the request leaves out; a nullable field that is sent as null is \<open>Some None\<close>.\<close>

record CampaignUpdate =
  cu_name :: "string option"
  cu_description :: "string option option"
  cu_tokens :: "int option"
  cu_audience :: "CampaignAudience option"
  cu_startsAt :: "instant option option"
  cu_endsAt :: "instant option option"
  cu_maxGrants :: "int option option"
  cu_requiresVerifiedEmail :: "bool option"

definition given :: "'a option \<Rightarrow> 'a \<Rightarrow> 'a" where
  "given i old = (case i of None \<Rightarrow> old | Some v \<Rightarrow> v)"

definition applyUpdate :: "CampaignUpdate \<Rightarrow> CampaignRow \<Rightarrow> CampaignRow" where
  "applyUpdate i c =
     c\<lparr>cg_name := given (cu_name i) (cg_name c),
       cg_description := given (cu_description i) (cg_description c),
       cg_tokens := given (cu_tokens i) (cg_tokens c),
       cg_audience := given (cu_audience i) (cg_audience c),
       cg_startsAt := given (cu_startsAt i) (cg_startsAt c),
       cg_endsAt := given (cu_endsAt i) (cg_endsAt c),
       cg_maxGrants := given (cu_maxGrants i) (cg_maxGrants c),
       cg_requiresVerifiedEmail := given (cu_requiresVerifiedEmail i) (cg_requiresVerifiedEmail c)\<rparr>"

datatype CampaignError = LockedTerms | EndedCampaign

definition updateCampaign :: "row_id \<Rightarrow> CampaignUpdate \<Rightarrow> TokenDb \<Rightarrow> CampaignError + bool \<times> TokenDb" where
  "updateCampaign cid i td =
     (case findCampaign cid td of
        None \<Rightarrow> Ok (False, td)
      | Some c \<Rightarrow>
          if 0 < cg_grantsIssued c \<and> (cu_tokens i \<noteq> None \<or> cu_audience i \<noteq> None) then Throw LockedTerms
          else Ok (True, td\<lparr>td_campaigns :=
                 updateWhere (\<lambda>c. cg_id c = cid) (applyUpdate i) (td_campaigns td)\<rparr>))"

definition setStatus :: "row_id \<Rightarrow> CampaignStatus \<Rightarrow> TokenDb \<Rightarrow> CampaignError + bool \<times> TokenDb" where
  "setStatus cid status td =
     (case findCampaign cid td of
        None \<Rightarrow> Ok (False, td)
      | Some c \<Rightarrow>
          if cg_status c = CampaignStatus_ENDED then Throw EndedCampaign
          else Ok (True, td\<lparr>td_campaigns := updateWhere (\<lambda>c. cg_id c = cid)
                 (\<lambda>c. c\<lparr>cg_status := status\<rparr>) (td_campaigns td)\<rparr>))"

definition campaignStats :: "TokenDb \<Rightarrow> nat \<times> int" where
  "campaignStats td =
     (length (filter (\<lambda>c. cg_status c = CampaignStatus_ACTIVE) (td_campaigns td)),
      sum_list (map lg_delta (filter (\<lambda>r. lg_kind r = PROMO) (td_ledger td))))"

section \<open>Facts on the tables\<close>

lemma findCampaign_Some: "findCampaign cid td = Some c \<Longrightarrow> c \<in> set (td_campaigns td) \<and> cg_id c = cid"
  by (auto simp: findCampaign_def dest: find_Some_iff2)

lemma findCampaign_unique:
  "distinct (map cg_id (td_campaigns td)) \<Longrightarrow> c \<in> set (td_campaigns td) \<Longrightarrow>
   findCampaign (cg_id c) td = Some c"
proof -
  assume d: "distinct (map cg_id (td_campaigns td))" "c \<in> set (td_campaigns td)"
  have "findCampaign (cg_id c) td \<noteq> None"
    using d(2) unfolding findCampaign_def find_None_iff2 by blast
  then obtain c' where "findCampaign (cg_id c) td = Some c'" by blast
  moreover from findCampaign_Some [OF this] d have "c' = c"
    by (auto simp: distinct_map inj_on_def)
  ultimately show ?thesis by simp
qed

lemma findCampaign_setIssued:
  "findCampaign cid (setIssued cid' f td) =
   map_option (\<lambda>c. if cg_id c = cid' then c\<lparr>cg_grantsIssued := f (cg_grantsIssued c)\<rparr> else c) (findCampaign cid td)"
  by (simp add: findCampaign_def setIssued_def find_updateWhere)

lemma setIssued_frame [simp]:
  "td_accounts (setIssued cid f td) = td_accounts td" "td_ledger (setIssued cid f td) = td_ledger td"
  "td_grants (setIssued cid f td) = td_grants td" "td_users (setIssued cid f td) = td_users td"
  "td_purchases (setIssued cid f td) = td_purchases td" "td_packages (setIssued cid f td) = td_packages td"
  "map cg_id (td_campaigns (setIssued cid f td)) = map cg_id (td_campaigns td)"
  by (simp_all add: setIssued_def)

lemma tokenInv_campaigns:
  "tokenInv td \<Longrightarrow> (\<And>c. c \<in> set cs \<Longrightarrow> 0 \<le> cg_tokens c) \<Longrightarrow> tokenInv (td\<lparr>td_campaigns := cs\<rparr>)"
  by (auto simp: tokenInv_def amountsOk_def)

lemma tokenInv_setIssued: "tokenInv td \<Longrightarrow> tokenInv (setIssued cid f td)"
  unfolding setIssued_def
  by (rule tokenInv_campaigns) (auto simp: set_updateWhere tokenInv_def amountsOk_def)

lemma tokenInv_reserve: "reserveSlot c td = Some td' \<Longrightarrow> tokenInv td \<Longrightarrow> tokenInv td'"
  by (auto simp: reserveSlot_def tokenInv_setIssued split: option.splits if_splits)

lemma tokenInv_release: "tokenInv td \<Longrightarrow> tokenInv (releaseSlot cid td)"
  by (simp add: releaseSlot_def tokenInv_setIssued split: option.split)

lemma grantTx_Ok:
  assumes "grantTx c u td = Inr td'"
  shows "\<not> hasGrant (cg_id c) u td"
    and "td_grants td' = td_grants td @ [\<lparr>gr_campaignId = cg_id c, gr_userId = u, gr_tokens = cg_tokens c\<rparr>]"
    and "td_campaigns td' = td_campaigns td"
    and "tokenInv td \<Longrightarrow> 0 \<le> cg_tokens c \<Longrightarrow> tokenInv td'"
    and "tokenInv td \<Longrightarrow> 0 \<le> cg_tokens c \<Longrightarrow> balanceOf td' = (balanceOf td)(u := balanceOf td u + cg_tokens c)"
proof -
  define td0 where "td0 = td\<lparr>td_grants := td_grants td @
      [\<lparr>gr_campaignId = cg_id c, gr_userId = u, gr_tokens = cg_tokens c\<rparr>]\<rparr>"
  obtain b td1 where k: "credit u (cg_tokens c) (cg_tokens c) 0 td0 = Inr (b, td1)"
    and td': "td' = appendLedger ((ledgerRow u (cg_tokens c) PROMO b)
         \<lparr>lg_campaignId := Some (cg_id c), lg_note := Some (take 200 (cg_name c))\<rparr>) td1"
    using assms unfolding td0_def by (auto simp: grantTx_def andThen_Inr split: if_splits)
  show "\<not> hasGrant (cg_id c) u td" using assms by (auto simp: grantTx_def)
  show "td_grants td' = td_grants td @ [\<lparr>gr_campaignId = cg_id c, gr_userId = u, gr_tokens = cg_tokens c\<rparr>]"
    "td_campaigns td' = td_campaigns td"
    using k by (auto simp: td' appendLedger_def guard_simps td0_def)
  assume inv: "tokenInv td" "0 \<le> cg_tokens c"
  then have "tokenInv td0" by (auto simp: td0_def tokenInv_def)
  from credit_posted [OF k this inv(2), of "(ledgerRow u (cg_tokens c) PROMO b)
         \<lparr>lg_campaignId := Some (cg_id c), lg_note := Some (take 200 (cg_name c))\<rparr>"]
  show "tokenInv td'" "balanceOf td' = (balanceOf td)(u := balanceOf td u + cg_tokens c)"
    by (simp_all add: td' td0_def)
qed

lemma claimRead_Some:
  "claimRead cid u td = Some c \<Longrightarrow> findCampaign cid td = Some c \<and> \<not> hasGrant cid u td"
  by (auto simp: claimRead_def split: option.splits if_splits)

lemma claim_tokenInv: "tokenInv td \<Longrightarrow> tokenInv (snd (claim cid u td))"
proof (cases "claimRead cid u td")
  case (Some c)
  assume inv: "tokenInv td"
  have nn: "0 \<le> cg_tokens c"
    using claimRead_Some [OF Some] findCampaign_Some inv by (auto simp: tokenInv_def amountsOk_def)
  show ?thesis
  proof (cases "reserveSlot c td")
    case (Some td1)
    then have "tokenInv td1" using tokenInv_reserve inv by blast
    then show ?thesis
      using \<open>claimRead cid u td = Some c\<close> Some grantTx_Ok(4) [of c u td1] nn tokenInv_release
      by (auto simp: claim_def split: sum.split TokenFailure.split)
  qed (simp add: claim_def \<open>claimRead cid u td = Some c\<close> inv)
qed (simp add: claim_def)

lemma claimAll_tokenInv: "tokenInv td \<Longrightarrow> tokenInv (snd (claimAll ctx u cs granted td))"
proof (induction cs arbitrary: granted td)
  case (Cons c cs)
  then show ?case
    using claim_tokenInv [of td "cg_id c" u]
    by (auto split: prod.split sum.split option.split)
qed simp

lemma applyEligible_tokenInv: "tokenInv td \<Longrightarrow> tokenInv (snd (applyEligible now users u td))"
  by (simp add: applyEligible_def claimAll_tokenInv split: option.split)

lemma updateCampaign_tokenInv:
  assumes "updateCampaign cid i td = Inr (b, td')" "tokenInv td" "\<forall>t. cu_tokens i = Some t \<longrightarrow> 0 \<le> t"
  shows "tokenInv td'"
proof -
  have "tokenInv (td\<lparr>td_campaigns := updateWhere (\<lambda>c. cg_id c = cid) (applyUpdate i) (td_campaigns td)\<rparr>)"
    using assms(2,3)
    by (intro tokenInv_campaigns)
       (auto simp: set_updateWhere applyUpdate_def given_def tokenInv_def amountsOk_def split: option.splits)
  then show ?thesis
    using assms by (auto simp: updateCampaign_def split: option.splits if_splits)
qed

lemma setStatus_tokenInv: "setStatus cid st td = Inr (b, td') \<Longrightarrow> tokenInv td \<Longrightarrow> tokenInv td'"
proof -
  assume a: "setStatus cid st td = Inr (b, td')" "tokenInv td"
  have "tokenInv (td\<lparr>td_campaigns := updateWhere (\<lambda>c. cg_id c = cid) (\<lambda>c. c\<lparr>cg_status := st\<rparr>) (td_campaigns td)\<rparr>)"
    using a(2) by (intro tokenInv_campaigns) (auto simp: set_updateWhere tokenInv_def amountsOk_def)
  then show ?thesis using a by (auto simp: setStatus_def split: option.splits if_splits)
qed

lemma createCampaign_tokenInv:
  "0 \<le> tokens \<Longrightarrow> tokenInv td \<Longrightarrow>
   tokenInv (createCampaign i now n d tokens a s e m v c td)"
  by (auto simp: createCampaign_def tokenInv_def amountsOk_def)


section \<open>Everything that moves tokens\<close>

text \<open>One step of the token tables: any operation of the two services with any arguments. A purchase
delivery and an answer to an offer appear as their separate writes, for whatever was read before.\<close>

inductive tokenStep :: "TokenDb \<Rightarrow> TokenDb \<Rightarrow> bool" where
  ts_balance: "getBalance u td = Inr (a, td') \<Longrightarrow> tokenStep td td'"
| ts_tip: "sendTip tipId i td = Inr ((t, b), td') \<Longrightarrow> tokenStep td td'"
| ts_respond: "tokenStep td (respondWrite now tipId accepted td)"
| ts_purchase: "createPurchase newId u pkg ref td = Inr (x, td') \<Longrightarrow> tokenStep td td'"
| ts_fulfil: "0 \<le> pu_tokens p \<Longrightarrow> fulfilWrite p ev td = Inr td' \<Longrightarrow> tokenStep td td'"
| ts_adjust: "adjust u delta note td = Inr (b, td') \<Longrightarrow> tokenStep td td'"
| ts_reserve: "reserveSlot c td = Some td' \<Longrightarrow> tokenStep td td'"
| ts_grant: "0 \<le> cg_tokens c \<Longrightarrow> grantTx c u td = Inr td' \<Longrightarrow> tokenStep td td'"
| ts_release: "tokenStep td (releaseSlot cid td)"
| ts_create: "0 \<le> tokens \<Longrightarrow> tokenStep td (createCampaign i now n d tokens a st e m v c td)"
| ts_update: "\<forall>t. cu_tokens i = Some t \<longrightarrow> 0 \<le> t \<Longrightarrow> updateCampaign cid i td = Inr (b, td') \<Longrightarrow> tokenStep td td'"
| ts_status: "setStatus cid status td = Inr (b, td') \<Longrightarrow> tokenStep td td'"

inductive tokenReachable :: "TokenDb \<Rightarrow> bool" where
  tr_init: "\<forall>p\<in>set packages. 0 \<le> pk_tokens p \<Longrightarrow>
    tokenReachable ((emptyTokenDb users)\<lparr>td_packages := packages\<rparr>)"
| tr_step: "tokenReachable td \<Longrightarrow> tokenStep td td' \<Longrightarrow> tokenReachable td'"

lemma tokenStep_inv: "tokenStep td td' \<Longrightarrow> tokenInv td \<Longrightarrow> tokenInv td'"
proof (induction rule: tokenStep.induct)
  case (ts_respond now tipId accepted td)
  then show ?case by (simp add: respondWrite_tokenInv)
qed (blast intro: getBalance_tokenInv sendTip_effect(1) createPurchase_tokenInv
      fulfilWrite_effect(1) adjust_tokenInv tokenInv_reserve grantTx_Ok(4) tokenInv_release
      createCampaign_tokenInv updateCampaign_tokenInv setStatus_tokenInv)+

lemma tokenInv_init: "\<forall>p\<in>set packages. 0 \<le> pk_tokens p \<Longrightarrow>
    tokenInv ((emptyTokenDb users)\<lparr>td_packages := packages\<rparr>)"
  by (simp add: tokenInv_def emptyTokenDb_def balanceOf_def replayOk_def amountsOk_def)

lemma tokenInv_reachable: "tokenReachable td \<Longrightarrow> tokenInv td"
  by (induction rule: tokenReachable.induct) (simp_all add: tokenInv_init tokenStep_inv)

section \<open>Concurrent claims\<close>

text \<open>The statements of any number of claims in any order. A claim that has read may reserve, one that
has reserved may grant or give its slot back (after a failed transaction); the operator may change
anything but a cap; other operations leave campaigns and grants alone.\<close>

record ClaimSystem =
  cs_db :: TokenDb
  cs_reads :: "(CampaignRow \<times> user_id) set"
  cs_reserved :: "(CampaignRow \<times> user_id) list"

inductive claimStep :: "ClaimSystem \<Rightarrow> ClaimSystem \<Rightarrow> bool" where
  c_read: "claimRead cid u (cs_db s) = Some c \<Longrightarrow> claimStep s (s\<lparr>cs_reads := insert (c, u) (cs_reads s)\<rparr>)"
| c_reserve: "(c, u) \<in> cs_reads s \<Longrightarrow> reserveSlot c (cs_db s) = Some td \<Longrightarrow>
    claimStep s (s\<lparr>cs_db := td, cs_reserved := (c, u) # cs_reserved s\<rparr>)"
| c_grant: "(c, u) \<in> set (cs_reserved s) \<Longrightarrow> grantTx c u (cs_db s) = Inr td \<Longrightarrow>
    claimStep s (s\<lparr>cs_db := td, cs_reserved := remove1 (c, u) (cs_reserved s)\<rparr>)"
| c_release: "(c, u) \<in> set (cs_reserved s) \<Longrightarrow>
    claimStep s (s\<lparr>cs_db := releaseSlot (cg_id c) (cs_db s), cs_reserved := remove1 (c, u) (cs_reserved s)\<rparr>)"
| c_update: "cu_maxGrants i = None \<Longrightarrow> updateCampaign cid i (cs_db s) = Inr (b, td) \<Longrightarrow>
    claimStep s (s\<lparr>cs_db := td\<rparr>)"
| c_status: "setStatus cid status (cs_db s) = Inr (b, td) \<Longrightarrow> claimStep s (s\<lparr>cs_db := td\<rparr>)"
| c_create: "newId \<notin> cg_id ` set (td_campaigns (cs_db s)) \<Longrightarrow>
    claimStep s (s\<lparr>cs_db := createCampaign newId now n d tokens a st e m v c (cs_db s)\<rparr>)"
| c_other: "td_campaigns td = td_campaigns (cs_db s) \<Longrightarrow> td_grants td = td_grants (cs_db s) \<Longrightarrow>
    claimStep s (s\<lparr>cs_db := td\<rparr>)"

inductive claimReachable :: "ClaimSystem \<Rightarrow> bool" where
  cr_init: "distinct (map cg_id (td_campaigns td)) \<Longrightarrow> \<forall>c\<in>set (td_campaigns td). cg_grantsIssued c = 0 \<Longrightarrow>
    td_grants td = [] \<Longrightarrow> claimReachable \<lparr>cs_db = td, cs_reads = {}, cs_reserved = []\<rparr>"
| cr_step: "claimReachable s \<Longrightarrow> claimStep s t \<Longrightarrow> claimReachable t"

definition grantCount :: "row_id \<Rightarrow> TokenDb \<Rightarrow> nat" where
  "grantCount cid td = length (filter (\<lambda>g. gr_campaignId g = cid) (td_grants td))"

definition reservedCount :: "row_id \<Rightarrow> (CampaignRow \<times> user_id) list \<Rightarrow> nat" where
  "reservedCount cid rs = length (filter (\<lambda>(c, u). cg_id c = cid) rs)"

definition grantKeys :: "TokenDb \<Rightarrow> (row_id \<times> user_id) list" where
  "grantKeys td = map (\<lambda>g. (gr_campaignId g, gr_userId g)) (td_grants td)"

definition campaignOk :: "ClaimSystem \<Rightarrow> CampaignRow \<Rightarrow> bool" where
  "campaignOk s c \<longleftrightarrow>
     cg_grantsIssued c = int (grantCount (cg_id c) (cs_db s) + reservedCount (cg_id c) (cs_reserved s)) \<and>
     (case cg_maxGrants c of None \<Rightarrow> True | Some m \<Rightarrow> cg_grantsIssued c \<le> max 0 m)"

definition knownCap :: "TokenDb \<Rightarrow> CampaignRow \<Rightarrow> bool" where
  "knownCap td c \<longleftrightarrow> (\<exists>c'\<in>set (td_campaigns td). cg_id c' = cg_id c \<and> cg_maxGrants c' = cg_maxGrants c)"

definition claimInv :: "ClaimSystem \<Rightarrow> bool" where
  "claimInv s \<longleftrightarrow>
     distinct (map cg_id (td_campaigns (cs_db s))) \<and> distinct (grantKeys (cs_db s)) \<and>
     gr_campaignId ` set (td_grants (cs_db s)) \<subseteq> cg_id ` set (td_campaigns (cs_db s)) \<and>
     (\<forall>c\<in>set (td_campaigns (cs_db s)). campaignOk s c) \<and>
     (\<forall>r\<in>cs_reads s \<union> set (cs_reserved s). knownCap (cs_db s) (fst r))"

lemma claimInv_known:
  "claimInv s \<Longrightarrow> r \<in> cs_reads s \<or> r \<in> set (cs_reserved s) \<Longrightarrow> knownCap (cs_db s) (fst r)"
  by (auto simp: claimInv_def)

lemma claimInvI:
  assumes "claimInv s" "map cg_id (td_campaigns (cs_db t)) = map cg_id (td_campaigns (cs_db s))"
    "td_grants (cs_db t) = td_grants (cs_db s)"
    "\<And>c. c \<in> set (td_campaigns (cs_db t)) \<Longrightarrow> campaignOk t c"
    "\<And>r. r \<in> cs_reads t \<union> set (cs_reserved t) \<Longrightarrow> knownCap (cs_db t) (fst r)"
  shows "claimInv t"
proof -
  have "cg_id ` set (td_campaigns (cs_db t)) = cg_id ` set (td_campaigns (cs_db s))"
    using assms(2) by (metis list.set_map)
  then show ?thesis
    using assms unfolding claimInv_def grantKeys_def by simp
qed

lemma hasGrant_iff: "hasGrant cid u td \<longleftrightarrow> (cid, u) \<in> set (grantKeys td)"
  by (auto simp: hasGrant_def grantKeys_def list_ex_iff)

lemma reservedCount_simps [simp]:
  "reservedCount cid [] = 0"
  "reservedCount cid ((c, u) # rs) = (if cg_id c = cid then 1 else 0) + reservedCount cid rs"
  by (simp_all add: reservedCount_def)

lemma reservedCount_remove1:
  "(c, u) \<in> set rs \<Longrightarrow>
   reservedCount cid rs = (if cg_id c = cid then 1 else 0) + reservedCount cid (remove1 (c, u) rs)"
  by (induction rs) auto

lemma grantCount_frame: "td_grants td = td_grants td' \<Longrightarrow> grantCount cid td = grantCount cid td'"
  by (simp add: grantCount_def)

text \<open>Rewriting the campaign rows without touching ids and caps.\<close>

lemma knownCap_update:
  assumes "knownCap td c" "td_campaigns td' = updateWhere P f (td_campaigns td)"
    and f: "\<And>r. cg_id (f r) = cg_id r" "\<And>r. cg_maxGrants (f r) = cg_maxGrants r"
  shows "knownCap td' c"
proof -
  obtain c' where c': "c' \<in> set (td_campaigns td)" "cg_id c' = cg_id c" "cg_maxGrants c' = cg_maxGrants c"
    using assms(1) by (auto simp: knownCap_def)
  have "(if P c' then f c' else c') \<in> set (td_campaigns td')"
    unfolding assms(2) set_updateWhere using c'(1) by blast
  then show ?thesis
    unfolding knownCap_def by (rule bexI [rotated]) (simp add: f c')
qed

lemma campaignOk_cong:
  "cg_id c = cg_id c' \<Longrightarrow> cg_maxGrants c = cg_maxGrants c' \<Longrightarrow> cg_grantsIssued c = cg_grantsIssued c' \<Longrightarrow>
   td_grants (cs_db s) = td_grants (cs_db s') \<Longrightarrow> cs_reserved s = cs_reserved s' \<Longrightarrow>
   campaignOk s c = campaignOk s' c'"
  by (simp add: campaignOk_def grantCount_def cong: option.case_cong)

lemma claimInv_admin:
  assumes inv: "claimInv s" and rows: "td_campaigns td = updateWhere P f (td_campaigns (cs_db s))"
    and g: "td_grants td = td_grants (cs_db s)"
    and f: "\<And>r. cg_id (f r) = cg_id r" "\<And>r. cg_maxGrants (f r) = cg_maxGrants r"
      "\<And>r. cg_grantsIssued (f r) = cg_grantsIssued r"
  shows "claimInv (s\<lparr>cs_db := td\<rparr>)"
proof (rule claimInvI [OF inv])
  show "map cg_id (td_campaigns (cs_db (s\<lparr>cs_db := td\<rparr>))) = map cg_id (td_campaigns (cs_db s))"
    by (simp add: rows f)
  fix c assume "c \<in> set (td_campaigns (cs_db (s\<lparr>cs_db := td\<rparr>)))"
  then obtain q where q: "q \<in> set (td_campaigns (cs_db s))" "c = (if P q then f q else q)"
    by (auto simp: rows set_updateWhere)
  then have "campaignOk s q" using inv by (simp add: claimInv_def)
  moreover have "campaignOk (s\<lparr>cs_db := td\<rparr>) c = campaignOk s q"
    by (rule campaignOk_cong) (simp_all add: q(2) f g)
  ultimately show "campaignOk (s\<lparr>cs_db := td\<rparr>) c" by simp
next
  fix r assume "r \<in> cs_reads (s\<lparr>cs_db := td\<rparr>) \<union> set (cs_reserved (s\<lparr>cs_db := td\<rparr>))"
  then have "knownCap (cs_db s) (fst r)" using claimInv_known [OF inv] by simp
  from knownCap_update [OF this rows f(1,2)]
  show "knownCap (cs_db (s\<lparr>cs_db := td\<rparr>)) (fst r)" by simp
qed (simp add: g)

lemma findCampaign_knownCap:
  assumes "claimInv s" "knownCap (cs_db s) c" "findCampaign (cg_id c) (cs_db s) = Some r"
  shows "cg_maxGrants r = cg_maxGrants c" "r \<in> set (td_campaigns (cs_db s))"
proof -
  from assms(2) obtain c' where c': "c' \<in> set (td_campaigns (cs_db s))" "cg_id c' = cg_id c"
    "cg_maxGrants c' = cg_maxGrants c" by (auto simp: knownCap_def)
  then have "findCampaign (cg_id c) (cs_db s) = Some c'"
    using findCampaign_unique [of "cs_db s" c'] assms(1) by (simp add: claimInv_def)
  with assms(3) c' show "cg_maxGrants r = cg_maxGrants c" "r \<in> set (td_campaigns (cs_db s))" by simp_all
qed

text \<open>Changing the counter of one campaign together with its reservations and grants.\<close>

lemma claimInv_counter:
  assumes inv: "claimInv s"
    and rows: "td_campaigns (cs_db t) = updateWhere (\<lambda>c. cg_id c = cid)
       (\<lambda>c. c\<lparr>cg_grantsIssued := h (cg_grantsIssued c)\<rparr>) (td_campaigns (cs_db s))"
    and g: "td_grants (cs_db t) = td_grants (cs_db s)"
    and other: "\<And>x. x \<noteq> cid \<Longrightarrow> reservedCount x (cs_reserved t) = reservedCount x (cs_reserved s)"
    and same: "\<And>c. c \<in> set (td_campaigns (cs_db s)) \<Longrightarrow> cg_id c = cid \<Longrightarrow>
       h (cg_grantsIssued c) = int (grantCount cid (cs_db s) + reservedCount cid (cs_reserved t)) \<and>
       (case cg_maxGrants c of None \<Rightarrow> True | Some m \<Rightarrow> h (cg_grantsIssued c) \<le> max 0 m)"
    and reads: "cs_reads t \<union> set (cs_reserved t) \<subseteq> cs_reads s \<union> set (cs_reserved s)"
  shows "claimInv t"
proof (rule claimInvI [OF inv _ g])
  let ?f = "\<lambda>c. c\<lparr>cg_grantsIssued := h (cg_grantsIssued c)\<rparr>"
  have gc: "grantCount x (cs_db t) = grantCount x (cs_db s)" for x
    by (rule grantCount_frame) (rule g)
  fix c assume "c \<in> set (td_campaigns (cs_db t))"
  then obtain q where q: "q \<in> set (td_campaigns (cs_db s))" "c = (if cg_id q = cid then ?f q else q)"
    unfolding rows set_updateWhere by blast
  show "campaignOk t c"
  proof (cases "cg_id q = cid")
    case True
    then show ?thesis using same [OF q(1)] q(2) by (simp add: campaignOk_def gc split: option.splits)
  next
    case False
    then show ?thesis using inv q other [OF False] by (simp add: campaignOk_def gc claimInv_def)
  qed
next
  fix r assume "r \<in> cs_reads t \<union> set (cs_reserved t)"
  then have "knownCap (cs_db s) (fst r)" using reads claimInv_known [OF inv] by blast
  then show "knownCap (cs_db t) (fst r)" by (rule knownCap_update [OF _ rows]) simp_all
qed (simp add: rows)

lemma claimInv_issued:
  assumes "claimInv s" "c \<in> set (td_campaigns (cs_db s))"
  shows "cg_grantsIssued c = int (grantCount (cg_id c) (cs_db s) + reservedCount (cg_id c) (cs_reserved s))"
    and "cg_maxGrants c = Some m \<Longrightarrow> cg_grantsIssued c \<le> max 0 m"
  using assms by (auto simp: claimInv_def campaignOk_def split: option.splits)

lemma claimInv_reserve:
  assumes inv: "claimInv s" and r: "(c, u) \<in> cs_reads s" "reserveSlot c (cs_db s) = Some td"
  shows "claimInv (s\<lparr>cs_db := td, cs_reserved := (c, u) # cs_reserved s\<rparr>)"
proof -
  have known: "knownCap (cs_db s) c" using claimInv_known [OF inv, of "(c, u)"] r(1) by simp
  obtain q where q: "findCampaign (cg_id c) (cs_db s) = Some q"
    and td: "td = setIssued (cg_id c) (\<lambda>n. n + 1) (cs_db s)"
    and lim: "cg_maxGrants q = None \<or>
       cg_grantsIssued q < (case cg_maxGrants c of Some m \<Rightarrow> m | None \<Rightarrow> MAX_SAFE_INTEGER)"
    using r(2) by (auto simp: reserveSlot_def split: option.splits if_splits)
  note cap = findCampaign_knownCap [OF inv known q]
  have only: "c' = q" if "c' \<in> set (td_campaigns (cs_db s))" "cg_id c' = cg_id c" for c'
    using findCampaign_unique [of "cs_db s" c'] that inv q by (simp add: claimInv_def)
  show ?thesis
  proof (rule claimInv_counter [OF inv])
    fix c' assume c': "c' \<in> set (td_campaigns (cs_db s))" "cg_id c' = cg_id c"
    show "cg_grantsIssued c' + 1 = int (grantCount (cg_id c) (cs_db s)
        + reservedCount (cg_id c) (cs_reserved (s\<lparr>cs_db := td, cs_reserved := (c, u) # cs_reserved s\<rparr>))) \<and>
      (case cg_maxGrants c' of None \<Rightarrow> True | Some m \<Rightarrow> cg_grantsIssued c' + 1 \<le> max 0 m)"
      using claimInv_issued(1) [OF inv c'(1)] c'(2) only [OF c'] cap(1) lim
      by (auto split: option.splits)
  qed (use r(1) in \<open>auto simp: td setIssued_def\<close>)
qed

lemma claimInv_release:
  assumes inv: "claimInv s" and r: "(c, u) \<in> set (cs_reserved s)"
  shows "claimInv (s\<lparr>cs_db := releaseSlot (cg_id c) (cs_db s), cs_reserved := remove1 (c, u) (cs_reserved s)\<rparr>)"
proof -
  have known: "knownCap (cs_db s) c" using claimInv_known [OF inv, of "(c, u)"] r by simp
  then obtain q where q: "q \<in> set (td_campaigns (cs_db s))" "cg_id q = cg_id c" by (auto simp: knownCap_def)
  have rc: "reservedCount x (cs_reserved s) =
      (if cg_id c = x then 1 else 0) + reservedCount x (remove1 (c, u) (cs_reserved s))" for x
    by (rule reservedCount_remove1 [OF r])
  have f: "findCampaign (cg_id c) (cs_db s) = Some q"
    using findCampaign_unique [OF _ q(1)] inv q(2) by (simp add: claimInv_def)
  have "0 < cg_grantsIssued q"
    using claimInv_issued(1) [OF inv q(1)] rc [of "cg_id c"] q(2) by simp
  then have td: "releaseSlot (cg_id c) (cs_db s) = setIssued (cg_id c) (\<lambda>n. n - 1) (cs_db s)"
    by (simp add: releaseSlot_def f)
  show ?thesis
  proof (rule claimInv_counter [OF inv])
    fix c' assume c': "c' \<in> set (td_campaigns (cs_db s))" "cg_id c' = cg_id c"
    show "cg_grantsIssued c' - 1 = int (grantCount (cg_id c) (cs_db s)
        + reservedCount (cg_id c) (cs_reserved (s\<lparr>cs_db := releaseSlot (cg_id c) (cs_db s),
            cs_reserved := remove1 (c, u) (cs_reserved s)\<rparr>))) \<and>
      (case cg_maxGrants c' of None \<Rightarrow> True | Some m \<Rightarrow> cg_grantsIssued c' - 1 \<le> max 0 m)"
      using claimInv_issued [OF inv c'(1)] c'(2) rc [of "cg_id c"] by (auto split: option.splits)
  qed (use r rc notin_set_remove1 in \<open>auto simp: td setIssued_def\<close>)
qed

lemma claimInv_grant:
  assumes inv: "claimInv s" and r: "(c, u) \<in> set (cs_reserved s)" "grantTx c u (cs_db s) = Inr td"
  shows "claimInv (s\<lparr>cs_db := td, cs_reserved := remove1 (c, u) (cs_reserved s)\<rparr>)"
proof -
  note g = grantTx_Ok(1-3) [OF r(2)]
  have known: "knownCap (cs_db s) c" using claimInv_known [OF inv, of "(c, u)"] r by simp
  have keys: "grantKeys td = grantKeys (cs_db s) @ [(cg_id c, u)]" by (simp add: grantKeys_def g(2))
  have gc: "grantCount x td = grantCount x (cs_db s) + (if cg_id c = x then 1 else 0)" for x
    by (simp add: grantCount_def g(2))
  have rc: "reservedCount x (cs_reserved s) =
      (if cg_id c = x then 1 else 0) + reservedCount x (remove1 (c, u) (cs_reserved s))" for x
    by (rule reservedCount_remove1 [OF r(1)])
  have "grantCount x td + reservedCount x (remove1 (c, u) (cs_reserved s))
      = grantCount x (cs_db s) + reservedCount x (cs_reserved s)" for x
    by (simp add: gc rc [of x])
  then have "campaignOk (s\<lparr>cs_db := td, cs_reserved := remove1 (c, u) (cs_reserved s)\<rparr>) c' = campaignOk s c'" for c'
    by (simp add: campaignOk_def)
  moreover have "(cg_id c, u) \<notin> set (grantKeys (cs_db s))" using g(1) by (simp add: hasGrant_iff)
  moreover obtain q where "q \<in> set (td_campaigns (cs_db s))" "cg_id q = cg_id c"
    using known by (auto simp: knownCap_def)
  then have "cg_id c \<in> cg_id ` set (td_campaigns td)" unfolding g(3) by (metis imageI)
  moreover have "knownCap td c' = knownCap (cs_db s) c'" for c' by (simp add: knownCap_def g(3))
  moreover have "set (remove1 (c, u) (cs_reserved s)) \<subseteq> set (cs_reserved s)" by (rule set_remove1_subset)
  ultimately show ?thesis
    using inv unfolding claimInv_def by (auto simp: keys g(2) g(3))
qed

lemma claimInv_create:
  assumes inv: "claimInv s" and fresh: "newId \<notin> cg_id ` set (td_campaigns (cs_db s))"
  shows "claimInv (s\<lparr>cs_db := createCampaign newId now n d tokens a st e m v c (cs_db s)\<rparr>)"
proof -
  let ?td = "createCampaign newId now n d tokens a st e m v c (cs_db s)"
  have "cg_id (fst r) \<noteq> newId" if "r \<in> set (cs_reserved s)" for r
    using claimInv_known [OF inv, of r] that fresh unfolding knownCap_def by (metis imageI)
  then have "reservedCount newId (cs_reserved s) = 0"
    by (force simp: reservedCount_def filter_empty_conv)
  moreover have "grantCount newId (cs_db s) = 0"
    using inv fresh by (auto simp: grantCount_def filter_empty_conv claimInv_def)
  moreover have gr: "td_grants ?td = td_grants (cs_db s)" by (simp add: createCampaign_def)
  ultimately have "campaignOk (s\<lparr>cs_db := ?td\<rparr>) x" if "x \<in> set (td_campaigns ?td)" for x
    using that inv unfolding claimInv_def
    by (auto simp: createCampaign_def campaignOk_def grantCount_def split: option.split)
  moreover have "knownCap ?td x" if "knownCap (cs_db s) x" for x
    using that by (auto simp: knownCap_def createCampaign_def)
  moreover have "distinct (map cg_id (td_campaigns ?td))"
    using inv fresh by (simp add: createCampaign_def claimInv_def)
  moreover have "gr_campaignId ` set (td_grants (cs_db s)) \<subseteq> cg_id ` set (td_campaigns ?td)"
    using inv by (auto simp: createCampaign_def claimInv_def)
  ultimately show ?thesis
    using inv unfolding claimInv_def grantKeys_def by (auto simp: gr)
qed

lemma claimInv_step: "claimStep s t \<Longrightarrow> claimInv s \<Longrightarrow> claimInv t"
proof (induction rule: claimStep.induct)
  case (c_read cid u s c)
  then have "c \<in> set (td_campaigns (cs_db s))" using claimRead_Some findCampaign_Some by blast
  then have "knownCap (cs_db s) c" unfolding knownCap_def by blast
  then show ?case using c_read(2) by (auto simp: claimInv_def campaignOk_def)
next
  case (c_update i cid s b td)
  then show ?case
    using claimInv_admin [of s td "\<lambda>c. cg_id c = cid" "applyUpdate i"]
    by (auto simp: updateCampaign_def applyUpdate_def given_def split: option.splits if_splits)
next
  case (c_status cid status s b td)
  then show ?case
    using claimInv_admin [of s td "\<lambda>c. cg_id c = cid" "\<lambda>c. c\<lparr>cg_status := status\<rparr>"]
    by (auto simp: setStatus_def split: option.splits if_splits)
next
  case (c_other td s)
  then show ?case by (auto simp: claimInv_def campaignOk_def grantKeys_def grantCount_def knownCap_def)
qed (simp_all add: claimInv_reserve claimInv_grant claimInv_release claimInv_create)

lemma claimInv_reachable: "claimReachable s \<Longrightarrow> claimInv s"
proof (induction rule: claimReachable.induct)
  case (cr_init td)
  then show ?case
    by (auto simp: claimInv_def campaignOk_def grantKeys_def grantCount_def split: option.split)
qed (rule claimInv_step)

section \<open>Properties\<close>

text \<open>Two users and one campaign with a single grant left.\<close>

definition exampleCampaign :: CampaignRow where
  "exampleCampaign =
     \<lparr>cg_id = ''c'', cg_name = ''launch'', cg_description = None, cg_tokens = 25, cg_audience = ALL_USERS,
      cg_status = CampaignStatus_ACTIVE, cg_startsAt = None, cg_endsAt = None, cg_maxGrants = Some 1,
      cg_grantsIssued = 0, cg_requiresVerifiedEmail = False, cg_createdById = None, cg_createdAt = 0\<rparr>"

definition campaignTables :: TokenDb where
  "campaignTables = (emptyTokenDb [''ana'', ''bo''])\<lparr>td_campaigns := [exampleCampaign]\<rparr>"

lemmas campaign_eval =
  campaignTables_def exampleCampaign_def emptyTokenDb_def claimRead_def findCampaign_def hasGrant_def
  reserveSlot_def setIssued_def updateWhere_def grantTx_def credit_def Let_def creditedAccount_def
  fitsInt4_def INT4_MAX_def appendLedger_def ledgerRow_def balanceOf_def newAccount_def

text \<open>C3: in every state the token tables can reach, by any operations of the two services in any order
(a purchase delivered by its separate, possibly racing, writes; campaign claims by their separate
statements), each user's balance is exactly the sum of that user's ledger rows, no balance is negative,
and the balance that a ledger row records is the sum of its user's rows up to it.\<close>

theorem books_always_balance:
  assumes "tokenReachable td"
  shows "balanceOf td u = sum_list (map lg_delta (filter (\<lambda>r. lg_userId r = u) (td_ledger td))) \<and>
         0 \<le> balanceOf td u \<and>
         (i < length (td_ledger td) \<longrightarrow> lg_balanceAfter (td_ledger td ! i) =
            sum_list (map lg_delta (filter (\<lambda>r. lg_userId r = lg_userId (td_ledger td ! i))
              (take (Suc i) (td_ledger td)))))"
proof -
  have inv: "tokenInv td" by (rule tokenInv_reachable [OF assms])
  then have "0 \<le> balanceOf td u" "balanceOf td u = userSum u (td_ledger td)" "replayOk (td_ledger td)"
    by (auto simp: tokenInv_def)
  then show ?thesis by (simp add: replayOk_def userSum_def)
qed

text \<open>Two steps from the empty tables: an adjustment and a tip.\<close>

lemma books_always_balance_witness:
  "\<exists>td. tokenReachable td \<and> balanceOf td ''ana'' = 30 \<and>
     sum_list (map lg_delta (filter (\<lambda>r. lg_userId r = ''ana'') (td_ledger td))) = 30"
proof -
  define t0 where "t0 = (emptyTokenDb [''ana'', ''bo''])\<lparr>td_packages := []\<rparr>"
  have r0: "tokenReachable t0" unfolding t0_def by (rule tr_init) simp
  obtain b t1 where t1: "adjust ''ana'' 50 ''welcome'' t0 = Inr (b, t1)" "td_users t1 = [''ana'', ''bo'']"
    "td_accounts t1 = [''ana'' \<mapsto> \<lparr>ta_balance = 50, ta_lifetimeEarned = 0, ta_lifetimePurchased = 0\<rparr>]"
    "td_tips t1 = (\<lambda>k. None)"
    by (simp add: adjust_def t0_def campaign_eval isBlank_def isInteger_def)
  have r1: "tokenReachable t1" by (rule tr_step [OF r0]) (rule ts_adjust [OF t1(1)])
  obtain r t2 where t2: "sendTip ''t1'' exampleTip t1 = Inr (r, t2)" "balanceOf t2 ''ana'' = 30"
    by (simp add: sendTip_def exampleTip_def isInteger_def debit_def createTip_def t1 campaign_eval)
  have "tokenReachable t2" by (rule tr_step [OF r1]) (cases r, use t2(1) ts_tip in blast)
  with t2(2) books_always_balance [OF this, of "''ana''" 0] show ?thesis by auto
qed

text \<open>C4: a campaign pays each user at most once and never more users than its cap, however the
statements of concurrent claims interleave, whatever the operator does meanwhile short of changing a cap,
and whenever a claim fails after it reserved its slot: in every reachable state the pairs of campaign and
user in the grant table are distinct, and each campaign's counter is exactly its grants plus the slots
still reserved, within the cap.\<close>

theorem campaign_pays_once_within_cap:
  assumes "claimReachable s"
  shows "distinct (map (\<lambda>g. (gr_campaignId g, gr_userId g)) (td_grants (cs_db s))) \<and>
    (\<forall>c\<in>set (td_campaigns (cs_db s)).
       cg_grantsIssued c = int (length (filter (\<lambda>g. gr_campaignId g = cg_id c) (td_grants (cs_db s))) +
                                length (filter (\<lambda>(r, u). cg_id r = cg_id c) (cs_reserved s))) \<and>
       (\<forall>m. cg_maxGrants c = Some m \<longrightarrow> cg_grantsIssued c \<le> max 0 m))"
  using claimInv_reachable [OF assms] claimInv_issued [OF claimInv_reachable [OF assms]]
  by (simp add: claimInv_def grantKeys_def grantCount_def reservedCount_def)

text \<open>Two users read the last slot; one takes it and the other is turned away.\<close>

lemma campaign_pays_once_within_cap_witness:
  "\<exists>s. claimReachable s \<and> (exampleCampaign, ''bo'') \<in> cs_reads s \<and>
     reserveSlot exampleCampaign (cs_db s) = None \<and> map gr_userId (td_grants (cs_db s)) = [''ana''] \<and>
     distinct (map (\<lambda>g. (gr_campaignId g, gr_userId g)) (td_grants (cs_db s)))"
proof -
  let ?c = exampleCampaign
  let ?s0 = "\<lparr>cs_db = campaignTables, cs_reads = {}, cs_reserved = []\<rparr>"
  let ?s2 = "?s0\<lparr>cs_reads := {(?c, ''bo''), (?c, ''ana'')}\<rparr>"
  have r0: "claimReachable ?s0" by (rule cr_init) (simp_all add: campaign_eval)
  have r1: "claimReachable (?s0\<lparr>cs_reads := {(?c, ''ana'')}\<rparr>)"
    using cr_step [OF r0 c_read [of "''c''" "''ana''" ?s0 ?c]] by (simp add: campaign_eval)
  have r2: "claimReachable ?s2"
    using cr_step [OF r1 c_read [of "''c''" "''bo''" "?s0\<lparr>cs_reads := {(?c, ''ana'')}\<rparr>" ?c]]
    by (simp add: campaign_eval)
  define t1 where "t1 = setIssued ''c'' (\<lambda>n. n + 1) campaignTables"
  have "reserveSlot ?c campaignTables = Some t1" by (simp add: t1_def campaign_eval)
  then have r3: "claimReachable (?s2\<lparr>cs_db := t1, cs_reserved := [(?c, ''ana'')]\<rparr>)"
    using cr_step [OF r2 c_reserve [of ?c "''ana''" ?s2 t1]] by simp
  obtain t2 where t2: "grantTx ?c ''ana'' t1 = Inr t2" "map gr_userId (td_grants t2) = [''ana'']"
    "reserveSlot ?c t2 = None"
    by (simp add: t1_def campaign_eval)
  have r4: "claimReachable (?s2\<lparr>cs_db := t2, cs_reserved := []\<rparr>)"
    using cr_step [OF r3 c_grant [of ?c "''ana''" "?s2\<lparr>cs_db := t1, cs_reserved := [(?c, ''ana'')]\<rparr>" t2]] t2(1)
    by simp
  show ?thesis
    by (rule exI [of _ "?s2\<lparr>cs_db := t2, cs_reserved := []\<rparr>"])
       (use r4 t2 campaign_pays_once_within_cap [OF r4] in simp)
qed

end
