(* ===== verification/Presence.thy ===== *)
theory Presence
  imports Queue_Repository
begin

text \<open>Presence, \<^verbatim>\<open>apps/realtime/src/presence.ts\<close>: who is online, with which sockets, on which node.
Every key but the set of online users carries a time to live. \<open>presenceStep\<close> runs the service beside
the set of sockets each user really has, on any number of nodes, as long as heartbeats arrive in time;
\<open>presence_refines\<close> is the simulation between the two.\<close>

section \<open>Operations\<close>

definition emptyPresence :: PresenceHash where
  "emptyPresence = \<lparr>ph_state = None, ph_nodeId = None, ph_lastSeenAt = None\<rparr>"

definition presenceAt :: "instant \<Rightarrow> user_id \<Rightarrow> RedisState \<Rightarrow> PresenceHash" where
  "presenceAt now userId s =
     (case live (rd_presence s) now userId of None \<Rightarrow> emptyPresence | Some h \<Rightarrow> h)"

definition socketsAt :: "instant \<Rightarrow> user_id \<Rightarrow> RedisState \<Rightarrow> string list" where
  "socketsAt now userId s = (case live (rd_userSockets s) now userId of None \<Rightarrow> [] | Some l \<Rightarrow> l)"

definition connect :: "instant \<Rightarrow> string \<Rightarrow> user_id \<Rightarrow> string \<Rightarrow> RedisState \<Rightarrow> RedisState" where
  "connect now nodeId userId socketId s =
     s\<lparr>rd_presence := setEx now (ttl_presence REDIS_TTL) userId
         \<lparr>ph_state = Some PresenceState_ONLINE, ph_nodeId = Some nodeId, ph_lastSeenAt = Some now\<rparr>
         (rd_presence s),
       rd_userSockets := setEx now (ttl_presence REDIS_TTL) userId
         (sadd [socketId] (socketsAt now userId s)) (rd_userSockets s),
       rd_onlineSet := sadd [userId] (rd_onlineSet s)\<rparr>"

definition heartbeat :: "instant \<Rightarrow> user_id \<Rightarrow> RedisState \<Rightarrow> RedisState" where
  "heartbeat now userId s =
     s\<lparr>rd_presence := setEx now (ttl_presence REDIS_TTL) userId
         ((presenceAt now userId s)\<lparr>ph_lastSeenAt := Some now\<rparr>) (rd_presence s),
       rd_userSockets := expireKey now (ttl_presence REDIS_TTL) userId (rd_userSockets s)\<rparr>"

definition setState :: "instant \<Rightarrow> user_id \<Rightarrow> PresenceState \<Rightarrow> RedisState \<Rightarrow> RedisState" where
  "setState now userId state s =
     s\<lparr>rd_presence := setEx now (ttl_presence REDIS_TTL) userId
         ((presenceAt now userId s)\<lparr>ph_state := Some state, ph_lastSeenAt := Some now\<rparr>) (rd_presence s)\<rparr>"

text \<open>\<^verbatim>\<open>SREM\<close>: a set that loses its last member is gone, a set that keeps one keeps its expiry.\<close>

definition sremKey :: "instant \<Rightarrow> user_id \<Rightarrow> string \<Rightarrow> (user_id, string list) register \<Rightarrow>
    (user_id, string list) register" where
  "sremKey now k m r =
     (case r k of
        None \<Rightarrow> r
      | Some (l, e) \<Rightarrow> if \<not> now < e \<or> srem m l = [] then r(k := None) else r(k \<mapsto> (srem m l, e)))"

definition disconnect :: "instant \<Rightarrow> user_id \<Rightarrow> string \<Rightarrow> RedisState \<Rightarrow> bool \<times> RedisState" where
  "disconnect now userId socketId s =
     (let s1 = s\<lparr>rd_userSockets := sremKey now userId socketId (rd_userSockets s)\<rparr> in
      if 0 < length (socketsAt now userId s1) then (False, s1)
      else (True, s1\<lparr>rd_presence := delKey userId (rd_presence s1),
                     rd_userSockets := delKey userId (rd_userSockets s1),
                     rd_onlineSet := srem userId (rd_onlineSet s1)\<rparr>))"

definition getState :: "instant \<Rightarrow> user_id \<Rightarrow> RedisState \<Rightarrow> PresenceState" where
  "getState now userId s =
     (case ph_state (presenceAt now userId s) of None \<Rightarrow> PresenceState_OFFLINE | Some st \<Rightarrow> st)"

definition isOnline :: "instant \<Rightarrow> user_id \<Rightarrow> RedisState \<Rightarrow> bool" where
  "isOnline now userId s = (live (rd_presence s) now userId \<noteq> None)"

definition onlineCount :: "RedisState \<Rightarrow> nat" where
  "onlineCount s = length (rd_onlineSet s)"

definition clearUser :: "user_id \<Rightarrow> RedisState \<Rightarrow> RedisState" where
  "clearUser userId s =
     s\<lparr>rd_presence := delKey userId (rd_presence s), rd_userSockets := delKey userId (rd_userSockets s),
       rd_onlineSet := srem userId (rd_onlineSet s)\<rparr>"

definition clearNode :: "instant \<Rightarrow> string \<Rightarrow> RedisState \<Rightarrow> RedisState" where
  "clearNode now nodeId s =
     fold clearUser
       (filter (\<lambda>u. ph_nodeId (presenceAt now u s) = Some nodeId) (rd_onlineSet s)) s"

section \<open>What the operations do to sockets and the online set\<close>

lemma presence_frame [simp]:
  "rd_userSockets (setState now u st s) = rd_userSockets s"
  "rd_onlineSet (setState now u st s) = rd_onlineSet s"
  "rd_onlineSet (heartbeat now u s) = rd_onlineSet s"
  "rd_onlineSet (connect now n u sid s) = sadd [u] (rd_onlineSet s)"
  "rd_userSockets (connect now n u sid s) =
     setEx now (ttl_presence REDIS_TTL) u (sadd [sid] (socketsAt now u s)) (rd_userSockets s)"
  "rd_userSockets (heartbeat now u s) = expireKey now (ttl_presence REDIS_TTL) u (rd_userSockets s)"
  by (simp_all add: setState_def heartbeat_def connect_def)

lemma live_expireKey [table_simps]:
  "0 < ttl \<Longrightarrow> live (expireKey now ttl k r) now k' = live r now k'"
  by (auto simp: expireKey_def live_def expiry_def split: option.splits prod.splits)

lemma live_sremKey [table_simps]:
  "live (sremKey now k m r) now k' =
   (if k' = k then (case live r now k of None \<Rightarrow> None | Some l \<Rightarrow> if srem m l = [] then None else Some (srem m l))
    else live r now k')"
  by (auto simp: sremKey_def live_def split: option.splits prod.splits)

lemma disconnect_answer:
  "fst (disconnect now u sid s) \<longleftrightarrow> set (socketsAt now u s) \<subseteq> {sid}"
proof -
  have "srem sid l = [] \<longleftrightarrow> set l \<subseteq> {sid}" for l
    using set_srem [of sid l] by (metis Diff_eq_empty_iff set_empty)
  then show ?thesis
    by (auto simp: disconnect_def Let_def socketsAt_def table_simps split: option.splits)
qed

lemma disconnect_onlineSet:
  "set (rd_onlineSet (snd (disconnect now u sid s))) =
   (if fst (disconnect now u sid s) then set (rd_onlineSet s) - {u} else set (rd_onlineSet s))"
  by (simp add: disconnect_def Let_def)

lemma disconnect_sockets:
  "rd_userSockets (snd (disconnect now u sid s)) =
   (if fst (disconnect now u sid s) then delKey u (sremKey now u sid (rd_userSockets s))
    else sremKey now u sid (rd_userSockets s))"
  by (simp add: disconnect_def Let_def)

section \<open>Refinement: the sockets a user really has\<close>

type_synonym Sockets = "user_id \<Rightarrow> string set"

text \<open>Heartbeats arrive in time: no step of the clock reaches the expiry of the socket set of a user who
still has one.\<close>

inductive presenceStep ::
    "instant \<times> RedisState \<times> Sockets \<Rightarrow> instant \<times> RedisState \<times> Sockets \<Rightarrow> bool" where
  p_connect: "presenceStep (now, s, tabs) (now, connect now n u sid s, tabs(u := insert sid (tabs u)))"
| p_disconnect: "presenceStep (now, s, tabs)
    (now, snd (disconnect now u sid s), tabs(u := tabs u - {sid}))"
| p_heartbeat: "presenceStep (now, s, tabs) (now, heartbeat now u s, tabs)"
| p_state: "presenceStep (now, s, tabs) (now, setState now u st s, tabs)"
| p_time: "now \<le> now' \<Longrightarrow> \<forall>u. tabs u \<noteq> {} \<longrightarrow> live (rd_userSockets s) now' u \<noteq> None \<Longrightarrow>
    presenceStep (now, s, tabs) (now', s, tabs)"
| p_other: "rd_userSockets s' = rd_userSockets s \<Longrightarrow> rd_onlineSet s' = rd_onlineSet s \<Longrightarrow>
    presenceStep (now, s, tabs) (now, s', tabs)"

inductive presenceReachable :: "instant \<times> RedisState \<times> Sockets \<Rightarrow> bool" where
  pr_init: "presenceReachable (now, emptyRedis, \<lambda>u. {})"
| pr_step: "presenceReachable x \<Longrightarrow> presenceStep x y \<Longrightarrow> presenceReachable y"

inductive_cases presenceStepE: "presenceStep (now, s, tabs) y"

definition socketsOk :: "instant \<Rightarrow> string set \<Rightarrow> (string list \<times> instant) option \<Rightarrow> bool" where
  "socketsOk now t entry \<longleftrightarrow>
     (case entry of None \<Rightarrow> t = {} | Some (l, e) \<Rightarrow> t \<noteq> {} \<and> set l = t \<and> now < e)"

definition presence_refines :: "instant \<Rightarrow> RedisState \<Rightarrow> Sockets \<Rightarrow> bool" where
  "presence_refines now s tabs \<longleftrightarrow>
     (\<forall>u. socketsOk now (tabs u) (rd_userSockets s u) \<and> (u \<in> set (rd_onlineSet s) \<longleftrightarrow> tabs u \<noteq> {}))"

lemma refines_sockets: "presence_refines now s tabs \<Longrightarrow> set (socketsAt now u s) = tabs u"
  unfolding presence_refines_def
  by (drule spec [of _ u]) (auto simp: socketsOk_def socketsAt_def live_def split: option.splits)

lemma refines_update:
  assumes "presence_refines now s tabs"
    and "\<And>v. v \<noteq> u \<Longrightarrow> rd_userSockets s' v = rd_userSockets s v"
    and "socketsOk now t (rd_userSockets s' u)"
    and "set (rd_onlineSet s') = (if t = {} then set (rd_onlineSet s) - {u} else insert u (set (rd_onlineSet s)))"
  shows "presence_refines now s' (tabs(u := t))"
  using assms by (auto simp: presence_refines_def)

lemma refines_connect:
  assumes "presence_refines now s tabs"
  shows "presence_refines now (connect now n u sid s) (tabs(u := insert sid (tabs u)))"
  using assms
  by (rule refines_update)
     (simp_all add: setEx_def socketsOk_def expiry_def REDIS_TTL_def refines_sockets [OF assms])

lemma refines_disconnect:
  assumes r: "presence_refines now s tabs"
  shows "presence_refines now (snd (disconnect now u sid s)) (tabs(u := tabs u - {sid}))"
proof -
  have last: "fst (disconnect now u sid s) \<longleftrightarrow> tabs u - {sid} = {}"
    using refines_sockets [OF r] by (auto simp: disconnect_answer)
  have ok: "socketsOk now (tabs u) (rd_userSockets s u)" using r by (simp add: presence_refines_def)
  have on: "u \<in> set (rd_onlineSet s)" if "tabs u - {sid} \<noteq> {}" using r that by (auto simp: presence_refines_def)
  show ?thesis
  proof (rule refines_update [OF r])
    fix v assume "v \<noteq> u"
    then show "rd_userSockets (snd (disconnect now u sid s)) v = rd_userSockets s v"
      by (simp add: disconnect_sockets delKey_def sremKey_def split: option.split prod.split)
  next
    show "set (rd_onlineSet (snd (disconnect now u sid s))) =
        (if tabs u - {sid} = {} then set (rd_onlineSet s) - {u} else insert u (set (rd_onlineSet s)))"
      unfolding disconnect_onlineSet last using on by auto
    show "socketsOk now (tabs u - {sid}) (rd_userSockets (snd (disconnect now u sid s)) u)"
    proof (cases "tabs u - {sid} = {}")
      case True
      then show ?thesis unfolding disconnect_sockets last by (simp add: delKey_def socketsOk_def)
    next
      case False
      then obtain l e where e: "rd_userSockets s u = Some (l, e)" "set l = tabs u" "now < e"
        using ok by (auto simp: socketsOk_def split: option.splits)
      moreover have "srem sid l \<noteq> []" using False e(2) by (metis set_srem set_empty)
      ultimately show ?thesis
        using False unfolding disconnect_sockets last by (simp add: sremKey_def socketsOk_def)
    qed
  qed
qed

lemma refines_heartbeat:
  assumes r: "presence_refines now s tabs"
  shows "presence_refines now (heartbeat now u s) tabs"
proof -
  have "presence_refines now (heartbeat now u s) (tabs(u := tabs u))"
  proof (rule refines_update [OF r])
    have "socketsOk now (tabs u) (rd_userSockets s u)" using r by (simp add: presence_refines_def)
    then show "socketsOk now (tabs u) (rd_userSockets (heartbeat now u s) u)"
      by (auto simp: expireKey_def live_def REDIS_TTL_def expiry_def socketsOk_def split: option.splits)
  qed (use r in \<open>auto simp: expireKey_def presence_refines_def split: option.split\<close>)
  then show ?thesis by simp
qed

lemma refines_frame:
  "presence_refines now s tabs \<Longrightarrow> rd_userSockets s' = rd_userSockets s \<Longrightarrow> rd_onlineSet s' = rd_onlineSet s \<Longrightarrow>
   presence_refines now s' tabs"
  by (simp add: presence_refines_def)

lemma refines_time:
  assumes r: "presence_refines now s tabs" and t: "\<forall>u. tabs u \<noteq> {} \<longrightarrow> live (rd_userSockets s) now' u \<noteq> None"
  shows "presence_refines now' s tabs"
  unfolding presence_refines_def
proof
  fix u
  have "socketsOk now (tabs u) (rd_userSockets s u)" "u \<in> set (rd_onlineSet s) \<longleftrightarrow> tabs u \<noteq> {}"
    using r by (auto simp: presence_refines_def)
  then show "socketsOk now' (tabs u) (rd_userSockets s u) \<and> (u \<in> set (rd_onlineSet s) \<longleftrightarrow> tabs u \<noteq> {})"
    using t [rule_format, of u] by (auto simp: socketsOk_def live_def split: option.splits if_splits)
qed

lemma presence_refines_reachable:
  "presenceReachable x \<Longrightarrow> presence_refines (fst x) (fst (snd x)) (snd (snd x))"
proof (induction rule: presenceReachable.induct)
  case (pr_init now)
  show ?case by (simp add: presence_refines_def socketsOk_def emptyRedis_def)
next
  case (pr_step x y)
  obtain now s tabs where x: "x = (now, s, tabs)" by (cases x)
  have r: "presence_refines now s tabs" using pr_step.IH x by simp
  from pr_step(2) show ?case unfolding x
    by (elim presenceStepE)
       (use refines_connect [OF r] refines_disconnect [OF r] refines_heartbeat [OF r]
          refines_frame [OF r] refines_time [OF r] in \<open>auto simp del: fun_upd_apply\<close>)
qed

section \<open>Properties\<close>



text \<open>The set of online users is the one presence key without a time to live. A user whose node died
expires as promised, is offline to every query by id, and yet stays in the set that is counted: no
shutdown of any node removes the ghost.\<close>

theorem presence_ghost_in_online_set:
  assumes "now + 90000 \<le> later"
  shows "let s = connect now n u sid s0 in
           \<not> isOnline later u s \<and> getState later u s = PresenceState_OFFLINE \<and>
           u \<in> set (rd_onlineSet s) \<and> u \<in> set (rd_onlineSet (clearNode later node s))"
proof -
  let ?s = "connect now n u sid s0"
  have dead: "live (rd_presence ?s) later u = None"
    using assms by (simp add: connect_def setEx_def live_def expiry_def REDIS_TTL_def)
  have keep: "u \<in> set (rd_onlineSet (fold clearUser us s))" if "u \<notin> set us" "u \<in> set (rd_onlineSet s)" for us s
    using that by (induction us arbitrary: s) (auto simp: clearUser_def)
  have "u \<notin> set (filter (\<lambda>u. ph_nodeId (presenceAt later u ?s) = Some node) (rd_onlineSet ?s))"
    by (simp add: presenceAt_def dead emptyPresence_def)
  then show ?thesis
    using dead keep by (simp add: Let_def isOnline_def getState_def presenceAt_def emptyPresence_def clearNode_def)
qed

lemma presence_ghost_in_online_set_witness:
  "onlineCount (connect 0 ''n1'' ''u'' ''tab'' emptyRedis) = 1 \<and>
   \<not> isOnline 90000 ''u'' (connect 0 ''n1'' ''u'' ''tab'' emptyRedis)"
  using presence_ghost_in_online_set [of 0 90000 "''n1''" "''u''" "''tab''" emptyRedis]
  by (simp add: Let_def onlineCount_def connect_def emptyRedis_def sadd_def)

end
