(* ===== verification/Access_Control.thy ===== *)
theory Access_Control
  imports Redis_Store Redis_Keys Database
begin

text \<open>Who is let in: the access token check of \<^verbatim>\<open>packages/auth/src/tokens.ts\<close>, the HTTP guards of
\<^verbatim>\<open>apps/api/src/plugins/auth.plugin.ts\<close> and the socket handshake of
\<^verbatim>\<open>apps/realtime/src/socket-auth.ts\<close>, with the error codes they answer. The signature check itself
(\<^verbatim>\<open>jose\<close>) is an argument. The locale \<open>session_gate\<close> states what both entrances promise; what
follows from it (a revoked session, a bumped generation or a restricted account is shut out) is proved
once.\<close>

section \<open>Errors\<close>

datatype RealtimeErrorCode =
    RealtimeErrorCode_UNAUTHENTICATED | RealtimeErrorCode_FORBIDDEN | RealtimeErrorCode_ACCOUNT_RESTRICTED
  | RealtimeErrorCode_INVALID_PAYLOAD | RealtimeErrorCode_RATE_LIMITED | RealtimeErrorCode_NOT_IN_MATCH
  | RealtimeErrorCode_ALREADY_QUEUED | RealtimeErrorCode_ALREADY_MATCHED
  | RealtimeErrorCode_QUEUE_UNAVAILABLE | RealtimeErrorCode_MAINTENANCE
  | RealtimeErrorCode_SKIP_COOLDOWN | RealtimeErrorCode_INTERNAL

datatype ApiErrorCode =
    VALIDATION_ERROR | UNAUTHENTICATED | INVALID_CREDENTIALS | API_FORBIDDEN | NOT_FOUND | CONFLICT
  | RATE_LIMITED | ACCOUNT_SUSPENDED | ACCOUNT_BANNED | EMAIL_NOT_VERIFIED | UNDERAGE
  | REGISTRATION_CLOSED | MAINTENANCE | TOKEN_EXPIRED | TOKEN_INVALID | PAYLOAD_TOO_LARGE
  | UNSUPPORTED_COUNTRY | FEATURE_DISABLED | INTERNAL_ERROR

fun API_ERROR_STATUS :: "ApiErrorCode \<Rightarrow> nat" where
  "API_ERROR_STATUS VALIDATION_ERROR = 400"
| "API_ERROR_STATUS UNAUTHENTICATED = 401"
| "API_ERROR_STATUS INVALID_CREDENTIALS = 401"
| "API_ERROR_STATUS TOKEN_EXPIRED = 401"
| "API_ERROR_STATUS TOKEN_INVALID = 401"
| "API_ERROR_STATUS API_FORBIDDEN = 403"
| "API_ERROR_STATUS ACCOUNT_SUSPENDED = 403"
| "API_ERROR_STATUS ACCOUNT_BANNED = 403"
| "API_ERROR_STATUS EMAIL_NOT_VERIFIED = 403"
| "API_ERROR_STATUS UNDERAGE = 403"
| "API_ERROR_STATUS UNSUPPORTED_COUNTRY = 403"
| "API_ERROR_STATUS FEATURE_DISABLED = 403"
| "API_ERROR_STATUS NOT_FOUND = 404"
| "API_ERROR_STATUS CONFLICT = 409"
| "API_ERROR_STATUS REGISTRATION_CLOSED = 409"
| "API_ERROR_STATUS PAYLOAD_TOO_LARGE = 413"
| "API_ERROR_STATUS RATE_LIMITED = 429"
| "API_ERROR_STATUS INTERNAL_ERROR = 500"
| "API_ERROR_STATUS MAINTENANCE = 503"

text \<open>An \<^verbatim>\<open>AppError\<close>: the code, the text the user sees, and the operator's reason, which is logged and
never sent.\<close>

record AppError =
  ae_code :: ApiErrorCode
  ae_message :: string
  ae_retryAfter :: "int option"
  ae_internal :: string

definition statusCode :: "AppError \<Rightarrow> nat" where
  "statusCode e = API_ERROR_STATUS (ae_code e)"

text \<open>\<^verbatim>\<open>toResponse\<close> copies everything but \<^verbatim>\<open>internal\<close>.\<close>

definition toResponse :: "AppError \<Rightarrow> ApiErrorCode \<times> string \<times> int option" where
  "toResponse e = (ae_code e, ae_message e, ae_retryAfter e)"

definition appError :: "ApiErrorCode \<Rightarrow> string \<Rightarrow> AppError" where
  "appError c m = \<lparr>ae_code = c, ae_message = m, ae_retryAfter = None, ae_internal = []\<rparr>"

definition Errors_unauthenticated :: "string \<Rightarrow> AppError" where
  "Errors_unauthenticated reason =
     (appError UNAUTHENTICATED ''You need to sign in to do that.'')\<lparr>ae_internal := reason\<rparr>"

definition Errors_tokenExpired :: "string \<Rightarrow> AppError" where
  "Errors_tokenExpired m = appError TOKEN_EXPIRED m"

definition Errors_accountBanned :: "string \<Rightarrow> AppError" where
  "Errors_accountBanned reason =
     appError ACCOUNT_BANNED (''Your account has been restricted. '' @ reason)"

text \<open>The date is rendered by the caller; here it is always null.\<close>

definition Errors_accountSuspended :: "string \<Rightarrow> AppError" where
  "Errors_accountSuspended reason = appError ACCOUNT_SUSPENDED (''Your account is suspended. '' @ reason)"

definition Errors_forbidden :: AppError where
  "Errors_forbidden = appError API_FORBIDDEN ''You do not have permission to do that.''"

section \<open>Access tokens\<close>

text \<open>What \<^verbatim>\<open>jwtVerify\<close> answers for issuer, audience, algorithm and signature: a payload whose fields
may be missing or of another type, an expired token, or any other failure.\<close>

record JwtPayload =
  jp_sub :: "string option"
  jp_sid :: "string option"
  jp_gen :: "int option"

datatype JwtOutcome = JwtOk JwtPayload | JwtExpired | JwtFailed

record AccessTokenClaims =
  ac_sub :: string
  ac_sid :: string
  ac_gen :: int

datatype AccessTokenError = EXPIRED | INVALID

datatype VerifyResult = ValidToken AccessTokenClaims | BadToken AccessTokenError

text \<open>The length check of the secret throws inside the \<^verbatim>\<open>try\<close>.\<close>

definition verifyAccessToken ::
    "(string \<Rightarrow> string \<Rightarrow> JwtOutcome) \<Rightarrow> string \<Rightarrow> string \<Rightarrow> VerifyResult" where
  "verifyAccessToken jwtVerify secret token =
     (if length secret < 32 then BadToken INVALID
      else case jwtVerify token secret of
        JwtExpired \<Rightarrow> BadToken EXPIRED
      | JwtFailed \<Rightarrow> BadToken INVALID
      | JwtOk p \<Rightarrow>
          (case (jp_sub p, jp_sid p, jp_gen p) of
             (Some sub, Some sid, Some gen) \<Rightarrow> ValidToken \<lparr>ac_sub = sub, ac_sid = sid, ac_gen = gen\<rparr>
           | other \<Rightarrow> BadToken INVALID))"

section \<open>HTTP requests\<close>

record AuthenticatedUser =
  au_id :: user_id
  au_role :: UserRole
  au_plan :: PlanTier
  au_sessionId :: string

definition isJsSpace :: "char \<Rightarrow> bool" where
  "isJsSpace c = ((of_char c :: nat) \<in> {9, 10, 11, 12, 13, 32, 160})"

definition trimString :: "string \<Rightarrow> string" where
  "trimString s = rev (dropWhile isJsSpace (rev (dropWhile isJsSpace s)))"

definition lowerAscii :: "char \<Rightarrow> char" where
  "lowerAscii c = (if 65 \<le> (of_char c :: nat) \<and> (of_char c :: nat) \<le> 90
     then char_of ((of_char c :: nat) + 32) else c)"

text \<open>\<^verbatim>\<open>/^Bearer\s+(\S+)$/i\<close>.\<close>

definition extractBearerToken :: "string option \<Rightarrow> string option" where
  "extractBearerToken header =
     (case header of None \<Rightarrow> None
      | Some h \<Rightarrow>
          let rest = drop 6 h; cred = dropWhile isJsSpace rest in
          if map lowerAscii (take 6 h) = ''bearer'' \<and> takeWhile isJsSpace rest \<noteq> [] \<and>
             cred \<noteq> [] \<and> list_all (\<lambda>c. \<not> isJsSpace c) cred
          then Some cred else None)"

definition resolveUser ::
    "instant \<Rightarrow> VerifyResult \<Rightarrow> (string, unit) register \<Rightarrow> Db \<Rightarrow> AppError + AuthenticatedUser" where
  "resolveUser now verified revoked db =
     (case verified of
        BadToken EXPIRED \<Rightarrow> Throw (Errors_tokenExpired ''Your session has expired.'')
      | BadToken INVALID \<Rightarrow> Throw (Errors_unauthenticated ''INVALID'')
      | ValidToken claims \<Rightarrow>
          if live revoked now (ac_sid claims) \<noteq> None
          then Throw (Errors_unauthenticated ''SESSION_REVOKED'')
          else case db_users db (ac_sub claims) of
            None \<Rightarrow> Throw (Errors_unauthenticated ''NO_USER'')
          | Some user \<Rightarrow>
              if u_deletedAt user \<noteq> None then Throw (Errors_unauthenticated ''NO_USER'')
              else if u_tokenGeneration user \<noteq> ac_gen claims
              then Throw (Errors_unauthenticated ''STALE_GENERATION'')
              else if u_status user = AccountStatus_BANNED
              then Throw (Errors_accountBanned ''Contact support if you believe this is a mistake.'')
              else if u_status user = AccountStatus_SUSPENDED
              then Throw (Errors_accountSuspended ''Your account is temporarily restricted.'')
              else if u_status user = AccountStatus_DEACTIVATED
              then Throw (Errors_unauthenticated ''DEACTIVATED'')
              else Ok \<lparr>au_id = ac_sub claims, au_role = u_role user, au_plan = u_plan user,
                       au_sessionId = ac_sid claims\<rparr>)"

text \<open>\<open>verify\<close> is \<open>verifyAccessToken\<close> with the configured secret.\<close>

definition authenticate ::
    "(string \<Rightarrow> VerifyResult) \<Rightarrow> instant \<Rightarrow> (string, unit) register \<Rightarrow> Db \<Rightarrow> string option \<Rightarrow>
     AppError + AuthenticatedUser" where
  "authenticate verify now revoked db header =
     (case extractBearerToken header of
        None \<Rightarrow> Throw (Errors_unauthenticated ''NO_TOKEN'')
      | Some token \<Rightarrow> resolveUser now (verify token) revoked db)"

definition optionalAuth ::
    "(string \<Rightarrow> VerifyResult) \<Rightarrow> instant \<Rightarrow> (string, unit) register \<Rightarrow> Db \<Rightarrow> string option \<Rightarrow>
     AuthenticatedUser option" where
  "optionalAuth verify now revoked db header =
     (case extractBearerToken header of
        None \<Rightarrow> None
      | Some token \<Rightarrow> (case resolveUser now (verify token) revoked db of Inl e \<Rightarrow> None | Inr u \<Rightarrow> Some u))"

definition requireRole :: "UserRole \<Rightarrow> AuthenticatedUser option \<Rightarrow> AppError + unit" where
  "requireRole role user =
     (case user of
        None \<Rightarrow> Throw (Errors_unauthenticated ''NO_TOKEN'')
      | Some u \<Rightarrow>
          let requiredRank = indexOf ROLE_HIERARCHY role; actualRank = indexOf ROLE_HIERARCHY (au_role u) in
          if actualRank < 0 \<or> actualRank < requiredRank then Throw Errors_forbidden else Ok ())"

definition revokeSession :: "instant \<Rightarrow> int \<Rightarrow> string \<Rightarrow> (string, unit) register \<Rightarrow> (string, unit) register" where
  "revokeSession now ttl sessionId revoked = setEx now ttl sessionId () revoked"

section \<open>The socket handshake\<close>

record SocketData =
  sd_userId :: user_id
  sd_username :: string
  sd_role :: UserRole
  sd_plan :: PlanTier
  sd_nodeId :: string
  sd_connectedAt :: instant

type_synonym SocketAuthError = "RealtimeErrorCode \<times> string"

definition authenticateSocket ::
    "(string \<Rightarrow> VerifyResult) \<Rightarrow> instant \<Rightarrow> string \<Rightarrow> (string, unit) register \<Rightarrow> Db \<Rightarrow> string option \<Rightarrow>
     SocketAuthError + SocketData" where
  "authenticateSocket verify now nodeId revoked db token =
     (case token of
        None \<Rightarrow> Throw (RealtimeErrorCode_UNAUTHENTICATED, ''Missing access token'')
      | Some t \<Rightarrow>
          if t = [] then Throw (RealtimeErrorCode_UNAUTHENTICATED, ''Missing access token'')
          else case verify t of
            BadToken r \<Rightarrow> Throw (RealtimeErrorCode_UNAUTHENTICATED,
              if r = EXPIRED then ''Access token expired'' else ''Invalid access token'')
          | ValidToken claims \<Rightarrow>
              if live revoked now (ac_sid claims) \<noteq> None
              then Throw (RealtimeErrorCode_UNAUTHENTICATED, ''Session revoked'')
              else case db_users db (ac_sub claims) of
                None \<Rightarrow> Throw (RealtimeErrorCode_UNAUTHENTICATED, ''Account not found'')
              | Some user \<Rightarrow>
                  if u_deletedAt user \<noteq> None
                  then Throw (RealtimeErrorCode_UNAUTHENTICATED, ''Account not found'')
                  else if u_tokenGeneration user \<noteq> ac_gen claims
                  then Throw (RealtimeErrorCode_UNAUTHENTICATED, ''Session is no longer valid'')
                  else if u_status user = AccountStatus_BANNED \<or> u_status user = AccountStatus_SUSPENDED \<or>
                          u_status user = AccountStatus_DEACTIVATED
                  then Throw (RealtimeErrorCode_ACCOUNT_RESTRICTED, ''Your account is currently restricted.'')
                  else Ok \<lparr>sd_userId = ac_sub claims, sd_username = u_username user, sd_role = u_role user,
                           sd_plan = u_plan user, sd_nodeId = nodeId, sd_connectedAt = now\<rparr>)"

text \<open>The second look at an open socket: \<open>None\<close> is \<^verbatim>\<open>ok: true\<close>, otherwise status and reason.\<close>

definition revalidateSocket :: "user_id \<Rightarrow> Db \<Rightarrow> (AccountStatus \<times> string) option" where
  "revalidateSocket userId db =
     (case db_users db userId of
        None \<Rightarrow> Some (AccountStatus_BANNED, ''Account no longer exists.'')
      | Some user \<Rightarrow>
          if u_deletedAt user \<noteq> None then Some (AccountStatus_BANNED, ''Account no longer exists.'')
          else if u_status user = AccountStatus_BANNED
          then Some (AccountStatus_BANNED, ''Your account has been restricted.'')
          else if u_status user = AccountStatus_SUSPENDED
          then Some (AccountStatus_SUSPENDED, ''Your account is temporarily restricted.'')
          else None)"

text \<open>\<^verbatim>\<open>tokenGeneration: { increment: 1 }\<close>, the write of a password change or a ban.\<close>

definition bumpGeneration :: "user_id \<Rightarrow> Db \<Rightarrow> Db" where
  "bumpGeneration userId db = updateUser userId (\<lambda>u. u\<lparr>u_tokenGeneration := u_tokenGeneration u + 1\<rparr>) db"

section \<open>The contract of an entrance\<close>

text \<open>Whom an entrance admits for a verified token, and nothing else it looks at.\<close>

locale session_gate =
  fixes admits :: "AccessTokenClaims \<Rightarrow> (string \<Rightarrow> bool) \<Rightarrow> Db \<Rightarrow> user_id option"
  assumes admits_iff:
    "admits c revoked db = Some u \<longleftrightarrow>
       u = ac_sub c \<and> \<not> revoked (ac_sid c) \<and>
       (\<exists>row. db_users db u = Some row \<and> u_deletedAt row = None \<and> u_tokenGeneration row = ac_gen c \<and>
              u_status row \<notin> set NON_MATCHABLE_STATUSES)"
begin

lemma revoked_out: "revoked (ac_sid c) \<Longrightarrow> admits c revoked db = None"
  by (cases "admits c revoked db") (auto simp: admits_iff)

text \<open>Raising the generation shuts out every token issued before, on all devices.\<close>

lemma bumped_out:
  "db_users db (ac_sub c) = Some row \<Longrightarrow> ac_gen c \<le> u_tokenGeneration row \<Longrightarrow>
   admits c revoked (bumpGeneration (ac_sub c) db) = None"
  by (cases "admits c revoked (bumpGeneration (ac_sub c) db)")
     (auto simp: admits_iff bumpGeneration_def updateUser_def table_simps)

lemma restricted_out:
  "db_users db (ac_sub c) = Some row \<Longrightarrow> u_status row \<in> set NON_MATCHABLE_STATUSES \<Longrightarrow>
   admits c revoked db = None"
  by (cases "admits c revoked db") (auto simp: admits_iff)

lemma other_users_irrelevant:
  assumes "db_users db (ac_sub c) = db_users db' (ac_sub c)"
  shows "admits c revoked db = admits c revoked db'"
proof -
  have "admits c revoked db = Some u \<longleftrightarrow> admits c revoked db' = Some u" for u
    unfolding admits_iff using assms by metis
  then show ?thesis by (metis not_None_eq)
qed

end

text \<open>Both entrances as a gate: a set of revoked sessions is a register that never expires.\<close>

definition revokedRegister :: "(string \<Rightarrow> bool) \<Rightarrow> (string, unit) register" where
  "revokedRegister revoked = (\<lambda>sid. if revoked sid then Some ((), 1) else None)"

definition httpGate :: "AccessTokenClaims \<Rightarrow> (string \<Rightarrow> bool) \<Rightarrow> Db \<Rightarrow> user_id option" where
  "httpGate c revoked db =
     (case resolveUser 0 (ValidToken c) (revokedRegister revoked) db of Inl e \<Rightarrow> None | Inr u \<Rightarrow> Some (au_id u))"

definition socketGate :: "AccessTokenClaims \<Rightarrow> (string \<Rightarrow> bool) \<Rightarrow> Db \<Rightarrow> user_id option" where
  "socketGate c revoked db =
     (case authenticateSocket (\<lambda>t. ValidToken c) 0 [] (revokedRegister revoked) db (Some ''t'') of
        Inl e \<Rightarrow> None | Inr d \<Rightarrow> Some (sd_userId d))"

lemma live_revokedRegister [simp]: "live (revokedRegister revoked) 0 sid = (if revoked sid then Some () else None)"
  by (simp add: live_def revokedRegister_def)

lemma httpGate_iff:
  "httpGate c revoked db = Some u \<longleftrightarrow>
     u = ac_sub c \<and> \<not> revoked (ac_sid c) \<and>
     (\<exists>row. db_users db u = Some row \<and> u_deletedAt row = None \<and> u_tokenGeneration row = ac_gen c \<and>
            u_status row \<notin> set NON_MATCHABLE_STATUSES)"
  by (cases "db_users db (ac_sub c)")
     (auto simp: httpGate_def resolveUser_def NON_MATCHABLE_STATUSES_def)

lemma socketGate_iff:
  "socketGate c revoked db = Some u \<longleftrightarrow>
     u = ac_sub c \<and> \<not> revoked (ac_sid c) \<and>
     (\<exists>row. db_users db u = Some row \<and> u_deletedAt row = None \<and> u_tokenGeneration row = ac_gen c \<and>
            u_status row \<notin> set NON_MATCHABLE_STATUSES)"
  by (cases "db_users db (ac_sub c)")
     (auto simp: socketGate_def authenticateSocket_def NON_MATCHABLE_STATUSES_def)

interpretation http: session_gate httpGate
  by unfold_locales (rule httpGate_iff)

interpretation socket: session_gate socketGate
  by unfold_locales (rule socketGate_iff)

text \<open>The real handlers are the gates at the sessions revoked at the time.\<close>

lemma resolveUser_gate:
  "resolveUser now (ValidToken c) revoked db = Inr a \<Longrightarrow>
   httpGate c (\<lambda>sid. live revoked now sid \<noteq> None) db = Some (au_id a)"
  by (auto simp: httpGate_def resolveUser_def split: option.splits if_splits)

lemma authenticateSocket_gate:
  "authenticateSocket verify now n revoked db (Some t) = Inr d \<Longrightarrow>
   \<exists>c. verify t = ValidToken c \<and> socketGate c (\<lambda>sid. live revoked now sid \<noteq> None) db = Some (sd_userId d)"
  by (auto simp: socketGate_def authenticateSocket_def split: option.splits if_splits VerifyResult.splits)

lemma live_unit [simp]: "x \<noteq> Some () \<longleftrightarrow> x = None"
  by (cases x) auto

section \<open>Properties\<close>

text \<open>Who should be let in, stated without reference to the order of the checks.\<close>

definition admitted :: "instant \<Rightarrow> VerifyResult \<Rightarrow> (string, unit) register \<Rightarrow> Db \<Rightarrow> user_id \<Rightarrow> bool" where
  "admitted now v revoked db u \<longleftrightarrow>
     (\<exists>c row. v = ValidToken c \<and> u = ac_sub c \<and> live revoked now (ac_sid c) = None \<and>
        db_users db u = Some row \<and> u_deletedAt row = None \<and> u_tokenGeneration row = ac_gen c \<and>
        u_status row \<notin> set NON_MATCHABLE_STATUSES)"

text \<open>C23: The two entrances agree. For every token and every state, an HTTP request is admitted exactly
when a socket handshake with the same token is, and as the same user: when the token is valid, its
session is not revoked, its generation is the account's current one and the account is neither deleted
nor in one of the statuses that may not be matched.\<close>

theorem entrances_agree:
  assumes "t \<noteq> []"
  shows "((\<exists>a. resolveUser now (verify t) revoked db = Ok a \<and> au_id a = u) \<longleftrightarrow>
            admitted now (verify t) revoked db u) \<and>
         ((\<exists>d. authenticateSocket verify now n revoked db (Some t) = Ok d \<and> sd_userId d = u) \<longleftrightarrow>
            admitted now (verify t) revoked db u)"
  using assms unfolding admitted_def
  by (auto simp: resolveUser_def authenticateSocket_def NON_MATCHABLE_STATUSES_def
      split: option.splits VerifyResult.splits AccessTokenError.splits if_splits)

text \<open>A user, a session and a token that name each other.\<close>

definition gateUser :: UserRow where
  "gateUser = exampleRow\<lparr>u_status := AccountStatus_ACTIVE, u_deletedAt := None, u_tokenGeneration := 0\<rparr>"

definition gateDb :: Db where
  "gateDb = emptyDb\<lparr>db_users := [''u'' \<mapsto> gateUser]\<rparr>"

definition gateClaims :: AccessTokenClaims where
  "gateClaims = \<lparr>ac_sub = ''u'', ac_sid = ''s'', ac_gen = 0\<rparr>"

lemma entrances_agree_witness:
  "\<exists>d. authenticateSocket (\<lambda>t. ValidToken gateClaims) 7 ''n'' (\<lambda>k. None) gateDb (Some ''tok'') = Ok d \<and>
     sd_userId d = ''u''"
  using entrances_agree [of "''tok''" 7 "\<lambda>t. ValidToken gateClaims" "\<lambda>k. None" gateDb "''u''" "''n''"]
  by (simp add: admitted_def gateClaims_def gateDb_def gateUser_def NON_MATCHABLE_STATUSES_def)

text \<open>Both ways to take access back work at both entrances, at once and for as long as a token can
live. A revoked session stays out for the hour its mark lasts, which is longer than the fifteen minutes of
an access token; raising the account's generation refuses every token issued up to then, on every
device.\<close>

theorem revocation_shuts_both_entrances:
  assumes "verify t = ValidToken c" and "db_users db (ac_sub c) = Some row" and "ac_gen c \<le> u_tokenGeneration row"
    and "now \<le> later" and "later < now + ttl_revokedSession REDIS_TTL * 1000"
  shows "(\<nexists>a. resolveUser later (verify t) (revokeSession now (ttl_revokedSession REDIS_TTL) (ac_sid c) revoked) db = Ok a) \<and>
         (\<nexists>d. authenticateSocket verify later n
                (revokeSession now (ttl_revokedSession REDIS_TTL) (ac_sid c) revoked) db (Some t) = Ok d) \<and>
         (\<nexists>a. resolveUser later (verify t) revoked (bumpGeneration (ac_sub c) db) = Ok a) \<and>
         (\<nexists>d. authenticateSocket verify later n revoked (bumpGeneration (ac_sub c) db) (Some t) = Ok d)"
proof -
  define revoked' where "revoked' = revokeSession now (ttl_revokedSession REDIS_TTL) (ac_sid c) revoked"
  define db' where "db' = bumpGeneration (ac_sub c) db"
  have r: "live revoked' later (ac_sid c) \<noteq> None"
    using assms(4,5) by (simp add: revoked'_def revokeSession_def setEx_def live_def expiry_def)
  have "httpGate c (\<lambda>sid. live revoked' later sid \<noteq> None) db = None"
    "socketGate c (\<lambda>sid. live revoked' later sid \<noteq> None) db = None"
    by (rule http.revoked_out socket.revoked_out, rule r)+
  moreover have "httpGate c rv db' = None" "socketGate c rv db' = None" for rv
    unfolding db'_def by (rule http.bumped_out [OF assms(2,3)] socket.bumped_out [OF assms(2,3)])+
  ultimately show ?thesis
    using resolveUser_gate authenticateSocket_gate assms(1)
    unfolding revoked'_def [symmetric] db'_def [symmetric]
    by (metis VerifyResult.inject(1) not_None_eq option.distinct(1))
qed

lemma revocation_shuts_both_entrances_witness:
  "(\<nexists>a. resolveUser 900000 (ValidToken gateClaims) (revokeSession 5 3600 ''s'' (\<lambda>k. None)) gateDb = Ok a) \<and>
   (\<exists>a. resolveUser 900000 (ValidToken gateClaims) (\<lambda>k. None) gateDb = Ok a)"
  using revocation_shuts_both_entrances [of "\<lambda>t. ValidToken gateClaims" "''tok''" gateClaims gateDb gateUser 5 900000
      "\<lambda>k. None"]
  by (simp add: gateClaims_def gateDb_def gateUser_def REDIS_TTL_def resolveUser_def)

end
