(* ===== verification/Rate_Limit.thy ===== *)
theory Rate_Limit
  imports Access_Control
begin

text \<open>The two fixed-window limiters: the per-socket flood guard \<open>allow\<close> of
\<^verbatim>\<open>apps/realtime/src/server.ts\<close>, in memory, and \<open>consumeRateLimit\<close> of \<^verbatim>\<open>apps/api/src/redis.ts\<close>, in
Redis, with the hook of \<^verbatim>\<open>plugins/rate-limit.plugin.ts\<close> and the limits of
\<^verbatim>\<open>packages/shared/src/constants.ts\<close>. The locale \<open>fixed_window\<close> is what both implement; the bounds on what
gets through are proved for it.\<close>

section \<open>Limits\<close>

record RateLimitRule =
  rl_limit :: nat
  rl_windowSeconds :: int

record RateLimits =
  rls_login :: RateLimitRule
  rls_register :: RateLimitRule
  rls_passwordReset :: RateLimitRule
  rls_emailVerificationResend :: RateLimitRule
  rls_queueJoin :: RateLimitRule
  rls_skip :: RateLimitRule
  rls_report :: RateLimitRule
  rls_block :: RateLimitRule
  rls_chatMessage :: RateLimitRule
  rls_socketEvent :: RateLimitRule
  rls_apiDefault :: RateLimitRule
  rls_apiWrite :: RateLimitRule

definition RATE_LIMITS :: RateLimits where
  "RATE_LIMITS =
     \<lparr>rls_login = \<lparr>rl_limit = 8, rl_windowSeconds = 300\<rparr>,
      rls_register = \<lparr>rl_limit = 5, rl_windowSeconds = 3600\<rparr>,
      rls_passwordReset = \<lparr>rl_limit = 5, rl_windowSeconds = 3600\<rparr>,
      rls_emailVerificationResend = \<lparr>rl_limit = 5, rl_windowSeconds = 3600\<rparr>,
      rls_queueJoin = \<lparr>rl_limit = 60, rl_windowSeconds = 60\<rparr>,
      rls_skip = \<lparr>rl_limit = 90, rl_windowSeconds = 60\<rparr>,
      rls_report = \<lparr>rl_limit = 10, rl_windowSeconds = 3600\<rparr>,
      rls_block = \<lparr>rl_limit = 60, rl_windowSeconds = 3600\<rparr>,
      rls_chatMessage = \<lparr>rl_limit = 25, rl_windowSeconds = 15\<rparr>,
      rls_socketEvent = \<lparr>rl_limit = 300, rl_windowSeconds = 60\<rparr>,
      rls_apiDefault = \<lparr>rl_limit = 300, rl_windowSeconds = 60\<rparr>,
      rls_apiWrite = \<lparr>rl_limit = 60, rl_windowSeconds = 60\<rparr>\<rparr>"

section \<open>The flood guard of a socket\<close>

record Bucket =
  bk_count :: nat
  bk_resetAt :: instant

type_synonym Buckets = "string \<times> string \<rightharpoonup> Bucket"

text \<open>Keyed by socket and event; the map of a socket goes with the socket. The window is in
milliseconds.\<close>

definition allow :: "instant \<Rightarrow> string \<Rightarrow> string \<Rightarrow> nat \<Rightarrow> int \<Rightarrow> Buckets \<Rightarrow> bool \<times> Buckets" where
  "allow now socketId event limit windowMs buckets =
     (case buckets (socketId, event) of
        None \<Rightarrow> (True, buckets((socketId, event) \<mapsto> \<lparr>bk_count = 1, bk_resetAt = now + windowMs\<rparr>))
      | Some bucket \<Rightarrow>
          if bk_resetAt bucket \<le> now
          then (True, buckets((socketId, event) \<mapsto> \<lparr>bk_count = 1, bk_resetAt = now + windowMs\<rparr>))
          else let c = bk_count bucket + 1
               in (c \<le> limit, buckets((socketId, event) \<mapsto> bucket\<lparr>bk_count := c\<rparr>)))"

section \<open>The shared counter in Redis\<close>

record RateLimitResult =
  rr_allowed :: bool
  rr_remaining :: int
  rr_retryAfter :: int

text \<open>\<^verbatim>\<open>INCR; EXPIRE NX; TTL\<close> in one transaction. \<open>None\<close> is a Redis that does not answer in time: the
limiter fails open. \<^verbatim>\<open>TTL\<close> is the remaining time rounded to whole seconds.\<close>

definition bumpCounter :: "instant \<Rightarrow> int \<Rightarrow> string \<Rightarrow> (string, nat) register \<Rightarrow> (nat \<times> instant) \<times> (string, nat) register" where
  "bumpCounter now windowSeconds key r =
     (case r key of
        Some (c, e) \<Rightarrow>
          if now < e then ((c + 1, e), r(key \<mapsto> (c + 1, e)))
          else ((1, expiry now windowSeconds), r(key \<mapsto> (1, expiry now windowSeconds)))
      | None \<Rightarrow> ((1, expiry now windowSeconds), r(key \<mapsto> (1, expiry now windowSeconds))))"

definition consumeRateLimit ::
    "instant \<Rightarrow> string \<Rightarrow> nat \<Rightarrow> int \<Rightarrow> (string, nat) register option \<Rightarrow>
     RateLimitResult \<times> (string, nat) register option" where
  "consumeRateLimit now key limit windowSeconds redis =
     (case redis of
        None \<Rightarrow> (\<lparr>rr_allowed = True, rr_remaining = int limit, rr_retryAfter = 0\<rparr>, None)
      | Some r \<Rightarrow>
          let ((count, e), r') = bumpCounter now windowSeconds key r;
              ttl = (e - now + 500) div 1000
          in (\<lparr>rr_allowed = (count \<le> limit), rr_remaining = max 0 (int limit - int count),
               rr_retryAfter = (if ttl > 0 then ttl else windowSeconds)\<rparr>, Some r'))"

section \<open>The hook of a route\<close>

datatype KeyBy = ByIp | ByUser | ByBoth

definition clientIdentity :: "(string \<Rightarrow> string) \<Rightarrow> KeyBy \<Rightarrow> string \<Rightarrow> AuthenticatedUser option \<Rightarrow> string" where
  "clientIdentity hashIp keyBy ip user =
     (let ipKey = hashIp ip in
      case keyBy of
        ByUser \<Rightarrow> (case user of Some u \<Rightarrow> ''u:'' @ au_id u | None \<Rightarrow> ''ip:'' @ ipKey)
      | ByIp \<Rightarrow> ''ip:'' @ ipKey
      | ByBoth \<Rightarrow> (case user of Some u \<Rightarrow> ''u:'' @ au_id u | None \<Rightarrow> ''ip:'' @ ipKey))"

definition Errors_rateLimited :: "int \<Rightarrow> AppError" where
  "Errors_rateLimited retryAfter =
     (appError RATE_LIMITED ''Too many attempts. Please wait and try again.'')\<lparr>ae_retryAfter := Some retryAfter\<rparr>"

definition rateKey :: "string \<Rightarrow> string \<Rightarrow> string \<Rightarrow> string" where
  "rateKey pfx bucket identity = createRedisKeys pfx (K_rateLimit bucket identity)"

text \<open>The answer is the two advertised headers or the error; the custom identity of a route is
\<open>identity\<close>.\<close>

definition rateLimit ::
    "instant \<Rightarrow> string \<Rightarrow> string \<Rightarrow> RateLimitRule \<Rightarrow> string \<Rightarrow> (string, nat) register option \<Rightarrow>
     (AppError + nat \<times> int) \<times> (string, nat) register option" where
  "rateLimit now pfx bucket rule identity redis =
     (let (result, redis') = consumeRateLimit now (rateKey pfx bucket identity)
            (rl_limit rule) (rl_windowSeconds rule) redis
      in (if \<not> rr_allowed result then Throw (Errors_rateLimited (rr_retryAfter result))
          else Ok (rl_limit rule, rr_remaining result), redis'))"

section \<open>The contract of a fixed window\<close>

text \<open>One hit on one counter. \<open>window\<close> is in milliseconds; the view is the count so far and the end of
the current window.\<close>

locale fixed_window =
  fixes hit :: "instant \<Rightarrow> 's \<Rightarrow> bool \<times> 's" and view :: "'s \<Rightarrow> (nat \<times> instant) option"
    and limit :: nat and window :: int
  assumes fresh: "view s = None \<or> (\<exists>c e. view s = Some (c, e) \<and> e \<le> now) \<Longrightarrow>
      fst (hit now s) \<and> view (snd (hit now s)) = Some (1, now + window)"
    and running: "view s = Some (c, e) \<Longrightarrow> now < e \<Longrightarrow>
      fst (hit now s) = (c + 1 \<le> limit) \<and> view (snd (hit now s)) = Some (c + 1, e)"
begin

fun hits :: "instant list \<Rightarrow> 's \<Rightarrow> bool list" where
  "hits [] s = []"
| "hits (t # ts) s = fst (hit t s) # hits ts (snd (hit t s))"

definition passed :: "instant list \<Rightarrow> 's \<Rightarrow> nat" where
  "passed ts s = length (filter (\<lambda>b. b) (hits ts s))"

lemma passed_simps [simp]:
  "passed [] s = 0"
  "passed (t # ts) s = (if fst (hit t s) then 1 else 0) + passed ts (snd (hit t s))"
  by (simp_all add: passed_def)

lemma length_hits [simp]: "length (hits ts s) = length ts"
  by (induction ts arbitrary: s) simp_all

text \<open>What is left of a running window bounds what still gets through before its end.\<close>

lemma passed_running: "view s = Some (c, e) \<Longrightarrow> \<forall>t\<in>set ts. t < e \<Longrightarrow> passed ts s \<le> limit - c"
proof (induction ts arbitrary: s c)
  case (Cons t ts)
  then have "t < e" by simp
  note r = running [OF Cons.prems(1) this]
  show ?case using Cons.IH [of "snd (hit t s)" "c + 1"] Cons.prems r by (auto split: if_splits)
qed simp

lemma passed_fresh:
  assumes "view s = None \<or> (\<exists>c e. view s = Some (c, e) \<and> e \<le> t)" "1 \<le> limit"
    and "\<forall>t'\<in>set ts. t' < t + window"
  shows "passed (t # ts) s \<le> limit"
  using fresh [OF assms(1)] passed_running [of "snd (hit t s)" 1 "t + window" ts] assms by simp

text \<open>Over any stretch no longer than one window, at most two windows' worth gets through.\<close>

lemma passed_stretch:
  "sorted ts \<Longrightarrow> 1 \<le> limit \<Longrightarrow> \<forall>t\<in>set ts. t0 \<le> t \<and> t < t0 + window \<Longrightarrow>
   passed ts s \<le> (case view s of None \<Rightarrow> 0 | Some (c, e) \<Rightarrow> if e \<le> t0 then 0 else limit - c) + limit"
proof (induction ts arbitrary: s)
  case (Cons t ts)
  show ?case
  proof (cases "view s = None \<or> (\<exists>c e. view s = Some (c, e) \<and> e \<le> t)")
    case True
    moreover have "\<forall>t'\<in>set ts. t' < t + window" using Cons.prems(3) by fastforce
    ultimately show ?thesis using passed_fresh Cons.prems(2) trans_le_add2 by blast
  next
    case False
    then obtain c e where v: "view s = Some (c, e)" "t < e"
      by (cases "view s") (auto simp: not_le)
    note r = running [OF v]
    have "passed ts (snd (hit t s)) \<le> (limit - (c + 1)) + limit"
      using Cons.IH [of "snd (hit t s)"] Cons.prems r by (auto split: if_splits)
    then show ?thesis using r v Cons.prems(3) by auto
  qed
qed simp

lemma at_most_twice:
  "sorted ts \<Longrightarrow> 1 \<le> limit \<Longrightarrow> \<forall>t\<in>set ts. t0 \<le> t \<and> t < t0 + window \<Longrightarrow> passed ts s \<le> 2 * limit"
  using passed_stretch [of ts t0 s] by (auto split: option.splits if_splits)

text \<open>Nobody who stays within the limit is turned away: the first \<open>limit\<close> hits of a window pass.\<close>

lemma all_pass_running:
  "view s = Some (c, e) \<Longrightarrow> \<forall>t\<in>set ts. t < e \<Longrightarrow> c + length ts \<le> limit \<Longrightarrow> passed ts s = length ts"
proof (induction ts arbitrary: s c)
  case (Cons t ts)
  then have "t < e" by simp
  note r = running [OF Cons.prems(1) this]
  show ?case using Cons.IH [of "snd (hit t s)" "c + 1"] Cons.prems r by simp
qed simp

lemma all_pass_fresh:
  assumes "view s = None \<or> (\<exists>c e. view s = Some (c, e) \<and> e \<le> t)"
    and "\<forall>t'\<in>set ts. t' < t + window" "length (t # ts) \<le> limit"
  shows "passed (t # ts) s = length (t # ts)"
  using fresh [OF assms(1)] all_pass_running [of "snd (hit t s)" 1 "t + window" ts] assms(2,3) by simp

end

definition bucketView :: "string \<Rightarrow> string \<Rightarrow> Buckets \<Rightarrow> (nat \<times> instant) option" where
  "bucketView sid event b = map_option (\<lambda>k. (bk_count k, bk_resetAt k)) (b (sid, event))"

interpretation flood: fixed_window
  "\<lambda>now b. allow now sid event limit windowMs b" "bucketView sid event" limit windowMs
  for sid event limit windowMs
  by unfold_locales (auto simp: allow_def bucketView_def Let_def split: option.splits)

text \<open>A rule with a positive limit; the locale's window is in milliseconds.\<close>

interpretation counter: fixed_window
  "\<lambda>now r. apfst (\<lambda>x. fst x \<le> Suc l) (bumpCounter now windowSeconds key r)" "\<lambda>r. r key"
  "Suc l" "windowSeconds * 1000" for key l windowSeconds
  by unfold_locales (auto simp: bumpCounter_def expiry_def)

section \<open>Properties\<close>

text \<open>How many of a series of hits on one event of one socket get through.\<close>

fun allowedCount :: "string \<Rightarrow> string \<Rightarrow> nat \<Rightarrow> int \<Rightarrow> instant list \<Rightarrow> Buckets \<Rightarrow> nat" where
  "allowedCount sid event limit windowMs [] b = 0"
| "allowedCount sid event limit windowMs (t # ts) b =
     (let (ok, b') = allow t sid event limit windowMs b
      in (if ok then 1 else 0) + allowedCount sid event limit windowMs ts b')"

lemma allowedCount_passed: "allowedCount sid event limit w ts b = flood.passed sid event limit w ts b"
  by (induction ts arbitrary: b) (simp_all add: prod.case_eq_if Let_def)

text \<open>A socket cannot flood an event. Whatever it has sent before, in any stretch of time no longer
than the window of an event at most twice the event's limit of its frames are let through; and a socket
that starts a window and stays within the limit is never turned away.\<close>

theorem socket_flood_bounded:
  assumes "sorted ts" and "1 \<le> limit" and "\<forall>t\<in>set ts. t0 \<le> t \<and> t < t0 + windowMs"
  shows "allowedCount sid event limit windowMs ts b \<le> 2 * limit \<and>
         (b (sid, event) = None \<and> length ts \<le> limit \<longrightarrow>
            allowedCount sid event limit windowMs ts b = length ts)"
proof -
  have "allowedCount sid event limit windowMs ts b = length ts"
    if "b (sid, event) = None" "length ts \<le> limit"
  proof (cases ts)
    case (Cons t us)
    have "\<forall>t'\<in>set us. t' < t + windowMs" using assms(1,3) Cons by fastforce
    then show ?thesis
      using flood.all_pass_fresh [of sid event b t us windowMs limit] that Cons
      by (simp add: allowedCount_passed bucketView_def)
  qed simp
  then show ?thesis
    using flood.at_most_twice [OF assms] by (simp add: allowedCount_passed)
qed

lemma socket_flood_bounded_witness:
  "allowedCount ''s'' ''chat:message'' 2 15000 [0, 1, 2, 14999] (\<lambda>k. None) = 2 \<and>
   allowedCount ''s'' ''chat:message'' 2 15000 [0, 1, 2, 14999] (\<lambda>k. None) \<le> 4"
  using socket_flood_bounded [of "[0, 1, 2, 14999]" 2 0 15000 "''s''" "''chat:message''" "\<lambda>k. None"]
  by (simp add: allow_def)

text \<open>A rate-limited route refuses nobody for ever and counts everybody. While Redis answers, a
request is refused exactly when the requests of the same identity to the same bucket in the running
window, this one included, exceed the limit; the refusal names a positive time to wait; a request after
the end of the window is let through; requests of another identity never count. When Redis does not
answer, every request is let through.\<close>

theorem rateLimit_exact:
  assumes "1 \<le> rl_limit rule" and "0 < rl_windowSeconds rule" and "CHR '':'' \<notin> set bucket"
  shows "(case rateLimit now pfx bucket rule identity (Some r) of
            (Inl e, r') \<Rightarrow> statusCode e = 429 \<and> (\<exists>n. ae_retryAfter e = Some n \<and> 0 < n) \<and>
              (\<exists>c till. r (rateKey pfx bucket identity) = Some (c, till) \<and> now < till \<and> rl_limit rule < c + 1)
          | (Inr h, r') \<Rightarrow>
              (\<forall>c till. r (rateKey pfx bucket identity) = Some (c, till) \<and> now < till \<longrightarrow> c + 1 \<le> rl_limit rule)) \<and>
         (\<forall>other r'. other \<noteq> identity \<and> snd (rateLimit now pfx bucket rule identity (Some r)) = Some r' \<longrightarrow>
            r' (rateKey pfx bucket other) = r (rateKey pfx bucket other)) \<and>
         (\<exists>h. fst (rateLimit now pfx bucket rule identity None) = Ok h)"
proof -
  have other: "rateKey pfx bucket o' \<noteq> rateKey pfx bucket identity" if "o' \<noteq> identity" for o'
    using createRedisKeys_injective [of "K_rateLimit bucket o'" "K_rateLimit bucket identity" pfx] assms(3) that
    by (simp add: rateKey_def)
  show ?thesis
    using assms(1,2) other
    by (auto simp: rateLimit_def consumeRateLimit_def bumpCounter_def Let_def rateKey_def [symmetric] statusCode_def
        Errors_rateLimited_def appError_def split: option.splits if_splits)
qed

lemma rateLimit_exact_witness:
  "\<exists>e r'. rateLimit 1000 ''t2w'' ''login'' (rls_login RATE_LIMITS) ''ip:1''
     (Some [rateKey ''t2w'' ''login'' ''ip:1'' \<mapsto> (8, 300000)]) = (Throw e, r') \<and> statusCode e = 429"
proof -
  let ?r = "[rateKey ''t2w'' ''login'' ''ip:1'' \<mapsto> (8, 300000 :: int)]"
  obtain res r' where e: "rateLimit 1000 ''t2w'' ''login'' (rls_login RATE_LIMITS) ''ip:1'' (Some ?r) = (res, r')"
    by fastforce
  from rateLimit_exact [where rule = "rls_login RATE_LIMITS" and bucket = "''login''" and now = 1000 and pfx = "''t2w''" and identity = "''ip:1''" and r = ?r]
  show ?thesis unfolding e by (cases res) (auto simp: RATE_LIMITS_def)
qed

end
