(* ===== verification/Turn.thy ===== *)
theory Turn
  imports Utils
begin

text \<open>Ephemeral relay credentials, \<^verbatim>\<open>packages/auth/src/turn.ts\<close>. The MAC (HMAC-SHA1, base64) is an
argument; \<open>coturnAccepts\<close> states what the relay checks with the same secret.\<close>

record TurnConfig =
  tc_secret :: string
  tc_host :: string
  tc_port :: "nat option"
  tc_tlsPort :: "nat option"
  tc_stunUrls :: "string list option"
  tc_ttlSeconds :: "nat option"
  tc_enableTcp :: "bool option"
  tc_enableTls :: "bool option"

record TurnCredential =
  cr_username :: string
  cr_credential :: string
  cr_expiresAt :: instant

record IceServerConfig =
  ic_urls :: "string list"
  ic_username :: "string option"
  ic_credential :: "string option"

definition TURN_CREDENTIAL_TTL_SECONDS :: nat where
  "TURN_CREDENTIAL_TTL_SECONDS = 2 * 60 * 60"

definition orElse :: "'a option \<Rightarrow> 'a \<Rightarrow> 'a" where
  "orElse x d = (case x of None \<Rightarrow> d | Some v \<Rightarrow> v)"

text \<open>\<open>None\<close> is the thrown error of a short secret. The clock is past the epoch.\<close>

definition createTurnCredential ::
    "(string \<Rightarrow> string \<Rightarrow> string) \<Rightarrow> instant \<Rightarrow> user_id \<Rightarrow> TurnConfig \<Rightarrow> TurnCredential option" where
  "createTurnCredential hmac now userId config =
     (if length (tc_secret config) < 32 then None
      else let expiryUnix = nat (now div 1000) + orElse (tc_ttlSeconds config) TURN_CREDENTIAL_TTL_SECONDS;
               username = natText expiryUnix @ '':'' @ userId
           in Some \<lparr>cr_username = username, cr_credential = hmac (tc_secret config) username,
                    cr_expiresAt = int expiryUnix * 1000\<rparr>)"

definition turnUrls :: "TurnConfig \<Rightarrow> string list" where
  "turnUrls config =
     (let port = natText (orElse (tc_port config) 3478); base = ''turn:'' @ tc_host config @ '':'' in
      [base @ port @ ''?transport=udp''] @
      (if tc_enableTcp config \<noteq> Some False then [base @ port @ ''?transport=tcp''] else []) @
      (case tc_tlsPort config of
         None \<Rightarrow> []
       | Some p \<Rightarrow> if tc_enableTls config = Some True \<and> p \<noteq> 0
                   then [''turns:'' @ tc_host config @ '':'' @ natText p @ ''?transport=tcp''] else []))"

definition buildIceServers ::
    "(string \<Rightarrow> string \<Rightarrow> string) \<Rightarrow> instant \<Rightarrow> user_id \<Rightarrow> TurnConfig \<Rightarrow> IceServerConfig list option" where
  "buildIceServers hmac now userId config =
     (let stunUrls = orElse (tc_stunUrls config)
            [''stun:'' @ tc_host config @ '':'' @ natText (orElse (tc_port config) 3478)];
          stun = (if stunUrls = [] then []
                  else [\<lparr>ic_urls = stunUrls, ic_username = None, ic_credential = None\<rparr>])
      in case createTurnCredential hmac now userId config of
           None \<Rightarrow> None
         | Some c \<Rightarrow> Some (stun @ [\<lparr>ic_urls = turnUrls config, ic_username = Some (cr_username c),
                                   ic_credential = Some (cr_credential c)\<rparr>]))"

section \<open>What the relay reads\<close>

text \<open>The relay splits the user name at the first colon and reads the expiry in decimal.\<close>

definition decimal :: "string \<Rightarrow> nat" where
  "decimal t = foldl (\<lambda>a c. 10 * a + (of_char c - 48)) 0 t"

definition embeddedExpiry :: "string \<Rightarrow> nat" where
  "embeddedExpiry username = decimal (takeWhile (\<lambda>c. c \<noteq> CHR '':'') username)"

definition embeddedUser :: "string \<Rightarrow> user_id" where
  "embeddedUser username = drop 1 (dropWhile (\<lambda>c. c \<noteq> CHR '':'') username)"

lemma digit_no_colon: "(n :: nat) < 10 \<Longrightarrow> char_of (48 + n) \<noteq> CHR '':''"
proof
  assume n: "n < 10" "char_of (48 + n) = CHR '':''"
  then have "(of_char (char_of (48 + n) :: char) :: nat) = 58" by simp
  then show False using n(1) by (simp add: of_char_of)
qed

lemma natText_no_colon: "CHR '':'' \<notin> set (natText n)"
proof (induction n rule: natText.induct)
  case (1 n)
  then show ?case
    using digit_no_colon [of n] digit_no_colon [of "n mod 10"] by (subst natText.simps) auto
qed

lemma decimal_natText: "decimal (natText n) = n"
proof (induction n rule: natText.induct)
  case (1 n)
  then show ?case
    by (subst natText.simps) (auto simp: decimal_def of_char_of)
qed

lemma embedded_natText:
  "embeddedExpiry (natText n @ CHR '':'' # u) = n" "embeddedUser (natText n @ CHR '':'' # u) = u"
proof -
  have ok: "c \<in> set (natText n) \<Longrightarrow> c \<noteq> CHR '':''" for c using natText_no_colon [of n] by auto
  have "takeWhile (\<lambda>c. c \<noteq> CHR '':'') (natText n @ CHR '':'' # u) = natText n"
    using ok by (subst takeWhile_append2) auto
  then show "embeddedExpiry (natText n @ CHR '':'' # u) = n" by (simp add: embeddedExpiry_def decimal_natText)
  have "dropWhile (\<lambda>c. c \<noteq> CHR '':'') (natText n @ CHR '':'' # u) = CHR '':'' # u"
    using ok by (subst dropWhile_append2) auto
  then show "embeddedUser (natText n @ CHR '':'' # u) = u" by (simp add: embeddedUser_def)
qed

section \<open>Properties\<close>

text \<open>A relay credential can always be attributed and always runs out. Whatever the user id contains,
the relay reads back exactly the user it was issued to and an expiry that is the promised life after the
second of issue; two users never share a user name, so a credential never stands for somebody else; no
credential is issued under a secret shorter than 32 characters, and the relay is offered after STUN.\<close>

theorem turn_credential_attributable:
  assumes "buildIceServers hmac now u config = Some servers" and "0 \<le> now"
  shows "32 \<le> length (tc_secret config) \<and>
    (\<exists>name stun urls. servers = stun @ [\<lparr>ic_urls = urls, ic_username = Some name,
           ic_credential = Some (hmac (tc_secret config) name)\<rparr>] \<and>
       (\<forall>s\<in>set stun. ic_credential s = None) \<and>
       embeddedUser name = u \<and>
       int (embeddedExpiry name) = now div 1000 + int (orElse (tc_ttlSeconds config) (2 * 60 * 60)) \<and>
       (\<forall>v servers'. buildIceServers hmac now v config = Some servers' \<and> v \<noteq> u \<longrightarrow>
          ic_username (last servers') \<noteq> Some name))"
  using assms
  by (auto simp: buildIceServers_def createTurnCredential_def Let_def embedded_natText
      TURN_CREDENTIAL_TTL_SECONDS_def split: option.splits if_splits)

lemma turn_credential_attributable_witness:
  "\<exists>name. embeddedUser name = ''u:1'' \<and> embeddedExpiry name = 7201 \<and>
     (\<exists>servers. buildIceServers (\<lambda>k t. t) 1999 ''u:1'' \<lparr>tc_secret = replicate 32 (CHR ''x''), tc_host = ''turn'',
        tc_port = None, tc_tlsPort = Some 5349, tc_stunUrls = None, tc_ttlSeconds = None,
        tc_enableTcp = None, tc_enableTls = Some True\<rparr> = Some servers \<and>
        ic_username (last servers) = Some name)"
proof -
  let ?c = "\<lparr>tc_secret = replicate 32 (CHR ''x''), tc_host = ''turn'', tc_port = None, tc_tlsPort = Some 5349,
     tc_stunUrls = None, tc_ttlSeconds = None, tc_enableTcp = None, tc_enableTls = Some True\<rparr>"
  obtain servers where b: "buildIceServers (\<lambda>k t. t) 1999 ''u:1'' ?c = Some servers"
    by (simp add: buildIceServers_def createTurnCredential_def Let_def)
  from turn_credential_attributable [OF b] show ?thesis unfolding b by (auto simp: orElse_def)
qed

end
