(* ===== verification/Realtime_Server.thy ===== *)
theory Realtime_Server
  imports Presence Tokens Matchmaker Rate_Limit Turn
begin

text \<open>The socket server of \<^verbatim>\<open>apps/realtime/src/server.ts\<close>: one function per event handler, over the
world (Redis and database), the token tables, the flood buckets, the sockets of this node and the frames
sent so far. A payload arrives as what its schema made of it, \<open>None\<close> when the schema refused it. A handler
runs to its end at one instant; a frame is addressed to a socket, to the room of a user (every socket of
that user, on any node) or to everybody. An acknowledgement is a frame to the asking socket. Log lines
are left out.\<close>

section \<open>Frames\<close>

datatype Target = ToSocket string | ToRoom user_id | ToAll

record IceCandidate =
  cd_candidate :: string
  cd_sdpMid :: "string option"
  cd_sdpMLineIndex :: "nat option"
  cd_usernameFragment :: "string option"

datatype SignalFrame =
  Offer match_id string | Answer match_id string | Ice match_id IceCandidate

fun frameMatch :: "SignalFrame \<Rightarrow> match_id" where
  "frameMatch (Offer m sdp) = m"
| "frameMatch (Answer m sdp) = m"
| "frameMatch (Ice m c) = m"

fun frameEvent :: "SignalFrame \<Rightarrow> string" where
  "frameEvent (Offer m sdp) = ''webrtc:offer''"
| "frameEvent (Answer m sdp) = ''webrtc:answer''"
| "frameEvent (Ice m c) = ''webrtc:ice''"

record MatchFoundPayload =
  mf_matchId :: match_id
  mf_partner :: PublicProfile
  mf_isInitiator :: bool
  mf_iceServers :: "IceServerConfig list"
  mf_sharedInterests :: "string list"
  mf_negotiationTimeoutMs :: int
  mf_startedAt :: instant

record TipReceivedPayload =
  tr_tipId :: row_id
  tr_matchId :: match_id
  tr_fromUserId :: user_id
  tr_fromName :: string
  tr_tokens :: int
  tr_message :: "string option"
  tr_offeredSeconds :: "int option"
  tr_isOwn :: bool
  tr_sentAt :: instant

record ChatMessage =
  cm_id :: row_id
  cm_matchId :: match_id
  cm_senderId :: user_id
  cm_body :: string
  cm_sentAt :: instant

record QueueStatus =
  qs_position :: "nat option"
  qs_waitingSeconds :: int
  qs_relaxationStage :: nat
  qs_searchingNow :: nat

datatype Ack =
    AckQueued | AckLeft | AckSkipped | AckEnded | AckChat row_id instant | AckBlocked
  | AckReport row_id | AckTip row_id int | AckOk

datatype ServerEvent =
    Ready user_id string instant
  | QueueJoined instant
  | QueueWaiting QueueStatus
  | QueueLeft
  | MatchFound MatchFoundPayload
  | MatchEnded match_id MatchEndReason bool
  | PartnerLeft match_id MatchEndReason
  | Signal SignalFrame
  | Chat ChatMessage "string option"
  | TipReceived TipReceivedPayload
  | TipOfferResolved row_id bool "int option"
  | TokensBalance int
  | AccountRestricted AccountStatus string
  | ServerDraining int
  | RtError RealtimeErrorCode string "string option" "int option"
  | AckFrame Ack

section \<open>State and environment\<close>

record RtSocket =
  so_id :: string
  so_userId :: user_id
  so_username :: string

record Realtime =
  rt_world :: World
  rt_tokens :: TokenDb
  rt_buckets :: Buckets
  rt_sockets :: "RtSocket list"
  rt_outbox :: "(Target \<times> ServerEvent) list"

text \<open>What a handler reads from outside: clock and calendar, settings, configuration, and the uuids it
would draw.\<close>

record Env =
  en_now :: instant
  en_today :: UtcDate
  en_settings :: MatchmakingSettings
  en_nodeId :: string
  en_turn :: "TurnConfig option"
  en_hmac :: "string \<Rightarrow> string \<Rightarrow> string"
  en_lockToken :: string
  en_freshId :: row_id

definition onWorld :: "(World \<Rightarrow> World) \<Rightarrow> Realtime \<Rightarrow> Realtime" where
  "onWorld f st = st\<lparr>rt_world := f (rt_world st)\<rparr>"

definition onRt :: "(RedisState \<Rightarrow> RedisState) \<Rightarrow> Realtime \<Rightarrow> Realtime" where
  "onRt f st = onWorld (onRedis f) st"

abbreviation redisOf :: "Realtime \<Rightarrow> RedisState" where
  "redisOf st \<equiv> w_redis (rt_world st)"

abbreviation dbOf :: "Realtime \<Rightarrow> Db" where
  "dbOf st \<equiv> w_db (rt_world st)"

definition emit :: "Target \<Rightarrow> ServerEvent \<Rightarrow> Realtime \<Rightarrow> Realtime" where
  "emit target event st = st\<lparr>rt_outbox := rt_outbox st @ [(target, event)]\<rparr>"

section \<open>Helpers\<close>

definition failWith :: "RtSocket \<Rightarrow> RealtimeErrorCode \<Rightarrow> string \<Rightarrow> Realtime \<Rightarrow> Realtime" where
  "failWith so code message st = emit (ToSocket (so_id so)) (RtError code message None None) st"

text \<open>The refusal of \<^verbatim>\<open>parse\<close>.\<close>

definition rejectPayload :: "RtSocket \<Rightarrow> string \<Rightarrow> Realtime \<Rightarrow> Realtime" where
  "rejectPayload so event st =
     emit (ToSocket (so_id so))
       (RtError RealtimeErrorCode_INVALID_PAYLOAD ''That request was not valid.'' (Some event) None) st"

definition guardFlood ::
    "Env \<Rightarrow> RtSocket \<Rightarrow> string \<Rightarrow> nat \<Rightarrow> int \<Rightarrow> Realtime \<Rightarrow> bool \<times> Realtime" where
  "guardFlood env so event limit windowMs st =
     (let (ok, b) = allow (en_now env) (so_id so) event limit windowMs (rt_buckets st)
      in (ok, st\<lparr>rt_buckets := b\<rparr>))"

text \<open>The relay secret has passed the configuration's own length check.\<close>

definition iceFor :: "Env \<Rightarrow> user_id \<Rightarrow> IceServerConfig list" where
  "iceFor env userId =
     (case en_turn env of
        None \<Rightarrow> []
      | Some c \<Rightarrow> orElse (buildIceServers (en_hmac env) (en_now env) userId c) [])"

definition matchFound ::
    "Env \<Rightarrow> match_id \<Rightarrow> user_id \<Rightarrow> PublicProfile \<Rightarrow> bool \<Rightarrow> string list \<Rightarrow> ServerEvent" where
  "matchFound env matchId userId partner isInitiator shared =
     MatchFound \<lparr>mf_matchId = matchId, mf_partner = partner, mf_isInitiator = isInitiator,
       mf_iceServers = iceFor env userId, mf_sharedInterests = shared,
       mf_negotiationTimeoutMs = negotiationTimeoutMs (en_settings env), mf_startedAt = en_now env\<rparr>"

definition announceMatch ::
    "Env \<Rightarrow> match_id \<Rightarrow> user_id \<times> bool \<Rightarrow> user_id \<times> bool \<Rightarrow> string list \<Rightarrow> Realtime \<Rightarrow> Realtime" where
  "announceMatch env matchId a b shared st =
     (let st1 = onRt (saveMatch (en_now env) matchId (fst a) (fst b)) st in
      case (loadMatchCandidate (fst a) (dbOf st1), loadMatchCandidate (fst b) (dbOf st1)) of
        (Some rowA, Some rowB) \<Rightarrow>
          emit (ToRoom (fst b)) (matchFound env matchId (fst b)
                  (toPublicProfileFromRow (fst a) rowA (en_today env)) (snd b) shared)
            (emit (ToRoom (fst a)) (matchFound env matchId (fst a)
                  (toPublicProfileFromRow (fst b) rowB (en_today env)) (snd a) shared) st1)
      | missing \<Rightarrow> st1)"

definition attemptMatch :: "Env \<Rightarrow> user_id \<Rightarrow> Realtime \<Rightarrow> bool \<times> Realtime" where
  "attemptMatch env userId st =
     (let (result, w) = tryMatch (en_now env) (en_nodeId env) userId (en_settings env)
            (en_lockToken env) (en_freshId env) (rt_world st);
          st1 = st\<lparr>rt_world := w\<rparr>
      in case result of
           None \<Rightarrow> (False, st1)
         | Some r \<Rightarrow>
             (True, announceMatch env (mr_matchId r) (mr_seekerId r, mr_seekerIsInitiator r)
                      (mr_partnerId r, mr_partnerIsInitiator r) (mr_sharedInterestIds r) st1))"

definition teardownMatch ::
    "Env \<Rightarrow> match_id \<Rightarrow> user_id option \<Rightarrow> MatchEndReason \<Rightarrow> Realtime \<Rightarrow> user_id option \<times> Realtime" where
  "teardownMatch env matchId actorId reason st =
     (case getMatchParticipants (en_now env) matchId (redisOf st) of
        None \<Rightarrow> (None, st)
      | Some (userA, userB) \<Rightarrow>
          let peerId = (if actorId = Some userA then Some userB
                        else if actorId = Some userB then Some userA else None);
              st1 = onWorld (endMatch (en_now env) matchId [userA, userB] reason actorId) st;
              st2 = onRt (deleteMatch matchId) st1
          in (peerId, case peerId of
                        None \<Rightarrow> st2 | Some p \<Rightarrow> emit (ToRoom p) (PartnerLeft matchId reason) st2))"

section \<open>Connection and presence\<close>

definition onConnection :: "Env \<Rightarrow> RtSocket \<Rightarrow> Realtime \<Rightarrow> Realtime" where
  "onConnection env so st =
     emit (ToSocket (so_id so)) (Ready (so_userId so) (en_nodeId env) (en_now env))
       (onRt (connect (en_now env) (en_nodeId env) (so_userId so) (so_id so))
         (st\<lparr>rt_sockets := rt_sockets st @ [so]\<rparr>))"

definition onHeartbeat :: "Env \<Rightarrow> RtSocket \<Rightarrow> Realtime \<Rightarrow> Realtime" where
  "onHeartbeat env so st = onRt (heartbeat (en_now env) (so_userId so)) st"

section \<open>Queue\<close>

record SessionPreferences =
  sp_preferredGender :: "GenderPreference option"
  sp_preferredCountries :: "string list option"
  sp_preferredLanguages :: "string list option"
  sp_preferredAgeBrackets :: "AgeBracket list option"
  sp_interestIds :: "string list option"

record QueueJoinInput =
  qj_preferences :: "SessionPreferences option"
  qj_hasCamera :: bool
  qj_hasMicrophone :: bool

definition noOverrides :: SessionPreferences where
  "noOverrides = \<lparr>sp_preferredGender = None, sp_preferredCountries = None, sp_preferredLanguages = None,
     sp_preferredAgeBrackets = None, sp_interestIds = None\<rparr>"

text \<open>The attributes matching uses: the public profile with the hidden ones put back.\<close>

definition trueProfile :: "user_id \<Rightarrow> UserRow \<Rightarrow> UtcDate \<Rightarrow> PublicProfile" where
  "trueProfile userId row today =
     (toPublicProfile (internalRecordOf userId row) DEFAULT_PRIVACY_SETTINGS today)
       \<lparr>pp_country := Option.bind (u_profile row) pr_country,
        pp_gender := map_option pr_gender (u_profile row),
        pp_ageBracket := ageBracketFor (case u_profile row of None \<Rightarrow> NoBirthDate | Some p \<Rightarrow> pr_birthDate p) today,
        pp_languages := (case u_profile row of None \<Rightarrow> [] | Some p \<Rightarrow> pr_languages p)\<rparr>"

text \<open>Override, stored preference, default, in this order.\<close>

definition effectivePreferences :: "SessionPreferences \<Rightarrow> PreferenceRow option \<Rightarrow> PreferenceRow" where
  "effectivePreferences ov stored =
     \<lparr>pf_preferredGender = orElse (sp_preferredGender ov)
         (case stored of None \<Rightarrow> GenderPreference_ANY | Some p \<Rightarrow> pf_preferredGender p),
      pf_preferredCountries = orElse (sp_preferredCountries ov)
         (case stored of None \<Rightarrow> [] | Some p \<Rightarrow> pf_preferredCountries p),
      pf_preferredLanguages = orElse (sp_preferredLanguages ov)
         (case stored of None \<Rightarrow> [] | Some p \<Rightarrow> pf_preferredLanguages p),
      pf_preferredAgeBrackets = orElse (sp_preferredAgeBrackets ov)
         (case stored of None \<Rightarrow> [] | Some p \<Rightarrow> pf_preferredAgeBrackets p)\<rparr>"

definition blockedFor :: "Env \<Rightarrow> user_id \<Rightarrow> Realtime \<Rightarrow> user_id list \<times> Realtime" where
  "blockedFor env userId st =
     (case getCachedBlocks (en_now env) userId (redisOf st) of
        Some b \<Rightarrow> (b, st)
      | None \<Rightarrow> let b = getBlockedUserIds userId (dbOf st)
                in (b, onRt (cacheBlocks (en_now env) userId b) st))"

definition joinCandidate ::
    "Env \<Rightarrow> user_id \<Rightarrow> UserRow \<Rightarrow> QueueJoinInput \<Rightarrow> user_id list \<Rightarrow> user_id list \<Rightarrow> QueueCandidate" where
  "joinCandidate env userId row input blocked recent =
     (let ov = orElse (qj_preferences input) noOverrides in
      buildCandidate (en_now env) userId (u_plan row) (trueProfile userId row (en_today env))
        (effectivePreferences ov (u_preference row)) (orElse (sp_interestIds ov) (u_interests row))
        blocked recent False)"

definition enterQueue :: "Env \<Rightarrow> RtSocket \<Rightarrow> UserRow \<Rightarrow> QueueJoinInput \<Rightarrow> Realtime \<Rightarrow> Realtime" where
  "enterQueue env so row input st =
     (let userId = so_userId so;
          (blocked, st1) = blockedFor env userId st;
          (recent, r) = recentPartners (en_now env) userId (redisOf st1);
          candidate = joinCandidate env userId row input blocked recent;
          st2 = onRt (\<lambda>_. setState (en_now env) userId PresenceState_MATCHING
                            (join (en_now env) candidate r)) st1;
          st3 = emit (ToSocket (so_id so)) (AckFrame AckQueued)
                  (emit (ToSocket (so_id so)) (QueueJoined (en_now env)) st2)
      in snd (attemptMatch env userId st3))"

definition onQueueJoin :: "Env \<Rightarrow> RtSocket \<Rightarrow> QueueJoinInput option \<Rightarrow> Realtime \<Rightarrow> Realtime" where
  "onQueueJoin env so payload st0 =
     (let userId = so_userId so;
          (ok, st) = guardFlood env so ''queue:join'' (rl_limit (rls_queueJoin RATE_LIMITS)) 60000 st0 in
      if \<not> ok then failWith so RealtimeErrorCode_RATE_LIMITED ''Slow down a moment.'' st
      else case payload of
        None \<Rightarrow> rejectPayload so ''queue:join'' st
      | Some input \<Rightarrow>
          (case revalidateSocket userId (dbOf st) of
             Some (status, reason) \<Rightarrow>
               failWith so RealtimeErrorCode_ACCOUNT_RESTRICTED reason
                 (emit (ToSocket (so_id so)) (AccountRestricted status reason) st)
           | None \<Rightarrow>
               if currentMatch (en_now env) userId (redisOf st) \<noteq> None
               then failWith so RealtimeErrorCode_ALREADY_MATCHED ''You are already in a chat.'' st
               else if \<not> qj_hasCamera input \<and> \<not> qj_hasMicrophone input
               then failWith so RealtimeErrorCode_INVALID_PAYLOAD
                      ''A camera or microphone is required to start matching.'' st
               else if isQueued (en_now env) userId (redisOf st)
               then emit (ToSocket (so_id so)) (AckFrame AckQueued) st
               else case loadMatchCandidate userId (dbOf st) of
                 None \<Rightarrow> failWith so RealtimeErrorCode_INTERNAL ''Could not load your profile.'' st
               | Some row \<Rightarrow> enterQueue env so row input st))"

definition countryOf :: "user_id \<Rightarrow> Db \<Rightarrow> string option" where
  "countryOf userId db =
     (case loadMatchCandidate userId db of None \<Rightarrow> None | Some row \<Rightarrow> Option.bind (u_profile row) pr_country)"

definition onQueueLeave :: "Env \<Rightarrow> RtSocket \<Rightarrow> Realtime \<Rightarrow> Realtime" where
  "onQueueLeave env so st =
     (let userId = so_userId so;
          st1 = onRt (\<lambda>r. setState (en_now env) userId PresenceState_ONLINE
                            (leave userId (countryOf userId (dbOf st)) r)) st
      in emit (ToSocket (so_id so)) (AckFrame AckLeft) (emit (ToSocket (so_id so)) QueueLeft st1))"

section \<open>The life of a match\<close>

definition onMatchSkip :: "Env \<Rightarrow> RtSocket \<Rightarrow> (match_id \<times> bool) option \<Rightarrow> Realtime \<Rightarrow> Realtime" where
  "onMatchSkip env so payload st =
     (case payload of
        None \<Rightarrow> rejectPayload so ''match:skip'' st
      | Some (matchId, requeue) \<Rightarrow>
          let (cooldown, r) = checkSkipCooldown (en_now env) (so_userId so)
                (minSecondsBetweenSkips (en_settings env)) (redisOf st);
              st1 = onRt (\<lambda>_. r) st in
          if cooldown > 0 then
            emit (ToSocket (so_id so)) (RtError RealtimeErrorCode_SKIP_COOLDOWN
              ''One moment before skipping again.'' None (Some (cooldown * 1000))) st1
          else case resolvePeer (en_now env) matchId (so_userId so) (redisOf st1) of
            None \<Rightarrow> failWith so RealtimeErrorCode_NOT_IN_MATCH ''That conversation has ended.'' st1
          | Some peer \<Rightarrow>
              let st2 = snd (teardownMatch env matchId (Some (so_userId so)) MatchEndReason_SKIPPED st1);
                  st3 = emit (ToSocket (so_id so)) (AckFrame AckSkipped)
                          (emit (ToSocket (so_id so)) (MatchEnded matchId MatchEndReason_SKIPPED requeue) st2)
              in if requeue then emit (ToSocket (so_id so)) (QueueJoined (en_now env)) st3 else st3)"

definition onMatchEnd :: "Env \<Rightarrow> RtSocket \<Rightarrow> match_id option \<Rightarrow> Realtime \<Rightarrow> Realtime" where
  "onMatchEnd env so payload st =
     (case payload of
        None \<Rightarrow> rejectPayload so ''match:end'' st
      | Some matchId \<Rightarrow>
          (case resolvePeer (en_now env) matchId (so_userId so) (redisOf st) of
             None \<Rightarrow> failWith so RealtimeErrorCode_NOT_IN_MATCH ''That conversation has ended.'' st
           | Some peer \<Rightarrow>
               let st1 = snd (teardownMatch env matchId (Some (so_userId so)) MatchEndReason_ENDED st);
                   st2 = onRt (setState (en_now env) (so_userId so) PresenceState_ONLINE) st1
               in emit (ToSocket (so_id so)) (AckFrame AckEnded)
                    (emit (ToSocket (so_id so)) (MatchEnded matchId MatchEndReason_ENDED False) st2)))"

definition onMatchConnected :: "Env \<Rightarrow> RtSocket \<Rightarrow> match_id option \<Rightarrow> Realtime \<Rightarrow> Realtime" where
  "onMatchConnected env so payload st =
     (case payload of
        None \<Rightarrow> rejectPayload so ''match:connected'' st
      | Some matchId \<Rightarrow>
          if resolvePeer (en_now env) matchId (so_userId so) (redisOf st) = None then st
          else onRt (setState (en_now env) (so_userId so) PresenceState_CONNECTED) st)"

section \<open>Relay and chat\<close>

definition onSignal :: "Env \<Rightarrow> RtSocket \<Rightarrow> string \<Rightarrow> SignalFrame option \<Rightarrow> Realtime \<Rightarrow> Realtime" where
  "onSignal env so event payload st0 =
     (let (ok, st) = guardFlood env so event (rl_limit (rls_socketEvent RATE_LIMITS)) 60000 st0 in
      if \<not> ok then failWith so RealtimeErrorCode_RATE_LIMITED ''Too many signaling messages.'' st
      else case payload of
        None \<Rightarrow> rejectPayload so event st
      | Some f \<Rightarrow>
          (case resolvePeer (en_now env) (frameMatch f) (so_userId so) (redisOf st) of
             None \<Rightarrow> failWith so RealtimeErrorCode_NOT_IN_MATCH ''That conversation has ended.'' st
           | Some peerId \<Rightarrow> emit (ToRoom peerId) (Signal f) st))"

record ChatInput =
  ci_matchId :: match_id
  ci_body :: string
  ci_clientId :: string

definition onChatMessage :: "Env \<Rightarrow> RtSocket \<Rightarrow> ChatInput option \<Rightarrow> Realtime \<Rightarrow> Realtime" where
  "onChatMessage env so payload st0 =
     (let (ok, st) = guardFlood env so ''chat:message'' (rl_limit (rls_chatMessage RATE_LIMITS)) 15000 st0 in
      if \<not> ok then failWith so RealtimeErrorCode_RATE_LIMITED ''You are sending messages too fast.'' st
      else case payload of
        None \<Rightarrow> rejectPayload so ''chat:message'' st
      | Some input \<Rightarrow>
          (case resolvePeer (en_now env) (ci_matchId input) (so_userId so) (redisOf st) of
             None \<Rightarrow> failWith so RealtimeErrorCode_NOT_IN_MATCH ''That conversation has ended.'' st
           | Some peerId \<Rightarrow>
               let message = \<lparr>cm_id = en_freshId env, cm_matchId = ci_matchId input,
                              cm_senderId = so_userId so, cm_body = ci_body input, cm_sentAt = en_now env\<rparr>
               in emit (ToSocket (so_id so)) (AckFrame (AckChat (cm_id message) (cm_sentAt message)))
                    (emit (ToSocket (so_id so)) (Chat message (Some (ci_clientId input)))
                      (emit (ToRoom peerId) (Chat message None) st))))"

section \<open>Safety\<close>

record BlockInput =
  bi_userId :: user_id
  bi_matchId :: "match_id option"

record ReportInput =
  ri_matchId :: "match_id option"
  ri_reportedUserId :: user_id
  ri_category :: ReportCategory
  ri_details :: "string option"
  ri_alsoBlock :: bool

text \<open>The teardown both handlers do for the match the client names.\<close>

definition leaveNamedMatch ::
    "Env \<Rightarrow> RtSocket \<Rightarrow> match_id option \<Rightarrow> MatchEndReason \<Rightarrow> Realtime \<Rightarrow> Realtime" where
  "leaveNamedMatch env so matchId reason st =
     (case matchId of
        None \<Rightarrow> st
      | Some m \<Rightarrow>
          emit (ToSocket (so_id so)) (MatchEnded m reason False)
            (snd (teardownMatch env m (Some (so_userId so)) reason st)))"

text \<open>A row that would refer to a missing user is refused by the foreign key and ends the handler.\<close>

definition onUserBlock :: "Env \<Rightarrow> RtSocket \<Rightarrow> BlockInput option \<Rightarrow> Realtime \<Rightarrow> Realtime" where
  "onUserBlock env so payload st =
     (case payload of
        None \<Rightarrow> rejectPayload so ''user:block'' st
      | Some input \<Rightarrow>
          if bi_userId input = so_userId so
          then failWith so RealtimeErrorCode_INVALID_PAYLOAD ''You cannot block yourself.'' st
          else if db_users (dbOf st) (so_userId so) = None \<or> db_users (dbOf st) (bi_userId input) = None
          then failWith so RealtimeErrorCode_INTERNAL ''Could not block that user.'' st
          else let st1 = onWorld (\<lambda>w. w\<lparr>w_db := upsertBlock (so_userId so) (bi_userId input) (w_db w)\<rparr>) st;
                   st2 = onRt (\<lambda>r. invalidateBlocks (bi_userId input) (invalidateBlocks (so_userId so) r)) st1;
                   st3 = leaveNamedMatch env so (bi_matchId input) MatchEndReason_BLOCKED st2
               in emit (ToSocket (so_id so)) (AckFrame AckBlocked) st3)"

definition createReport :: "Env \<Rightarrow> user_id \<Rightarrow> ReportInput \<Rightarrow> Db \<Rightarrow> Db" where
  "createReport env reporterId input db =
     db\<lparr>db_reports := db_reports db @
       [\<lparr>r_id = en_freshId env, r_reporterId = Some reporterId,
         r_reportedUserId = ri_reportedUserId input, r_matchId = ri_matchId input,
         r_category = ri_category input, r_details = ri_details input,
         r_status = ReportStatus_PENDING, r_reviewedById = None, r_reviewedAt = None,
         r_moderatorNotes = None, r_createdAt = en_now env\<rparr>]\<rparr>"

definition reportRefused :: "RtSocket \<Rightarrow> ReportInput \<Rightarrow> Db \<Rightarrow> bool" where
  "reportRefused so input db =
     (db_users db (so_userId so) = None \<or> db_users db (ri_reportedUserId input) = None \<or>
      (case ri_matchId input of None \<Rightarrow> False | Some m \<Rightarrow> db_matches db m = None))"

definition onUserReport :: "Env \<Rightarrow> RtSocket \<Rightarrow> ReportInput option \<Rightarrow> Realtime \<Rightarrow> Realtime" where
  "onUserReport env so payload st0 =
     (let (ok, st) = guardFlood env so ''user:report'' (rl_limit (rls_report RATE_LIMITS)) 3600000 st0 in
      if \<not> ok then failWith so RealtimeErrorCode_RATE_LIMITED ''Too many reports.'' st
      else case payload of
        None \<Rightarrow> rejectPayload so ''user:report'' st
      | Some input \<Rightarrow>
          if ri_reportedUserId input = so_userId so
          then failWith so RealtimeErrorCode_INVALID_PAYLOAD ''You cannot report yourself.'' st
          else if reportRefused so input (dbOf st)
          then failWith so RealtimeErrorCode_INTERNAL ''Could not file that report.'' st
          else let st1 = onWorld (\<lambda>w. w\<lparr>w_db := createReport env (so_userId so) input (w_db w)\<rparr>) st;
                   st2 = (if ri_alsoBlock input
                          then onRt (\<lambda>r. invalidateBlocks (ri_reportedUserId input)
                                           (invalidateBlocks (so_userId so) r))
                                 (onWorld (\<lambda>w. w\<lparr>w_db := upsertBlock (so_userId so)
                                    (ri_reportedUserId input) (w_db w)\<rparr>) st1)
                          else st1);
                   st3 = leaveNamedMatch env so (ri_matchId input) MatchEndReason_REPORTED st2
               in emit (ToSocket (so_id so)) (AckFrame (AckReport (en_freshId env))) st3)"

section \<open>Tips\<close>

record TipSendInput =
  ts_matchId :: match_id
  ts_tokens :: int
  ts_message :: "string option"
  ts_offeredSeconds :: "int option"

text \<open>\<^verbatim>\<open>senderRow?.profile?.displayName?.trim() || socket.data.username\<close>.\<close>

definition senderName :: "RtSocket \<Rightarrow> Db \<Rightarrow> string" where
  "senderName so db =
     (let name = (case loadMatchCandidate (so_userId so) db of
                    None \<Rightarrow> [] | Some row \<Rightarrow> orElse (map_option trimString
                      (Option.bind (u_profile row) pr_displayName)) [])
      in if name = [] then so_username so else name)"

text \<open>The message is chosen by what the thrown error says; a balance that cannot be read back throws too,
after the frames before it.\<close>

definition tipFailure :: "RtSocket \<Rightarrow> TokenFailure \<Rightarrow> Realtime \<Rightarrow> Realtime" where
  "tipFailure so e st =
     failWith so RealtimeErrorCode_INVALID_PAYLOAD
       (if e = TokenError INSUFFICIENT_FUNDS then ''You do not have enough tokens.''
        else ''Could not send that tip.'') st"

definition onTipSend :: "Env \<Rightarrow> RtSocket \<Rightarrow> TipSendInput option \<Rightarrow> Realtime \<Rightarrow> Realtime" where
  "onTipSend env so payload st0 =
     (let (ok, st) = guardFlood env so ''tip:send'' 30 60000 st0 in
      if \<not> ok then failWith so RealtimeErrorCode_RATE_LIMITED ''Slow down a moment.'' st
      else case payload of
        None \<Rightarrow> rejectPayload so ''tip:send'' st
      | Some input \<Rightarrow>
          (case resolvePeer (en_now env) (ts_matchId input) (so_userId so) (redisOf st) of
             None \<Rightarrow> failWith so RealtimeErrorCode_NOT_IN_MATCH ''That conversation has ended.'' st
           | Some peerId \<Rightarrow>
               (case sendTip (en_freshId env)
                       \<lparr>ti_fromUserId = so_userId so, ti_toUserId = peerId,
                        ti_tokens = of_int (ts_tokens input), ti_matchId = Some (ts_matchId input),
                        ti_message = ts_message input, ti_offeredSeconds = ts_offeredSeconds input\<rparr>
                       (rt_tokens st) of
                  Inl e \<Rightarrow> tipFailure so e st
                | Inr ((tipId, senderBalance), td) \<Rightarrow>
                    let base = \<lparr>tr_tipId = tipId, tr_matchId = ts_matchId input,
                          tr_fromUserId = so_userId so, tr_fromName = senderName so (dbOf st),
                          tr_tokens = ts_tokens input, tr_message = ts_message input,
                          tr_offeredSeconds = ts_offeredSeconds input, tr_isOwn = False,
                          tr_sentAt = en_now env\<rparr>;
                        st1 = emit (ToSocket (so_id so)) (TokensBalance senderBalance)
                                (emit (ToSocket (so_id so)) (TipReceived (base\<lparr>tr_isOwn := True\<rparr>))
                                  (emit (ToRoom peerId) (TipReceived base) (st\<lparr>rt_tokens := td\<rparr>)))
                    in (case getBalance peerId td of
                          Inl e \<Rightarrow> tipFailure so e st1
                        | Inr (a, td1) \<Rightarrow>
                            emit (ToSocket (so_id so)) (AckFrame (AckTip tipId senderBalance))
                              (emit (ToRoom peerId) (TokensBalance (ta_balance a))
                                (st1\<lparr>rt_tokens := td1\<rparr>))))))"

definition onTipRespond :: "Env \<Rightarrow> RtSocket \<Rightarrow> (row_id \<times> bool) option \<Rightarrow> Realtime \<Rightarrow> Realtime" where
  "onTipRespond env so payload st0 =
     (let (ok, st) = guardFlood env so ''tip:respond'' 60 60000 st0 in
      if \<not> ok then failWith so RealtimeErrorCode_RATE_LIMITED ''Slow down a moment.'' st
      else case payload of
        None \<Rightarrow> rejectPayload so ''tip:respond'' st
      | Some (tipId, accepted) \<Rightarrow>
          (case respondToOffer (en_now env) tipId (so_userId so) accepted (rt_tokens st) of
             Inl e \<Rightarrow> failWith so RealtimeErrorCode_INVALID_PAYLOAD ''Could not record that response.'' st
           | Inr ((fromUserId, seconds), td) \<Rightarrow>
               let resolved = TipOfferResolved tipId accepted (if accepted then Some seconds else None);
                   st1 = emit (ToSocket (so_id so)) resolved (st\<lparr>rt_tokens := td\<rparr>);
                   st2 = (if fromUserId = [] then st1 else emit (ToRoom fromUserId) resolved st1)
               in emit (ToSocket (so_id so)) (AckFrame AckOk) st2))"

section \<open>Telemetry and disconnection\<close>

definition onStatsReport :: "RtSocket \<Rightarrow> (match_id \<times> ConnectionQuality) option \<Rightarrow> Realtime \<Rightarrow> Realtime" where
  "onStatsReport so payload st =
     (case payload of
        None \<Rightarrow> rejectPayload so ''stats:report'' st
      | Some (matchId, quality) \<Rightarrow>
          onWorld (\<lambda>w. w\<lparr>w_db := (w_db w)\<lparr>db_participants :=
            updateWhere (\<lambda>p. p_matchId p = matchId \<and> p_userId p = so_userId so)
              (\<lambda>p. p\<lparr>p_connectionQuality := Some quality\<rparr>) (db_participants (w_db w))\<rparr>\<rparr>) st)"

definition onDisconnect :: "Env \<Rightarrow> RtSocket \<Rightarrow> Realtime \<Rightarrow> Realtime" where
  "onDisconnect env so st0 =
     (let userId = so_userId so;
          st = st0\<lparr>rt_sockets := filter (\<lambda>s. so_id s \<noteq> so_id so) (rt_sockets st0)\<rparr>;
          (wasLast, r) = disconnect (en_now env) userId (so_id so) (redisOf st);
          st1 = onRt (\<lambda>_. r) st in
      if \<not> wasLast then st1
      else let st2 = (case currentMatch (en_now env) userId (redisOf st1) of
                        None \<Rightarrow> st1
                      | Some m \<Rightarrow> snd (teardownMatch env m (Some userId) MatchEndReason_DISCONNECTED st1))
           in onRt (leave userId (countryOf userId (dbOf st2))) st2)"

section \<open>Tick and shutdown\<close>

definition tickOne :: "Env \<Rightarrow> nat \<Rightarrow> RtSocket \<Rightarrow> Realtime \<Rightarrow> Realtime" where
  "tickOne env searchingNow so st =
     (let userId = so_userId so in
      if \<not> isQueued (en_now env) userId (redisOf st) then st
      else if currentMatch (en_now env) userId (redisOf st) \<noteq> None then st
      else let (matched, st1) = attemptMatch env userId st in
        if matched then st1
        else case getEntry (en_now env) userId (redisOf st1) of
          (None, r) \<Rightarrow> onRt (\<lambda>_. r) st1
        | (Some entry, r) \<Rightarrow>
            emit (ToRoom userId) (QueueWaiting
              \<lparr>qs_position = position userId (qc_country entry) r,
               qs_waitingSeconds = (en_now env - qc_queuedAt entry) div 1000,
               qs_relaxationStage = relaxationStageFor entry (en_now env) (relaxationStages (en_settings env)),
               qs_searchingNow = searchingNow\<rparr>) (onRt (\<lambda>_. r) st1))"

text \<open>Each attempt draws its own ids: \<open>envs\<close> gives the environment for each socket of the sweep.\<close>

fun tickAll :: "(RtSocket \<Rightarrow> Env) \<Rightarrow> nat \<Rightarrow> RtSocket list \<Rightarrow> Realtime \<Rightarrow> Realtime" where
  "tickAll envs n [] st = st"
| "tickAll envs n (so # sos) st = tickAll envs n sos (tickOne (envs so) n so st)"

definition tick :: "(RtSocket \<Rightarrow> Env) \<Rightarrow> Realtime \<Rightarrow> Realtime" where
  "tick envs st = tickAll envs (queueSize GLOBAL_SHARD (redisOf st)) (rt_sockets st) st"

definition drainSocket :: "Env \<Rightarrow> RtSocket \<Rightarrow> Realtime \<Rightarrow> Realtime" where
  "drainSocket env so st =
     (let st1 = (case currentMatch (en_now env) (so_userId so) (redisOf st) of
                   None \<Rightarrow> st
                 | Some m \<Rightarrow> snd (teardownMatch env m None MatchEndReason_SERVER_SHUTDOWN st))
      in onRt (leave (so_userId so) None) st1)"

definition shutdown :: "Env \<Rightarrow> Realtime \<Rightarrow> Realtime" where
  "shutdown env st =
     (let st1 = emit ToAll (ServerDraining 2000) st
      in onRt (clearNode (en_now env) (en_nodeId env)) (fold (drainSocket env) (rt_sockets st1) st1))"

end
