(* ===== verification/Conversation.thy ===== *)
theory Conversation
  imports Session_Machine Realtime_Server
begin

text \<open>The browser's side of a call, \<^verbatim>\<open>apps/web/src/hooks/use-conversation.ts\<close>: one function per user
action, socket event, timer and continuation of the hook, over the state its refs and states hold. What
the browser's media and WebRTC objects answer is an argument; the steps after an \<^verbatim>\<open>await\<close> are functions of
their own, so that anything can happen in between. Frames from the server are those of
\<open>Realtime_Server\<close>.\<close>

section \<open>State\<close>

datatype ClientEvent =
    CE_queue_join bool bool | CE_queue_leave
  | CE_skip match_id bool | CE_end match_id | CE_connected match_id | CE_signal SignalFrame
  | CE_chat match_id string string | CE_tip match_id int "string option" "int option"
  | CE_tip_respond row_id bool
  | CE_report "match_id option" user_id ReportCategory "string option"
  | CE_block user_id "match_id option"
  | CE_stats match_id ConnectionQuality | CE_heartbeat

datatype ConversationErrorKey =
  ErrCameraSwitch | ErrDisconnected | ErrBanned | ErrSuspended | ErrGeneric

record LocalStream =
  ls_video :: "bool list"
  ls_audio :: "bool list"

text \<open>The peer connection: the match it was created for and whether a remote description is set.\<close>

record Peer =
  pe_matchId :: match_id
  pe_remoteSet :: bool
  pe_applied :: "IceCandidate list"

record Client =
  cl_state :: SessionState
  cl_partner :: "PublicProfile option"
  cl_matchId :: "match_id option"
  cl_sharedInterests :: "string list"
  cl_messages :: "ChatMessage list"
  cl_quality :: ConnectionQuality
  cl_error :: "(ConversationErrorKey \<times> string option \<times> bool) option"
  cl_mediaError :: bool
  cl_cameraEnabled :: bool
  cl_microphoneEnabled :: bool
  cl_waitingSeconds :: int
  cl_queueConfirmed :: bool
  cl_searchingNow :: "nat option"
  cl_connected :: bool
  cl_tips :: "TipReceivedPayload list"
  cl_pendingOffer :: "TipReceivedPayload option"
  cl_tokenBalance :: "int option"
  cl_connectAttempts :: nat
  cl_peer :: "Peer option"
  cl_stream :: "LocalStream option"
  cl_pendingCandidates :: "IceCandidate list"
  cl_negotiationTimer :: bool
  cl_reconnectTimer :: bool
  cl_queueStartedAt :: instant
  cl_sent :: "ClientEvent list"

definition initialClient :: Client where
  "initialClient =
     \<lparr>cl_state = SessionState_IDLE, cl_partner = None, cl_matchId = None, cl_sharedInterests = [],
      cl_messages = [], cl_quality = ConnectionQuality_UNKNOWN, cl_error = None, cl_mediaError = False,
      cl_cameraEnabled = True, cl_microphoneEnabled = True, cl_waitingSeconds = 0,
      cl_queueConfirmed = False, cl_searchingNow = None, cl_connected = False, cl_tips = [],
      cl_pendingOffer = None, cl_tokenBalance = None, cl_connectAttempts = 0, cl_peer = None,
      cl_stream = None, cl_pendingCandidates = [], cl_negotiationTimer = False,
      cl_reconnectTimer = False, cl_queueStartedAt = 0, cl_sent = []\<rparr>"

definition send :: "ClientEvent \<Rightarrow> Client \<Rightarrow> Client" where
  "send e c = c\<lparr>cl_sent := cl_sent c @ [e]\<rparr>"

definition transitionTo :: "SessionState \<Rightarrow> Client \<Rightarrow> bool \<times> Client" where
  "transitionTo next c =
     (if \<not> canTransition (cl_state c) next then (False, c) else (True, c\<lparr>cl_state := next\<rparr>))"

section \<open>Teardown\<close>

definition clearTimers :: "Client \<Rightarrow> Client" where
  "clearTimers c = c\<lparr>cl_negotiationTimer := False, cl_reconnectTimer := False\<rparr>"

definition closePeer :: "Client \<Rightarrow> Client" where
  "closePeer c =
     (clearTimers c)
       \<lparr>cl_peer := None, cl_pendingCandidates := [], cl_matchId := None, cl_partner := None,
        cl_sharedInterests := [], cl_messages := [], cl_quality := ConnectionQuality_UNKNOWN,
        cl_tips := [], cl_pendingOffer := None\<rparr>"

definition endMatchLocally :: "Client \<Rightarrow> Client" where
  "endMatchLocally c = snd (transitionTo SessionState_PARTNER_LEFT (closePeer c))"

section \<open>Actions\<close>

text \<open>The stream the browser granted, with whether there is more than one camera, or a failure.\<close>

definition startMedia :: "LocalStream option \<Rightarrow> Client \<Rightarrow> bool \<times> Client" where
  "startMedia granted c =
     (let c1 = snd (transitionTo SessionState_REQUESTING_PERMISSIONS (c\<lparr>cl_mediaError := False\<rparr>)) in
      case granted of
        Some stream \<Rightarrow>
          (True, snd (transitionTo SessionState_READY
             (c1\<lparr>cl_stream := Some stream, cl_cameraEnabled := list_ex (\<lambda>b. b) (ls_video stream),
                 cl_microphoneEnabled := list_ex (\<lambda>b. b) (ls_audio stream)\<rparr>)))
      | None \<Rightarrow> (False, snd (transitionTo SessionState_ERROR (c1\<lparr>cl_mediaError := True\<rparr>))))"

definition joinQueue :: "instant \<Rightarrow> Client \<Rightarrow> Client" where
  "joinQueue now c =
     (case cl_stream c of
        None \<Rightarrow> c
      | Some stream \<Rightarrow>
          let (ok, c1) = transitionTo SessionState_QUEUED
                (c\<lparr>cl_queueStartedAt := now, cl_waitingSeconds := 0, cl_error := None\<rparr>)
          in if \<not> ok then c1 else send (CE_queue_join (ls_video stream \<noteq> []) (ls_audio stream \<noteq> [])) c1)"

definition leaveQueue :: "Client \<Rightarrow> Client" where
  "leaveQueue c =
     snd (transitionTo SessionState_READY
       ((send CE_queue_leave c)\<lparr>cl_queueConfirmed := False, cl_searchingNow := None\<rparr>))"

definition skip :: "instant \<Rightarrow> bool \<Rightarrow> Client \<Rightarrow> Client" where
  "skip now requeue c =
     (case cl_matchId c of
        None \<Rightarrow> c
      | Some m \<Rightarrow>
          let c1 = closePeer (send (CE_skip m requeue) (snd (transitionTo SessionState_SKIPPING c)))
          in if requeue
             then snd (transitionTo SessionState_QUEUED (c1\<lparr>cl_queueStartedAt := now, cl_waitingSeconds := 0\<rparr>))
             else snd (transitionTo SessionState_READY c1))"

definition endConversation :: "Client \<Rightarrow> Client" where
  "endConversation c =
     (let c1 = (case cl_matchId c of None \<Rightarrow> c | Some m \<Rightarrow> send (CE_end m) c)
      in snd (transitionTo SessionState_READY (closePeer c1)))"

definition toggleTracks :: "bool list \<Rightarrow> bool" where
  "toggleTracks tracks = (\<not> list_ex (\<lambda>b. b) tracks)"

definition toggleCamera :: "Client \<Rightarrow> Client" where
  "toggleCamera c =
     (let tracks = (case cl_stream c of None \<Rightarrow> [] | Some s \<Rightarrow> ls_video s); next = toggleTracks tracks
      in c\<lparr>cl_stream := map_option (\<lambda>s. s\<lparr>ls_video := map (\<lambda>_. next) (ls_video s)\<rparr>) (cl_stream c),
           cl_cameraEnabled := next\<rparr>)"

definition toggleMicrophone :: "Client \<Rightarrow> Client" where
  "toggleMicrophone c =
     (let tracks = (case cl_stream c of None \<Rightarrow> [] | Some s \<Rightarrow> ls_audio s); next = toggleTracks tracks
      in c\<lparr>cl_stream := map_option (\<lambda>s. s\<lparr>ls_audio := map (\<lambda>_. next) (ls_audio s)\<rparr>) (cl_stream c),
           cl_microphoneEnabled := next\<rparr>)"

definition clientSendTip :: "int \<Rightarrow> string option \<Rightarrow> int option \<Rightarrow> Client \<Rightarrow> Client" where
  "clientSendTip tokens message offeredSeconds c =
     (case cl_matchId c of
        None \<Rightarrow> c
      | Some m \<Rightarrow> send (CE_tip m tokens (if message = Some [] then None else message)
                         (if offeredSeconds = Some 0 then None else offeredSeconds)) c)"

definition dropOffer :: "row_id \<Rightarrow> Client \<Rightarrow> Client" where
  "dropOffer tipId c =
     c\<lparr>cl_pendingOffer := (case cl_pendingOffer c of
         Some t \<Rightarrow> if tr_tipId t = tipId then None else Some t | None \<Rightarrow> None)\<rparr>"

definition clientRespondToOffer :: "row_id \<Rightarrow> bool \<Rightarrow> Client \<Rightarrow> Client" where
  "clientRespondToOffer tipId accepted c = dropOffer tipId (send (CE_tip_respond tipId accepted) c)"

definition sendMessage :: "string \<Rightarrow> string \<Rightarrow> Client \<Rightarrow> Client" where
  "sendMessage freshId body c =
     (case cl_matchId c of
        None \<Rightarrow> c
      | Some m \<Rightarrow> if trimString body = [] then c else send (CE_chat m body freshId) c)"

definition reportPartner :: "ReportCategory \<Rightarrow> string option \<Rightarrow> Client \<Rightarrow> Client" where
  "reportPartner category details c =
     (case cl_partner c of
        None \<Rightarrow> c
      | Some p \<Rightarrow> snd (transitionTo SessionState_READY
                   (closePeer (send (CE_report (cl_matchId c) (pp_id p) category details) c))))"

definition blockPartner :: "Client \<Rightarrow> Client" where
  "blockPartner c =
     (case cl_partner c of
        None \<Rightarrow> c
      | Some p \<Rightarrow> snd (transitionTo SessionState_READY
                   (closePeer (send (CE_block (pp_id p) (cl_matchId c)) c))))"

section \<open>Matches and the peer connection\<close>

definition createPeer :: "match_id \<Rightarrow> Peer" where
  "createPeer m = \<lparr>pe_matchId = m, pe_remoteSet = False, pe_applied = []\<rparr>"

text \<open>Up to the first \<^verbatim>\<open>await\<close>. The answer is whether this side now prepares an offer.\<close>

definition handleMatchFound :: "MatchFoundPayload \<Rightarrow> Client \<Rightarrow> bool \<times> Client" where
  "handleMatchFound p c =
     (let (ok, c1) = transitionTo SessionState_MATCH_FOUND c in
      if \<not> ok then (False, c)
      else (mf_isInitiator p,
        (snd (transitionTo SessionState_SIGNALING
          (c1\<lparr>cl_matchId := Some (mf_matchId p), cl_partner := Some (mf_partner p),
              cl_sharedInterests := mf_sharedInterests p, cl_messages := [],
              cl_peer := Some (createPeer (mf_matchId p))\<rparr>)))\<lparr>cl_negotiationTimer := True\<rparr>))"

text \<open>The offer is ready, or could not be made: \<open>m\<close> is the match of the payload the closure holds.\<close>

definition offerReady :: "instant \<Rightarrow> match_id \<Rightarrow> string option \<Rightarrow> Client \<Rightarrow> Client" where
  "offerReady now m sdp c =
     (case sdp of
        Some s \<Rightarrow> snd (transitionTo SessionState_CONNECTING (send (CE_signal (Offer m s)) c))
      | None \<Rightarrow> skip now True c)"

definition negotiationExpired :: "instant \<Rightarrow> Client \<Rightarrow> Client" where
  "negotiationExpired now c = (if cl_state c \<noteq> SessionState_CONNECTED then skip now True c else c)"

definition iceGathered :: "match_id \<Rightarrow> IceCandidate option \<Rightarrow> Client \<Rightarrow> Client" where
  "iceGathered activeMatchId candidate c =
     (case candidate of None \<Rightarrow> c | Some k \<Rightarrow> send (CE_signal (Ice activeMatchId k)) c)"

datatype PeerState = PeerConnected | PeerDisconnected | PeerFailed | PeerOther

definition connectionStateChanged :: "match_id \<Rightarrow> PeerState \<Rightarrow> Client \<Rightarrow> Client" where
  "connectionStateChanged activeMatchId ps c =
     (case ps of
        PeerConnected \<Rightarrow>
          send (CE_connected activeMatchId) (snd (transitionTo SessionState_CONNECTED (clearTimers c)))
      | PeerDisconnected \<Rightarrow>
          let (ok, c1) = transitionTo SessionState_RECONNECTING c
          in if ok then c1\<lparr>cl_reconnectTimer := True\<rparr> else c1
      | PeerFailed \<Rightarrow> endMatchLocally c
      | PeerOther \<Rightarrow> c)"

text \<open>The reconnect timer: \<open>alive\<close> is whether the current peer connection is connected again.\<close>

definition reconnectExpired :: "bool \<Rightarrow> Client \<Rightarrow> Client" where
  "reconnectExpired alive c = (if alive then c else endMatchLocally c)"

definition flushPendingCandidates :: "Client \<Rightarrow> Client" where
  "flushPendingCandidates c =
     c\<lparr>cl_peer := map_option (\<lambda>p. p\<lparr>pe_applied := pe_applied p @ cl_pendingCandidates c\<rparr>) (cl_peer c),
       cl_pendingCandidates := []\<rparr>"

definition setRemoteDescription :: "Client \<Rightarrow> Client" where
  "setRemoteDescription c = c\<lparr>cl_peer := map_option (\<lambda>p. p\<lparr>pe_remoteSet := True\<rparr>) (cl_peer c)\<rparr>"

definition concernsCurrent :: "match_id \<Rightarrow> Client \<Rightarrow> bool" where
  "concernsCurrent m c = (cl_peer c \<noteq> None \<and> cl_matchId c = Some m)"

text \<open>A remote offer was applied and answered (\<open>Some\<close> the answer), or applying it failed.\<close>

definition offerReceived :: "instant \<Rightarrow> match_id \<Rightarrow> string option \<Rightarrow> Client \<Rightarrow> Client" where
  "offerReceived now m answer c =
     (if \<not> concernsCurrent m c then c
      else case answer of
        Some sdp \<Rightarrow> snd (transitionTo SessionState_CONNECTING
                      (send (CE_signal (Answer m sdp)) (flushPendingCandidates (setRemoteDescription c))))
      | None \<Rightarrow> skip now True c)"

definition answerReceived :: "instant \<Rightarrow> match_id \<Rightarrow> bool \<Rightarrow> Client \<Rightarrow> Client" where
  "answerReceived now m applied c =
     (if \<not> concernsCurrent m c then c
      else if applied then flushPendingCandidates (setRemoteDescription c)
      else skip now True c)"

text \<open>The rejection of a description that was being applied when the call was left: it arrives in the
closure of the old event, after the check.\<close>

definition lateNegotiationFailure :: "instant \<Rightarrow> Client \<Rightarrow> Client" where
  "lateNegotiationFailure now c = skip now True c"

definition iceReceived :: "match_id \<Rightarrow> IceCandidate \<Rightarrow> Client \<Rightarrow> Client" where
  "iceReceived m k c =
     (if \<not> concernsCurrent m c then c
      else if cd_candidate k = [] then c
      else case cl_peer c of
        None \<Rightarrow> c
      | Some p \<Rightarrow>
          if \<not> pe_remoteSet p then c\<lparr>cl_pendingCandidates := cl_pendingCandidates c @ [k]\<rparr>
          else c\<lparr>cl_peer := Some (p\<lparr>pe_applied := pe_applied p @ [k]\<rparr>)\<rparr>)"

section \<open>Socket events\<close>

definition socketConnectError :: "Client \<Rightarrow> Client" where
  "socketConnectError c =
     (let c1 = c\<lparr>cl_connected := False, cl_queueConfirmed := False,
                 cl_connectAttempts := cl_connectAttempts c + 1\<rparr>
      in if 5 \<le> cl_connectAttempts c1
         then snd (transitionTo SessionState_ERROR (c1\<lparr>cl_error := Some (ErrDisconnected, None, True)\<rparr>))
         else c1)"

definition socketConnect :: "Client \<Rightarrow> Client" where
  "socketConnect c = c\<lparr>cl_connectAttempts := 0, cl_connected := True, cl_error := None\<rparr>"

definition socketDisconnect :: "Client \<Rightarrow> Client" where
  "socketDisconnect c = c\<lparr>cl_connected := False, cl_queueConfirmed := False\<rparr>"

text \<open>A frame of the server. What applying a description would answer is an argument.\<close>

definition onFrame :: "instant \<Rightarrow> string option \<Rightarrow> ServerEvent \<Rightarrow> Client \<Rightarrow> Client" where
  "onFrame now negotiated e c =
     (case e of
        QueueJoined t \<Rightarrow> c\<lparr>cl_queueConfirmed := True\<rparr>
      | QueueWaiting q \<Rightarrow> c\<lparr>cl_queueConfirmed := True, cl_searchingNow := Some (qs_searchingNow q)\<rparr>
      | QueueLeft \<Rightarrow> c\<lparr>cl_queueConfirmed := False, cl_searchingNow := None\<rparr>
      | MatchFound p \<Rightarrow> snd (handleMatchFound p c)
      | Signal (Offer m sdp) \<Rightarrow> offerReceived now m negotiated c
      | Signal (Answer m sdp) \<Rightarrow> answerReceived now m (negotiated \<noteq> None) c
      | Signal (Ice m k) \<Rightarrow> iceReceived m k c
      | PartnerLeft m reason \<Rightarrow> snd (transitionTo SessionState_PARTNER_LEFT (closePeer c))
      | MatchEnded m reason requeued \<Rightarrow>
          (let c1 = closePeer c
           in if requeued
              then snd (transitionTo SessionState_QUEUED (c1\<lparr>cl_queueStartedAt := now, cl_waitingSeconds := 0\<rparr>))
              else snd (transitionTo SessionState_READY c1))
      | Chat message clientId \<Rightarrow> c\<lparr>cl_messages := cl_messages c @ [message]\<rparr>
      | TipReceived t \<Rightarrow>
          (let c1 = c\<lparr>cl_tips := cl_tips c @ [t]\<rparr>
           in if \<not> tr_isOwn t \<and> tr_offeredSeconds t \<noteq> None then c1\<lparr>cl_pendingOffer := Some t\<rparr> else c1)
      | TipOfferResolved tipId accepted secs \<Rightarrow> dropOffer tipId c
      | TokensBalance b \<Rightarrow> c\<lparr>cl_tokenBalance := Some b\<rparr>
      | AccountRestricted status reason \<Rightarrow>
          snd (transitionTo SessionState_ERROR ((closePeer c)\<lparr>cl_error :=
            Some (if status = AccountStatus_BANNED then ErrBanned else ErrSuspended, Some reason, False)\<rparr>))
      | RtError code message ev retry \<Rightarrow>
          if code = RealtimeErrorCode_RATE_LIMITED \<or> code = RealtimeErrorCode_SKIP_COOLDOWN then c
          else c\<lparr>cl_error := Some (ErrGeneric, Some message, True)\<rparr>
      | other \<Rightarrow> c)"

section \<open>Mounting\<close>

text \<open>The socket is opened once, with the token there is then; without one, or after the page has gone, there is
none. The answer is what goes into the handshake.\<close>

definition startSocket :: "string option \<Rightarrow> bool \<Rightarrow> string option" where
  "startSocket token disposed = (case token of None \<Rightarrow> None | Some t \<Rightarrow> if t = [] \<or> disposed then None else Some t)"

text \<open>The balance asked for once; a failure leaves it unknown.\<close>

definition balanceFetched :: "int option \<Rightarrow> Client \<Rightarrow> Client" where
  "balanceFetched answer c = (case answer of None \<Rightarrow> c | Some b \<Rightarrow> c\<lparr>cl_tokenBalance := Some b\<rparr>)"

section \<open>Intervals\<close>

definition heartbeatTick :: "Client \<Rightarrow> Client" where
  "heartbeatTick c = send CE_heartbeat c"

definition queueTick :: "instant \<Rightarrow> Client \<Rightarrow> Client" where
  "queueTick now c =
     (if cl_state c \<noteq> SessionState_QUEUED then c
      else c\<lparr>cl_waitingSeconds := (now - cl_queueStartedAt c) div 1000\<rparr>)"

definition sampleQuality :: "rat option \<Rightarrow> rat option \<Rightarrow> Client \<Rightarrow> Client" where
  "sampleQuality rtt lossPct c =
     (if cl_state c \<noteq> SessionState_CONNECTED \<or> cl_peer c = None then c
      else let derived = deriveConnectionQuality rtt lossPct
           in send (CE_stats (case cl_matchId c of None \<Rightarrow> [] | Some m \<Rightarrow> m) derived)
                (c\<lparr>cl_quality := derived\<rparr>))"

definition unmount :: "Client \<Rightarrow> Client" where
  "unmount c = (closePeer c)\<lparr>cl_stream := None\<rparr>"

end
