(* ===== verification/Realtime_Safety.thy ===== *)
theory Realtime_Safety
  imports Realtime_Server
begin

text \<open>What the event handlers of the socket server guarantee, and where they do not: who receives the
frames of a conversation, what a teardown leaves behind, which checks an entry to the queue passes. The
locale \<open>peer_relay\<close> is the contract of an event that is forwarded inside a match; the signalling and
the chat handlers are its two instances.\<close>

section \<open>Frames and state\<close>

lemma emit_simps [simp]:
  "rt_outbox (emit t e st) = rt_outbox st @ [(t, e)]"
  "rt_world (emit t e st) = rt_world st"
  "rt_tokens (emit t e st) = rt_tokens st"
  "rt_buckets (emit t e st) = rt_buckets st"
  "rt_sockets (emit t e st) = rt_sockets st"
  by (simp_all add: emit_def)

lemma onWorld_simps [simp]:
  "rt_outbox (onWorld f st) = rt_outbox st"
  "rt_world (onWorld f st) = f (rt_world st)"
  "rt_tokens (onWorld f st) = rt_tokens st"
  "rt_buckets (onWorld f st) = rt_buckets st"
  "rt_sockets (onWorld f st) = rt_sockets st"
  by (simp_all add: onWorld_def)

lemma onRt_simps [simp]:
  "rt_outbox (onRt f st) = rt_outbox st"
  "w_redis (rt_world (onRt f st)) = f (redisOf st)"
  "w_db (rt_world (onRt f st)) = dbOf st"
  "rt_tokens (onRt f st) = rt_tokens st"
  "rt_buckets (onRt f st) = rt_buckets st"
  "rt_sockets (onRt f st) = rt_sockets st"
  by (simp_all add: onRt_def onRedis_def)

lemma guardFlood_simps [simp]:
  "rt_outbox (snd (guardFlood env so ev l w st)) = rt_outbox st"
  "rt_world (snd (guardFlood env so ev l w st)) = rt_world st"
  "rt_tokens (snd (guardFlood env so ev l w st)) = rt_tokens st"
  "rt_sockets (snd (guardFlood env so ev l w st)) = rt_sockets st"
  by (simp_all add: guardFlood_def prod.case_eq_if Let_def)

lemmas reply_defs = failWith_def rejectPayload_def

section \<open>Membership\<close>

lemma resolvePeer_iff:
  "resolvePeer now m u r = Some p \<longleftrightarrow>
     (\<exists>a b. getMatchParticipants now m r = Some (a, b) \<and> (a = u \<and> p = b \<or> a \<noteq> u \<and> b = u \<and> p = a))"
  by (auto simp: resolvePeer_def split: option.splits prod.splits)

lemma resolvePeer_None:
  "getMatchParticipants now m r = Some (a, b) \<Longrightarrow> resolvePeer now m u r = None \<longleftrightarrow> u \<noteq> a \<and> u \<noteq> b"
  by (auto simp: resolvePeer_def)

lemma getMatchParticipants_frame [simp]:
  "getMatchParticipants now m (s\<lparr>rd_blockCache := x\<rparr>) = getMatchParticipants now m s"
  "getMatchParticipants now m (s\<lparr>rd_skipCooldown := y\<rparr>) = getMatchParticipants now m s"
  "getMatchParticipants now m (s\<lparr>rd_presence := z\<rparr>) = getMatchParticipants now m s"
  "getMatchParticipants now m (s\<lparr>rd_userMatch := v\<rparr>) = getMatchParticipants now m s"
  by (simp_all add: getMatchParticipants_def)

lemma participants_setState [simp]:
  "getMatchParticipants now m (setState now' v st s) = getMatchParticipants now m s"
  by (simp add: setState_def)

lemma resolvePeer_gone: "getMatchParticipants now m s = None \<Longrightarrow> resolvePeer now m u s = None"
  by (simp add: resolvePeer_def)

lemma getMatchParticipants_delete [simp]:
  "getMatchParticipants now m (deleteMatch m' s) = (if m = m' then None else getMatchParticipants now m s)"
  by (simp add: getMatchParticipants_def deleteMatch_def live_delKey)

lemma currentMatch_more [simp]:
  "currentMatch now u (deleteMatch m s) = currentMatch now u s"
  "currentMatch now u (setState now' v st s) = currentMatch now u s"
  "currentMatch now u (s\<lparr>rd_skipCooldown := y\<rparr>) = currentMatch now u s"
  "currentMatch now u (invalidateBlocks v s) = currentMatch now u s"
  by (simp_all add: currentMatch_def deleteMatch_def setState_def invalidateBlocks_def)

lemma checkSkipCooldown_frame [simp]:
  "currentMatch now u (snd (checkSkipCooldown now' v k s)) = currentMatch now u s"
  "getMatchParticipants now m (snd (checkSkipCooldown now' v k s)) = getMatchParticipants now m s"
  "isQueued now u (snd (checkSkipCooldown now' v k s)) = isQueued now u s"
  "resolvePeer now m u (snd (checkSkipCooldown now' v k s)) = resolvePeer now m u s"
  by (simp_all add: checkSkipCooldown_def resolvePeer_def isQueued_def split: option.split)

section \<open>Teardown\<close>

lemma teardownMatch_member:
  assumes "getMatchParticipants (en_now env) m (redisOf st) = Some (a, b)"
    and st': "st' = snd (teardownMatch env m actor reason st)"
  shows "currentMatch (en_now env) u (redisOf st') =
      (if u \<in> {a, b} \<and> currentMatch (en_now env) u (redisOf st) = Some m then None
       else currentMatch (en_now env) u (redisOf st))"
    and "getMatchParticipants (en_now env) m (redisOf st') = None"
    and "dbOf st' = finaliseMatch (en_now env) m reason actor (dbOf st)"
    and "isQueued (en_now env) u (redisOf st') = isQueued (en_now env) u (redisOf st)"
    and "rt_tokens st' = rt_tokens st \<and> rt_buckets st' = rt_buckets st"
    and "rt_outbox st' = rt_outbox st @
      (if actor = Some a then [(ToRoom b, PartnerLeft m reason)]
       else if actor = Some b then [(ToRoom a, PartnerLeft m reason)] else [])"
  unfolding st' using assms(1)
  by (auto simp: teardownMatch_def Let_def endMatch_def releaseMatch_def currentMatch_def deleteMatch_def
      isQueued_def live_delIfEquals getMatchParticipants_def live_delKey)

lemma teardownMatch_unknown:
  "getMatchParticipants (en_now env) m (redisOf st) = None \<Longrightarrow> teardownMatch env m actor reason st = (None, st)"
  by (simp add: teardownMatch_def)

section \<open>The contract of a forwarded event\<close>

text \<open>The frames a handler adds.\<close>

definition newFrames :: "Realtime \<Rightarrow> Realtime \<Rightarrow> (Target \<times> ServerEvent) list" where
  "newFrames st st' = drop (length (rt_outbox st)) (rt_outbox st')"

lemma newFrames_append [simp]: "rt_outbox st' = rt_outbox st @ fs \<Longrightarrow> newFrames st st' = fs"
  by (simp add: newFrames_def)

text \<open>A forwarded event changes nothing but the outbox and the flood buckets, answers the sender, and sends
one thing to one other user: the event, to the peer the match registry names.\<close>

locale peer_relay =
  fixes handle :: "Env \<Rightarrow> RtSocket \<Rightarrow> 'p \<Rightarrow> Realtime \<Rightarrow> Realtime"
    and matchOf :: "'p \<Rightarrow> match_id" and forwarded :: "Env \<Rightarrow> RtSocket \<Rightarrow> 'p \<Rightarrow> ServerEvent"
  assumes frame: "rt_world (handle env so p st) = rt_world st \<and> rt_tokens (handle env so p st) = rt_tokens st"
    and sent: "(t, e) \<in> set (newFrames st (handle env so p st)) \<Longrightarrow> t \<noteq> ToSocket (so_id so) \<Longrightarrow>
      e = forwarded env so p \<and>
      (\<exists>peer. t = ToRoom peer \<and> resolvePeer (en_now env) (matchOf p) (so_userId so) (redisOf st) = Some peer)"
begin

lemma only_peer:
  assumes "getMatchParticipants (en_now env) (matchOf p) (redisOf st) = Some (a, b)"
    and "(ToRoom v, e) \<in> set (newFrames st (handle env so p st))"
  shows "e = forwarded env so p \<and> {so_userId so, v} = {a, b}"
  using sent [OF assms(2)] assms(1) by (auto simp: resolvePeer_def split: if_splits)

lemma outsider_silent:
  assumes "resolvePeer (en_now env) (matchOf p) (so_userId so) (redisOf st) = None"
  shows "(ToRoom v, e) \<notin> set (newFrames st (handle env so p st))"
  using sent [of "ToRoom v" e st env so p] assms by auto

end

definition chatMessageOf :: "Env \<Rightarrow> RtSocket \<Rightarrow> ChatInput \<Rightarrow> ChatMessage" where
  "chatMessageOf env so input =
     \<lparr>cm_id = en_freshId env, cm_matchId = ci_matchId input, cm_senderId = so_userId so,
      cm_body = ci_body input, cm_sentAt = en_now env\<rparr>"

interpretation signal: peer_relay
  "\<lambda>env so f. onSignal env so (frameEvent f) (Some f)" frameMatch "\<lambda>env so f. Signal f"
  by unfold_locales
     (auto simp: onSignal_def reply_defs Let_def newFrames_def prod.case_eq_if split: if_splits option.splits)

interpretation chat: peer_relay
  "\<lambda>env so i. onChatMessage env so (Some i)" ci_matchId "\<lambda>env so i. Chat (chatMessageOf env so i) None"
  by unfold_locales
     (auto simp: onChatMessage_def chatMessageOf_def reply_defs Let_def newFrames_def prod.case_eq_if
       split: if_splits option.splits)

section \<open>Properties\<close>

text \<open>A running match between two users, each with a socket on this node.\<close>

definition callState :: Realtime where
  "callState =
     \<lparr>rt_world = \<lparr>w_redis = emptyRedis
          \<lparr>rd_match := [''m'' \<mapsto> (\<lparr>lm_userA = ''ana'', lm_userB = ''bo'', lm_startedAt = 0\<rparr>, 3600000)],
           rd_userMatch := [''ana'' \<mapsto> (''m'', 3600000), ''bo'' \<mapsto> (''m'', 3600000)]\<rparr>,
        w_db = emptyDb\<lparr>db_users := [''ana'' \<mapsto> exampleRow, ''bo'' \<mapsto> exampleRow, ''eve'' \<mapsto> exampleRow]\<rparr>\<rparr>,
      rt_tokens = exampleTokenDb, rt_buckets = (\<lambda>k. None), rt_sockets = [], rt_outbox = []\<rparr>"

definition callEnv :: Env where
  "callEnv = \<lparr>en_now = 1000, en_today = \<lparr>utcYear = 2025, utcMonth = 0, utcDay = 1\<rparr>,
     en_settings = \<lparr>relaxationStages = DEFAULT_RELAXATION_STAGES, maxQueueSeconds = 180,
        skipCooldownSeconds = 1800, minSecondsBetweenSkips = 1, negotiationTimeoutMs = 20000\<rparr>,
     en_nodeId = ''n'', en_turn = None, en_hmac = (\<lambda>k t. t), en_lockToken = ''tok'', en_freshId = ''id''\<rparr>"

definition socketOf :: "user_id \<Rightarrow> RtSocket" where
  "socketOf u = \<lparr>so_id = ''sock-'' @ u, so_userId = u, so_username = u\<rparr>"

lemma callState_participants [simp]:
  "getMatchParticipants 1000 ''m'' (redisOf callState) = Some (''ana'', ''bo'')"
  by (simp add: callState_def getMatchParticipants_def live_def)

text \<open>C10: Nobody can speak into a conversation they are not in, and nothing said in one is kept. Whatever a
signalling frame or a chat message makes the server send beyond the own socket goes to the room of one
user, is that frame or message, and only if sender and receiver are the two registered participants of
the match it names; and neither the database, nor Redis, nor the token tables change.\<close>

theorem conversation_is_private:
  "(\<forall>(t, e)\<in>set (newFrames st (onSignal env so (frameEvent f) (Some f) st)).
      t = ToSocket (so_id so) \<or>
      (\<exists>v. t = ToRoom v \<and> e = Signal f \<and>
         getMatchParticipants (en_now env) (frameMatch f) (redisOf st) \<in> {Some (so_userId so, v), Some (v, so_userId so)})) \<and>
   (\<forall>(t, e)\<in>set (newFrames st (onChatMessage env so (Some i) st)).
      t = ToSocket (so_id so) \<or>
      (\<exists>v. t = ToRoom v \<and> e = Chat (chatMessageOf env so i) None \<and>
         getMatchParticipants (en_now env) (ci_matchId i) (redisOf st) \<in> {Some (so_userId so, v), Some (v, so_userId so)})) \<and>
   rt_world (onSignal env so (frameEvent f) (Some f) st) = rt_world st \<and>
   rt_tokens (onSignal env so (frameEvent f) (Some f) st) = rt_tokens st \<and>
   rt_world (onChatMessage env so (Some i) st) = rt_world st \<and>
   rt_tokens (onChatMessage env so (Some i) st) = rt_tokens st"
  using signal.sent [of _ _ st env so f] chat.sent [of _ _ st env so i]
    signal.frame [of env so f st] chat.frame [of env so i st]
  by (fastforce simp: resolvePeer_iff)

lemma conversation_is_private_witness:
  "newFrames callState (onSignal callEnv (socketOf ''ana'') ''webrtc:offer'' (Some (Offer ''m'' ''v=0'')) callState)
     = [(ToRoom ''bo'', Signal (Offer ''m'' ''v=0''))] \<and>
   (\<nexists>v e. (ToRoom v, e) \<in> set (newFrames callState
      (onSignal callEnv (socketOf ''eve'') ''webrtc:offer'' (Some (Offer ''m'' ''v=0'')) callState)))"
proof
  let ?f = "Offer ''m'' ''v=0''" let ?eve = "socketOf ''eve''"
  show "newFrames callState (onSignal callEnv (socketOf ''ana'') ''webrtc:offer'' (Some ?f) callState)
     = [(ToRoom ''bo'', Signal ?f)]"
    by (simp add: onSignal_def guardFlood_def allow_def callEnv_def socketOf_def RATE_LIMITS_def resolvePeer_def
        newFrames_def callState_def getMatchParticipants_def live_def emptyRedis_def)
  have "\<forall>(t, e)\<in>set (newFrames callState (onSignal callEnv ?eve (frameEvent ?f) (Some ?f) callState)).
      t = ToSocket (so_id ?eve) \<or> (\<exists>v. t = ToRoom v \<and> e = Signal ?f \<and>
         getMatchParticipants (en_now callEnv) (frameMatch ?f) (redisOf callState)
           \<in> {Some (so_userId ?eve, v), Some (v, so_userId ?eve)})"
    by (rule conjunct1 [OF conversation_is_private])
  moreover have "getMatchParticipants (en_now callEnv) (frameMatch ?f) (redisOf callState)
      \<notin> {Some (so_userId ?eve, v), Some (v, so_userId ?eve)}" for v
    by (simp add: callEnv_def socketOf_def)
  ultimately show "\<nexists>v e. (ToRoom v, e) \<in> set (newFrames callState
      (onSignal callEnv ?eve ''webrtc:offer'' (Some ?f) callState))"
    by fastforce
qed



text \<open>Blocking or reporting tears down any match whose id the client names, also one between two other
users: the handlers never check membership. Both strangers lose their match and their occupancy, neither
of them is told, and the row is closed in the name of the outsider.\<close>

theorem outsider_tears_down_match:
  assumes "getMatchParticipants (en_now env) m (redisOf st) = Some (a, b)"
    and "so_userId so \<notin> {a, b, v}" and "db_users (dbOf st) (so_userId so) \<noteq> None" and "db_users (dbOf st) v \<noteq> None"
  defines "st' \<equiv> onUserBlock env so (Some \<lparr>bi_userId = v, bi_matchId = Some m\<rparr>) st"
  shows "getMatchParticipants (en_now env) m (redisOf st') = None \<and>
         currentMatch (en_now env) a (redisOf st') \<noteq> Some m \<and> currentMatch (en_now env) b (redisOf st') \<noteq> Some m \<and>
         (\<forall>(t, e)\<in>set (newFrames st st'). t = ToSocket (so_id so)) \<and>
         dbOf st' = finaliseMatch (en_now env) m MatchEndReason_BLOCKED (Some (so_userId so))
           (upsertBlock (so_userId so) v (dbOf st))"
proof -
  have "getMatchParticipants now m (invalidateBlocks x (invalidateBlocks y r)) = getMatchParticipants now m r" for now x y r
    by (simp add: invalidateBlocks_def)
  with assms show ?thesis
    by (auto simp: st'_def onUserBlock_def leaveNamedMatch_def Let_def newFrames_def
        teardownMatch_member [OF _ refl])
qed

lemma outsider_tears_down_match_witness:
  "currentMatch 1000 ''ana'' (redisOf callState) = Some ''m'' \<and>
   currentMatch 1000 ''ana'' (redisOf (onUserBlock callEnv (socketOf ''eve'')
     (Some \<lparr>bi_userId = ''ana'', bi_matchId = Some ''m''\<rparr>) callState)) \<noteq> Some ''m''"
  using outsider_tears_down_match [of callEnv "''m''" callState "''ana''" "''bo''" "socketOf ''eve''" "''ana''"]
  by (simp add: callEnv_def socketOf_def callState_def currentMatch_def live_def getMatchParticipants_def)

text \<open>The answer to Next says more than the server does. A user who presses Next and asks to be queued
again is told that the match ended with requeueing done and that the queue was joined; the server has not
put the user into the queue.\<close>

theorem skip_announces_queue_without_joining:
  assumes "resolvePeer (en_now env) m (so_userId so) (redisOf st) = Some peer"
    and "fst (checkSkipCooldown (en_now env) (so_userId so) (minSecondsBetweenSkips (en_settings env)) (redisOf st)) \<le> 0"
    and "\<not> isQueued (en_now env) (so_userId so) (redisOf st)"
  shows "(ToSocket (so_id so), MatchEnded m MatchEndReason_SKIPPED True)
           \<in> set (newFrames st (onMatchSkip env so (Some (m, True)) st)) \<and>
         (ToSocket (so_id so), QueueJoined (en_now env))
           \<in> set (newFrames st (onMatchSkip env so (Some (m, True)) st)) \<and>
         \<not> isQueued (en_now env) (so_userId so) (redisOf (onMatchSkip env so (Some (m, True)) st))"
proof -
  obtain c r where k: "checkSkipCooldown (en_now env) (so_userId so)
      (minSecondsBetweenSkips (en_settings env)) (redisOf st) = (c, r)" by fastforce
  define st1 where "st1 = onRt (\<lambda>_. r) st"
  have r: "r = snd (checkSkipCooldown (en_now env) (so_userId so)
      (minSecondsBetweenSkips (en_settings env)) (redisOf st))" by (simp add: k)
  have p: "resolvePeer (en_now env) m (so_userId so) r = Some peer" unfolding r using assms(1) by simp
  then obtain a b where ab: "getMatchParticipants (en_now env) m (redisOf st1) = Some (a, b)"
    by (auto simp: resolvePeer_iff st1_def)
  have q: "\<not> isQueued (en_now env) (so_userId so) (redisOf st1)" using assms(3) by (simp add: st1_def r)
  have skip: "onMatchSkip env so (Some (m, True)) st =
      emit (ToSocket (so_id so)) (QueueJoined (en_now env)) (emit (ToSocket (so_id so)) (AckFrame AckSkipped)
        (emit (ToSocket (so_id so)) (MatchEnded m MatchEndReason_SKIPPED True)
          (snd (teardownMatch env m (Some (so_userId so)) MatchEndReason_SKIPPED st1))))"
    using assms(2) p by (simp add: onMatchSkip_def k Let_def st1_def)
  note t = teardownMatch_member [OF ab refl]
  show ?thesis
    unfolding skip using q by (simp add: newFrames_def t) (simp add: st1_def)
qed

lemma skip_announces_queue_without_joining_witness:
  "\<not> isQueued 1000 ''ana'' (redisOf (onMatchSkip callEnv (socketOf ''ana'') (Some (''m'', True)) callState))"
  using skip_announces_queue_without_joining [of callEnv "''m''" "socketOf ''ana''" callState "''bo''"]
  by (simp add: callEnv_def socketOf_def callState_def isQueued_def checkSkipCooldown_def resolvePeer_def
      getMatchParticipants_def live_def emptyRedis_def)

section \<open>What pairing reads\<close>

text \<open>A pairing attempt reads the queue, the occupancy, the locks and the recent partners, and neither the
block cache nor the database: what it excludes is the snapshot each candidate took when joining.\<close>

definition withBlockCache :: "(user_id, string list) register \<Rightarrow> RedisState \<Rightarrow> RedisState" where
  "withBlockCache x s = s\<lparr>rd_blockCache := x\<rparr>"

lemma withBlockCache_reads [simp]:
  "currentMatch now u (withBlockCache x s) = currentMatch now u s"
  "isQueued now u (withBlockCache x s) = isQueued now u s"
  "parsedEntry now (withBlockCache x s) = parsedEntry now s"
  "rd_matchLock (withBlockCache x s) = rd_matchLock s"
  "rd_userMatch (withBlockCache x s) = rd_userMatch s"
  "rd_queue (withBlockCache x s) = rd_queue s"
  "rd_queueEntry (withBlockCache x s) = rd_queueEntry s"
  by (simp_all add: withBlockCache_def currentMatch_def isQueued_def parsedEntry_def fun_eq_iff)

lemma withBlockCache_update:
  "(withBlockCache x s)\<lparr>rd_queueEntry := q\<rparr> = withBlockCache x (s\<lparr>rd_queueEntry := q\<rparr>)"
  "(withBlockCache x s)\<lparr>rd_queue := z\<rparr> = withBlockCache x (s\<lparr>rd_queue := z\<rparr>)"
  "(withBlockCache x s)\<lparr>rd_recentPartners := y\<rparr> = withBlockCache x (s\<lparr>rd_recentPartners := y\<rparr>)"
  "rd_recentPartners (withBlockCache x s) = rd_recentPartners s"
  by (simp_all add: withBlockCache_def)

lemma withBlockCache_commute:
  "getEntry now u (withBlockCache x s) = apsnd (withBlockCache x) (getEntry now u s)"
  "loadCandidates now sh u (withBlockCache x s) = apsnd (withBlockCache x) (loadCandidates now sh u s)"
  "recentPartners now u (withBlockCache x s) = apsnd (withBlockCache x) (recentPartners now u s)"
  by (simp_all add: getEntry_def loadCandidates_def recentPartners_def scannedIds_def Let_def
      withBlockCache_update cong: if_cong split: option.split stored.split prod.split)

lemma acquireTwo_withBlockCache:
  "acquireTwo (acquireLock now) (releaseLock now) a b t (withBlockCache x s) =
     apsnd (withBlockCache x) (acquireTwo (acquireLock now) (releaseLock now) a b t s)"
  "acquireTwo (claimForMatch now) (releaseMatch now) a b t (withBlockCache x s) =
     apsnd (withBlockCache x) (acquireTwo (claimForMatch now) (releaseMatch now) a b t s)"
  by (simp_all add: acquireTwo_def acquireLock_def releaseLock_def claimForMatch_def releaseMatch_def
      withBlockCache_def Let_def prod.case_eq_if)

lemma commitPair_withBlockCache:
  "fst (commitPair now n a seeker sel settings m \<lparr>w_redis = withBlockCache x r, w_db = db'\<rparr>) =
   fst (commitPair now n a seeker sel settings m \<lparr>w_redis = r, w_db = db\<rparr>)"
  by (simp add: commitPair_def Let_def claimBoth_def acquireTwo_withBlockCache prod.case_eq_if)

lemma tryMatch_ignores_blocks:
  "fst (tryMatch now n u settings tok m \<lparr>w_redis = withBlockCache x r, w_db = db'\<rparr>) =
   fst (tryMatch now n u settings tok m \<lparr>w_redis = r, w_db = db\<rparr>)"
proof (cases "getEntry now u r")
  case (Pair e r0)
  show ?thesis
  proof (cases e)
    case None
    then show ?thesis by (simp add: tryMatch_def withBlockCache_commute Pair)
  next
    case (Some seeker)
    let ?st = "relaxationStages settings"
    obtain pool r1 where l: "loadCandidates now (shardsToScan seeker (relaxationStageFor seeker now ?st) ?st) u r0 = (pool, r1)"
      by fastforce
    obtain recent r2 where rc: "recentPartners now u r1 = (recent, r2)" by fastforce
    show ?thesis
    proof (cases "selectBestMatch (seeker\<lparr>qc_recentPartnerIds := recent\<rparr>) pool now ?st []")
      case None
      then show ?thesis
        by (simp add: tryMatch_def withBlockCache_commute Pair Some l rc Let_def)
    next
      case sel: (Some sel)
      let ?p = "qc_userId (ms_candidate sel)"
      obtain ok r3 where k: "acquirePairLocks now u ?p tok r2 = (ok, r3)" by fastforce
      then have k': "acquirePairLocks now u ?p tok (withBlockCache x r2) = (ok, withBlockCache x r3)"
        by (simp add: acquirePairLocks_def acquireTwo_withBlockCache split: prod.splits)
      have c: "fst (commitPair now n u seeker sel settings m \<lparr>w_redis = withBlockCache x r3, w_db = db'\<rparr>) =
          fst (commitPair now n u seeker sel settings m \<lparr>w_redis = r3, w_db = db\<rparr>)"
        by (rule commitPair_withBlockCache)
      show ?thesis
        using c by (simp add: tryMatch_def withBlockCache_commute Pair Some l rc sel k k' Let_def prod.case_eq_if)
    qed
  qed
qed

text \<open>A block that is placed while its target is already queued does not keep the two apart. Blocking
drops the cached block lists so that "a stale cache" cannot pair the two again, but a queued user's
exclusions were copied into the queue entry on joining: for every waiting user the next pairing attempt
after the block has exactly the outcome it would have had without it.\<close>

theorem block_while_queued_has_no_effect:
  assumes "so_userId so \<noteq> v" and "db_users (dbOf st) (so_userId so) \<noteq> None" and "db_users (dbOf st) v \<noteq> None"
    and "st' = onUserBlock env so (Some \<lparr>bi_userId = v, bi_matchId = None\<rparr>) st"
  shows "isBlockedBetween (so_userId so) v (dbOf st') \<and>
         fst (tryMatch now n u settings tok m (rt_world st')) = fst (tryMatch now n u settings tok m (rt_world st))"
proof -
  have inv: "invalidateBlocks a (invalidateBlocks b r) = withBlockCache (delKey a (delKey b (rd_blockCache r))) r" for a b r
    by (simp add: invalidateBlocks_def withBlockCache_def)
  obtain r db where w: "rt_world st = \<lparr>w_redis = r, w_db = db\<rparr>" by (cases "rt_world st") auto
  have "rt_world st' = \<lparr>w_redis = withBlockCache (delKey v (delKey (so_userId so) (rd_blockCache r))) r,
      w_db = upsertBlock (so_userId so) v db\<rparr>"
    using assms by (auto simp: onUserBlock_def w leaveNamedMatch_def Let_def onRt_def onRedis_def inv)
  then show ?thesis
    unfolding w by (simp add: tryMatch_ignores_blocks) (auto simp: isBlockedBetween_def upsertBlock_def list_ex_iff)
qed

definition queuedState :: Realtime where
  "queuedState = \<lparr>rt_world = exampleWorld, rt_tokens = emptyTokenDb [], rt_buckets = (\<lambda>k. None),
     rt_sockets = [], rt_outbox = []\<rparr>"

lemma block_while_queued_has_no_effect_witness:
  "case fst (tryMatch 0 ''n1'' ''a'' exampleSettings ''t'' ''m1''
      (rt_world (onUserBlock callEnv (socketOf ''a'') (Some \<lparr>bi_userId = ''b'', bi_matchId = None\<rparr>) queuedState))) of
     None \<Rightarrow> False | Some r \<Rightarrow> mr_partnerId r = ''b''"
proof -
  have "rt_world queuedState = exampleWorld" by (simp add: queuedState_def)
  then show ?thesis
    using block_while_queued_has_no_effect [of "socketOf ''a''" "''b''" queuedState _ callEnv, OF _ _ _ refl]
      exampleWorld_matches
    by (simp add: socketOf_def exampleWorld_def)
qed

section \<open>Tips\<close>

text \<open>A tip gives away the display name its sender hides. The profile a partner is shown has no display
name when the owner's switch is off, but the frame of a tip carries it as the sender's name, straight
from the profile row.\<close>

theorem tip_reveals_hidden_name:
  assumes "loadMatchCandidate (so_userId so) (dbOf st) = Some row"
    and "u_privacy row = Some privacy" and "\<not> showDisplayName privacy"
    and "u_profile row = Some prof" and "pr_displayName prof = Some name" and "trimString name \<noteq> []"
    and "(ToRoom peer, TipReceived t) \<in> set (newFrames st (onTipSend env so (Some input) st))"
  shows "pp_displayName (toPublicProfileFromRow (so_userId so) row today) = None \<and>
         tr_fromName t = trimString name"
proof
  show "pp_displayName (toPublicProfileFromRow (so_userId so) row today) = None"
    using assms(2,3) by (simp add: toPublicProfileFromRow_def toPublicProfile_def effectivePrivacy_def)
  have "senderName so (dbOf st) = trimString name"
    using assms(1,4-6) by (simp add: senderName_def Let_def orElse_def)
  then show "tr_fromName t = trimString name"
    using assms(7)
    by (auto simp: onTipSend_def newFrames_def Let_def reply_defs tipFailure_def prod.case_eq_if
        split: if_splits option.splits sum.splits)
qed

definition hidingRow :: UserRow where
  "hidingRow = exampleRow
     \<lparr>u_profile := Some \<lparr>pr_displayName = Some ''Ana Real'', pr_avatarUrl = None, pr_bio = None,
        pr_birthDate = NoBirthDate, pr_gender = Gender_FEMALE, pr_country = None, pr_languages = [], pr_locale = ''en''\<rparr>,
      u_privacy := Some (DEFAULT_PRIVACY_SETTINGS\<lparr>showDisplayName := False\<rparr>)\<rparr>"

definition tipState :: Realtime where
  "tipState = callState\<lparr>rt_world := (rt_world callState)
     \<lparr>w_db := emptyDb\<lparr>db_users := [''ana'' \<mapsto> hidingRow, ''bo'' \<mapsto> exampleRow]\<rparr>\<rparr>\<rparr>"

lemma tip_reveals_hidden_name_witness:
  "\<exists>t. (ToRoom ''bo'', TipReceived t) \<in> set (newFrames tipState (onTipSend callEnv (socketOf ''ana'')
      (Some \<lparr>ts_matchId = ''m'', ts_tokens = 20, ts_message = None, ts_offeredSeconds = None\<rparr>) tipState)) \<and>
     tr_fromName t = ''Ana Real''"
proof -
  let ?i = "\<lparr>ts_matchId = ''m'', ts_tokens = 20, ts_message = None, ts_offeredSeconds = None\<rparr>"
  have "\<exists>t. (ToRoom ''bo'', TipReceived t) \<in> set (newFrames tipState (onTipSend callEnv (socketOf ''ana'') (Some ?i) tipState))"
    by (simp add: tipState_def callState_def callEnv_def socketOf_def onTipSend_def guardFlood_def allow_def
        resolvePeer_def getMatchParticipants_def live_def emptyRedis_def sendTip_def exampleTokenDb_def emptyTokenDb_def
        isInteger_def debit_def createTip_def credit_def creditedAccount_def fitsInt4_def INT4_MAX_def Let_def
        appendLedger_def getBalance_def newFrames_def reply_defs tipFailure_def split: option.splits)
  then obtain t where t: "(ToRoom ''bo'', TipReceived t)
      \<in> set (newFrames tipState (onTipSend callEnv (socketOf ''ana'') (Some ?i) tipState))" ..
  have l: "loadMatchCandidate (so_userId (socketOf ''ana'')) (dbOf tipState) = Some hidingRow"
    by (simp add: tipState_def socketOf_def loadMatchCandidate_def hidingRow_def exampleRow_def)
  have n: "trimString ''Ana Real'' = ''Ana Real''" by code_simp
  have "tr_fromName t = trimString ''Ana Real''"
    using tip_reveals_hidden_name [OF l _ _ _ _ _ t, of "DEFAULT_PRIVACY_SETTINGS\<lparr>showDisplayName := False\<rparr>" _ "''Ana Real''"]
    by (simp add: hidingRow_def n)
  with t n show ?thesis by auto
qed

end
