(* ===== verification/Conversation_Safety.thy ===== *)
theory Conversation_Safety
  imports Conversation Realtime_Safety
begin

text \<open>What the browser's side guarantees by itself, as a step relation over every action, frame, timer and
continuation in any order, and what happens between it and the server when the user presses Next.\<close>

section \<open>Any order of actions, frames, timers and continuations\<close>

inductive clientStep :: "Client \<Rightarrow> Client \<Rightarrow> bool" where
  k_media: "clientStep c (snd (startMedia g c))"
| k_join: "clientStep c (joinQueue now c)"
| k_leave: "clientStep c (leaveQueue c)"
| k_skip: "clientStep c (skip now r c)"
| k_end: "clientStep c (endConversation c)"
| k_camera: "clientStep c (toggleCamera c)"
| k_microphone: "clientStep c (toggleMicrophone c)"
| k_tip: "clientStep c (clientSendTip n msg secs c)"
| k_respond: "clientStep c (clientRespondToOffer t b c)"
| k_message: "clientStep c (sendMessage i body c)"
| k_report: "clientStep c (reportPartner cat d c)"
| k_block: "clientStep c (blockPartner c)"
| k_offer: "clientStep c (offerReady now m sdp c)"
| k_deadline: "clientStep c (negotiationExpired now c)"
| k_ice: "clientStep c (iceGathered m k c)"
| k_peer: "clientStep c (connectionStateChanged m ps c)"
| k_reconnect: "clientStep c (reconnectExpired alive c)"
| k_late: "clientStep c (lateNegotiationFailure now c)"
| k_connect_error: "clientStep c (socketConnectError c)"
| k_connect: "clientStep c (socketConnect c)"
| k_disconnect: "clientStep c (socketDisconnect c)"
| k_frame: "clientStep c (onFrame now neg e c)"
| k_heartbeat: "clientStep c (heartbeatTick c)"
| k_queue: "clientStep c (queueTick now c)"
| k_sample: "clientStep c (sampleQuality rtt loss c)"
| k_unmount: "clientStep c (unmount c)"

inductive clientReachable :: "Client \<Rightarrow> bool" where
  kr_init: "clientReachable initialClient"
| kr_step: "clientReachable c \<Longrightarrow> clientStep c d \<Longrightarrow> clientReachable d"

definition peerOk ::
    "Peer option \<Rightarrow> match_id option \<Rightarrow> PublicProfile option \<Rightarrow> IceCandidate list \<Rightarrow> bool \<Rightarrow> bool" where
  "peerOk peer m partner pending timer \<longleftrightarrow>
     (case peer of
        None \<Rightarrow> m = None \<and> partner = None \<and> pending = [] \<and> \<not> timer
      | Some p \<Rightarrow> m = Some (pe_matchId p) \<and> partner \<noteq> None \<and>
          (pe_remoteSet p \<longrightarrow> pending = []) \<and> (pe_applied p \<noteq> [] \<longrightarrow> pe_remoteSet p))"

definition clientInv :: "Client \<Rightarrow> bool" where
  "clientInv c \<longleftrightarrow>
     peerOk (cl_peer c) (cl_matchId c) (cl_partner c) (cl_pendingCandidates c) (cl_negotiationTimer c)"

lemma peerOk_None [simp]: "peerOk None m q pending t \<longleftrightarrow> m = None \<and> q = None \<and> pending = [] \<and> \<not> t"
  by (simp add: peerOk_def)

lemma peerOk_Some [simp]:
  "peerOk (Some p) m q pending t \<longleftrightarrow> m = Some (pe_matchId p) \<and> q \<noteq> None \<and>
     (pe_remoteSet p \<longrightarrow> pending = []) \<and> (pe_applied p \<noteq> [] \<longrightarrow> pe_remoteSet p)"
  by (simp add: peerOk_def)

lemma transitionTo_frame [simp]:
  "clientInv (snd (transitionTo s c)) = clientInv c"
  "cl_peer (snd (transitionTo s c)) = cl_peer c" "cl_matchId (snd (transitionTo s c)) = cl_matchId c"
  "cl_partner (snd (transitionTo s c)) = cl_partner c"
  "cl_pendingCandidates (snd (transitionTo s c)) = cl_pendingCandidates c"
  "cl_sent (snd (transitionTo s c)) = cl_sent c"
  "cl_queueConfirmed (snd (transitionTo s c)) = cl_queueConfirmed c"
  "cl_negotiationTimer (snd (transitionTo s c)) = cl_negotiationTimer c"
  by (simp_all add: transitionTo_def clientInv_def)

lemma transitionTo_state:
  "cl_state (snd (transitionTo s c)) = (if canTransition (cl_state c) s then s else cl_state c)"
  by (simp add: transitionTo_def)

lemma send_frame [simp]:
  "clientInv (send e c) = clientInv c" "cl_state (send e c) = cl_state c" "cl_peer (send e c) = cl_peer c"
  "cl_matchId (send e c) = cl_matchId c" "cl_partner (send e c) = cl_partner c"
  "cl_sent (send e c) = cl_sent c @ [e]"
  by (simp_all add: send_def clientInv_def)

lemma closePeer_inv [simp]: "clientInv (closePeer c)" "cl_state (closePeer c) = cl_state c"
    "cl_peer (closePeer c) = None" "cl_matchId (closePeer c) = None" "cl_sent (closePeer c) = cl_sent c"
  by (simp_all add: closePeer_def clearTimers_def clientInv_def)

lemma clientInv_irrelevant [simp]:
  "clientInv (c\<lparr>cl_queueConfirmed := a1\<rparr>) = clientInv c" "clientInv (c\<lparr>cl_searchingNow := a2\<rparr>) = clientInv c"
  "clientInv (c\<lparr>cl_queueStartedAt := a3\<rparr>) = clientInv c" "clientInv (c\<lparr>cl_waitingSeconds := a4\<rparr>) = clientInv c"
  "clientInv (c\<lparr>cl_error := a5\<rparr>) = clientInv c" "clientInv (c\<lparr>cl_mediaError := a6\<rparr>) = clientInv c"
  "clientInv (c\<lparr>cl_stream := a7\<rparr>) = clientInv c" "clientInv (c\<lparr>cl_cameraEnabled := a8\<rparr>) = clientInv c"
  "clientInv (c\<lparr>cl_microphoneEnabled := a9\<rparr>) = clientInv c" "clientInv (c\<lparr>cl_pendingOffer := b1\<rparr>) = clientInv c"
  "clientInv (c\<lparr>cl_tips := b2\<rparr>) = clientInv c" "clientInv (c\<lparr>cl_messages := b3\<rparr>) = clientInv c"
  "clientInv (c\<lparr>cl_tokenBalance := b4\<rparr>) = clientInv c" "clientInv (c\<lparr>cl_connected := b5\<rparr>) = clientInv c"
  "clientInv (c\<lparr>cl_connectAttempts := b6\<rparr>) = clientInv c" "clientInv (c\<lparr>cl_quality := b7\<rparr>) = clientInv c"
  "clientInv (c\<lparr>cl_reconnectTimer := b8\<rparr>) = clientInv c"
  by (simp_all add: clientInv_def)

lemma clearTimers_inv [simp]: "clientInv c \<Longrightarrow> clientInv (clearTimers c)"
  by (cases "cl_peer c") (simp_all add: clientInv_def clearTimers_def)

lemma skip_inv [simp]: "clientInv c \<Longrightarrow> clientInv (skip now r c)"
  by (simp add: skip_def Let_def split: option.split)

lemma handleMatchFound_inv [simp]: "clientInv c \<Longrightarrow> clientInv (snd (handleMatchFound p c))"
  by (simp add: handleMatchFound_def Let_def prod.case_eq_if createPeer_def clientInv_def)

lemma negotiation_inv [simp]:
  assumes "clientInv c"
  shows "clientInv (offerReceived now m a c)" "clientInv (answerReceived now m b c)"
    "clientInv (iceReceived m k c)"
proof -
  have f: "clientInv (flushPendingCandidates (setRemoteDescription c))"
    using assms by (cases "cl_peer c") (simp_all add: flushPendingCandidates_def setRemoteDescription_def clientInv_def)
  show "clientInv (offerReceived now m a c)"
    using assms f by (simp add: offerReceived_def split: option.split)
  show "clientInv (answerReceived now m b c)" using assms f by (simp add: answerReceived_def)
  show "clientInv (iceReceived m k c)"
    using assms by (cases "cl_peer c") (auto simp: iceReceived_def clientInv_def)
qed

lemma onFrame_inv: "clientInv c \<Longrightarrow> clientInv (onFrame now neg e c)"
  by (cases e) (auto simp: onFrame_def Let_def dropOffer_def split: SignalFrame.split)

lemma clientInv_step: "clientStep c d \<Longrightarrow> clientInv c \<Longrightarrow> clientInv d"
proof (induction rule: clientStep.induct)
  case (k_frame c now neg e)
  then show ?case by (rule onFrame_inv)
qed (auto simp: startMedia_def joinQueue_def leaveQueue_def endConversation_def toggleCamera_def
    toggleMicrophone_def clientSendTip_def clientRespondToOffer_def dropOffer_def sendMessage_def
    reportPartner_def blockPartner_def offerReady_def negotiationExpired_def iceGathered_def
    connectionStateChanged_def endMatchLocally_def reconnectExpired_def lateNegotiationFailure_def
    socketConnectError_def socketConnect_def socketDisconnect_def heartbeatTick_def queueTick_def
    sampleQuality_def unmount_def Let_def prod.case_eq_if split: option.splits PeerState.splits)

lemma clientInv_reachable: "clientReachable c \<Longrightarrow> clientInv c"
proof (induction rule: clientReachable.induct)
  case kr_init
  show ?case by (simp add: clientInv_def initialClient_def)
qed (rule clientInv_step)

section \<open>Properties of the client\<close>


definition exampleStream :: LocalStream where
  "exampleStream = \<lparr>ls_video = [True], ls_audio = [True]\<rparr>"

definition exampleFound :: MatchFoundPayload where
  "exampleFound = \<lparr>mf_matchId = ''m'', mf_partner = toPublicProfileFromRow ''bo'' exampleRow
        \<lparr>utcYear = 2025, utcMonth = 0, utcDay = 1\<rparr>, mf_isInitiator = True, mf_iceServers = [],
     mf_sharedInterests = [], mf_negotiationTimeoutMs = 20000, mf_startedAt = 0\<rparr>"

text \<open>A client that started its media, queued, was matched and offered.\<close>

definition callingClient :: Client where
  "callingClient = offerReady 0 ''m'' (Some ''v=0'') (onFrame 0 None (MatchFound exampleFound)
     (joinQueue 0 (snd (startMedia (Some exampleStream) initialClient))))"

lemma callingClient_reachable: "clientReachable callingClient"
  unfolding callingClient_def
  by (rule kr_step [OF _ k_offer] kr_step [OF _ k_frame] kr_step [OF _ k_join] kr_step [OF _ k_media] kr_init)+

lemmas client_eval = callingClient_def offerReady_def onFrame_def handleMatchFound_def joinQueue_def startMedia_def
  initialClient_def exampleStream_def exampleFound_def createPeer_def send_def transitionTo_def session_simps


text \<open>Frames about the end of a match are not checked against the current one. Whatever match they name,
\<^verbatim>\<open>match:partner-left\<close> and \<^verbatim>\<open>match:ended\<close> close the current peer connection; and the move that should follow
may be refused, so that the interface stays in a call without a connection, a screen the state machine
says cannot exist.\<close>

theorem stale_end_closes_current_call:
  assumes "cl_matchId c = Some current" and "m \<noteq> current"
  shows "cl_peer (onFrame now neg (PartnerLeft m reason) c) = None \<and>
         cl_peer (onFrame now neg (MatchEnded m reason requeued) c) = None \<and>
         (cl_state c = SessionState_CONNECTED \<longrightarrow>
            cl_state (onFrame now neg (MatchEnded m reason True) c) = SessionState_CONNECTED)"
  by (simp add: onFrame_def Let_def transitionTo_state) (simp add: session_simps)

lemma stale_end_closes_current_call_witness:
  "cl_peer callingClient \<noteq> None \<and>
   cl_peer (onFrame 5 None (PartnerLeft ''old'' MatchEndReason_SKIPPED) callingClient) = None"
  using stale_end_closes_current_call [of callingClient "''m''" "''old''" 5 None MatchEndReason_SKIPPED]
  by (simp add: client_eval Let_def)

section \<open>Client and server together\<close>

text \<open>The frames a socket receives itself, played to its client in order.\<close>

definition ownFrames :: "RtSocket \<Rightarrow> Realtime \<Rightarrow> Realtime \<Rightarrow> ServerEvent list" where
  "ownFrames so st st' = map snd (filter (\<lambda>(t, e). t = ToSocket (so_id so)) (newFrames st st'))"

definition receive :: "instant \<Rightarrow> ServerEvent list \<Rightarrow> Client \<Rightarrow> Client" where
  "receive now es c = fold (onFrame now None) es c"

lemma isQueued_later: "isQueued now' u s \<Longrightarrow> now \<le> now' \<Longrightarrow> isQueued now u s"
  by (auto simp: isQueued_def live_def split: option.splits if_splits)

lemma skip_sends:
  assumes "cl_matchId c = Some m"
    and "cl_state c \<in> {SessionState_SIGNALING, SessionState_CONNECTING, SessionState_CONNECTED, SessionState_RECONNECTING}"
  shows "cl_sent (skip now True c) = cl_sent c @ [CE_skip m True]" "cl_state (skip now True c) = SessionState_QUEUED"
    "cl_peer (skip now True c) = None"
  using assms by (auto simp: skip_def Let_def transitionTo_state session_simps)

text \<open>C13: Pressing Next strands the user. Nobody puts the presser back into the queue: the client sends
only the skip, counting on the server to requeue, and the server only says that it did. After the frames
of the answer the client shows a confirmed search, has sent no request to join, the user is not in the
queue, and no later sweep does anything for that user.\<close>

theorem next_strands_the_user:
  assumes "cl_matchId c = Some m"
    and "cl_state c \<in> {SessionState_SIGNALING, SessionState_CONNECTING, SessionState_CONNECTED, SessionState_RECONNECTING}"
    and peer: "resolvePeer (en_now env) m (so_userId so) (redisOf st) = Some peer"
    and cool: "minSecondsBetweenSkips (en_settings env) \<le> 0 \<or>
               live (rd_skipCooldown (redisOf st)) (en_now env) (so_userId so) = None"
    and queued: "\<not> isQueued (en_now env) (so_userId so) (redisOf st)"
    and later: "en_now env \<le> en_now env'"
    and st': "st' = onMatchSkip env so (Some (m, True)) st"
    and c': "c' = receive now (ownFrames so st st') (skip now True c)"
  shows "cl_state c' = SessionState_QUEUED \<and> cl_queueConfirmed c' \<and>
         cl_sent c' = cl_sent c @ [CE_skip m True] \<and>
         \<not> isQueued (en_now env) (so_userId so) (redisOf st') \<and> tickOne env' n so st' = st'"
proof -
  obtain cd r where k: "checkSkipCooldown (en_now env) (so_userId so)
      (minSecondsBetweenSkips (en_settings env)) (redisOf st) = (cd, r)" by fastforce
  have cd: "cd = 0" using k cool by (auto simp: checkSkipCooldown_def live_def split: option.splits if_splits)
  define st1 where "st1 = onRt (\<lambda>_. r) st"
  have r: "r = snd (checkSkipCooldown (en_now env) (so_userId so)
      (minSecondsBetweenSkips (en_settings env)) (redisOf st))" by (simp add: k)
  have p: "resolvePeer (en_now env) m (so_userId so) r = Some peer" unfolding r using peer by simp
  then obtain a b where ab: "getMatchParticipants (en_now env) m (redisOf st1) = Some (a, b)"
    by (auto simp: resolvePeer_iff st1_def)
  have q: "\<not> isQueued (en_now env) (so_userId so) r" using queued by (simp add: r)
  note t = teardownMatch_member [OF ab refl]
  have skip: "st' = emit (ToSocket (so_id so)) (QueueJoined (en_now env)) (emit (ToSocket (so_id so)) (AckFrame AckSkipped)
        (emit (ToSocket (so_id so)) (MatchEnded m MatchEndReason_SKIPPED True)
          (snd (teardownMatch env m (Some (so_userId so)) MatchEndReason_SKIPPED st1))))"
    using cd p by (simp add: st' onMatchSkip_def k Let_def st1_def)
  have o: "rt_outbox st1 = rt_outbox st" "redisOf st1 = r" by (simp_all add: st1_def)
  have own: "ownFrames so st st' = [MatchEnded m MatchEndReason_SKIPPED True, AckFrame AckSkipped, QueueJoined (en_now env)]"
    by (simp add: ownFrames_def skip newFrames_def t o)
  have nq: "\<not> isQueued (en_now env) (so_userId so) (redisOf st')" using q by (simp add: skip t o)
  then have "tickOne env' n so st' = st'" using isQueued_later later by (auto simp: tickOne_def Let_def)
  moreover have "cl_state c' = SessionState_QUEUED \<and> cl_queueConfirmed c' \<and> cl_sent c' = cl_sent c @ [CE_skip m True]"
    using skip_sends [OF assms(1,2), of now]
    by (simp add: c' own receive_def onFrame_def Let_def transitionTo_state session_simps)
  ultimately show ?thesis using nq by blast
qed

lemma next_strands_the_user_witness:
  "cl_state (receive 1000 (ownFrames (socketOf ''ana'') callState
       (onMatchSkip callEnv (socketOf ''ana'') (Some (''m'', True)) callState)) (skip 1000 True callingClient))
     = SessionState_QUEUED \<and>
   \<not> isQueued 1000 ''ana'' (redisOf (onMatchSkip callEnv (socketOf ''ana'') (Some (''m'', True)) callState))"
proof -
  have m: "cl_matchId callingClient = Some ''m''" and s: "cl_state callingClient = SessionState_CONNECTING"
    by (simp_all add: client_eval Let_def)
  have st: "resolvePeer (en_now callEnv) ''m'' (so_userId (socketOf ''ana'')) (redisOf callState) = Some ''bo''"
    "live (rd_skipCooldown (redisOf callState)) (en_now callEnv) (so_userId (socketOf ''ana'')) = None"
    "\<not> isQueued (en_now callEnv) (so_userId (socketOf ''ana'')) (redisOf callState)"
    by (simp_all add: callEnv_def socketOf_def resolvePeer_def isQueued_def) (simp_all add: callState_def emptyRedis_def)
  show ?thesis
    using next_strands_the_user [OF m _ st(1) _ st(3) order_refl refl refl, of 1000 0] s st(2)
    by (simp add: callEnv_def socketOf_def)
qed

text \<open>A second Next within the cooldown splits client and server. The server refuses it and keeps the
match: the presser stays occupied, the partner is told nothing. The client has closed the call before the
answer and ignores the refusal, so it shows a search while the server holds it in a match nobody is in.\<close>

theorem cooldown_splits_client_and_server:
  assumes "cl_matchId c = Some m"
    and "cl_state c \<in> {SessionState_SIGNALING, SessionState_CONNECTING, SessionState_CONNECTED, SessionState_RECONNECTING}"
    and "0 < fst (checkSkipCooldown (en_now env) (so_userId so) (minSecondsBetweenSkips (en_settings env)) (redisOf st))"
    and "currentMatch (en_now env) (so_userId so) (redisOf st) = Some m"
    and st': "st' = onMatchSkip env so (Some (m, True)) st"
    and c': "c' = receive now (ownFrames so st st') (skip now True c)"
  shows "cl_state c' = SessionState_QUEUED \<and> cl_peer c' = None \<and>
         currentMatch (en_now env) (so_userId so) (redisOf st') = Some m \<and>
         (\<forall>(t, e)\<in>set (newFrames st st'). t = ToSocket (so_id so))"
proof -
  obtain cd r where k: "checkSkipCooldown (en_now env) (so_userId so)
      (minSecondsBetweenSkips (en_settings env)) (redisOf st) = (cd, r)" by fastforce
  have skip: "st' = emit (ToSocket (so_id so)) (RtError RealtimeErrorCode_SKIP_COOLDOWN
      ''One moment before skipping again.'' None (Some (cd * 1000))) (onRt (\<lambda>_. r) st)"
    using assms(3) by (simp add: st' onMatchSkip_def k Let_def)
  have "currentMatch (en_now env) (so_userId so) r = Some m"
    using checkSkipCooldown_frame(1) [of "en_now env" "so_userId so" "en_now env" "so_userId so"
        "minSecondsBetweenSkips (en_settings env)" "redisOf st"] assms(4) by (simp add: k)
  then show ?thesis
    using skip_sends [OF assms(1,2), of now]
    by (simp add: c' skip ownFrames_def newFrames_def receive_def onFrame_def)
qed

definition coolingState :: Realtime where
  "coolingState = onRt (\<lambda>r. r\<lparr>rd_skipCooldown := [''ana'' \<mapsto> ((), 2000)]\<rparr>) callState"

lemma cooldown_splits_client_and_server_witness:
  "cl_state (receive 1000 (ownFrames (socketOf ''ana'') coolingState
       (onMatchSkip callEnv (socketOf ''ana'') (Some (''m'', True)) coolingState)) (skip 1000 True callingClient))
     = SessionState_QUEUED \<and>
   currentMatch 1000 ''ana'' (redisOf (onMatchSkip callEnv (socketOf ''ana'') (Some (''m'', True)) coolingState)) = Some ''m''"
proof -
  have m: "cl_matchId callingClient = Some ''m''" and s: "cl_state callingClient = SessionState_CONNECTING"
    by (simp_all add: client_eval Let_def)
  have "0 < fst (checkSkipCooldown (en_now callEnv) (so_userId (socketOf ''ana''))
      (minSecondsBetweenSkips (en_settings callEnv)) (redisOf coolingState))"
    "currentMatch (en_now callEnv) (so_userId (socketOf ''ana'')) (redisOf coolingState) = Some ''m''"
    by (simp_all add: coolingState_def callEnv_def socketOf_def checkSkipCooldown_def currentMatch_def)
       (simp_all add: callState_def live_def)
  from cooldown_splits_client_and_server [OF m _ this refl refl, of 1000] s show ?thesis
    by (simp add: callEnv_def socketOf_def)
qed

end
