(* ===== verification/Moderation.thy ===== *)
theory Moderation
  imports Access_Control Matchmaker
begin

text \<open>Moderation, \<^verbatim>\<open>apps/api/src/services/moderation.service.ts\<close>: warnings, the report queue, suspensions and
bans, reinstatement, and the role change of \<^verbatim>\<open>admin.routes.ts\<close>. An operation takes the stores (Postgres
rows and Redis keys) and returns the new ones or the error; its transaction is one step. The locale
\<open>moderator_action\<close> states what every action of a moderator promises.\<close>

section \<open>Errors and input\<close>

definition Errors_notFound :: "string \<Rightarrow> AppError" where
  "Errors_notFound what = appError NOT_FOUND (what @ '' could not be found.'')"

definition Errors_conflict :: "string \<Rightarrow> AppError" where
  "Errors_conflict message = appError CONFLICT message"

definition Errors_forbiddenWith :: "string \<Rightarrow> AppError" where
  "Errors_forbiddenWith message = appError API_FORBIDDEN message"

definition Errors_internal :: AppError where
  "Errors_internal = appError INTERNAL_ERROR ''Something went wrong on our end.''"

datatype ReportAction = DISMISS | WARN | SUSPEND | BAN

fun actionLower :: "ReportAction \<Rightarrow> string" where
  "actionLower DISMISS = ''dismiss''"
| "actionLower WARN = ''warn''"
| "actionLower SUSPEND = ''suspend''"
| "actionLower BAN = ''ban''"

record ResolveReportInput =
  rr_reportId :: row_id
  rr_action :: ReportAction
  rr_reason :: "string option"
  rr_notes :: "string option"
  rr_suspensionHours :: "int option"

text \<open>The cross-field rules of \<^verbatim>\<open>resolveReportRefinedSchema\<close>.\<close>

definition resolveInputOk :: "ResolveReportInput \<Rightarrow> bool" where
  "resolveInputOk d \<longleftrightarrow>
     (rr_action d = DISMISS \<or> (\<exists>r. rr_reason d = Some r \<and> 0 < length r)) \<and>
     (rr_action d \<noteq> SUSPEND \<or> rr_suspensionHours d \<noteq> None)"

section \<open>Guards\<close>

definition assertActionable :: "user_id \<Rightarrow> user_id \<Rightarrow> Db \<Rightarrow> AppError + user_id" where
  "assertActionable targetUserId moderatorId db =
     (case loadMatchCandidate targetUserId db of
        None \<Rightarrow> Throw (Errors_notFound ''That user'')
      | Some target \<Rightarrow>
          if targetUserId = moderatorId
          then Throw (Errors_forbiddenWith ''You cannot take a moderation action on your own account.'')
          else if u_role target \<noteq> UserRole_USER
          then Throw (Errors_forbiddenWith ''Staff accounts cannot be moderated from here.'')
          else Ok targetUserId)"

definition assertMayBan :: "UserRole \<Rightarrow> AppError + unit" where
  "assertMayBan moderatorRole =
     throwIf (moderatorRole \<noteq> UserRole_ADMIN \<and> moderatorRole \<noteq> UserRole_SUPER_ADMIN)
       (Errors_forbiddenWith ''Banning an account requires an administrator.'')"

section \<open>Writes\<close>

definition addModAction ::
    "instant \<Rightarrow> user_id \<Rightarrow> user_id \<Rightarrow> ModerationActionType \<Rightarrow> string \<Rightarrow> string option \<Rightarrow> instant option \<Rightarrow> Db \<Rightarrow> Db"
where
  "addModAction now targetId moderatorId type reason notes expiresAt db =
     db\<lparr>db_modActions := db_modActions db @
       [\<lparr>a_targetUserId = targetId, a_moderatorId = Some moderatorId, a_type = type, a_reason = reason,
         a_notes = notes, a_expiresAt = expiresAt, a_createdAt = now\<rparr>]\<rparr>"

definition addBan :: "instant \<Rightarrow> user_id \<Rightarrow> user_id \<Rightarrow> string \<Rightarrow> Db \<Rightarrow> Db" where
  "addBan now targetId moderatorId reason db =
     db\<lparr>db_bans := db_bans db @
       [\<lparr>n_userId = targetId, n_issuedById = Some moderatorId, n_scope = BanScope_ACCOUNT, n_reason = reason,
         n_permanent = True, n_expiresAt = None, n_liftedAt = None, n_liftedById = None,
         n_createdAt = now\<rparr>]\<rparr>"

definition restrictUser :: "user_id \<Rightarrow> AccountStatus \<Rightarrow> Db \<Rightarrow> Db" where
  "restrictUser targetId status db =
     updateUser targetId
       (\<lambda>u. u\<lparr>u_status := status, u_tokenGeneration := u_tokenGeneration u + 1\<rparr>) db"

definition revokeSessions :: "instant \<Rightarrow> string \<Rightarrow> (SessionRow \<Rightarrow> bool) \<Rightarrow> Db \<Rightarrow> Db" where
  "revokeSessions now reason which db =
     db\<lparr>db_sessions := updateWhere (\<lambda>s. which s \<and> s_revokedAt s = None)
          (\<lambda>s. s\<lparr>s_revokedAt := Some now, s_revokedReason := Some reason\<rparr>) (db_sessions db)\<rparr>"

definition moderationAudit :: "instant \<Rightarrow> user_id \<Rightarrow> string \<Rightarrow> user_id \<Rightarrow> Db \<Rightarrow> Db" where
  "moderationAudit now actorId action targetId db =
     db\<lparr>db_audit := db_audit db @
       [\<lparr>l_actorId = Some actorId, l_actorType = AuditActorType_ADMIN, l_action = action,
         l_targetType = Some ''User'', l_targetId = Some targetId, l_ipHash = None,
         l_createdAt = now\<rparr>]\<rparr>"

text \<open>\<^verbatim>\<open>del\<close> of presence, occupancy and queue entry.\<close>

definition evict :: "user_id \<Rightarrow> RedisState \<Rightarrow> RedisState" where
  "evict targetId s =
     s\<lparr>rd_presence := delKey targetId (rd_presence s), rd_userMatch := delKey targetId (rd_userMatch s),
       rd_queueEntry := delKey targetId (rd_queueEntry s)\<rparr>"

text \<open>The body of a suspension and of a ban, the same in both transactions but for the reason written on
the revoked sessions.\<close>

definition suspendTx ::
    "instant \<Rightarrow> user_id \<Rightarrow> user_id \<Rightarrow> string \<Rightarrow> string option \<Rightarrow> int \<Rightarrow> string \<Rightarrow> Db \<Rightarrow> Db" where
  "suspendTx now targetId moderatorId reason notes hours revokedReason db =
     revokeSessions now revokedReason (\<lambda>s. s_userId s = targetId)
       (restrictUser targetId AccountStatus_SUSPENDED
         (addModAction now targetId moderatorId ModerationActionType_SUSPENSION reason notes
           (Some (now + hours * 3600000)) db))"

definition banTx ::
    "instant \<Rightarrow> user_id \<Rightarrow> user_id \<Rightarrow> string \<Rightarrow> string option \<Rightarrow> string \<Rightarrow> Db \<Rightarrow> Db" where
  "banTx now targetId moderatorId reason notes revokedReason db =
     revokeSessions now revokedReason (\<lambda>s. s_userId s = targetId)
       (restrictUser targetId AccountStatus_BANNED
         (addBan now targetId moderatorId reason
           (addModAction now targetId moderatorId ModerationActionType_BAN reason notes None db)))"

section \<open>Operations\<close>

definition warn ::
    "instant \<Rightarrow> user_id \<Rightarrow> string \<Rightarrow> string option \<Rightarrow> user_id \<Rightarrow> World \<Rightarrow> AppError + World" where
  "warn now targetUserId reason notes moderatorId w =
     andThen (assertActionable targetUserId moderatorId (w_db w))
       (\<lambda>target. Ok (w\<lparr>w_db :=
          moderationAudit now moderatorId ''moderation.user.warn'' target
            (addModAction now target moderatorId ModerationActionType_WARNING reason notes None (w_db w))\<rparr>))"

definition claimReport :: "row_id \<Rightarrow> user_id \<Rightarrow> Db \<Rightarrow> AppError + Db" where
  "claimReport reportId moderatorId db =
     (let pending = (\<lambda>r. r_id r = reportId \<and> r_status r = ReportStatus_PENDING) in
      if \<not> list_ex pending (db_reports db)
      then Throw (Errors_conflict ''Another moderator is already reviewing that report.'')
      else Ok (db\<lparr>db_reports := updateWhere pending
             (\<lambda>r. r\<lparr>r_status := ReportStatus_UNDER_REVIEW, r_reviewedById := Some moderatorId\<rparr>)
             (db_reports db)\<rparr>))"

text \<open>A missing \<^verbatim>\<open>reason\<close> or \<^verbatim>\<open>suspensionHours\<close>, which the schema excludes, would be refused by the
database client and roll the transaction back.\<close>

definition resolveAction ::
    "instant \<Rightarrow> ResolveReportInput \<Rightarrow> user_id \<Rightarrow> user_id \<Rightarrow> Db \<Rightarrow> AppError + Db" where
  "resolveAction now input targetId moderatorId db =
     (case (rr_action input, rr_reason input) of
        (DISMISS, r) \<Rightarrow>
          Ok (addModAction now targetId moderatorId ModerationActionType_DISMISS_REPORT
                (case r of Some t \<Rightarrow> t | None \<Rightarrow> ''No violation found.'') (rr_notes input) None db)
      | (_, None) \<Rightarrow> Throw Errors_internal
      | (WARN, Some reason) \<Rightarrow>
          Ok (addModAction now targetId moderatorId ModerationActionType_WARNING reason (rr_notes input) None db)
      | (SUSPEND, Some reason) \<Rightarrow>
          (case rr_suspensionHours input of
             None \<Rightarrow> Throw Errors_internal
           | Some hours \<Rightarrow>
               Ok (suspendTx now targetId moderatorId reason (rr_notes input) hours ''suspended'' db))
      | (BAN, Some reason) \<Rightarrow>
          Ok (banTx now targetId moderatorId reason (rr_notes input) ''banned'' db))"

definition markReport :: "instant \<Rightarrow> ResolveReportInput \<Rightarrow> user_id \<Rightarrow> Db \<Rightarrow> Db" where
  "markReport now input moderatorId db =
     db\<lparr>db_reports := updateWhere (\<lambda>r. r_id r = rr_reportId input)
          (\<lambda>r. r\<lparr>r_status := (if rr_action input = DISMISS then ReportStatus_DISMISSED
                              else ReportStatus_ACTIONED),
                 r_reviewedById := Some moderatorId, r_reviewedAt := Some now,
                 r_moderatorNotes := rr_notes input\<rparr>) (db_reports db)\<rparr>"

definition resolve ::
    "instant \<Rightarrow> ResolveReportInput \<Rightarrow> user_id \<Rightarrow> UserRole \<Rightarrow> World \<Rightarrow> AppError + World" where
  "resolve now input moderatorId moderatorRole w =
     (case find (\<lambda>r. r_id r = rr_reportId input) (db_reports (w_db w)) of
        None \<Rightarrow> Throw (Errors_notFound ''That report'')
      | Some report \<Rightarrow>
          if r_status report = ReportStatus_ACTIONED \<or> r_status report = ReportStatus_DISMISSED
          then Throw (Errors_conflict ''That report has already been resolved.'')
          else
            andThen (assertActionable (r_reportedUserId report) moderatorId (w_db w)) (\<lambda>targetId.
            andThen (if rr_action input = BAN then assertMayBan moderatorRole else Ok ()) (\<lambda>_.
            andThen (resolveAction now input targetId moderatorId (markReport now input moderatorId (w_db w)))
              (\<lambda>db. Ok (w\<lparr>w_redis := (if rr_action input = SUSPEND \<or> rr_action input = BAN
                                      then evict targetId (w_redis w) else w_redis w),
                         w_db := moderationAudit now moderatorId
                           (''moderation.report.'' @ actionLower (rr_action input)) targetId db\<rparr>)))))"

record DirectInput =
  di_targetUserId :: user_id
  di_ban :: bool
  di_reason :: string
  di_notes :: "string option"
  di_hours :: "int option"

definition resolveDirect ::
    "instant \<Rightarrow> DirectInput \<Rightarrow> user_id \<Rightarrow> UserRole \<Rightarrow> World \<Rightarrow> AppError + World" where
  "resolveDirect now input moderatorId moderatorRole w =
     andThen (assertActionable (di_targetUserId input) moderatorId (w_db w)) (\<lambda>target.
     andThen (if di_ban input then assertMayBan moderatorRole else Ok ()) (\<lambda>_.
       let hours = (case di_hours input of Some h \<Rightarrow> h | None \<Rightarrow> 24);
           db = (if di_ban input
                 then banTx now target moderatorId (di_reason input) (di_notes input) ''ban'' (w_db w)
                 else suspendTx now target moderatorId (di_reason input) (di_notes input) hours ''suspend''
                        (w_db w))
       in Ok (w\<lparr>w_redis := evict target (w_redis w),
               w_db := moderationAudit now moderatorId
                 (''moderation.user.'' @ (if di_ban input then ''ban'' else ''suspend'')) target db\<rparr>)))"

definition reinstate :: "instant \<Rightarrow> user_id \<Rightarrow> user_id \<Rightarrow> string \<Rightarrow> Db \<Rightarrow> AppError + Db" where
  "reinstate now userId moderatorId reason db =
     (case loadMatchCandidate userId db of
        None \<Rightarrow> Throw (Errors_notFound ''That user'')
      | Some target \<Rightarrow>
          if u_status target \<noteq> AccountStatus_BANNED \<and> u_status target \<noteq> AccountStatus_SUSPENDED
          then Throw (Errors_conflict ''That account is not currently restricted.'')
          else
            let lifted = db\<lparr>db_bans := updateWhere (\<lambda>n. n_userId n = userId \<and> n_liftedAt n = None)
                  (\<lambda>n. n\<lparr>n_liftedAt := Some now, n_liftedById := Some moderatorId\<rparr>) (db_bans db)\<rparr>
            in Ok (moderationAudit now moderatorId ''moderation.user.reinstate'' userId
                 (addModAction now userId moderatorId ModerationActionType_UNBAN reason None None
                   (updateUser userId
                     (\<lambda>u. if u_status u = AccountStatus_BANNED \<or> u_status u = AccountStatus_SUSPENDED
                          then u\<lparr>u_status := AccountStatus_ACTIVE\<rparr> else u) lifted))))"

text \<open>\<^verbatim>\<open>POST /admin/users/role\<close>. An unknown user makes the update, and with it the transaction, fail.\<close>

definition setRole :: "instant \<Rightarrow> user_id \<Rightarrow> UserRole \<Rightarrow> user_id \<Rightarrow> Db \<Rightarrow> AppError + Db" where
  "setRole now userId role actorId db =
     (if userId = actorId then Throw (Errors_forbiddenWith ''You cannot change your own role.'')
      else if db_users db userId = None then Throw Errors_internal
      else Ok (moderationAudit now actorId ''admin.user.role'' userId
             (updateUser userId
               (\<lambda>u. u\<lparr>u_role := role, u_tokenGeneration := u_tokenGeneration u + 1\<rparr>) db)))"

section \<open>The queue\<close>

record QueueQuery =
  qq_page :: nat
  qq_pageSize :: nat
  qq_status :: "ReportStatus option"
  qq_category :: "ReportCategory option"
  qq_priorityFirst :: bool

definition queueWhere :: "QueueQuery \<Rightarrow> ReportRow \<Rightarrow> bool" where
  "queueWhere q r \<longleftrightarrow>
     (case qq_status q of
        Some s \<Rightarrow> r_status r = s
      | None \<Rightarrow> r_status r = ReportStatus_PENDING \<or> r_status r = ReportStatus_UNDER_REVIEW) \<and>
     (case qq_category q of Some c \<Rightarrow> r_category r = c | None \<Rightarrow> True)"

definition reportPriority :: "ReportRow \<Rightarrow> nat" where
  "reportPriority r = (if r_category r \<in> set PRIORITY_REPORT_CATEGORIES then 0 else 1)"

definition queueRows :: "QueueQuery \<Rightarrow> Db \<Rightarrow> ReportRow list" where
  "queueRows q db =
     take (qq_pageSize q) (drop ((qq_page q - 1) * qq_pageSize q)
       (sort_key r_createdAt (filter (queueWhere q) (db_reports db))))"

text \<open>A page with each report's history, the total, and whether there is more. The priority order is made
over the fetched page.\<close>

definition moderationQueue ::
    "QueueQuery \<Rightarrow> Db \<Rightarrow> (ReportRow \<times> nat \<times> nat) list \<times> nat \<times> bool" where
  "moderationQueue q db =
     (let rows = queueRows q db;
          total = length (filter (queueWhere q) (db_reports db));
          items = (if qq_priorityFirst q
                   then sort_key reportPriority (sort_key r_createdAt rows) else rows)
      in (map (\<lambda>r. (r, getReportHistory (r_reportedUserId r) db)) items, total,
          qq_page q * qq_pageSize q < total))"

end
