(* ===== verification/Settings.thy ===== *)
theory Settings
  imports Matchmaker
begin

text \<open>Operator settings: the defaults and the stored rows of \<^verbatim>\<open>packages/database/src/settings.ts\<close>, and the two
caches and the environment's overrides of \<^verbatim>\<open>apps/api/src/services/settings.service.ts\<close>. A deadline that
passes is an argument: whether Redis answers, whether Postgres answers.\<close>

section \<open>Values\<close>

record SystemSettings =
  ss_minimumAge :: int
  ss_registrationOpen :: bool
  ss_guestAccessEnabled :: bool
  ss_maintenanceMode :: bool
  ss_requireEmailVerificationToMatch :: bool
  ss_enabledCountries :: "string list option"
  ss_supportedLocales :: "Locale list"
  ss_matchmaking :: MatchmakingSettings

definition DEFAULT_SYSTEM_SETTINGS :: SystemSettings where
  "DEFAULT_SYSTEM_SETTINGS =
     \<lparr>ss_minimumAge = 18, ss_registrationOpen = True, ss_guestAccessEnabled = False, ss_maintenanceMode = False,
      ss_requireEmailVerificationToMatch = True, ss_enabledCountries = None,
      ss_supportedLocales = [Locale_EN, Locale_ES, Locale_PT, Locale_FR, Locale_DE, Locale_IT],
      ss_matchmaking = \<lparr>relaxationStages = DEFAULT_RELAXATION_STAGES, maxQueueSeconds = 180,
        skipCooldownSeconds = 1800, minSecondsBetweenSkips = 1, negotiationTimeoutMs = 20000\<rparr>\<rparr>"

text \<open>The stored rows, each missing or null or a value of the type its writer's schema gives it.\<close>

record StoredSettings =
  st_minimumAge :: "int option"
  st_registrationOpen :: "bool option"
  st_guestAccessEnabled :: "bool option"
  st_maintenanceMode :: "bool option"
  st_requireEmailVerificationToMatch :: "bool option"
  st_enabledCountries :: "string list option"
  st_supportedLocales :: "Locale list option"
  st_matchmaking :: "MatchmakingSettings option"

definition readSetting :: "'a option \<Rightarrow> 'a \<Rightarrow> 'a" where
  "readSetting value fallback = (case value of None \<Rightarrow> fallback | Some v \<Rightarrow> v)"

definition DEFAULT_MINIMUM_AGE :: int where
  "DEFAULT_MINIMUM_AGE = 18"

definition loadSystemSettings :: "StoredSettings \<Rightarrow> SystemSettings" where
  "loadSystemSettings rows =
     (let d = DEFAULT_SYSTEM_SETTINGS in
      \<lparr>ss_minimumAge = max (readSetting (st_minimumAge rows) (ss_minimumAge d)) DEFAULT_MINIMUM_AGE,
       ss_registrationOpen = readSetting (st_registrationOpen rows) (ss_registrationOpen d),
       ss_guestAccessEnabled = readSetting (st_guestAccessEnabled rows) (ss_guestAccessEnabled d),
       ss_maintenanceMode = readSetting (st_maintenanceMode rows) (ss_maintenanceMode d),
       ss_requireEmailVerificationToMatch =
         readSetting (st_requireEmailVerificationToMatch rows) (ss_requireEmailVerificationToMatch d),
       ss_enabledCountries =
         (case st_enabledCountries rows of None \<Rightarrow> ss_enabledCountries d | Some c \<Rightarrow> Some c),
       ss_supportedLocales = readSetting (st_supportedLocales rows) (ss_supportedLocales d),
       ss_matchmaking = readSetting (st_matchmaking rows) (ss_matchmaking d)\<rparr>)"

text \<open>\<^verbatim>\<open>settings.service.ts\<close>: two caches in front of the rows, and the environment on top.\<close>

record AppConfig =
  cf_MINIMUM_AGE :: int
  cf_MAINTENANCE_MODE :: bool
  cf_REGISTRATION_OPEN :: bool
  cf_REQUIRE_EMAIL_VERIFICATION :: bool
  cf_GUEST_ACCESS_ENABLED :: bool

definition applyEnvOverrides :: "SystemSettings \<Rightarrow> AppConfig \<Rightarrow> SystemSettings" where
  "applyEnvOverrides s config =
     s\<lparr>ss_minimumAge := max (ss_minimumAge s) (cf_MINIMUM_AGE config),
       ss_maintenanceMode := (ss_maintenanceMode s \<or> cf_MAINTENANCE_MODE config),
       ss_registrationOpen := (ss_registrationOpen s \<and> cf_REGISTRATION_OPEN config),
       ss_requireEmailVerificationToMatch :=
         (ss_requireEmailVerificationToMatch s \<and> cf_REQUIRE_EMAIL_VERIFICATION config),
       ss_guestAccessEnabled := (ss_guestAccessEnabled s \<and> cf_GUEST_ACCESS_ENABLED config)\<rparr>"

record SettingsCache =
  sk_memory :: "(SystemSettings \<times> instant) option"
  sk_redis :: "(unit, SystemSettings stored) register"

text \<open>What the layers below the memory cache answer: the value in Redis, or the rows (the defaults when
Postgres is late) with the overrides, which are then written back to Redis when it answers. Both put the
value into memory for a second.\<close>

definition readThrough ::
    "instant \<Rightarrow> AppConfig \<Rightarrow> bool \<Rightarrow> StoredSettings option \<Rightarrow> SettingsCache \<Rightarrow> SystemSettings \<times> SettingsCache" where
  "readThrough now config redisUp rows c =
     (case (if redisUp then live (sk_redis c) now () else None) of
        Some (Parsed value) \<Rightarrow> (value, c\<lparr>sk_memory := Some (value, now + 1000)\<rparr>)
      | other \<Rightarrow>
          let value = applyEnvOverrides
                (case rows of Some r \<Rightarrow> loadSystemSettings r | None \<Rightarrow> DEFAULT_SYSTEM_SETTINGS) config;
              redis = (if redisUp then setEx now (ttl_settings REDIS_TTL) () (Parsed value) (sk_redis c)
                       else sk_redis c)
          in (value, \<lparr>sk_memory = Some (value, now + 1000), sk_redis = redis\<rparr>))"

definition getSettings ::
    "instant \<Rightarrow> AppConfig \<Rightarrow> bool \<Rightarrow> StoredSettings option \<Rightarrow> SettingsCache \<Rightarrow> SystemSettings \<times> SettingsCache" where
  "getSettings now config redisUp rows c =
     (case sk_memory c of
        Some (value, expiresAt) \<Rightarrow> if expiresAt > now then (value, c) else readThrough now config redisUp rows c
      | None \<Rightarrow> readThrough now config redisUp rows c)"

definition invalidate :: "bool \<Rightarrow> SettingsCache \<Rightarrow> SettingsCache" where
  "invalidate redisUp c =
     \<lparr>sk_memory = None, sk_redis = (if redisUp then delKey () (sk_redis c) else sk_redis c)\<rparr>"

section \<open>Properties\<close>

text \<open>The caches of a process over time: reads at any instants and with any outages, rows that anybody
edited in any way, invalidations, and a corrupt or evicted entry in Redis.\<close>

inductive cacheReachable :: "AppConfig \<Rightarrow> SettingsCache \<Rightarrow> bool" for config where
  start: "cacheReachable config \<lparr>sk_memory = None, sk_redis = (\<lambda>k. None)\<rparr>"
| read: "cacheReachable config c \<Longrightarrow> cacheReachable config (snd (getSettings now config up rows c))"
| drop: "cacheReachable config c \<Longrightarrow> cacheReachable config (invalidate up c)"
| corrupt: "cacheReachable config c \<Longrightarrow> cacheReachable config (c\<lparr>sk_redis := (sk_redis c)(() \<mapsto> (Corrupt, t))\<rparr>)"

text \<open>What the environment and the law demand of a value.\<close>

definition allowedBy :: "AppConfig \<Rightarrow> SystemSettings \<Rightarrow> bool" where
  "allowedBy config s \<longleftrightarrow>
     DEFAULT_MINIMUM_AGE \<le> ss_minimumAge s \<and> cf_MINIMUM_AGE config \<le> ss_minimumAge s \<and>
     (cf_MAINTENANCE_MODE config \<longrightarrow> ss_maintenanceMode s) \<and>
     (ss_registrationOpen s \<longrightarrow> cf_REGISTRATION_OPEN config) \<and>
     (ss_guestAccessEnabled s \<longrightarrow> cf_GUEST_ACCESS_ENABLED config)"

definition cacheOk :: "AppConfig \<Rightarrow> SettingsCache \<Rightarrow> bool" where
  "cacheOk config c \<longleftrightarrow>
     (case sk_memory c of None \<Rightarrow> True | Some (v, t) \<Rightarrow> allowedBy config v) \<and>
     (case sk_redis c () of Some (Parsed v, t) \<Rightarrow> allowedBy config v | other \<Rightarrow> True)"

lemma loaded_allowed:
  "allowedBy config (applyEnvOverrides
     (case rows of Some r \<Rightarrow> loadSystemSettings r | None \<Rightarrow> DEFAULT_SYSTEM_SETTINGS) config)"
  by (cases rows)
     (auto simp: allowedBy_def applyEnvOverrides_def loadSystemSettings_def DEFAULT_SYSTEM_SETTINGS_def
       DEFAULT_MINIMUM_AGE_def Let_def)

lemma readThrough_ok:
  assumes "cacheOk config c"
  shows "allowedBy config (fst (readThrough now config up rows c)) \<and> cacheOk config (snd (readThrough now config up rows c))"
proof -
  let ?v = "applyEnvOverrides (case rows of Some r \<Rightarrow> loadSystemSettings r | None \<Rightarrow> DEFAULT_SYSTEM_SETTINGS) config"
  have v: "allowedBy config ?v" by (rule loaded_allowed)
  show ?thesis
  proof (cases "if up then live (sk_redis c) now () else None")
    case None
    with v assms show ?thesis
      by (auto simp: readThrough_def cacheOk_def setEx_def Let_def)
  next
    case (Some x)
    then have "up" and x: "live (sk_redis c) now () = Some x" by (auto split: if_splits)
    from x obtain t where "sk_redis c () = Some (x, t)"
      by (auto simp: live_def split: option.splits if_splits)
    with \<open>up\<close> x v assms show ?thesis
      by (cases x) (auto simp: readThrough_def cacheOk_def setEx_def Let_def)
  qed
qed

lemma getSettings_ok:
  assumes "cacheOk config c"
  shows "allowedBy config (fst (getSettings now config up rows c)) \<and> cacheOk config (snd (getSettings now config up rows c))"
proof (cases "sk_memory c")
  case None
  then show ?thesis using readThrough_ok [OF assms] by (simp add: getSettings_def)
next
  case (Some x)
  moreover from this assms have "allowedBy config (fst x)" by (auto simp: cacheOk_def)
  ultimately show ?thesis
    using assms readThrough_ok [OF assms] by (cases x) (simp add: getSettings_def)
qed

lemma cacheReachable_ok: "cacheReachable config c \<Longrightarrow> cacheOk config c"
proof (induction rule: cacheReachable.induct)
  case (drop c up)
  then show ?case by (auto simp: cacheOk_def invalidate_def delKey_def split: option.splits)
qed (auto simp: getSettings_ok, auto simp: cacheOk_def)

text \<open>The age gate has a floor nobody can lower. Whatever rows are stored, in whatever state the caches
are, with Redis or Postgres down, corrupt or stale: the settings a request sees never allow an age below
eighteen or below the environment's, and are never more open than the environment allows.\<close>

theorem settings_never_below_floor:
  assumes "cacheReachable config c"
  shows "allowedBy config (fst (getSettings now config up rows c))"
  using getSettings_ok [OF cacheReachable_ok [OF assms]] by blast

definition exampleConfig :: AppConfig where
  "exampleConfig = \<lparr>cf_MINIMUM_AGE = 21, cf_MAINTENANCE_MODE = False, cf_REGISTRATION_OPEN = True,
     cf_REQUIRE_EMAIL_VERIFICATION = True, cf_GUEST_ACCESS_ENABLED = False\<rparr>"

lemma settings_never_below_floor_witness:
  "21 \<le> ss_minimumAge (fst (getSettings 5 exampleConfig True
     (Some \<lparr>st_minimumAge = Some 13, st_registrationOpen = None, st_guestAccessEnabled = Some True,
        st_maintenanceMode = None, st_requireEmailVerificationToMatch = None, st_enabledCountries = None,
        st_supportedLocales = None, st_matchmaking = None\<rparr>)
     \<lparr>sk_memory = None, sk_redis = (\<lambda>k. None)\<rparr>))"
  using settings_never_below_floor [OF cacheReachable.start, of exampleConfig 5 True]
  by (simp add: allowedBy_def exampleConfig_def)

end
