(* ===== verification/Auth_Service.thy ===== *)
theory Auth_Service
  imports Moderation Rate_Limit Settings
begin

text \<open>Accounts and sessions, \<^verbatim>\<open>apps/api/src/services/auth.service.ts\<close>, with the token functions of
\<^verbatim>\<open>packages/auth/src/tokens.ts\<close> it calls and the two routes of \<^verbatim>\<open>auth.routes.ts\<close> that write themselves.
Password hashing (\<^verbatim>\<open>argon2\<close>), the digests, the signature (\<^verbatim>\<open>jose\<close>) and everything random are fields of
\<open>AuthEnv\<close>. An operation returns its answer and the database after it, because some refusals write too; a
transaction is one step. Writing the audit log is best effort in the code and succeeds here.\<close>

section \<open>Surroundings\<close>

record AuthEnv =
  ax_now :: instant
  ax_today :: UtcDate
  ax_verifyPassword :: "string \<Rightarrow> string \<Rightarrow> bool"
  ax_hashPassword :: "string \<Rightarrow> string"
  ax_needsRehash :: "string \<Rightarrow> bool"
  ax_hashToken :: "string \<Rightarrow> string"
  ax_hashIp :: "string \<Rightarrow> string"
  ax_isoTime :: "instant \<Rightarrow> string"
  ax_sign :: "JwtPayload \<Rightarrow> int \<Rightarrow> string \<Rightarrow> string"
  ax_secret :: string
  ax_freshToken :: string
  ax_freshId :: row_id
  ax_freshUserId :: user_id

record SessionContext =
  sc_ip :: string
  sc_userAgent :: "string option"

record AuthResultInternal =
  ar_userId :: user_id
  ar_accessToken :: string
  ar_expiresIn :: int
  ar_refreshToken :: string
  ar_sessionId :: row_id

definition Errors_invalidCredentials :: AppError where
  "Errors_invalidCredentials = appError INVALID_CREDENTIALS ''That email or password is incorrect.''"

definition Errors_registrationClosed :: AppError where
  "Errors_registrationClosed =
     appError REGISTRATION_CLOSED ''New registrations are temporarily closed. Please check back soon.''"

definition Errors_underage :: "int \<Rightarrow> AppError" where
  "Errors_underage minimumAge =
     appError UNDERAGE (''You must be at least '' @ natText (nat minimumAge) @ '' to use Trip2World.'')"

definition Errors_unsupportedCountry :: AppError where
  "Errors_unsupportedCountry = appError UNSUPPORTED_COUNTRY ''Trip2World is not yet available in your country.''"

definition Errors_tokenInvalid :: "string option \<Rightarrow> AppError" where
  "Errors_tokenInvalid message = appError TOKEN_INVALID
     (case message of Some m \<Rightarrow> m | None \<Rightarrow> ''That link is not valid. Please request a new one.'')"

definition Errors_suspendedUntil :: "(instant \<Rightarrow> string) \<Rightarrow> string \<Rightarrow> instant option \<Rightarrow> AppError" where
  "Errors_suspendedUntil isoTime reason until =
     (case until of
        Some t \<Rightarrow> appError ACCOUNT_SUSPENDED (''Your account is suspended until '' @ isoTime t @ ''. '' @ reason)
      | None \<Rightarrow> Errors_accountSuspended reason)"

text \<open>The lifetimes, in seconds and days, of \<^verbatim>\<open>constants.ts\<close>.\<close>

definition ACCESS_TOKEN_TTL_SECONDS :: int where "ACCESS_TOKEN_TTL_SECONDS = 15 * 60"

definition REFRESH_TOKEN_TTL_SECONDS :: int where "REFRESH_TOKEN_TTL_SECONDS = 30 * 24 * 60 * 60"

definition EMAIL_VERIFICATION_TTL_SECONDS :: int where "EMAIL_VERIFICATION_TTL_SECONDS = 24 * 60 * 60"

definition PASSWORD_RESET_TTL_SECONDS :: int where "PASSWORD_RESET_TTL_SECONDS = 60 * 60"

definition ACCOUNT_DELETION_GRACE_DAYS :: int where "ACCOUNT_DELETION_GRACE_DAYS = 14"

definition refreshTokenExpiry :: "instant \<Rightarrow> instant" where
  "refreshTokenExpiry now = now + REFRESH_TOKEN_TTL_SECONDS * 1000"

section \<open>Access tokens\<close>

text \<open>The claims \<^verbatim>\<open>verifyAccessToken\<close> reads back; role and plan are signed too and never read. A secret
that is too short throws.\<close>

definition issueAccessToken ::
    "(JwtPayload \<Rightarrow> int \<Rightarrow> string \<Rightarrow> string) \<Rightarrow> instant \<Rightarrow> string \<Rightarrow> user_id \<Rightarrow> row_id \<Rightarrow> int \<Rightarrow> (string \<times> int) option" where
  "issueAccessToken sign now secret userId sessionId generation =
     (if length secret < 32 then None
      else Some (sign \<lparr>jp_sub = Some userId, jp_sid = Some sessionId, jp_gen = Some generation\<rparr>
                   (now div 1000 + ACCESS_TOKEN_TTL_SECONDS) secret, ACCESS_TOKEN_TTL_SECONDS))"

section \<open>Rows\<close>

text \<open>\<^verbatim>\<open>user.findUnique({ where: { email } })\<close>, and the same by name.\<close>

definition userWhere :: "(UserRow \<Rightarrow> bool) \<Rightarrow> Db \<Rightarrow> user_id option" where
  "userWhere P db = find (\<lambda>i. case db_users db i of Some u \<Rightarrow> P u | None \<Rightarrow> False) (db_userIds db)"

definition authAudit :: "AuthEnv \<Rightarrow> user_id \<Rightarrow> string \<Rightarrow> string option \<Rightarrow> Db \<Rightarrow> Db" where
  "authAudit env actorId action ipHash db =
     db\<lparr>db_audit := db_audit db @
       [\<lparr>l_actorId = Some actorId, l_actorType = AuditActorType_USER, l_action = action,
         l_targetType = Some ''User'', l_targetId = Some actorId, l_ipHash = ipHash,
         l_createdAt = ax_now env\<rparr>]\<rparr>"

definition addVerificationToken ::
    "AuthEnv \<Rightarrow> user_id \<Rightarrow> VerificationTokenKind \<Rightarrow> int \<Rightarrow> Db \<Rightarrow> Db" where
  "addVerificationToken env userId kind ttlSeconds db =
     db\<lparr>db_verificationTokens := db_verificationTokens db @
       [\<lparr>v_id = ax_freshId env, v_userId = userId, v_kind = kind,
         v_tokenHash = ax_hashToken env (ax_freshToken env), v_consumedAt = None,
         v_expiresAt = ax_now env + ttlSeconds * 1000, v_createdAt = ax_now env\<rparr>]\<rparr>"

definition consumeTokens :: "instant \<Rightarrow> (VerificationTokenRow \<Rightarrow> bool) \<Rightarrow> Db \<Rightarrow> Db" where
  "consumeTokens now which db =
     db\<lparr>db_verificationTokens := updateWhere which (\<lambda>v. v\<lparr>v_consumedAt := Some now\<rparr>) (db_verificationTokens db)\<rparr>"

section \<open>Registration\<close>

record RegisterInput =
  rg_email :: string
  rg_username :: string
  rg_displayName :: "string option"
  rg_password :: string
  rg_birthDate :: UtcDate
  rg_country :: string
  rg_locale :: string
  rg_languages :: "string list"

definition recentFromIp :: "instant \<Rightarrow> string \<Rightarrow> Db \<Rightarrow> nat" where
  "recentFromIp now ipHash db =
     length (filter (\<lambda>i. case db_users db i of
         Some u \<Rightarrow> u_lastIpHash u = Some ipHash \<and> now - 3600000 \<le> u_createdAt u
       | None \<Rightarrow> False) (db_userIds db))"

text \<open>The new row, with the columns' defaults for what the code does not name.\<close>

definition registeredRow :: "AuthEnv \<Rightarrow> RegisterInput \<Rightarrow> bool \<Rightarrow> string \<Rightarrow> UserRow" where
  "registeredRow env input verify ipHash =
     \<lparr>u_email = rg_email input, u_username = rg_username input,
      u_passwordHash = Some (ax_hashPassword env (rg_password input)),
      u_role = UserRole_USER,
      u_status = (if verify then AccountStatus_PENDING_VERIFICATION else AccountStatus_ACTIVE),
      u_plan = PlanTier_FREE, u_emailVerified = (\<not> verify),
      u_emailVerifiedAt = (if verify then None else Some (ax_now env)), u_tokenGeneration = 0,
      u_failedLoginAttempts = 0, u_lockedUntil = None, u_lastLoginAt = None, u_lastIpHash = Some ipHash,
      u_createdAt = ax_now env, u_deletionRequestedAt = None, u_deletedAt = None,
      u_profile = Some \<lparr>pr_displayName = rg_displayName input, pr_avatarUrl = None, pr_bio = None,
        pr_birthDate = BirthDate (rg_birthDate input), pr_gender = Gender_UNSPECIFIED,
        pr_country = Some (rg_country input), pr_languages = rg_languages input, pr_locale = rg_locale input\<rparr>,
      u_privacy = Some DEFAULT_PRIVACY_SETTINGS,
      u_preference = Some \<lparr>pf_preferredGender = GenderPreference_ANY, pf_preferredCountries = [],
        pf_preferredLanguages = [], pf_preferredAgeBrackets = []\<rparr>,
      u_interests = []\<rparr>"

text \<open>The answer is the id, and the verification token when one is needed. The unique indexes are checked
in the order they were created, the address first.\<close>

definition register ::
    "AuthEnv \<Rightarrow> RegisterInput \<Rightarrow> SystemSettings \<Rightarrow> SessionContext \<Rightarrow> Db \<Rightarrow>
     (AppError + user_id \<times> string option) \<times> Db" where
  "register env input settings context db =
     (let ipHash = ax_hashIp env (sc_ip context);
          verify = ss_requireEmailVerificationToMatch settings;
          userId = ax_freshUserId env in
      if \<not> ss_registrationOpen settings then (Throw Errors_registrationClosed, db)
      else if \<not> meetsMinimumAge (BirthDate (rg_birthDate input)) (ss_minimumAge settings) (ax_today env)
      then (Throw (Errors_underage (ss_minimumAge settings)), db)
      else if (case ss_enabledCountries settings of None \<Rightarrow> False | Some cs \<Rightarrow> rg_country input \<notin> set cs)
      then (Throw Errors_unsupportedCountry, db)
      else if 5 \<le> recentFromIp (ax_now env) ipHash db then (Throw (Errors_rateLimited 3600), db)
      else if userWhere (\<lambda>u. u_email u = rg_email input) db \<noteq> None
      then (Throw (Errors_conflict ''An account with that email already exists.''), db)
      else if userWhere (\<lambda>u. u_username u = rg_username input) db \<noteq> None
      then (Throw (Errors_conflict ''That username is already taken.''), db)
      else
        let db1 = db\<lparr>db_users := (db_users db)(userId \<mapsto> registeredRow env input verify ipHash),
                     db_userIds := db_userIds db @ [userId]\<rparr>;
            db2 = (if verify
                   then addVerificationToken env userId EMAIL_VERIFICATION EMAIL_VERIFICATION_TTL_SECONDS db1
                   else db1)
        in (Ok (userId, if verify then Some (ax_freshToken env) else None),
            authAudit env userId ''auth.register'' (Some ipHash) db2))"

section \<open>Sign-in and sessions\<close>

definition recordFailedLogin :: "instant \<Rightarrow> user_id \<Rightarrow> int \<Rightarrow> Db \<Rightarrow> Db" where
  "recordFailedLogin now userId currentAttempts db =
     (let attempts = currentAttempts + 1;
          lockedUntil = (if 5 \<le> attempts
                         then Some (now + min (30 * 2 ^ nat (attempts - 5)) 900 * 1000) else None)
      in updateUser userId (\<lambda>u. u\<lparr>u_failedLoginAttempts := attempts, u_lockedUntil := lockedUntil\<rparr>) db)"

definition signedIn :: "AuthEnv \<Rightarrow> user_id \<Rightarrow> int \<Rightarrow> row_id \<Rightarrow> AppError + AuthResultInternal" where
  "signedIn env userId generation sessionId =
     (case issueAccessToken (ax_sign env) (ax_now env) (ax_secret env) userId sessionId generation of
        None \<Rightarrow> Throw Errors_internal
      | Some (token, ttl) \<Rightarrow>
          Ok \<lparr>ar_userId = userId, ar_accessToken = token, ar_expiresIn = ttl,
              ar_refreshToken = ax_freshToken env, ar_sessionId = sessionId\<rparr>)"

definition issueSession ::
    "AuthEnv \<Rightarrow> user_id \<Rightarrow> int \<Rightarrow> SessionContext \<Rightarrow> Db \<Rightarrow> (AppError + AuthResultInternal) \<times> Db" where
  "issueSession env userId generation context db =
     (let sessionId = ax_freshId env;
          row = \<lparr>s_id = sessionId, s_userId = userId,
                 s_refreshTokenHash = ax_hashToken env (ax_freshToken env), s_rotationCounter = 0,
                 s_revokedAt = None, s_revokedReason = None, s_expiresAt = refreshTokenExpiry (ax_now env),
                 s_lastUsedAt = ax_now env, s_userAgent = map_option (take 400) (sc_userAgent context),
                 s_ipHash = ax_hashIp env (sc_ip context)\<rparr>
      in (signedIn env userId generation sessionId, db\<lparr>db_sessions := db_sessions db @ [row]\<rparr>))"

definition restrictionError :: "AuthEnv \<Rightarrow> Restriction \<Rightarrow> AppError" where
  "restrictionError env r =
     (if rs_status r = AccountStatus_BANNED then Errors_accountBanned (rs_reason r)
      else Errors_suspendedUntil (ax_isoTime env) (rs_reason r) (rs_expiresAt r))"

text \<open>What sign-in writes once the password was right and no restriction holds.\<close>

definition admitLogin :: "AuthEnv \<Rightarrow> user_id \<Rightarrow> string \<Rightarrow> string \<Rightarrow> SessionContext \<Rightarrow> Db \<Rightarrow> Db" where
  "admitLogin env userId passwordHash password context db =
     (let upgraded = (if ax_needsRehash env passwordHash
            then updateUser userId (\<lambda>u. u\<lparr>u_passwordHash := Some (ax_hashPassword env password)\<rparr>) db else db);
          ipHash = ax_hashIp env (sc_ip context)
      in authAudit env userId ''auth.login'' (Some ipHash)
           (updateUser userId (\<lambda>u. u\<lparr>u_failedLoginAttempts := 0, u_lockedUntil := None,
              u_lastLoginAt := Some (ax_now env), u_lastIpHash := Some ipHash,
              u_deletionRequestedAt := None\<rparr>) upgraded))"

definition verifyLogin ::
    "AuthEnv \<Rightarrow> user_id \<Rightarrow> UserRow \<Rightarrow> string \<Rightarrow> string \<Rightarrow> SessionContext \<Rightarrow> Db \<Rightarrow>
     (AppError + AuthResultInternal) \<times> Db" where
  "verifyLogin env userId user passwordHash password context db =
     (if \<not> ax_verifyPassword env passwordHash password
      then (Throw Errors_invalidCredentials,
            recordFailedLogin (ax_now env) userId (u_failedLoginAttempts user) db)
      else case getActiveRestriction userId (ax_now env) db of
             (Some r, db1) \<Rightarrow> (Throw (restrictionError env r), db1)
           | (None, db1) \<Rightarrow>
               issueSession env userId (u_tokenGeneration user) context
                 (admitLogin env userId passwordHash password context db1))"

definition login ::
    "AuthEnv \<Rightarrow> string \<Rightarrow> string \<Rightarrow> SessionContext \<Rightarrow> Db \<Rightarrow> (AppError + AuthResultInternal) \<times> Db" where
  "login env email password context db =
     (case userWhere (\<lambda>u. u_email u = email) db of
        None \<Rightarrow> (Throw Errors_invalidCredentials, db)
      | Some userId \<Rightarrow>
          (case db_users db userId of
             None \<Rightarrow> (Throw Errors_invalidCredentials, db)
           | Some user \<Rightarrow>
               (case u_passwordHash user of
                  None \<Rightarrow> (Throw Errors_invalidCredentials, db)
                | Some passwordHash \<Rightarrow>
                    if passwordHash = [] \<or> u_deletedAt user \<noteq> None
                    then (Throw Errors_invalidCredentials, db)
                    else if (case u_lockedUntil user of None \<Rightarrow> False | Some t \<Rightarrow> ax_now env < t)
                    then (Throw (Errors_rateLimited
                            ((the (u_lockedUntil user) - ax_now env + 999) div 1000)), db)
                    else verifyLogin env userId user passwordHash password context db)))"

text \<open>\<^verbatim>\<open>revokeAllSessions\<close> is \<open>revokeSessions\<close> for the sessions of a user.\<close>

definition revokeAllSessions :: "instant \<Rightarrow> user_id \<Rightarrow> string \<Rightarrow> Db \<Rightarrow> Db" where
  "revokeAllSessions now userId reason db = revokeSessions now reason (\<lambda>s. s_userId s = userId) db"

definition sessionExpired :: "string" where
  "sessionExpired = ''Your session has expired. Please sign in again.''"

definition rotate :: "AuthEnv \<Rightarrow> row_id \<Rightarrow> SessionContext \<Rightarrow> Db \<Rightarrow> Db" where
  "rotate env sessionId context db =
     db\<lparr>db_sessions := updateWhere (\<lambda>s. s_id s = sessionId)
          (\<lambda>s. s\<lparr>s_refreshTokenHash := ax_hashToken env (ax_freshToken env),
                 s_rotationCounter := s_rotationCounter s + 1, s_lastUsedAt := ax_now env,
                 s_expiresAt := refreshTokenExpiry (ax_now env),
                 s_ipHash := ax_hashIp env (sc_ip context)\<rparr>) (db_sessions db)\<rparr>"

text \<open>The session's user exists by its foreign key; a missing row is refused like a deleted one.\<close>

definition refresh ::
    "AuthEnv \<Rightarrow> string \<Rightarrow> SessionContext \<Rightarrow> Db \<Rightarrow> (AppError + AuthResultInternal) \<times> Db" where
  "refresh env rawToken context db =
     (case find (\<lambda>s. s_refreshTokenHash s = ax_hashToken env rawToken) (db_sessions db) of
        None \<Rightarrow> (Throw (Errors_tokenInvalid (Some sessionExpired)), db)
      | Some session \<Rightarrow>
          if s_revokedAt session \<noteq> None
          then (Throw (Errors_tokenInvalid (Some sessionExpired)),
                revokeAllSessions (ax_now env) (s_userId session) ''refresh-token-reuse'' db)
          else case db_users db (s_userId session) of
            None \<Rightarrow> (Throw (Errors_tokenExpired sessionExpired), db)
          | Some user \<Rightarrow>
              if s_expiresAt session \<le> ax_now env \<or> u_deletedAt user \<noteq> None
              then (Throw (Errors_tokenExpired sessionExpired),
                    db\<lparr>db_sessions := filter (\<lambda>s. s_id s \<noteq> s_id session) (db_sessions db)\<rparr>)
              else case getActiveRestriction (s_userId session) (ax_now env) db of
                (Some r, db1) \<Rightarrow>
                  (Throw (restrictionError env r),
                   revokeAllSessions (ax_now env) (s_userId session) ''account-restricted'' db1)
              | (None, db1) \<Rightarrow>
                  (signedIn env (s_userId session) (u_tokenGeneration user) (s_id session),
                   rotate env (s_id session) context db1))"

definition logout :: "instant \<Rightarrow> row_id \<Rightarrow> Db \<Rightarrow> Db" where
  "logout now sessionId db =
     db\<lparr>db_sessions := updateWhere (\<lambda>s. s_id s = sessionId)
          (\<lambda>s. s\<lparr>s_revokedAt := Some now, s_revokedReason := Some ''logout''\<rparr>) (db_sessions db)\<rparr>"

text \<open>\<^verbatim>\<open>POST /logout-all\<close>.\<close>

definition logoutAll :: "instant \<Rightarrow> user_id \<Rightarrow> Db \<Rightarrow> Db" where
  "logoutAll now userId db = bumpGeneration userId (revokeAllSessions now userId ''user-logout-all'' db)"

section \<open>Links sent by mail\<close>

text \<open>The checks \<open>verifyEmail\<close> and \<open>resetPassword\<close> share.\<close>

definition openToken ::
    "AuthEnv \<Rightarrow> VerificationTokenKind \<Rightarrow> string \<Rightarrow> Db \<Rightarrow> AppError + VerificationTokenRow" where
  "openToken env kind rawToken db =
     (case find (\<lambda>v. v_tokenHash v = ax_hashToken env rawToken) (db_verificationTokens db) of
        None \<Rightarrow> Throw (Errors_tokenInvalid None)
      | Some record \<Rightarrow>
          if v_kind record \<noteq> kind then Throw (Errors_tokenInvalid None)
          else if v_consumedAt record \<noteq> None
          then Throw (Errors_tokenInvalid (Some ''That link has already been used.''))
          else if v_expiresAt record \<le> ax_now env
          then Throw (Errors_tokenExpired ''That link has expired. Please request a new one.'')
          else Ok record)"

definition verifyEmail :: "AuthEnv \<Rightarrow> string \<Rightarrow> Db \<Rightarrow> AppError + user_id \<times> Db" where
  "verifyEmail env rawToken db =
     andThen (openToken env EMAIL_VERIFICATION rawToken db) (\<lambda>record.
       let userId = v_userId record;
           db1 = consumeTokens (ax_now env) (\<lambda>v. v_id v = v_id record) db;
           db2 = updateUser userId (\<lambda>u. u\<lparr>u_emailVerified := True, u_emailVerifiedAt := Some (ax_now env)\<rparr>) db1;
           db3 = updateUser userId (\<lambda>u. if u_status u = AccountStatus_PENDING_VERIFICATION
                   then u\<lparr>u_status := AccountStatus_ACTIVE\<rparr> else u) db2
       in Ok (userId, authAudit env userId ''auth.email.verified'' None db3))"

text \<open>\<^verbatim>\<open>POST /resend-verification\<close>: the token that is mailed, if any.\<close>

definition resendVerification :: "AuthEnv \<Rightarrow> string \<Rightarrow> Db \<Rightarrow> string option \<times> Db" where
  "resendVerification env email db =
     (case userWhere (\<lambda>u. u_email u = email) db of
        None \<Rightarrow> (None, db)
      | Some userId \<Rightarrow>
          (case db_users db userId of
             None \<Rightarrow> (None, db)
           | Some user \<Rightarrow>
               if u_emailVerified user then (None, db)
               else (Some (ax_freshToken env),
                     addVerificationToken env userId EMAIL_VERIFICATION 86400 db)))"

definition createPasswordResetToken :: "AuthEnv \<Rightarrow> string \<Rightarrow> Db \<Rightarrow> (user_id \<times> string) option \<times> Db" where
  "createPasswordResetToken env email db =
     (case userWhere (\<lambda>u. u_email u = email) db of
        None \<Rightarrow> (None, db)
      | Some userId \<Rightarrow>
          (case db_users db userId of
             None \<Rightarrow> (None, db)
           | Some user \<Rightarrow>
               if u_deletedAt user \<noteq> None \<or> u_status user = AccountStatus_BANNED then (None, db)
               else (Some (userId, ax_freshToken env),
                     addVerificationToken env userId PASSWORD_RESET PASSWORD_RESET_TTL_SECONDS
                       (consumeTokens (ax_now env)
                         (\<lambda>v. v_userId v = userId \<and> v_kind v = PASSWORD_RESET \<and> v_consumedAt v = None) db))))"

definition resetPassword :: "AuthEnv \<Rightarrow> string \<Rightarrow> string \<Rightarrow> Db \<Rightarrow> AppError + user_id \<times> Db" where
  "resetPassword env rawToken newPassword db =
     andThen (openToken env PASSWORD_RESET rawToken db) (\<lambda>record.
       let userId = v_userId record;
           db1 = consumeTokens (ax_now env) (\<lambda>v. v_id v = v_id record) db;
           db2 = updateUser userId (\<lambda>u. u\<lparr>u_passwordHash := Some (ax_hashPassword env newPassword),
                   u_tokenGeneration := u_tokenGeneration u + 1, u_failedLoginAttempts := 0,
                   u_lockedUntil := None\<rparr>) db1;
           db3 = revokeSessions (ax_now env) ''password-reset'' (\<lambda>s. s_userId s = userId) db2
       in Ok (userId, authAudit env userId ''auth.password.reset'' None db3))"

section \<open>Own account\<close>

definition ownPassword :: "AuthEnv \<Rightarrow> user_id \<Rightarrow> string \<Rightarrow> Db \<Rightarrow> bool" where
  "ownPassword env userId password db =
     (case db_users db userId of
        None \<Rightarrow> False
      | Some u \<Rightarrow> (case u_passwordHash u of None \<Rightarrow> False
                 | Some h \<Rightarrow> h \<noteq> [] \<and> ax_verifyPassword env h password))"

definition changePassword ::
    "AuthEnv \<Rightarrow> user_id \<Rightarrow> string \<Rightarrow> string \<Rightarrow> row_id \<Rightarrow> Db \<Rightarrow> AppError + Db" where
  "changePassword env userId currentPassword newPassword keepSessionId db =
     (if \<not> ownPassword env userId currentPassword db then Throw Errors_invalidCredentials
      else
        Ok (authAudit env userId ''auth.password.changed'' None
          (revokeSessions (ax_now env) ''password-change'' (\<lambda>s. s_userId s = userId \<and> s_id s \<noteq> keepSessionId)
            (updateUser userId (\<lambda>u. u\<lparr>u_passwordHash := Some (ax_hashPassword env newPassword),
               u_tokenGeneration := u_tokenGeneration u + 1\<rparr>) db))))"

definition requestDeletion :: "AuthEnv \<Rightarrow> user_id \<Rightarrow> string \<Rightarrow> Db \<Rightarrow> AppError + instant \<times> Db" where
  "requestDeletion env userId password db =
     (if \<not> ownPassword env userId password db then Throw Errors_invalidCredentials
      else
        Ok (ax_now env + ACCOUNT_DELETION_GRACE_DAYS * 86400000,
          authAudit env userId ''account.deletion.requested'' None
            (revokeSessions (ax_now env) ''deletion-requested'' (\<lambda>s. s_userId s = userId)
              (updateUser userId (\<lambda>u. u\<lparr>u_deletionRequestedAt := Some (ax_now env),
                 u_status := AccountStatus_DEACTIVATED\<rparr>) db))))"

end
