(* ===== verification/Worker_Jobs.thy ===== *)
theory Worker_Jobs
  imports Auth_Service Tokens
begin

text \<open>The maintenance worker, \<^verbatim>\<open>apps/worker/src/jobs.ts\<close>, and what the schema's referential actions do
when a user row is deleted (\<^verbatim>\<open>schema.prisma\<close>). A job is a function of the database and the clock that
returns how many rows it processed and the rows after it; one erasure, and the two writes of \<open>expireBans\<close>,
are one transaction. Jobs never overlap: the worker runs one at a time.\<close>

type_synonym job_result = "nat \<times> Db"

definition BATCH_SIZE :: nat where
  "BATCH_SIZE = 200"

section \<open>Deleting a user\<close>

text \<open>\<^verbatim>\<open>onDelete: SetNull\<close>.\<close>

definition setNull :: "user_id \<Rightarrow> user_id option \<Rightarrow> user_id option" where
  "setNull userId ref = (if ref = Some userId then None else ref)"

text \<open>Matches reference users only through their participants; the column that names who ended one is a
plain id.\<close>

definition deleteUser :: "user_id \<Rightarrow> Db \<Rightarrow> Db" where
  "deleteUser userId db =
     db\<lparr>db_users := tableDelete userId (db_users db),
        db_userIds := filter (\<lambda>i. i \<noteq> userId) (db_userIds db),
        db_sessions := filter (\<lambda>s. s_userId s \<noteq> userId) (db_sessions db),
        db_verificationTokens := filter (\<lambda>v. v_userId v \<noteq> userId) (db_verificationTokens db),
        db_blocks := filter (\<lambda>b. b_blockerId b \<noteq> userId \<and> b_blockedUserId b \<noteq> userId) (db_blocks db),
        db_connections := filter (\<lambda>c. c_userAId c \<noteq> userId \<and> c_userBId c \<noteq> userId) (db_connections db),
        db_requests := filter (\<lambda>q. q_fromUserId q \<noteq> userId \<and> q_toUserId q \<noteq> userId) (db_requests db),
        db_participants := filter (\<lambda>p. p_userId p \<noteq> userId) (db_participants db),
        db_reports := map (\<lambda>r. r\<lparr>r_reporterId := setNull userId (r_reporterId r),
             r_reviewedById := setNull userId (r_reviewedById r)\<rparr>)
           (filter (\<lambda>r. r_reportedUserId r \<noteq> userId) (db_reports db)),
        db_modActions := map (\<lambda>a. a\<lparr>a_moderatorId := setNull userId (a_moderatorId a)\<rparr>)
           (filter (\<lambda>a. a_targetUserId a \<noteq> userId) (db_modActions db)),
        db_bans := map (\<lambda>n. n\<lparr>n_issuedById := setNull userId (n_issuedById n)\<rparr>)
           (filter (\<lambda>n. n_userId n \<noteq> userId) (db_bans db)),
        db_audit := map (\<lambda>l. l\<lparr>l_actorId := setNull userId (l_actorId l)\<rparr>) (db_audit db)\<rparr>"

text \<open>The same for the token tables; a campaign outlives its author.\<close>

definition deleteTokenUser :: "user_id \<Rightarrow> TokenDb \<Rightarrow> TokenDb" where
  "deleteTokenUser userId td =
     td\<lparr>td_users := filter (\<lambda>i. i \<noteq> userId) (td_users td),
        td_accounts := tableDelete userId (td_accounts td),
        td_ledger := filter (\<lambda>r. lg_userId r \<noteq> userId) (td_ledger td),
        td_tips := (\<lambda>k. case td_tips td k of
            Some t \<Rightarrow> if tp_fromUserId t = userId \<or> tp_toUserId t = userId then None else Some t
          | None \<Rightarrow> None),
        td_purchases := filter (\<lambda>p. pu_userId p \<noteq> userId) (td_purchases td),
        td_campaigns := map (\<lambda>c. c\<lparr>cg_createdById := setNull userId (cg_createdById c)\<rparr>) (td_campaigns td),
        td_grants := filter (\<lambda>g. gr_userId g \<noteq> userId) (td_grants td)\<rparr>"

section \<open>Erasure\<close>

definition systemAudit :: "instant \<Rightarrow> user_id option \<Rightarrow> string \<Rightarrow> string option \<Rightarrow> Db \<Rightarrow> Db" where
  "systemAudit now actorId action targetId db =
     db\<lparr>db_audit := db_audit db @
       [\<lparr>l_actorId = actorId, l_actorType = AuditActorType_SYSTEM, l_action = action,
         l_targetType = Some ''User'', l_targetId = targetId, l_ipHash = None, l_createdAt = now\<rparr>]\<rparr>"

definition erasureDue :: "instant \<Rightarrow> UserRow \<Rightarrow> bool" where
  "erasureDue cutoff u =
     ((case u_deletionRequestedAt u of None \<Rightarrow> False | Some t \<Rightarrow> t \<le> cutoff) \<and> u_deletedAt u = None)"

text \<open>\<^verbatim>\<open>findMany\<close> without an order: the first rows the database comes across, here in the order of ids.\<close>

definition usersWhere :: "(UserRow \<Rightarrow> bool) \<Rightarrow> nat \<Rightarrow> Db \<Rightarrow> user_id list" where
  "usersWhere P limit db =
     take limit (filter (\<lambda>i. case db_users db i of Some u \<Rightarrow> P u | None \<Rightarrow> False) (db_userIds db))"

definition eraseUser :: "instant \<Rightarrow> user_id \<Rightarrow> Db \<times> TokenDb \<Rightarrow> Db \<times> TokenDb" where
  "eraseUser now userId = (\<lambda>(db, td).
     (deleteUser userId (systemAudit now (Some userId) ''account.erased'' (Some userId) db),
      deleteTokenUser userId td))"

definition eraseDeletedAccounts :: "instant \<Rightarrow> int \<Rightarrow> Db \<times> TokenDb \<Rightarrow> nat \<times> Db \<times> TokenDb" where
  "eraseDeletedAccounts now graceDays s =
     (let due = usersWhere (erasureDue (now - graceDays * 86400000)) BATCH_SIZE (fst s)
      in (length due, fold (eraseUser now) due s))"

section \<open>Expiry of restrictions\<close>

definition putStatus :: "(user_id \<Rightarrow> UserRow \<Rightarrow> bool) \<Rightarrow> AccountStatus \<Rightarrow> Db \<Rightarrow> Db" where
  "putStatus P status db =
     db\<lparr>db_users := (\<lambda>i. map_option (\<lambda>u. if P i u then u\<lparr>u_status := status\<rparr> else u) (db_users db i))\<rparr>"

text \<open>The users read and the users still matching at the write are the same here: nothing runs in between.
The write repeats the status in its condition for when something does.\<close>

definition stillSuspended :: "instant \<Rightarrow> user_id \<Rightarrow> Db \<Rightarrow> bool" where
  "stillSuspended now userId db =
     list_ex (\<lambda>a. a_targetUserId a = userId \<and> a_type a = ModerationActionType_SUSPENSION \<and>
        (case a_expiresAt a of None \<Rightarrow> True | Some t \<Rightarrow> now < t)) (db_modActions db)"

definition expireSuspensions :: "instant \<Rightarrow> Db \<Rightarrow> job_result" where
  "expireSuspensions now db =
     (let suspended = usersWhere (\<lambda>u. u_status u = AccountStatus_SUSPENDED \<and> u_deletedAt u = None) BATCH_SIZE db;
          toRestore = filter (\<lambda>i. \<not> stillSuspended now i db) suspended
      in if toRestore = [] then (0, db)
         else (length toRestore,
           systemAudit now None ''moderation.suspension.expired'' None
             (putStatus (\<lambda>i u. i \<in> set toRestore \<and> u_status u = AccountStatus_SUSPENDED)
               AccountStatus_ACTIVE db)))"

text \<open>A ban is named by its position in the table, which stands for its id.\<close>

definition lapsedBans :: "instant \<Rightarrow> Db \<Rightarrow> nat list" where
  "lapsedBans now db =
     take BATCH_SIZE (filter (\<lambda>k. let n = db_bans db ! k in
        n_liftedAt n = None \<and> \<not> n_permanent n \<and> pastExpiry (n_expiresAt n) now) [0..<length (db_bans db)])"

definition expireBans :: "instant \<Rightarrow> Db \<Rightarrow> job_result" where
  "expireBans now db =
     (let expired = lapsedBans now db;
          userIds = map (\<lambda>k. n_userId (db_bans db ! k)) expired;
          bans = map (\<lambda>k. if k \<in> set expired then (db_bans db ! k)\<lparr>n_liftedAt := Some now\<rparr> else db_bans db ! k)
                   [0..<length (db_bans db)];
          otherOpen = (\<lambda>i. list_ex (\<lambda>k. k \<notin> set expired \<and> n_userId (bans ! k) = i \<and> n_liftedAt (bans ! k) = None)
                        [0..<length bans])
      in if expired = [] then (0, db)
         else (length expired,
           putStatus (\<lambda>i u. i \<in> set userIds \<and> u_status u = AccountStatus_BANNED \<and> \<not> otherOpen i)
             AccountStatus_ACTIVE (db\<lparr>db_bans := bans\<rparr>)))"

section \<open>Retention\<close>

definition before :: "instant \<Rightarrow> instant option \<Rightarrow> bool" where
  "before cutoff t = (case t of None \<Rightarrow> False | Some x \<Rightarrow> x < cutoff)"

definition pruneVerificationTokens :: "instant \<Rightarrow> Db \<Rightarrow> job_result" where
  "pruneVerificationTokens now db =
     (let cutoff = now - 7 * 86400000;
          spent = (\<lambda>v. v_expiresAt v < cutoff \<or> before cutoff (v_consumedAt v))
      in (length (filter spent (db_verificationTokens db)),
          db\<lparr>db_verificationTokens := filter (\<lambda>v. \<not> spent v) (db_verificationTokens db)\<rparr>))"

definition pruneSessions :: "instant \<Rightarrow> Db \<Rightarrow> job_result" where
  "pruneSessions now db =
     (let cutoff = now - 30 * 86400000;
          spent = (\<lambda>s. s_expiresAt s < cutoff \<or> before cutoff (s_revokedAt s))
      in (length (filter spent (db_sessions db)),
          db\<lparr>db_sessions := filter (\<lambda>s. \<not> spent s) (db_sessions db)\<rparr>))"

definition pruneAuditLog :: "instant \<Rightarrow> int \<Rightarrow> Db \<Rightarrow> job_result" where
  "pruneAuditLog now retentionDays db =
     (let cutoff = now - retentionDays * 86400000
      in (length (filter (\<lambda>l. l_createdAt l < cutoff) (db_audit db)),
          db\<lparr>db_audit := filter (\<lambda>l. \<not> l_createdAt l < cutoff) (db_audit db)\<rparr>))"

text \<open>Only the rows: the table of matches is a map, so their number is not computed.\<close>

definition closeStaleMatches :: "instant \<Rightarrow> Db \<Rightarrow> Db" where
  "closeStaleMatches now db =
     (let cutoff = now - 6 * 3600000
      in db\<lparr>db_matches := tableMap (\<lambda>m. if m_endedAt m = None \<and> m_startedAt m < cutoff
             then m\<lparr>m_endedAt := Some now, m_endReason := Some MatchEndReason_ERROR\<rparr> else m) (db_matches db)\<rparr>)"

section \<open>The schedule\<close>

datatype MaintenanceJob =
    EraseDeletedAccounts | ExpireSuspensions | ExpireBans | CloseStaleMatches
  | PruneVerificationTokens | PruneSessions | PruneAuditLog

fun runJob :: "instant \<Rightarrow> int \<Rightarrow> MaintenanceJob \<Rightarrow> Db \<times> TokenDb \<Rightarrow> Db \<times> TokenDb" where
  "runJob now retention EraseDeletedAccounts s = snd (eraseDeletedAccounts now ACCOUNT_DELETION_GRACE_DAYS s)"
| "runJob now retention ExpireSuspensions s = (snd (expireSuspensions now (fst s)), snd s)"
| "runJob now retention ExpireBans s = (snd (expireBans now (fst s)), snd s)"
| "runJob now retention CloseStaleMatches s = (closeStaleMatches now (fst s), snd s)"
| "runJob now retention PruneVerificationTokens s = (snd (pruneVerificationTokens now (fst s)), snd s)"
| "runJob now retention PruneSessions s = (snd (pruneSessions now (fst s)), snd s)"
| "runJob now retention PruneAuditLog s = (snd (pruneAuditLog now retention (fst s)), snd s)"

end
