(* ===== verification/Auth_Safety.thy ===== *)
theory Auth_Safety
  imports Auth_Service
begin

text \<open>What accounts and sessions guarantee: the well-formedness of the identity tables and the growth of the
token generation over every operation, including moderation's; what a password reset, a rotation and a
lockout do; and what happens to an account between registration, deletion request and sign-in.\<close>

section \<open>Lookups\<close>

lemma userWhere_Some:
  "userWhere P db = Some i \<Longrightarrow> i \<in> set (db_userIds db) \<and> (\<exists>u. db_users db i = Some u \<and> P u)"
  by (auto simp: userWhere_def dest!: find_Some_iff2 split: option.splits)

lemma userWhere_None:
  "userWhere P db = None \<longleftrightarrow> (\<forall>i\<in>set (db_userIds db). \<forall>u. db_users db i = Some u \<longrightarrow> \<not> P u)"
  by (auto simp: userWhere_def find_None_iff2 split: option.splits)

text \<open>The identity tables: ids, addresses and names are unique, every session and every link belongs to an
account, the counters are not negative.\<close>

definition accountsOk :: "Db \<Rightarrow> bool" where
  "accountsOk db \<longleftrightarrow>
     distinct (db_userIds db) \<and> set (db_userIds db) = dom (db_users db) \<and>
     (\<forall>i j u v. db_users db i = Some u \<longrightarrow> db_users db j = Some v \<longrightarrow>
        u_email u = u_email v \<or> u_username u = u_username v \<longrightarrow> i = j) \<and>
     s_userId ` set (db_sessions db) \<subseteq> dom (db_users db) \<and>
     v_userId ` set (db_verificationTokens db) \<subseteq> dom (db_users db) \<and>
     (\<forall>i u. db_users db i = Some u \<longrightarrow> 0 \<le> u_tokenGeneration u \<and> 0 \<le> u_failedLoginAttempts u)"

lemma accountsOk_unique:
  assumes ok: "accountsOk db" and u: "db_users db i = Some u" and v: "db_users db j = Some v"
    and eq: "u_email u = u_email v \<or> u_username u = u_username v"
  shows "i = j"
proof -
  from ok have "\<forall>i j u v. db_users db i = Some u \<longrightarrow> db_users db j = Some v \<longrightarrow>
      u_email u = u_email v \<or> u_username u = u_username v \<longrightarrow> i = j"
    unfolding accountsOk_def by (elim conjE)
  from this [rule_format, OF u v eq] show ?thesis .
qed

lemma userWhere_email:
  assumes "accountsOk db" and "db_users db i = Some u"
  shows "userWhere (\<lambda>v. u_email v = u_email u) db = Some i"
proof -
  have "i \<in> set (db_userIds db)" using assms by (auto simp: accountsOk_def)
  then have "userWhere (\<lambda>v. u_email v = u_email u) db \<noteq> None"
    using assms(2) unfolding userWhere_None by blast
  then obtain j where j: "userWhere (\<lambda>v. u_email v = u_email u) db = Some j" by blast
  then obtain v where "db_users db j = Some v" "u_email v = u_email u" using userWhere_Some by blast
  with accountsOk_unique [OF assms(1) assms(2)] have "j = i" by auto
  with j show ?thesis by simp
qed

section \<open>Every step on the identity tables\<close>

text \<open>The identity of a row: what no update but registration writes. A step keeps it, keeps the ids, and
never lowers a generation.\<close>

definition rowKept :: "UserRow \<Rightarrow> UserRow \<Rightarrow> bool" where
  "rowKept u v \<longleftrightarrow>
     u_email v = u_email u \<and> u_username v = u_username u \<and> u_tokenGeneration u \<le> u_tokenGeneration v \<and>
     (0 \<le> u_failedLoginAttempts u \<longrightarrow> 0 \<le> u_failedLoginAttempts v) \<and>
     u_createdAt v = u_createdAt u \<and> map_option pr_birthDate (u_profile v) = map_option pr_birthDate (u_profile u)"

definition keepsIdentity :: "Db \<Rightarrow> Db \<Rightarrow> bool" where
  "keepsIdentity db db' \<longleftrightarrow>
     db_userIds db' = db_userIds db \<and> (\<forall>i. rel_option rowKept (db_users db i) (db_users db' i)) \<and>
     s_userId ` set (db_sessions db') \<subseteq> s_userId ` set (db_sessions db) \<union> dom (db_users db) \<and>
     v_userId ` set (db_verificationTokens db') \<subseteq> v_userId ` set (db_verificationTokens db) \<union> dom (db_users db)"

lemma rowKept_refl [simp]: "rowKept u u"
  by (simp add: rowKept_def)

lemma rowKept_trans: "rowKept u v \<Longrightarrow> rowKept v w \<Longrightarrow> rowKept u w"
  by (auto simp: rowKept_def)

lemma rel_rowKept_refl [simp]: "rel_option rowKept x x"
  by (cases x) simp_all

lemma rel_rowKept_trans: "rel_option rowKept x y \<Longrightarrow> rel_option rowKept y z \<Longrightarrow> rel_option rowKept x z"
  by (cases x; cases y; cases z) (auto intro: rowKept_trans)

lemma keepsIdentity_refl [simp]: "keepsIdentity db db"
  by (auto simp: keepsIdentity_def)

lemma keepsIdentity_users:
  assumes "keepsIdentity db db'"
  shows "dom (db_users db') = dom (db_users db)"
    and "db_users db i = Some u \<Longrightarrow> \<exists>v. db_users db' i = Some v \<and> rowKept u v"
    and "db_users db' i = Some v \<Longrightarrow> \<exists>u. db_users db i = Some u \<and> rowKept u v"
proof -
  have r: "rel_option rowKept (db_users db i) (db_users db' i)" for i
    using assms by (simp add: keepsIdentity_def)
  show "db_users db i = Some u \<Longrightarrow> \<exists>v. db_users db' i = Some v \<and> rowKept u v"
    using r [of i] by (cases "db_users db' i") auto
  show "db_users db' i = Some v \<Longrightarrow> \<exists>u. db_users db i = Some u \<and> rowKept u v"
    using r [of i] by (cases "db_users db i") auto
  have "db_users db' i = None \<longleftrightarrow> db_users db i = None" for i
    using r [of i] by (cases "db_users db i"; cases "db_users db' i") auto
  then show "dom (db_users db') = dom (db_users db)" by (auto simp: dom_def)
qed

lemma keepsIdentity_trans [trans]:
  assumes ab: "keepsIdentity a b" and bc: "keepsIdentity b c"
  shows "keepsIdentity a c"
proof -
  have rows: "rel_option rowKept (db_users a i) (db_users c i)" for i
    by (rule rel_rowKept_trans [of _ "db_users b i"]) (use ab bc in \<open>simp_all add: keepsIdentity_def\<close>)
  have d: "dom (db_users b) = dom (db_users a)" by (rule keepsIdentity_users [OF ab])
  have "s_userId ` set (db_sessions c) \<subseteq> s_userId ` set (db_sessions b) \<union> dom (db_users a)"
    "v_userId ` set (db_verificationTokens c) \<subseteq> v_userId ` set (db_verificationTokens b) \<union> dom (db_users a)"
    using bc unfolding d [symmetric] by (simp_all add: keepsIdentity_def)
  note c = this
  have "s_userId ` set (db_sessions c) \<subseteq> s_userId ` set (db_sessions a) \<union> dom (db_users a)"
    by (rule subset_trans [OF c(1)]) (use ab in \<open>simp add: keepsIdentity_def\<close>)
  moreover have "v_userId ` set (db_verificationTokens c) \<subseteq> v_userId ` set (db_verificationTokens a) \<union> dom (db_users a)"
    by (rule subset_trans [OF c(2)]) (use ab in \<open>simp add: keepsIdentity_def\<close>)
  ultimately show ?thesis using ab bc rows by (simp add: keepsIdentity_def)
qed

lemma accountsOk_kept:
  assumes ok: "accountsOk db" and k: "keepsIdentity db db'"
  shows "accountsOk db'"
proof -
  note users = keepsIdentity_users [OF k]
  have unique: "i = j" if i: "db_users db' i = Some u" and j: "db_users db' j = Some v"
      and eq: "u_email u = u_email v \<or> u_username u = u_username v" for i j u v
  proof -
    from users(3) [OF i] users(3) [OF j] obtain u0 v0
      where "db_users db i = Some u0" "rowKept u0 u" "db_users db j = Some v0" "rowKept v0 v" by blast
    with eq show ?thesis by (intro accountsOk_unique [OF ok]) (auto simp: rowKept_def)
  qed
  have counters: "0 \<le> u_tokenGeneration u \<and> 0 \<le> u_failedLoginAttempts u" if "db_users db' i = Some u" for i u
  proof -
    from users(3) [OF that] obtain u0 where "db_users db i = Some u0" "rowKept u0 u" by blast
    moreover from this ok have "0 \<le> u_tokenGeneration u0" "0 \<le> u_failedLoginAttempts u0"
      by (auto simp: accountsOk_def)
    ultimately show ?thesis by (simp add: rowKept_def)
  qed
  have "s_userId ` set (db_sessions db') \<subseteq> s_userId ` set (db_sessions db) \<union> dom (db_users db)"
    "v_userId ` set (db_verificationTokens db') \<subseteq> v_userId ` set (db_verificationTokens db) \<union> dom (db_users db)"
    "db_userIds db' = db_userIds db"
    using k by (simp_all add: keepsIdentity_def)
  note k' = this
  have refs: "s_userId ` set (db_sessions db') \<subseteq> dom (db_users db')"
    "v_userId ` set (db_verificationTokens db') \<subseteq> dom (db_users db')"
    unfolding users(1)
    by (rule subset_trans [OF k'(1)] subset_trans [OF k'(2)], use ok in \<open>simp add: accountsOk_def\<close>)+
  have ids: "distinct (db_userIds db')" "set (db_userIds db') = dom (db_users db')"
    unfolding users(1) k'(3) using ok by (simp_all add: accountsOk_def)
  show ?thesis
    unfolding accountsOk_def using unique counters refs ids by (intro conjI allI impI) simp_all
qed

text \<open>The elementary writes.\<close>

lemma keeps_updateUser:
  assumes "\<And>r. db_users db u = Some r \<Longrightarrow> rowKept r (f r)"
  shows "keepsIdentity db (updateUser u f db)"
  using assms by (cases "db_users db u") (auto simp: keepsIdentity_def db_users_updateUser)

lemma keeps_sessions:
  assumes "s_userId ` set ss \<subseteq> s_userId ` set (db_sessions db) \<union> dom (db_users db)"
  shows "keepsIdentity db (db\<lparr>db_sessions := ss\<rparr>)"
  using assms by (auto simp: keepsIdentity_def)

lemma keeps_tokens:
  assumes "v_userId ` set vs \<subseteq> v_userId ` set (db_verificationTokens db) \<union> dom (db_users db)"
  shows "keepsIdentity db (db\<lparr>db_verificationTokens := vs\<rparr>)"
  using assms by (auto simp: keepsIdentity_def)

lemma keeps_other [simp]:
  "keepsIdentity db (db'\<lparr>db_audit := x\<rparr>) = keepsIdentity db db'"
  "keepsIdentity db (db'\<lparr>db_bans := y\<rparr>) = keepsIdentity db db'"
  "keepsIdentity db (db'\<lparr>db_modActions := z\<rparr>) = keepsIdentity db db'"
  "keepsIdentity db (db'\<lparr>db_reports := w\<rparr>) = keepsIdentity db db'"
  by (simp_all add: keepsIdentity_def)

lemma image_updateWhere: "(\<And>r. g (f r) = g r) \<Longrightarrow> g ` set (updateWhere P f rows) = g ` set rows"
  by (metis map_updateWhere list.set_map)

lemma keeps_revokeSessions: "keepsIdentity db (revokeSessions now r P db)"
  unfolding revokeSessions_def by (rule keeps_sessions) (simp add: image_updateWhere)

lemma keeps_consumeTokens: "keepsIdentity db (consumeTokens now P db)"
  unfolding consumeTokens_def by (rule keeps_tokens) (simp add: image_updateWhere)

lemma keeps_addVerificationToken:
  "u \<in> dom (db_users db) \<Longrightarrow> keepsIdentity db (addVerificationToken env u k t db)"
  unfolding addVerificationToken_def by (rule keeps_tokens) auto

lemma keeps_authAudit [simp]: "keepsIdentity db (authAudit env u a h db') = keepsIdentity db db'"
  by (simp add: authAudit_def)

text \<open>The same as rules for what an operation does on top of another.\<close>

lemma keeps_intros:
  "keepsIdentity a b \<Longrightarrow> (\<And>r. db_users b u = Some r \<Longrightarrow> rowKept r (f r)) \<Longrightarrow> keepsIdentity a (updateUser u f b)"
  "keepsIdentity a b \<Longrightarrow> keepsIdentity a (revokeSessions now r P b)"
  "keepsIdentity a b \<Longrightarrow> keepsIdentity a (consumeTokens now Q b)"
  "keepsIdentity a b \<Longrightarrow> u \<in> dom (db_users b) \<Longrightarrow> keepsIdentity a (addVerificationToken env u k t b)"
  by (blast intro: keepsIdentity_trans keeps_updateUser keeps_revokeSessions keeps_consumeTokens
        keeps_addVerificationToken)+

lemma keeps_writes [simp]:
  "keepsIdentity db (moderationAudit now a x t db') = keepsIdentity db db'"
  "keepsIdentity db (addModAction now t m ty r n e db') = keepsIdentity db db'"
  "keepsIdentity db (addBan now t m r db') = keepsIdentity db db'"
  by (simp_all add: moderationAudit_def addModAction_def addBan_def)

lemma keeps_getActiveRestriction: "keepsIdentity db (snd (getActiveRestriction u now db))"
  by (auto simp: getActiveRestriction_def Let_def rowKept_def intro!: keeps_intros split: option.split)

section \<open>The operations\<close>

lemma keeps_login:
  assumes ok: "accountsOk db"
  shows "keepsIdentity db (snd (login env email password ctx db))"
proof -
  have attempts: "0 \<le> u_failedLoginAttempts u" if "db_users db i = Some u" for i u
    using ok that by (auto simp: accountsOk_def)
  have failed: "keepsIdentity db (recordFailedLogin now i (u_failedLoginAttempts u) db)"
    if "db_users db i = Some u" for now i u
    using attempts [OF that] that
    by (auto simp: recordFailedLogin_def Let_def rowKept_def intro!: keeps_intros)
  have admitted: "keepsIdentity db (snd (issueSession env i g ctx (admitLogin env i h password ctx b)))"
    if "keepsIdentity db b" and "i \<in> dom (db_users db)" for i g h b
  proof -
    have a: "keepsIdentity db (admitLogin env i h password ctx b)"
      using that(1) by (auto simp: admitLogin_def Let_def rowKept_def intro!: keeps_intros)
    have "i \<in> dom (db_users (admitLogin env i h password ctx b))"
      unfolding keepsIdentity_users(1) [OF a] by (rule that)
    then have "keepsIdentity (admitLogin env i h password ctx b)
        (snd (issueSession env i g ctx (admitLogin env i h password ctx b)))"
      by (auto simp: issueSession_def Let_def intro!: keeps_sessions)
    with a show ?thesis by (rule keepsIdentity_trans)
  qed
  have verified: "keepsIdentity db (snd (verifyLogin env i u h password ctx db))"
    if "db_users db i = Some u" for i u h
  proof (cases "getActiveRestriction i (ax_now env) db")
    case (Pair r b)
    then have b: "keepsIdentity db b" using keeps_getActiveRestriction [of db i "ax_now env"] by simp
    show ?thesis
      using Pair b failed [OF that] admitted [OF b domI, OF that]
      by (cases r) (simp_all add: verifyLogin_def)
  qed
  show ?thesis
    using verified by (auto simp: login_def split: option.split)
qed

lemma keeps_refresh:
  assumes ok: "accountsOk db"
  shows "keepsIdentity db (snd (refresh env rawToken ctx db))"
proof -
  have rotated: "keepsIdentity db (rotate env i ctx b)" if "keepsIdentity db b" for i b
  proof -
    have "keepsIdentity b (rotate env i ctx b)"
      unfolding rotate_def by (rule keeps_sessions) (simp add: image_updateWhere)
    with that show ?thesis by (rule keepsIdentity_trans)
  qed
  have dropped: "keepsIdentity db (db\<lparr>db_sessions := filter P (db_sessions db)\<rparr>)" for P
    by (rule keeps_sessions) auto
  show ?thesis
    using rotated dropped keeps_getActiveRestriction [of db]
    by (auto simp: refresh_def revokeAllSessions_def intro: keeps_intros
          split: option.split prod.split) (metis keeps_intros(2) snd_conv)+
qed

lemma keeps_session_ends:
  "keepsIdentity db (logout now sid db)"
  "keepsIdentity db (logoutAll now u db)"
  unfolding logout_def logoutAll_def bumpGeneration_def revokeAllSessions_def
  by (rule keeps_sessions, simp add: image_updateWhere)
     (auto simp: rowKept_def intro!: keeps_intros)

lemma openToken_Ok:
  "openToken env kind rawToken db = Ok record \<longleftrightarrow>
     find (\<lambda>v. v_tokenHash v = ax_hashToken env rawToken) (db_verificationTokens db) = Some record \<and>
     v_kind record = kind \<and> v_consumedAt record = None \<and> ax_now env < v_expiresAt record"
  by (auto simp: openToken_def not_le split: option.splits if_splits)

lemma consumeTokens_frame [simp]:
  "db_users (consumeTokens now P db) = db_users db"
  "db_sessions (consumeTokens now P db) = db_sessions db"
  by (simp_all add: consumeTokens_def)

lemma keeps_links:
  "verifyEmail env rawToken db = Ok (u, db') \<Longrightarrow> keepsIdentity db db'"
  "resetPassword env rawToken password db = Ok (u, db') \<Longrightarrow> keepsIdentity db db'"
  "keepsIdentity db (snd (resendVerification env email db))"
  "keepsIdentity db (snd (createPasswordResetToken env email db))"
  by (auto simp: verifyEmail_def resetPassword_def resendVerification_def createPasswordResetToken_def
        guard_simps Let_def rowKept_def intro!: keeps_intros split: option.split)

lemma keeps_own_account:
  "changePassword env u p q sid db = Ok db' \<Longrightarrow> keepsIdentity db db'"
  "requestDeletion env u p db = Ok (t, db') \<Longrightarrow> keepsIdentity db db'"
  by (auto simp: changePassword_def requestDeletion_def rowKept_def intro!: keeps_intros split: if_splits)

lemma keeps_restriction:
  "keepsIdentity a b \<Longrightarrow> keepsIdentity a (suspendTx now t m r n h rr b)"
  "keepsIdentity a b \<Longrightarrow> keepsIdentity a (banTx now t m r n rr b)"
  by (auto simp: suspendTx_def banTx_def restrictUser_def rowKept_def intro!: keeps_intros)

lemma keeps_resolveAction:
  "resolveAction now input t m b = Ok b' \<Longrightarrow> keepsIdentity a b \<Longrightarrow> keepsIdentity a b'"
  by (auto simp: resolveAction_def keeps_restriction
        split: ReportAction.splits option.splits)

lemma keeps_moderation:
  "warn now t r n m w = Ok w' \<Longrightarrow> keepsIdentity (w_db w) (w_db w')"
  "resolve now input m role w = Ok w' \<Longrightarrow> keepsIdentity (w_db w) (w_db w')"
  "resolveDirect now direct m role w = Ok w' \<Longrightarrow> keepsIdentity (w_db w) (w_db w')"
  "reinstate now t m r db = Ok db' \<Longrightarrow> keepsIdentity db db'"
  "setRole now t role' m db = Ok db' \<Longrightarrow> keepsIdentity db db'"
  by (auto simp: warn_def resolve_def resolveDirect_def reinstate_def setRole_def markReport_def guard_simps
        Let_def rowKept_def intro!: keeps_intros keeps_restriction
        split: option.splits if_splits dest!: keeps_resolveAction)

section \<open>Reachable accounts\<close>

text \<open>One request of the account, moderation or role API. The id of a new account is one no row has.\<close>

inductive authStep :: "Db \<Rightarrow> Db \<Rightarrow> bool" where
  step_register: "db_users db (ax_freshUserId env) = None \<Longrightarrow>
    authStep db (snd (register env input settings ctx db))"
| step_login: "authStep db (snd (login env email password ctx db))"
| step_refresh: "authStep db (snd (refresh env rawToken ctx db))"
| step_logout: "authStep db (logout now sid db)"
| step_logoutAll: "authStep db (logoutAll now u db)"
| step_verifyEmail: "verifyEmail env rawToken db = Ok (u, db') \<Longrightarrow> authStep db db'"
| step_resend: "authStep db (snd (resendVerification env email db))"
| step_forgot: "authStep db (snd (createPasswordResetToken env email db))"
| step_reset: "resetPassword env rawToken password db = Ok (u, db') \<Longrightarrow> authStep db db'"
| step_change: "changePassword env u p q sid db = Ok db' \<Longrightarrow> authStep db db'"
| step_delete: "requestDeletion env u p db = Ok (t, db') \<Longrightarrow> authStep db db'"
| step_restriction: "authStep db (snd (getActiveRestriction u now db))"
| step_warn: "warn now t r n m w = Ok w' \<Longrightarrow> authStep (w_db w) (w_db w')"
| step_resolve: "resolve now report m role w = Ok w' \<Longrightarrow> authStep (w_db w) (w_db w')"
| step_direct: "resolveDirect now direct m role w = Ok w' \<Longrightarrow> authStep (w_db w) (w_db w')"
| step_reinstate: "reinstate now t m r db = Ok db' \<Longrightarrow> authStep db db'"
| step_role: "setRole now t role' m db = Ok db' \<Longrightarrow> authStep db db'"

text \<open>A registration leaves the tables alone or adds one row.\<close>

lemma register_cases:
  obtains "snd (register env input settings ctx db) = db"
  | row where "u_email row = rg_email input" "u_username row = rg_username input"
      "userWhere (\<lambda>u. u_email u = rg_email input) db = None"
      "userWhere (\<lambda>u. u_username u = rg_username input) db = None"
      "0 \<le> u_tokenGeneration row" "0 \<le> u_failedLoginAttempts row"
      "keepsIdentity (db\<lparr>db_users := (db_users db)(ax_freshUserId env \<mapsto> row),
         db_userIds := db_userIds db @ [ax_freshUserId env]\<rparr>) (snd (register env input settings ctx db))"
proof -
  define ipHash verify where "ipHash = ax_hashIp env (sc_ip ctx)"
    and "verify = ss_requireEmailVerificationToMatch settings"
  define row where "row = registeredRow env input verify ipHash"
  define db1 where "db1 = db\<lparr>db_users := (db_users db)(ax_freshUserId env \<mapsto> row),
         db_userIds := db_userIds db @ [ax_freshUserId env]\<rparr>"
  have fields: "u_email row = rg_email input" "u_username row = rg_username input"
    "0 \<le> u_tokenGeneration row" "0 \<le> u_failedLoginAttempts row"
    by (simp_all add: row_def registeredRow_def)
  have k: "keepsIdentity db1 (authAudit env (ax_freshUserId env) a h (if verify
      then addVerificationToken env (ax_freshUserId env) EMAIL_VERIFICATION t db1 else db1))" for a h t
    by (simp add: keeps_addVerificationToken db1_def)
  show thesis
  proof (cases "snd (register env input settings ctx db) = db")
    case False
    then have "userWhere (\<lambda>u. u_email u = rg_email input) db = None"
      "userWhere (\<lambda>u. u_username u = rg_username input) db = None"
      "\<exists>a h t. snd (register env input settings ctx db) = authAudit env (ax_freshUserId env) a h (if verify
         then addVerificationToken env (ax_freshUserId env) EMAIL_VERIFICATION t db1 else db1)"
      unfolding register_def Let_def ipHash_def [symmetric] verify_def [symmetric] row_def [symmetric] db1_def [symmetric]
      by (auto split: if_splits)
    with that(2) [OF fields(1,2) _ _ fields(3,4)] k show thesis unfolding db1_def by metis
  qed (rule that)
qed

lemma accountsOk_new:
  assumes ok: "accountsOk db" and fresh: "db_users db i = None"
    and e: "userWhere (\<lambda>u. u_email u = u_email row) db = None"
    and n: "userWhere (\<lambda>u. u_username u = u_username row) db = None"
    and c: "0 \<le> u_tokenGeneration row" "0 \<le> u_failedLoginAttempts row"
  shows "accountsOk (db\<lparr>db_users := (db_users db)(i \<mapsto> row), db_userIds := db_userIds db @ [i]\<rparr>)"
proof -
  have ids: "set (db_userIds db) = dom (db_users db)" "distinct (db_userIds db)"
    "s_userId ` set (db_sessions db) \<subseteq> dom (db_users db)"
    "v_userId ` set (db_verificationTokens db) \<subseteq> dom (db_users db)"
    "\<forall>i u. db_users db i = Some u \<longrightarrow> 0 \<le> u_tokenGeneration u \<and> 0 \<le> u_failedLoginAttempts u"
    using ok by (simp_all add: accountsOk_def)
  have new: "u_email u \<noteq> u_email row \<and> u_username u \<noteq> u_username row" if "db_users db j = Some u" for j u
    using e n ids(1) that unfolding userWhere_None by blast
  have unique: "j = k" if j: "((db_users db)(i \<mapsto> row)) j = Some u" and k: "((db_users db)(i \<mapsto> row)) k = Some v"
    and eq: "u_email u = u_email v \<or> u_username u = u_username v" for j k u v
  proof (cases "j = i \<or> k = i")
    case True
    then show ?thesis using j k eq new [of j u] new [of k v] by (auto split: if_splits)
  next
    case False
    with j k eq show ?thesis by (intro accountsOk_unique [OF ok]) auto
  qed
  show ?thesis
    unfolding accountsOk_def
  proof (intro conjI allI impI)
    show "j = k" if "db_users (db\<lparr>db_users := (db_users db)(i \<mapsto> row), db_userIds := db_userIds db @ [i]\<rparr>) j = Some u"
      "db_users (db\<lparr>db_users := (db_users db)(i \<mapsto> row), db_userIds := db_userIds db @ [i]\<rparr>) k = Some v"
      "u_email u = u_email v \<or> u_username u = u_username v" for j k u v
      using unique [of j u k v] that by simp
  qed (use ids fresh c in \<open>auto split: if_splits\<close>)
qed

text \<open>What every step promises: well-formed tables stay so, no row goes away, no generation falls.\<close>

lemma step_kept:
  assumes "authStep db db'" and ok: "accountsOk db"
  shows "keepsIdentity db db' \<or>
    (\<exists>env input settings ctx. db' = snd (register env input settings ctx db) \<and>
       db_users db (ax_freshUserId env) = None)"
  using assms(1)
  by cases (blast intro: keeps_login [OF ok] keeps_refresh [OF ok] keeps_session_ends keeps_links
      keeps_own_account keeps_moderation keeps_getActiveRestriction)+

lemma step_ok:
  assumes "authStep db db'" and ok: "accountsOk db"
  shows "accountsOk db' \<and> (\<forall>i u. db_users db i = Some u \<longrightarrow> (\<exists>v. db_users db' i = Some v \<and> rowKept u v))"
proof (cases "keepsIdentity db db'")
  case True
  then show ?thesis using accountsOk_kept [OF ok True] keepsIdentity_users(2) [OF True] by blast
next
  case False
  with step_kept [OF assms] obtain env input settings ctx
    where reg: "db' = snd (register env input settings ctx db)" and fresh: "db_users db (ax_freshUserId env) = None"
    by blast
  show ?thesis
  proof (cases rule: register_cases [of env input settings ctx db])
    case 1
    then show ?thesis using False by (simp add: reg)
  next
    case (2 row)
    define db1 where "db1 = db\<lparr>db_users := (db_users db)(ax_freshUserId env \<mapsto> row),
      db_userIds := db_userIds db @ [ax_freshUserId env]\<rparr>"
    have ok1: "accountsOk db1"
      unfolding db1_def using 2 fresh ok by (intro accountsOk_new) simp_all
    have k: "keepsIdentity db1 db'" using 2(7) reg by (simp add: db1_def)
    have "\<exists>v. db_users db' i = Some v \<and> rowKept u v" if "db_users db i = Some u" for i u
      using that fresh by (intro keepsIdentity_users(2) [OF k]) (auto simp: db1_def)
    with accountsOk_kept [OF ok1 k] show ?thesis by blast
  qed
qed

section \<open>A small database\<close>

text \<open>One account with its sessions and links, for the examples.\<close>

definition accountDb :: "UserRow \<Rightarrow> SessionRow list \<Rightarrow> VerificationTokenRow list \<Rightarrow> Db" where
  "accountDb row ss vs = emptyDb\<lparr>db_users := [''u'' \<mapsto> row], db_userIds := [''u''], db_sessions := ss,
     db_verificationTokens := vs\<rparr>"

lemma accountsOk_accountDb:
  "0 \<le> u_tokenGeneration row \<Longrightarrow> 0 \<le> u_failedLoginAttempts row \<Longrightarrow>
   s_userId ` set ss \<subseteq> {''u''} \<Longrightarrow> v_userId ` set vs \<subseteq> {''u''} \<Longrightarrow> accountsOk (accountDb row ss vs)"
  by (simp add: accountsOk_def accountDb_def emptyDb_def)

lemma accountDb_fields [simp]:
  "db_users (accountDb row ss vs) = [''u'' \<mapsto> row]" "db_userIds (accountDb row ss vs) = [''u'']"
  "db_sessions (accountDb row ss vs) = ss" "db_verificationTokens (accountDb row ss vs) = vs"
  "db_modActions (accountDb row ss vs) = []" "db_bans (accountDb row ss vs) = []"
  by (simp_all add: accountDb_def emptyDb_def)

end
