(* ===== verification/Worker_Safety.thy ===== *)
theory Worker_Safety
  imports Worker_Jobs Auth_Safety
begin

text \<open>What the maintenance jobs guarantee: erasure takes exactly the accounts that are due and every reference
to them, and what that does to the books; the sweeps of restrictions against the check at sign-in; that a job
can be repeated; that no job breaks the identity tables.\<close>

section \<open>References to a user\<close>

text \<open>Every column of a foreign key to the user table.\<close>

definition mentions :: "user_id \<Rightarrow> Db \<Rightarrow> bool" where
  "mentions u db \<longleftrightarrow>
     (\<exists>s\<in>set (db_sessions db). s_userId s = u) \<or> (\<exists>v\<in>set (db_verificationTokens db). v_userId v = u) \<or>
     (\<exists>b\<in>set (db_blocks db). b_blockerId b = u \<or> b_blockedUserId b = u) \<or>
     (\<exists>c\<in>set (db_connections db). c_userAId c = u \<or> c_userBId c = u) \<or>
     (\<exists>q\<in>set (db_requests db). q_fromUserId q = u \<or> q_toUserId q = u) \<or>
     (\<exists>p\<in>set (db_participants db). p_userId p = u) \<or>
     (\<exists>r\<in>set (db_reports db). r_reportedUserId r = u \<or> r_reporterId r = Some u \<or> r_reviewedById r = Some u) \<or>
     (\<exists>a\<in>set (db_modActions db). a_targetUserId a = u \<or> a_moderatorId a = Some u) \<or>
     (\<exists>n\<in>set (db_bans db). n_userId n = u \<or> n_issuedById n = Some u) \<or>
     (\<exists>l\<in>set (db_audit db). l_actorId l = Some u)"

definition mentionsTokens :: "user_id \<Rightarrow> TokenDb \<Rightarrow> bool" where
  "mentionsTokens u td \<longleftrightarrow>
     td_accounts td u \<noteq> None \<or> (\<exists>r\<in>set (td_ledger td). lg_userId r = u) \<or>
     (\<exists>k t. td_tips td k = Some t \<and> (tp_fromUserId t = u \<or> tp_toUserId t = u)) \<or>
     (\<exists>p\<in>set (td_purchases td). pu_userId p = u) \<or> (\<exists>g\<in>set (td_grants td). gr_userId g = u) \<or>
     (\<exists>c\<in>set (td_campaigns td). cg_createdById c = Some u)"

lemma setNull_Some [simp]: "setNull u x = Some v \<longleftrightarrow> x = Some v \<and> v \<noteq> u"
  by (auto simp: setNull_def)

lemma mentions_deleteUser: "mentions v (deleteUser u db) \<longrightarrow> mentions v db \<and> v \<noteq> u"
  unfolding mentions_def deleteUser_def by auto

lemma tips_deleteTokenUser [simp]:
  "td_tips (deleteTokenUser u td) k = Some t \<longleftrightarrow> td_tips td k = Some t \<and> tp_fromUserId t \<noteq> u \<and> tp_toUserId t \<noteq> u"
  by (auto simp: deleteTokenUser_def split: option.splits)

lemma mentionsTokens_deleteTokenUser: "mentionsTokens v (deleteTokenUser u td) \<longrightarrow> mentionsTokens v td \<and> v \<noteq> u"
  unfolding mentionsTokens_def tips_deleteTokenUser
  by (auto simp: deleteTokenUser_def tableDelete_def split: if_splits)

lemma mentions_systemAudit: "mentions v (systemAudit now a x t db) \<longrightarrow> mentions v db \<or> a = Some v"
  unfolding mentions_def systemAudit_def by auto

lemma eraseUser_mentions:
  "mentions v (fst (eraseUser now u s)) \<Longrightarrow> mentions v (fst s) \<and> v \<noteq> u"
  "mentionsTokens v (snd (eraseUser now u s)) \<Longrightarrow> mentionsTokens v (snd s) \<and> v \<noteq> u"
  using mentions_deleteUser [of v u "systemAudit now (Some u) ''account.erased'' (Some u) (fst s)"]
    mentions_systemAudit [of v now "Some u" "''account.erased''" "Some u" "fst s"]
    mentionsTokens_deleteTokenUser [of v u "snd s"]
  by (auto simp: eraseUser_def case_prod_beta)

section \<open>A batch of erasures\<close>

lemma users_eraseUser: "db_users (fst (eraseUser now u s)) = (db_users (fst s))(u := None)"
  by (simp add: eraseUser_def case_prod_beta deleteUser_def systemAudit_def tableDelete_def)

lemma audit_eraseUser:
  "\<exists>l\<in>set (db_audit (fst (eraseUser now u s))). l_action l = ''account.erased'' \<and> l_targetId l = Some u"
  "l \<in> set (db_audit (fst s)) \<Longrightarrow>
   \<exists>m\<in>set (db_audit (fst (eraseUser now u s))). l_action m = l_action l \<and> l_targetId m = l_targetId l"
  by (force simp: eraseUser_def case_prod_beta deleteUser_def systemAudit_def)+

lemma erase_fold_users:
  "db_users (fst (fold (eraseUser now) us s)) i = (if i \<in> set us then None else db_users (fst s) i)"
  by (induction us arbitrary: s) (simp_all add: users_eraseUser)

lemma erase_fold_mentions:
  "mentions v (fst (fold (eraseUser now) us s)) \<Longrightarrow> mentions v (fst s) \<and> v \<notin> set us"
proof (induction us arbitrary: s)
  case (Cons u us)
  from Cons.IH [of "eraseUser now u s"] Cons.prems
  have "mentions v (fst (eraseUser now u s))" "v \<notin> set us" by simp_all
  with eraseUser_mentions(1) [of v now u s] show ?case by simp
qed simp

lemma erase_fold_mentionsTokens:
  "mentionsTokens v (snd (fold (eraseUser now) us s)) \<Longrightarrow> mentionsTokens v (snd s) \<and> v \<notin> set us"
proof (induction us arbitrary: s)
  case (Cons u us)
  from Cons.IH [of "eraseUser now u s"] Cons.prems
  have "mentionsTokens v (snd (eraseUser now u s))" "v \<notin> set us" by simp_all
  with eraseUser_mentions(2) [of v now u s] show ?case by simp
qed simp

lemma erase_fold_audit:
  "(\<exists>l\<in>set (db_audit (fst s)). l_action l = a \<and> l_targetId l = t) \<Longrightarrow>
   \<exists>l\<in>set (db_audit (fst (fold (eraseUser now) us s))). l_action l = a \<and> l_targetId l = t"
proof (induction us arbitrary: s)
  case (Cons u us)
  then have "\<exists>l\<in>set (db_audit (fst (eraseUser now u s))). l_action l = a \<and> l_targetId l = t"
    using audit_eraseUser(2) by metis
  from Cons.IH [OF this] show ?case by simp
qed simp

lemma erase_fold_named:
  "i \<in> set us \<Longrightarrow>
   \<exists>l\<in>set (db_audit (fst (fold (eraseUser now) us s))). l_action l = ''account.erased'' \<and> l_targetId l = Some i"
proof (induction us arbitrary: s)
  case (Cons u us)
  show ?case
  proof (cases "i = u")
    case True
    then show ?thesis using erase_fold_audit [OF audit_eraseUser(1)] by simp
  qed (use Cons in auto)
qed simp

lemma usersWhere_set:
  "i \<in> set (usersWhere P limit db) \<Longrightarrow> \<exists>u. db_users db i = Some u \<and> P u"
  unfolding usersWhere_def by (auto dest!: in_set_takeD split: option.splits)

lemma usersWhere_all:
  assumes "length (filter (\<lambda>i. case db_users db i of Some u \<Rightarrow> P u | None \<Rightarrow> False) (db_userIds db)) \<le> limit"
    and "db_users db i = Some u" and "P u" and "i \<in> set (db_userIds db)"
  shows "i \<in> set (usersWhere P limit db)"
  using assms by (auto simp: usersWhere_def)

lemma erase_keeps:
  assumes "db_users (fst s) i = Some u" and "\<not> erasureDue (now - grace * 86400000) u"
  shows "db_users (fst (snd (eraseDeletedAccounts now grace s))) i = Some u"
  using assms usersWhere_set [of i "erasureDue (now - grace * 86400000)" BATCH_SIZE "fst s"]
  by (auto simp: eraseDeletedAccounts_def Let_def erase_fold_users)

section \<open>The identity tables\<close>

lemma accountsOk_deleteUser:
  assumes "accountsOk db"
  shows "accountsOk (deleteUser u db)"
proof -
  have d: "dom (db_users (deleteUser u db)) = dom (db_users db) - {u}"
    by (simp add: deleteUser_def)
  have row: "db_users db i = Some v" if "db_users (deleteUser u db) i = Some v" for i v
    using that by (simp add: deleteUser_def tableDelete_def split: if_splits)
  have ids: "distinct (db_userIds (deleteUser u db))" "set (db_userIds (deleteUser u db)) = dom (db_users db) - {u}"
    "s_userId ` set (db_sessions (deleteUser u db)) \<subseteq> dom (db_users db) - {u}"
    "v_userId ` set (db_verificationTokens (deleteUser u db)) \<subseteq> dom (db_users db) - {u}"
    using assms by (auto simp: accountsOk_def deleteUser_def)
  have counters: "0 \<le> u_tokenGeneration v \<and> 0 \<le> u_failedLoginAttempts v" if "db_users db i = Some v" for i v
    using assms that by (simp add: accountsOk_def)
  show ?thesis
    unfolding accountsOk_def d using ids
    by (intro conjI allI impI) (auto dest!: row intro: accountsOk_unique [OF assms] dest: counters)
qed

lemma keeps_putStatus: "keepsIdentity db (putStatus P st db)"
  unfolding keepsIdentity_def putStatus_def
  by (auto simp: option.rel_map rowKept_def intro!: option.rel_refl_strong)

lemma keeps_filtered:
  "keepsIdentity db (db\<lparr>db_sessions := filter P (db_sessions db)\<rparr>)"
  "keepsIdentity db (db\<lparr>db_verificationTokens := filter Q (db_verificationTokens db)\<rparr>)"
  by (auto intro!: keeps_sessions keeps_tokens)

lemma keeps_systemAudit [simp]: "keepsIdentity db (systemAudit now a x t db') = keepsIdentity db db'"
  by (simp add: systemAudit_def)

lemma accountsOk_eraseUser: "accountsOk (fst s) \<Longrightarrow> accountsOk (fst (eraseUser now u s))"
  using accountsOk_kept [of "fst s" "systemAudit now (Some u) ''account.erased'' (Some u) (fst s)"]
  by (simp add: eraseUser_def case_prod_beta accountsOk_deleteUser)

lemma accountsOk_erase_fold: "accountsOk (fst s) \<Longrightarrow> accountsOk (fst (fold (eraseUser now) us s))"
  by (induction us arbitrary: s) (simp_all add: accountsOk_eraseUser)

section \<open>Running a job again\<close>

text \<open>The batch of a job holds everything it looks for.\<close>

fun jobRoom :: "instant \<Rightarrow> MaintenanceJob \<Rightarrow> Db \<Rightarrow> bool" where
  "jobRoom now EraseDeletedAccounts db \<longleftrightarrow>
     length (usersWhere (erasureDue (now - ACCOUNT_DELETION_GRACE_DAYS * 86400000)) BATCH_SIZE db) < BATCH_SIZE"
| "jobRoom now ExpireSuspensions db \<longleftrightarrow>
     length (usersWhere (\<lambda>u. u_status u = AccountStatus_SUSPENDED \<and> u_deletedAt u = None) BATCH_SIZE db) < BATCH_SIZE"
| "jobRoom now ExpireBans db \<longleftrightarrow> length (lapsedBans now db) < BATCH_SIZE"
| "jobRoom now j db \<longleftrightarrow> True"

lemma usersWhere_room:
  assumes "length (usersWhere P limit db) < limit"
  shows "usersWhere P limit db = filter (\<lambda>i. case db_users db i of Some u \<Rightarrow> P u | None \<Rightarrow> False) (db_userIds db)"
  using assms by (auto simp: usersWhere_def)

lemma lapsedBans_room:
  assumes "length (lapsedBans now db) < BATCH_SIZE" and "k < length (db_bans db)"
  shows "k \<in> set (lapsedBans now db) \<longleftrightarrow> n_liftedAt (db_bans db ! k) = None \<and>
     \<not> n_permanent (db_bans db ! k) \<and> pastExpiry (n_expiresAt (db_bans db ! k)) now"
  using assms by (auto simp: lapsedBans_def Let_def)

lemma again_erase:
  assumes "jobRoom now EraseDeletedAccounts (fst s)"
  shows "runJob now r EraseDeletedAccounts (runJob now r EraseDeletedAccounts s) = runJob now r EraseDeletedAccounts s"
proof -
  let ?P = "erasureDue (now - ACCOUNT_DELETION_GRACE_DAYS * 86400000)"
  let ?due = "usersWhere ?P BATCH_SIZE (fst s)" and ?s' = "runJob now r EraseDeletedAccounts s"
  have s': "?s' = fold (eraseUser now) ?due s" by (simp add: eraseDeletedAccounts_def Let_def)
  have due: "?due = filter (\<lambda>i. case db_users (fst s) i of Some u \<Rightarrow> ?P u | None \<Rightarrow> False) (db_userIds (fst s))"
    using assms by (intro usersWhere_room) simp
  have "set (db_userIds (fst (fold (eraseUser now) us t))) \<subseteq> set (db_userIds (fst t))" for us t
  proof (induction us arbitrary: t)
    case (Cons u us)
    have "set (db_userIds (fst (eraseUser now u t))) \<subseteq> set (db_userIds (fst t))"
      by (auto simp: eraseUser_def case_prod_beta deleteUser_def systemAudit_def)
    with Cons.IH [of "eraseUser now u t"] show ?case by simp
  qed simp
  then have ids: "set (db_userIds (fst ?s')) \<subseteq> set (db_userIds (fst s))" unfolding s' .
  have users: "db_users (fst ?s') i = (if i \<in> set ?due then None else db_users (fst s) i)" for i
    unfolding s' by (rule erase_fold_users)
  have "(case db_users (fst ?s') i of Some u \<Rightarrow> ?P u | None \<Rightarrow> False) = False"
    if "i \<in> set (db_userIds (fst ?s'))" for i
  proof -
    have "i \<in> set (db_userIds (fst s))" using ids that by blast
    then show ?thesis unfolding users due by (auto split: option.split)
  qed
  then have "usersWhere ?P BATCH_SIZE (fst ?s') = []"
    by (auto simp: usersWhere_def filter_empty_conv simp del: runJob.simps)
  then show ?thesis by (subst runJob.simps) (simp add: eraseDeletedAccounts_def Let_def)
qed

lemma again_suspensions:
  assumes "jobRoom now ExpireSuspensions db"
  shows "expireSuspensions now (snd (expireSuspensions now db)) = (0, snd (expireSuspensions now db))"
proof -
  let ?P = "\<lambda>u. u_status u = AccountStatus_SUSPENDED \<and> u_deletedAt u = None"
  define db' where "db' = snd (expireSuspensions now db)"
  have due: "usersWhere ?P BATCH_SIZE db = filter (\<lambda>i. case db_users db i of Some u \<Rightarrow> ?P u | None \<Rightarrow> False) (db_userIds db)"
    using assms by (intro usersWhere_room) simp
  have same: "db_userIds db' = db_userIds db" "db_modActions db' = db_modActions db"
    by (simp_all add: db'_def expireSuspensions_def Let_def systemAudit_def putStatus_def)
  then have still: "stillSuspended now i db' = stillSuspended now i db" for i
    by (simp add: stillSuspended_def)
  have "stillSuspended now i db" if i: "i \<in> set (usersWhere ?P BATCH_SIZE db')" for i
  proof (rule ccontr)
    assume ns: "\<not> stillSuspended now i db"
    obtain u' where u': "db_users db' i = Some u'" "?P u'" using usersWhere_set [OF i] by blast
    have id: "i \<in> set (db_userIds db)"
      using i same(1) by (auto simp: usersWhere_def dest!: in_set_takeD)
    let ?R = "filter (\<lambda>i. \<not> stillSuspended now i db) (usersWhere ?P BATCH_SIZE db)"
    show False
    proof (cases "?R = []")
      case True
      then have "db' = db" by (simp add: db'_def expireSuspensions_def Let_def)
      then have "i \<in> set ?R" using u' id ns by (simp add: due)
      then show False using True by simp
    next
      case False
      then have users: "db_users db' j = map_option (\<lambda>u. if j \<in> set ?R \<and> u_status u = AccountStatus_SUSPENDED
          then u\<lparr>u_status := AccountStatus_ACTIVE\<rparr> else u) (db_users db j)" for j
        by (simp add: db'_def expireSuspensions_def Let_def systemAudit_def putStatus_def)
      then obtain u where u: "db_users db i = Some u" using u'(1) by (cases "db_users db i") auto
      show False using u' users [of i] u id ns by (auto simp: due split: if_splits)
    qed
  qed
  then have "filter (\<lambda>i. \<not> stillSuspended now i db') (usersWhere ?P BATCH_SIZE db') = []"
    by (simp add: filter_empty_conv still)
  then show ?thesis unfolding db'_def [symmetric] by (simp add: expireSuspensions_def Let_def)
qed

lemma again_bans:
  assumes "jobRoom now ExpireBans db"
  shows "expireBans now (snd (expireBans now db)) = (0, snd (expireBans now db))"
proof (cases "lapsedBans now db = []")
  case True
  then show ?thesis by (simp add: expireBans_def Let_def)
next
  case False
  define db' where "db' = snd (expireBans now db)"
  have bans: "db_bans db' = map (\<lambda>k. if k \<in> set (lapsedBans now db) then (db_bans db ! k)\<lparr>n_liftedAt := Some now\<rparr>
      else db_bans db ! k) [0..<length (db_bans db)]"
    using False by (simp add: db'_def expireBans_def Let_def putStatus_def)
  have "lapsedBans now db' = []"
    using lapsedBans_room [of now db] assms
    by (auto simp: lapsedBans_def [of now db'] Let_def bans filter_empty_conv)
  then show ?thesis unfolding db'_def [symmetric] by (simp add: expireBans_def Let_def)
qed

section \<open>The books without an account\<close>

text \<open>The tokens in circulation: the ledger's sum.\<close>

definition circulation :: "TokenDb \<Rightarrow> int" where
  "circulation td = sum_list (map lg_delta (td_ledger td))"

lemma userSum_filter: "userSum v (filter (\<lambda>r. lg_userId r \<noteq> u) rows) = (if v = u then 0 else userSum v rows)"
  by (induction rows rule: rev_induct) auto

lemma replayOk_filter: "replayOk rows \<Longrightarrow> replayOk (filter (\<lambda>r. lg_userId r \<noteq> u) rows)"
  by (induction rows rule: rev_induct) (auto simp: replayOk_snoc userSum_filter)

lemma sum_filter_user:
  "sum_list (map lg_delta (filter (\<lambda>r. lg_userId r \<noteq> u) rows)) = sum_list (map lg_delta rows) - userSum u rows"
  by (induction rows rule: rev_induct) auto

lemma balanceOf_deleteTokenUser: "balanceOf (deleteTokenUser u td) v = (if v = u then 0 else balanceOf td v)"
  by (simp add: balanceOf_def deleteTokenUser_def tableDelete_def)

section \<open>Suspensions on file\<close>

definition suspensionsOf :: "user_id \<Rightarrow> Db \<Rightarrow> ModerationActionRow list" where
  "suspensionsOf u db =
     filter (\<lambda>a. a_targetUserId a = u \<and> a_type a = ModerationActionType_SUSPENSION) (db_modActions db)"

lemma stillSuspended_iff:
  "\<not> stillSuspended now u db \<longleftrightarrow> (\<forall>a\<in>set (suspensionsOf u db). pastExpiry (a_expiresAt a) now)"
  by (auto simp: stillSuspended_def suspensionsOf_def list_ex_iff pastExpiry_def not_less split: option.splits)

lemma signin_lifts:
  assumes "db_users db u = Some row" and "u_status row = AccountStatus_SUSPENDED"
    and "latestBy a_createdAt (suspensionsOf u db) = Some a"
  shows "fst (getActiveRestriction u now db) = None \<longleftrightarrow> pastExpiry (a_expiresAt a) now"
  using assms getActiveRestriction_lapsed [of db u row a now] by (simp add: suspensionsOf_def)

section \<open>Properties\<close>


text \<open>An account that asked for deletion at instant 0, with one session.\<close>

definition leavingRow :: UserRow where
  "leavingRow = exampleRow\<lparr>u_deletionRequestedAt := Some 0, u_status := AccountStatus_DEACTIVATED\<rparr>"

lemma leaving_ok: "accountsOk (accountDb leavingRow [] [])"
  by (rule accountsOk_accountDb) (simp_all add: leavingRow_def exampleRow_def)


text \<open>No maintenance job breaks the identity tables: ids, addresses and names stay unique, and no session
and no link is left without its account.\<close>

lemma jobs_ok:
  assumes "accountsOk (fst s)"
  shows "accountsOk (fst (runJob now retention job s))"
proof (cases job)
  case EraseDeletedAccounts
  then show ?thesis using assms by (simp add: eraseDeletedAccounts_def Let_def accountsOk_erase_fold)
next
  case ExpireSuspensions
  then show ?thesis
    using assms by (auto simp: expireSuspensions_def Let_def intro!: accountsOk_kept [OF assms] keeps_putStatus)
next
  case ExpireBans
  have "keepsIdentity db (putStatus P st (db\<lparr>db_bans := bans\<rparr>))" for db P st bans
    by (rule keepsIdentity_trans [OF _ keeps_putStatus]) simp
  then show ?thesis
    using assms ExpireBans by (auto simp: expireBans_def Let_def intro!: accountsOk_kept [OF assms])
next
  case PruneVerificationTokens
  then show ?thesis
    using assms by (auto simp: pruneVerificationTokens_def Let_def intro!: accountsOk_kept [OF assms] keeps_filtered)
next
  case PruneSessions
  then show ?thesis
    using assms by (auto simp: pruneSessions_def Let_def intro!: accountsOk_kept [OF assms] keeps_filtered)
next
  case PruneAuditLog
  then show ?thesis
    using assms by (auto simp: pruneAuditLog_def Let_def intro!: accountsOk_kept [OF assms])
next
  case CloseStaleMatches
  then show ?thesis
    using assms by (simp add: closeStaleMatches_def Let_def accountsOk_def)
qed

text \<open>A job is safe to run twice: as long as its batch has room for what it looks for, running it again at
once changes nothing more. The pruning jobs and the closing of stale matches need no such room.\<close>

theorem jobs_safe_to_run_twice:
  assumes "jobRoom now job (fst s)"
  shows "runJob now retention job (runJob now retention job s) = runJob now retention job s"
proof (cases job)
  case EraseDeletedAccounts
  then show ?thesis using again_erase assms by blast
next
  case ExpireSuspensions
  then show ?thesis using again_suspensions assms by simp
next
  case ExpireBans
  then show ?thesis using again_bans assms by simp
next
  case CloseStaleMatches
  have "tableMap f (tableMap f t) = tableMap f t" if "\<And>m. f (f m) = f m" for t :: "match_id \<rightharpoonup> MatchRow" and f
    by (rule ext) (simp add: tableMap_def option.map_comp o_def that)
  with CloseStaleMatches show ?thesis by (simp add: closeStaleMatches_def Let_def)
qed (simp_all add: pruneVerificationTokens_def pruneSessions_def pruneAuditLog_def Let_def conj_ac)

lemma jobs_safe_to_run_twice_witness:
  "runJob 1209600000 730 EraseDeletedAccounts (runJob 1209600000 730 EraseDeletedAccounts
     (accountDb leavingRow [] [], emptyTokenDb [''u''])) =
   runJob 1209600000 730 EraseDeletedAccounts (accountDb leavingRow [] [], emptyTokenDb [''u''])"
  by (rule jobs_safe_to_run_twice)
     (simp add: usersWhere_def BATCH_SIZE_def ACCOUNT_DELETION_GRACE_DAYS_def erasureDue_def leavingRow_def exampleRow_def)

text \<open>Erasing an account takes exactly its balance out of circulation. Every other balance is what it was and
still the sum of its own rows, row by row; but the rows of its partners stay alone: the ledger, said never to
lose a row, no longer sums to what has been bought.\<close>

theorem erasure_keeps_the_books:
  assumes "tokenInv td"
  shows "tokenInv (deleteTokenUser u td) \<and>
         balanceOf (deleteTokenUser u td) = (balanceOf td)(u := 0) \<and>
         circulation (deleteTokenUser u td) = circulation td - balanceOf td u \<and>
         (\<forall>r\<in>set (td_ledger td). lg_userId r \<noteq> u \<longrightarrow> r \<in> set (td_ledger (deleteTokenUser u td)))"
proof -
  have b: "balanceOf td v = userSum v (td_ledger td)" "0 \<le> balanceOf td v" for v
    using assms unfolding tokenInv_def by blast+
  have r: "replayOk (td_ledger td)" and a: "amountsOk td"
    using assms by (simp_all add: tokenInv_def)
  have l: "td_ledger (deleteTokenUser u td) = filter (\<lambda>r. lg_userId r \<noteq> u) (td_ledger td)"
    by (simp add: deleteTokenUser_def)
  have "amountsOk (deleteTokenUser u td)" using a by (auto simp: amountsOk_def deleteTokenUser_def)
  then show ?thesis
    using b by (simp add: tokenInv_def l balanceOf_deleteTokenUser userSum_filter replayOk_filter [OF r]
      circulation_def sum_filter_user fun_eq_iff)
qed

text \<open>Erasing the buyer of tokens that were tipped on leaves the circulation below what was bought.\<close>

lemma erasure_keeps_the_books_witness:
  "circulation (deleteTokenUser ''ana'' exampleTokenDb) = circulation exampleTokenDb - balanceOf exampleTokenDb ''ana''"
  using erasure_keeps_the_books [OF exampleTokenDb_inv] by blast

text \<open>The sweep of suspensions restores exactly the suspended accounts all of whose suspensions are over,
when its batch has room, and touches nobody else. What it restores, sign-in would have let in too; the converse
fails: an account whose latest suspension is over while an earlier, longer one runs is let in at sign-in, and
the sweep would have kept it out.\<close>

theorem suspension_sweep_exact:
  assumes "accountsOk db" and "jobRoom now ExpireSuspensions db" and "db_users db u = Some row"
  shows "db_users (snd (expireSuspensions now db)) u =
           Some (if u_status row = AccountStatus_SUSPENDED \<and> u_deletedAt row = None \<and>
                    (\<forall>a\<in>set (suspensionsOf u db). pastExpiry (a_expiresAt a) now)
                 then row\<lparr>u_status := AccountStatus_ACTIVE\<rparr> else row) \<and>
         (u_status row = AccountStatus_SUSPENDED \<longrightarrow> latestBy a_createdAt (suspensionsOf u db) = Some a \<longrightarrow>
            (fst (getActiveRestriction u now db) = None \<longleftrightarrow> pastExpiry (a_expiresAt a) now))"
proof -
  let ?P = "\<lambda>u. u_status u = AccountStatus_SUSPENDED \<and> u_deletedAt u = None"
  let ?R = "filter (\<lambda>i. \<not> stillSuspended now i db) (usersWhere ?P BATCH_SIZE db)"
  have "u \<in> set (db_userIds db)" using assms(1,3) by (auto simp: accountsOk_def)
  moreover have "usersWhere ?P BATCH_SIZE db =
      filter (\<lambda>i. case db_users db i of Some u \<Rightarrow> ?P u | None \<Rightarrow> False) (db_userIds db)"
    using assms(2) by (intro usersWhere_room) simp
  ultimately have R: "u \<in> set ?R \<longleftrightarrow> ?P row \<and> \<not> stillSuspended now u db"
    using assms(3) by auto
  have "db_users (snd (expireSuspensions now db)) u =
      Some (if ?P row \<and> \<not> stillSuspended now u db then row\<lparr>u_status := AccountStatus_ACTIVE\<rparr> else row)"
  proof (cases "?R = []")
    case True
    then show ?thesis using R assms(3) by (auto simp: expireSuspensions_def Let_def)
  next
    case False
    then have "db_users (snd (expireSuspensions now db)) u = map_option (\<lambda>x. if u \<in> set ?R \<and>
        u_status x = AccountStatus_SUSPENDED then x\<lparr>u_status := AccountStatus_ACTIVE\<rparr> else x) (db_users db u)"
      by (simp add: expireSuspensions_def Let_def systemAudit_def putStatus_def)
    then show ?thesis unfolding R assms(3) by auto
  qed
  with signin_lifts [OF assms(3)] show ?thesis by (auto simp: stillSuspended_iff)
qed

text \<open>Suspended for a hundred hours, and again for one: two hours later.\<close>

definition twiceSuspended :: Db where
  "twiceSuspended = suspendTx 1 ''u'' ''mo'' ''again'' None 1 ''suspend''
     (suspendTx 0 ''u'' ''mo'' ''first'' None 100 ''suspend'' (accountDb exampleRow [] []))"

lemma suspension_sweep_exact_witness:
  "map_option u_status (db_users (snd (expireSuspensions 7200000 twiceSuspended)) ''u'') = Some AccountStatus_SUSPENDED \<and>
   fst (getActiveRestriction ''u'' 7200000 twiceSuspended) = None"
proof -
  obtain row where row: "db_users twiceSuspended ''u'' = Some row" "u_status row = AccountStatus_SUSPENDED"
    "u_deletedAt row = None"
    by (simp add: twiceSuspended_def suspendTx_def restrictUser_def addModAction_def revokeSessions_def table_simps
        exampleRow_def)
  have "accountsOk (accountDb exampleRow [] [])" by (rule accountsOk_accountDb) (simp_all add: exampleRow_def)
  then have ok: "accountsOk twiceSuspended"
    by (rule accountsOk_kept) (simp add: twiceSuspended_def keeps_restriction)
  have ids: "db_userIds twiceSuspended = [''u'']"
    by (simp add: twiceSuspended_def suspendTx_def restrictUser_def addModAction_def revokeSessions_def)
  have room: "jobRoom 7200000 ExpireSuspensions twiceSuspended"
    by (simp add: usersWhere_def ids BATCH_SIZE_def)
  have acts: "suspensionsOf ''u'' twiceSuspended =
      [\<lparr>a_targetUserId = ''u'', a_moderatorId = Some ''mo'', a_type = ModerationActionType_SUSPENSION,
        a_reason = ''first'', a_notes = None, a_expiresAt = Some 360000000, a_createdAt = 0\<rparr>,
       \<lparr>a_targetUserId = ''u'', a_moderatorId = Some ''mo'', a_type = ModerationActionType_SUSPENSION,
        a_reason = ''again'', a_notes = None, a_expiresAt = Some 3600001, a_createdAt = 1\<rparr>]"
    by (simp add: suspensionsOf_def twiceSuspended_def suspendTx_def restrictUser_def addModAction_def
        revokeSessions_def)
  show ?thesis
    using suspension_sweep_exact [OF ok room row(1)] row(2,3)
    by (simp add: acts pastExpiry_def latestBy_def)
qed

end
