(* ===== verification/Moderation_Safety.thy ===== *)
theory Moderation_Safety
  imports Moderation Realtime_Safety
begin

text \<open>What moderation guarantees: whom an action can touch and what it leaves behind, how a restriction
shuts an account out, and where it does not. The locale \<open>moderator_action\<close> is the contract of an action on
an account; warnings, resolved reports and direct restrictions are its instances.\<close>

section \<open>The contract of an action\<close>

text \<open>Calls in order: input, moderator, role. A refused call changes nothing.\<close>

fun runCalls :: "('i \<Rightarrow> user_id \<Rightarrow> UserRole \<Rightarrow> World \<Rightarrow> AppError + World) \<Rightarrow>
    ('i \<times> user_id \<times> UserRole) list \<Rightarrow> World \<Rightarrow> World \<times> nat" where
  "runCalls act [] w = (w, 0)"
| "runCalls act ((i, m, role) # calls) w =
     (case act i m role w of
        Inl e \<Rightarrow> runCalls act calls w
      | Inr w1 \<Rightarrow> let (w', n) = runCalls act calls w1 in (w', Suc n))"

text \<open>What one call may do: it is about one user who is not the moderator and not staff, only an
administrator can leave that user banned who was not, and there is one audit entry that names both.\<close>

definition actionOk :: "user_id \<Rightarrow> UserRole \<Rightarrow> Db \<Rightarrow> Db \<Rightarrow> bool" where
  "actionOk m role db db' \<longleftrightarrow>
     (\<exists>t row row' entry. t \<noteq> m \<and> db_users db t = Some row \<and> u_role row = UserRole_USER \<and>
        (\<forall>v. v \<noteq> t \<longrightarrow> db_users db' v = db_users db v) \<and>
        db_users db' t = Some row' \<and> u_role row' = UserRole_USER \<and>
        (u_status row' = AccountStatus_BANNED \<longrightarrow> u_status row \<noteq> AccountStatus_BANNED \<longrightarrow> UserRole_ADMIN \<le> role) \<and>
        db_audit db' = db_audit db @ [entry] \<and> l_actorId entry = Some m \<and> l_targetId entry = Some t)"

lemma actionOk_staff:
  assumes "actionOk m role db db'" and "db_users db v = Some row" and "u_role row \<noteq> UserRole_USER"
  shows "db_users db' v = Some row"
proof -
  obtain t row0 where "db_users db t = Some row0" "u_role row0 = UserRole_USER"
    and o: "\<forall>v. v \<noteq> t \<longrightarrow> db_users db' v = db_users db v"
    using assms(1) unfolding actionOk_def by blast
  then have "v \<noteq> t" using assms(2,3) by auto
  then show ?thesis using o assms(2) by simp
qed

lemma actionOk_self: "actionOk m role db db' \<Longrightarrow> db_users db' m = db_users db m"
  by (auto simp: actionOk_def)

lemma actionOk_ban:
  assumes "actionOk m role db db'" and "role < UserRole_ADMIN" and "db_users db v = Some row"
    and "u_status row \<noteq> AccountStatus_BANNED"
  shows "\<exists>row'. db_users db' v = Some row' \<and> u_status row' \<noteq> AccountStatus_BANNED"
proof -
  obtain t row0 row' where t: "db_users db t = Some row0" "db_users db' t = Some row'"
    and b: "u_status row' = AccountStatus_BANNED \<longrightarrow> u_status row0 \<noteq> AccountStatus_BANNED \<longrightarrow> UserRole_ADMIN \<le> role"
    and o: "\<forall>v. v \<noteq> t \<longrightarrow> db_users db' v = db_users db v"
    using assms(1) unfolding actionOk_def by blast
  show ?thesis
    using t b o assms(2-4) by (cases "v = t") (auto simp: not_le)
qed

lemma actionOk_audit: "actionOk m role db db' \<Longrightarrow> length (db_audit db') = Suc (length (db_audit db))"
  unfolding actionOk_def by auto

locale moderator_action =
  fixes act :: "'i \<Rightarrow> user_id \<Rightarrow> UserRole \<Rightarrow> World \<Rightarrow> AppError + World"
  assumes act_ok: "act i m role w = Ok w' \<Longrightarrow> actionOk m role (w_db w) (w_db w')"
begin

lemma staff_untouched:
  "db_users (w_db w) v = Some row \<Longrightarrow> u_role row \<noteq> UserRole_USER \<Longrightarrow>
   db_users (w_db (fst (runCalls act calls w))) v = Some row"
proof (induction calls arbitrary: w)
  case (Cons call calls)
  obtain i m role where [simp]: "call = (i, m, role)" by (cases call)
  show ?case
  proof (cases "act i m role w")
    case (Inr w1)
    then have "db_users (w_db w1) v = Some row"
      using actionOk_staff [OF act_ok [OF Inr]] Cons.prems by simp
    with Inr Cons show ?thesis by (simp add: prod.case_eq_if)
  qed (use Cons in simp)
qed simp

lemma self_untouched:
  "\<forall>(i, m, role)\<in>set calls. m = v \<Longrightarrow>
   db_users (w_db (fst (runCalls act calls w))) v = db_users (w_db w) v"
proof (induction calls arbitrary: w)
  case (Cons call calls)
  obtain i role where [simp]: "call = (i, v, role)" using Cons.prems by (cases call) auto
  show ?case
  proof (cases "act i v role w")
    case (Inr w1)
    then have "db_users (w_db w1) v = db_users (w_db w) v"
      using actionOk_self [OF act_ok [OF Inr]] by simp
    with Inr Cons show ?thesis by (simp add: prod.case_eq_if)
  qed (use Cons in simp)
qed simp

lemma bans_need_admin:
  "\<forall>(i, m, role)\<in>set calls. role < UserRole_ADMIN \<Longrightarrow> db_users (w_db w) v = Some row \<Longrightarrow>
   u_status row \<noteq> AccountStatus_BANNED \<Longrightarrow>
   \<exists>row'. db_users (w_db (fst (runCalls act calls w))) v = Some row' \<and> u_status row' \<noteq> AccountStatus_BANNED"
proof (induction calls arbitrary: w row)
  case (Cons call calls)
  obtain i m role where [simp]: "call = (i, m, role)" by (cases call)
  show ?case
  proof (cases "act i m role w")
    case (Inr w1)
    then have "\<exists>row1. db_users (w_db w1) v = Some row1 \<and> u_status row1 \<noteq> AccountStatus_BANNED"
      using actionOk_ban [OF act_ok [OF Inr]] Cons.prems by simp
    with Inr Cons show ?thesis by (auto simp: prod.case_eq_if)
  qed (use Cons in auto)
qed simp

lemma every_action_audited:
  "length (db_audit (w_db (fst (runCalls act calls w)))) =
   length (db_audit (w_db w)) + snd (runCalls act calls w)"
proof (induction calls arbitrary: w)
  case (Cons call calls)
  obtain i m role where [simp]: "call = (i, m, role)" by (cases call)
  show ?case
  proof (cases "act i m role w")
    case (Inr w1)
    then have "length (db_audit (w_db w1)) = Suc (length (db_audit (w_db w)))"
      using actionOk_audit [OF act_ok [OF Inr]] by simp
    with Inr Cons show ?thesis by (simp add: prod.case_eq_if)
  qed (use Cons in simp)
qed simp

end

section \<open>The actions keep the contract\<close>

lemmas write_defs = addModAction_def addBan_def restrictUser_def revokeSessions_def moderationAudit_def

lemma write_frames [simp]:
  "db_users (addModAction now t m ty r n e db) = db_users db"
  "db_audit (addModAction now t m ty r n e db) = db_audit db"
  "db_users (addBan now t m r db) = db_users db"
  "db_audit (addBan now t m r db) = db_audit db"
  "db_users (revokeSessions now r P db) = db_users db"
  "db_audit (revokeSessions now r P db) = db_audit db"
  "db_audit (restrictUser t st db) = db_audit db"
  "db_users (moderationAudit now m a t db) = db_users db"
  "db_users (markReport now input m db) = db_users db"
  "db_audit (markReport now input m db) = db_audit db"
  by (simp_all add: write_defs markReport_def)

lemma restrictUser_users:
  "db_users (restrictUser t st db) v =
   (if v = t then map_option (\<lambda>u. u\<lparr>u_status := st, u_tokenGeneration := u_tokenGeneration u + 1\<rparr>) (db_users db t)
    else db_users db v)"
  by (simp add: restrictUser_def db_users_updateUser)

lemma audit_moderationAudit [simp]:
  "db_audit (moderationAudit now m a t db) = db_audit db @
     [\<lparr>l_actorId = Some m, l_actorType = AuditActorType_ADMIN, l_action = a, l_targetType = Some ''User'',
       l_targetId = Some t, l_ipHash = None, l_createdAt = now\<rparr>]"
  by (simp add: moderationAudit_def)

lemma assertActionable_Ok [guard_simps]:
  "assertActionable t m db = Ok t' \<longleftrightarrow>
     t' = t \<and> t \<noteq> m \<and> (\<exists>row. db_users db t = Some row \<and> u_deletedAt row = None \<and> u_role row = UserRole_USER)"
  by (auto simp: assertActionable_def loadMatchCandidate_def split: option.splits if_splits)

lemma assertMayBan_Ok [guard_simps]: "assertMayBan role = Ok u \<longleftrightarrow> UserRole_ADMIN \<le> role"
  by (cases role) (auto simp: assertMayBan_def throwIf_def less_eq_UserRole_def)

text \<open>The shared end of every action: the users of the target changed by one of the two bodies or not at
all, and one audit entry.\<close>

lemma actionOk_intro:
  assumes "t \<noteq> m" and "db_users db t = Some row" and "u_role row = UserRole_USER"
    and "db_users db' = db_users db \<or> db_users db' = db_users (restrictUser t AccountStatus_SUSPENDED db) \<or>
         UserRole_ADMIN \<le> role \<and> db_users db' = db_users (restrictUser t AccountStatus_BANNED db)"
    and "db_audit db' = db_audit db"
  shows "actionOk m role db (moderationAudit now m a t db')"
  unfolding actionOk_def using assms
  by (intro exI [of _ t] exI [of _ row] exI [of _ "the (db_users db' t)"]) (auto simp: restrictUser_users)

lemma suspendTx_users [simp]: "db_users (suspendTx now t m r n h rr db) = db_users (restrictUser t AccountStatus_SUSPENDED db)"
  and suspendTx_audit [simp]: "db_audit (suspendTx now t m r n h rr db) = db_audit db"
  and banTx_users [simp]: "db_users (banTx now t m r n rr db) = db_users (restrictUser t AccountStatus_BANNED db)"
  and banTx_audit [simp]: "db_audit (banTx now t m r n rr db) = db_audit db"
  by (auto simp: suspendTx_def banTx_def restrictUser_users fun_eq_iff)

lemma resolveAction_effect:
  "resolveAction now input t m db = Ok db' \<Longrightarrow>
   db_audit db' = db_audit db \<and>
   (db_users db' = db_users db \<or> db_users db' = db_users (restrictUser t AccountStatus_SUSPENDED db) \<or>
    rr_action input = BAN \<and> db_users db' = db_users (restrictUser t AccountStatus_BANNED db))"
  by (auto simp: resolveAction_def split: ReportAction.splits option.splits)

lemma restrictUser_markReport:
  "db_users (restrictUser t st (markReport now input m db)) = db_users (restrictUser t st db)"
  by (simp add: restrictUser_users fun_eq_iff)

interpretation warnings: moderator_action "\<lambda>(now, t, r, n) m role. warn now t r n m"
  by unfold_locales
     (auto simp: warn_def guard_simps intro!: actionOk_intro)

lemma resolve_Ok:
  assumes "resolve now input m role w = Ok w'"
  obtains report db where "find (\<lambda>r. r_id r = rr_reportId input) (db_reports (w_db w)) = Some report"
    and "assertActionable (r_reportedUserId report) m (w_db w) = Ok (r_reportedUserId report)"
    and "rr_action input = BAN \<Longrightarrow> UserRole_ADMIN \<le> role"
    and "resolveAction now input (r_reportedUserId report) m (markReport now input m (w_db w)) = Ok db"
    and "w_redis w' = (if rr_action input = SUSPEND \<or> rr_action input = BAN
           then evict (r_reportedUserId report) (w_redis w) else w_redis w)"
    and "w_db w' = moderationAudit now m (''moderation.report.'' @ actionLower (rr_action input))
           (r_reportedUserId report) db"
proof -
  from assms obtain report where r: "find (\<lambda>r. r_id r = rr_reportId input) (db_reports (w_db w)) = Some report"
    by (auto simp: resolve_def split: option.splits)
  let ?t = "r_reportedUserId report"
  have "\<exists>db. resolveAction now input ?t m (markReport now input m (w_db w)) = Ok db \<and>
      assertActionable ?t m (w_db w) = Ok ?t \<and> (rr_action input = BAN \<longrightarrow> UserRole_ADMIN \<le> role) \<and>
      w_redis w' = (if rr_action input = SUSPEND \<or> rr_action input = BAN then evict ?t (w_redis w) else w_redis w) \<and>
      w_db w' = moderationAudit now m (''moderation.report.'' @ actionLower (rr_action input)) ?t db"
    using assms r by (auto simp: resolve_def guard_simps split: if_splits)
  with r that show thesis by blast
qed

interpretation reports: moderator_action "\<lambda>(now, input). resolve now input"
proof (unfold_locales, clarify)
  fix now :: instant and input m role w w'
  assume "resolve now input m role w = Ok w'"
  then show "actionOk m role (w_db w) (w_db w')"
    by (rule resolve_Ok)
       (use resolveAction_effect in \<open>fastforce simp: guard_simps restrictUser_markReport intro!: actionOk_intro\<close>)
qed

interpretation direct: moderator_action "\<lambda>(now, input). resolveDirect now input"
  by unfold_locales
     (auto simp: resolveDirect_def guard_simps Let_def split: if_splits intro!: actionOk_intro)

text \<open>Any of the three, in any order.\<close>

datatype ModAction =
    WarnUser instant user_id string "string option"
  | ResolveReport instant ResolveReportInput
  | RestrictUser instant DirectInput

fun perform :: "ModAction \<Rightarrow> user_id \<Rightarrow> UserRole \<Rightarrow> World \<Rightarrow> AppError + World" where
  "perform (WarnUser now t r n) m role = warn now t r n m"
| "perform (ResolveReport now input) m role = resolve now input m role"
| "perform (RestrictUser now input) m role = resolveDirect now input m role"

interpretation actions: moderator_action perform
proof
  fix i m role w w'
  assume "perform i m role w = Ok w'"
  then show "actionOk m role (w_db w) (w_db w')"
    using warnings.act_ok reports.act_ok direct.act_ok by (cases i) (simp; fastforce)+
qed

section \<open>Properties\<close>

text \<open>C26: Moderation power has bounds. Whatever calls moderators make, in any order and however many:
accounts of staff are never changed, nobody changes their own account, only an administrator can leave an
account banned that was not, and there is exactly one audit entry for each call that took effect.\<close>

theorem moderators_stay_in_bounds:
  fixes calls :: "(ModAction \<times> user_id \<times> UserRole) list" and w :: World
  defines "w' \<equiv> fst (runCalls perform calls w)"
  shows "(\<forall>v row. db_users (w_db w) v = Some row \<and> u_role row \<noteq> UserRole_USER \<longrightarrow>
            db_users (w_db w') v = Some row) \<and>
         (\<forall>v. (\<forall>(i, m, role)\<in>set calls. m = v) \<longrightarrow> db_users (w_db w') v = db_users (w_db w) v) \<and>
         ((\<forall>(i, m, role)\<in>set calls. role < UserRole_ADMIN) \<longrightarrow>
            (\<forall>v row. db_users (w_db w) v = Some row \<and> u_status row \<noteq> AccountStatus_BANNED \<longrightarrow>
              (\<exists>row'. db_users (w_db w') v = Some row' \<and> u_status row' \<noteq> AccountStatus_BANNED))) \<and>
         length (db_audit (w_db w')) = length (db_audit (w_db w)) + snd (runCalls perform calls w)"
  unfolding w'_def
  using actions.staff_untouched actions.self_untouched actions.bans_need_admin actions.every_action_audited
  by (intro conjI allI impI) blast+

text \<open>A moderator, an administrator, a user in a call with \<open>bo\<close>.\<close>

definition moderatorRow :: UserRow where
  "moderatorRow = exampleRow\<lparr>u_role := UserRole_MODERATOR\<rparr>"

definition exampleWorld2 :: World where
  "exampleWorld2 = (rt_world callState)\<lparr>w_db := emptyDb\<lparr>db_users :=
     [''ana'' \<mapsto> exampleRow, ''bo'' \<mapsto> exampleRow, ''mo'' \<mapsto> moderatorRow]\<rparr>\<rparr>"

definition banAna :: DirectInput where
  "banAna = \<lparr>di_targetUserId = ''ana'', di_ban = True, di_reason = ''abuse'', di_notes = None, di_hours = None\<rparr>"

definition suspendAna :: DirectInput where
  "suspendAna = banAna\<lparr>di_ban := False, di_hours := Some 1\<rparr>"

lemma moderators_stay_in_bounds_witness:
  "\<exists>row'. db_users (w_db (fst (runCalls perform
      [(RestrictUser 5 banAna, ''mo'', UserRole_MODERATOR), (RestrictUser 6 suspendAna, ''mo'', UserRole_MODERATOR)]
      exampleWorld2))) ''ana'' = Some row' \<and> u_status row' \<noteq> AccountStatus_BANNED"
  using moderators_stay_in_bounds [of exampleWorld2
      "[(RestrictUser 5 banAna, ''mo'', UserRole_MODERATOR), (RestrictUser 6 suspendAna, ''mo'', UserRole_MODERATOR)]"]
  by (auto simp: exampleWorld2_def exampleRow_def less_UserRole_def)

lemma resolveDirect_Ok:
  "resolveDirect now input m role w = Ok w' \<longleftrightarrow>
   (\<exists>row. di_targetUserId input \<noteq> m \<and> db_users (w_db w) (di_targetUserId input) = Some row \<and>
      u_deletedAt row = None \<and> u_role row = UserRole_USER \<and> (di_ban input \<longrightarrow> UserRole_ADMIN \<le> role)) \<and>
   w' = w\<lparr>w_redis := evict (di_targetUserId input) (w_redis w),
          w_db := moderationAudit now m (''moderation.user.'' @ (if di_ban input then ''ban'' else ''suspend''))
            (di_targetUserId input)
            (if di_ban input
             then banTx now (di_targetUserId input) m (di_reason input) (di_notes input) ''ban'' (w_db w)
             else suspendTx now (di_targetUserId input) m (di_reason input) (di_notes input)
               (case di_hours input of Some h \<Rightarrow> h | None \<Rightarrow> 24) ''suspend'' (w_db w))\<rparr>"
  by (auto simp: resolveDirect_def guard_simps Let_def)

lemma evict_facts [simp]:
  "currentMatch now t (evict t s) = None"
  "isQueued now t (evict t s) = False"
  "v \<noteq> t \<Longrightarrow> currentMatch now v (evict t s) = currentMatch now v s"
  "getMatchParticipants now m (evict t s) = getMatchParticipants now m s"
  "rd_userSockets (evict t s) = rd_userSockets s"
  by (simp_all add: evict_def currentMatch_def isQueued_def getMatchParticipants_def table_simps)

lemma status_refused:
  assumes "db_users db u = Some row" and "u_status row \<in> set NON_MATCHABLE_STATUSES"
  shows "resolveUser now v revoked db = Ok a \<Longrightarrow> au_id a \<noteq> u"
    and "authenticateSocket verify now n revoked db t = Ok d \<Longrightarrow> sd_userId d \<noteq> u"
  using assms
  by (auto simp: resolveUser_def authenticateSocket_def NON_MATCHABLE_STATUSES_def
      split: option.splits VerifyResult.splits AccessTokenError.splits if_splits)

lemma suspendTx_fields [simp]:
  "db_modActions (suspendTx now t m r n h rr db) = db_modActions db @
     [\<lparr>a_targetUserId = t, a_moderatorId = Some m, a_type = ModerationActionType_SUSPENSION, a_reason = r,
       a_notes = n, a_expiresAt = Some (now + h * 3600000), a_createdAt = now\<rparr>]"
  "db_bans (suspendTx now t m r n h rr db) = db_bans db"
  "db_sessions (suspendTx now t m r n h rr db) = updateWhere (\<lambda>s. s_userId s = t \<and> s_revokedAt s = None)
     (\<lambda>s. s\<lparr>s_revokedAt := Some now, s_revokedReason := Some rr\<rparr>) (db_sessions db)"
  by (simp_all add: suspendTx_def write_defs)

lemma banTx_fields [simp]:
  "db_bans (banTx now t m r n rr db) = db_bans db @
     [\<lparr>n_userId = t, n_issuedById = Some m, n_scope = BanScope_ACCOUNT, n_reason = r, n_permanent = True,
       n_expiresAt = None, n_liftedAt = None, n_liftedById = None, n_createdAt = now\<rparr>]"
  "db_sessions (banTx now t m r n rr db) = updateWhere (\<lambda>s. s_userId s = t \<and> s_revokedAt s = None)
     (\<lambda>s. s\<lparr>s_revokedAt := Some now, s_revokedReason := Some rr\<rparr>) (db_sessions db)"
  by (simp_all add: banTx_def write_defs)

lemma moderationAudit_fields [simp]:
  "db_sessions (moderationAudit now m a t db) = db_sessions db"
  "db_bans (moderationAudit now m a t db) = db_bans db"
  "db_modActions (moderationAudit now m a t db) = db_modActions db"
  by (simp_all add: moderationAudit_def)

lemma latestBy_snoc_latest:
  "\<forall>r\<in>set rows. t r \<le> t x \<Longrightarrow> latestBy t (rows @ [x]) = Some x"
  using latestBy_Some [of t rows] by (auto simp: latestBy_snoc split: option.split)

lemma getActiveRestriction_audit [simp]:
  "fst (getActiveRestriction u now (moderationAudit n m a t db)) = fst (getActiveRestriction u now db)"
  by (cases "db_users db u";
      cases "latestBy n_createdAt (filter (\<lambda>n. n_userId n = u \<and> n_liftedAt n = None) (db_bans db))";
      cases "latestBy a_createdAt (filter (\<lambda>a. a_targetUserId a = u \<and> a_type a = ModerationActionType_SUSPENSION)
        (db_modActions db))")
     (simp_all add: getActiveRestriction_def Let_def del: latestBy_None)

text \<open>A restriction takes effect at once and everywhere. After a direct suspension or ban of an account
no access token, however fresh, passes the HTTP or the socket entrance as that account, every session of
the account is revoked, its place in the queue and its occupancy are gone, and the reason given is the one
reported at sign-in, for a ban at any time, for a suspension until its last hour is over.\<close>

theorem restriction_shuts_account_out:
  assumes "resolveDirect now input m role w = Ok w'" and "u = di_targetUserId input"
    and "\<forall>a\<in>set (db_modActions (w_db w)). a_createdAt a \<le> now"
    and "\<forall>n\<in>set (db_bans (w_db w)). n_createdAt n \<le> now"
    and "di_ban input \<or> later < now + (case di_hours input of Some h \<Rightarrow> h | None \<Rightarrow> 24) * 3600000"
  shows "(resolveUser t v revoked (w_db w') = Ok a \<longrightarrow> au_id a \<noteq> u) \<and>
         (authenticateSocket verify t n revoked (w_db w') tok = Ok d \<longrightarrow> sd_userId d \<noteq> u) \<and>
         (\<forall>s\<in>set (db_sessions (w_db w')). s_userId s = u \<longrightarrow> s_revokedAt s \<noteq> None) \<and>
         \<not> isQueued t u (w_redis w') \<and> currentMatch t u (w_redis w') = None \<and>
         map_option rs_reason (fst (getActiveRestriction u later (w_db w'))) = Some (di_reason input)"
proof -
  let ?st = "if di_ban input then AccountStatus_BANNED else AccountStatus_SUSPENDED"
  obtain row where row: "db_users (w_db w) u = Some row"
    using assms(1,2) by (auto simp: resolveDirect_Ok)
  have users: "db_users (w_db w') u =
      Some (row\<lparr>u_status := ?st, u_tokenGeneration := u_tokenGeneration row + 1\<rparr>)"
    using assms(1,2) row by (auto simp: resolveDirect_Ok restrictUser_users)
  have sess: "\<forall>s\<in>set (db_sessions (w_db w')). s_userId s = u \<longrightarrow> s_revokedAt s \<noteq> None"
    using assms(1,2) by (auto simp: resolveDirect_Ok set_updateWhere)
  have redis: "w_redis w' = evict u (w_redis w)" using assms(1,2) by (auto simp: resolveDirect_Ok)
  have "map_option rs_reason (fst (getActiveRestriction u later (w_db w'))) = Some (di_reason input)"
    using assms users
    by (auto simp: resolveDirect_Ok getActiveRestriction_def latestBy_snoc_latest pastExpiry_def Let_def)
  with sess users redis status_refused [OF users] show ?thesis
    by (auto simp: NON_MATCHABLE_STATUSES_def)
qed

lemma restriction_shuts_account_out_witness:
  "\<exists>w'. resolveDirect 5 suspendAna ''mo'' UserRole_MODERATOR exampleWorld2 = Ok w' \<and>
     map_option rs_reason (fst (getActiveRestriction ''ana'' 3600004 (w_db w'))) = Some ''abuse''"
proof -
  obtain w' where w: "resolveDirect 5 suspendAna ''mo'' UserRole_MODERATOR exampleWorld2 = Ok w'"
    by (auto simp: resolveDirect_Ok suspendAna_def banAna_def exampleWorld2_def exampleRow_def)
  have "map_option rs_reason (fst (getActiveRestriction ''ana'' 3600004 (w_db w'))) = Some (di_reason suspendAna)"
    using restriction_shuts_account_out [OF w refl, of 3600004]
    by (simp add: suspendAna_def banAna_def exampleWorld2_def emptyDb_def)
  with w show ?thesis by (simp add: suspendAna_def banAna_def)
qed

text \<open>A moderator can end a permanent ban. Suspending a banned account is not refused and overwrites the
status, although banning and unbanning both need an administrator. When the suspension is over, the next
sign-in sets the account to active, with the ban's row still open.\<close>

theorem suspension_overrides_ban:
  assumes "db_users (w_db w) u = Some row" and "u_role row = UserRole_USER" and "u_deletedAt row = None"
    and "u_status row = AccountStatus_BANNED" and "u \<noteq> m" and "0 \<le> h"
    and "b \<in> set (db_bans (w_db w))" and "n_liftedAt b = None"
    and "\<forall>a\<in>set (db_modActions (w_db w)). a_createdAt a \<le> now"
  shows "\<exists>w'. resolveDirect now \<lparr>di_targetUserId = u, di_ban = False, di_reason = r, di_notes = None, di_hours = Some h\<rparr>
                m UserRole_MODERATOR w = Ok w' \<and>
           b \<in> set (db_bans (w_db w')) \<and>
           (let (res, db) = getActiveRestriction u (now + h * 3600000) (w_db w')
            in res = None \<and> b \<in> set (db_bans db) \<and>
               map_option u_status (db_users db u) = Some AccountStatus_ACTIVE)"
  using assms
  by (simp add: resolveDirect_Ok getActiveRestriction_def latestBy_snoc_latest pastExpiry_def Let_def
      restrictUser_users db_users_updateUser)

lemma suspension_overrides_ban_witness:
  "\<exists>w'. resolveDirect 5 suspendAna ''mo'' UserRole_MODERATOR
      (exampleWorld2\<lparr>w_db := (w_db exampleWorld2)\<lparr>db_users := [''ana'' \<mapsto> exampleRow\<lparr>u_status := AccountStatus_BANNED\<rparr>],
         db_bans := [\<lparr>n_userId = ''ana'', n_issuedById = None, n_scope = BanScope_ACCOUNT, n_reason = ''x'',
           n_permanent = True, n_expiresAt = None, n_liftedAt = None, n_liftedById = None, n_createdAt = 0\<rparr>]\<rparr>\<rparr>) = Ok w' \<and>
     map_option u_status (db_users (snd (getActiveRestriction ''ana'' 3600005 (w_db w'))) ''ana'')
       = Some AccountStatus_ACTIVE"
  using suspension_overrides_ban [of "exampleWorld2\<lparr>w_db := (w_db exampleWorld2)\<lparr>db_users :=
         [''ana'' \<mapsto> exampleRow\<lparr>u_status := AccountStatus_BANNED\<rparr>],
         db_bans := [\<lparr>n_userId = ''ana'', n_issuedById = None, n_scope = BanScope_ACCOUNT, n_reason = ''x'',
           n_permanent = True, n_expiresAt = None, n_liftedAt = None, n_liftedById = None, n_createdAt = 0\<rparr>]\<rparr>\<rparr>"
      "''ana''" "exampleRow\<lparr>u_status := AccountStatus_BANNED\<rparr>" "''mo''" 1 _ 5 "''abuse''"]
  by (auto simp: exampleRow_def exampleWorld2_def emptyDb_def suspendAna_def banAna_def Let_def prod.case_eq_if)

section \<open>Where a restriction stops short\<close>

lemma disconnect_redis [simp]:
  "currentMatch now u (snd (disconnect now' v sid s)) = currentMatch now u s"
  "getMatchParticipants now m (snd (disconnect now' v sid s)) = getMatchParticipants now m s"
  by (simp_all add: disconnect_def Let_def currentMatch_def getMatchParticipants_def)

lemma leave_redis [simp]:
  "currentMatch now u (leave v c s) = currentMatch now u s"
  "getMatchParticipants now m (leave v c s) = getMatchParticipants now m s"
  by (simp_all add: leave_def updShard_def currentMatch_def getMatchParticipants_def)

text \<open>A ban does not end the call the account is in. The eviction deletes the account's own occupancy but
not the record of the match, which is what the relay reads: what the banned user's open socket signals is
still forwarded to the partner. And because the occupancy is gone, not even closing the last socket ends
the match: the partner is told nothing and stays occupied by it.\<close>

theorem ban_leaves_the_call_open:
  assumes "resolveDirect now input m role (rt_world st) = Ok w'" and "u = di_targetUserId input"
    and "so_userId so = u" and "p \<noteq> u"
    and "resolvePeer (en_now env) (frameMatch f) u (redisOf st) = Some p"
    and "fst (guardFlood env so (frameEvent f) (rl_limit (rls_socketEvent RATE_LIMITS)) 60000 st)"
    and "currentMatch (en_now env) p (redisOf st) = Some (frameMatch f)"
  defines "st1 \<equiv> st\<lparr>rt_world := w'\<rparr>"
  shows "newFrames st1 (onSignal env so (frameEvent f) (Some f) st1) = [(ToRoom p, Signal f)] \<and>
         newFrames st1 (onDisconnect env so st1) = [] \<and>
         currentMatch (en_now env) p (redisOf (onDisconnect env so st1)) = Some (frameMatch f) \<and>
         getMatchParticipants (en_now env) (frameMatch f) (redisOf (onDisconnect env so st1)) \<noteq> None"
proof -
  have w: "w_redis w' = evict u (redisOf st)" using assms(1,2) by (auto simp: resolveDirect_Ok)
  have peer: "resolvePeer now' (frameMatch f) u (evict u s) = resolvePeer now' (frameMatch f) u s" for now' s
    by (simp add: resolvePeer_def)
  have flood: "fst (guardFlood env so (frameEvent f) l k (st\<lparr>rt_world := w'\<rparr>)) = fst (guardFlood env so (frameEvent f) l k st)" for l k
    by (simp add: guardFlood_def prod.case_eq_if)
  have "newFrames st1 (onSignal env so (frameEvent f) (Some f) st1) = [(ToRoom p, Signal f)]"
    using assms(3,5,6) by (simp add: onSignal_def prod.case_eq_if flood newFrames_def st1_def w peer)
  moreover have "getMatchParticipants (en_now env) (frameMatch f) (redisOf st) \<noteq> None"
    using assms(5) by (auto simp: resolvePeer_iff)
  ultimately show ?thesis
    using assms(3,4,7) by (simp add: onDisconnect_def Let_def prod.case_eq_if newFrames_def st1_def w)
qed

lemma ban_leaves_the_call_open_witness:
  "\<exists>w'. resolveDirect 5 banAna ''ad'' UserRole_ADMIN (rt_world callState) = Ok w' \<and>
     newFrames (callState\<lparr>rt_world := w'\<rparr>)
       (onSignal callEnv (socketOf ''ana'') ''webrtc:offer'' (Some (Offer ''m'' ''v=0'')) (callState\<lparr>rt_world := w'\<rparr>))
       = [(ToRoom ''bo'', Signal (Offer ''m'' ''v=0''))]"
proof -
  obtain w' where w: "resolveDirect 5 banAna ''ad'' UserRole_ADMIN (rt_world callState) = Ok w'"
    by (auto simp: resolveDirect_Ok banAna_def callState_def exampleRow_def)
  show ?thesis
    using ban_leaves_the_call_open [OF w refl, of "socketOf ''ana''" "''bo''" callEnv "Offer ''m'' ''v=0''"] w
    by (simp add: banAna_def socketOf_def callEnv_def callState_def resolvePeer_def getMatchParticipants_def live_def
        guardFlood_def allow_def currentMatch_def)
qed

lemma lifted_bans:
  assumes "n \<in> set (updateWhere (\<lambda>n. n_userId n = u \<and> n_liftedAt n = None)
     (\<lambda>n. n\<lparr>n_liftedAt := Some now, n_liftedById := m\<rparr>) bans)" and "n_userId n = u"
  shows "n_liftedAt n \<noteq> None"
proof -
  obtain q where q: "n = (if n_userId q = u \<and> n_liftedAt q = None
      then q\<lparr>n_liftedAt := Some now, n_liftedById := m\<rparr> else q)"
    using assms(1) unfolding set_updateWhere by blast
  show ?thesis
  proof (cases "n_userId q = u \<and> n_liftedAt q = None")
    case False
    then have "n = q" using q by argo
    with False assms(2) show ?thesis by metis
  qed (simp add: q)
qed

text \<open>Reinstating restores restricted accounts only, and answers with a conflict for every other. What the
account was before is not recorded: one that was suspended before it confirmed its address comes back as
active, unconfirmed.\<close>

theorem reinstate_exact:
  assumes "db_users db u = Some row" and "u_deletedAt row = None"
  shows "(case reinstate now u m r db of
            Inl e \<Rightarrow> ae_code e = CONFLICT \<and> u_status row \<notin> {AccountStatus_BANNED, AccountStatus_SUSPENDED}
          | Inr db' \<Rightarrow> u_status row \<in> {AccountStatus_BANNED, AccountStatus_SUSPENDED} \<and>
              db_users db' u = Some (row\<lparr>u_status := AccountStatus_ACTIVE\<rparr>) \<and>
              (\<forall>v. v \<noteq> u \<longrightarrow> db_users db' v = db_users db v) \<and>
              (\<forall>n\<in>set (db_bans db'). n_userId n = u \<longrightarrow> n_liftedAt n \<noteq> None))"
proof -
  have "\<forall>n\<in>set (updateWhere (\<lambda>n. n_userId n = u \<and> n_liftedAt n = None)
      (\<lambda>n. n\<lparr>n_liftedAt := Some now, n_liftedById := Some m\<rparr>) (db_bans db)). n_userId n = u \<longrightarrow> n_liftedAt n \<noteq> None"
    using lifted_bans by blast
  with assms show ?thesis
    by (simp add: reinstate_def loadMatchCandidate_def Errors_conflict_def appError_def Let_def
        addModAction_def moderationAudit_def db_users_updateUser)
qed

section \<open>The queue of reports\<close>

lemma sorted_two_keys:
  fixes k :: "'a \<Rightarrow> int" and p :: "'a \<Rightarrow> nat"
  shows "sorted (map p (sort_key p (sort_key k xs)))"
    and "sorted (map k (filter (\<lambda>x. p x = c) (sort_key p (sort_key k xs))))"
proof -
  show "sorted (map p (sort_key p (sort_key k xs)))" by simp
  have "filter (\<lambda>x. p x = c) (sort_key p (sort_key k xs)) = filter (\<lambda>x. p x = c) (sort_key k xs)"
    by (rule sort_key_stable)
  then show "sorted (map k (filter (\<lambda>x. p x = c) (sort_key p (sort_key k xs))))"
    by (simp add: sorted_filter)
qed

lemma take_sorted_excludes:
  "sorted (map k xs) \<Longrightarrow> n \<le> length (filter (\<lambda>x. k x < k r) xs) \<Longrightarrow> r \<notin> set (take n xs)"
proof (induction xs arbitrary: n)
  case (Cons x xs)
  show ?case
  proof (cases n)
    case (Suc n')
    have "filter (\<lambda>y. k y < k x) xs = []" using Cons.prems(1) by (force simp: filter_empty_conv)
    then have "r \<noteq> x" using Cons.prems(2) Suc by auto
    moreover have "n' \<le> length (filter (\<lambda>x. k x < k r) xs)"
      using Cons.prems(2) Suc by (auto split: if_splits)
    ultimately show ?thesis using Cons Suc by auto
  qed simp
qed simp

text \<open>A page of the queue shows child-safety and violence reports first, each group oldest first, and shows
exactly the reports of that page; but the pages themselves are cut by age alone: a priority report is not on
the page when enough older reports of any kind are waiting.\<close>

theorem queue_page_prioritised:
  fixes q :: QueueQuery and db :: Db
  assumes "qq_priorityFirst q"
  defines "shown \<equiv> map fst (fst (moderationQueue q db))"
  shows "mset shown = mset (queueRows q db) \<and> sorted (map reportPriority shown) \<and>
         sorted (map r_createdAt (filter (\<lambda>r. reportPriority r = c) shown)) \<and>
         (qq_page q = 1 \<and>
            qq_pageSize q \<le> length (filter (\<lambda>x. queueWhere q x \<and> r_createdAt x < r_createdAt r) (db_reports db)) \<longrightarrow>
          r \<notin> set shown)"
proof -
  have shown: "shown = sort_key reportPriority (sort_key r_createdAt (queueRows q db))"
    using assms(1) by (simp add: shown_def moderationQueue_def Let_def comp_def)
  have "r \<notin> set (queueRows q db)"
    if "qq_page q = 1"
      "qq_pageSize q \<le> length (filter (\<lambda>x. queueWhere q x \<and> r_createdAt x < r_createdAt r) (db_reports db))"
  proof -
    let ?ys = "filter (queueWhere q) (db_reports db)"
    have "mset (filter (\<lambda>x. r_createdAt x < r_createdAt r) (sort_key r_createdAt ?ys)) =
        mset (filter (\<lambda>x. queueWhere q x \<and> r_createdAt x < r_createdAt r) (db_reports db))"
      by (simp add: filter_filter_mset conj_commute)
    then have "qq_pageSize q \<le> length (filter (\<lambda>x. r_createdAt x < r_createdAt r) (sort_key r_createdAt ?ys))"
      using that(2) by (metis size_mset)
    then show ?thesis using that(1) by (simp add: queueRows_def take_sorted_excludes [where k = r_createdAt])
  qed
  then show ?thesis
    unfolding shown using sorted_two_keys [where k = r_createdAt and p = reportPriority and xs = "queueRows q db"] by auto
qed

definition reportOf :: "row_id \<Rightarrow> ReportCategory \<Rightarrow> instant \<Rightarrow> ReportRow" where
  "reportOf i c t = \<lparr>r_id = i, r_reporterId = Some ''bo'', r_reportedUserId = ''ana'', r_matchId = None,
     r_category = c, r_details = None, r_status = ReportStatus_PENDING, r_reviewedById = None,
     r_reviewedAt = None, r_moderatorNotes = None, r_createdAt = t\<rparr>"

text \<open>A report of an underage user behind one older report of spam, on a page of one.\<close>

lemma queue_page_prioritised_witness:
  "reportOf ''2'' ReportCategory_UNDERAGE 2 \<notin> set (map fst (fst (moderationQueue
     \<lparr>qq_page = 1, qq_pageSize = 1, qq_status = None, qq_category = None, qq_priorityFirst = True\<rparr>
     (emptyDb\<lparr>db_reports := [reportOf ''1'' ReportCategory_SPAM 1, reportOf ''2'' ReportCategory_UNDERAGE 2]\<rparr>))))"
  using queue_page_prioritised [of "\<lparr>qq_page = 1, qq_pageSize = 1, qq_status = None, qq_category = None, qq_priorityFirst = True\<rparr>"
      "emptyDb\<lparr>db_reports := [reportOf ''1'' ReportCategory_SPAM 1, reportOf ''2'' ReportCategory_UNDERAGE 2]\<rparr>" 0
      "reportOf ''2'' ReportCategory_UNDERAGE 2"]
  by (simp add: queueWhere_def reportOf_def)

lemma reinstate_exact_witness:
  "map_option u_status (db_users (case reinstate 9 ''ana'' ''ad'' ''ok''
      (emptyDb\<lparr>db_users := [''ana'' \<mapsto> exampleRow\<lparr>u_status := AccountStatus_SUSPENDED, u_emailVerified := False\<rparr>]\<rparr>)
      of Inr d \<Rightarrow> d | Inl e \<Rightarrow> emptyDb) ''ana'') = Some AccountStatus_ACTIVE"
  using reinstate_exact [of "emptyDb\<lparr>db_users := [''ana'' \<mapsto> exampleRow\<lparr>u_status := AccountStatus_SUSPENDED, u_emailVerified := False\<rparr>]\<rparr>"
      "''ana''" "exampleRow\<lparr>u_status := AccountStatus_SUSPENDED, u_emailVerified := False\<rparr>" 9 "''ad''" "''ok''"]
  by (auto simp: exampleRow_def split: sum.splits)

end
