(* ===== verification/Account_Life.thy ===== *)
theory Account_Life
  imports Worker_Safety Moderation_Safety
begin

text \<open>The life of an account: how long its identity, its tokens, its links and its locks last. The
properties rest on the steps of \<open>Auth_Safety\<close> and on the entrances of \<open>Access_Control\<close>.\<close>

section \<open>Along any history\<close>

definition rowsGrow :: "Db \<Rightarrow> Db \<Rightarrow> bool" where
  "rowsGrow db db' \<longleftrightarrow> (\<forall>i u. db_users db i = Some u \<longrightarrow> (\<exists>v. db_users db' i = Some v \<and> rowKept u v))"

lemma rowsGrow_refl [simp]: "rowsGrow db db"
  by (simp add: rowsGrow_def)

lemma rowsGrow_trans: "rowsGrow a b \<Longrightarrow> rowsGrow b c \<Longrightarrow> rowsGrow a c"
  unfolding rowsGrow_def by (blast intro: rowKept_trans)

lemma history_ok:
  assumes "authStep\<^sup>*\<^sup>* db db'" and "accountsOk db"
  shows "accountsOk db' \<and> rowsGrow db db'"
  using assms(1)
proof (induction rule: rtranclp_induct)
  case (step b c)
  then have "accountsOk c \<and> rowsGrow b c" using step_ok [OF step.hyps(2)] by (simp add: rowsGrow_def)
  with step.IH show ?case by (blast intro: rowsGrow_trans)
qed (simp add: assms(2))

lemma accountsOk_emptyDb: "accountsOk emptyDb"
  by (simp add: accountsOk_def emptyDb_def)

lemma generation_refused:
  assumes "db_users db (ac_sub c) = Some row" and "ac_gen c \<noteq> u_tokenGeneration row"
  shows "resolveUser now (ValidToken c) revoked db \<noteq> Ok a"
    and "verify t = ValidToken c \<Longrightarrow> authenticateSocket verify now n revoked db (Some t) \<noteq> Ok d"
  using assms by (auto simp: resolveUser_def authenticateSocket_def split: if_splits)

section \<open>Facts about the steps\<close>

lemma sessions_updateUser_chain [simp]:
  "db_sessions (authAudit env u a h db) = db_sessions db"
  "db_users (authAudit env u a h db) = db_users db"
  "db_verificationTokens (authAudit env u a h db) = db_verificationTokens db"
  "db_users (revokeSessions now r P db) = db_users db"
  "db_verificationTokens (revokeSessions now r P db) = db_verificationTokens db"
  "db_sessions (revokeSessions now r P db) = updateWhere (\<lambda>s. P s \<and> s_revokedAt s = None)
     (\<lambda>s. s\<lparr>s_revokedAt := Some now, s_revokedReason := Some r\<rparr>) (db_sessions db)"
  "db_verificationTokens (consumeTokens now Q db) =
     updateWhere Q (\<lambda>v. v\<lparr>v_consumedAt := Some now\<rparr>) (db_verificationTokens db)"
  by (simp_all add: authAudit_def revokeSessions_def consumeTokens_def)

lemma revoked_rows:
  "\<forall>s\<in>set (updateWhere (\<lambda>s. s_userId s = u \<and> s_revokedAt s = None)
      (\<lambda>s. s\<lparr>s_revokedAt := Some now, s_revokedReason := Some r\<rparr>) rows).
    s_userId s = u \<longrightarrow> s_revokedAt s \<noteq> None"
proof
  fix s assume "s \<in> set (updateWhere (\<lambda>s. s_userId s = u \<and> s_revokedAt s = None)
      (\<lambda>s. s\<lparr>s_revokedAt := Some now, s_revokedReason := Some r\<rparr>) rows)"
  then obtain q where "s = (if s_userId q = u \<and> s_revokedAt q = None
      then q\<lparr>s_revokedAt := Some now, s_revokedReason := Some r\<rparr> else q)"
    unfolding updateWhere_def set_map by blast
  then show "s_userId s = u \<longrightarrow> s_revokedAt s \<noteq> None" by (cases "s_revokedAt q = None") simp_all
qed

lemma getActiveRestriction_sessions: "db_sessions (snd (getActiveRestriction u now db)) = db_sessions db"
  by (auto simp: getActiveRestriction_def Let_def split: option.split)

section \<open>Signing in with the right password\<close>

text \<open>What sign-in writes into the row, and what it hands out.\<close>

definition signedInRow :: "AuthEnv \<Rightarrow> string \<Rightarrow> string \<Rightarrow> SessionContext \<Rightarrow> UserRow \<Rightarrow> UserRow" where
  "signedInRow env h password ctx row =
     (if ax_needsRehash env h then row\<lparr>u_passwordHash := Some (ax_hashPassword env password)\<rparr> else row)
       \<lparr>u_failedLoginAttempts := 0, u_lockedUntil := None, u_lastLoginAt := Some (ax_now env),
        u_lastIpHash := Some (ax_hashIp env (sc_ip ctx)), u_deletionRequestedAt := None\<rparr>"

definition tokenFor :: "AuthEnv \<Rightarrow> user_id \<Rightarrow> UserRow \<Rightarrow> AuthResultInternal" where
  "tokenFor env u row =
     \<lparr>ar_userId = u,
      ar_accessToken = ax_sign env \<lparr>jp_sub = Some u, jp_sid = Some (ax_freshId env),
        jp_gen = Some (u_tokenGeneration row)\<rparr> (ax_now env div 1000 + ACCESS_TOKEN_TTL_SECONDS) (ax_secret env),
      ar_expiresIn = ACCESS_TOKEN_TTL_SECONDS, ar_refreshToken = ax_freshToken env,
      ar_sessionId = ax_freshId env\<rparr>"

lemma login_admits:
  assumes ok: "accountsOk db" and row: "db_users db u = Some row"
    and h: "u_passwordHash row = Some h" "h \<noteq> []" "u_deletedAt row = None"
    and locked: "case u_lockedUntil row of None \<Rightarrow> True | Some x \<Rightarrow> x \<le> ax_now env"
    and st: "u_status row \<notin> {AccountStatus_BANNED, AccountStatus_SUSPENDED}"
    and pw: "ax_verifyPassword env h password" and secret: "32 \<le> length (ax_secret env)"
  obtains db' where "login env (u_email row) password ctx db = (Ok (tokenFor env u row), db')"
    and "db_users db' u = Some (signedInRow env h password ctx row)"
proof -
  have found: "userWhere (\<lambda>v. u_email v = u_email row) db = Some u" by (rule userWhere_email [OF ok row])
  have unlocked: "\<not> (case u_lockedUntil row of None \<Rightarrow> False | Some x \<Rightarrow> ax_now env < x)"
    using locked by (auto split: option.splits)
  have "getActiveRestriction u (ax_now env) db = (None, db)"
    using st by (simp add: getActiveRestriction_def row)
  then have "login env (u_email row) password ctx db =
      issueSession env u (u_tokenGeneration row) ctx (admitLogin env u h password ctx db)"
    using h unlocked pw by (simp add: login_def found row verifyLogin_def)
  moreover have "db_users (snd (issueSession env u g ctx (admitLogin env u h password ctx db))) u =
      Some (signedInRow env h password ctx row)" for g
    by (simp add: issueSession_def Let_def admitLogin_def signedInRow_def table_simps row)
  moreover have "fst (issueSession env u (u_tokenGeneration row) ctx b) = Ok (tokenFor env u row)" for b
    using secret by (simp add: issueSession_def Let_def signedIn_def issueAccessToken_def tokenFor_def)
  ultimately show thesis using that by (metis prod.collapse)
qed

lemma signedInRow_simps [simp]:
  "u_status (signedInRow env h p ctx row) = u_status row"
  "u_deletedAt (signedInRow env h p ctx row) = u_deletedAt row"
  "u_tokenGeneration (signedInRow env h p ctx row) = u_tokenGeneration row"
  "u_role (signedInRow env h p ctx row) = u_role row" "u_plan (signedInRow env h p ctx row) = u_plan row"
  "u_email (signedInRow env h p ctx row) = u_email row"
  "u_failedLoginAttempts (signedInRow env h p ctx row) = 0" "u_lockedUntil (signedInRow env h p ctx row) = None"
  "u_deletionRequestedAt (signedInRow env h p ctx row) = None"
  by (simp_all add: signedInRow_def)

text \<open>What \<^verbatim>\<open>jose\<close> documents: a token signed with a secret is verified with it, until it expires, and gives
its payload back.\<close>

definition joseOk :: "AuthEnv \<Rightarrow> (string \<Rightarrow> string \<Rightarrow> JwtOutcome) \<Rightarrow> bool" where
  "joseOk env jwtVerify \<longleftrightarrow>
     (\<forall>p e. ax_now env div 1000 < e \<longrightarrow> jwtVerify (ax_sign env p e (ax_secret env)) (ax_secret env) = JwtOk p)"

lemma tokenFor_verified:
  assumes "joseOk env jwtVerify" and "32 \<le> length (ax_secret env)"
  shows "verifyAccessToken jwtVerify (ax_secret env) (ar_accessToken (tokenFor env u row)) =
    ValidToken \<lparr>ac_sub = u, ac_sid = ax_freshId env, ac_gen = u_tokenGeneration row\<rparr>"
  using assms by (simp add: verifyAccessToken_def tokenFor_def joseOk_def ACCESS_TOKEN_TTL_SECONDS_def)

lemma current_token_admitted:
  assumes "db_users db u = Some row" and "u_deletedAt row = None" and "u_status row \<notin> set NON_MATCHABLE_STATUSES"
    and "live revoked now sid = None"
    and "verify t = ValidToken \<lparr>ac_sub = u, ac_sid = sid, ac_gen = u_tokenGeneration row\<rparr>"
  shows "resolveUser now (verify t) revoked db =
           Ok \<lparr>au_id = u, au_role = u_role row, au_plan = u_plan row, au_sessionId = sid\<rparr>"
    and "t \<noteq> [] \<Longrightarrow> \<exists>d. authenticateSocket verify now n revoked db (Some t) = Ok d \<and> sd_userId d = u"
  using assms by (auto simp: resolveUser_def authenticateSocket_def NON_MATCHABLE_STATUSES_def)

section \<open>A new account\<close>

lemma register_Ok:
  assumes "register env input settings ctx db = (Ok (u, Some tok), db')"
  shows "u = ax_freshUserId env" "tok = ax_freshToken env"
    "db_users db' u = Some (registeredRow env input True (ax_hashIp env (sc_ip ctx)))"
    "db_verificationTokens db' = db_verificationTokens db @
       [\<lparr>v_id = ax_freshId env, v_userId = u, v_kind = EMAIL_VERIFICATION, v_tokenHash = ax_hashToken env tok,
         v_consumedAt = None, v_expiresAt = ax_now env + EMAIL_VERIFICATION_TTL_SECONDS * 1000,
         v_createdAt = ax_now env\<rparr>]"
  using assms
  by (auto simp: register_def Let_def addVerificationToken_def split: if_splits)

lemma find_snoc_fresh: "k \<notin> g ` set xs \<Longrightarrow> g x = k \<Longrightarrow> find (\<lambda>v. g v = k) (xs @ [x]) = Some x"
  by (induction xs) auto

lemma accountsOk_register:
  assumes "register env input settings ctx db = (r, db')" and "accountsOk db"
    and "db_users db (ax_freshUserId env) = None"
  shows "accountsOk db'"
  using step_ok [OF step_register [OF assms(3)] assms(2), of input settings ctx] assms(1) by simp

section \<open>Example surroundings\<close>

text \<open>A signature that can be read back: strings with a mark before every character.\<close>

fun encodeText :: "string \<Rightarrow> string" where
  "encodeText [] = ''-''"
| "encodeText (c # cs) = CHR ''+'' # c # encodeText cs"

fun decodeText :: "string \<Rightarrow> string \<times> string" where
  "decodeText (x # c # r) =
     (if x = CHR ''+'' then (let (s, t) = decodeText r in (c # s, t)) else ([], c # r))"
| "decodeText r = ([], [])"

lemma decodeText_encode [simp]: "decodeText (encodeText s @ r) = (s, r)"
proof (induction s)
  case Nil
  show ?case by (cases r) simp_all
qed simp

definition encodeField :: "string option \<Rightarrow> string" where
  "encodeField x = encodeText (case x of None \<Rightarrow> [] | Some s \<Rightarrow> CHR ''s'' # s)"

definition decodeField :: "string \<Rightarrow> string option \<times> string" where
  "decodeField t = (let (s, r) = decodeText t in (case s of [] \<Rightarrow> None | c # s' \<Rightarrow> Some s', r))"

lemma decodeField_encode [simp]: "decodeField (encodeField x @ r) = (x, r)"
  by (simp add: decodeField_def encodeField_def split: option.split)

definition encodeInt :: "int \<Rightarrow> string" where
  "encodeInt g = (if g < 0 then ''m'' else ''p'') @ replicate (nat \<bar>g\<bar>) CHR ''1''"

definition decodeInt :: "string \<Rightarrow> int" where
  "decodeInt s = (if take 1 s = ''m'' then - int (length s - 1) else int (length s - 1))"

lemma decodeInt_encode [simp]: "decodeInt (encodeInt g) = g"
  by (simp add: decodeInt_def encodeInt_def)

definition exampleSign :: "JwtPayload \<Rightarrow> int \<Rightarrow> string \<Rightarrow> string" where
  "exampleSign p e s =
     encodeField (jp_sub p) @ encodeField (jp_sid p) @ encodeField (map_option encodeInt (jp_gen p))"

definition exampleVerify :: "string \<Rightarrow> string \<Rightarrow> JwtOutcome" where
  "exampleVerify t s =
     (let (a, r1) = decodeField t; (b, r2) = decodeField r1; (c, r3) = decodeField r2
      in JwtOk \<lparr>jp_sub = a, jp_sid = b, jp_gen = map_option decodeInt c\<rparr>)"

definition exampleAuth :: "instant \<Rightarrow> AuthEnv" where
  "exampleAuth now =
     \<lparr>ax_now = now, ax_today = \<lparr>utcYear = 2026, utcMonth = 0, utcDay = 1\<rparr>, ax_verifyPassword = (=),
      ax_hashPassword = (\<lambda>p. p), ax_needsRehash = (\<lambda>h. False), ax_hashToken = (\<lambda>t. t), ax_hashIp = (\<lambda>ip. ip),
      ax_isoTime = (\<lambda>t. ''then''), ax_sign = exampleSign, ax_secret = replicate 32 CHR ''k'',
      ax_freshToken = ''new'', ax_freshId = ''s1'', ax_freshUserId = ''u''\<rparr>"

lemma exampleAuth_fields [simp]:
  "ax_now (exampleAuth now) = now" "ax_verifyPassword (exampleAuth now) = (=)"
  "ax_hashPassword (exampleAuth now) = (\<lambda>p. p)" "ax_hashToken (exampleAuth now) = (\<lambda>t. t)"
  "length (ax_secret (exampleAuth now)) = 32" "ax_freshId (exampleAuth now) = ''s1''"
  "ax_freshUserId (exampleAuth now) = ''u''" "ax_freshToken (exampleAuth now) = ''new''"
  by (simp_all add: exampleAuth_def)

lemma joseOk_example: "joseOk (exampleAuth now) exampleVerify"
proof -
  have "decodeField (encodeField x) = (x, [])" for x using decodeField_encode [of x "[]"] by simp
  then show ?thesis
    by (simp add: joseOk_def exampleAuth_def exampleSign_def exampleVerify_def option.map_comp o_def option.map_ident)
qed

definition exampleContext :: SessionContext where
  "exampleContext = \<lparr>sc_ip = ''ip'', sc_userAgent = None\<rparr>"

definition exampleRegistration :: RegisterInput where
  "exampleRegistration =
     \<lparr>rg_email = ''bo@example.com'', rg_username = ''bo'', rg_displayName = None, rg_password = ''secret'',
      rg_birthDate = \<lparr>utcYear = 2000, utcMonth = 0, utcDay = 1\<rparr>, rg_country = ''PT'', rg_locale = ''pt'',
      rg_languages = []\<rparr>"

lemma exampleRegistration_ok:
  "\<exists>db1. register (exampleAuth 5) exampleRegistration DEFAULT_SYSTEM_SETTINGS exampleContext emptyDb =
     (Ok (''u'', Some ''new''), db1)"
  by (simp add: register_def Let_def exampleRegistration_def DEFAULT_SYSTEM_SETTINGS_def exampleAuth_def
      meetsMinimumAge_def recentFromIp_def emptyDb_def userWhere_def)

definition exampleSession :: SessionRow where
  "exampleSession =
     \<lparr>s_id = ''s0'', s_userId = ''u'', s_refreshTokenHash = ''old'', s_rotationCounter = 0, s_revokedAt = None,
      s_revokedReason = None, s_expiresAt = 1000, s_lastUsedAt = 0, s_userAgent = None, s_ipHash = ''ip''\<rparr>"

definition exampleLink :: VerificationTokenRow where
  "exampleLink =
     \<lparr>v_id = ''v'', v_userId = ''u'', v_kind = PASSWORD_RESET, v_tokenHash = ''link'', v_consumedAt = None,
      v_expiresAt = 1000, v_createdAt = 0\<rparr>"

definition exampleAccount :: Db where
  "exampleAccount = accountDb exampleRow [exampleSession] [exampleLink]"

lemma exampleAccount_ok: "accountsOk exampleAccount"
  by (simp add: exampleAccount_def accountsOk_accountDb exampleRow_def exampleSession_def exampleLink_def)

section \<open>Properties\<close>

text \<open>C32: The identity tables are well formed whatever requests arrive and in whatever order: user ids,
addresses and names are unique, every session and every link belongs to an account, token generations and
failure counts are not negative; and no account loses its address, its name or its row, nor does its token
generation ever fall.\<close>

theorem accounts_stay_well_formed:
  assumes "authStep\<^sup>*\<^sup>* db db'" and "accountsOk db"
  shows "accountsOk db' \<and>
         (\<forall>i u. db_users db i = Some u \<longrightarrow>
            (\<exists>v. db_users db' i = Some v \<and> u_email v = u_email u \<and> u_username v = u_username u \<and>
                 u_tokenGeneration u \<le> u_tokenGeneration v))"
  using history_ok [OF assms] by (simp add: rowsGrow_def rowKept_def) blast

lemma accounts_stay_well_formed_witness:
  "accountsOk (logout 7 ''s0'' (logoutAll 5 ''u'' exampleAccount))"
proof -
  have "authStep\<^sup>*\<^sup>* exampleAccount (logout 7 ''s0'' (logoutAll 5 ''u'' exampleAccount))"
    by (rule rtranclp.rtrancl_into_rtrancl, rule r_into_rtranclp [of authStep], rule step_logoutAll, rule step_logout)
  from accounts_stay_well_formed [OF this exampleAccount_ok] show ?thesis by simp
qed

text \<open>A token refused for its generation is refused for good: no later sign-in, refresh, reset,
suspension, reinstatement or role change brings it back, at either entrance.\<close>

theorem old_tokens_never_come_back:
  assumes "authStep\<^sup>*\<^sup>* db db'" and "accountsOk db"
    and "db_users db (ac_sub c) = Some row" and "ac_gen c < u_tokenGeneration row" and "verify t = ValidToken c"
  shows "resolveUser now (verify t) revoked db' \<noteq> Ok a \<and>
         authenticateSocket verify now n revoked db' (Some t) \<noteq> Ok d"
proof -
  obtain row' where row': "db_users db' (ac_sub c) = Some row'" "u_tokenGeneration row \<le> u_tokenGeneration row'"
    using history_ok [OF assms(1,2)] assms(3) by (auto simp: rowsGrow_def rowKept_def)
  then have "ac_gen c \<noteq> u_tokenGeneration row'" using assms(4) by simp
  from generation_refused [OF row'(1) this] show ?thesis using assms(5) by simp
qed

lemma old_tokens_never_come_back_witness:
  "resolveUser 9 (ValidToken gateClaims) (\<lambda>k. None)
     (logoutAll 5 ''u'' (accountDb (exampleRow\<lparr>u_tokenGeneration := 1\<rparr>) [] [])) \<noteq>
   Ok \<lparr>au_id = ''u'', au_role = UserRole_USER, au_plan = PlanTier_FREE, au_sessionId = ''s''\<rparr>"
proof -
  let ?row = "exampleRow\<lparr>u_tokenGeneration := 1\<rparr>"
  have "accountsOk (accountDb ?row [] [])" by (rule accountsOk_accountDb) (simp_all add: exampleRow_def)
  from old_tokens_never_come_back [OF r_into_rtranclp [of authStep, OF step_logoutAll] this,
      of gateClaims ?row "\<lambda>t. ValidToken gateClaims" "''t''"]
  show ?thesis by (simp add: gateClaims_def)
qed

text \<open>C33: A password reset shuts everybody out. After it every session of the account is revoked, every access
token of a generation up to the old one is refused at both entrances, the new password is the stored one and
the lock is lifted; the link cannot be used again, whatever new password is sent with it; and no other
account, and no session of another account, is touched.\<close>

theorem password_reset_evicts_everyone:
  assumes "resetPassword env raw pw db = Ok (u, db')" and "accountsOk db" and "ax_hashToken env' = ax_hashToken env"
  shows "(\<forall>s\<in>set (db_sessions db'). s_userId s = u \<longrightarrow> s_revokedAt s \<noteq> None) \<and>
         (\<exists>row. db_users db u = Some row \<and>
            db_users db' u = Some (row\<lparr>u_passwordHash := Some (ax_hashPassword env pw),
              u_tokenGeneration := u_tokenGeneration row + 1, u_failedLoginAttempts := 0, u_lockedUntil := None\<rparr>) \<and>
            (\<forall>c. ac_sub c = u \<longrightarrow> ac_gen c \<le> u_tokenGeneration row \<longrightarrow>
               resolveUser now (ValidToken c) revoked db' \<noteq> Ok a \<and>
               (verify t = ValidToken c \<longrightarrow> authenticateSocket verify now n revoked db' (Some t) \<noteq> Ok d))) \<and>
         resetPassword env' raw pw' db' = Throw (Errors_tokenInvalid (Some ''That link has already been used.'')) \<and>
         (\<forall>v. v \<noteq> u \<longrightarrow> db_users db' v = db_users db v) \<and>
         filter (\<lambda>s. s_userId s \<noteq> u) (db_sessions db') = filter (\<lambda>s. s_userId s \<noteq> u) (db_sessions db)"
proof -
  obtain link where rec: "find (\<lambda>v. v_tokenHash v = ax_hashToken env raw) (db_verificationTokens db) = Some link"
    and kind: "v_kind link = PASSWORD_RESET" and u: "u = v_userId link"
    and db': "db' = authAudit env u ''auth.password.reset'' None
      (revokeSessions (ax_now env) ''password-reset'' (\<lambda>s. s_userId s = u)
        (updateUser u (\<lambda>u. u\<lparr>u_passwordHash := Some (ax_hashPassword env pw),
           u_tokenGeneration := u_tokenGeneration u + 1, u_failedLoginAttempts := 0, u_lockedUntil := None\<rparr>)
          (consumeTokens (ax_now env) (\<lambda>v. v_id v = v_id link) db)))"
    using assms(1) by (auto simp: resetPassword_def guard_simps openToken_Ok Let_def)
  have "u \<in> dom (db_users db)"
    using find_Some_iff2 [OF rec] assms(2) unfolding u by (auto simp: accountsOk_def)
  then obtain row where row: "db_users db u = Some row" by auto
  have row': "db_users db' u = Some (row\<lparr>u_passwordHash := Some (ax_hashPassword env pw),
      u_tokenGeneration := u_tokenGeneration row + 1, u_failedLoginAttempts := 0, u_lockedUntil := None\<rparr>)"
    by (simp add: db' table_simps row)
  have "openToken env' PASSWORD_RESET raw db' = Throw (Errors_tokenInvalid (Some ''That link has already been used.''))"
    by (simp add: openToken_def db' assms(3) find_updateWhere rec kind)
  then have again: "resetPassword env' raw pw' db' = Throw (Errors_tokenInvalid (Some ''That link has already been used.''))"
    by (simp add: resetPassword_def)
  have tokens: "\<forall>c. ac_sub c = u \<longrightarrow> ac_gen c \<le> u_tokenGeneration row \<longrightarrow>
      resolveUser now (ValidToken c) revoked db' \<noteq> Ok a \<and>
      (verify t = ValidToken c \<longrightarrow> authenticateSocket verify now n revoked db' (Some t) \<noteq> Ok d)"
  proof (intro allI impI)
    fix c :: AccessTokenClaims
    assume c: "ac_sub c = u" "ac_gen c \<le> u_tokenGeneration row"
    show "resolveUser now (ValidToken c) revoked db' \<noteq> Ok a \<and>
        (verify t = ValidToken c \<longrightarrow> authenticateSocket verify now n revoked db' (Some t) \<noteq> Ok d)"
      using generation_refused [of db' c, unfolded c(1), OF row'] c(2) by simp
  qed
  have others: "filter (\<lambda>s. s_userId s \<noteq> u) (db_sessions db') = filter (\<lambda>s. s_userId s \<noteq> u) (db_sessions db)"
    unfolding db' sessions_updateUser_chain updateUser_other consumeTokens_frame by (rule filter_updateWhere) simp
  have revoked: "\<forall>s\<in>set (db_sessions db'). s_userId s = u \<longrightarrow> s_revokedAt s \<noteq> None"
    unfolding db' sessions_updateUser_chain updateUser_other by (rule revoked_rows)
  have rows: "\<forall>v. v \<noteq> u \<longrightarrow> db_users db' v = db_users db v" by (simp add: db' table_simps)
  have "\<exists>row. db_users db u = Some row \<and>
      db_users db' u = Some (row\<lparr>u_passwordHash := Some (ax_hashPassword env pw),
        u_tokenGeneration := u_tokenGeneration row + 1, u_failedLoginAttempts := 0, u_lockedUntil := None\<rparr>) \<and>
      (\<forall>c. ac_sub c = u \<longrightarrow> ac_gen c \<le> u_tokenGeneration row \<longrightarrow>
         resolveUser now (ValidToken c) revoked db' \<noteq> Ok a \<and>
         (verify t = ValidToken c \<longrightarrow> authenticateSocket verify now n revoked db' (Some t) \<noteq> Ok d))"
    by (rule exI [of _ row], intro conjI, rule row, rule row', rule tokens)
  then show ?thesis
    by (rule conjI [OF revoked conjI [OF _ conjI [OF again conjI [OF rows others]]]])
qed

lemma password_reset_evicts_everyone_witness:
  "\<exists>db'. resetPassword (exampleAuth 5) ''link'' ''pw'' exampleAccount = Ok (''u'', db') \<and>
     (\<forall>s\<in>set (db_sessions db'). s_userId s = ''u'' \<longrightarrow> s_revokedAt s \<noteq> None) \<and>
     resetPassword (exampleAuth 6) ''link'' ''pw2'' db' =
       Throw (Errors_tokenInvalid (Some ''That link has already been used.''))"
proof -
  obtain db' where r: "resetPassword (exampleAuth 5) ''link'' ''pw'' exampleAccount = Ok (''u'', db')"
    by (simp add: resetPassword_def openToken_def exampleAccount_def exampleLink_def Let_def)
  from password_reset_evicts_everyone [OF r exampleAccount_ok, of "exampleAuth 6"] r show ?thesis by simp
qed

text \<open>A refresh rotates: the session stays the same and keeps its place, its counter grows by one, the new
token finds it and the old one finds nothing. Presenting the old one again is refused and, against the
comment on reuse, revokes nothing.\<close>

theorem rotated_token_is_dead:
  assumes "refresh env raw ctx db = (Ok r, db')" and "ax_hashToken env' = ax_hashToken env"
    and "distinct (map s_refreshTokenHash (db_sessions db))" and "distinct (map s_id (db_sessions db))"
    and "ax_hashToken env (ax_freshToken env) \<notin> s_refreshTokenHash ` set (db_sessions db)"
  shows "(\<exists>s s'. find (\<lambda>s. s_refreshTokenHash s = ax_hashToken env raw) (db_sessions db) = Some s \<and>
            s_id s = ar_sessionId r \<and> s_userId s = ar_userId r \<and>
            find (\<lambda>s. s_refreshTokenHash s = ax_hashToken env (ar_refreshToken r)) (db_sessions db') = Some s' \<and>
            s_id s' = s_id s \<and> s_userId s' = s_userId s \<and> s_revokedAt s' = None \<and>
            s_rotationCounter s' = s_rotationCounter s + 1) \<and>
         map s_id (db_sessions db') = map s_id (db_sessions db) \<and>
         refresh env' raw ctx' db' = (Throw (Errors_tokenInvalid (Some sessionExpired)), db')"
proof -
  let ?h = "ax_hashToken env raw" and ?n = "ax_hashToken env (ax_freshToken env)"
  obtain s db1 where s: "find (\<lambda>s. s_refreshTokenHash s = ?h) (db_sessions db) = Some s" "s_revokedAt s = None"
    and db1: "getActiveRestriction (s_userId s) (ax_now env) db = (None, db1)"
    and db': "db' = rotate env (s_id s) ctx db1"
    and r: "ar_userId r = s_userId s" "ar_sessionId r = s_id s" "ar_refreshToken r = ax_freshToken env"
    using assms(1)
    by (auto simp: refresh_def signedIn_def split: option.splits if_splits prod.splits)
  have member: "s \<in> set (db_sessions db)" and hash: "s_refreshTokenHash s = ?h" using find_Some_iff2 [OF s(1)] by auto
  define f where "f = (\<lambda>x :: SessionRow. x\<lparr>s_refreshTokenHash := ?n, s_rotationCounter := s_rotationCounter x + 1,
      s_lastUsedAt := ax_now env, s_expiresAt := refreshTokenExpiry (ax_now env), s_ipHash := ax_hashIp env (sc_ip ctx)\<rparr>)"
  have rows: "db_sessions db' = updateWhere (\<lambda>x. s_id x = s_id s) f (db_sessions db)"
    using getActiveRestriction_sessions [of "s_userId s" "ax_now env" db] db1 by (simp add: db' rotate_def f_def)
  have same_id: "x = s" if "x \<in> set (db_sessions db)" "s_id x = s_id s" for x
    using assms(4) member that by (simp add: distinct_map inj_on_def)
  have same_hash: "x = s" if "x \<in> set (db_sessions db)" "s_refreshTokenHash x = ?h" for x
    using assms(3) member hash that by (simp add: distinct_map inj_on_def)
  have new: "?n \<noteq> ?h" using assms(5) member hash by force
  have after: "x = f s \<or> x \<in> set (db_sessions db) \<and> s_id x \<noteq> s_id s" if "x \<in> set (db_sessions db')" for x
  proof -
    from that obtain q where q: "q \<in> set (db_sessions db)" "x = (if s_id q = s_id s then f q else q)"
      unfolding rows updateWhere_def by auto
    then show ?thesis using same_id [of q] by (cases "s_id q = s_id s") auto
  qed
  have "find (\<lambda>x. s_refreshTokenHash x = ?n) (db_sessions db') = Some (f s)"
  proof (cases "find (\<lambda>x. s_refreshTokenHash x = ?n) (db_sessions db')")
    case None
    moreover have "f s \<in> set (db_sessions db')" using member by (auto simp: rows set_updateWhere)
    ultimately show ?thesis by (auto simp: find_None_iff2 f_def)
  next
    case (Some x)
    with after [of x] assms(5) find_Some_iff2 [OF Some] show ?thesis by (force simp: image_iff)
  qed
  moreover have "s_refreshTokenHash x \<noteq> ?h" if "x \<in> set (db_sessions db')" for x
    using after [OF that] same_hash [of x] new by (auto simp: f_def)
  then have "find (\<lambda>x. s_refreshTokenHash x = ?h) (db_sessions db') = None"
    by (auto simp: find_None_iff2)
  then have "refresh env' raw ctx' db' = (Throw (Errors_tokenInvalid (Some sessionExpired)), db')"
    by (simp add: refresh_def assms(2))
  moreover have "map s_id (db_sessions db') = map s_id (db_sessions db)"
    by (simp add: rows f_def)
  ultimately show ?thesis using s r by (simp add: f_def)
qed

lemma rotated_token_is_dead_witness:
  "\<exists>r db'. refresh (exampleAuth 5) ''old'' exampleContext exampleAccount = (Ok r, db') \<and>
     refresh (exampleAuth 6) ''old'' exampleContext db' =
       (Throw (Errors_tokenInvalid (Some sessionExpired)), db')"
proof -
  obtain r db' where r: "refresh (exampleAuth 5) ''old'' exampleContext exampleAccount = (Ok r, db')"
    by (simp add: refresh_def exampleAccount_def exampleSession_def exampleRow_def getActiveRestriction_def
        signedIn_def issueAccessToken_def)
  from rotated_token_is_dead [OF r, of "exampleAuth 6"] r show ?thesis
    by (simp add: exampleAccount_def exampleSession_def)
qed

section \<open>Locks\<close>

text \<open>A lock is between half a minute and a quarter of an hour long, from the fifth failure on.\<close>

lemma lock_bounds:
  assumes "0 \<le> k" and "db_users db u = Some row"
  obtains l where "db_users (recordFailedLogin now u k db) u =
      Some (row\<lparr>u_failedLoginAttempts := k + 1, u_lockedUntil := l\<rparr>)"
    and "l = None \<longleftrightarrow> k + 1 < 5"
    and "\<And>t. l = Some t \<Longrightarrow> now + 30000 \<le> t \<and> t \<le> now + 900000"
proof
  let ?l = "if 5 \<le> k + 1 then Some (now + min (30 * 2 ^ nat (k + 1 - 5)) 900 * 1000) else None"
  show "db_users (recordFailedLogin now u k db) u =
      Some (row\<lparr>u_failedLoginAttempts := k + 1, u_lockedUntil := ?l\<rparr>)"
    using assms(2) by (simp add: recordFailedLogin_def Let_def table_simps)
  have "(30 :: int) \<le> 30 * 2 ^ nat (k + 1 - 5)" by simp
  then show "now + 30000 \<le> t \<and> t \<le> now + 900000" if "?l = Some t" for t
    using that by (auto split: if_splits simp: min_def)
qed (use assms in auto)

lemma getActiveRestriction_other: "v \<noteq> u \<Longrightarrow> db_users (snd (getActiveRestriction u now db)) v = db_users db v"
  by (auto simp: getActiveRestriction_def Let_def table_simps split: option.split)

lemma login_writes_own_row:
  assumes "db_users db v = Some row" and "u_email row \<noteq> email"
  shows "db_users (snd (login env email password ctx db)) v = Some row"
proof -
  have "db_users (snd (verifyLogin env i u h password ctx db)) v = db_users db v" if "i \<noteq> v" for i u h
    using that getActiveRestriction_other [of v i "ax_now env" db]
    by (cases "getActiveRestriction i (ax_now env) db")
       (auto simp: verifyLogin_def recordFailedLogin_def Let_def issueSession_def admitLogin_def table_simps
          split: option.split)
  moreover have "i \<noteq> v" if "userWhere (\<lambda>u. u_email u = email) db = Some i" for i
    using userWhere_Some [OF that] assms by auto
  ultimately show ?thesis
    using assms(1) by (auto simp: login_def split: option.split)
qed

text \<open>Sign-in attempts of anybody, one after the other: surroundings, address, password, client.\<close>

definition tryAll :: "(AuthEnv \<times> string \<times> string \<times> SessionContext) list \<Rightarrow> Db \<Rightarrow> Db" where
  "tryAll calls db = fold (\<lambda>(env, e, p, ctx) db. snd (login env e p ctx db)) calls db"

text \<open>What failed attempts up to an instant can do to a row.\<close>

definition onlyLocked :: "instant \<Rightarrow> UserRow \<Rightarrow> UserRow \<Rightarrow> bool" where
  "onlyLocked t row row' \<longleftrightarrow>
     (\<exists>k l. row' = row\<lparr>u_failedLoginAttempts := k, u_lockedUntil := l\<rparr> \<and> 0 \<le> k \<and>
        (case l of None \<Rightarrow> True | Some x \<Rightarrow> x \<le> t + 900000))"

lemma onlyLocked_login:
  assumes ok: "accountsOk db" and row: "db_users db u = Some row'" and inv: "onlyLocked t row row'"
    and now: "ax_now env \<le> t" and h: "u_passwordHash row = Some h"
    and wrong: "e = u_email row \<Longrightarrow> \<not> ax_verifyPassword env h p"
  shows "\<exists>row''. db_users (snd (login env e p ctx db)) u = Some row'' \<and> onlyLocked t row row''"
proof (cases "e = u_email row")
  case True
  have e: "u_email row' = u_email row" "u_passwordHash row' = Some h" "0 \<le> u_failedLoginAttempts row'"
    using inv h by (auto simp: onlyLocked_def)
  have found: "userWhere (\<lambda>u. u_email u = e) db = Some u"
    using userWhere_email [OF ok row] by (simp add: True e(1))
  obtain l where l: "db_users (recordFailedLogin (ax_now env) u (u_failedLoginAttempts row') db) u =
      Some (row'\<lparr>u_failedLoginAttempts := u_failedLoginAttempts row' + 1, u_lockedUntil := l\<rparr>)"
    and le: "\<And>x. l = Some x \<Longrightarrow> x \<le> ax_now env + 900000"
    by (rule lock_bounds [OF e(3) row]) auto
  have "onlyLocked t row (row'\<lparr>u_failedLoginAttempts := u_failedLoginAttempts row' + 1, u_lockedUntil := l\<rparr>)"
    using inv e(3) le now unfolding onlyLocked_def
    by (auto split: option.splits intro!: exI [of _ "u_failedLoginAttempts row' + 1"] exI [of _ l])
  with l row inv show ?thesis
    using wrong [OF True] by (auto simp: login_def found e(2) verifyLogin_def)
next
  case False
  then have "u_email row' \<noteq> e" using inv by (auto simp: onlyLocked_def)
  from login_writes_own_row [OF row this] inv show ?thesis by blast
qed

lemma onlyLocked_tryAll:
  assumes "accountsOk db" and "db_users db u = Some row'" and "onlyLocked t row row'"
    and "u_passwordHash row = Some h"
    and "\<forall>(env, e, p, ctx)\<in>set calls. ax_now env \<le> t \<and> (e = u_email row \<longrightarrow> \<not> ax_verifyPassword env h p)"
  shows "accountsOk (tryAll calls db) \<and>
    (\<exists>row''. db_users (tryAll calls db) u = Some row'' \<and> onlyLocked t row row'')"
  using assms
proof (induction calls arbitrary: db row')
  case (Cons call calls)
  obtain env e p ctx where [simp]: "call = (env, e, p, ctx)" by (cases call)
  let ?db = "snd (login env e p ctx db)"
  have ok: "accountsOk ?db"
    using accountsOk_kept [OF Cons.prems(1) keeps_login [OF Cons.prems(1)]] .
  have now: "ax_now env \<le> t" and wrong: "e = u_email row \<Longrightarrow> \<not> ax_verifyPassword env h p"
    using Cons.prems(5) by simp_all
  obtain row'' where "db_users ?db u = Some row''" "onlyLocked t row row''"
    using onlyLocked_login [OF Cons.prems(1-3) now Cons.prems(4) wrong] by blast
  from Cons.IH [OF ok this Cons.prems(4)] Cons.prems(5) show ?case by (simp add: tryAll_def)
qed (auto simp: tryAll_def)

text \<open>Nobody can be locked out for good. Whatever attempts are made on whatever addresses until some
instant, with wrong passwords for this account, a quarter of an hour later its owner, who is neither deleted
nor restricted, signs in with the right password, and the count starts again from nought.\<close>

theorem lockout_never_permanent:
  assumes "accountsOk db" and "db_users db u = Some row" and "u_passwordHash row = Some h" and "h \<noteq> []"
    and "u_deletedAt row = None" and "u_status row \<notin> {AccountStatus_BANNED, AccountStatus_SUSPENDED}"
    and "case u_lockedUntil row of None \<Rightarrow> True | Some x \<Rightarrow> x \<le> t + 900000"
    and "\<forall>(env, e, p, ctx)\<in>set calls. ax_now env \<le> t \<and> (e = u_email row \<longrightarrow> \<not> ax_verifyPassword env h p)"
    and "t + 900000 \<le> ax_now env" and "ax_verifyPassword env h password" and "32 \<le> length (ax_secret env)"
  shows "\<exists>r db'. login env (u_email row) password ctx (tryAll calls db) = (Ok r, db') \<and> ar_userId r = u \<and>
           (\<exists>row'. db_users db' u = Some row' \<and> u_failedLoginAttempts row' = 0 \<and> u_lockedUntil row' = None)"
proof -
  have "0 \<le> u_failedLoginAttempts row" using assms(1,2) by (auto simp: accountsOk_def)
  then have "onlyLocked t row row"
    using assms(7) unfolding onlyLocked_def
    by (intro exI [of _ "u_failedLoginAttempts row"] exI [of _ "u_lockedUntil row"]) simp
  from onlyLocked_tryAll [OF assms(1,2) this assms(3,8)] obtain row'
    where ok: "accountsOk (tryAll calls db)" and row': "db_users (tryAll calls db) u = Some row'"
      and inv: "onlyLocked t row row'" by blast
  have e: "u_email row' = u_email row" "u_passwordHash row' = Some h" "u_deletedAt row' = None"
    "u_status row' \<notin> {AccountStatus_BANNED, AccountStatus_SUSPENDED}"
    "case u_lockedUntil row' of None \<Rightarrow> True | Some x \<Rightarrow> x \<le> ax_now env"
    using inv assms(3,5,6,9) by (auto simp: onlyLocked_def split: option.splits)
  obtain db' where "login env (u_email row') password ctx (tryAll calls db) = (Ok (tokenFor env u row'), db')"
    and "db_users db' u = Some (signedInRow env h password ctx row')"
    by (rule login_admits [OF ok row' e(2) assms(4) e(3,5,4) assms(10,11)])
  then show ?thesis by (simp add: e(1) tokenFor_def)
qed

lemma lockout_never_permanent_witness:
  "\<exists>r db'. login (exampleAuth 900009) ''ana@example.com'' ''h'' exampleContext
     (tryAll (replicate 6 (exampleAuth 9, ''ana@example.com'', ''x'', exampleContext)) exampleAccount) = (Ok r, db') \<and>
     ar_userId r = ''u''"
  using lockout_never_permanent [OF exampleAccount_ok, of "''u''" exampleRow "''h''" 9
      "replicate 6 (exampleAuth 9, ''ana@example.com'', ''x'', exampleContext)" "exampleAuth 900009" "''h''" exampleContext]
  by (auto simp: exampleAccount_def exampleRow_def)

section \<open>What a sign-in answer tells\<close>

text \<open>What a refused sign-in tells is exactly this: the answer is anything but the one common refusal only
when the account exists, is not deleted and has a password, and either the password was right or the account
is locked at the moment. The second case needs no password, so five failures make the existence of an account
visible.\<close>

theorem login_discloses_exactly:
  assumes "accountsOk db"
  shows "fst (login env email password ctx db) \<noteq> Throw Errors_invalidCredentials \<longleftrightarrow>
         (\<exists>u row h. db_users db u = Some row \<and> u_email row = email \<and> u_deletedAt row = None \<and>
            u_passwordHash row = Some h \<and> h \<noteq> [] \<and>
            (ax_verifyPassword env h password \<or>
             (\<exists>x. u_lockedUntil row = Some x \<and> ax_now env < x)))"
proof -
  have distinct [simp]: "Errors_rateLimited n \<noteq> Errors_invalidCredentials" "Errors_internal \<noteq> Errors_invalidCredentials"
    "restrictionError env r \<noteq> Errors_invalidCredentials" for n r
    by (auto simp: Errors_rateLimited_def Errors_invalidCredentials_def Errors_internal_def restrictionError_def
        Errors_accountBanned_def Errors_suspendedUntil_def Errors_accountSuspended_def appError_def split: option.split)
  have issued: "fst (issueSession env u g ctx b) \<noteq> Throw Errors_invalidCredentials" for u g b
    by (auto simp: issueSession_def Let_def signedIn_def split: option.split)
  have verified: "fst (verifyLogin env u row h password ctx db) \<noteq> Throw Errors_invalidCredentials \<longleftrightarrow>
      ax_verifyPassword env h password" for u row h
    using issued by (cases "getActiveRestriction u (ax_now env) db"; cases "fst (getActiveRestriction u (ax_now env) db)")
      (auto simp: verifyLogin_def)
  show ?thesis
  proof (cases "userWhere (\<lambda>u. u_email u = email) db")
    case None
    then have "u_email row \<noteq> email" if "db_users db u = Some row" for u row
      using userWhere_email [OF assms that] by auto
    with None show ?thesis by (auto simp: login_def)
  next
    case (Some u)
    then obtain row where row: "db_users db u = Some row" "u_email row = email"
      using userWhere_Some by blast
    have only: "v = u \<and> row' = row" if "db_users db v = Some row'" "u_email row' = email" for v row'
      using accountsOk_unique [OF assms that(1) row(1)] row that by auto
    have "fst (login env email password ctx db) \<noteq> Throw Errors_invalidCredentials \<longleftrightarrow>
        u_deletedAt row = None \<and> (\<exists>h. u_passwordHash row = Some h \<and> h \<noteq> [] \<and>
          (ax_verifyPassword env h password \<or> (\<exists>x. u_lockedUntil row = Some x \<and> ax_now env < x)))"
      using row verified by (auto simp: login_def Some split: option.splits)
    with row only show ?thesis by metis
  qed
qed

lemma login_discloses_exactly_witness:
  "fst (login (exampleAuth 5) ''ana@example.com'' ''wrong'' exampleContext
     (accountDb (exampleRow\<lparr>u_lockedUntil := Some 9\<rparr>) [] [])) \<noteq> Throw Errors_invalidCredentials"
proof -
  have ok: "accountsOk (accountDb (exampleRow\<lparr>u_lockedUntil := Some 9\<rparr>) [] [])"
    by (rule accountsOk_accountDb) (simp_all add: exampleRow_def)
  show ?thesis
    unfolding login_discloses_exactly [OF ok] by (simp add: exampleRow_def)
qed

section \<open>From registration to deletion\<close>

text \<open>Register, confirm, sign in: the three fit together. A registration that hands out a confirmation
token leads, when the token is presented within a day, to a confirmed and active account, and the password
then opens a session whose access token the HTTP entrance accepts as that very user.\<close>

theorem register_verify_login:
  assumes "register env input settings ctx db = (Ok (u, Some tok), db1)" and "accountsOk db"
    and "db_users db (ax_freshUserId env) = None"
    and "ax_hashToken env tok \<notin> v_tokenHash ` set (db_verificationTokens db)"
    and "ax_hashToken env1 = ax_hashToken env" and "ax_now env1 < ax_now env + 86400000"
    and "ax_hashPassword env (rg_password input) = h" and "h \<noteq> []" and "ax_verifyPassword env2 h (rg_password input)"
    and "32 \<le> length (ax_secret env2)" and "joseOk env2 jwtVerify"
    and "live revoked (ax_now env2) (ax_freshId env2) = None"
  shows "\<exists>db2 r db3. verifyEmail env1 tok db1 = Ok (u, db2) \<and>
           login env2 (rg_email input) (rg_password input) ctx2 db2 = (Ok r, db3) \<and>
           resolveUser (ax_now env2) (verifyAccessToken jwtVerify (ax_secret env2) (ar_accessToken r)) revoked db3 =
             Ok \<lparr>au_id = u, au_role = UserRole_USER, au_plan = PlanTier_FREE, au_sessionId = ar_sessionId r\<rparr> \<and>
           (\<exists>row. db_users db3 u = Some row \<and> u_status row = AccountStatus_ACTIVE)"
proof -
  note reg = register_Ok [OF assms(1)]
  define row where "row = registeredRow env input True (ax_hashIp env (sc_ip ctx))"
  define link where "link = \<lparr>v_id = ax_freshId env, v_userId = u, v_kind = EMAIL_VERIFICATION,
      v_tokenHash = ax_hashToken env tok, v_consumedAt = None,
      v_expiresAt = ax_now env + EMAIL_VERIFICATION_TTL_SECONDS * 1000, v_createdAt = ax_now env\<rparr>"
  have "find (\<lambda>v. v_tokenHash v = ax_hashToken env1 tok) (db_verificationTokens db1) = Some link"
    using assms(4) unfolding reg(4) assms(5) link_def [symmetric]
    by (rule find_snoc_fresh) (simp add: link_def)
  then have opened: "openToken env1 EMAIL_VERIFICATION tok db1 = Ok link"
    using assms(6) by (simp add: openToken_Ok link_def EMAIL_VERIFICATION_TTL_SECONDS_def)
  obtain db2 where db2: "verifyEmail env1 tok db1 = Ok (u, db2)"
    and row2: "db_users db2 u = Some (row\<lparr>u_emailVerified := True, u_emailVerifiedAt := Some (ax_now env1),
        u_status := AccountStatus_ACTIVE\<rparr>)"
    by (simp add: verifyEmail_def opened Let_def link_def table_simps reg(3) registeredRow_def row_def)
  have ok2: "accountsOk db2"
    using accountsOk_kept [OF accountsOk_register [OF assms(1-3)] keeps_links(1) [OF db2]] .
  let ?row = "row\<lparr>u_emailVerified := True, u_emailVerifiedAt := Some (ax_now env1),
        u_status := AccountStatus_ACTIVE\<rparr>"
  have f: "u_email ?row = rg_email input" "u_passwordHash ?row = Some h" "u_deletedAt ?row = None"
    "case u_lockedUntil ?row of None \<Rightarrow> True | Some x \<Rightarrow> x \<le> ax_now env2"
    "u_status ?row \<notin> {AccountStatus_BANNED, AccountStatus_SUSPENDED}"
    "u_role ?row = UserRole_USER" "u_plan ?row = PlanTier_FREE"
    using assms(7) by (simp_all add: row_def registeredRow_def)
  obtain db3 where l: "login env2 (u_email ?row) (rg_password input) ctx2 db2 = (Ok (tokenFor env2 u ?row), db3)"
    and row3: "db_users db3 u = Some (signedInRow env2 h (rg_password input) ctx2 ?row)"
    by (rule login_admits [OF ok2 row2 f(2) assms(8) f(3,4,5) assms(9,10)])
  have "resolveUser (ax_now env2) (verifyAccessToken jwtVerify (ax_secret env2) (ar_accessToken (tokenFor env2 u ?row)))
      revoked db3 = Ok \<lparr>au_id = u, au_role = UserRole_USER, au_plan = PlanTier_FREE, au_sessionId = ax_freshId env2\<rparr>"
    using current_token_admitted(1) [OF row3, of revoked "ax_now env2" "ax_freshId env2"
        "verifyAccessToken jwtVerify (ax_secret env2)" "ar_accessToken (tokenFor env2 u ?row)"]
      tokenFor_verified [OF assms(11,10), of u ?row] assms(12) f(3,6,7)
    by (simp add: NON_MATCHABLE_STATUSES_def)
  with db2 l row3 show ?thesis unfolding f(1) by (auto simp: tokenFor_def)
qed

lemma register_verify_login_witness:
  "\<exists>db1 db2 r db3. register (exampleAuth 5) exampleRegistration DEFAULT_SYSTEM_SETTINGS exampleContext emptyDb =
       (Ok (''u'', Some ''new''), db1) \<and>
     verifyEmail (exampleAuth 6) ''new'' db1 = Ok (''u'', db2) \<and>
     login (exampleAuth 7) ''bo@example.com'' ''secret'' exampleContext db2 = (Ok r, db3)"
proof -
  obtain db1 where r: "register (exampleAuth 5) exampleRegistration DEFAULT_SYSTEM_SETTINGS exampleContext emptyDb =
      (Ok (''u'', Some ''new''), db1)" using exampleRegistration_ok by blast
  from register_verify_login [OF r accountsOk_emptyDb _ _ _ _ _ _ _ _ joseOk_example,
      of "exampleAuth 6" "rg_password exampleRegistration" 7 "\<lambda>k. None" exampleContext] r
  show ?thesis by (auto simp: exampleRegistration_def emptyDb_def)
qed

text \<open>An address that was never confirmed does not keep anybody out. With the setting that asks for a
confirmed address to be matched, a fresh registration followed by a sign-in is admitted by the socket
entrance, passes the check made when joining the queue and is loaded as a candidate, its status still
pending and its address unconfirmed: the setting only chooses the status that is stored.\<close>

theorem unverified_account_is_admitted:
  assumes "register env input settings ctx db = (Ok (u, Some tok), db1)" and "accountsOk db"
    and "db_users db (ax_freshUserId env) = None"
    and "ax_hashPassword env (rg_password input) = h" and "h \<noteq> []" and "ax_verifyPassword env2 h (rg_password input)"
    and "32 \<le> length (ax_secret env2)" and "joseOk env2 jwtVerify"
    and "live revoked (ax_now env2) (ax_freshId env2) = None"
  shows "\<exists>r db2 row. login env2 (rg_email input) (rg_password input) ctx2 db1 = (Ok r, db2) \<and>
           loadMatchCandidate u db2 = Some row \<and> u_status row = AccountStatus_PENDING_VERIFICATION \<and>
           \<not> u_emailVerified row \<and> revalidateSocket u db2 = None \<and>
           (ar_accessToken r \<noteq> [] \<longrightarrow>
              (\<exists>d. authenticateSocket (verifyAccessToken jwtVerify (ax_secret env2)) (ax_now env2) n revoked db2
                     (Some (ar_accessToken r)) = Ok d \<and> sd_userId d = u))"
proof -
  define row where "row = registeredRow env input True (ax_hashIp env (sc_ip ctx))"
  have row1: "db_users db1 u = Some row" unfolding row_def by (rule register_Ok [OF assms(1)])
  have f: "u_email row = rg_email input" "u_passwordHash row = Some h" "u_deletedAt row = None"
    "case u_lockedUntil row of None \<Rightarrow> True | Some x \<Rightarrow> x \<le> ax_now env2"
    "u_status row = AccountStatus_PENDING_VERIFICATION" "\<not> u_emailVerified row"
    using assms(4) by (simp_all add: row_def registeredRow_def)
  have ok1: "accountsOk db1" by (rule accountsOk_register [OF assms(1-3)])
  obtain db2 where l: "login env2 (u_email row) (rg_password input) ctx2 db1 = (Ok (tokenFor env2 u row), db2)"
    and row2: "db_users db2 u = Some (signedInRow env2 h (rg_password input) ctx2 row)"
    by (rule login_admits [OF ok1 row1 f(2) assms(5) f(3,4) _ assms(6,7)]) (simp_all add: f(5))
  let ?row = "signedInRow env2 h (rg_password input) ctx2 row"
  have e: "\<not> u_emailVerified ?row" using f(6) by (simp add: signedInRow_def)
  have "\<exists>d. authenticateSocket (verifyAccessToken jwtVerify (ax_secret env2)) (ax_now env2) n revoked db2
      (Some (ar_accessToken (tokenFor env2 u row))) = Ok d \<and> sd_userId d = u"
    if "ar_accessToken (tokenFor env2 u row) \<noteq> []"
    using current_token_admitted(2) [OF row2, of revoked "ax_now env2" "ax_freshId env2"
        "verifyAccessToken jwtVerify (ax_secret env2)" "ar_accessToken (tokenFor env2 u row)" n]
      tokenFor_verified [OF assms(8,7), of u row] assms(9) f(3,5) that
    by (simp add: NON_MATCHABLE_STATUSES_def)
  moreover have "loadMatchCandidate u db2 = Some ?row" "revalidateSocket u db2 = None"
    using row2 f(3,5) by (simp_all add: loadMatchCandidate_def revalidateSocket_def)
  ultimately show ?thesis using l e f(5) unfolding f(1) by fastforce
qed

lemma unverified_account_is_admitted_witness:
  "\<exists>db1 r db2. register (exampleAuth 5) exampleRegistration DEFAULT_SYSTEM_SETTINGS exampleContext emptyDb =
       (Ok (''u'', Some ''new''), db1) \<and>
     login (exampleAuth 7) ''bo@example.com'' ''secret'' exampleContext db1 = (Ok r, db2) \<and>
     revalidateSocket ''u'' db2 = None"
proof -
  obtain db1 where r: "register (exampleAuth 5) exampleRegistration DEFAULT_SYSTEM_SETTINGS exampleContext emptyDb =
      (Ok (''u'', Some ''new''), db1)" using exampleRegistration_ok by blast
  have "\<exists>r db2. login (exampleAuth 7) ''bo@example.com'' ''secret'' exampleContext db1 = (Ok r, db2) \<and>
      revalidateSocket ''u'' db2 = None"
    using unverified_account_is_admitted [OF r accountsOk_emptyDb _ _ _ _ _ joseOk_example,
        of "rg_password exampleRegistration" 7 "\<lambda>k. None" exampleContext "''n''"]
    by (auto simp: exampleRegistration_def emptyDb_def)
  with r show ?thesis by blast
qed

text \<open>Asking for deletion and signing in again leaves the account in limbo. Sign-in is said to cancel the
deletion: it succeeds, and withdraws the request so that no later run of the erasure takes the account, but
the status stays deactivated. Every token of the account, the one just issued included, is then refused at both
entrances, and an administrator's reinstatement is refused too.\<close>

theorem deletion_then_signin_is_limbo:
  assumes "requestDeletion env u pw db = Ok (due, db1)" and "accountsOk db" and "db_users db u = Some row"
    and "u_passwordHash row = Some h" and "h \<noteq> []" and "u_deletedAt row = None"
    and "case u_lockedUntil row of None \<Rightarrow> True | Some x \<Rightarrow> x \<le> ax_now env2"
    and "ax_verifyPassword env2 h password" and "32 \<le> length (ax_secret env2)"
  shows "\<exists>r db2. login env2 (u_email row) password ctx db1 = (Ok r, db2) \<and> ar_userId r = u \<and>
           (resolveUser now v revoked db2 = Ok a \<longrightarrow> au_id a \<noteq> u) \<and>
           (authenticateSocket verify now n revoked db2 t = Ok d \<longrightarrow> sd_userId d \<noteq> u) \<and>
           (\<exists>e. reinstate now u moderator reason db2 = Throw e) \<and>
           db_users (fst (runJob later retention EraseDeletedAccounts (db2, td))) u = db_users db2 u \<and>
           db_users db2 u \<noteq> None"
proof -
  let ?row = "row\<lparr>u_deletionRequestedAt := Some (ax_now env), u_status := AccountStatus_DEACTIVATED\<rparr>"
  have row1: "db_users db1 u = Some ?row"
    using assms(1,3) by (auto simp: requestDeletion_def table_simps split: if_splits)
  have ok1: "accountsOk db1" using accountsOk_kept [OF assms(2) keeps_own_account(2) [OF assms(1)]] .
  have f: "u_passwordHash ?row = Some h" "u_deletedAt ?row = None"
    "case u_lockedUntil ?row of None \<Rightarrow> True | Some x \<Rightarrow> x \<le> ax_now env2"
    "u_status ?row \<notin> {AccountStatus_BANNED, AccountStatus_SUSPENDED}"
    using assms(4,6,7) by simp_all
  obtain db2 where l: "login env2 (u_email ?row) password ctx db1 = (Ok (tokenFor env2 u ?row), db2)"
    and row2: "db_users db2 u = Some (signedInRow env2 h password ctx ?row)"
    by (rule login_admits [OF ok1 row1 f(1) assms(5) f(2,3,4) assms(8,9)])
  have out: "resolveUser now v revoked db2 = Ok a \<Longrightarrow> au_id a \<noteq> u"
    "authenticateSocket verify now n revoked db2 t = Ok d \<Longrightarrow> sd_userId d \<noteq> u"
    by (erule status_refused [OF row2, rotated], simp add: NON_MATCHABLE_STATUSES_def)+
  have "db_users (fst (runJob later retention EraseDeletedAccounts (db2, td))) u = db_users db2 u"
    using erase_keeps [of "(db2, td)" u "signedInRow env2 h password ctx ?row" later ACCOUNT_DELETION_GRACE_DAYS] row2
    by (simp add: erasureDue_def)
  moreover have "\<exists>e. reinstate now u moderator reason db2 = Throw e"
    using assms(6) by (simp add: reinstate_def loadMatchCandidate_def row2)
  ultimately show ?thesis using l out row2 by (auto simp: tokenFor_def)
qed

lemma deletion_then_signin_is_limbo_witness:
  "\<exists>due db1 r db2. requestDeletion (exampleAuth 5) ''u'' ''h'' exampleAccount = Ok (due, db1) \<and>
     login (exampleAuth 6) ''ana@example.com'' ''h'' exampleContext db1 = (Ok r, db2) \<and>
     (\<exists>e. reinstate 7 ''u'' ''ad'' ''back'' db2 = Throw e)"
proof -
  obtain due db1 where r: "requestDeletion (exampleAuth 5) ''u'' ''h'' exampleAccount = Ok (due, db1)"
    by (simp add: requestDeletion_def ownPassword_def exampleAccount_def exampleRow_def)
  have "\<exists>r db2. login (exampleAuth 6) ''ana@example.com'' ''h'' exampleContext db1 = (Ok r, db2) \<and>
      (\<exists>e. reinstate 7 ''u'' ''ad'' ''back'' db2 = Throw e)"
    using deletion_then_signin_is_limbo [OF r exampleAccount_ok, where row = exampleRow and h = "''h''" and
        ?env2.0 = "exampleAuth 6" and password = "''h''" and ctx = exampleContext and now = 7 and
        moderator = "''ad''" and reason = "''back''" and v = "BadToken INVALID" and t = None]
    by (simp add: exampleAccount_def exampleRow_def) blast
  with r show ?thesis by blast
qed

end
