(* ===== verification/Connections.thy ===== *)
theory Connections
  imports Moderation
begin

text \<open>Staying in touch, \<^verbatim>\<open>apps/api/src/routes/connections.routes.ts\<close>, and blocking and reporting outside a
call, \<^verbatim>\<open>apps/api/src/routes/safety.routes.ts\<close>. A route is a function of the authenticated user, the parsed
input and the stores; a Prisma transaction is one step. New rows get the id the caller supplies. The locale
\<open>answers\<close> of \<open>Connection_Safety\<close> states what every route that can connect two users promises.\<close>

section \<open>Requests\<close>

definition CONNECTION_REQUEST_TTL_DAYS :: int where
  "CONNECTION_REQUEST_TTL_DAYS = 14"

record SendRequestInput =
  cr_userId :: user_id
  cr_matchId :: "match_id option"
  cr_message :: "string option"

datatype ConnectionAnswer = Answer_CONNECTED | Answer_PENDING | Answer_DECLINED

definition activeTarget :: "user_id \<Rightarrow> Db \<Rightarrow> UserRow option" where
  "activeTarget userId db =
     (case db_users db userId of
        None \<Rightarrow> None
      | Some u \<Rightarrow> if u_deletedAt u = None \<and> u_status u = AccountStatus_ACTIVE then Some u else None)"

definition acceptsRequests :: "UserRow \<Rightarrow> bool" where
  "acceptsRequests u = (case u_privacy u of None \<Rightarrow> True | Some p \<Rightarrow> allowConnectionRequests p)"

definition requestBetween :: "user_id \<Rightarrow> user_id \<Rightarrow> ConnectionRequestRow \<Rightarrow> bool" where
  "requestBetween from to q = (q_fromUserId q = from \<and> q_toUserId q = to)"

definition answerRequest :: "instant \<Rightarrow> row_id \<Rightarrow> ConnectionRequestStatus \<Rightarrow> Db \<Rightarrow> Db" where
  "answerRequest now requestId status db =
     db\<lparr>db_requests := updateWhere (\<lambda>q. q_id q = requestId)
          (\<lambda>q. q\<lparr>q_status := status, q_respondedAt := Some now\<rparr>) (db_requests db)\<rparr>"

definition addConnection ::
    "instant \<Rightarrow> row_id \<Rightarrow> user_id \<times> user_id \<Rightarrow> match_id option \<Rightarrow> Db \<Rightarrow> Db" where
  "addConnection now newId = (\<lambda>(userAId, userBId) origin db.
     db\<lparr>db_connections := db_connections db @
       [\<lparr>c_id = newId, c_userAId = userAId, c_userBId = userBId, c_originMatchId = origin,
         c_createdAt = now\<rparr>]\<rparr>)"

definition upsertRequest ::
    "instant \<Rightarrow> row_id \<Rightarrow> user_id \<Rightarrow> user_id \<Rightarrow> SendRequestInput \<Rightarrow> Db \<Rightarrow> Db" where
  "upsertRequest now newId from to input db =
     (let expiresAt = now + CONNECTION_REQUEST_TTL_DAYS * 86400000 in
      if list_ex (requestBetween from to) (db_requests db)
      then db\<lparr>db_requests := updateWhere (requestBetween from to)
             (\<lambda>q. q\<lparr>q_status := ConnectionRequestStatus_PENDING, q_message := cr_message input,
                    q_matchId := cr_matchId input, q_respondedAt := None, q_expiresAt := Some expiresAt\<rparr>)
             (db_requests db)\<rparr>
      else db\<lparr>db_requests := db_requests db @
             [\<lparr>q_id = newId, q_fromUserId = from, q_toUserId = to, q_status = ConnectionRequestStatus_PENDING,
               q_message = cr_message input, q_matchId = cr_matchId input, q_respondedAt = None,
               q_expiresAt = Some expiresAt, q_createdAt = now\<rparr>]\<rparr>)"

definition reciprocalOf :: "user_id \<Rightarrow> user_id \<Rightarrow> Db \<Rightarrow> ConnectionRequestRow option" where
  "reciprocalOf userId targetId db =
     (case find (requestBetween targetId userId) (db_requests db) of
        None \<Rightarrow> None
      | Some q \<Rightarrow> if q_status q = ConnectionRequestStatus_PENDING then Some q else None)"

text \<open>\<^verbatim>\<open>POST /connections/requests\<close>.\<close>

definition sendRequest ::
    "instant \<Rightarrow> row_id \<Rightarrow> user_id \<Rightarrow> SendRequestInput \<Rightarrow> Db \<Rightarrow> AppError + ConnectionAnswer \<times> Db" where
  "sendRequest now newId userId input db =
     (let targetId = cr_userId input in
      if targetId = userId then Throw (Errors_conflict ''You cannot connect with yourself.'')
      else case activeTarget targetId db of
        None \<Rightarrow> Throw (Errors_notFound ''That user'')
      | Some target \<Rightarrow>
          if isBlockedBetween userId targetId db then Throw (Errors_notFound ''That user'')
          else if \<not> acceptsRequests target
          then Throw (Errors_forbiddenWith ''That person is not accepting connection requests.'')
          else if areConnected userId targetId db
          then Throw (Errors_conflict ''You are already connected.'')
          else case reciprocalOf userId targetId db of
            Some reciprocal \<Rightarrow>
              Ok (Answer_CONNECTED,
                addConnection now newId (orderConnectionPair userId targetId) (cr_matchId input)
                  (answerRequest now (q_id reciprocal) ConnectionRequestStatus_ACCEPTED db))
          | None \<Rightarrow> Ok (Answer_PENDING, upsertRequest now newId userId targetId input db))"

text \<open>\<^verbatim>\<open>orderBy: { createdAt: 'desc' }\<close>: the latest first, of two of the same instant the later row.\<close>

definition newestFirst :: "('r \<Rightarrow> instant) \<Rightarrow> 'r list \<Rightarrow> 'r list" where
  "newestFirst createdAt rows = rev (sort_key createdAt rows)"

record RequestView =
  qv_id :: row_id
  qv_message :: "string option"
  qv_createdAt :: instant
  qv_expiresAt :: "instant option"
  qv_user :: PublicProfile

definition profileOf :: "UtcDate \<Rightarrow> user_id \<Rightarrow> Db \<Rightarrow> PublicProfile option" where
  "profileOf today userId db = map_option (\<lambda>u. toPublicProfileFromRow userId u today) (db_users db userId)"

definition openRequest :: "instant \<Rightarrow> user_id \<Rightarrow> ConnectionRequestRow \<Rightarrow> bool" where
  "openRequest now userId q \<longleftrightarrow>
     q_toUserId q = userId \<and> q_status q = ConnectionRequestStatus_PENDING \<and>
     (case q_expiresAt q of None \<Rightarrow> True | Some t \<Rightarrow> now < t)"

text \<open>\<^verbatim>\<open>GET /connections/requests\<close>.\<close>

definition listRequests :: "instant \<Rightarrow> UtcDate \<Rightarrow> user_id \<Rightarrow> Db \<Rightarrow> RequestView list" where
  "listRequests now today userId db =
     List.map_filter (\<lambda>q. map_option (\<lambda>p.
         \<lparr>qv_id = q_id q, qv_message = q_message q, qv_createdAt = q_createdAt q,
          qv_expiresAt = q_expiresAt q, qv_user = p\<rparr>) (profileOf today (q_fromUserId q) db))
       (take 50 (newestFirst q_createdAt (filter (openRequest now userId) (db_requests db))))"

text \<open>\<^verbatim>\<open>POST /connections/requests/respond\<close>. The refusal after a block writes first.\<close>

definition respondToRequest ::
    "instant \<Rightarrow> row_id \<Rightarrow> user_id \<Rightarrow> row_id \<Rightarrow> bool \<Rightarrow> Db \<Rightarrow> (AppError + ConnectionAnswer) \<times> Db" where
  "respondToRequest now newId userId requestId accept db =
     (case find (\<lambda>q. q_id q = requestId \<and> q_toUserId q = userId \<and>
                     q_status q = ConnectionRequestStatus_PENDING) (db_requests db) of
        None \<Rightarrow> (Throw (Errors_notFound ''That request''), db)
      | Some pending \<Rightarrow>
          if \<not> accept
          then (Ok Answer_DECLINED, answerRequest now (q_id pending) ConnectionRequestStatus_DECLINED db)
          else if isBlockedBetween userId (q_fromUserId pending) db
          then (Throw (Errors_notFound ''That request''),
                answerRequest now (q_id pending) ConnectionRequestStatus_DECLINED db)
          else
            let db1 = answerRequest now (q_id pending) ConnectionRequestStatus_ACCEPTED db
            in (Ok Answer_CONNECTED,
                if areConnected userId (q_fromUserId pending) db then db1
                else addConnection now newId (orderConnectionPair userId (q_fromUserId pending))
                       (q_matchId pending) db1))"

section \<open>Connections\<close>

definition ofUser :: "user_id \<Rightarrow> ConnectionRow \<Rightarrow> bool" where
  "ofUser userId c = (c_userAId c = userId \<or> c_userBId c = userId)"

definition partnerIn :: "user_id \<Rightarrow> ConnectionRow \<Rightarrow> user_id" where
  "partnerIn userId c = (if c_userAId c = userId then c_userBId c else c_userAId c)"

definition pageOf :: "nat \<Rightarrow> nat \<Rightarrow> 'r list \<Rightarrow> 'r list" where
  "pageOf page pageSize rows = take pageSize (drop ((page - 1) * pageSize) rows)"

record 'i Paginated =
  pg_items :: "'i list"
  pg_total :: nat
  pg_hasMore :: bool

text \<open>\<^verbatim>\<open>GET /connections\<close>: id, instant and profile of the other side.\<close>

definition listConnections ::
    "UtcDate \<Rightarrow> user_id \<Rightarrow> nat \<Rightarrow> nat \<Rightarrow> Db \<Rightarrow> (row_id \<times> instant \<times> PublicProfile) Paginated" where
  "listConnections today userId page pageSize db =
     (let rows = filter (ofUser userId) (db_connections db) in
      \<lparr>pg_items = List.map_filter (\<lambda>c. map_option (\<lambda>p. (c_id c, c_createdAt c, p))
           (profileOf today (partnerIn userId c) db)) (pageOf page pageSize (newestFirst c_createdAt rows)),
       pg_total = length rows, pg_hasMore = (page * pageSize < length rows)\<rparr>)"

text \<open>\<^verbatim>\<open>DELETE /connections/:id\<close>.\<close>

definition removeConnection :: "user_id \<Rightarrow> row_id \<Rightarrow> Db \<Rightarrow> AppError + Db" where
  "removeConnection userId connectionId db =
     (case find (\<lambda>c. c_id c = connectionId \<and> ofUser userId c) (db_connections db) of
        None \<Rightarrow> Throw (Errors_notFound ''That connection'')
      | Some c \<Rightarrow>
          let partnerId = partnerIn userId c
          in Ok (db\<lparr>db_connections := filter (\<lambda>d. c_id d \<noteq> c_id c) (db_connections db),
                    db_requests := filter (\<lambda>q. \<not> requestBetween userId partnerId q \<and>
                      \<not> requestBetween partnerId userId q) (db_requests db)\<rparr>))"

section \<open>Blocks\<close>

definition existingUser :: "user_id \<Rightarrow> Db \<Rightarrow> bool" where
  "existingUser userId db = (loadMatchCandidate userId db \<noteq> None)"

definition invalidateBlockCache :: "user_id \<Rightarrow> user_id \<Rightarrow> RedisState \<Rightarrow> RedisState" where
  "invalidateBlockCache a b r = invalidateBlocks b (invalidateBlocks a r)"

text \<open>\<^verbatim>\<open>POST /blocks\<close> and \<^verbatim>\<open>DELETE /blocks\<close>.\<close>

definition createBlock :: "user_id \<Rightarrow> user_id \<Rightarrow> World \<Rightarrow> AppError + World" where
  "createBlock userId targetId w =
     (if targetId = userId then Throw (Errors_conflict ''You cannot block yourself.'')
      else if \<not> existingUser targetId (w_db w) then Throw (Errors_notFound ''That user'')
      else Ok (w\<lparr>w_db := upsertBlock userId targetId (w_db w),
                 w_redis := invalidateBlockCache userId targetId (w_redis w)\<rparr>))"

definition removeBlock :: "user_id \<Rightarrow> user_id \<Rightarrow> World \<Rightarrow> World" where
  "removeBlock userId targetId w =
     w\<lparr>w_db := (w_db w)\<lparr>db_blocks := filter (\<lambda>r. \<not> (b_blockerId r = userId \<and> b_blockedUserId r = targetId))
          (db_blocks (w_db w))\<rparr>,
       w_redis := invalidateBlockCache userId targetId (w_redis w)\<rparr>"

text \<open>\<^verbatim>\<open>GET /blocks\<close>, without the reason and the dates of the rows, and \<^verbatim>\<open>GET /blocks/count\<close>.\<close>

definition listBlocks :: "UtcDate \<Rightarrow> user_id \<Rightarrow> nat \<Rightarrow> nat \<Rightarrow> Db \<Rightarrow> PublicProfile Paginated" where
  "listBlocks today userId page pageSize db =
     (let rows = filter (\<lambda>r. b_blockerId r = userId) (db_blocks db) in
      \<lparr>pg_items = List.map_filter (\<lambda>r. profileOf today (b_blockedUserId r) db) (pageOf page pageSize (rev rows)),
       pg_total = length rows, pg_hasMore = (page * pageSize < length rows)\<rparr>)"

definition blockCount :: "user_id \<Rightarrow> Db \<Rightarrow> nat" where
  "blockCount userId db = length (getBlockedUserIds userId db)"

section \<open>Reports\<close>

record CreateReportInput =
  ci_reportedUserId :: user_id
  ci_matchId :: "match_id option"
  ci_category :: ReportCategory
  ci_details :: "string option"
  ci_alsoBlock :: bool

text \<open>The conversation a report may cite.\<close>

definition citedMatch :: "user_id \<Rightarrow> match_id option \<Rightarrow> Db \<Rightarrow> match_id option" where
  "citedMatch userId matchId db =
     (case matchId of
        None \<Rightarrow> None
      | Some m \<Rightarrow>
          if db_matches db m \<noteq> None \<and>
             list_ex (\<lambda>p. p_matchId p = m \<and> p_userId p = userId) (db_participants db)
          then Some m else None)"

text \<open>\<^verbatim>\<open>POST /reports\<close>: the row, and the block that comes with it.\<close>

definition fileReport ::
    "instant \<Rightarrow> row_id \<Rightarrow> user_id \<Rightarrow> CreateReportInput \<Rightarrow> World \<Rightarrow> AppError + World" where
  "fileReport now newId userId input w =
     (let targetId = ci_reportedUserId input in
      if targetId = userId then Throw (Errors_conflict ''You cannot report yourself.'')
      else if \<not> existingUser targetId (w_db w) then Throw (Errors_notFound ''That user'')
      else
        let row = \<lparr>r_id = newId, r_reporterId = Some userId, r_reportedUserId = targetId,
                   r_matchId = citedMatch userId (ci_matchId input) (w_db w), r_category = ci_category input,
                   r_details = ci_details input, r_status = ReportStatus_PENDING, r_reviewedById = None,
                   r_reviewedAt = None, r_moderatorNotes = None, r_createdAt = now\<rparr>;
            w1 = w\<lparr>w_db := (w_db w)\<lparr>db_reports := db_reports (w_db w) @ [row]\<rparr>\<rparr>
        in Ok (if ci_alsoBlock input
               then w1\<lparr>w_db := upsertBlock userId targetId (w_db w1),
                       w_redis := invalidateBlockCache userId targetId (w_redis w1)\<rparr>
               else w1))"

text \<open>\<^verbatim>\<open>GET /reports\<close>: what a reporter gets to see of them.\<close>

definition listReports :: "user_id \<Rightarrow> Db \<Rightarrow> (row_id \<times> ReportCategory \<times> ReportStatus \<times> instant) list" where
  "listReports userId db =
     map (\<lambda>r. (r_id r, r_category r, r_status r, r_createdAt r))
       (take 50 (newestFirst r_createdAt (filter (\<lambda>r. r_reporterId r = Some userId) (db_reports db))))"

end
