(* ===== verification/Connection_Safety.thy ===== *)
theory Connection_Safety
  imports Connections Moderation_Safety
begin

text \<open>What staying in touch guarantees: connections are canonical and unique, nobody is connected without both
having asked for it, blocks win and are not given away, and a removed connection can be made again. The locale
\<open>answers\<close> is the contract of a route as far as it can connect two users; every route is an instance.\<close>

section \<open>Facts about connections\<close>

lemma areConnected_iff:
  "areConnected a b db \<longleftrightarrow> (\<exists>c\<in>set (db_connections db). (c_userAId c, c_userBId c) = orderConnectionPair a b)"
  by (auto simp: areConnected_def list_ex_iff split: prod.splits)

lemma areConnected_add:
  "areConnected a b (addConnection now i (orderConnectionPair u v) m db) \<longleftrightarrow> {a, b} = {u, v} \<or> areConnected a b db"
proof -
  obtain x y where xy: "orderConnectionPair u v = (x, y)" by (cases "orderConnectionPair u v")
  have "orderConnectionPair a b = (x, y) \<longleftrightarrow> {a, b} = {u, v}"
    using orderConnectionPair_inject [of a b u v] xy by auto
  then show ?thesis by (auto simp: areConnected_iff addConnection_def xy)
qed

lemma connections_frames [simp]:
  "db_connections (answerRequest now i s db) = db_connections db"
  "db_blocks (answerRequest now i s db) = db_blocks db"
  "db_connections (upsertRequest now i u v input db) = db_connections db"
  "db_blocks (upsertRequest now i u v input db) = db_blocks db"
  "db_requests (addConnection now i p m db) = db_requests db"
  "db_blocks (addConnection now i p m db) = db_blocks db"
  "db_connections (upsertBlock a b db) = db_connections db"
  "db_requests (upsertBlock a b db) = db_requests db"
  by (auto simp: answerRequest_def upsertRequest_def addConnection_def upsertBlock_def Let_def split: prod.splits)

lemma areConnected_frames [simp]:
  "areConnected a b (answerRequest now i s db) = areConnected a b db"
  "areConnected a b (upsertRequest now i u v input db) = areConnected a b db"
  "areConnected a b (upsertBlock c d db) = areConnected a b db"
  "areConnected a b (db\<lparr>db_blocks := bs\<rparr>) = areConnected a b db"
  "areConnected a b (db\<lparr>db_reports := rs\<rparr>) = areConnected a b db"
  by (simp_all add: areConnected_iff)

text \<open>Successful answers, taken apart.\<close>

lemma sendRequest_Ok:
  "sendRequest now newId u input db = Ok (ans, db') \<longleftrightarrow>
   cr_userId input \<noteq> u \<and> (\<exists>t. activeTarget (cr_userId input) db = Some t \<and> acceptsRequests t) \<and>
   \<not> isBlockedBetween u (cr_userId input) db \<and> \<not> areConnected u (cr_userId input) db \<and>
   (case reciprocalOf u (cr_userId input) db of
      Some q \<Rightarrow> ans = Answer_CONNECTED \<and>
        db' = addConnection now newId (orderConnectionPair u (cr_userId input)) (cr_matchId input)
                (answerRequest now (q_id q) ConnectionRequestStatus_ACCEPTED db)
    | None \<Rightarrow> ans = Answer_PENDING \<and> db' = upsertRequest now newId u (cr_userId input) input db)"
  by (auto simp: sendRequest_def Let_def split: option.splits)

lemma reciprocalOf_Some:
  "reciprocalOf u t db = Some q \<Longrightarrow>
   q \<in> set (db_requests db) \<and> q_fromUserId q = t \<and> q_toUserId q = u \<and> q_status q = ConnectionRequestStatus_PENDING"
  by (auto simp: reciprocalOf_def requestBetween_def dest!: find_Some_iff2 split: option.splits if_splits)

section \<open>The contract of a route\<close>

text \<open>Who may be newly connected by an action: the actor and somebody whose request to the actor is pending,
and not across a block; and which requests may newly be pending: the actor's own.\<close>

definition mutual :: "user_id \<Rightarrow> Db \<Rightarrow> Db \<Rightarrow> bool" where
  "mutual u db db' \<longleftrightarrow>
     (\<forall>a b. areConnected a b db' \<longrightarrow> \<not> areConnected a b db \<longrightarrow>
        \<not> isBlockedBetween a b db \<and>
        (\<exists>q\<in>set (db_requests db). q_status q = ConnectionRequestStatus_PENDING \<and> q_toUserId q = u \<and>
           {a, b} = {q_fromUserId q, u})) \<and>
     (\<forall>q\<in>set (db_requests db'). q_status q = ConnectionRequestStatus_PENDING \<longrightarrow> q_fromUserId q = u \<or>
        (\<exists>p\<in>set (db_requests db). q_status p = ConnectionRequestStatus_PENDING \<and>
           q_fromUserId p = q_fromUserId q \<and> q_toUserId p = q_toUserId q))"

definition unasked :: "user_id \<Rightarrow> user_id \<Rightarrow> Db \<Rightarrow> bool" where
  "unasked a b db \<longleftrightarrow> \<not> areConnected a b db \<and>
     (\<forall>q\<in>set (db_requests db). q_fromUserId q = a \<longrightarrow> q_toUserId q = b \<longrightarrow>
        q_status q \<noteq> ConnectionRequestStatus_PENDING)"

lemma unasked_mutual:
  assumes "mutual u db db'" and "unasked a b db" and "u \<noteq> a"
  shows "unasked a b db'"
proof -
  have "\<not> areConnected a b db'"
  proof
    assume "areConnected a b db'"
    then obtain q where q: "q \<in> set (db_requests db)" "q_status q = ConnectionRequestStatus_PENDING"
      "q_toUserId q = u" "{a, b} = {q_fromUserId q, u}"
      using assms(1,2) unfolding mutual_def unasked_def by blast
    with assms(3) have "q_fromUserId q = a" "b = u" by (auto simp: doubleton_eq_iff)
    with q assms(2) show False by (auto simp: unasked_def)
  qed
  moreover have "\<forall>q\<in>set (db_requests db'). q_fromUserId q = a \<longrightarrow> q_toUserId q = b \<longrightarrow>
      q_status q \<noteq> ConnectionRequestStatus_PENDING"
    using assms unfolding mutual_def unasked_def by metis
  ultimately show ?thesis by (simp add: unasked_def)
qed

locale answers =
  fixes act :: "user_id \<Rightarrow> 'i \<Rightarrow> 's \<Rightarrow> 's" and rows :: "'s \<Rightarrow> Db"
  assumes act_mutual: "mutual u (rows s) (rows (act u i s))"
begin

text \<open>However many calls others make, in whatever order.\<close>

lemma unasked_acts:
  "unasked a b (rows s) \<Longrightarrow> \<forall>(u, i)\<in>set calls. u \<noteq> a \<Longrightarrow>
   unasked a b (rows (fold (\<lambda>(u, i). act u i) calls s))"
proof (induction calls arbitrary: s)
  case (Cons call calls)
  obtain u i where [simp]: "call = (u, i)" by (cases call)
  have "unasked a b (rows (act u i s))"
    using unasked_mutual [OF act_mutual] Cons.prems by simp
  with Cons show ?case by simp
qed simp

lemma block_wins:
  "areConnected a b (rows (act u i s)) \<Longrightarrow> isBlockedBetween a b (rows s) \<Longrightarrow> areConnected a b (rows s)"
  using act_mutual [of u s i] unfolding mutual_def by blast

end

section \<open>The routes keep the contract\<close>

lemma mutual_refl: "mutual u db db"
  by (auto simp: mutual_def)

lemma pending_answerRequest:
  "q \<in> set (db_requests (answerRequest now i s db)) \<Longrightarrow> s \<noteq> ConnectionRequestStatus_PENDING \<Longrightarrow>
   q_status q = ConnectionRequestStatus_PENDING \<Longrightarrow> q \<in> set (db_requests db)"
  by (auto simp: answerRequest_def updateWhere_def split: if_splits)

lemma pending_upsertRequest:
  "q \<in> set (db_requests (upsertRequest now i u v input db)) \<Longrightarrow> q_fromUserId q = u \<or> q \<in> set (db_requests db)"
  by (auto simp: upsertRequest_def Let_def updateWhere_def requestBetween_def split: if_splits)

lemma isBlockedBetween_pair: "{a, b} = {c, d} \<Longrightarrow> isBlockedBetween a b db = isBlockedBetween c d db"
  using isBlockedBetween_commute [of c d db] by (auto simp: doubleton_eq_iff)

lemma mutual_answer: "s \<noteq> ConnectionRequestStatus_PENDING \<Longrightarrow> mutual u db (answerRequest now i s db)"
  unfolding mutual_def by (auto dest: pending_answerRequest)

lemma mutual_connect:
  assumes "q \<in> set (db_requests db)" and "q_status q = ConnectionRequestStatus_PENDING" and "q_toUserId q = u"
    and "q_fromUserId q = v" and "\<not> isBlockedBetween u v db"
  shows "mutual u db (addConnection now i (orderConnectionPair u v) m
    (answerRequest now' j ConnectionRequestStatus_ACCEPTED db))"
proof -
  have "\<not> isBlockedBetween a b db \<and> (\<exists>q\<in>set (db_requests db). q_status q = ConnectionRequestStatus_PENDING \<and>
      q_toUserId q = u \<and> {a, b} = {q_fromUserId q, u})"
    if "{a, b} = {u, v}" for a b
    using assms isBlockedBetween_pair [OF that] that by (auto simp: insert_commute intro!: bexI [of _ q])
  then show ?thesis
    unfolding mutual_def by (auto simp: areConnected_add dest: pending_answerRequest)
qed

definition orSame :: "'e + 'a \<Rightarrow> ('a \<Rightarrow> 's) \<Rightarrow> 's \<Rightarrow> 's" where
  "orSame r f s = (case r of Inl e \<Rightarrow> s | Inr x \<Rightarrow> f x)"

text \<open>What a user can ask for, with the clock and the id of a new row.\<close>

datatype ContactCall =
    SendRequest instant row_id SendRequestInput
  | Respond instant row_id row_id bool
  | RemoveConnection row_id
  | CreateBlock user_id
  | RemoveBlock user_id
  | FileReport instant row_id CreateReportInput

fun contact :: "user_id \<Rightarrow> ContactCall \<Rightarrow> World \<Rightarrow> World" where
  "contact u (SendRequest now i input) w =
     orSame (sendRequest now i u input (w_db w)) (\<lambda>r. w\<lparr>w_db := snd r\<rparr>) w"
| "contact u (Respond now i q accept) w = w\<lparr>w_db := snd (respondToRequest now i u q accept (w_db w))\<rparr>"
| "contact u (RemoveConnection c) w = orSame (removeConnection u c (w_db w)) (\<lambda>db. w\<lparr>w_db := db\<rparr>) w"
| "contact u (CreateBlock v) w = orSame (createBlock u v w) (\<lambda>w'. w') w"
| "contact u (RemoveBlock v) w = removeBlock u v w"
| "contact u (FileReport now i input) w = orSame (fileReport now i u input w) (\<lambda>w'. w') w"

lemma contact_send:
  assumes "sendRequest now i u input db = Ok (ans, db')"
  shows "mutual u db db'"
proof (cases "reciprocalOf u (cr_userId input) db")
  case None
  then have "db' = upsertRequest now i u (cr_userId input) input db" using assms by (simp add: sendRequest_Ok)
  then show ?thesis unfolding mutual_def using pending_upsertRequest by auto blast
next
  case (Some q)
  then show ?thesis
    using assms reciprocalOf_Some [OF Some] by (auto simp: sendRequest_Ok intro!: mutual_connect)
qed

lemma contact_respond: "mutual u db (snd (respondToRequest now i u r accept db))"
proof (cases "find (\<lambda>q. q_id q = r \<and> q_toUserId q = u \<and> q_status q = ConnectionRequestStatus_PENDING) (db_requests db)")
  case None
  then show ?thesis by (simp add: respondToRequest_def mutual_refl)
next
  case (Some q)
  then have q: "q \<in> set (db_requests db)" "q_toUserId q = u" "q_status q = ConnectionRequestStatus_PENDING"
    using find_Some_iff2 [OF Some] by auto
  show ?thesis
    using Some mutual_connect [OF q(1,3,2) refl] by (auto simp: respondToRequest_def Let_def mutual_answer)
qed

lemma contact_remove:
  assumes "removeConnection u c db = Ok db'"
  shows "mutual u db db'"
  using assms unfolding mutual_def
  by (auto simp: removeConnection_def Let_def areConnected_iff split: option.splits)

lemma mutual_same: "db_connections db' = db_connections db \<Longrightarrow> db_requests db' = db_requests db \<Longrightarrow> mutual u db db'"
  by (auto simp: mutual_def areConnected_iff)

lemma contact_blocks:
  "createBlock u v w = Ok w' \<Longrightarrow> mutual u (w_db w) (w_db w')"
  "mutual u (w_db w) (w_db (removeBlock u v w))"
  "fileReport now i u input w = Ok w' \<Longrightarrow> mutual u (w_db w) (w_db w')"
  by (auto simp: createBlock_def removeBlock_def fileReport_def Let_def split: if_splits intro!: mutual_same)

lemma contact_mutual: "mutual u (w_db w) (w_db (contact u i w))"
proof (cases i)
  case (SendRequest now j input)
  then show ?thesis
    using contact_send [of now j u input "w_db w"] by (auto simp: orSame_def mutual_refl split: sum.split)
next
  case (RemoveConnection c)
  then show ?thesis
    using contact_remove [of u c "w_db w"] by (auto simp: orSame_def mutual_refl split: sum.split)
next
  case (CreateBlock v)
  then show ?thesis
    using contact_blocks(1) [of u v w] by (auto simp: orSame_def mutual_refl split: sum.split)
next
  case (FileReport now j input)
  then show ?thesis
    using contact_blocks(3) [of now j u input w] by (auto simp: orSame_def mutual_refl split: sum.split)
qed (simp_all add: contact_respond contact_blocks(2))

interpretation contacts: answers contact w_db
  by unfold_locales (rule contact_mutual)

section \<open>The tables of connections\<close>

text \<open>Pairs in canonical order and unique, requests between two different users and one per direction.\<close>

definition connectionsOk :: "Db \<Rightarrow> bool" where
  "connectionsOk db \<longleftrightarrow>
     (\<forall>c\<in>set (db_connections db). c_userAId c < c_userBId c) \<and>
     distinct (map (\<lambda>c. (c_userAId c, c_userBId c)) (db_connections db)) \<and>
     (\<forall>q\<in>set (db_requests db). q_fromUserId q \<noteq> q_toUserId q) \<and>
     distinct (map (\<lambda>q. (q_fromUserId q, q_toUserId q)) (db_requests db))"

lemma connectionsOk_requests:
  assumes "connectionsOk db" and "db_connections db' = db_connections db"
    and "map (\<lambda>q. (q_fromUserId q, q_toUserId q)) (db_requests db') =
         map (\<lambda>q. (q_fromUserId q, q_toUserId q)) (db_requests db)"
  shows "connectionsOk db'"
proof -
  have "\<forall>x\<in>set (map (\<lambda>q. (q_fromUserId q, q_toUserId q)) (db_requests db')). fst x \<noteq> snd x"
    unfolding assms(3) using assms(1) by (simp add: connectionsOk_def)
  then have "\<forall>q\<in>set (db_requests db'). q_fromUserId q \<noteq> q_toUserId q" by simp
  then show ?thesis using assms(1,2) by (simp add: connectionsOk_def assms(3))
qed

lemma connectionsOk_answer: "connectionsOk db \<Longrightarrow> connectionsOk (answerRequest now i s db)"
  by (erule connectionsOk_requests) (simp_all add: answerRequest_def)

lemma connectionsOk_add:
  assumes "connectionsOk db" and "u \<noteq> v" and "\<not> areConnected u v db"
  shows "connectionsOk (addConnection now i (orderConnectionPair u v) m db)"
proof -
  obtain x y where xy: "orderConnectionPair u v = (x, y)" by (cases "orderConnectionPair u v")
  have "x < y" using xy assms(2) by (auto simp: orderConnectionPair_def split: if_splits)
  moreover have "(x, y) \<notin> (\<lambda>c. (c_userAId c, c_userBId c)) ` set (db_connections db)"
    using assms(3) by (auto simp: areConnected_iff xy)
  ultimately show ?thesis
    using assms(1) by (simp add: connectionsOk_def addConnection_def xy image_iff)
qed

lemma connectionsOk_upsert:
  assumes "connectionsOk db" and "u \<noteq> v"
  shows "connectionsOk (upsertRequest now i u v input db)"
proof (cases "list_ex (requestBetween u v) (db_requests db)")
  case True
  then show ?thesis
    by (intro connectionsOk_requests [OF assms(1)]) (simp_all add: upsertRequest_def Let_def)
next
  case False
  then show ?thesis
    using assms by (force simp: connectionsOk_def upsertRequest_def Let_def list_ex_iff requestBetween_def)
qed

lemma connectionsOk_send:
  assumes "sendRequest now i u input db = Ok (ans, db')" and "connectionsOk db"
  shows "connectionsOk db'"
  using assms
  by (auto simp: sendRequest_Ok connectionsOk_upsert connectionsOk_answer split: option.splits
      intro!: connectionsOk_add)

lemma connectionsOk_respond:
  assumes "connectionsOk db"
  shows "connectionsOk (snd (respondToRequest now i u r accept db))"
proof (cases "find (\<lambda>q. q_id q = r \<and> q_toUserId q = u \<and> q_status q = ConnectionRequestStatus_PENDING) (db_requests db)")
  case (Some q)
  then have "u \<noteq> q_fromUserId q" using find_Some_iff2 [OF Some] assms by (auto simp: connectionsOk_def)
  with Some assms show ?thesis
    by (auto simp: respondToRequest_def Let_def connectionsOk_answer intro!: connectionsOk_add)
qed (use assms in \<open>simp add: respondToRequest_def\<close>)

lemma connectionsOk_remove:
  assumes "removeConnection u c db = Ok db'" and "connectionsOk db"
  shows "connectionsOk db'"
  using assms
  by (auto simp: removeConnection_def Let_def connectionsOk_def distinct_map_filter split: option.splits)

lemma connectionsOk_contact:
  assumes "connectionsOk (w_db w)"
  shows "connectionsOk (w_db (contact u i w))"
proof (cases i)
  case (SendRequest now j input)
  then show ?thesis
    using connectionsOk_send [of now j u input "w_db w"] assms by (auto simp: orSame_def split: sum.split)
next
  case (RemoveConnection c)
  then show ?thesis
    using connectionsOk_remove [of u c "w_db w"] assms by (auto simp: orSame_def split: sum.split)
next
  case (CreateBlock v)
  then show ?thesis
    using assms by (auto simp: orSame_def createBlock_def connectionsOk_def split: sum.split)
next
  case (FileReport now j input)
  then show ?thesis
    using assms by (auto simp: orSame_def fileReport_def Let_def connectionsOk_def split: sum.split)
next
  case (Respond now j r accept)
  then show ?thesis using connectionsOk_respond [OF assms] by simp
qed (use assms in \<open>simp add: removeBlock_def connectionsOk_def\<close>)

text \<open>Two users, for the examples.\<close>

definition contactWorld :: World where
  "contactWorld = exampleWorld2\<lparr>w_db := emptyDb\<lparr>db_users := [''ana'' \<mapsto> exampleRow, ''bo'' \<mapsto> exampleRow]\<rparr>\<rparr>"

definition toAna :: SendRequestInput where
  "toAna = \<lparr>cr_userId = ''ana'', cr_matchId = None, cr_message = None\<rparr>"

lemma contactWorld_db [simp]:
  "w_db contactWorld = emptyDb\<lparr>db_users := [''ana'' \<mapsto> exampleRow, ''bo'' \<mapsto> exampleRow]\<rparr>"
  by (simp add: contactWorld_def)

lemma emptyDb_contacts [simp]:
  "db_requests emptyDb = []" "db_connections emptyDb = []" "db_blocks emptyDb = []"
  by (simp_all add: emptyDb_def)

section \<open>Properties\<close>

text \<open>Connections stay canonical: whatever users request, answer, remove, block or report, in any order,
every connection is stored once, smaller id first, and there is at most one request in each direction between
two users, never one to oneself.\<close>

theorem connections_stay_canonical:
  assumes "connectionsOk (w_db w)"
  shows "connectionsOk (w_db (fold (\<lambda>(u, i). contact u i) calls w))"
  using assms by (induction calls arbitrary: w) (auto simp: connectionsOk_contact)

lemma connections_stay_canonical_witness:
  "connectionsOk (w_db (fold (\<lambda>(u, i). contact u i)
     [(''bo'', SendRequest 5 ''q1'' toAna), (''ana'', Respond 6 ''c1'' ''q1'' True)] contactWorld))"
  by (rule connections_stay_canonical) (simp add: connectionsOk_def)

text \<open>C30: Nobody is connected without having asked. As long as a user neither has a request pending to another
nor makes any call, no sequence of calls of anybody else connects the two; and no call at all connects two users
while a block stands between them.\<close>

theorem nobody_is_connected_unasked:
  assumes "\<not> areConnected a b (w_db w)"
    and "\<forall>q\<in>set (db_requests (w_db w)). q_fromUserId q = a \<longrightarrow> q_toUserId q = b \<longrightarrow>
           q_status q \<noteq> ConnectionRequestStatus_PENDING"
    and "\<forall>(u, i)\<in>set calls. u \<noteq> a"
  shows "\<not> areConnected a b (w_db (fold (\<lambda>(u, i). contact u i) calls w)) \<and>
         (isBlockedBetween a b (w_db w) \<longrightarrow> \<not> areConnected a b (w_db (contact v j w)))"
proof -
  have "unasked a b (w_db w)" using assms(1,2) by (simp add: unasked_def)
  from contacts.unasked_acts [OF this assms(3)] contacts.block_wins [of a b v j w] assms(1) show ?thesis
    unfolding unasked_def by blast
qed

lemma nobody_is_connected_unasked_witness:
  "\<not> areConnected ''ana'' ''bo'' (w_db (fold (\<lambda>(u, i). contact u i)
     [(''bo'', SendRequest 5 ''q1'' toAna), (''bo'', Respond 6 ''c1'' ''q1'' True)] contactWorld))"
proof -
  have "\<not> areConnected ''ana'' ''bo'' (w_db contactWorld)" by (simp add: areConnected_def)
  from nobody_is_connected_unasked [OF this,
      of "[(''bo'', SendRequest 5 ''q1'' toAna), (''bo'', Respond 6 ''c1'' ''q1'' True)]"]
  show ?thesis by simp
qed

text \<open>A request tells nothing about blocks. The refusal for a user behind a block, in either direction, is
word for word the one for an account that is unknown, deleted, restricted or not yet confirmed, whatever else
holds between the two; and nobody else is refused that way.\<close>

theorem blocked_like_unknown:
  shows "sendRequest now newId u input db = Throw (Errors_notFound ''That user'') \<longleftrightarrow>
         cr_userId input \<noteq> u \<and>
         (isBlockedBetween u (cr_userId input) db \<or>
          (\<nexists>t. db_users db (cr_userId input) = Some t \<and> u_deletedAt t = None \<and> u_status t = AccountStatus_ACTIVE))"
  by (auto simp: sendRequest_def Let_def activeTarget_def Errors_notFound_def Errors_conflict_def
      Errors_forbiddenWith_def appError_def split: option.splits)

lemma blocked_like_unknown_witness:
  "sendRequest 5 ''q1'' ''bo'' toAna (upsertBlock ''ana'' ''bo'' (w_db contactWorld)) =
     Throw (Errors_notFound ''That user'')"
  unfolding blocked_like_unknown by (simp add: toAna_def upsertBlock_def isBlockedBetween_def)

lemma find_last: "\<forall>x\<in>set xs. \<not> P x \<Longrightarrow> P y \<Longrightarrow> find P (xs @ [y]) = Some y"
  by (induction xs) auto

text \<open>The whole round. A first request from one user to another stays pending and connects nobody; the
other's consent connects both ways; and removing the connection, from either side, leaves the tables as they
were before, without a trace of the request, so that the round can begin again. The answer counts at any later
instant: that the request has lapsed meanwhile is not looked at.\<close>

theorem request_accept_remove:
  assumes "activeTarget v db = Some t" and "acceptsRequests t" and "u \<noteq> v" and "cr_userId input = v"
    and "\<not> isBlockedBetween u v db" and "\<not> areConnected u v db"
    and "\<forall>q\<in>set (db_requests db). \<not> requestBetween u v q \<and> \<not> requestBetween v u q"
    and "i \<notin> q_id ` set (db_requests db)" and "j \<notin> c_id ` set (db_connections db)" and "w \<in> {u, v}"
  shows "\<exists>db1 db2 db3. sendRequest now i u input db = Ok (Answer_PENDING, db1) \<and> \<not> areConnected u v db1 \<and>
           respondToRequest later j v i True db1 = (Ok Answer_CONNECTED, db2) \<and>
           areConnected u v db2 \<and> areConnected v u db2 \<and>
           removeConnection w j db2 = Ok db3 \<and>
           db_connections db3 = db_connections db \<and> db_requests db3 = db_requests db"
proof -
  have none: "reciprocalOf u v db = None"
    using assms(7) by (auto simp: reciprocalOf_def find_None_iff2 split: option.splits dest!: find_Some_iff2)
  define q where "q = \<lparr>q_id = i, q_fromUserId = u, q_toUserId = v, q_status = ConnectionRequestStatus_PENDING,
      q_message = cr_message input, q_matchId = cr_matchId input, q_respondedAt = None,
      q_expiresAt = Some (now + CONNECTION_REQUEST_TTL_DAYS * 86400000), q_createdAt = now\<rparr>"
  define db1 where "db1 = db\<lparr>db_requests := db_requests db @ [q]\<rparr>"
  have up: "upsertRequest now i u v input db = db1"
    using assms(7) by (auto simp: upsertRequest_def Let_def list_ex_iff db1_def q_def)
  have send: "sendRequest now i u input db = Ok (Answer_PENDING, db1)"
    using assms(1-6) none up by (simp add: sendRequest_Ok)
  have nc: "\<not> areConnected u v db1" "\<not> areConnected v u db1"
    using assms(6) areConnected_commute [of u v db] by (simp_all add: db1_def areConnected_def)
  have nb: "\<not> isBlockedBetween v u db1"
    using assms(5) isBlockedBetween_commute [of u v db] by (simp add: db1_def isBlockedBetween_def)
  define db2 where "db2 = addConnection later j (orderConnectionPair v u) (q_matchId q)
      (answerRequest later i ConnectionRequestStatus_ACCEPTED db1)"
  have "find (\<lambda>q. q_id q = i \<and> q_toUserId q = v \<and> q_status q = ConnectionRequestStatus_PENDING) (db_requests db1) = Some q"
    using assms(8) unfolding db1_def by (auto simp: q_def intro!: find_last)
  then have resp: "respondToRequest later j v i True db1 = (Ok Answer_CONNECTED, db2)"
    using nb nc by (simp add: respondToRequest_def Let_def db2_def q_def)
  obtain x y where xy: "orderConnectionPair v u = (x, y)" "{x, y} = {u, v}"
    by (cases "v < u") (auto simp: orderConnectionPair_def)
  define c where "c = \<lparr>c_id = j, c_userAId = x, c_userBId = y, c_originMatchId = q_matchId q, c_createdAt = later\<rparr>"
  have conns: "db_connections db2 = db_connections db @ [c]"
    by (simp add: db2_def addConnection_def xy(1) c_def answerRequest_def db1_def)
  have reqs: "db_requests db2 = db_requests db @ [q\<lparr>q_status := ConnectionRequestStatus_ACCEPTED, q_respondedAt := Some later\<rparr>]"
  proof -
    have "updateWhere (\<lambda>q. q_id q = i) f (db_requests db) = db_requests db" for f
      using assms(8) by (auto simp: updateWhere_def intro!: map_idI)
    then show ?thesis by (simp add: db2_def answerRequest_def db1_def updateWhere_def q_def)
  qed
  have "ofUser w c" "{w, partnerIn w c} = {u, v}"
    using assms(10) xy(2) by (auto simp: ofUser_def partnerIn_def c_def doubleton_eq_iff)
  moreover have "find (\<lambda>d. c_id d = j \<and> ofUser w d) (db_connections db2) = Some c"
    using assms(9) \<open>ofUser w c\<close> unfolding conns by (auto simp: c_def intro!: find_last)
  moreover have "filter (\<lambda>d. c_id d \<noteq> j) (db_connections db2) = db_connections db"
    using assms(9) by (auto simp: conns c_def filter_id_conv)
  moreover have "filter (\<lambda>q. \<not> requestBetween a b q \<and> \<not> requestBetween b a q) (db_requests db2) = db_requests db"
    if "{a, b} = {u, v}" for a b
    using that assms(7) by (auto simp: reqs requestBetween_def q_def filter_id_conv doubleton_eq_iff)
  ultimately obtain db3 where "removeConnection w j db2 = Ok db3" "db_connections db3 = db_connections db"
    "db_requests db3 = db_requests db"
    by (simp add: removeConnection_def Let_def c_def)
  moreover have "areConnected u v db2" "areConnected v u db2"
    using areConnected_commute [of u v] by (auto simp: db2_def areConnected_add)
  ultimately show ?thesis using send nc resp by blast
qed

lemma request_accept_remove_witness:
  "\<exists>db1 db2 db3. sendRequest 5 ''q1'' ''bo'' toAna (w_db contactWorld) = Ok (Answer_PENDING, db1) \<and>
     respondToRequest 9999999999 ''c1'' ''ana'' ''q1'' True db1 = (Ok Answer_CONNECTED, db2) \<and>
     removeConnection ''bo'' ''c1'' db2 = Ok db3"
  using request_accept_remove [of "''ana''" "w_db contactWorld" exampleRow "''bo''" toAna "''q1''" "''c1''" "''bo''" 5 9999999999]
  by (auto simp: activeTarget_def acceptsRequests_def exampleRow_def toAna_def isBlockedBetween_def areConnected_def)

end
