(* ===== verification/Api_Client.thy ===== *)
theory Api_Client
  imports Enums
begin

text \<open>The HTTP client of both web applications, \<^verbatim>\<open>packages/ui/src/api-client.ts\<close>: the access token it keeps,
the refresh and the one retry of a request. The server is a function from what is sent, and its own state
(the cookie included), to the answer; \<open>request\<close> is the code's recursion with its termination proof. What
runs while a refresh is awaited is a step relation of its own, \<open>refreshStep\<close>.\<close>

section \<open>The client and the wire\<close>

text \<open>The closure's variables but for the refresh in flight.\<close>

record ApiState =
  cs_accessToken :: "string option"
  cs_accessTokenExpiresAt :: int

record RequestOptions =
  ro_path :: string
  ro_skipAuthRetry :: bool
  ro_authenticated :: bool

text \<open>What \<^verbatim>\<open>fetch\<close> is given, as far as tokens go: the path and the \<^verbatim>\<open>Authorization\<close> header.\<close>

record Fetched =
  fx_path :: string
  fx_bearer :: "string option"

text \<open>An answer: no body, one that is no JSON, a success with its data, or an error with its code; or the
network fails and \<^verbatim>\<open>fetch\<close> throws. A body that is marked as a failure under a success status, or the
reverse, is a failure.\<close>

datatype 'd Body = NoBody | Unreadable | Success 'd | Failure string

datatype 'd Response = NetworkError | Response int "'d Body"

datatype ClientError = FetchFailed | ApiRequestError string int

definition responseOk :: "int \<Rightarrow> bool" where
  "responseOk status = (200 \<le> status \<and> status \<le> 299)"

definition setAccessToken :: "int \<Rightarrow> string option \<Rightarrow> int \<Rightarrow> ApiState \<Rightarrow> ApiState" where
  "setAccessToken now token expiresInSeconds c =
     c\<lparr>cs_accessToken := token,
       cs_accessTokenExpiresAt := (case token of
          Some t \<Rightarrow> if t = [] then 0 else now + (expiresInSeconds - 30) * 1000
        | None \<Rightarrow> 0)\<rparr>"

definition hasValidAccessToken :: "int \<Rightarrow> ApiState \<Rightarrow> bool" where
  "hasValidAccessToken now c = (cs_accessToken c \<noteq> None \<and> now < cs_accessTokenExpiresAt c)"

definition bearerFor :: "bool \<Rightarrow> ApiState \<Rightarrow> string option" where
  "bearerFor authenticated c =
     (case cs_accessToken c of None \<Rightarrow> None | Some t \<Rightarrow> if authenticated \<and> t \<noteq> [] then Some t else None)"

text \<open>What the first part of \<^verbatim>\<open>request\<close> makes of an answer: data, or an error with the code the client
goes on with; an unreadable body throws at once.\<close>

datatype 'd Outcome = Data 'd | ErrorCode string int | Thrown ClientError

fun readResponse :: "'d Response \<Rightarrow> 'd Outcome" where
  "readResponse NetworkError = Thrown FetchFailed"
| "readResponse (Response status Unreadable) = Thrown (ApiRequestError ''INTERNAL_ERROR'' status)"
| "readResponse (Response status (Success d)) =
     (if responseOk status then Data d else ErrorCode ''INTERNAL_ERROR'' status)"
| "readResponse (Response status (Failure code)) = ErrorCode code status"
| "readResponse (Response status NoBody) = ErrorCode ''INTERNAL_ERROR'' status"

section \<open>Requests\<close>

text \<open>The data of a refresh is the token and its lifetime; \<open>tokensOf\<close> reads it from the answer's data and
fails where the code's property access would throw.\<close>

definition REFRESH_PATH :: string where
  "REFRESH_PATH = ''/v1/auth/refresh''"

definition refreshOptions :: RequestOptions where
  "refreshOptions = \<lparr>ro_path = REFRESH_PATH, ro_skipAuthRetry = True, ro_authenticated = False\<rparr>"

definition mayRetry :: "RequestOptions \<Rightarrow> string \<Rightarrow> int \<Rightarrow> bool" where
  "mayRetry opts code status \<longleftrightarrow>
     status = 401 \<and> ro_authenticated opts \<and> \<not> ro_skipAuthRetry opts \<and> code \<noteq> ''INVALID_CREDENTIALS''"

text \<open>The clock stands still during a call. A refresh that is not already in flight is a request of its own.\<close>

function request ::
    "(Fetched \<Rightarrow> 's \<Rightarrow> 'd Response \<times> 's) \<Rightarrow> ('d \<Rightarrow> (string \<times> int) option) \<Rightarrow> int \<Rightarrow> RequestOptions \<Rightarrow>
     ApiState \<Rightarrow> 's \<Rightarrow> (ClientError + 'd) \<times> ApiState \<times> 's" where
  "request fetch tokensOf now opts c s =
     (let (response, s1) = fetch \<lparr>fx_path = ro_path opts, fx_bearer = bearerFor (ro_authenticated opts) c\<rparr> s
      in case readResponse response of
           Thrown e \<Rightarrow> (Inl e, c, s1)
         | Data d \<Rightarrow> (Inr d, c, s1)
         | ErrorCode code status \<Rightarrow>
             if mayRetry opts code status then
               (let (r, c2, s2) = request fetch tokensOf now refreshOptions c s1
                in case (case r of Inl e \<Rightarrow> None | Inr d \<Rightarrow> tokensOf d) of
                     Some (token, expiresIn) \<Rightarrow>
                       request fetch tokensOf now (opts\<lparr>ro_skipAuthRetry := True\<rparr>)
                         (setAccessToken now (Some token) expiresIn c2) s2
                   | None \<Rightarrow> (Inl (ApiRequestError code status), setAccessToken now None 0 c2, s2))
             else (Inl (ApiRequestError code status), c, s1))"
  by pat_completeness auto

termination
  by (relation "measure (\<lambda>(fetch, tokensOf, now, opts, c, s). if ro_skipAuthRetry opts then 0 else 1)")
     (auto simp: mayRetry_def refreshOptions_def)

definition refresh ::
    "(Fetched \<Rightarrow> 's \<Rightarrow> 'd Response \<times> 's) \<Rightarrow> ('d \<Rightarrow> (string \<times> int) option) \<Rightarrow> int \<Rightarrow>
     ApiState \<Rightarrow> 's \<Rightarrow> bool \<times> ApiState \<times> 's" where
  "refresh fetch tokensOf now c s =
     (let (r, c2, s2) = request fetch tokensOf now refreshOptions c s
      in case (case r of Inl e \<Rightarrow> None | Inr d \<Rightarrow> tokensOf d) of
           Some (token, expiresIn) \<Rightarrow> (True, setAccessToken now (Some token) expiresIn c2, s2)
         | None \<Rightarrow> (False, setAccessToken now None 0 c2, s2))"

definition ensureAccessToken ::
    "(Fetched \<Rightarrow> 's \<Rightarrow> 'd Response \<times> 's) \<Rightarrow> ('d \<Rightarrow> (string \<times> int) option) \<Rightarrow> int \<Rightarrow>
     ApiState \<Rightarrow> 's \<Rightarrow> string option \<times> ApiState \<times> 's" where
  "ensureAccessToken fetch tokensOf now c s =
     (if hasValidAccessToken now c then (cs_accessToken c, c, s)
      else let (ok, c2, s2) = refresh fetch tokensOf now c s
           in (if ok then cs_accessToken c2 else None, c2, s2))"

section \<open>Callers that wait for one refresh\<close>

text \<open>\<open>refreshInFlight\<close> with the callers that hold its promise. A caller that finds one joins it; the first
starts the request. When it ends all of them get the same answer, and the microtask queued in \<^verbatim>\<open>finally\<close>,
which runs before any of their continuations, empties the variable.\<close>

record RefreshState =
  rf_inFlight :: bool
  rf_waiting :: "nat list"
  rf_answers :: "(nat \<times> bool) list"
  rf_fetches :: nat

datatype RefreshEvent = Call nat | Settle bool

fun refreshStep :: "RefreshEvent \<Rightarrow> RefreshState \<Rightarrow> RefreshState" where
  "refreshStep (Call caller) st =
     (if rf_inFlight st then st\<lparr>rf_waiting := rf_waiting st @ [caller]\<rparr>
      else st\<lparr>rf_inFlight := True, rf_waiting := [caller], rf_fetches := Suc (rf_fetches st)\<rparr>)"
| "refreshStep (Settle ok) st =
     (if rf_inFlight st
      then st\<lparr>rf_inFlight := False, rf_waiting := [],
              rf_answers := rf_answers st @ map (\<lambda>k. (k, ok)) (rf_waiting st)\<rparr>
      else st)"

definition refreshIdle :: RefreshState where
  "refreshIdle = \<lparr>rf_inFlight = False, rf_waiting = [], rf_answers = [], rf_fetches = 0\<rparr>"

declare request.simps [simp del]

section \<open>Facts\<close>

text \<open>What a request that may not retry does: one fetch.\<close>

lemma request_once:
  assumes "ro_skipAuthRetry opts"
  shows "request fetch tokensOf now opts c s =
    (let (response, s1) = fetch \<lparr>fx_path = ro_path opts, fx_bearer = bearerFor (ro_authenticated opts) c\<rparr> s
     in (case readResponse response of
           Thrown e \<Rightarrow> Inl e | Data d \<Rightarrow> Inr d | ErrorCode code status \<Rightarrow> Inl (ApiRequestError code status), c, s1))"
  by (subst request.simps) (auto simp: assms mayRetry_def Let_def split: prod.splits Outcome.splits)

lemma request_refresh:
  "request fetch tokensOf now opts c s =
     (let (response, s1) = fetch \<lparr>fx_path = ro_path opts, fx_bearer = bearerFor (ro_authenticated opts) c\<rparr> s
      in case readResponse response of
           Thrown e \<Rightarrow> (Inl e, c, s1)
         | Data d \<Rightarrow> (Inr d, c, s1)
         | ErrorCode code status \<Rightarrow>
             if mayRetry opts code status then
               (let (ok, c2, s2) = refresh fetch tokensOf now c s1
                in if ok then request fetch tokensOf now (opts\<lparr>ro_skipAuthRetry := True\<rparr>) c2 s2
                   else (Inl (ApiRequestError code status), c2, s2))
             else (Inl (ApiRequestError code status), c, s1))"
  by (subst request.simps)
     (auto simp: refresh_def Let_def split: prod.splits Outcome.splits option.splits sum.splits)

text \<open>A server that writes down what it is sent.\<close>

definition logged ::
    "(Fetched \<Rightarrow> 's \<Rightarrow> 'd Response \<times> 's) \<Rightarrow> Fetched \<Rightarrow> 's \<times> Fetched list \<Rightarrow> 'd Response \<times> 's \<times> Fetched list" where
  "logged fetch f = (\<lambda>(s, log). let (r, s') = fetch f s in (r, s', log @ [f]))"

lemma logged_simp: "logged fetch f (s, log) = (fst (fetch f s), snd (fetch f s), log @ [f])"
  by (simp add: logged_def case_prod_beta)

lemma request_once_logged:
  "ro_skipAuthRetry opts \<Longrightarrow> snd (snd (snd (request (logged fetch) tokensOf now opts c (s, log)))) =
     log @ [\<lparr>fx_path = ro_path opts, fx_bearer = bearerFor (ro_authenticated opts) c\<rparr>]"
  by (simp add: request_once logged_simp)

lemma refresh_logged:
  "snd (snd (snd (refresh (logged fetch) tokensOf now c (s, log)))) =
     log @ [\<lparr>fx_path = REFRESH_PATH, fx_bearer = bearerFor False c\<rparr>]"
  using request_once_logged [of refreshOptions fetch tokensOf now c s log]
  by (auto simp: refresh_def Let_def refreshOptions_def split: prod.split option.split)

text \<open>One account of a retry: the token of a server that accepts the token \<open>new\<close> only.\<close>

definition exampleServer :: "Fetched \<Rightarrow> nat \<Rightarrow> string Response \<times> nat" where
  "exampleServer f n =
     (if fx_path f = REFRESH_PATH then Response 200 (Success ''new'')
      else if fx_bearer f = Some ''new'' then Response 200 (Success ''data'')
      else Response 401 (Failure ''TOKEN_EXPIRED''), Suc n)"

definition exampleOptions :: RequestOptions where
  "exampleOptions = \<lparr>ro_path = ''/v1/profile'', ro_skipAuthRetry = False, ro_authenticated = True\<rparr>"

section \<open>Properties\<close>

text \<open>C39: A request ends, and quickly: whatever the server answers, it sends the request itself at most twice and
at most one refresh in between, never more than three messages, and with the retry switched off exactly one.
So a dead session cannot loop.\<close>

theorem request_sends_at_most_three:
  shows "\<exists>sent. snd (snd (snd (request (logged fetch) tokensOf now opts c (s, log)))) = log @ sent \<and>
           map fx_path sent \<in> {[ro_path opts], [ro_path opts, REFRESH_PATH],
             [ro_path opts, REFRESH_PATH, ro_path opts]} \<and>
           length sent \<le> (if ro_authenticated opts \<and> \<not> ro_skipAuthRetry opts then 3 else 1)"
proof -
  let ?f = "\<lparr>fx_path = ro_path opts, fx_bearer = bearerFor (ro_authenticated opts) c\<rparr>"
  let ?g = "\<lparr>fx_path = REFRESH_PATH, fx_bearer = bearerFor False c\<rparr>"
  obtain r s1 where f: "fetch ?f s = (r, s1)" by (cases "fetch ?f s")
  show ?thesis
  proof (cases "\<exists>code status. readResponse r = ErrorCode code status \<and> mayRetry opts code status")
    case False
    then have "snd (snd (snd (request (logged fetch) tokensOf now opts c (s, log)))) = log @ [?f]"
      by (subst request_refresh) (auto simp: logged_simp f split: Outcome.split)
    then show ?thesis by (intro exI [of _ "[?f]"]) simp
  next
    case True
    then obtain code status where e: "readResponse r = ErrorCode code status" "mayRetry opts code status" by blast
    obtain ok c2 s2 log2 where g: "refresh (logged fetch) tokensOf now c (s1, log @ [?f]) = (ok, c2, s2, log2)"
      by (cases "refresh (logged fetch) tokensOf now c (s1, log @ [?f])") auto
    have log2: "log2 = log @ [?f, ?g]" using refresh_logged [of fetch tokensOf now c s1 "log @ [?f]"] g by simp
    have r: "request (logged fetch) tokensOf now opts c (s, log) =
        (if ok then request (logged fetch) tokensOf now (opts\<lparr>ro_skipAuthRetry := True\<rparr>) c2 (s2, log2)
         else (Inl (ApiRequestError code status), c2, s2, log2))"
      by (subst request_refresh) (simp add: logged_simp f e g)
    have m: "ro_authenticated opts" "\<not> ro_skipAuthRetry opts" using e(2) by (simp_all add: mayRetry_def)
    show ?thesis
    proof (cases ok)
      case True
      let ?h = "\<lparr>fx_path = ro_path opts, fx_bearer = bearerFor (ro_authenticated opts) c2\<rparr>"
      have "snd (snd (snd (request (logged fetch) tokensOf now opts c (s, log)))) = log @ [?f, ?g, ?h]"
        using request_once_logged [of "opts\<lparr>ro_skipAuthRetry := True\<rparr>" fetch tokensOf now c2 s2 log2]
        by (simp add: r True log2)
      then show ?thesis using m by (intro exI [of _ "[?f, ?g, ?h]"]) simp
    next
      case False
      then have "snd (snd (snd (request (logged fetch) tokensOf now opts c (s, log)))) = log @ [?f, ?g]"
        by (simp add: r log2)
      then show ?thesis using m by (intro exI [of _ "[?f, ?g]"]) simp
    qed
  qed
qed

text \<open>A token that aged out is not noticed by the caller: when the request is refused with 401 for any
reason but wrong credentials and the refresh hands out a token the server accepts, the caller gets the data,
and the client keeps the new token and its lifetime less half a minute.\<close>

theorem stale_token_is_invisible:
  assumes "fetch \<lparr>fx_path = ro_path opts, fx_bearer = bearerFor True c\<rparr> s = (r1, s1)"
    and "readResponse r1 = ErrorCode code 401" and "code \<noteq> ''INVALID_CREDENTIALS''"
    and "ro_authenticated opts" and "\<not> ro_skipAuthRetry opts"
    and "fetch \<lparr>fx_path = REFRESH_PATH, fx_bearer = None\<rparr> s1 = (r2, s2)"
    and "readResponse r2 = Data d2" and "tokensOf d2 = Some (t, ttl)" and "t \<noteq> []"
    and "fetch \<lparr>fx_path = ro_path opts, fx_bearer = Some t\<rparr> s2 = (r3, s3)" and "readResponse r3 = Data d"
  shows "request fetch tokensOf now opts c s =
           (Inr d, c\<lparr>cs_accessToken := Some t, cs_accessTokenExpiresAt := now + (ttl - 30) * 1000\<rparr>, s3)"
proof -
  have "bearerFor False c = None" by (simp add: bearerFor_def split: option.split)
  then have "refresh fetch tokensOf now c s1 = (True, setAccessToken now (Some t) ttl c, s2)"
    using assms(6-8) by (simp add: refresh_def request_once refreshOptions_def)
  moreover have "bearerFor True (setAccessToken now (Some t) ttl c) = Some t"
    using assms(9) by (simp add: bearerFor_def setAccessToken_def)
  ultimately show ?thesis
    using assms by (subst request_refresh) (simp add: mayRetry_def request_once setAccessToken_def)
qed

lemma stale_token_is_invisible_witness:
  "request exampleServer (\<lambda>d. Some (d, 900)) 1000 exampleOptions
     \<lparr>cs_accessToken = Some ''old'', cs_accessTokenExpiresAt = 0\<rparr> 0 =
   (Inr ''data'', \<lparr>cs_accessToken = Some ''new'', cs_accessTokenExpiresAt = 871000\<rparr>, 3)"
  using stale_token_is_invisible [of exampleServer exampleOptions
      "\<lparr>cs_accessToken = Some ''old'', cs_accessTokenExpiresAt = 0\<rparr>" 0 "Response 401 (Failure ''TOKEN_EXPIRED'')" 1
      "''TOKEN_EXPIRED''" "Response 200 (Success ''new'')" 2 "''new''" "\<lambda>d. Some (d, 900)" "''new''" 900
      "Response 200 (Success ''data'')" 3 "''data''" 1000]
  by (simp add: exampleServer_def exampleOptions_def bearerFor_def REFRESH_PATH_def responseOk_def)

text \<open>Callers that come while a refresh is under way cause no other: any number of calls starts at most one
request, and when it ends each of them, and each caller before them, gets its answer.\<close>

lemma refreshes_coalesce:
  "rf_inFlight st \<Longrightarrow> fold refreshStep (map Call callers) st = st\<lparr>rf_waiting := rf_waiting st @ callers\<rparr>"
  by (induction callers arbitrary: st) simp_all

theorem refresh_once_for_all:
  assumes "callers \<noteq> []"
  shows "(let st' = refreshStep (Settle ok) (fold refreshStep (map Call callers) st) in
          rf_fetches st' = (if rf_inFlight st then rf_fetches st else Suc (rf_fetches st)) \<and>
          \<not> rf_inFlight st' \<and>
          rf_answers st' = rf_answers st @
            map (\<lambda>k. (k, ok)) ((if rf_inFlight st then rf_waiting st else []) @ callers))"
proof -
  obtain k ks where [simp]: "callers = k # ks" using assms by (cases callers) auto
  show ?thesis
    using refreshes_coalesce [of st callers] refreshes_coalesce [of "refreshStep (Call k) st" ks]
    by (cases "rf_inFlight st") (simp_all add: Let_def)
qed

end
