(* ===== verification/Countries.thy ===== *)
theory Countries
  imports Utils
begin

text \<open>Reference data: the countries of \<^verbatim>\<open>packages/shared/src/countries.ts\<close> with their lookup and display, and
the interests of \<^verbatim>\<open>packages/shared/src/interests.ts\<close>, emojis left out. A character is a UTF-16 code unit below
256; a flag is a list of code points.\<close>

section \<open>Capitals\<close>

text \<open>\<^verbatim>\<open>toUpperCase\<close>. The sharp s has two capitals; the capitals of 181 and 255 lie beyond the model's characters
and the two are left as they are, no letter of a code either way.\<close>

definition upperText :: "char \<Rightarrow> string" where
  "upperText c =
     (let n = (of_char c :: nat) in
      if 97 \<le> n \<and> n \<le> 122 \<or> 224 \<le> n \<and> n \<le> 254 \<and> n \<noteq> 247 then [char_of (n - 32)]
      else if n = 223 then ''SS'' else [c])"

definition toUpperCase :: "string \<Rightarrow> string" where
  "toUpperCase s = concat (map upperText s)"

definition isCapital :: "char \<Rightarrow> bool" where
  "isCapital c = (65 \<le> (of_char c :: nat) \<and> (of_char c :: nat) \<le> 90)"

definition isSmall :: "char \<Rightarrow> bool" where
  "isSmall c = (97 \<le> (of_char c :: nat) \<and> (of_char c :: nat) \<le> 122)"

section \<open>Countries\<close>

record CountryRecord =
  co_code :: string
  co_name :: string
  co_languages :: "string list"

definition countryRecord :: "string \<Rightarrow> string \<Rightarrow> string list \<Rightarrow> CountryRecord" where
  "countryRecord code name languages = \<lparr>co_code = code, co_name = name, co_languages = languages\<rparr>"

definition COUNTRIES :: "CountryRecord list" where
  "COUNTRIES =
     [
      countryRecord ''AR'' ''Argentina'' [''es''],
      countryRecord ''AT'' ''Austria'' [''de''],
      countryRecord ''AU'' ''Australia'' [''en''],
      countryRecord ''BE'' ''Belgium'' [''nl'', ''fr'', ''de''],
      countryRecord ''BG'' ''Bulgaria'' [''bg''],
      countryRecord ''BR'' ''Brazil'' [''pt''],
      countryRecord ''CA'' ''Canada'' [''en'', ''fr''],
      countryRecord ''CH'' ''Switzerland'' [''de'', ''fr'', ''it''],
      countryRecord ''CL'' ''Chile'' [''es''],
      countryRecord ''CO'' ''Colombia'' [''es''],
      countryRecord ''CZ'' ''Czechia'' [''cs''],
      countryRecord ''DE'' ''Germany'' [''de''],
      countryRecord ''DK'' ''Denmark'' [''da''],
      countryRecord ''EE'' ''Estonia'' [''et''],
      countryRecord ''EG'' ''Egypt'' [''ar''],
      countryRecord ''ES'' ''Spain'' [''es''],
      countryRecord ''FI'' ''Finland'' [''fi''],
      countryRecord ''FR'' ''France'' [''fr''],
      countryRecord ''GB'' ''United Kingdom'' [''en''],
      countryRecord ''GR'' ''Greece'' [''el''],
      countryRecord ''HR'' ''Croatia'' [''hr''],
      countryRecord ''HU'' ''Hungary'' [''hu''],
      countryRecord ''ID'' ''Indonesia'' [''id''],
      countryRecord ''IE'' ''Ireland'' [''en''],
      countryRecord ''IL'' ''Israel'' [''he''],
      countryRecord ''IN'' ''India'' [''hi'', ''en''],
      countryRecord ''IS'' ''Iceland'' [''is''],
      countryRecord ''IT'' ''Italy'' [''it''],
      countryRecord ''JP'' ''Japan'' [''ja''],
      countryRecord ''KE'' ''Kenya'' [''en'', ''sw''],
      countryRecord ''KR'' ''South Korea'' [''ko''],
      countryRecord ''LT'' ''Lithuania'' [''lt''],
      countryRecord ''LV'' ''Latvia'' [''lv''],
      countryRecord ''MA'' ''Morocco'' [''ar'', ''fr''],
      countryRecord ''MX'' ''Mexico'' [''es''],
      countryRecord ''MY'' ''Malaysia'' [''ms'', ''en''],
      countryRecord ''NG'' ''Nigeria'' [''en''],
      countryRecord ''NL'' ''Netherlands'' [''nl''],
      countryRecord ''NO'' ''Norway'' [''no''],
      countryRecord ''NZ'' ''New Zealand'' [''en''],
      countryRecord ''PE'' ''Peru'' [''es''],
      countryRecord ''PH'' ''Philippines'' [''en'', ''tl''],
      countryRecord ''PL'' ''Poland'' [''pl''],
      countryRecord ''PT'' ''Portugal'' [''pt''],
      countryRecord ''RO'' ''Romania'' [''ro''],
      countryRecord ''RS'' ''Serbia'' [''sr''],
      countryRecord ''SE'' ''Sweden'' [''sv''],
      countryRecord ''SG'' ''Singapore'' [''en''],
      countryRecord ''SI'' ''Slovenia'' [''sl''],
      countryRecord ''SK'' ''Slovakia'' [''sk''],
      countryRecord ''TH'' ''Thailand'' [''th''],
      countryRecord ''TR'' (''T'' @ [CHR 0xFC] @ ''rkiye'') [''tr''],
      countryRecord ''TW'' ''Taiwan'' [''zh''],
      countryRecord ''UA'' ''Ukraine'' [''uk''],
      countryRecord ''US'' ''United States'' [''en''],
      countryRecord ''UY'' ''Uruguay'' [''es''],
      countryRecord ''VN'' ''Vietnam'' [''vi''],
      countryRecord ''ZA'' ''South Africa'' [''en'', ''af'']]"

definition COUNTRY_CODES :: "string list" where
  "COUNTRY_CODES = map co_code COUNTRIES"

text \<open>\<^verbatim>\<open>null\<close> and \<^verbatim>\<open>undefined\<close> are both \<^const>\<open>None\<close>; the empty string counts as absent too.\<close>

definition getCountry :: "string option \<Rightarrow> CountryRecord option" where
  "getCountry code =
     (case code of
        None \<Rightarrow> None
      | Some c \<Rightarrow> if c = [] then None else find (\<lambda>r. co_code r = toUpperCase c) COUNTRIES)"

definition isSupportedCountry :: "string option \<Rightarrow> bool" where
  "isSupportedCountry code = (getCountry code \<noteq> None)"

definition countryName :: "string option \<Rightarrow> string option" where
  "countryName code = map_option co_name (getCountry code)"

definition countryFlagEmoji :: "string option \<Rightarrow> nat list" where
  "countryFlagEmoji code =
     (case code of
        Some [a, b] \<Rightarrow>
          if (isCapital a \<or> isSmall a) \<and> (isCapital b \<or> isSmall b)
          then let upper = codeUnits (toUpperCase [a, b])
               in [0x1f1e6 + (upper ! 0 - 65), 0x1f1e6 + (upper ! 1 - 65)]
          else []
      | other \<Rightarrow> [])"

definition formatCountry :: "string option \<Rightarrow> nat list option" where
  "formatCountry code =
     (case getCountry code of
        None \<Rightarrow> None
      | Some country \<Rightarrow>
          let flag = countryFlagEmoji (Some (co_code country)) in
          Some (if flag \<noteq> [] then flag @ [32] @ codeUnits (co_name country) else codeUnits (co_name country)))"

section \<open>Interests\<close>

record InterestSeed =
  is_slug :: string
  is_label :: string
  is_sortOrder :: nat

definition interestSeed :: "string \<Rightarrow> string \<Rightarrow> nat \<Rightarrow> InterestSeed" where
  "interestSeed slug label sortOrder = \<lparr>is_slug = slug, is_label = label, is_sortOrder = sortOrder\<rparr>"

definition INTEREST_CATALOGUE :: "InterestSeed list" where
  "INTEREST_CATALOGUE =
     [
      interestSeed ''travel'' ''Travel'' 10,
      interestSeed ''gaming'' ''Gaming'' 20,
      interestSeed ''music'' ''Music'' 30,
      interestSeed ''movies'' ''Movies'' 40,
      interestSeed ''technology'' ''Technology'' 50,
      interestSeed ''sports'' ''Sports'' 60,
      interestSeed ''fitness'' ''Fitness'' 70,
      interestSeed ''photography'' ''Photography'' 80,
      interestSeed ''food'' ''Food'' 90,
      interestSeed ''languages'' ''Languages'' 100,
      interestSeed ''books'' ''Books'' 110,
      interestSeed ''art'' ''Art'' 120,
      interestSeed ''cars'' ''Cars'' 130,
      interestSeed ''business'' ''Business'' 140,
      interestSeed ''science'' ''Science'' 150]"

definition INTEREST_SLUGS :: "string list" where
  "INTEREST_SLUGS = map is_slug INTEREST_CATALOGUE"

definition isKnownInterestSlug :: "string \<Rightarrow> bool" where
  "isKnownInterestSlug slug = (slug \<in> set INTEREST_SLUGS)"

section \<open>Facts\<close>

text \<open>The catalogues are well formed: codes and slugs are keys, and a code is two capitals.\<close>

lemma COUNTRY_CODES_distinct: "distinct COUNTRY_CODES"
  by code_simp

lemma INTEREST_SLUGS_distinct: "distinct INTEREST_SLUGS"
  by code_simp

lemma COUNTRY_CODES_capitals: "list_all (\<lambda>c. length c = 2 \<and> list_all isCapital c) COUNTRY_CODES"
  by code_simp

lemma country_code_capitals:
  "c \<in> set COUNTRIES \<Longrightarrow> length (co_code c) = 2 \<and> list_all isCapital (co_code c)"
  using COUNTRY_CODES_capitals by (auto simp: COUNTRY_CODES_def list_all_iff)

lemma upperText_capital: "isCapital c \<Longrightarrow> upperText c = [c]"
  by (auto simp: isCapital_def upperText_def Let_def)

lemma toUpperCase_capitals: "list_all isCapital s \<Longrightarrow> toUpperCase s = s"
  by (induction s) (simp_all add: toUpperCase_def upperText_capital)

lemma getCountry_Some: "getCountry code = Some c \<Longrightarrow> c \<in> set COUNTRIES"
  by (auto simp: getCountry_def split: option.splits if_splits dest: find_Some_iff2)

lemma getCountry_code:
  assumes "c \<in> set COUNTRIES"
  shows "getCountry (Some (co_code c)) = Some c"
proof -
  note cap = country_code_capitals [OF assms]
  then have "co_code c \<noteq> []" by auto
  then have eq: "getCountry (Some (co_code c)) = find (\<lambda>r. co_code r = co_code c) COUNTRIES"
    using cap by (simp add: getCountry_def toUpperCase_capitals)
  moreover obtain d where d: "find (\<lambda>r. co_code r = co_code c) COUNTRIES = Some d"
    using assms by (cases "find (\<lambda>r. co_code r = co_code c) COUNTRIES") (auto simp: find_None_iff2)
  moreover have "d = c"
    using find_Some_iff2 [OF d] assms COUNTRY_CODES_distinct
    by (auto simp: COUNTRY_CODES_def distinct_map inj_on_def)
  ultimately show ?thesis by simp
qed

section \<open>Properties\<close>

text \<open>Looking a country up by any code gives the one entry of the table whose code it is, in whatever case it
was written, and its display text always carries the name after its flag of two regional indicators.\<close>

theorem country_display_names_the_country:
  "(getCountry code \<noteq> None \<longleftrightarrow> (\<exists>c. code = Some c \<and> toUpperCase c \<in> set COUNTRY_CODES)) \<and>
   formatCountry code = map_option (\<lambda>c. countryFlagEmoji (Some (co_code c)) @ [32] @ codeUnits (co_name c)) (getCountry code) \<and>
   (\<forall>c\<in>set COUNTRIES. getCountry (Some (co_code c)) = Some c \<and>
      length (countryFlagEmoji (Some (co_code c))) = 2 \<and>
      (\<forall>p\<in>set (countryFlagEmoji (Some (co_code c))). 0x1f1e6 \<le> p \<and> p \<le> 0x1f1ff))"
proof (intro conjI ballI)
  have ne: "[] \<notin> set COUNTRY_CODES" using COUNTRY_CODES_capitals by (auto simp: list_all_iff)
  show "getCountry code \<noteq> None \<longleftrightarrow> (\<exists>c. code = Some c \<and> toUpperCase c \<in> set COUNTRY_CODES)"
  proof (cases code)
    case (Some a)
    have "find (\<lambda>r. co_code r = toUpperCase a) COUNTRIES \<noteq> None \<longleftrightarrow> toUpperCase a \<in> set COUNTRY_CODES"
      unfolding find_None_iff2 by (simp add: COUNTRY_CODES_def image_iff) metis
    moreover have "toUpperCase [] = []" by (simp add: toUpperCase_def)
    ultimately show ?thesis using ne Some by (auto simp: getCountry_def)
  qed (simp add: getCountry_def)
  have flag: "length (countryFlagEmoji (Some (co_code c))) = 2 \<and>
      (\<forall>p\<in>set (countryFlagEmoji (Some (co_code c))). 0x1f1e6 \<le> p \<and> p \<le> 0x1f1ff)"
    if "c \<in> set COUNTRIES" for c
  proof -
    from country_code_capitals [OF that] obtain a b where ab: "co_code c = [a, b]" "isCapital a" "isCapital b"
      by (cases "co_code c" rule: list.exhaust) (auto simp: length_Suc_conv numeral_2_eq_2)
    then have u: "toUpperCase [a, b] = [a, b]" by (intro toUpperCase_capitals) simp
    show ?thesis
      using ab(2,3) by (auto simp: ab(1) countryFlagEmoji_def Let_def u codeUnits_def isCapital_def)
  qed
  show "formatCountry code =
      map_option (\<lambda>c. countryFlagEmoji (Some (co_code c)) @ [32] @ codeUnits (co_name c)) (getCountry code)"
  proof (cases "getCountry code")
    case (Some c)
    then show ?thesis using flag [OF getCountry_Some [OF Some]] by (auto simp: formatCountry_def Let_def)
  qed (simp add: formatCountry_def)
  fix c assume c: "c \<in> set COUNTRIES"
  show "getCountry (Some (co_code c)) = Some c" by (rule getCountry_code [OF c])
  show "length (countryFlagEmoji (Some (co_code c))) = 2" using flag [OF c] by blast
  fix p assume "p \<in> set (countryFlagEmoji (Some (co_code c)))"
  then show "0x1f1e6 \<le> p" "p \<le> 0x1f1ff" using flag [OF c] by blast+
qed

end
