(* ===== verification/Validation.thy ===== *)
theory Validation
  imports Countries Auth_Service "HOL-Library.Monad_Syntax"
begin

text \<open>What the program lets in: the schemas of \<^verbatim>\<open>packages/validation/src\<close>, here \<^verbatim>\<open>primitives.ts\<close>,
\<^verbatim>\<open>auth.schema.ts\<close>, \<^verbatim>\<open>profile.schema.ts\<close> and \<^verbatim>\<open>parse.ts\<close>. A schema takes a parsed JSON value and gives
the value the program goes on with, or nothing. The declarations come from the library Zod: its combinators
are read by what they document, checks and transformations in the order written; which complaint is made first
is not modelled. The library's patterns for addresses, uuids and URLs, the URL parser, and the conversion of texts
to numbers and dates (\<^const>\<open>None\<close> for what is none) are parameters.\<close>

section \<open>Values and combinators\<close>

datatype raw =
    Undefined | Null | Bool bool | Num rat | Text string | Arr "raw list" | Obj "(string \<times> raw) list"

record UrlParts =
  ur_protocol :: string
  ur_username :: string
  ur_password :: string
  ur_hostname :: string

record Formats =
  fm_email :: "string \<Rightarrow> bool"
  fm_uuid :: "string \<Rightarrow> bool"
  fm_url :: "string \<Rightarrow> bool"
  fm_parseUrl :: "string \<Rightarrow> UrlParts option"
  fm_number :: "raw \<Rightarrow> rat option"
  fm_date :: "raw \<Rightarrow> instant option"

type_synonym 'a schema = "raw \<Rightarrow> 'a option"

fun zString :: "string schema" where
  "zString (Text s) = Some s"
| "zString v = None"

fun zBoolean :: "bool schema" where
  "zBoolean (Bool b) = Some b"
| "zBoolean v = None"

fun zNumber :: "rat schema" where
  "zNumber (Num q) = Some q"
| "zNumber v = None"

definition zInt :: "int schema" where
  "zInt v = do { q \<leftarrow> zNumber v; if of_int \<lfloor>q\<rfloor> = q then Some \<lfloor>q\<rfloor> else None }"

text \<open>\<open>zRefine\<close> is any check (\<^verbatim>\<open>min\<close>, \<^verbatim>\<open>max\<close>, \<^verbatim>\<open>regex\<close>, \<^verbatim>\<open>refine\<close>), \<open>zMap\<close> any transformation (\<^verbatim>\<open>trim\<close>,
\<^verbatim>\<open>toLowerCase\<close>, \<^verbatim>\<open>transform\<close>).\<close>

definition zRefine :: "('a \<Rightarrow> bool) \<Rightarrow> 'a schema \<Rightarrow> 'a schema" where
  "zRefine p sch v = do { x \<leftarrow> sch v; if p x then Some x else None }"

definition zMap :: "('a \<Rightarrow> 'b) \<Rightarrow> 'a schema \<Rightarrow> 'b schema" where
  "zMap f sch v = map_option f (sch v)"

definition zLiteral :: "raw \<Rightarrow> unit schema" where
  "zLiteral w v = (if v = w then Some () else None)"

definition zOptional :: "'a schema \<Rightarrow> 'a option schema" where
  "zOptional sch v = (if v = Undefined then Some None else map_option Some (sch v))"

definition zNullable :: "'a schema \<Rightarrow> 'a option schema" where
  "zNullable sch v = (if v = Null then Some None else map_option Some (sch v))"

definition zDefault :: "'a \<Rightarrow> 'a schema \<Rightarrow> 'a schema" where
  "zDefault d sch v = (if v = Undefined then Some d else sch v)"

definition zEnum :: "('a \<Rightarrow> string) \<Rightarrow> 'a list \<Rightarrow> 'a schema" where
  "zEnum text values v = do { s \<leftarrow> zString v; find (\<lambda>x. text x = s) values }"

fun zArray :: "'a schema \<Rightarrow> 'a list schema" where
  "zArray sch (Arr vs) = those (map sch vs)"
| "zArray sch v = None"

text \<open>An object as the function from its keys; a key that is written twice has its last value. A strict
object has no other keys.\<close>

fun zObject :: "(string \<Rightarrow> raw) schema" where
  "zObject (Obj entries) =
     Some (\<lambda>k. case map_of (rev entries) k of None \<Rightarrow> Undefined | Some v \<Rightarrow> v)"
| "zObject v = None"

fun zStrict :: "string list \<Rightarrow> (string \<Rightarrow> raw) schema" where
  "zStrict keys (Obj entries) = (if set (map fst entries) \<subseteq> set keys then zObject (Obj entries) else None)"
| "zStrict keys v = None"

definition lengthIn :: "nat \<Rightarrow> nat \<Rightarrow> 'a list \<Rightarrow> bool" where
  "lengthIn lo hi s = (lo \<le> length s \<and> length s \<le> hi)"

section \<open>Text\<close>

definition isDigit :: "char \<Rightarrow> bool" where
  "isDigit c = (48 \<le> (of_char c :: nat) \<and> (of_char c :: nat) \<le> 57)"

fun includesText :: "string \<Rightarrow> string \<Rightarrow> bool" where
  "includesText [] sub = (sub = [])"
| "includesText (c # cs) sub = (take (length sub) (c # cs) = sub \<or> includesText cs sub)"

definition endsWith :: "string \<Rightarrow> string \<Rightarrow> bool" where
  "endsWith s e = (length e \<le> length s \<and> drop (length s - length e) s = e)"

definition uuidSchema :: "Formats \<Rightarrow> string schema" where
  "uuidSchema fm = zRefine (fm_uuid fm) zString"

definition emailSchema :: "Formats \<Rightarrow> string schema" where
  "emailSchema fm = zRefine (\<lambda>s. lengthIn 3 254 s \<and> fm_email fm s) (zMap (toLowerCase \<circ> trimString) zString)"

text \<open>\<^verbatim>\<open>/^[a-z0-9](?:[a-z0-9_]{1,22}[a-z0-9])?$/\<close>.\<close>

definition USERNAME_PATTERN :: "string \<Rightarrow> bool" where
  "USERNAME_PATTERN s =
     (let alnum = (\<lambda>c. isSmall c \<or> isDigit c) in
      case s of
        [] \<Rightarrow> False
      | c # rest \<Rightarrow> alnum c \<and>
          (rest = [] \<or>
           lengthIn 1 22 (butlast rest) \<and> list_all (\<lambda>d. alnum d \<or> d = CHR ''_'') (butlast rest) \<and>
           alnum (last rest)))"

definition RESERVED_USERNAMES :: "string list" where
  "RESERVED_USERNAMES =
     [''admin'', ''administrator'', ''moderator'', ''mod'', ''staff'', ''support'', ''help'', ''system'',
      ''trip2world'', ''trip2'', ''t2w'', ''official'', ''security'', ''root'', ''api'', ''www'', ''null'',
      ''undefined'', ''me'', ''you'', ''everyone'', ''here'']"

definition usernameSchema :: "string schema" where
  "usernameSchema =
     zRefine (\<lambda>s. lengthIn 3 24 s \<and> USERNAME_PATTERN s \<and> s \<notin> set RESERVED_USERNAMES)
       (zMap (toLowerCase \<circ> trimString) zString)"

definition COMMON_PASSWORDS :: "string list" where
  "COMMON_PASSWORDS =
     [''password'', ''password1'', ''password123'', ''12345678'', ''123456789'', ''1234567890'', ''qwertyuiop'',
      ''letmein123'', ''iloveyou1'', ''trip2world'', ''welcome123'', ''admin12345'']"

definition passwordSchema :: "string schema" where
  "passwordSchema =
     zRefine (\<lambda>s. lengthIn 10 128 s \<and> toLowerCase s \<notin> set COMMON_PASSWORDS \<and> 4 \<le> length (dedup s)) zString"

definition sanitizeText :: "string \<Rightarrow> string" where
  "sanitizeText s = map char_of (sanitizeDisplayText (codeUnits s))"

definition displayTextSchema :: "nat \<Rightarrow> string schema" where
  "displayTextSchema mx =
     zRefine (\<lambda>s. length s \<le> mx) (zMap sanitizeText (zRefine (\<lambda>s. length s \<le> mx * 2) zString))"

definition displayNameSchema :: "string schema" where
  "displayNameSchema = displayTextSchema 40"

definition bioSchema :: "string schema" where
  "bioSchema = displayTextSchema 300"

definition countryCodeSchema :: "string schema" where
  "countryCodeSchema =
     zRefine (\<lambda>s. length s = 2 \<and> s \<in> set COUNTRY_CODES) (zMap (toUpperCase \<circ> trimString) zString)"

definition languageCodeSchema :: "string schema" where
  "languageCodeSchema =
     zRefine (\<lambda>s. length s = 2 \<and> list_all isSmall s) (zMap (toLowerCase \<circ> trimString) zString)"

definition interestSlugSchema :: "string schema" where
  "interestSlugSchema = zRefine (\<lambda>s. s \<in> set INTEREST_SLUGS) (zMap (toLowerCase \<circ> trimString) zString)"

definition LOCALES :: "string list" where
  "LOCALES = [''en'', ''es'', ''pt'', ''fr'', ''de'', ''it'']"

definition localeSchema :: "string schema" where
  "localeSchema = zEnum id LOCALES"

fun genderPreferenceText :: "GenderPreference \<Rightarrow> string" where
  "genderPreferenceText GenderPreference_MALE = ''MALE''"
| "genderPreferenceText GenderPreference_FEMALE = ''FEMALE''"
| "genderPreferenceText GenderPreference_ANY = ''ANY''"

definition genderSchema :: "Gender schema" where
  "genderSchema = zEnum genderText GENDERS"

definition genderPreferenceSchema :: "GenderPreference schema" where
  "genderPreferenceSchema = zEnum genderPreferenceText GENDER_PREFERENCES"

definition ageBracketSchema :: "AgeBracket schema" where
  "ageBracketSchema = zEnum ageBracketText AGE_BRACKETS"

text \<open>The address of a picture: public hosts over TLS only.\<close>

definition dottedQuad :: "string \<Rightarrow> bool" where
  "dottedQuad host =
     (let parts = splitOn (CHR ''.'') host
      in length parts = 4 \<and> list_all (\<lambda>p. p \<noteq> [] \<and> list_all isDigit p) parts)"

definition blockedHost :: "string \<Rightarrow> bool" where
  "blockedHost host \<longleftrightarrow>
     host = ''localhost'' \<or> endsWith host ''.localhost'' \<or> endsWith host ''.internal'' \<or>
     endsWith host ''.local'' \<or> dottedQuad host \<or> take 1 host = ''[''"

definition publicUrl :: "Formats \<Rightarrow> string \<Rightarrow> bool" where
  "publicUrl fm s =
     (case fm_parseUrl fm s of
        None \<Rightarrow> False
      | Some url \<Rightarrow>
          ur_protocol url = ''https:'' \<and> ur_username url = [] \<and> ur_password url = [] \<and>
          \<not> blockedHost (toLowerCase (ur_hostname url)))"

definition avatarUrlSchema :: "Formats \<Rightarrow> string schema" where
  "avatarUrlSchema fm =
     zRefine (\<lambda>s. fm_url fm s \<and> length s \<le> 500 \<and> publicUrl fm s) (zMap trimString zString)"

section \<open>Dates\<close>

text \<open>The instant of the request: its UTC day, and the milliseconds since that day began.\<close>

record Clock =
  ck_today :: UtcDate
  ck_sinceMidnight :: int

definition leapYear :: "int \<Rightarrow> bool" where
  "leapYear y = (y mod 4 = 0 \<and> (y mod 100 \<noteq> 0 \<or> y mod 400 = 0))"

text \<open>Months count from 0.\<close>

definition daysInMonth :: "int \<Rightarrow> int \<Rightarrow> int" where
  "daysInMonth y m = (if m = 1 then (if leapYear y then 29 else 28) else if m \<in> {3, 5, 8, 10} then 30 else 31)"

definition realDate :: "UtcDate \<Rightarrow> bool" where
  "realDate d \<longleftrightarrow>
     0 \<le> utcMonth d \<and> utcMonth d \<le> 11 \<and> 1 \<le> utcDay d \<and> utcDay d \<le> daysInMonth (utcYear d) (utcMonth d)"

definition digitsValue :: "string \<Rightarrow> int" where
  "digitsValue s = foldl (\<lambda>n c. n * 10 + int (of_char c :: nat) - 48) 0 s"

text \<open>\<^verbatim>\<open>/^\d{4}-\d{2}-\d{2}$/\<close>, and that the date read from the text prints as the same text, which is so
for the days of the calendar.\<close>

definition parseBirthDate :: "string \<Rightarrow> UtcDate option" where
  "parseBirthDate s =
     (if length s = 10 \<and> s ! 4 = CHR ''-'' \<and> s ! 7 = CHR ''-'' \<and>
         list_all isDigit (take 4 s) \<and> list_all isDigit (take 2 (drop 5 s)) \<and> list_all isDigit (drop 8 s)
      then let d = \<lparr>utcYear = digitsValue (take 4 s), utcMonth = digitsValue (take 2 (drop 5 s)) - 1,
                    utcDay = digitsValue (drop 8 s)\<rparr>
           in if realDate d then Some d else None
      else None)"

text \<open>\<^verbatim>\<open>cutoff.setUTCFullYear(cutoff.getUTCFullYear() - years)\<close>: the 29th of February of a year that has none
becomes the 1st of March.\<close>

definition yearsBefore :: "int \<Rightarrow> UtcDate \<Rightarrow> UtcDate" where
  "yearsBefore years today =
     (let y = utcYear today - years in
      if utcMonth today = 1 \<and> utcDay today = 29 \<and> \<not> leapYear y
      then \<lparr>utcYear = y, utcMonth = 2, utcDay = 1\<rparr> else today\<lparr>utcYear := y\<rparr>)"

definition notAfter :: "UtcDate \<Rightarrow> UtcDate \<Rightarrow> bool" where
  "notAfter d e = dateLe (dateFields d) (dateFields e)"

definition ABSOLUTE_MINIMUM_AGE :: int where
  "ABSOLUTE_MINIMUM_AGE = 18"

text \<open>A date is compared at its midnight with the instant of the request, or that instant so many years
before.\<close>

definition birthDateOk :: "Clock \<Rightarrow> UtcDate \<Rightarrow> bool" where
  "birthDateOk clock dob \<longleftrightarrow>
     notAfter dob (ck_today clock) \<and>
     notAfter dob (yearsBefore ABSOLUTE_MINIMUM_AGE (ck_today clock)) \<and>
     (let cutoff = yearsBefore 120 (ck_today clock) in
      if dob = cutoff then ck_sinceMidnight clock = 0 else notAfter cutoff dob)"

definition birthDateSchema :: "Clock \<Rightarrow> UtcDate schema" where
  "birthDateSchema clock v = do {
     s \<leftarrow> zString v;
     dob \<leftarrow> parseBirthDate s;
     if birthDateOk clock dob then Some dob else None }"

section \<open>Accounts\<close>

definition registerSchema :: "Formats \<Rightarrow> Clock \<Rightarrow> RegisterInput schema" where
  "registerSchema fm clock v = do {
     f \<leftarrow> zObject v;
     email \<leftarrow> emailSchema fm (f ''email'');
     username \<leftarrow> usernameSchema (f ''username'');
     displayName \<leftarrow> zOptional displayNameSchema (f ''displayName'');
     password \<leftarrow> passwordSchema (f ''password'');
     confirmPassword \<leftarrow> zString (f ''confirmPassword'');
     birthDate \<leftarrow> birthDateSchema clock (f ''birthDate'');
     country \<leftarrow> countryCodeSchema (f ''country'');
     locale \<leftarrow> zDefault ''en'' localeSchema (f ''locale'');
     languages \<leftarrow> zDefault [''en''] (zRefine (lengthIn 1 5) (zArray languageCodeSchema)) (f ''languages'');
     acceptedTerms \<leftarrow> zLiteral (Bool True) (f ''acceptedTerms'');
     acceptedGuidelines \<leftarrow> zLiteral (Bool True) (f ''acceptedGuidelines'');
     if password = confirmPassword \<and> \<not> includesText (toLowerCase password) (toLowerCase username)
     then Some \<lparr>rg_email = email, rg_username = username, rg_displayName = displayName,
                rg_password = password, rg_birthDate = birthDate, rg_country = country,
                rg_locale = locale, rg_languages = languages\<rparr>
     else None }"

text \<open>The address, the password and whether to stay signed in.\<close>

definition loginSchema :: "Formats \<Rightarrow> (string \<times> string \<times> bool) schema" where
  "loginSchema fm v = do {
     f \<leftarrow> zObject v;
     email \<leftarrow> emailSchema fm (f ''email'');
     password \<leftarrow> zRefine (lengthIn 1 128) zString (f ''password'');
     rememberMe \<leftarrow> zDefault False zBoolean (f ''rememberMe'');
     Some (email, password, rememberMe) }"

definition requestPasswordResetSchema :: "Formats \<Rightarrow> string schema" where
  "requestPasswordResetSchema fm v = do { f \<leftarrow> zObject v; emailSchema fm (f ''email'') }"

definition resetPasswordSchema :: "(string \<times> string) schema" where
  "resetPasswordSchema v = do {
     f \<leftarrow> zObject v;
     token \<leftarrow> zRefine (lengthIn 20 500) zString (f ''token'');
     password \<leftarrow> passwordSchema (f ''password'');
     confirmPassword \<leftarrow> zString (f ''confirmPassword'');
     if password = confirmPassword then Some (token, password) else None }"

definition verifyEmailSchema :: "string schema" where
  "verifyEmailSchema v = do { f \<leftarrow> zObject v; zRefine (lengthIn 20 500) zString (f ''token'') }"

definition resendVerificationSchema :: "Formats \<Rightarrow> string schema" where
  "resendVerificationSchema fm v = do { f \<leftarrow> zObject v; emailSchema fm (f ''email'') }"

definition changePasswordSchema :: "(string \<times> string) schema" where
  "changePasswordSchema v = do {
     f \<leftarrow> zObject v;
     currentPassword \<leftarrow> zRefine (lengthIn 1 128) zString (f ''currentPassword'');
     newPassword \<leftarrow> passwordSchema (f ''newPassword'');
     confirmPassword \<leftarrow> zString (f ''confirmPassword'');
     if newPassword = confirmPassword \<and> newPassword \<noteq> currentPassword
     then Some (currentPassword, newPassword) else None }"

definition deleteAccountSchema :: "string schema" where
  "deleteAccountSchema v = do {
     f \<leftarrow> zObject v;
     password \<leftarrow> zRefine (lengthIn 1 128) zString (f ''password'');
     confirmation \<leftarrow> zLiteral (Text ''DELETE'') (f ''confirmation'');
     Some password }"

section \<open>Profiles\<close>

text \<open>\<^const>\<open>None\<close> is a field the request leaves out; a nullable field that is sent as null is \<open>Some None\<close>.\<close>

record ProfileUpdate =
  up_displayName :: "string option option"
  up_bio :: "string option option"
  up_avatarUrl :: "string option option"
  up_country :: "string option"
  up_gender :: "Gender option"
  up_languages :: "string list option"
  up_locale :: "string option"

definition updateProfileSchema :: "Formats \<Rightarrow> ProfileUpdate schema" where
  "updateProfileSchema fm v = do {
     f \<leftarrow> zStrict [''displayName'', ''bio'', ''avatarUrl'', ''country'', ''gender'', ''languages'', ''locale''] v;
     displayName \<leftarrow> zOptional (zNullable displayNameSchema) (f ''displayName'');
     bio \<leftarrow> zOptional (zNullable bioSchema) (f ''bio'');
     avatarUrl \<leftarrow> zOptional (zNullable (avatarUrlSchema fm)) (f ''avatarUrl'');
     country \<leftarrow> zOptional countryCodeSchema (f ''country'');
     gender \<leftarrow> zOptional genderSchema (f ''gender'');
     languages \<leftarrow> zOptional (zRefine (lengthIn 1 5) (zArray languageCodeSchema)) (f ''languages'');
     locale \<leftarrow> zOptional localeSchema (f ''locale'');
     Some \<lparr>up_displayName = displayName, up_bio = bio, up_avatarUrl = avatarUrl, up_country = country,
           up_gender = gender, up_languages = languages, up_locale = locale\<rparr> }"

record PrivacyUpdate =
  uv_showDisplayName :: "bool option"
  uv_showCountry :: "bool option"
  uv_showAgeBracket :: "bool option"
  uv_showGender :: "bool option"
  uv_showInterests :: "bool option"
  uv_showBio :: "bool option"
  uv_allowConnectionRequests :: "bool option"

definition updatePrivacySchema :: "PrivacyUpdate schema" where
  "updatePrivacySchema v = do {
     f \<leftarrow> zStrict [''showDisplayName'', ''showCountry'', ''showAgeBracket'', ''showGender'', ''showInterests'',
                    ''showBio'', ''allowConnectionRequests''] v;
     a \<leftarrow> zOptional zBoolean (f ''showDisplayName'');
     b \<leftarrow> zOptional zBoolean (f ''showCountry'');
     c \<leftarrow> zOptional zBoolean (f ''showAgeBracket'');
     d \<leftarrow> zOptional zBoolean (f ''showGender'');
     e \<leftarrow> zOptional zBoolean (f ''showInterests'');
     g \<leftarrow> zOptional zBoolean (f ''showBio'');
     h \<leftarrow> zOptional zBoolean (f ''allowConnectionRequests'');
     Some \<lparr>uv_showDisplayName = a, uv_showCountry = b, uv_showAgeBracket = c, uv_showGender = d,
           uv_showInterests = e, uv_showBio = g, uv_allowConnectionRequests = h\<rparr> }"

record PreferencesUpdate =
  uf_preferredGender :: "GenderPreference option"
  uf_preferredCountries :: "string list option"
  uf_preferredLanguages :: "string list option"
  uf_preferredAgeBrackets :: "AgeBracket list option"
  uf_autoRequeue :: "bool option"
  uf_startMuted :: "bool option"
  uf_startCameraOff :: "bool option"

definition atMost :: "nat \<Rightarrow> 'a list \<Rightarrow> bool" where
  "atMost n l = (length l \<le> n)"

definition updatePreferencesSchema :: "PreferencesUpdate schema" where
  "updatePreferencesSchema v = do {
     f \<leftarrow> zStrict [''preferredGender'', ''preferredCountries'', ''preferredLanguages'',
                    ''preferredAgeBrackets'', ''autoRequeue'', ''startMuted'', ''startCameraOff''] v;
     gender \<leftarrow> zOptional genderPreferenceSchema (f ''preferredGender'');
     countries \<leftarrow> zOptional (zRefine (atMost 20) (zArray countryCodeSchema)) (f ''preferredCountries'');
     languages \<leftarrow> zOptional (zRefine (atMost 5) (zArray languageCodeSchema)) (f ''preferredLanguages'');
     brackets \<leftarrow> zOptional (zRefine (atMost 5) (zArray ageBracketSchema)) (f ''preferredAgeBrackets'');
     autoRequeue \<leftarrow> zOptional zBoolean (f ''autoRequeue'');
     startMuted \<leftarrow> zOptional zBoolean (f ''startMuted'');
     startCameraOff \<leftarrow> zOptional zBoolean (f ''startCameraOff'');
     Some \<lparr>uf_preferredGender = gender, uf_preferredCountries = countries, uf_preferredLanguages = languages,
           uf_preferredAgeBrackets = brackets, uf_autoRequeue = autoRequeue, uf_startMuted = startMuted,
           uf_startCameraOff = startCameraOff\<rparr> }"

definition updateInterestsSchema :: "string list schema" where
  "updateInterestsSchema v = do {
     f \<leftarrow> zObject v;
     zMap dedup (zRefine (atMost 10) (zArray interestSlugSchema)) (f ''interests'') }"

section \<open>Complaints\<close>

text \<open>\<^verbatim>\<open>parse.ts\<close>: an issue is where in the payload, as the printed keys and indices of its path, and what
to say. The answer to the client groups them by path.\<close>

record Issue =
  ii_path :: "string list"
  ii_message :: string

definition joinDots :: "string list \<Rightarrow> string" where
  "joinDots parts = (case parts of [] \<Rightarrow> [] | p # ps \<Rightarrow> p @ concat (map (\<lambda>q. ''.'' @ q) ps))"

fun addDetail :: "string \<Rightarrow> string \<Rightarrow> (string \<times> string list) list \<Rightarrow> (string \<times> string list) list" where
  "addDetail path message [] = [(path, [message])]"
| "addDetail path message ((p, ms) # details) =
     (if p = path then (p, ms @ [message]) # details else (p, ms) # addDetail path message details)"

definition issueKey :: "Issue \<Rightarrow> string" where
  "issueKey i = (if 0 < length (ii_path i) then joinDots (ii_path i) else ''_'')"

definition formatZodError :: "Issue list \<Rightarrow> (string \<times> string list) list" where
  "formatZodError issues = foldl (\<lambda>details i. addDetail (issueKey i) (ii_message i) details) [] issues"

definition summarizeZodError :: "Issue list \<Rightarrow> string" where
  "summarizeZodError issues =
     (case issues of
        [] \<Rightarrow> ''Invalid payload''
      | i # rest \<Rightarrow>
          let path = joinDots (ii_path i)
          in if path \<noteq> [] then path @ '': '' @ ii_message i else ii_message i)"

end
