(* ===== verification/Profile.thy ===== *)
theory Profile
  imports Validation Realtime_Server
begin

text \<open>The account holder's own profile, privacy, preferences and interests,
\<^verbatim>\<open>apps/api/src/routes/profile.routes.ts\<close>. A route takes the authenticated user's id from the session, never
from the payload. The three preferences only the browser reads (automatic requeue, muted start, camera off)
are accepted and not kept; a payload is parsed by \<open>Validation\<close>.\<close>

section \<open>Errors and limits\<close>

definition Errors_validation :: AppError where
  "Errors_validation = appError VALIDATION_ERROR ''Some of the information provided is not valid.''"

text \<open>\<^verbatim>\<open>parse\<close>: a payload the schema refuses is answered with the validation error.\<close>

definition parse :: "'a schema \<Rightarrow> raw \<Rightarrow> AppError + 'a" where
  "parse sch v = (case sch v of None \<Rightarrow> Throw Errors_validation | Some x \<Rightarrow> Ok x)"

fun PREFERRED_COUNTRY_LIMIT :: "PlanTier \<Rightarrow> nat" where
  "PREFERRED_COUNTRY_LIMIT PlanTier_FREE = 1"
| "PREFERRED_COUNTRY_LIMIT PlanTier_PLUS = 5"
| "PREFERRED_COUNTRY_LIMIT PlanTier_PREMIUM = 20"

definition MAX_INTERESTS_PER_USER :: nat where
  "MAX_INTERESTS_PER_USER = 10"

section \<open>Reading\<close>

record SelfProfile =
  sf_id :: user_id
  sf_username :: string
  sf_email :: string
  sf_emailVerified :: bool
  sf_plan :: PlanTier
  sf_displayName :: "string option"
  sf_avatarUrl :: "string option"
  sf_bio :: "string option"
  sf_country :: "string option"
  sf_gender :: "Gender option"
  sf_languages :: "string list"
  sf_locale :: string
  sf_age :: "int option"
  sf_ageBracket :: "AgeBracket option"
  sf_privacy :: PrivacySettings
  sf_preferences :: "PreferenceRow option"
  sf_interests :: "string list"

definition loadProfile :: "user_id \<Rightarrow> UtcDate \<Rightarrow> Db \<Rightarrow> AppError + SelfProfile" where
  "loadProfile userId today db =
     (case db_users db userId of
        None \<Rightarrow> Throw (Errors_notFound ''Your account'')
      | Some user \<Rightarrow>
          let profile = u_profile user;
              birthDate = (case profile of None \<Rightarrow> NoBirthDate | Some p \<Rightarrow> pr_birthDate p)
          in Ok \<lparr>sf_id = userId, sf_username = u_username user, sf_email = u_email user,
                 sf_emailVerified = u_emailVerified user, sf_plan = u_plan user,
                 sf_displayName = Option.bind profile pr_displayName,
                 sf_avatarUrl = Option.bind profile pr_avatarUrl,
                 sf_bio = Option.bind profile pr_bio,
                 sf_country = Option.bind profile pr_country,
                 sf_gender = map_option pr_gender profile,
                 sf_languages = (case profile of None \<Rightarrow> [] | Some p \<Rightarrow> pr_languages p),
                 sf_locale = (case profile of None \<Rightarrow> ''en'' | Some p \<Rightarrow> pr_locale p),
                 sf_age = calculateAge birthDate today,
                 sf_ageBracket = ageBracketFor birthDate today,
                 sf_privacy = effectivePrivacy (u_privacy user),
                 sf_preferences = u_preference user,
                 sf_interests = u_interests user\<rparr>)"

section \<open>Writing\<close>

definition applyProfile :: "ProfileUpdate \<Rightarrow> ProfileRow \<Rightarrow> ProfileRow" where
  "applyProfile i p =
     p\<lparr>pr_displayName := orElse (up_displayName i) (pr_displayName p),
       pr_bio := orElse (up_bio i) (pr_bio p),
       pr_avatarUrl := orElse (up_avatarUrl i) (pr_avatarUrl p),
       pr_country := orElse (map_option Some (up_country i)) (pr_country p),
       pr_gender := orElse (up_gender i) (pr_gender p),
       pr_languages := orElse (up_languages i) (pr_languages p),
       pr_locale := orElse (up_locale i) (pr_locale p)\<rparr>"

text \<open>\<^verbatim>\<open>PATCH /\<close>: \<^verbatim>\<open>updateMany\<close>, so that an account without a profile row stays without one.\<close>

definition patchProfile ::
    "Formats \<Rightarrow> user_id \<Rightarrow> UtcDate \<Rightarrow> raw \<Rightarrow> Db \<Rightarrow> (AppError + SelfProfile) \<times> Db" where
  "patchProfile fm userId today body db =
     (case parse (updateProfileSchema fm) body of
        Inl e \<Rightarrow> (Throw e, db)
      | Inr input \<Rightarrow>
          let db1 = updateUser userId (\<lambda>u. u\<lparr>u_profile := map_option (applyProfile input) (u_profile u)\<rparr>) db
          in (loadProfile userId today db1, db1))"

definition applyPrivacy :: "PrivacyUpdate \<Rightarrow> PrivacySettings \<Rightarrow> PrivacySettings" where
  "applyPrivacy i s =
     s\<lparr>showDisplayName := orElse (uv_showDisplayName i) (showDisplayName s),
       showCountry := orElse (uv_showCountry i) (showCountry s),
       showAgeBracket := orElse (uv_showAgeBracket i) (showAgeBracket s),
       showGender := orElse (uv_showGender i) (showGender s),
       showInterests := orElse (uv_showInterests i) (showInterests s),
       showBio := orElse (uv_showBio i) (showBio s),
       allowConnectionRequests := orElse (uv_allowConnectionRequests i) (allowConnectionRequests s)\<rparr>"

text \<open>\<^verbatim>\<open>PATCH /privacy\<close>: a missing row is created over the columns' defaults, which are those of
\<^const>\<open>DEFAULT_PRIVACY_SETTINGS\<close>. A row cannot be created for a user who does not exist.\<close>

definition patchPrivacy ::
    "user_id \<Rightarrow> UtcDate \<Rightarrow> raw \<Rightarrow> Db \<Rightarrow> (AppError + SelfProfile) \<times> Db" where
  "patchPrivacy userId today body db =
     (case parse updatePrivacySchema body of
        Inl e \<Rightarrow> (Throw e, db)
      | Inr input \<Rightarrow>
          if db_users db userId = None then (Throw Errors_internal, db)
          else let db1 = updateUser userId (\<lambda>u. u\<lparr>u_privacy :=
                     Some (applyPrivacy input (orElse (u_privacy u) DEFAULT_PRIVACY_SETTINGS))\<rparr>) db
               in (loadProfile userId today db1, db1))"

definition defaultPreference :: PreferenceRow where
  "defaultPreference =
     \<lparr>pf_preferredGender = GenderPreference_ANY, pf_preferredCountries = [], pf_preferredLanguages = [],
      pf_preferredAgeBrackets = []\<rparr>"

definition applyPreferences :: "PreferencesUpdate \<Rightarrow> PreferenceRow \<Rightarrow> PreferenceRow" where
  "applyPreferences i p =
     p\<lparr>pf_preferredGender := orElse (uf_preferredGender i) (pf_preferredGender p),
       pf_preferredCountries := orElse (uf_preferredCountries i) (pf_preferredCountries p),
       pf_preferredLanguages := orElse (uf_preferredLanguages i) (pf_preferredLanguages p),
       pf_preferredAgeBrackets := orElse (uf_preferredAgeBrackets i) (pf_preferredAgeBrackets p)\<rparr>"

text \<open>\<^verbatim>\<open>PATCH /preferences\<close>, with the plan the session was authenticated with.\<close>

definition overLimit :: "PlanTier \<Rightarrow> PreferencesUpdate \<Rightarrow> bool" where
  "overLimit plan i =
     (case uf_preferredCountries i of
        None \<Rightarrow> False | Some countries \<Rightarrow> PREFERRED_COUNTRY_LIMIT plan < length countries)"

definition patchPreferences ::
    "AuthenticatedUser \<Rightarrow> UtcDate \<Rightarrow> raw \<Rightarrow> Db \<Rightarrow> (AppError + SelfProfile) \<times> Db" where
  "patchPreferences user today body db =
     (case parse updatePreferencesSchema body of
        Inl e \<Rightarrow> (Throw e, db)
      | Inr input \<Rightarrow>
          if overLimit (au_plan user) input
          then (Throw (appError VALIDATION_ERROR ''Too many preferred countries for your plan.''), db)
          else if db_users db (au_id user) = None then (Throw Errors_internal, db)
          else let db1 = updateUser (au_id user) (\<lambda>u. u\<lparr>u_preference :=
                     Some (applyPreferences input (orElse (u_preference u) defaultPreference))\<rparr>) db
               in (loadProfile (au_id user) today db1, db1))"

text \<open>The stored catalogue: each slug with whether it is active, in the order of the catalogue.\<close>

definition interestCatalogue :: "(string \<times> bool) list \<Rightarrow> string list" where
  "interestCatalogue stored = map fst (filter snd stored)"

text \<open>\<^verbatim>\<open>PUT /interests\<close>: the old ones go, the active ones among those named come.\<close>

definition putInterests ::
    "(string \<times> bool) list \<Rightarrow> user_id \<Rightarrow> UtcDate \<Rightarrow> raw \<Rightarrow> Db \<Rightarrow> (AppError + SelfProfile) \<times> Db" where
  "putInterests stored userId today body db =
     (case parse updateInterestsSchema body of
        Inl e \<Rightarrow> (Throw e, db)
      | Inr interests \<Rightarrow>
          if MAX_INTERESTS_PER_USER < length interests then (Throw Errors_validation, db)
          else let rows = filter (\<lambda>slug. slug \<in> set interests) (interestCatalogue stored) in
               if rows \<noteq> [] \<and> db_users db userId = None then (Throw Errors_internal, db)
               else let db1 = updateUser userId (\<lambda>u. u\<lparr>u_interests := rows\<rparr>) db
                    in (loadProfile userId today db1, db1))"

section \<open>Requests\<close>

text \<open>One request to the profile routes by an authenticated user.\<close>

datatype ProfileRequest =
    GetProfile | PatchProfile raw | PatchPrivacy raw | PatchPreferences raw | PutInterests raw

fun profileRoute ::
    "Formats \<Rightarrow> (string \<times> bool) list \<Rightarrow> UtcDate \<Rightarrow> AuthenticatedUser \<Rightarrow> ProfileRequest \<Rightarrow> Db \<Rightarrow>
     (AppError + SelfProfile) \<times> Db" where
  "profileRoute fm stored today user GetProfile db = (loadProfile (au_id user) today db, db)"
| "profileRoute fm stored today user (PatchProfile body) db = patchProfile fm (au_id user) today body db"
| "profileRoute fm stored today user (PatchPrivacy body) db = patchPrivacy (au_id user) today body db"
| "profileRoute fm stored today user (PatchPreferences body) db = patchPreferences user today body db"
| "profileRoute fm stored today user (PutInterests body) db = putInterests stored (au_id user) today body db"

end
