(* ===== verification/Validation_Safety.thy ===== *)
theory Validation_Safety
  imports Validation
begin

text \<open>What has passed a schema: normalised, within its bounds, and stable, that is, accepted again as it is when
it is sent again. The age gate of the schema, exactly, and with the service behind it.\<close>

lemmas schema_simps = zRefine_def zMap_def zOptional_def zNullable_def zDefault_def zLiteral_def zEnum_def

lemma zRefine_Some: "zRefine p sch v = Some x \<longleftrightarrow> sch v = Some x \<and> p x"
  by (auto simp: zRefine_def Option.bind_eq_Some_conv)

lemma zMap_Some: "zMap f sch v = Some x \<longleftrightarrow> (\<exists>y. sch v = Some y \<and> x = f y)"
  by (auto simp: zMap_def)

lemma zString_Some: "zString v = Some s \<longleftrightarrow> v = Text s"
  by (cases v) auto

lemma zLiteral_Some: "zLiteral w v = Some u \<longleftrightarrow> v = w"
  by (simp add: zLiteral_def)

lemmas schema_Some = zRefine_Some zMap_Some zString_Some zLiteral_Some

section \<open>Text\<close>

lemma toLowerChar_idem [simp]: "toLowerChar (toLowerChar c) = toLowerChar c"
  by (auto simp: toLowerChar_def Let_def)

lemma toLowerCase_idem [simp]: "toLowerCase (toLowerCase s) = toLowerCase s"
  by (simp add: toLowerCase_def)

lemma isJsSpace_lower [simp]: "isJsSpace (toLowerChar c) = isJsSpace c"
  by (auto simp: toLowerChar_def isJsSpace_def Let_def)

lemma dropWhile_twice [simp]: "dropWhile P (dropWhile P xs) = dropWhile P xs"
  by (induction xs) auto

lemma dropWhile_rev_dropWhile:
  "dropWhile P (rev (dropWhile P (rev (dropWhile P xs)))) = rev (dropWhile P (rev (dropWhile P xs)))"
proof (cases "rev (dropWhile P (rev (dropWhile P xs)))")
  case (Cons a as)
  obtain e where "dropWhile P xs = rev (dropWhile P (rev (dropWhile P xs))) @ e"
    using takeWhile_dropWhile_id [of P "rev (dropWhile P xs)"] by (metis rev_append rev_rev_ident)
  then have "dropWhile P xs \<noteq> [] \<and> hd (dropWhile P xs) = a" using Cons by auto
  then have "\<not> P a" using hd_dropWhile [of P xs] by auto
  then show ?thesis using Cons by simp
next
  case Nil
  then show ?thesis by (simp only: dropWhile.simps)
qed

lemma trimString_idem [simp]: "trimString (trimString s) = trimString s"
  by (simp add: trimString_def dropWhile_rev_dropWhile)

lemma trimString_lower: "trimString (toLowerCase s) = toLowerCase (trimString s)"
  by (simp add: trimString_def toLowerCase_def dropWhile_map rev_map comp_def)

lemma trimString_id: "s \<noteq> [] \<Longrightarrow> \<not> isJsSpace (hd s) \<Longrightarrow> \<not> isJsSpace (last s) \<Longrightarrow> trimString s = s"
proof -
  assume "s \<noteq> []" "\<not> isJsSpace (hd s)" "\<not> isJsSpace (last s)"
  then have "dropWhile isJsSpace s = s" "dropWhile isJsSpace (rev s) = rev s"
    by (simp_all add: dropWhile_eq_self_iff hd_rev)
  then show ?thesis by (simp add: trimString_def)
qed

lemma normalised_idem: "(toLowerCase \<circ> trimString) ((toLowerCase \<circ> trimString) s) = (toLowerCase \<circ> trimString) s"
  by (simp add: trimString_lower)

lemma codeUnits_char_of:
  "\<forall>c\<in>set cs. c < 256 \<Longrightarrow> codeUnits (map char_of cs) = cs"
  by (induction cs) (simp_all add: codeUnits_def)

lemma set_sanitize: "set (sanitizeDisplayText cs) \<subseteq> set cs \<union> {32}"
proof -
  have "set (trimSpace ds) \<subseteq> set ds" for ds
    by (auto simp: trimSpace_def dest!: set_dropWhileD)
  then show ?thesis
    using set_collapseSpace [of "stripInvisibleCharacters cs"]
    by (auto simp: sanitizeDisplayText_def normalizeWhitespace_def stripInvisibleCharacters_def)
qed

lemma codeUnits_sanitizeText: "codeUnits (sanitizeText s) = sanitizeDisplayText (codeUnits s)"
proof -
  have "\<forall>c\<in>set (codeUnits s). c < 256" by (auto simp: codeUnits_def)
  then have "\<forall>c\<in>set (sanitizeDisplayText (codeUnits s)). c < 256" using set_sanitize [of "codeUnits s"] by auto
  then show ?thesis by (simp add: sanitizeText_def codeUnits_char_of)
qed

lemma sanitizeText_idem [simp]: "sanitizeText (sanitizeText s) = sanitizeText s"
  using cleanText_sanitize [of "codeUnits s"]
  by (simp add: sanitizeText_def [of "sanitizeText s"] codeUnits_sanitizeText sanitize_clean_id)
     (simp add: sanitizeText_def)

text \<open>A schema is stable on a value when its text is accepted again unchanged.\<close>

lemma email_again: "emailSchema fm v = Some e \<Longrightarrow> emailSchema fm (Text e) = Some e"
  using normalised_idem by (fastforce simp: emailSchema_def schema_Some)

lemma username_again: "usernameSchema v = Some e \<Longrightarrow> usernameSchema (Text e) = Some e"
  using normalised_idem by (fastforce simp: usernameSchema_def schema_Some)

lemma language_again: "languageCodeSchema v = Some e \<Longrightarrow> languageCodeSchema (Text e) = Some e"
  using normalised_idem by (fastforce simp: languageCodeSchema_def schema_Some)

lemma interest_again: "interestSlugSchema v = Some e \<Longrightarrow> interestSlugSchema (Text e) = Some e"
  using normalised_idem by (fastforce simp: interestSlugSchema_def schema_Some)

lemma password_again: "passwordSchema v = Some e \<longleftrightarrow> v = Text e \<and> passwordSchema (Text e) = Some e"
  by (auto simp: passwordSchema_def schema_Some)

lemma displayText_again: "displayTextSchema mx v = Some e \<Longrightarrow> displayTextSchema mx (Text e) = Some e"
  by (auto simp: displayTextSchema_def schema_Some)

lemma locale_again: "localeSchema v = Some e \<Longrightarrow> localeSchema (Text e) = Some e"
  by (auto simp: localeSchema_def zEnum_def zString_Some Option.bind_eq_Some_conv dest: find_Some_iff2)

lemma country_again:
  assumes "countryCodeSchema v = Some e"
  shows "countryCodeSchema (Text e) = Some e"
proof -
  from assms have e: "length e = 2" "e \<in> set COUNTRY_CODES" by (auto simp: countryCodeSchema_def schema_Some)
  then have c: "list_all isCapital e" using COUNTRY_CODES_capitals by (auto simp: list_all_iff)
  then have "\<forall>x\<in>set e. \<not> isJsSpace x" by (auto simp: list_all_iff isCapital_def isJsSpace_def)
  moreover have "e \<noteq> []" using e(1) by auto
  ultimately have "trimString e = e" by (intro trimString_id) auto
  then show ?thesis using e c by (simp add: countryCodeSchema_def schema_simps toUpperCase_capitals)
qed

lemma those_Some: "those xs = Some ys \<longleftrightarrow> xs = map Some ys"
proof (induction xs arbitrary: ys)
  case (Cons x xs)
  then show ?case by (cases x; cases ys) auto
qed auto

lemma array_again:
  assumes "zArray sch v = Some ys" and "\<And>w y. sch w = Some y \<Longrightarrow> sch (Text (f y)) = Some y"
  shows "zArray sch (Arr (map (Text \<circ> f) ys)) = Some ys"
proof -
  obtain vs where "map sch vs = map Some ys" using assms(1) by (cases v) (auto simp: those_Some)
  then have "\<forall>y\<in>set ys. \<exists>w. sch w = Some y" by (metis (no_types, lifting) image_iff list.set_map)
  then have "map (sch \<circ> (Text \<circ> f)) ys = map Some ys" using assms(2) by auto
  then show ?thesis by (simp add: those_Some)
qed

section \<open>Dates\<close>

fun digitsText :: "nat \<Rightarrow> int \<Rightarrow> string" where
  "digitsText 0 n = []"
| "digitsText (Suc k) n = digitsText k (n div 10) @ [char_of (nat (48 + n mod 10))]"

definition birthText :: "UtcDate \<Rightarrow> string" where
  "birthText d = digitsText 4 (utcYear d) @ ''-'' @ digitsText 2 (utcMonth d + 1) @ ''-'' @ digitsText 2 (utcDay d)"

lemma length_digitsText [simp]: "length (digitsText k n) = k"
  by (induction k arbitrary: n) simp_all

lemma digitChar: "(of_char (char_of (nat (48 + n mod 10)) :: char) :: nat) = nat (48 + n mod 10)"
proof -
  have "nat (48 + n mod 10) < 256" using pos_mod_bound [of 10 n] by simp
  then show ?thesis by simp
qed

lemma digitsText_digits [simp]: "list_all isDigit (digitsText k n)"
proof (induction k arbitrary: n)
  case (Suc k)
  have "0 \<le> n mod 10" "n mod 10 \<le> 9" using pos_mod_bound [of 10 n] by simp_all
  then have "48 \<le> nat (48 + n mod 10)" "nat (48 + n mod 10) \<le> 57" by linarith+
  then show ?case using Suc by (simp add: isDigit_def digitChar del: of_char_of)
qed simp

lemma digitsValue_snoc: "digitsValue (s @ [c]) = digitsValue s * 10 + int (of_char c :: nat) - 48"
  by (simp add: digitsValue_def)

lemma digitsValue_text: "0 \<le> n \<Longrightarrow> n < 10 ^ k \<Longrightarrow> digitsValue (digitsText k n) = n"
proof (induction k arbitrary: n)
  case (Suc k)
  have "n div 10 < 10 ^ k" using Suc.prems by (simp add: div_less_iff_less_mult)
  then have "digitsValue (digitsText k (n div 10)) = n div 10" using Suc by simp
  moreover have "int (nat (48 + n mod 10)) = 48 + n mod 10" by simp
  ultimately show ?case by (simp add: digitsValue_snoc digitChar del: of_char_of int_nat_eq)
qed (simp add: digitsValue_def)

lemma digitsText_value:
  "list_all isDigit s \<Longrightarrow> digitsText (length s) (digitsValue s) = s \<and> 0 \<le> digitsValue s \<and> digitsValue s < 10 ^ length s"
proof (induction s rule: rev_induct)
  case (snoc c s)
  define v where "v = int (of_char c :: nat) - 48"
  have v: "0 \<le> v" "v \<le> 9" using snoc.prems by (auto simp: isDigit_def v_def)
  have d: "digitsValue (s @ [c]) = digitsValue s * 10 + v" by (simp add: digitsValue_snoc v_def)
  have "char_of (nat (48 + v)) = c" by (simp add: v_def)
  then show ?case using snoc v by (simp add: d)
qed (simp add: digitsValue_def)

lemma parse_birthText:
  assumes "realDate d" and "0 \<le> utcYear d" and "utcYear d \<le> 9999"
  shows "parseBirthDate (birthText d) = Some d"
proof -
  have r: "0 \<le> utcMonth d" "utcMonth d \<le> 11" "1 \<le> utcDay d" "utcDay d \<le> 31"
    using assms(1) by (auto simp: realDate_def daysInMonth_def split: if_splits)
  have t: "take 4 (birthText d) = digitsText 4 (utcYear d)" "birthText d ! 4 = CHR ''-''"
    "take 2 (drop 5 (birthText d)) = digitsText 2 (utcMonth d + 1)" "birthText d ! 7 = CHR ''-''"
    "drop 8 (birthText d) = digitsText 2 (utcDay d)" "length (birthText d) = 10"
    by (simp_all only: birthText_def) (simp_all add: nth_append del: digitsText.simps)
  have v: "digitsValue (digitsText 4 (utcYear d)) = utcYear d"
    "digitsValue (digitsText 2 (utcMonth d + 1)) = utcMonth d + 1" "digitsValue (digitsText 2 (utcDay d)) = utcDay d"
    using assms r by (simp_all add: digitsValue_text)
  show ?thesis unfolding parseBirthDate_def t v Let_def using assms(1) by (cases d) simp
qed

lemma parseBirthDate_Some:
  assumes "parseBirthDate s = Some d"
  shows "birthText d = s \<and> realDate d \<and> 0 \<le> utcYear d \<and> utcYear d \<le> 9999"
proof -
  have l: "length s = 10" and c: "s ! 4 = CHR ''-''" "s ! 7 = CHR ''-''" and
    g: "list_all isDigit (take 4 s)" "list_all isDigit (take 2 (drop 5 s))" "list_all isDigit (drop 8 s)" and
    d: "realDate d" "d = \<lparr>utcYear = digitsValue (take 4 s), utcMonth = digitsValue (take 2 (drop 5 s)) - 1,
                    utcDay = digitsValue (drop 8 s)\<rparr>"
    using assms by (auto simp: parseBirthDate_def Let_def split: if_splits)
  note y = digitsText_value [OF g(1)] and m = digitsText_value [OF g(2)] and t = digitsText_value [OF g(3)]
  have "s = take 4 s @ s ! 4 # drop 5 s" using id_take_nth_drop [of 4 s] l by (simp add: Suc_numeral)
  moreover have "drop 5 s = take 2 (drop 5 s) @ drop 7 s"
    using append_take_drop_id [of 2 "drop 5 s"] by (simp add: drop_drop)
  moreover have "drop 7 s = s ! 7 # drop 8 s" using l Cons_nth_drop_Suc [of 7 s] by (simp add: Suc_numeral)
  ultimately have "s = take 4 s @ CHR ''-'' # take 2 (drop 5 s) @ CHR ''-'' # drop 8 s" using c by simp
  moreover have "length (take 4 s) = 4" "length (take 2 (drop 5 s)) = 2" "length (drop 8 s) = 2" using l by simp_all
  ultimately show ?thesis using y m t d by (simp add: birthText_def)
qed

section \<open>The age gate\<close>

text \<open>The schema's age check is that of the service but on the 29th of February, when it lets those in who turn
eighteen the next day.\<close>

lemma leapYear_18: "leapYear y \<Longrightarrow> \<not> leapYear (y - 18)"
proof -
  assume "leapYear y"
  then have "y mod 4 = 0" by (simp add: leapYear_def)
  then have "(y - 18) mod 4 \<noteq> 0" by presburger
  then show ?thesis by (simp add: leapYear_def)
qed

lemma notAfter_18:
  assumes "realDate today" and "realDate dob"
  shows "notAfter dob (yearsBefore ABSOLUTE_MINIMUM_AGE today) \<longleftrightarrow>
    meetsMinimumAge (BirthDate dob) ABSOLUTE_MINIMUM_AGE today \<or>
    (utcMonth today = 1 \<and> utcDay today = 29 \<and> utcYear dob = utcYear today - 18 \<and> utcMonth dob = 2 \<and> utcDay dob = 1)"
proof (cases "utcMonth today = 1 \<and> utcDay today = 29")
  case True
  then have "leapYear (utcYear today)" using assms(1) by (auto simp: realDate_def daysInMonth_def split: if_splits)
  then have "\<not> leapYear (utcYear today - 18)" by (rule leapYear_18)
  moreover have "utcMonth dob = 1 \<longrightarrow> utcDay dob \<le> 29" "1 \<le> utcDay dob"
    using assms(2) by (auto simp: realDate_def daysInMonth_def split: if_splits)
  ultimately show ?thesis using True
    by (auto simp: notAfter_def yearsBefore_def ABSOLUTE_MINIMUM_AGE_def meetsMinimumAge_anniversary
        dateLe_def dateFields_def anniversary_def Let_def)
next
  case False
  then have "yearsBefore ABSOLUTE_MINIMUM_AGE today = today\<lparr>utcYear := utcYear today - 18\<rparr>"
    by (auto simp: yearsBefore_def Let_def ABSOLUTE_MINIMUM_AGE_def)
  then show ?thesis using False
    by (auto simp: notAfter_def ABSOLUTE_MINIMUM_AGE_def meetsMinimumAge_anniversary
        dateLe_def dateFields_def anniversary_def)
qed

text \<open>What the gate lets through, in terms of the age: those who are eighteen and at most a hundred and twenty,
and on the 29th of February also those who turn eighteen on the next day. The service behind it, which
compares the anniversary, does not let them in.\<close>

theorem age_gate_of_the_schema:
  assumes "realDate (ck_today clock)"
  shows "birthDateSchema clock v = Some dob \<longleftrightarrow>
    v = Text (birthText dob) \<and> realDate dob \<and> 0 \<le> utcYear dob \<and> utcYear dob \<le> 9999 \<and>
    (meetsMinimumAge (BirthDate dob) ABSOLUTE_MINIMUM_AGE (ck_today clock) \<or>
     (utcMonth (ck_today clock) = 1 \<and> utcDay (ck_today clock) = 29 \<and>
      utcYear dob = utcYear (ck_today clock) - 18 \<and> utcMonth dob = 2 \<and> utcDay dob = 1)) \<and>
    (let oldest = yearsBefore 120 (ck_today clock)
     in if dob = oldest then ck_sinceMidnight clock = 0 else notAfter oldest dob)"
proof -
  have now: "notAfter dob (ck_today clock)"
    if "notAfter dob (yearsBefore ABSOLUTE_MINIMUM_AGE (ck_today clock))"
    using that by (auto simp: notAfter_def yearsBefore_def dateLe_def dateFields_def ABSOLUTE_MINIMUM_AGE_def
        Let_def split: if_splits)
  have "birthDateSchema clock v = Some dob \<longleftrightarrow>
      (\<exists>s. v = Text s \<and> parseBirthDate s = Some dob) \<and> birthDateOk clock dob"
    by (auto simp: birthDateSchema_def zString_Some Option.bind_eq_Some_conv split: if_splits)
  also have "(\<exists>s. v = Text s \<and> parseBirthDate s = Some dob) \<longleftrightarrow>
      v = Text (birthText dob) \<and> realDate dob \<and> 0 \<le> utcYear dob \<and> utcYear dob \<le> 9999"
    using parseBirthDate_Some parse_birthText by blast
  finally show ?thesis
    using notAfter_18 [OF assms] now unfolding birthDateOk_def by (auto simp: Let_def)
qed

lemma age_gate_of_the_schema_witness:
  "birthDateSchema \<lparr>ck_today = \<lparr>utcYear = 2024, utcMonth = 1, utcDay = 29\<rparr>, ck_sinceMidnight = 5\<rparr>
     (Text ''2006-03-01'') = Some \<lparr>utcYear = 2006, utcMonth = 2, utcDay = 1\<rparr> \<and>
   \<not> meetsMinimumAge (BirthDate \<lparr>utcYear = 2006, utcMonth = 2, utcDay = 1\<rparr>) 18
       \<lparr>utcYear = 2024, utcMonth = 1, utcDay = 29\<rparr>"
proof -
  let ?clock = "\<lparr>ck_today = \<lparr>utcYear = 2024, utcMonth = 1, utcDay = 29\<rparr>, ck_sinceMidnight = 5\<rparr>"
  have t: "Text ''2006-03-01'' = Text (birthText \<lparr>utcYear = 2006, utcMonth = 2, utcDay = 1\<rparr>)" by code_simp
  have "realDate (ck_today ?clock)" by code_simp
  from age_gate_of_the_schema [OF this] have
    "birthDateSchema ?clock (Text ''2006-03-01'') = Some \<lparr>utcYear = 2006, utcMonth = 2, utcDay = 1\<rparr>"
    unfolding t by (simp add: realDate_def daysInMonth_def yearsBefore_def notAfter_def dateLe_def dateFields_def)
  then show ?thesis by (simp add: meetsMinimumAge_def)
qed

section \<open>Registration\<close>

text \<open>The payload a registration would send again.\<close>

definition registerRaw :: "RegisterInput \<Rightarrow> raw" where
  "registerRaw i = Obj
     [(''email'', Text (rg_email i)), (''username'', Text (rg_username i)),
      (''displayName'', case rg_displayName i of None \<Rightarrow> Undefined | Some n \<Rightarrow> Text n),
      (''password'', Text (rg_password i)), (''confirmPassword'', Text (rg_password i)),
      (''birthDate'', Text (birthText (rg_birthDate i))), (''country'', Text (rg_country i)),
      (''locale'', Text (rg_locale i)), (''languages'', Arr (map Text (rg_languages i))),
      (''acceptedTerms'', Bool True), (''acceptedGuidelines'', Bool True)]"

text \<open>The fields of an accepted payload, one by one.\<close>

lemma registerSchema_Some:
  "registerSchema fm clock v = Some i \<longleftrightarrow>
   (\<exists>f. zObject v = Some f \<and> emailSchema fm (f ''email'') = Some (rg_email i) \<and>
     usernameSchema (f ''username'') = Some (rg_username i) \<and>
     zOptional displayNameSchema (f ''displayName'') = Some (rg_displayName i) \<and>
     passwordSchema (f ''password'') = Some (rg_password i) \<and> zString (f ''confirmPassword'') = Some (rg_password i) \<and>
     birthDateSchema clock (f ''birthDate'') = Some (rg_birthDate i) \<and>
     countryCodeSchema (f ''country'') = Some (rg_country i) \<and>
     zDefault ''en'' localeSchema (f ''locale'') = Some (rg_locale i) \<and>
     zDefault [''en''] (zRefine (lengthIn 1 5) (zArray languageCodeSchema)) (f ''languages'') = Some (rg_languages i) \<and>
     f ''acceptedTerms'' = Bool True \<and> f ''acceptedGuidelines'' = Bool True \<and>
     \<not> includesText (toLowerCase (rg_password i)) (toLowerCase (rg_username i)))"
  by (cases i) (auto simp: registerSchema_def Option.bind_eq_Some_conv zLiteral_Some)

lemma registerRaw_fields:
  "zObject (registerRaw i) = Some f \<Longrightarrow>
     f ''email'' = Text (rg_email i) \<and> f ''username'' = Text (rg_username i) \<and>
     f ''displayName'' = (case rg_displayName i of None \<Rightarrow> Undefined | Some n \<Rightarrow> Text n) \<and>
     f ''password'' = Text (rg_password i) \<and> f ''confirmPassword'' = Text (rg_password i) \<and>
     f ''birthDate'' = Text (birthText (rg_birthDate i)) \<and> f ''country'' = Text (rg_country i) \<and>
     f ''locale'' = Text (rg_locale i) \<and> f ''languages'' = Arr (map Text (rg_languages i)) \<and>
     f ''acceptedTerms'' = Bool True \<and> f ''acceptedGuidelines'' = Bool True"
  by (auto simp: registerRaw_def)

lemma birthDateSchema_text:
  assumes "birthDateSchema clock v = Some d"
  shows "v = Text (birthText d)"
proof -
  obtain s where "v = Text s" "parseBirthDate s = Some d"
    using assms by (auto simp: birthDateSchema_def zString_Some Option.bind_eq_Some_conv split: if_splits)
  then show ?thesis using parseBirthDate_Some by blast
qed

lemma languages_again:
  assumes "zDefault [''en''] (zRefine (lengthIn 1 5) (zArray languageCodeSchema)) v = Some ls"
  shows "zDefault [''en''] (zRefine (lengthIn 1 5) (zArray languageCodeSchema)) (Arr (map Text ls)) = Some ls"
proof (cases "v = Undefined")
  case True
  then have "ls = [''en'']" using assms by (simp add: zDefault_def)
  moreover have "languageCodeSchema (Text ''en'') = Some ''en''" by code_simp
  ultimately show ?thesis by (simp add: zDefault_def zRefine_def lengthIn_def)
next
  case False
  then have "zArray languageCodeSchema v = Some ls" "lengthIn 1 5 ls"
    using assms by (auto simp: zDefault_def zRefine_Some)
  then have "zArray languageCodeSchema (Arr (map (Text \<circ> id) ls)) = Some ls"
    by (intro array_again) (auto simp: language_again)
  then show ?thesis using \<open>lengthIn 1 5 ls\<close> by (simp add: zDefault_def zRefine_def)
qed

text \<open>C31: What registration accepts is settled: sent again as it was stored it is accepted again and unchanged. So no
accepted account has an address, a name or a code that the same rules would still change, and an address typed
at sign-in in any case and with spaces around it reaches the account it was registered under.\<close>

theorem registration_is_stable:
  assumes "registerSchema fm clock v = Some i"
  shows "registerSchema fm clock (registerRaw i) = Some i"
proof -
  from assms obtain f where f: "zObject v = Some f" "emailSchema fm (f ''email'') = Some (rg_email i)"
     "usernameSchema (f ''username'') = Some (rg_username i)"
     "zOptional displayNameSchema (f ''displayName'') = Some (rg_displayName i)"
     "passwordSchema (f ''password'') = Some (rg_password i)"
     "birthDateSchema clock (f ''birthDate'') = Some (rg_birthDate i)"
     "countryCodeSchema (f ''country'') = Some (rg_country i)"
     "zDefault ''en'' localeSchema (f ''locale'') = Some (rg_locale i)"
     "zDefault [''en''] (zRefine (lengthIn 1 5) (zArray languageCodeSchema)) (f ''languages'') = Some (rg_languages i)"
     "\<not> includesText (toLowerCase (rg_password i)) (toLowerCase (rg_username i))"
    unfolding registerSchema_Some by blast
  obtain g where g: "zObject (registerRaw i) = Some g" by (simp add: registerRaw_def)
  note fields = registerRaw_fields [OF g]
  have birth: "birthDateSchema clock (Text (birthText (rg_birthDate i))) = Some (rg_birthDate i)"
    using f(6) birthDateSchema_text by metis
  have name: "zOptional displayNameSchema (case rg_displayName i of None \<Rightarrow> Undefined | Some n \<Rightarrow> Text n) =
      Some (rg_displayName i)"
    using f(4) by (auto simp: zOptional_def displayNameSchema_def split: if_splits option.split dest: displayText_again)
  have loc: "zDefault ''en'' localeSchema (Text (rg_locale i)) = Some (rg_locale i)"
  proof (cases "f ''locale'' = Undefined")
    case True
    then have "rg_locale i = ''en''" using f(8) by (simp add: zDefault_def)
    then show ?thesis by (simp add: zDefault_def localeSchema_def zEnum_def LOCALES_def)
  qed (use f(8) in \<open>auto simp: zDefault_def dest: locale_again\<close>)
  show ?thesis
    unfolding registerSchema_Some
    by (intro exI [of _ g] conjI)
       (use f(10) iffD1 [OF password_again f(5)] in
         \<open>simp_all only: g fields email_again [OF f(2)] username_again [OF f(3)] name birth
            country_again [OF f(7)] loc languages_again [OF f(9)] zString.simps simp_thms\<close>)
qed

definition exampleFormats :: Formats where
  "exampleFormats = \<lparr>fm_email = (\<lambda>s. CHR ''@'' \<in> set s), fm_uuid = (\<lambda>s. length s = 36), fm_url = (\<lambda>s. True),
     fm_parseUrl = (\<lambda>s. None), fm_number = zNumber, fm_date = map_option floor \<circ> zNumber\<rparr>"

definition adultPayload :: raw where
  "adultPayload = Obj
     [(''email'', Text '' Bo@Example.com''), (''username'', Text ''Bo_1''), (''password'', Text ''correct horse''),
      (''confirmPassword'', Text ''correct horse''), (''birthDate'', Text ''2000-01-01''), (''country'', Text ''pt''),
      (''acceptedTerms'', Bool True), (''acceptedGuidelines'', Bool True)]"

definition exampleClock :: Clock where
  "exampleClock = \<lparr>ck_today = \<lparr>utcYear = 2026, utcMonth = 0, utcDay = 1\<rparr>, ck_sinceMidnight = 0\<rparr>"

lemma adultPayload_accepted:
  "registerSchema exampleFormats exampleClock adultPayload = Some
     \<lparr>rg_email = ''bo@example.com'', rg_username = ''bo_1'', rg_displayName = None, rg_password = ''correct horse'',
      rg_birthDate = \<lparr>utcYear = 2000, utcMonth = 0, utcDay = 1\<rparr>, rg_country = ''PT'', rg_locale = ''en'',
      rg_languages = [''en'']\<rparr>"
  by code_simp

lemma registration_is_stable_witness:
  "registerSchema exampleFormats exampleClock (registerRaw
     \<lparr>rg_email = ''bo@example.com'', rg_username = ''bo_1'', rg_displayName = None, rg_password = ''correct horse'',
      rg_birthDate = \<lparr>utcYear = 2000, utcMonth = 0, utcDay = 1\<rparr>, rg_country = ''PT'', rg_locale = ''en'',
      rg_languages = [''en'']\<rparr>) = Some
     \<lparr>rg_email = ''bo@example.com'', rg_username = ''bo_1'', rg_displayName = None, rg_password = ''correct horse'',
      rg_birthDate = \<lparr>utcYear = 2000, utcMonth = 0, utcDay = 1\<rparr>, rg_country = ''PT'', rg_locale = ''en'',
      rg_languages = [''en'']\<rparr>"
  by (rule registration_is_stable [OF adultPayload_accepted])

end
