(* ===== verification/Profile_Safety.thy ===== *)
theory Profile_Safety
  imports Profile Validation_Safety Account_Life
begin

text \<open>What the profile routes can change, and with them the site's age limit over every request that writes
accounts: registration through its schema, the account and moderation API, the profile routes and the
maintenance jobs.\<close>

section \<open>Facts\<close>

lemma parse_Ok: "parse sch v = Ok x \<longleftrightarrow> sch v = Some x"
  by (simp add: parse_def split: option.split)

lemma parse_Inl: "parse sch v = Inl e \<longleftrightarrow> sch v = None \<and> e = Errors_validation"
  by (auto simp: parse_def split: option.split)

text \<open>A request writes at most one row, and of it only these fields.\<close>

definition ownFields :: "UserRow \<Rightarrow> UserRow \<Rightarrow> bool" where
  "ownFields u v \<longleftrightarrow>
     (\<exists>profile privacy preference interests.
        v = u\<lparr>u_profile := profile, u_privacy := privacy, u_preference := preference, u_interests := interests\<rparr> \<and>
        map_option pr_birthDate profile = map_option pr_birthDate (u_profile u))"

lemma ownFields_intros [intro]:
  "ownFields u u"
  "ownFields u (u\<lparr>u_profile := map_option (applyProfile i) (u_profile u)\<rparr>)"
  "ownFields u (u\<lparr>u_privacy := p\<rparr>)"
  "ownFields u (u\<lparr>u_preference := f\<rparr>)"
  "ownFields u (u\<lparr>u_interests := l\<rparr>)"
proof -
  have "u = u\<lparr>u_profile := u_profile u, u_privacy := u_privacy u, u_preference := u_preference u,
      u_interests := u_interests u\<rparr>" by simp
  then show "ownFields u u" unfolding ownFields_def by metis
  have "map_option pr_birthDate (map_option (applyProfile i) (u_profile u)) = map_option pr_birthDate (u_profile u)"
    by (cases "u_profile u") (simp_all add: applyProfile_def)
  then show "ownFields u (u\<lparr>u_profile := map_option (applyProfile i) (u_profile u)\<rparr>)"
    unfolding ownFields_def by (intro exI [of _ "map_option (applyProfile i) (u_profile u)"]
        exI [of _ "u_privacy u"] exI [of _ "u_preference u"] exI [of _ "u_interests u"]) simp
  show "ownFields u (u\<lparr>u_privacy := p\<rparr>)"
    unfolding ownFields_def by (intro exI [of _ "u_profile u"] exI [of _ p] exI [of _ "u_preference u"]
        exI [of _ "u_interests u"]) simp
  show "ownFields u (u\<lparr>u_preference := f\<rparr>)"
    unfolding ownFields_def by (intro exI [of _ "u_profile u"] exI [of _ "u_privacy u"] exI [of _ f]
        exI [of _ "u_interests u"]) simp
  show "ownFields u (u\<lparr>u_interests := l\<rparr>)"
    unfolding ownFields_def by (intro exI [of _ "u_profile u"] exI [of _ "u_privacy u"] exI [of _ "u_preference u"]
        exI [of _ l]) simp
qed

lemma ownFields_trans: "ownFields u v \<Longrightarrow> ownFields v w \<Longrightarrow> ownFields u w"
  unfolding ownFields_def by fastforce

lemma ownFields_rowKept: "ownFields u v \<Longrightarrow> rowKept u v"
  by (auto simp: ownFields_def rowKept_def)

lemma updateUser_self: "(\<And>r. db_users db u = Some r \<Longrightarrow> f r = r) \<Longrightarrow> updateUser u f db = db"
  by (cases "db_users db u") (simp_all add: updateUser_def tableModify_def map_upd_triv)

text \<open>What a route writes, as one update of the user's row.\<close>

lemma profileRoute_writes:
  "\<exists>f. snd (profileRoute fm stored today user req db) = updateUser (au_id user) f db \<and> (\<forall>u. ownFields u (f u))"
proof -
  have same: "db = updateUser (au_id user) (\<lambda>u. u) db" by (simp add: updateUser_self)
  show ?thesis
  proof (cases req)
    case GetProfile
    then show ?thesis using same by auto
  next
    case (PatchProfile body)
    then show ?thesis using same by (cases "parse (updateProfileSchema fm) body") (auto simp: patchProfile_def Let_def)
  next
    case (PatchPrivacy body)
    then show ?thesis using same
      by (cases "parse updatePrivacySchema body") (auto simp: patchPrivacy_def Let_def)
  next
    case (PatchPreferences body)
    then show ?thesis using same
      by (cases "parse updatePreferencesSchema body") (auto simp: patchPreferences_def Let_def)
  next
    case (PutInterests body)
    then show ?thesis using same
      by (cases "parse updateInterestsSchema body") (auto simp: putInterests_def Let_def)
  qed
qed

fun profileRequests ::
    "Formats \<Rightarrow> (string \<times> bool) list \<Rightarrow> UtcDate \<Rightarrow> (AuthenticatedUser \<times> ProfileRequest) list \<Rightarrow> Db \<Rightarrow> Db" where
  "profileRequests fm stored today [] db = db"
| "profileRequests fm stored today ((user, req) # rs) db =
     profileRequests fm stored today rs (snd (profileRoute fm stored today user req db))"

lemma profileRequests_rows:
  "db_users (profileRequests fm stored today rs db) i = None \<longleftrightarrow> db_users db i = None"
  "db_users db i = Some u \<Longrightarrow> \<exists>v. db_users (profileRequests fm stored today rs db) i = Some v \<and> ownFields u v \<and>
     (i \<notin> (au_id \<circ> fst) ` set rs \<longrightarrow> v = u)"
  "\<exists>users. profileRequests fm stored today rs db = db\<lparr>db_users := users\<rparr>"
proof (induction rs arbitrary: db u)
  case Nil
  { case 1 show ?case by simp }
  { case 2 then show ?case by auto }
  { case 3 have "db = db\<lparr>db_users := db_users db\<rparr>" by simp then show ?case unfolding profileRequests.simps by blast }
next
  case (Cons r rs)
  obtain user req where r: "r = (user, req)" by (cases r)
  obtain f where f: "\<And>db. snd (profileRoute fm stored today user req db) = updateUser (au_id user) (f db) db"
    "\<And>db u. ownFields u (f db u)" using profileRoute_writes by metis
  { case 1 show ?case by (simp add: r Cons.IH(1) f(1) db_users_updateUser) }
  { case 2
    have "db_users (updateUser (au_id user) (f db) db) i = Some (if i = au_id user then f db u else u)"
      using 2 by (auto simp: db_users_updateUser)
    from Cons.IH(2) [OF this] show ?case
      using f(2) [of u db] by (auto simp: r f(1) intro: ownFields_trans split: if_splits) }
  { case 3
    obtain users where "profileRequests fm stored today rs (updateUser (au_id user) (f db) db) =
        (updateUser (au_id user) (f db) db)\<lparr>db_users := users\<rparr>" using Cons.IH(3) by blast
    then show ?case by (auto simp: r f(1) updateUser_def) }
qed

section \<open>Properties\<close>

text \<open>The profile routes stay at home. Whatever requests users send to them, with whatever payloads: nobody
appears or disappears, an account nobody of these users owns is untouched, and of their own accounts only the
profile, the privacy settings, the preferences and the interests can change, the date of birth not. So no
payload changes a role, a plan, a status, an address, a password or an age.\<close>

theorem profile_writes_stay_home:
  assumes "db' = profileRequests fm stored today rs db"
  shows "(\<exists>users. db' = db\<lparr>db_users := users\<rparr>) \<and> (db_users db' i = None \<longleftrightarrow> db_users db i = None) \<and>
    (\<forall>u. db_users db i = Some u \<longrightarrow>
      (\<exists>v. db_users db' i = Some v \<and> (i \<notin> (au_id \<circ> fst) ` set rs \<longrightarrow> v = u) \<and>
         v = u\<lparr>u_profile := u_profile v, u_privacy := u_privacy v, u_preference := u_preference v,
               u_interests := u_interests v\<rparr> \<and>
         map_option pr_birthDate (u_profile v) = map_option pr_birthDate (u_profile u)))"
proof -
  have own: "v = u\<lparr>u_profile := u_profile v, u_privacy := u_privacy v, u_preference := u_preference v,
      u_interests := u_interests v\<rparr>" "map_option pr_birthDate (u_profile v) = map_option pr_birthDate (u_profile u)"
    if "ownFields u v" for u v
    using that by (auto simp: ownFields_def)
  show ?thesis
    unfolding assms
  proof (intro conjI allI impI)
    fix u assume "db_users db i = Some u"
    from profileRequests_rows(2) [OF this] obtain v where
      "db_users (profileRequests fm stored today rs db) i = Some v" "ownFields u v"
      "i \<notin> (au_id \<circ> fst) ` set rs \<longrightarrow> v = u" by blast
    with own show "\<exists>v. db_users (profileRequests fm stored today rs db) i = Some v \<and>
        (i \<notin> (au_id \<circ> fst) ` set rs \<longrightarrow> v = u) \<and>
        v = u\<lparr>u_profile := u_profile v, u_privacy := u_privacy v, u_preference := u_preference v,
              u_interests := u_interests v\<rparr> \<and>
        map_option pr_birthDate (u_profile v) = map_option pr_birthDate (u_profile u)" by blast
  qed (rule profileRequests_rows)+
qed

definition memberUser :: AuthenticatedUser where
  "memberUser = \<lparr>au_id = ''u'', au_role = UserRole_USER, au_plan = PlanTier_FREE, au_sessionId = ''s''\<rparr>"

lemma profile_writes_stay_home_witness:
  "let db = accountDb exampleRow [] [];
       db' = profileRequests exampleFormats [] \<lparr>utcYear = 2026, utcMonth = 0, utcDay = 1\<rparr>
         [(memberUser, PatchProfile (Obj [(''role'', Text ''ADMIN'')])),
          (memberUser, PatchPrivacy (Obj [(''showBio'', Bool False)]))] db
   in \<exists>v. db_users db' ''u'' = Some v \<and> u_role v = u_role exampleRow"
proof -
  let ?db = "accountDb exampleRow [] []"
  let ?rs = "[(memberUser, PatchProfile (Obj [(''role'', Text ''ADMIN'')])),
    (memberUser, PatchPrivacy (Obj [(''showBio'', Bool False)]))]"
  let ?db' = "profileRequests exampleFormats [] \<lparr>utcYear = 2026, utcMonth = 0, utcDay = 1\<rparr> ?rs ?db"
  obtain v where "db_users ?db' ''u'' = Some v" and
    v: "v = exampleRow\<lparr>u_profile := u_profile v, u_privacy := u_privacy v, u_preference := u_preference v,
      u_interests := u_interests v\<rparr>"
    using profile_writes_stay_home [of ?db' exampleFormats "[]" "\<lparr>utcYear = 2026, utcMonth = 0, utcDay = 1\<rparr>" ?rs ?db "''u''"]
    by auto
  moreover have "u_role v = u_role exampleRow" by (subst v) simp
  ultimately show ?thesis unfolding Let_def by blast
qed

section \<open>Adults only\<close>

text \<open>Every row is an old one whose identity, age and date of creation are kept.\<close>

definition rowsFrom :: "Db \<Rightarrow> Db \<Rightarrow> bool" where
  "rowsFrom db db' \<longleftrightarrow> (\<forall>i v. db_users db' i = Some v \<longrightarrow> (\<exists>u. db_users db i = Some u \<and> rowKept u v))"

lemma rowsFrom_kept: "keepsIdentity db db' \<Longrightarrow> rowsFrom db db'"
  unfolding rowsFrom_def by (blast dest: keepsIdentity_users(3))

lemma rowsFrom_users: "(\<And>i v. db_users db' i = Some v \<Longrightarrow> db_users db i = Some v) \<Longrightarrow> rowsFrom db db'"
  unfolding rowsFrom_def by (metis rowKept_refl)

lemma rowsFrom_profile: "rowsFrom db (snd (profileRoute fm stored today user req db))"
proof -
  obtain f where f: "snd (profileRoute fm stored today user req db) = updateUser (au_id user) f db"
    "\<And>u. ownFields u (f u)" using profileRoute_writes by metis
  have "rowKept u (f u)" for u using f(2) by (rule ownFields_rowKept)
  then show ?thesis by (auto simp: f(1) rowsFrom_def db_users_updateUser split: if_splits)
qed

lemma erased_rows: "db_users (fst (fold (eraseUser now) us s)) i = Some v \<Longrightarrow> db_users (fst s) i = Some v"
proof (induction us arbitrary: s)
  case (Cons u us)
  have "db_users (fst (eraseUser now u s)) i = Some v" by (rule Cons.IH) (use Cons.prems in simp)
  then show ?case
    by (cases s) (auto simp: eraseUser_def deleteUser_def systemAudit_def tableDelete_def Let_def split: if_splits)
qed simp

lemma rowsFrom_job: "rowsFrom (fst s) (fst (runJob now retention job s))"
proof (cases job)
  case EraseDeletedAccounts
  then show ?thesis
    by (auto simp: eraseDeletedAccounts_def Let_def intro!: rowsFrom_users dest: erased_rows)
next
  case CloseStaleMatches
  then show ?thesis by (auto simp: closeStaleMatches_def Let_def intro: rowsFrom_users)
next
  case ExpireBans
  have "keepsIdentity db (putStatus P st (db\<lparr>db_bans := bans\<rparr>))" for db P st bans
    by (rule keepsIdentity_trans [OF _ keeps_putStatus]) simp
  then show ?thesis using ExpireBans by (auto simp: expireBans_def Let_def intro!: rowsFrom_kept)
qed (auto simp: expireSuspensions_def pruneVerificationTokens_def pruneSessions_def pruneAuditLog_def Let_def
       intro!: rowsFrom_kept keeps_putStatus keeps_filtered)

lemma register_rows:
  assumes "db_users (snd (register env input settings ctx db)) i = Some v"
  shows "db_users db i = Some v \<or>
    u_createdAt v = ax_now env \<and> (\<exists>p. u_profile v = Some p \<and> pr_birthDate p = BirthDate (rg_birthDate input)) \<and>
    meetsMinimumAge (BirthDate (rg_birthDate input)) (ss_minimumAge settings) (ax_today env)"
  using assms
  by (auto simp: register_def Let_def registeredRow_def addVerificationToken_def authAudit_def split: if_splits)

text \<open>A request that writes accounts. \<open>dayOf\<close> is the UTC day of an instant; the settings of a registration
come from the process's caches in any of their states. Of the account and moderation API all requests are
meant but registration, that is, those that add no account.\<close>

inductive siteStep :: "(instant \<Rightarrow> UtcDate) \<Rightarrow> AppConfig \<Rightarrow> Db \<Rightarrow> Db \<Rightarrow> bool" for dayOf config where
  site_register: "registerSchema fm clock body = Some input \<Longrightarrow> cacheReachable config c \<Longrightarrow>
    ax_today env = dayOf (ax_now env) \<Longrightarrow> db_users db (ax_freshUserId env) = None \<Longrightarrow>
    siteStep dayOf config db (snd (register env input (fst (getSettings now config up rows c)) ctx db))"
| site_account: "authStep db db' \<Longrightarrow> dom (db_users db') = dom (db_users db) \<Longrightarrow> siteStep dayOf config db db'"
| site_profile: "siteStep dayOf config db (snd (profileRoute fm stored today user req db))"
| site_job: "siteStep dayOf config db (fst (runJob now retention job (db, td)))"

definition adultsOk :: "(instant \<Rightarrow> UtcDate) \<Rightarrow> int \<Rightarrow> Db \<Rightarrow> bool" where
  "adultsOk dayOf minimum db \<longleftrightarrow>
     (\<forall>i u. db_users db i = Some u \<longrightarrow>
        (\<exists>d. map_option pr_birthDate (u_profile u) = Some (BirthDate d) \<and>
             meetsMinimumAge (BirthDate d) minimum (dayOf (u_createdAt u))))"

lemma adultsOk_from: "rowsFrom db db' \<Longrightarrow> adultsOk dayOf minimum db \<Longrightarrow> adultsOk dayOf minimum db'"
  unfolding rowsFrom_def adultsOk_def rowKept_def by metis

lemma account_step_from:
  assumes "authStep db db'" and "dom (db_users db') = dom (db_users db)" and "accountsOk db"
  shows "rowsFrom db db'"
proof (cases "keepsIdentity db db'")
  case False
  then obtain env input settings ctx where reg: "db' = snd (register env input settings ctx db)"
    and fresh: "db_users db (ax_freshUserId env) = None"
    using step_kept [OF assms(1,3)] by blast
  show ?thesis
  proof (cases rule: register_cases [of env input settings ctx db])
    case 1
    then show ?thesis using False reg by simp
  next
    case (2 row)
    then have "ax_freshUserId env \<in> dom (db_users db')" by (simp add: reg keepsIdentity_users(1))
    then show ?thesis using assms(2) fresh by auto
  qed
qed (rule rowsFrom_kept)

lemma meets_younger: "minimum \<le> m \<Longrightarrow> meetsMinimumAge b m today \<Longrightarrow> meetsMinimumAge b minimum today"
  by (auto simp: meetsMinimumAge_def split: option.splits)

lemma siteStep_ok:
  assumes "siteStep dayOf config db db'" and "accountsOk db" and "adultsOk dayOf (max 18 (cf_MINIMUM_AGE config)) db"
  shows "accountsOk db' \<and> adultsOk dayOf (max 18 (cf_MINIMUM_AGE config)) db'"
  using assms(1)
proof cases
  case (site_register fm clock body input c env now up rows ctx)
  let ?s = "fst (getSettings now config up rows c)"
  have "max 18 (cf_MINIMUM_AGE config) \<le> ss_minimumAge ?s"
    using getSettings_ok [OF cacheReachable_ok [OF site_register(3)], of now up rows]
    by (simp add: allowedBy_def DEFAULT_MINIMUM_AGE_def)
  then have "adultsOk dayOf (max 18 (cf_MINIMUM_AGE config)) db'"
    unfolding adultsOk_def site_register(1)
    using register_rows [of env input ?s ctx db] assms(3) site_register(4) meets_younger
    unfolding adultsOk_def by (metis option.simps(9))
  moreover have "accountsOk db'"
    using step_ok [OF step_register [OF site_register(5)] assms(2)] by (simp add: site_register(1))
  ultimately show ?thesis by blast
next
  case site_account
  with assms show ?thesis using step_ok account_step_from adultsOk_from by blast
next
  case (site_profile fm stored today user req)
  obtain f where f: "db' = updateUser (au_id user) f db" "\<And>u. ownFields u (f u)"
    using profileRoute_writes site_profile by metis
  then have "keepsIdentity db db'" by (auto intro!: keeps_updateUser ownFields_rowKept)
  then show ?thesis using assms(2,3) accountsOk_kept rowsFrom_kept adultsOk_from by blast
next
  case (site_job now retention job td)
  then show ?thesis
    using jobs_ok rowsFrom_job [of "(db, td)"] adultsOk_from assms by fastforce
qed

text \<open>C9: Everybody is an adult. Whatever the operators store as the minimum age, whatever the caches hold, and
whatever is registered, edited, moderated, suspended, swept or erased, in any order: every account there ever is
carries a date of birth by which its holder had reached eighteen, and the age the environment demands, on the
day it was opened.\<close>

theorem adults_only:
  assumes "(siteStep dayOf config)\<^sup>*\<^sup>* emptyDb db"
  shows "\<forall>i u. db_users db i = Some u \<longrightarrow>
    (\<exists>p d. u_profile u = Some p \<and> pr_birthDate p = BirthDate d \<and>
       meetsMinimumAge (BirthDate d) 18 (dayOf (u_createdAt u)) \<and>
       meetsMinimumAge (BirthDate d) (cf_MINIMUM_AGE config) (dayOf (u_createdAt u)))"
proof -
  have "accountsOk db \<and> adultsOk dayOf (max 18 (cf_MINIMUM_AGE config)) db"
    using assms
  proof (induction rule: rtranclp_induct)
    case base
    show ?case using accountsOk_emptyDb by (simp add: adultsOk_def) (simp add: emptyDb_def)
  next
    case (step b c)
    then show ?case using siteStep_ok by blast
  qed
  note ok = this
  show ?thesis
  proof (intro allI impI)
    fix i u assume "db_users db i = Some u"
    with ok obtain d where d: "map_option pr_birthDate (u_profile u) = Some (BirthDate d)"
      "meetsMinimumAge (BirthDate d) (max 18 (cf_MINIMUM_AGE config)) (dayOf (u_createdAt u))"
      unfolding adultsOk_def by blast
    then obtain p where "u_profile u = Some p" "pr_birthDate p = BirthDate d" by auto
    with d(2) show "\<exists>p d. u_profile u = Some p \<and> pr_birthDate p = BirthDate d \<and>
        meetsMinimumAge (BirthDate d) 18 (dayOf (u_createdAt u)) \<and>
        meetsMinimumAge (BirthDate d) (cf_MINIMUM_AGE config) (dayOf (u_createdAt u))"
      by (intro exI [of _ p] exI [of _ d] conjI) (simp_all add: meets_younger [OF _ d(2)])
  qed
qed

lemma adults_only_witness:
  "\<exists>(db :: Db) (v :: UserRow) (p :: ProfileRow) (d :: UtcDate). db_users db ''u'' = Some v \<and> u_profile v = Some p \<and> pr_birthDate p = BirthDate d \<and>
     meetsMinimumAge (BirthDate d) 21 \<lparr>utcYear = 2026, utcMonth = 0, utcDay = 1\<rparr>"
proof -
  define input where "input = the (registerSchema exampleFormats exampleClock adultPayload)"
  define db where "db = snd (register (exampleAuth 5) input
      (fst (getSettings 5 exampleConfig True None \<lparr>sk_memory = None, sk_redis = (\<lambda>k. None)\<rparr>)) exampleContext emptyDb)"
  have "siteStep (\<lambda>t. \<lparr>utcYear = 2026, utcMonth = 0, utcDay = 1\<rparr>) exampleConfig emptyDb db"
    unfolding db_def
  proof (rule site_register)
    show "registerSchema exampleFormats exampleClock adultPayload = Some input"
      by (simp add: input_def adultPayload_accepted)
    show "ax_today (exampleAuth 5) = \<lparr>utcYear = 2026, utcMonth = 0, utcDay = 1\<rparr>" by (simp add: exampleAuth_def)
    show "db_users emptyDb (ax_freshUserId (exampleAuth 5)) = None" by (simp add: emptyDb_def)
  qed (rule cacheReachable.start)
  note adults = adults_only [OF r_into_rtranclp [of "siteStep (\<lambda>t. \<lparr>utcYear = 2026, utcMonth = 0, utcDay = 1\<rparr>) exampleConfig",
      OF this]]
  have "db_users db ''u'' \<noteq> None"
    by (simp add: db_def input_def adultPayload_accepted register_def Let_def getSettings_def readThrough_def live_def
        applyEnvOverrides_def exampleConfig_def DEFAULT_SYSTEM_SETTINGS_def exampleAuth_def emptyDb_def
        meetsMinimumAge_def recentFromIp_def userWhere_def addVerificationToken_def)
  then obtain v where v: "db_users db ''u'' = Some v" by blast
  have "cf_MINIMUM_AGE exampleConfig = 21" by (simp add: exampleConfig_def)
  moreover obtain p d where "u_profile v = Some p" "pr_birthDate p = BirthDate d"
    "meetsMinimumAge (BirthDate d) (cf_MINIMUM_AGE exampleConfig) \<lparr>utcYear = 2026, utcMonth = 0, utcDay = 1\<rparr>"
    using spec [OF spec [OF adults, of "''u''"], of v] v by blast
  ultimately show ?thesis using v by (intro exI [of _ db] exI [of _ v] exI [of _ p] exI [of _ d]) simp
qed

section \<open>The plan's limit\<close>

definition withinPlan :: "UserRow \<Rightarrow> bool" where
  "withinPlan u \<longleftrightarrow>
     (case u_preference u of
        None \<Rightarrow> True | Some p \<Rightarrow> length (pf_preferredCountries p) \<le> PREFERRED_COUNTRY_LIMIT (u_plan u))"

lemma profileRoute_within:
  assumes "db_users db i = Some u" and "withinPlan u" and "i = au_id user \<longrightarrow> au_plan user = u_plan u"
    and "db_users (snd (profileRoute fm stored today user req db)) i = Some v"
  shows "withinPlan v"
proof (cases "i = au_id user")
  case False
  obtain f where "snd (profileRoute fm stored today user req db) = updateUser (au_id user) f db"
    using profileRoute_writes by metis
  with False assms show ?thesis by (simp add: db_users_updateUser)
next
  case True
  show ?thesis
  proof (cases req)
    case (PatchPreferences body)
    show ?thesis
    proof (cases "parse updatePreferencesSchema body")
      case (Inr input)
      have "withinPlan (u\<lparr>u_preference := Some (applyPreferences input (orElse (u_preference u) defaultPreference))\<rparr>)"
        if "\<not> overLimit (u_plan u) input"
        using that assms(2)
        by (auto simp: withinPlan_def overLimit_def applyPreferences_def orElse_def defaultPreference_def
            split: option.splits)
      then show ?thesis
        using assms True Inr
        by (auto simp: PatchPreferences patchPreferences_def Let_def db_users_updateUser split: if_splits)
    qed (use assms in \<open>simp add: PatchPreferences patchPreferences_def\<close>)
  qed (use assms True in \<open>auto simp: patchProfile_def patchPrivacy_def putInterests_def Let_def withinPlan_def
        db_users_updateUser split: sum.splits if_splits option.splits\<close>)
qed

lemma profileRequests_within:
  assumes "db_users db i = Some u" and "withinPlan u"
    and "\<forall>r\<in>set rs. au_id (fst r) = i \<longrightarrow> au_plan (fst r) = u_plan u"
    and "db_users (profileRequests fm stored today rs db) i = Some v"
  shows "withinPlan v"
  using assms
proof (induction rs arbitrary: db u)
  case (Cons r rs)
  obtain user req where r: "r = (user, req)" by (cases r)
  obtain f where f: "snd (profileRoute fm stored today user req db) = updateUser (au_id user) f db" "\<And>u. ownFields u (f u)"
    using profileRoute_writes by metis
  define w where "w = (if i = au_id user then f u else u)"
  have w: "db_users (snd (profileRoute fm stored today user req db)) i = Some w"
    using Cons.prems(1) by (auto simp: f(1) db_users_updateUser w_def)
  have "u_plan w = u_plan u" using f(2) [of u] by (auto simp: w_def ownFields_def)
  moreover have "withinPlan w"
    by (rule profileRoute_within [OF Cons.prems(1,2) _ w]) (use Cons.prems(3) r in auto)
  ultimately show ?case using Cons.IH [OF w] Cons.prems(3,4) by (simp add: r)
qed simp

text \<open>A plan's allowance of preferred countries binds what is stored, through any requests to the profile
routes with any payloads. It does not bind the queue: countries named when joining are used as they are, up to
the twenty the schema of the event allows, whatever the plan.\<close>

theorem plan_limit_stops_at_the_queue:
  assumes "db_users db i = Some u" and "withinPlan u"
    and "\<forall>r\<in>set rs. au_id (fst r) = i \<longrightarrow> au_plan (fst r) = u_plan u"
    and "db_users (profileRequests fm stored today rs db) i = Some v"
  shows "withinPlan v \<and>
    (qj_preferences input = Some ov \<and> sp_preferredCountries ov = Some countries \<longrightarrow>
     qc_preferredCountries (joinCandidate env i v input blocked recent) = countries)"
  using profileRequests_within [OF assms]
  by (simp add: joinCandidate_def Let_def buildCandidate_def effectivePreferences_def orElse_def)

definition threeCountries :: QueueJoinInput where
  "threeCountries = \<lparr>qj_preferences = Some (noOverrides\<lparr>sp_preferredCountries := Some [''PT'', ''ES'', ''FR'']\<rparr>),
     qj_hasCamera = True, qj_hasMicrophone = True\<rparr>"

lemma plan_limit_stops_at_the_queue_witness:
  "u_plan exampleRow = PlanTier_FREE \<and>
   withinPlan (exampleRow\<lparr>u_preference := Some (defaultPreference\<lparr>pf_preferredCountries := [''PT'']\<rparr>)\<rparr>) \<and>
   (\<exists>v. db_users (snd (profileRoute exampleFormats [] \<lparr>utcYear = 2026, utcMonth = 0, utcDay = 1\<rparr> memberUser
       (PatchPreferences (Obj [(''preferredCountries'', Arr [Text ''pt''])])) (accountDb exampleRow [] []))) ''u'' = Some v \<and>
     qc_preferredCountries (joinCandidate callEnv ''u'' v threeCountries [] []) = [''PT'', ''ES'', ''FR''])"
proof -
  let ?db = "accountDb exampleRow [] []"
  let ?day = "\<lparr>utcYear = 2026, utcMonth = 0, utcDay = 1\<rparr>"
  let ?req = "PatchPreferences (Obj [(''preferredCountries'', Arr [Text ''pt''])])"
  have plan: "u_plan exampleRow = PlanTier_FREE" "withinPlan exampleRow"
    by (simp_all add: exampleRow_def withinPlan_def)
  have p: "updatePreferencesSchema (Obj [(''preferredCountries'', Arr [Text ''pt''])]) =
      Some \<lparr>uf_preferredGender = None, uf_preferredCountries = Some [''PT''], uf_preferredLanguages = None,
        uf_preferredAgeBrackets = None, uf_autoRequeue = None, uf_startMuted = None, uf_startCameraOff = None\<rparr>"
    by code_simp
  define v where "v = exampleRow\<lparr>u_preference := Some (defaultPreference\<lparr>pf_preferredCountries := [''PT'']\<rparr>)\<rparr>"
  have v: "db_users (profileRequests exampleFormats [] ?day [(memberUser, ?req)] ?db) ''u'' = Some v"
    by (simp add: patchPreferences_def parse_def p overLimit_def memberUser_def Let_def db_users_updateUser
        applyPreferences_def orElse_def v_def exampleRow_def defaultPreference_def)
  have "withinPlan v \<and> (qj_preferences threeCountries = Some (noOverrides\<lparr>sp_preferredCountries := Some [''PT'', ''ES'', ''FR'']\<rparr>) \<and>
      sp_preferredCountries (noOverrides\<lparr>sp_preferredCountries := Some [''PT'', ''ES'', ''FR'']\<rparr>) = Some [''PT'', ''ES'', ''FR''] \<longrightarrow>
      qc_preferredCountries (joinCandidate callEnv ''u'' v threeCountries [] []) = [''PT'', ''ES'', ''FR''])"
    by (rule plan_limit_stops_at_the_queue [OF _ plan(2) _ v]) (simp_all add: memberUser_def plan(1))
  with v plan show ?thesis by (simp add: threeCountries_def v_def)
qed

end
