(* ===== verification/Payloads.thy ===== *)
theory Payloads
  imports Validation Connections Campaigns Realtime_Server
begin

text \<open>The schemas of the socket events (\<^verbatim>\<open>packages/validation/src/realtime.schema.ts\<close>), of safety and
connections (\<^verbatim>\<open>safety.schema.ts\<close>), of tokens (\<^verbatim>\<open>tokens.schema.ts\<close>) and of administration
(\<^verbatim>\<open>admin.schema.ts\<close>), each onto the input record of the handler it feeds; and \<open>onEvent\<close>, a socket frame as it
arrives, from its name and unparsed payload.\<close>

section \<open>Texts of enumerations\<close>

fun reportCategoryText :: "ReportCategory \<Rightarrow> string" where
  "reportCategoryText ReportCategory_NUDITY = ''NUDITY''"
| "reportCategoryText ReportCategory_HARASSMENT = ''HARASSMENT''"
| "reportCategoryText ReportCategory_HATE = ''HATE''"
| "reportCategoryText ReportCategory_UNDERAGE = ''UNDERAGE''"
| "reportCategoryText ReportCategory_VIOLENCE = ''VIOLENCE''"
| "reportCategoryText ReportCategory_SPAM = ''SPAM''"
| "reportCategoryText ReportCategory_SCAM = ''SCAM''"
| "reportCategoryText ReportCategory_IMPERSONATION = ''IMPERSONATION''"
| "reportCategoryText ReportCategory_OTHER = ''OTHER''"

definition REPORT_CATEGORIES :: "ReportCategory list" where
  "REPORT_CATEGORIES =
     [ReportCategory_NUDITY, ReportCategory_HARASSMENT, ReportCategory_HATE, ReportCategory_UNDERAGE,
      ReportCategory_VIOLENCE, ReportCategory_SPAM, ReportCategory_SCAM, ReportCategory_IMPERSONATION,
      ReportCategory_OTHER]"

definition reportCategorySchema :: "ReportCategory schema" where
  "reportCategorySchema = zEnum reportCategoryText REPORT_CATEGORIES"

fun reportStatusText :: "ReportStatus \<Rightarrow> string" where
  "reportStatusText ReportStatus_PENDING = ''PENDING''"
| "reportStatusText ReportStatus_UNDER_REVIEW = ''UNDER_REVIEW''"
| "reportStatusText ReportStatus_ACTIONED = ''ACTIONED''"
| "reportStatusText ReportStatus_DISMISSED = ''DISMISSED''"

definition reportStatusSchema :: "ReportStatus schema" where
  "reportStatusSchema = zEnum reportStatusText
     [ReportStatus_PENDING, ReportStatus_UNDER_REVIEW, ReportStatus_ACTIONED, ReportStatus_DISMISSED]"

fun userRoleText :: "UserRole \<Rightarrow> string" where
  "userRoleText UserRole_USER = ''USER''"
| "userRoleText UserRole_MODERATOR = ''MODERATOR''"
| "userRoleText UserRole_ADMIN = ''ADMIN''"
| "userRoleText UserRole_SUPER_ADMIN = ''SUPER_ADMIN''"

definition userRoleSchema :: "UserRole schema" where
  "userRoleSchema = zEnum userRoleText ROLE_HIERARCHY"

fun accountStatusText :: "AccountStatus \<Rightarrow> string" where
  "accountStatusText AccountStatus_PENDING_VERIFICATION = ''PENDING_VERIFICATION''"
| "accountStatusText AccountStatus_ACTIVE = ''ACTIVE''"
| "accountStatusText AccountStatus_SUSPENDED = ''SUSPENDED''"
| "accountStatusText AccountStatus_BANNED = ''BANNED''"
| "accountStatusText AccountStatus_DEACTIVATED = ''DEACTIVATED''"

definition accountStatusSchema :: "AccountStatus schema" where
  "accountStatusSchema = zEnum accountStatusText
     [AccountStatus_PENDING_VERIFICATION, AccountStatus_ACTIVE, AccountStatus_SUSPENDED, AccountStatus_BANNED,
      AccountStatus_DEACTIVATED]"

fun qualityText :: "ConnectionQuality \<Rightarrow> string" where
  "qualityText ConnectionQuality_EXCELLENT = ''EXCELLENT''"
| "qualityText ConnectionQuality_GOOD = ''GOOD''"
| "qualityText ConnectionQuality_FAIR = ''FAIR''"
| "qualityText ConnectionQuality_POOR = ''POOR''"
| "qualityText ConnectionQuality_UNKNOWN = ''UNKNOWN''"

section \<open>Socket events\<close>

definition MAX_SDP_LENGTH :: nat where
  "MAX_SDP_LENGTH = 32 * 1024"

definition MAX_ICE_CANDIDATE_LENGTH :: nat where
  "MAX_ICE_CANDIDATE_LENGTH = 1024"

definition sdpSchema :: "string schema" where
  "sdpSchema = zRefine (\<lambda>s. lengthIn 1 MAX_SDP_LENGTH s \<and> take 3 s = ''v=0'') zString"

definition webrtcOfferSchema :: "Formats \<Rightarrow> SignalFrame schema" where
  "webrtcOfferSchema fm v = do {
     f \<leftarrow> zObject v;
     matchId \<leftarrow> uuidSchema fm (f ''matchId'');
     sdp \<leftarrow> sdpSchema (f ''sdp'');
     kind \<leftarrow> zLiteral (Text ''offer'') (f ''type'');
     Some (Offer matchId sdp) }"

definition webrtcAnswerSchema :: "Formats \<Rightarrow> SignalFrame schema" where
  "webrtcAnswerSchema fm v = do {
     f \<leftarrow> zObject v;
     matchId \<leftarrow> uuidSchema fm (f ''matchId'');
     sdp \<leftarrow> sdpSchema (f ''sdp'');
     kind \<leftarrow> zLiteral (Text ''answer'') (f ''type'');
     Some (Answer matchId sdp) }"

text \<open>A null and a missing user name fragment are one value.\<close>

definition webrtcIceSchema :: "Formats \<Rightarrow> SignalFrame schema" where
  "webrtcIceSchema fm v = do {
     f \<leftarrow> zObject v;
     matchId \<leftarrow> uuidSchema fm (f ''matchId'');
     c \<leftarrow> zObject (f ''candidate'');
     candidate \<leftarrow> zRefine (atMost MAX_ICE_CANDIDATE_LENGTH) zString (c ''candidate'');
     sdpMid \<leftarrow> zNullable (zRefine (atMost 64) zString) (c ''sdpMid'');
     sdpMLineIndex \<leftarrow> zNullable (zRefine (\<lambda>n. 0 \<le> n \<and> n \<le> 64) zInt) (c ''sdpMLineIndex'');
     fragment \<leftarrow> zOptional (zNullable (zRefine (atMost 256) zString)) (c ''usernameFragment'');
     Some (Ice matchId \<lparr>cd_candidate = candidate, cd_sdpMid = sdpMid,
             cd_sdpMLineIndex = map_option nat sdpMLineIndex,
             cd_usernameFragment = (case fragment of None \<Rightarrow> None | Some u \<Rightarrow> u)\<rparr>) }"

definition sessionPreferencesSchema :: "SessionPreferences schema" where
  "sessionPreferencesSchema v = do {
     f \<leftarrow> zStrict [''preferredGender'', ''preferredCountries'', ''preferredLanguages'',
                    ''preferredAgeBrackets'', ''interestIds'', ''autoRequeue'', ''startMuted'', ''startCameraOff''] v;
     gender \<leftarrow> zOptional genderPreferenceSchema (f ''preferredGender'');
     countries \<leftarrow> zOptional (zRefine (atMost 20) (zArray countryCodeSchema)) (f ''preferredCountries'');
     languages \<leftarrow> zOptional (zRefine (atMost 5) (zArray languageCodeSchema)) (f ''preferredLanguages'');
     brackets \<leftarrow> zOptional (zRefine (atMost 5) (zArray ageBracketSchema)) (f ''preferredAgeBrackets'');
     interestIds \<leftarrow> zOptional (zRefine (atMost 10) (zArray interestSlugSchema)) (f ''interestIds'');
     autoRequeue \<leftarrow> zOptional zBoolean (f ''autoRequeue'');
     startMuted \<leftarrow> zOptional zBoolean (f ''startMuted'');
     startCameraOff \<leftarrow> zOptional zBoolean (f ''startCameraOff'');
     Some \<lparr>sp_preferredGender = gender, sp_preferredCountries = countries, sp_preferredLanguages = languages,
           sp_preferredAgeBrackets = brackets, sp_interestIds = interestIds\<rparr> }"

definition queueJoinSchema :: "QueueJoinInput schema" where
  "queueJoinSchema v = do {
     f \<leftarrow> zObject v;
     preferences \<leftarrow> zOptional sessionPreferencesSchema (f ''preferences'');
     hasCamera \<leftarrow> zBoolean (f ''hasCamera'');
     hasMicrophone \<leftarrow> zBoolean (f ''hasMicrophone'');
     Some \<lparr>qj_preferences = preferences, qj_hasCamera = hasCamera, qj_hasMicrophone = hasMicrophone\<rparr> }"

definition matchSkipSchema :: "Formats \<Rightarrow> (match_id \<times> bool) schema" where
  "matchSkipSchema fm v = do {
     f \<leftarrow> zObject v;
     matchId \<leftarrow> uuidSchema fm (f ''matchId'');
     requeue \<leftarrow> zDefault True zBoolean (f ''requeue'');
     Some (matchId, requeue) }"

definition matchEndSchema :: "Formats \<Rightarrow> match_id schema" where
  "matchEndSchema fm v = do { f \<leftarrow> zObject v; uuidSchema fm (f ''matchId'') }"

definition matchConnectedSchema :: "Formats \<Rightarrow> match_id schema" where
  "matchConnectedSchema fm v = do { f \<leftarrow> zObject v; uuidSchema fm (f ''matchId'') }"

definition chatBodySchema :: "string schema" where
  "chatBodySchema = zRefine (\<lambda>s. 1 \<le> length s) (displayTextSchema 500)"

definition chatMessageSchema :: "Formats \<Rightarrow> ChatInput schema" where
  "chatMessageSchema fm v = do {
     f \<leftarrow> zObject v;
     matchId \<leftarrow> uuidSchema fm (f ''matchId'');
     body \<leftarrow> chatBodySchema (f ''body'');
     clientId \<leftarrow> zRefine (lengthIn 1 64) zString (f ''clientId'');
     Some \<lparr>ci_matchId = matchId, ci_body = body, ci_clientId = clientId\<rparr> }"

definition socketReportSchema :: "Formats \<Rightarrow> ReportInput schema" where
  "socketReportSchema fm v = do {
     f \<leftarrow> zObject v;
     matchId \<leftarrow> zNullable (uuidSchema fm) (f ''matchId'');
     reportedUserId \<leftarrow> uuidSchema fm (f ''reportedUserId'');
     category \<leftarrow> reportCategorySchema (f ''category'');
     details \<leftarrow> zOptional (displayTextSchema 1000) (f ''details'');
     alsoBlock \<leftarrow> zDefault True zBoolean (f ''alsoBlock'');
     Some \<lparr>ri_matchId = matchId, ri_reportedUserId = reportedUserId, ri_category = category,
           ri_details = details, ri_alsoBlock = alsoBlock\<rparr> }"

definition socketBlockSchema :: "Formats \<Rightarrow> BlockInput schema" where
  "socketBlockSchema fm v = do {
     f \<leftarrow> zObject v;
     userId \<leftarrow> uuidSchema fm (f ''userId'');
     matchId \<leftarrow> zDefault None (zNullable (uuidSchema fm)) (f ''matchId'');
     Some \<lparr>bi_userId = userId, bi_matchId = matchId\<rparr> }"

definition connectionStatsSchema :: "Formats \<Rightarrow> (match_id \<times> ConnectionQuality) schema" where
  "connectionStatsSchema fm v = do {
     f \<leftarrow> zObject v;
     matchId \<leftarrow> uuidSchema fm (f ''matchId'');
     s \<leftarrow> zObject (f ''stats'');
     quality \<leftarrow> zEnum qualityText [ConnectionQuality_EXCELLENT, ConnectionQuality_GOOD, ConnectionQuality_FAIR,
                  ConnectionQuality_POOR, ConnectionQuality_UNKNOWN] (s ''quality'');
     roundTripTimeMs \<leftarrow> zNullable (zRefine (\<lambda>q. 0 \<le> q \<and> q \<le> 60000) zNumber) (s ''roundTripTimeMs'');
     packetsLostPct \<leftarrow> zNullable (zRefine (\<lambda>q. 0 \<le> q \<and> q \<le> 100) zNumber) (s ''packetsLostPct'');
     candidateType \<leftarrow> zNullable (zEnum id [''host'', ''srflx'', ''prflx'', ''relay'']) (s ''candidateType'');
     Some (matchId, quality) }"

definition sendTipSocketSchema :: "Formats \<Rightarrow> TipSendInput schema" where
  "sendTipSocketSchema fm v = do {
     f \<leftarrow> zObject v;
     matchId \<leftarrow> uuidSchema fm (f ''matchId'');
     tokens \<leftarrow> zRefine (\<lambda>n. 0 < n \<and> n \<le> 10000) zInt (f ''tokens'');
     message \<leftarrow> zOptional (displayTextSchema 200) (f ''message'');
     offeredSeconds \<leftarrow> zOptional (zRefine (\<lambda>n. 30 \<le> n \<and> n \<le> 3600) zInt) (f ''offeredSeconds'');
     Some \<lparr>ts_matchId = matchId, ts_tokens = tokens, ts_message = message, ts_offeredSeconds = offeredSeconds\<rparr> }"

definition tipRespondSocketSchema :: "Formats \<Rightarrow> (row_id \<times> bool) schema" where
  "tipRespondSocketSchema fm v = do {
     f \<leftarrow> zObject v;
     tipId \<leftarrow> uuidSchema fm (f ''tipId'');
     accepted \<leftarrow> zBoolean (f ''accepted'');
     Some (tipId, accepted) }"

text \<open>A frame as it arrives: the handler registered for its name, on what the schema makes of its payload. A
name without a handler is ignored.\<close>

definition onEvent :: "Formats \<Rightarrow> Env \<Rightarrow> RtSocket \<Rightarrow> string \<Rightarrow> raw \<Rightarrow> Realtime \<Rightarrow> Realtime" where
  "onEvent fm env so name payload st =
     (if name = ''presence:heartbeat'' then onHeartbeat env so st
      else if name = ''queue:join'' then onQueueJoin env so (queueJoinSchema payload) st
      else if name = ''queue:leave'' then onQueueLeave env so st
      else if name = ''match:skip'' then onMatchSkip env so (matchSkipSchema fm payload) st
      else if name = ''match:end'' then onMatchEnd env so (matchEndSchema fm payload) st
      else if name = ''match:connected'' then onMatchConnected env so (matchConnectedSchema fm payload) st
      else if name = ''webrtc:offer'' then onSignal env so name (webrtcOfferSchema fm payload) st
      else if name = ''webrtc:answer'' then onSignal env so name (webrtcAnswerSchema fm payload) st
      else if name = ''webrtc:ice'' then onSignal env so name (webrtcIceSchema fm payload) st
      else if name = ''chat:message'' then onChatMessage env so (chatMessageSchema fm payload) st
      else if name = ''user:block'' then onUserBlock env so (socketBlockSchema fm payload) st
      else if name = ''user:report'' then onUserReport env so (socketReportSchema fm payload) st
      else if name = ''tip:send'' then onTipSend env so (sendTipSocketSchema fm payload) st
      else if name = ''tip:respond'' then onTipRespond env so (tipRespondSocketSchema fm payload) st
      else if name = ''stats:report'' then onStatsReport so (connectionStatsSchema fm payload) st
      else st)"

section \<open>Pages\<close>

definition zCoerceInt :: "Formats \<Rightarrow> int \<Rightarrow> int \<Rightarrow> int schema" where
  "zCoerceInt fm lo hi v = do {
     q \<leftarrow> fm_number fm v;
     if of_int \<lfloor>q\<rfloor> = q \<and> lo \<le> \<lfloor>q\<rfloor> \<and> \<lfloor>q\<rfloor> \<le> hi then Some \<lfloor>q\<rfloor> else None }"

definition paginationSchema :: "Formats \<Rightarrow> (nat \<times> nat) schema" where
  "paginationSchema fm v = do {
     f \<leftarrow> zObject v;
     page \<leftarrow> zDefault 1 (zCoerceInt fm 1 10000) (f ''page'');
     pageSize \<leftarrow> zDefault 20 (zCoerceInt fm 1 100) (f ''pageSize'');
     Some (nat page, nat pageSize) }"

section \<open>Safety and connections\<close>

definition createReportSchema :: "Formats \<Rightarrow> CreateReportInput schema" where
  "createReportSchema fm v = do {
     f \<leftarrow> zObject v;
     reportedUserId \<leftarrow> uuidSchema fm (f ''reportedUserId'');
     matchId \<leftarrow> zDefault None (zNullable (uuidSchema fm)) (f ''matchId'');
     category \<leftarrow> reportCategorySchema (f ''category'');
     details \<leftarrow> zOptional (displayTextSchema 1000) (f ''details'');
     alsoBlock \<leftarrow> zDefault True zBoolean (f ''alsoBlock'');
     Some \<lparr>ci_reportedUserId = reportedUserId, Connections.CreateReportInput.ci_matchId = matchId, ci_category = category,
           ci_details = details, ci_alsoBlock = alsoBlock\<rparr> }"

text \<open>The user to block; the reason, which only the list of blocks shows, is checked and not kept.\<close>

definition createBlockSchema :: "Formats \<Rightarrow> user_id schema" where
  "createBlockSchema fm v = do {
     f \<leftarrow> zObject v;
     userId \<leftarrow> uuidSchema fm (f ''userId'');
     reason \<leftarrow> zOptional (displayTextSchema 200) (f ''reason'');
     Some userId }"

definition removeBlockSchema :: "Formats \<Rightarrow> user_id schema" where
  "removeBlockSchema fm v = do { f \<leftarrow> zObject v; uuidSchema fm (f ''userId'') }"

definition sendConnectionRequestSchema :: "Formats \<Rightarrow> SendRequestInput schema" where
  "sendConnectionRequestSchema fm v = do {
     f \<leftarrow> zObject v;
     userId \<leftarrow> uuidSchema fm (f ''userId'');
     matchId \<leftarrow> zDefault None (zNullable (uuidSchema fm)) (f ''matchId'');
     message \<leftarrow> zOptional (displayTextSchema 200) (f ''message'');
     Some \<lparr>cr_userId = userId, cr_matchId = matchId, cr_message = message\<rparr> }"

definition respondToConnectionRequestSchema :: "Formats \<Rightarrow> (row_id \<times> bool) schema" where
  "respondToConnectionRequestSchema fm v = do {
     f \<leftarrow> zObject v;
     requestId \<leftarrow> uuidSchema fm (f ''requestId'');
     accept \<leftarrow> zBoolean (f ''accept'');
     Some (requestId, accept) }"

text \<open>\<^verbatim>\<open>z.coerce.boolean()\<close> is the truth of the value: any text but the empty one is true, also the text false.\<close>

fun zCoerceBoolean :: "bool schema" where
  "zCoerceBoolean Undefined = Some False"
| "zCoerceBoolean Null = Some False"
| "zCoerceBoolean (Bool b) = Some b"
| "zCoerceBoolean (Num q) = Some (q \<noteq> 0)"
| "zCoerceBoolean (Text s) = Some (s \<noteq> [])"
| "zCoerceBoolean (Arr vs) = Some True"
| "zCoerceBoolean (Obj entries) = Some True"

definition moderationQueueQuerySchema :: "Formats \<Rightarrow> QueueQuery schema" where
  "moderationQueueQuerySchema fm v = do {
     f \<leftarrow> zObject v;
     (page, pageSize) \<leftarrow> paginationSchema fm v;
     status \<leftarrow> zOptional reportStatusSchema (f ''status'');
     category \<leftarrow> zOptional reportCategorySchema (f ''category'');
     priorityFirst \<leftarrow> zDefault True zCoerceBoolean (f ''priorityFirst'');
     Some \<lparr>qq_page = page, qq_pageSize = pageSize, qq_status = status, qq_category = category,
           qq_priorityFirst = priorityFirst\<rparr> }"

fun actionText :: "ReportAction \<Rightarrow> string" where
  "actionText DISMISS = ''DISMISS''"
| "actionText WARN = ''WARN''"
| "actionText SUSPEND = ''SUSPEND''"
| "actionText BAN = ''BAN''"

definition resolveReportSchema :: "Formats \<Rightarrow> ResolveReportInput schema" where
  "resolveReportSchema fm v = do {
     f \<leftarrow> zObject v;
     reportId \<leftarrow> uuidSchema fm (f ''reportId'');
     action \<leftarrow> zEnum actionText [DISMISS, WARN, SUSPEND, BAN] (f ''action'');
     reason \<leftarrow> zOptional (displayTextSchema 500) (f ''reason'');
     notes \<leftarrow> zOptional (displayTextSchema 2000) (f ''notes'');
     hours \<leftarrow> zOptional (zRefine (\<lambda>n. 1 \<le> n \<and> n \<le> 24 * 365) zInt) (f ''suspensionHours'');
     Some \<lparr>rr_reportId = reportId, rr_action = action, rr_reason = reason, rr_notes = notes,
           rr_suspensionHours = hours\<rparr> }"

definition resolveReportRefinedSchema :: "Formats \<Rightarrow> ResolveReportInput schema" where
  "resolveReportRefinedSchema fm = zRefine resolveInputOk (resolveReportSchema fm)"

section \<open>Administration\<close>

record UserQuery =
  uq_page :: nat
  uq_pageSize :: nat
  uq_q :: "string option"
  uq_status :: "AccountStatus option"
  uq_role :: "UserRole option"
  uq_country :: "string option"
  uq_registeredAfter :: "instant option"
  uq_registeredBefore :: "instant option"
  uq_sort :: string
  uq_ascending :: bool

definition adminUserQuerySchema :: "Formats \<Rightarrow> UserQuery schema" where
  "adminUserQuerySchema fm v = do {
     f \<leftarrow> zObject v;
     (page, pageSize) \<leftarrow> paginationSchema fm v;
     q \<leftarrow> zOptional (zRefine (atMost 200) (zMap trimString zString)) (f ''q'');
     status \<leftarrow> zOptional accountStatusSchema (f ''status'');
     role \<leftarrow> zOptional userRoleSchema (f ''role'');
     country \<leftarrow> zOptional countryCodeSchema (f ''country'');
     registeredAfter \<leftarrow> zOptional (fm_date fm) (f ''registeredAfter'');
     registeredBefore \<leftarrow> zOptional (fm_date fm) (f ''registeredBefore'');
     sort \<leftarrow> zDefault ''createdAt'' (zEnum id [''createdAt'', ''lastLoginAt'', ''reports'']) (f ''sort'');
     direction \<leftarrow> zDefault ''desc'' (zEnum id [''asc'', ''desc'']) (f ''direction'');
     Some \<lparr>uq_page = page, uq_pageSize = pageSize, uq_q = q, uq_status = status, uq_role = role,
           uq_country = country, uq_registeredAfter = registeredAfter, uq_registeredBefore = registeredBefore,
           uq_sort = sort, uq_ascending = (direction = ''asc'')\<rparr> }"

text \<open>The user, the reason, the notes and, for a suspension, the hours.\<close>

definition adminWarnUserSchema :: "Formats \<Rightarrow> (user_id \<times> string \<times> string option) schema" where
  "adminWarnUserSchema fm v = do {
     f \<leftarrow> zObject v;
     userId \<leftarrow> uuidSchema fm (f ''userId'');
     reason \<leftarrow> displayTextSchema 500 (f ''reason'');
     notes \<leftarrow> zOptional (displayTextSchema 2000) (f ''notes'');
     Some (userId, reason, notes) }"

definition adminSuspendUserSchema :: "Formats \<Rightarrow> (user_id \<times> string \<times> string option \<times> int) schema" where
  "adminSuspendUserSchema fm v = do {
     f \<leftarrow> zObject v;
     (userId, reason, notes) \<leftarrow> adminWarnUserSchema fm v;
     hours \<leftarrow> zRefine (\<lambda>n. 1 \<le> n \<and> n \<le> 24 * 365) zInt (f ''hours'');
     Some (userId, reason, notes, hours) }"

record BanInput =
  bu_userId :: user_id
  bu_reason :: string
  bu_notes :: "string option"
  bu_permanent :: bool
  bu_hours :: "int option"

definition adminBanUserSchema :: "Formats \<Rightarrow> BanInput schema" where
  "adminBanUserSchema fm v = do {
     f \<leftarrow> zObject v;
     (userId, reason, notes) \<leftarrow> adminWarnUserSchema fm v;
     permanent \<leftarrow> zDefault True zBoolean (f ''permanent'');
     hours \<leftarrow> zOptional (zRefine (\<lambda>n. 1 \<le> n \<and> n \<le> 24 * 365 * 10) zInt) (f ''hours'');
     Some \<lparr>bu_userId = userId, bu_reason = reason, bu_notes = notes, bu_permanent = permanent, bu_hours = hours\<rparr> }"

definition adminUnbanUserSchema :: "Formats \<Rightarrow> (user_id \<times> string) schema" where
  "adminUnbanUserSchema fm v = do {
     f \<leftarrow> zObject v;
     userId \<leftarrow> uuidSchema fm (f ''userId'');
     reason \<leftarrow> displayTextSchema 500 (f ''reason'');
     Some (userId, reason) }"

definition adminSetRoleSchema :: "Formats \<Rightarrow> (user_id \<times> UserRole \<times> string) schema" where
  "adminSetRoleSchema fm v = do {
     f \<leftarrow> zObject v;
     userId \<leftarrow> uuidSchema fm (f ''userId'');
     role \<leftarrow> userRoleSchema (f ''role'');
     reason \<leftarrow> displayTextSchema 500 (f ''reason'');
     Some (userId, role, reason) }"

record AuditQuery =
  aq_page :: nat
  aq_pageSize :: nat
  aq_actorId :: "user_id option"
  aq_action :: "string option"
  aq_targetId :: "string option"
  aq_after :: "instant option"
  aq_before :: "instant option"

definition adminAuditQuerySchema :: "Formats \<Rightarrow> AuditQuery schema" where
  "adminAuditQuerySchema fm v = do {
     f \<leftarrow> zObject v;
     (page, pageSize) \<leftarrow> paginationSchema fm v;
     actorId \<leftarrow> zOptional (uuidSchema fm) (f ''actorId'');
     action \<leftarrow> zOptional (zRefine (atMost 100) zString) (f ''action'');
     targetId \<leftarrow> zOptional (zRefine (atMost 100) zString) (f ''targetId'');
     after \<leftarrow> zOptional (fm_date fm) (f ''after'');
     before \<leftarrow> zOptional (fm_date fm) (f ''before'');
     Some \<lparr>aq_page = page, aq_pageSize = pageSize, aq_actorId = actorId, aq_action = action,
           aq_targetId = targetId, aq_after = after, aq_before = before\<rparr> }"

section \<open>Tokens and campaigns\<close>

definition buyTokensSchema :: "Formats \<Rightarrow> row_id schema" where
  "buyTokensSchema fm v = do { f \<leftarrow> zObject v; uuidSchema fm (f ''packageId'') }"

definition campaignAudienceSchema :: "CampaignAudience schema" where
  "campaignAudienceSchema =
     zEnum (\<lambda>a. case a of NEW_USERS \<Rightarrow> ''NEW_USERS'' | ALL_USERS \<Rightarrow> ''ALL_USERS'') [NEW_USERS, ALL_USERS]"

fun campaignStatusText :: "CampaignStatus \<Rightarrow> string" where
  "campaignStatusText CampaignStatus_DRAFT = ''DRAFT''"
| "campaignStatusText CampaignStatus_ACTIVE = ''ACTIVE''"
| "campaignStatusText CampaignStatus_PAUSED = ''PAUSED''"
| "campaignStatusText CampaignStatus_ENDED = ''ENDED''"

definition campaignStatusSchema :: "CampaignStatus schema" where
  "campaignStatusSchema = zEnum campaignStatusText
     [CampaignStatus_DRAFT, CampaignStatus_ACTIVE, CampaignStatus_PAUSED, CampaignStatus_ENDED]"

definition MAX_CAMPAIGN_TOKENS :: int where
  "MAX_CAMPAIGN_TOKENS = 100000"

definition grantTokensSchema :: "int schema" where
  "grantTokensSchema = zRefine (\<lambda>n. 0 < n \<and> n \<le> MAX_CAMPAIGN_TOKENS) zInt"

definition maxGrantsSchema :: "int schema" where
  "maxGrantsSchema = zRefine (\<lambda>n. 0 < n \<and> n \<le> 10000000) zInt"

text \<open>The cross-field rule of both campaign schemas, over fields that may be missing or null. The instant 0 is a
date like any other, an object.\<close>

definition endsAfterStart :: "instant option option \<Rightarrow> instant option option \<Rightarrow> bool" where
  "endsAfterStart startsAt endsAt =
     (case (startsAt, endsAt) of (Some (Some s), Some (Some e)) \<Rightarrow> s < e | other \<Rightarrow> True)"

record CampaignInput =
  ca_name :: string
  ca_description :: "string option"
  ca_tokens :: int
  ca_audience :: CampaignAudience
  ca_startsAt :: "instant option option"
  ca_endsAt :: "instant option option"
  ca_maxGrants :: "int option option"
  ca_requiresVerifiedEmail :: bool

definition createCampaignSchema :: "Formats \<Rightarrow> CampaignInput schema" where
  "createCampaignSchema fm v = do {
     f \<leftarrow> zStrict [''name'', ''description'', ''tokens'', ''audience'', ''startsAt'', ''endsAt'', ''maxGrants'',
                    ''requiresVerifiedEmail''] v;
     name \<leftarrow> displayTextSchema 80 (f ''name'');
     description \<leftarrow> zOptional (displayTextSchema 300) (f ''description'');
     tokens \<leftarrow> grantTokensSchema (f ''tokens'');
     audience \<leftarrow> zDefault NEW_USERS campaignAudienceSchema (f ''audience'');
     startsAt \<leftarrow> zOptional (zNullable (fm_date fm)) (f ''startsAt'');
     endsAt \<leftarrow> zOptional (zNullable (fm_date fm)) (f ''endsAt'');
     maxGrants \<leftarrow> zOptional (zNullable maxGrantsSchema) (f ''maxGrants'');
     verified \<leftarrow> zDefault True zBoolean (f ''requiresVerifiedEmail'');
     if endsAfterStart startsAt endsAt
     then Some \<lparr>ca_name = name, ca_description = description, ca_tokens = tokens, ca_audience = audience,
                ca_startsAt = startsAt, ca_endsAt = endsAt, ca_maxGrants = maxGrants,
                ca_requiresVerifiedEmail = verified\<rparr>
     else None }"

definition updateCampaignSchema :: "Formats \<Rightarrow> CampaignUpdate schema" where
  "updateCampaignSchema fm v = do {
     f \<leftarrow> zStrict [''name'', ''description'', ''tokens'', ''audience'', ''startsAt'', ''endsAt'', ''maxGrants'',
                    ''requiresVerifiedEmail''] v;
     name \<leftarrow> zOptional (displayTextSchema 80) (f ''name'');
     description \<leftarrow> zOptional (zNullable (displayTextSchema 300)) (f ''description'');
     tokens \<leftarrow> zOptional grantTokensSchema (f ''tokens'');
     audience \<leftarrow> zOptional campaignAudienceSchema (f ''audience'');
     startsAt \<leftarrow> zOptional (zNullable (fm_date fm)) (f ''startsAt'');
     endsAt \<leftarrow> zOptional (zNullable (fm_date fm)) (f ''endsAt'');
     maxGrants \<leftarrow> zOptional (zNullable maxGrantsSchema) (f ''maxGrants'');
     verified \<leftarrow> zOptional zBoolean (f ''requiresVerifiedEmail'');
     if endsAfterStart startsAt endsAt
     then Some \<lparr>cu_name = name, cu_description = description, cu_tokens = tokens, cu_audience = audience,
                cu_startsAt = startsAt, cu_endsAt = endsAt, cu_maxGrants = maxGrants,
                cu_requiresVerifiedEmail = verified\<rparr>
     else None }"

definition setCampaignStatusSchema :: "CampaignStatus schema" where
  "setCampaignStatusSchema v = do { f \<leftarrow> zStrict [''status''] v; campaignStatusSchema (f ''status'') }"

end
