(* ===== verification/Admin_Routes.thy ===== *)
theory Admin_Routes
  imports Payloads Profile Settings
begin

text \<open>The administration routes, \<^verbatim>\<open>apps/api/src/routes/admin.routes.ts\<close>, with the dashboard numbers of
\<^verbatim>\<open>moderation.service.ts\<close> and the campaign list of \<^verbatim>\<open>campaigns.service.ts\<close>. A request goes through
authentication, the route's role guard, its schema and its handler; \<open>adminServe\<close> is this pipeline over the
whole site. What a text search matches is the database's (\<open>ad_contains\<close>, given whether case counts).\<close>

section \<open>The site and its requests\<close>

record Site =
  si_world :: World
  si_tokens :: TokenDb
  si_cache :: SettingsCache

record AdminEnv =
  ad_now :: instant
  ad_formats :: Formats
  ad_freshId :: row_id
  ad_contains :: "bool \<Rightarrow> string \<Rightarrow> string \<Rightarrow> bool"
  ad_config :: AppConfig
  ad_redisUp :: bool
  ad_stored :: "StoredSettings option"
  ad_matchIds :: "match_id list"

datatype AdminRequest =
    GetStats
  | GetReports raw
  | PostClaim row_id
  | PostResolve raw
  | GetUsers raw
  | GetUser user_id
  | PostWarn raw
  | PostSuspend raw
  | PostBan raw
  | PostUnban raw
  | PostRole raw
  | GetCampaigns
  | PostCampaign raw
  | PatchCampaign row_id raw
  | PostCampaignStatus row_id raw
  | GetSettings
  | GetAudit raw

text \<open>The guard of each route.\<close>

fun roleFor :: "AdminRequest \<Rightarrow> UserRole" where
  "roleFor (PostBan body) = UserRole_ADMIN"
| "roleFor (PostUnban body) = UserRole_ADMIN"
| "roleFor (PostRole body) = UserRole_SUPER_ADMIN"
| "roleFor GetCampaigns = UserRole_ADMIN"
| "roleFor (PostCampaign body) = UserRole_ADMIN"
| "roleFor (PatchCampaign cid body) = UserRole_ADMIN"
| "roleFor (PostCampaignStatus cid body) = UserRole_ADMIN"
| "roleFor GetSettings = UserRole_ADMIN"
| "roleFor (GetAudit query) = UserRole_ADMIN"
| "roleFor request = UserRole_MODERATOR"

section \<open>Answers\<close>

record DashboardStats =
  ds_registeredUsers :: nat
  ds_onlineUsers :: nat
  ds_queuedUsers :: nat
  ds_activeMatches :: nat
  ds_matchesToday :: nat
  ds_reportsPending :: nat
  ds_bannedUsers :: nat
  ds_suspendedUsers :: nat
  ds_activeCampaigns :: nat
  ds_tokensGranted :: int

text \<open>A row of the user list, and the page of one user.\<close>

record UserItem =
  ui_id :: user_id
  ui_username :: string
  ui_email :: string
  ui_role :: UserRole
  ui_status :: AccountStatus
  ui_plan :: PlanTier
  ui_emailVerified :: bool
  ui_createdAt :: instant
  ui_lastLoginAt :: "instant option"
  ui_displayName :: "string option"
  ui_country :: "string option"
  ui_reportsAgainst :: nat

record UserDetail =
  ud_item :: UserItem
  ud_profile :: "ProfileRow option"
  ud_actions :: "ModerationActionRow list"
  ud_reports :: "(row_id \<times> ReportCategory \<times> ReportStatus \<times> instant) list"

datatype AdminAnswer =
    StatsAnswer DashboardStats
  | ReportsAnswer "(ReportRow \<times> nat \<times> nat) list \<times> nat \<times> bool"
  | UsersAnswer "UserItem Paginated"
  | UserAnswer UserDetail
  | CampaignsAnswer "CampaignRow list"
  | CampaignAnswer row_id
  | SettingsAnswer SystemSettings
  | AuditAnswer "AuditRow Paginated"
  | DoneAnswer

section \<open>Reading\<close>

definition accountsWhere :: "(UserRow \<Rightarrow> bool) \<Rightarrow> Db \<Rightarrow> user_id list" where
  "accountsWhere P db = filter (\<lambda>i. case db_users db i of None \<Rightarrow> False | Some u \<Rightarrow> P u) (db_userIds db)"

definition matchesWhere :: "(MatchRow \<Rightarrow> bool) \<Rightarrow> match_id list \<Rightarrow> Db \<Rightarrow> nat" where
  "matchesWhere P ids db =
     length (filter (\<lambda>i. case db_matches db i of None \<Rightarrow> False | Some m \<Rightarrow> P m) ids)"

text \<open>\<^verbatim>\<open>ModerationService.stats\<close>, the keys of the match table given; Redis that does not answer counts
nobody.\<close>

definition stats :: "AdminEnv \<Rightarrow> Site \<Rightarrow> DashboardStats" where
  "stats env s =
     (let db = w_db (si_world s); redis = w_redis (si_world s);
          dayAgo = ad_now env - 86400000;
          (activeCampaigns, tokensGranted) = campaignStats (si_tokens s)
      in \<lparr>ds_registeredUsers = length (accountsWhere (\<lambda>u. u_deletedAt u = None) db),
          ds_onlineUsers = (if ad_redisUp env then onlineCount redis else 0),
          ds_queuedUsers = (if ad_redisUp env then queueSize GLOBAL_SHARD redis else 0),
          ds_activeMatches = matchesWhere (\<lambda>m. m_endedAt m = None) (ad_matchIds env) db,
          ds_matchesToday = matchesWhere (\<lambda>m. dayAgo \<le> m_startedAt m) (ad_matchIds env) db,
          ds_reportsPending = length (filter (\<lambda>r. r_status r = ReportStatus_PENDING \<or>
             r_status r = ReportStatus_UNDER_REVIEW) (db_reports db)),
          ds_bannedUsers = length (accountsWhere (\<lambda>u. u_status u = AccountStatus_BANNED) db),
          ds_suspendedUsers = length (accountsWhere (\<lambda>u. u_status u = AccountStatus_SUSPENDED) db),
          ds_activeCampaigns = activeCampaigns, ds_tokensGranted = tokensGranted\<rparr>)"

text \<open>\<^verbatim>\<open>GET /users\<close>: an empty search text is no condition; \<^verbatim>\<open>sort\<close> and the two dates of registration are
not looked at.\<close>

definition optionallyEqual :: "'a option \<Rightarrow> 'a \<Rightarrow> bool" where
  "optionallyEqual wanted x = (case wanted of None \<Rightarrow> True | Some y \<Rightarrow> x = y)"

definition userMatches :: "AdminEnv \<Rightarrow> UserQuery \<Rightarrow> UserRow \<Rightarrow> bool" where
  "userMatches env query u \<longleftrightarrow>
     u_deletedAt u = None \<and> optionallyEqual (uq_status query) (u_status u) \<and>
     optionallyEqual (uq_role query) (u_role u) \<and>
     (case uq_country query of None \<Rightarrow> True
      | Some c \<Rightarrow> Option.bind (u_profile u) pr_country = Some c) \<and>
     (case uq_q query of None \<Rightarrow> True
      | Some q \<Rightarrow> q = [] \<or> ad_contains env False q (u_username u) \<or> ad_contains env False q (u_email u))"

definition userItem :: "Db \<Rightarrow> user_id \<Rightarrow> UserRow \<Rightarrow> UserItem" where
  "userItem db i u =
     \<lparr>ui_id = i, ui_username = u_username u, ui_email = u_email u, ui_role = u_role u, ui_status = u_status u,
      ui_plan = u_plan u, ui_emailVerified = u_emailVerified u, ui_createdAt = u_createdAt u,
      ui_lastLoginAt = u_lastLoginAt u, ui_displayName = Option.bind (u_profile u) pr_displayName,
      ui_country = Option.bind (u_profile u) pr_country,
      ui_reportsAgainst = length (filter (\<lambda>r. r_reportedUserId r = i) (db_reports db))\<rparr>"

definition createdAtOf :: "Db \<Rightarrow> user_id \<Rightarrow> instant" where
  "createdAtOf db i = (case db_users db i of None \<Rightarrow> 0 | Some u \<Rightarrow> u_createdAt u)"

definition matchingUsers :: "AdminEnv \<Rightarrow> UserQuery \<Rightarrow> Db \<Rightarrow> user_id list" where
  "matchingUsers env query db =
     (let ids = accountsWhere (userMatches env query) db in
      if uq_ascending query then sort_key (createdAtOf db) ids else newestFirst (createdAtOf db) ids)"

definition listUsers :: "AdminEnv \<Rightarrow> UserQuery \<Rightarrow> Db \<Rightarrow> UserItem Paginated" where
  "listUsers env query db =
     (let ids = matchingUsers env query db in
      \<lparr>pg_items = List.map_filter (\<lambda>i. map_option (userItem db i) (db_users db i))
         (pageOf (uq_page query) (uq_pageSize query) ids),
       pg_total = length ids, pg_hasMore = (uq_page query * uq_pageSize query < length ids)\<rparr>)"

definition userDetail :: "user_id \<Rightarrow> Db \<Rightarrow> AppError + UserDetail" where
  "userDetail i db =
     (case db_users db i of
        None \<Rightarrow> Throw (Errors_notFound ''That user'')
      | Some u \<Rightarrow>
          Ok \<lparr>ud_item = userItem db i u, ud_profile = u_profile u,
              ud_actions = take 50 (newestFirst a_createdAt (filter (\<lambda>a. a_targetUserId a = i) (db_modActions db))),
              ud_reports = map (\<lambda>r. (r_id r, r_category r, r_status r, r_createdAt r))
                (take 50 (newestFirst r_createdAt (filter (\<lambda>r. r_reportedUserId r = i) (db_reports db))))\<rparr>)"

text \<open>\<^verbatim>\<open>CampaignsService.list\<close>: by status in the order of the enumeration, then newest first.\<close>

fun campaignStatusRank :: "CampaignStatus \<Rightarrow> nat" where
  "campaignStatusRank CampaignStatus_DRAFT = 0"
| "campaignStatusRank CampaignStatus_ACTIVE = 1"
| "campaignStatusRank CampaignStatus_PAUSED = 2"
| "campaignStatusRank CampaignStatus_ENDED = 3"

definition listCampaigns :: "TokenDb \<Rightarrow> CampaignRow list" where
  "listCampaigns td =
     sort_key (\<lambda>c. campaignStatusRank (cg_status c)) (newestFirst cg_createdAt (td_campaigns td))"

text \<open>\<^verbatim>\<open>GET /audit\<close>: \<^verbatim>\<open>targetId\<close>, \<^verbatim>\<open>after\<close> and \<^verbatim>\<open>before\<close> are not looked at; an empty actor or action is no
condition.\<close>

definition auditMatches :: "AdminEnv \<Rightarrow> AuditQuery \<Rightarrow> AuditRow \<Rightarrow> bool" where
  "auditMatches env query l \<longleftrightarrow>
     (case aq_actorId query of None \<Rightarrow> True | Some i \<Rightarrow> i = [] \<or> l_actorId l = Some i) \<and>
     (case aq_action query of None \<Rightarrow> True | Some a \<Rightarrow> a = [] \<or> ad_contains env True a (l_action l))"

definition listAudit :: "AdminEnv \<Rightarrow> AuditQuery \<Rightarrow> Db \<Rightarrow> AuditRow Paginated" where
  "listAudit env query db =
     (let rows = newestFirst l_createdAt (filter (auditMatches env query) (db_audit db)) in
      \<lparr>pg_items = pageOf (aq_page query) (aq_pageSize query) rows, pg_total = length rows,
       pg_hasMore = (aq_page query * aq_pageSize query < length rows)\<rparr>)"

section \<open>Writing\<close>

type_synonym AdminResult = "(AppError + AdminAnswer) \<times> Site"

definition answered :: "Site \<Rightarrow> AppError + AdminAnswer \<Rightarrow> AdminResult" where
  "answered s r = (r, s)"

definition onDb :: "(Db \<Rightarrow> Db) \<Rightarrow> Site \<Rightarrow> Site" where
  "onDb f s = s\<lparr>si_world := (si_world s)\<lparr>w_db := f (w_db (si_world s))\<rparr>\<rparr>"

text \<open>A handler's write, or its error and the site as it was.\<close>

definition wrote :: "Site \<Rightarrow> AppError + World \<Rightarrow> AdminResult" where
  "wrote s r = (case r of Inl e \<Rightarrow> (Throw e, s) | Inr w \<Rightarrow> (Ok DoneAnswer, s\<lparr>si_world := w\<rparr>))"

definition wroteDb :: "Site \<Rightarrow> AppError + Db \<Rightarrow> AdminResult" where
  "wroteDb s r = (case r of Inl e \<Rightarrow> (Throw e, s) | Inr db \<Rightarrow> (Ok DoneAnswer, onDb (\<lambda>_. db) s))"

definition parsed :: "'a schema \<Rightarrow> raw \<Rightarrow> Site \<Rightarrow> ('a \<Rightarrow> AdminResult) \<Rightarrow> AdminResult" where
  "parsed sch body s handle = (case parse sch body of Inl e \<Rightarrow> (Throw e, s) | Inr input \<Rightarrow> handle input)"

definition campaignAudit :: "instant \<Rightarrow> user_id \<Rightarrow> string \<Rightarrow> row_id \<Rightarrow> Db \<Rightarrow> Db" where
  "campaignAudit now actorId action targetId db =
     db\<lparr>db_audit := db_audit db @
       [\<lparr>l_actorId = Some actorId, l_actorType = AuditActorType_ADMIN, l_action = action,
         l_targetType = Some ''TokenCampaign'', l_targetId = Some targetId, l_ipHash = None,
         l_createdAt = now\<rparr>]\<rparr>"

definition postCampaign :: "AdminEnv \<Rightarrow> AuthenticatedUser \<Rightarrow> CampaignInput \<Rightarrow> Site \<Rightarrow> AdminResult" where
  "postCampaign env user i s =
     (let td = createCampaign (ad_freshId env) (ad_now env) (ca_name i) (ca_description i) (ca_tokens i)
                 (ca_audience i) (Option.bind (ca_startsAt i) id) (Option.bind (ca_endsAt i) id)
                 (Option.bind (ca_maxGrants i) id) (Some (ca_requiresVerifiedEmail i)) (au_id user) (si_tokens s)
      in (Ok (CampaignAnswer (ad_freshId env)),
          onDb (campaignAudit (ad_now env) (au_id user) ''campaign.create'' (ad_freshId env))
            (s\<lparr>si_tokens := td\<rparr>)))"

fun campaignErrorText :: "CampaignError \<Rightarrow> string" where
  "campaignErrorText LockedTerms = ''The amount and audience cannot change once a campaign has granted tokens.''"
| "campaignErrorText EndedCampaign = ''An ended campaign cannot be restarted. Create a new one.''"

text \<open>The end both campaign writes share: a refusal is a conflict, an unknown campaign not found, and a
change is recorded.\<close>

definition campaignChanged ::
    "AdminEnv \<Rightarrow> AuthenticatedUser \<Rightarrow> string \<Rightarrow> row_id \<Rightarrow> Site \<Rightarrow> CampaignError + bool \<times> TokenDb \<Rightarrow> AdminResult"
where
  "campaignChanged env user action cid s r =
     (case r of
        Inl e \<Rightarrow> (Throw (Errors_conflict (campaignErrorText e)), s)
      | Inr (updated, td) \<Rightarrow>
          if \<not> updated then (Throw (Errors_notFound ''That campaign''), s)
          else (Ok (CampaignAnswer cid),
                onDb (campaignAudit (ad_now env) (au_id user) action cid) (s\<lparr>si_tokens := td\<rparr>)))"

section \<open>The routes\<close>

fun adminHandler :: "AdminEnv \<Rightarrow> AuthenticatedUser \<Rightarrow> AdminRequest \<Rightarrow> Site \<Rightarrow> AdminResult" where
  "adminHandler env user GetStats s = answered s (Ok (StatsAnswer (stats env s)))"
| "adminHandler env user (GetReports query) s =
     parsed (moderationQueueQuerySchema (ad_formats env)) query s
       (\<lambda>q. answered s (Ok (ReportsAnswer (moderationQueue q (w_db (si_world s))))))"
| "adminHandler env user (PostClaim reportId) s =
     wroteDb s (claimReport reportId (au_id user) (w_db (si_world s)))"
| "adminHandler env user (PostResolve body) s =
     parsed (resolveReportRefinedSchema (ad_formats env)) body s
       (\<lambda>i. wrote s (resolve (ad_now env) i (au_id user) (au_role user) (si_world s)))"
| "adminHandler env user (GetUsers query) s =
     parsed (adminUserQuerySchema (ad_formats env)) query s
       (\<lambda>q. answered s (Ok (UsersAnswer (listUsers env q (w_db (si_world s))))))"
| "adminHandler env user (GetUser i) s =
     answered s (map_sum id UserAnswer (userDetail i (w_db (si_world s))))"
| "adminHandler env user (PostWarn body) s =
     parsed (adminWarnUserSchema (ad_formats env)) body s
       (\<lambda>(target, reason, notes). wrote s (warn (ad_now env) target reason notes (au_id user) (si_world s)))"
| "adminHandler env user (PostSuspend body) s =
     parsed (adminSuspendUserSchema (ad_formats env)) body s
       (\<lambda>(target, reason, notes, hours). wrote s (resolveDirect (ad_now env)
          \<lparr>di_targetUserId = target, di_ban = False, di_reason = reason, di_notes = notes, di_hours = Some hours\<rparr>
          (au_id user) (au_role user) (si_world s)))"
| "adminHandler env user (PostBan body) s =
     parsed (adminBanUserSchema (ad_formats env)) body s
       (\<lambda>i. wrote s (resolveDirect (ad_now env)
          \<lparr>di_targetUserId = bu_userId i, di_ban = True, di_reason = bu_reason i, di_notes = bu_notes i,
           di_hours = None\<rparr> (au_id user) (au_role user) (si_world s)))"
| "adminHandler env user (PostUnban body) s =
     parsed (adminUnbanUserSchema (ad_formats env)) body s
       (\<lambda>(target, reason). wroteDb s (reinstate (ad_now env) target (au_id user) reason (w_db (si_world s))))"
| "adminHandler env user (PostRole body) s =
     parsed (adminSetRoleSchema (ad_formats env)) body s
       (\<lambda>(target, role, reason). wroteDb s (setRole (ad_now env) target role (au_id user) (w_db (si_world s))))"
| "adminHandler env user GetCampaigns s = answered s (Ok (CampaignsAnswer (listCampaigns (si_tokens s))))"
| "adminHandler env user (PostCampaign body) s =
     parsed (createCampaignSchema (ad_formats env)) body s (\<lambda>i. postCampaign env user i s)"
| "adminHandler env user (PatchCampaign cid body) s =
     parsed (updateCampaignSchema (ad_formats env)) body s
       (\<lambda>i. campaignChanged env user ''campaign.update'' cid s (updateCampaign cid i (si_tokens s)))"
| "adminHandler env user (PostCampaignStatus cid body) s =
     parsed setCampaignStatusSchema body s
       (\<lambda>status. campaignChanged env user (''campaign.'' @ toLowerCase (campaignStatusText status)) cid s
          (setStatus cid status (si_tokens s)))"
| "adminHandler env user GetSettings s =
     (let (settings, cache) = getSettings (ad_now env) (ad_config env) (ad_redisUp env) (ad_stored env) (si_cache s)
      in (Ok (SettingsAnswer settings), s\<lparr>si_cache := cache\<rparr>))"
| "adminHandler env user (GetAudit query) s =
     parsed (adminAuditQuerySchema (ad_formats env)) query s
       (\<lambda>q. answered s (Ok (AuditAnswer (listAudit env q (w_db (si_world s))))))"

definition adminServe ::
    "(string \<Rightarrow> VerifyResult) \<Rightarrow> AdminEnv \<Rightarrow> (string, unit) register \<Rightarrow> string option \<Rightarrow> AdminRequest \<Rightarrow> Site \<Rightarrow>
     AdminResult" where
  "adminServe verify env revoked header request s =
     (case authenticate verify (ad_now env) revoked (w_db (si_world s)) header of
        Inl e \<Rightarrow> (Throw e, s)
      | Inr user \<Rightarrow>
          (case requireRole (roleFor request) (Some user) of
             Inl e \<Rightarrow> (Throw e, s)
           | Inr u \<Rightarrow> adminHandler env user request s))"

end
