(* ===== verification/Payload_Safety.thy ===== *)
theory Payload_Safety
  imports Payloads Validation_Safety Realtime_Safety
begin

text \<open>Hostile frames: what a socket event with any name and any payload can make the server send on, and what
a payload its schema refuses can do. Both are facts of the handlers together with the schemas in front of
them.\<close>

section \<open>Bounds of what is relayed\<close>

definition boundedText :: "nat \<Rightarrow> string \<Rightarrow> bool" where
  "boundedText n s \<longleftrightarrow> length s \<le> n \<and> cleanText (codeUnits s)"

fun boundedEvent :: "ServerEvent \<Rightarrow> bool" where
  "boundedEvent (Signal (Offer m sdp)) = (length sdp \<le> 32768 \<and> take 3 sdp = ''v=0'')"
| "boundedEvent (Signal (Answer m sdp)) = (length sdp \<le> 32768 \<and> take 3 sdp = ''v=0'')"
| "boundedEvent (Signal (Ice m c)) =
     (length (cd_candidate c) \<le> 1024 \<and> (\<forall>s. cd_sdpMid c = Some s \<longrightarrow> length s \<le> 64) \<and>
      (\<forall>n. cd_sdpMLineIndex c = Some n \<longrightarrow> n \<le> 64) \<and>
      (\<forall>s. cd_usernameFragment c = Some s \<longrightarrow> length s \<le> 256))"
| "boundedEvent (Chat m clientId) =
     (boundedText 500 (cm_body m) \<and> cm_body m \<noteq> [] \<and> (\<forall>c. clientId = Some c \<longrightarrow> length c \<le> 64))"
| "boundedEvent (TipReceived t) =
     (1 \<le> tr_tokens t \<and> tr_tokens t \<le> 10000 \<and> (\<forall>s. tr_message t = Some s \<longrightarrow> boundedText 200 s) \<and>
      (\<forall>n. tr_offeredSeconds t = Some n \<longrightarrow> 30 \<le> n \<and> n \<le> 3600))"
| "boundedEvent e = True"

section \<open>What a handler adds to the outbox\<close>

definition adds :: "Realtime \<Rightarrow> Realtime \<Rightarrow> bool" where
  "adds st st' \<longleftrightarrow> (\<exists>fs. rt_outbox st' = rt_outbox st @ fs \<and> (\<forall>f \<in> set fs. boundedEvent (snd f)))"

lemma adds_refl [simp]: "adds st st"
  by (simp add: adds_def)

lemma adds_emit: "adds st st' \<Longrightarrow> boundedEvent e \<Longrightarrow> adds st (emit t e st')"
  by (auto simp: adds_def emit_def)

lemma adds_more:
  "adds st st' \<Longrightarrow> adds st (onWorld f st')"
  "adds st st' \<Longrightarrow> adds st (onRt g st')"
  "adds st st' \<Longrightarrow> adds st (snd (guardFlood env so ev l w st'))"
  "adds st st' \<Longrightarrow> adds st (st'\<lparr>rt_tokens := td\<rparr>)"
  "adds st st' \<Longrightarrow> adds st (st'\<lparr>rt_world := wd\<rparr>)"
  by (simp_all add: adds_def guardFlood_def onWorld_def onRt_def prod.case_eq_if Let_def)

lemma adds_newFrames: "adds st st' \<Longrightarrow> f \<in> set (newFrames st st') \<Longrightarrow> boundedEvent (snd f)"
  by (auto simp: adds_def newFrames_def)

lemma adds_teardown: "adds st st' \<Longrightarrow> adds st (snd (teardownMatch env m actor reason st'))"
  by (auto simp: teardownMatch_def Let_def intro!: adds_emit adds_more split: option.splits prod.splits)

lemma adds_attempt: "adds st st' \<Longrightarrow> adds st (snd (attemptMatch env u st'))"
  by (auto simp: attemptMatch_def announceMatch_def matchFound_def Let_def prod.case_eq_if
      intro!: adds_emit adds_more split: option.splits)

lemma adds_replies:
  "adds st st' \<Longrightarrow> adds st (failWith so code msg st')"
  "adds st st' \<Longrightarrow> adds st (rejectPayload so ev st')"
  by (auto simp: failWith_def rejectPayload_def intro!: adds_emit)

lemma adds_leaveNamed: "adds st st' \<Longrightarrow> adds st (leaveNamedMatch env so m reason st')"
  by (auto simp: leaveNamedMatch_def intro!: adds_emit adds_teardown split: option.split)

lemma adds_blocked: "adds st st' \<Longrightarrow> adds st (snd (blockedFor env u st'))"
  by (auto simp: blockedFor_def Let_def intro!: adds_more split: option.split)

lemmas adds_intros = adds_replies adds_teardown adds_attempt adds_leaveNamed adds_blocked adds_emit adds_more

text \<open>The schemas.\<close>

lemma displayText_bounded: "displayTextSchema n v = Some s \<Longrightarrow> boundedText n s"
  by (auto simp: displayTextSchema_def schema_Some boundedText_def codeUnits_sanitizeText cleanText_sanitize)

text \<open>What is known of every value of a schema is known of an optional or nullable one.\<close>

lemma zOptional_value: "zOptional sch v = Some (Some y) \<Longrightarrow> sch v = Some y"
  by (auto simp: zOptional_def split: if_splits)

lemma zNullable_value: "zNullable sch v = Some (Some y) \<Longrightarrow> sch v = Some y"
  by (auto simp: zNullable_def split: if_splits)

lemma zRefine_value: "zRefine p sch v = Some y \<Longrightarrow> p y"
  by (simp add: schema_Some)

lemmas schema_values = zRefine_value zRefine_value [OF zOptional_value] zRefine_value [OF zNullable_value]
  zRefine_value [OF zNullable_value [OF zOptional_value]]

lemma sdp_bounded: "sdpSchema v = Some s \<Longrightarrow> length s \<le> 32768 \<and> take 3 s = ''v=0''"
  by (auto simp: sdpSchema_def MAX_SDP_LENGTH_def lengthIn_def dest: zRefine_value)

lemma offer_bounded: "webrtcOfferSchema fm v = Some f \<Longrightarrow> boundedEvent (Signal f)"
  by (auto simp: webrtcOfferSchema_def Option.bind_eq_Some_conv dest: sdp_bounded)

lemma answer_bounded: "webrtcAnswerSchema fm v = Some f \<Longrightarrow> boundedEvent (Signal f)"
  by (auto simp: webrtcAnswerSchema_def Option.bind_eq_Some_conv dest: sdp_bounded)

lemma ice_bounded:
  assumes "webrtcIceSchema fm v = Some f"
  shows "boundedEvent (Signal f)"
  using assms
  by (auto simp: webrtcIceSchema_def MAX_ICE_CANDIDATE_LENGTH_def Option.bind_eq_Some_conv atMost_def nat_le_iff
      dest!: schema_values split: option.splits)

lemmas signal_bounded = offer_bounded answer_bounded ice_bounded

lemma chat_bounded:
  "chatMessageSchema fm v = Some i \<Longrightarrow>
     boundedText 500 (ci_body i) \<and> ci_body i \<noteq> [] \<and> length (ci_clientId i) \<le> 64"
  by (auto simp: chatMessageSchema_def chatBodySchema_def Option.bind_eq_Some_conv schema_Some lengthIn_def
      dest: displayText_bounded)

lemma tip_bounded:
  "sendTipSocketSchema fm v = Some i \<Longrightarrow>
     1 \<le> ts_tokens i \<and> ts_tokens i \<le> 10000 \<and> (\<forall>s. ts_message i = Some s \<longrightarrow> boundedText 200 s) \<and>
     (\<forall>n. ts_offeredSeconds i = Some n \<longrightarrow> 30 \<le> n \<and> n \<le> 3600)"
  by (auto simp: sendTipSocketSchema_def Option.bind_eq_Some_conv
      dest: displayText_bounded [OF zOptional_value] dest!: schema_values)

text \<open>The handlers.\<close>

lemma adds_signal:
  assumes "\<And>f. payload = Some f \<Longrightarrow> boundedEvent (Signal f)"
  shows "adds st (onSignal env so ev payload st)"
  using assms
  by (auto simp: onSignal_def Let_def prod.case_eq_if intro!: adds_intros split: option.split)

lemma adds_chat:
  assumes "\<And>i. payload = Some i \<Longrightarrow> boundedText 500 (ci_body i) \<and> ci_body i \<noteq> [] \<and> length (ci_clientId i) \<le> 64"
  shows "adds st (onChatMessage env so payload st)"
  using assms
  by (auto simp: onChatMessage_def Let_def prod.case_eq_if intro!: adds_intros split: option.split)

lemma adds_tipFailure: "adds st st' \<Longrightarrow> adds st (tipFailure so e st')"
  by (simp add: tipFailure_def adds_replies)

lemma adds_tip:
  assumes "\<And>i. payload = Some i \<Longrightarrow>
     1 \<le> ts_tokens i \<and> ts_tokens i \<le> 10000 \<and> (\<forall>s. ts_message i = Some s \<longrightarrow> boundedText 200 s) \<and>
     (\<forall>n. ts_offeredSeconds i = Some n \<longrightarrow> 30 \<le> n \<and> n \<le> 3600)"
  shows "adds st (onTipSend env so payload st)"
  using assms
  by (auto simp: onTipSend_def Let_def prod.case_eq_if intro!: adds_tipFailure adds_intros
      split: option.split sum.split)

lemma adds_queue:
  "adds st (onHeartbeat env so st)"
  "adds st (onQueueJoin env so q st)"
  "adds st (onQueueLeave env so st)"
  by (auto simp: onHeartbeat_def onQueueJoin_def onQueueLeave_def enterQueue_def Let_def prod.case_eq_if
      intro!: adds_intros split: option.split)

lemma adds_match:
  "adds st (onMatchSkip env so p st)"
  "adds st (onMatchEnd env so m st)"
  "adds st (onMatchConnected env so m st)"
  by (auto simp: onMatchSkip_def onMatchEnd_def onMatchConnected_def Let_def prod.case_eq_if
      intro!: adds_intros split: option.split)

lemma adds_safety:
  "adds st (onUserBlock env so b st)"
  "adds st (onUserReport env so r st)"
  by (auto simp: onUserBlock_def onUserReport_def Let_def prod.case_eq_if intro!: adds_intros split: option.split)

lemma adds_rest:
  "adds st (onTipRespond env so a st)"
  "adds st (onStatsReport so q st)"
  by (auto simp: onTipRespond_def onStatsReport_def Let_def prod.case_eq_if
      intro!: adds_intros split: option.split sum.split)

lemma adds_onEvent: "adds st (onEvent fm env so name payload st)"
  by (simp add: onEvent_def adds_queue adds_match adds_safety adds_rest adds_signal adds_chat adds_tip
      signal_bounded chat_bounded tip_bounded)

section \<open>What no client can make the server relay\<close>


definition anyIdFormats :: Formats where
  "anyIdFormats = exampleFormats\<lparr>fm_uuid := (\<lambda>s. True)\<rparr>"

definition offerPayload :: raw where
  "offerPayload = Obj [(''matchId'', Text ''m''), (''sdp'', Text ''v=0''), (''type'', Text ''offer'')]"

lemma offerPayload_accepted: "webrtcOfferSchema anyIdFormats offerPayload = Some (Offer ''m'' ''v=0'')"
  by code_simp


text \<open>The payload is refused by the schema of its event.\<close>

definition refusedPayload :: "Formats \<Rightarrow> string \<Rightarrow> raw \<Rightarrow> bool" where
  "refusedPayload fm name payload \<longleftrightarrow>
     (name = ''queue:join'' \<and> queueJoinSchema payload = None) \<or>
     (name = ''match:skip'' \<and> matchSkipSchema fm payload = None) \<or>
     (name = ''match:end'' \<and> matchEndSchema fm payload = None) \<or>
     (name = ''match:connected'' \<and> matchConnectedSchema fm payload = None) \<or>
     (name = ''webrtc:offer'' \<and> webrtcOfferSchema fm payload = None) \<or>
     (name = ''webrtc:answer'' \<and> webrtcAnswerSchema fm payload = None) \<or>
     (name = ''webrtc:ice'' \<and> webrtcIceSchema fm payload = None) \<or>
     (name = ''chat:message'' \<and> chatMessageSchema fm payload = None) \<or>
     (name = ''user:block'' \<and> socketBlockSchema fm payload = None) \<or>
     (name = ''user:report'' \<and> socketReportSchema fm payload = None) \<or>
     (name = ''tip:send'' \<and> sendTipSocketSchema fm payload = None) \<or>
     (name = ''tip:respond'' \<and> tipRespondSocketSchema fm payload = None) \<or>
     (name = ''stats:report'' \<and> connectionStatsSchema fm payload = None)"

text \<open>Nothing but the flood counters has changed and the sender alone was told.\<close>

definition inert :: "RtSocket \<Rightarrow> Realtime \<Rightarrow> Realtime \<Rightarrow> bool" where
  "inert so st st' \<longleftrightarrow>
     rt_world st' = rt_world st \<and> rt_tokens st' = rt_tokens st \<and> rt_sockets st' = rt_sockets st \<and>
     (\<exists>code message event. newFrames st st' = [(ToSocket (so_id so), RtError code message event None)] \<and>
        code \<in> {RealtimeErrorCode_INVALID_PAYLOAD, RealtimeErrorCode_RATE_LIMITED})"

lemma inert_replies:
  "inert so st (rejectPayload so event st)"
  "inert so st (rejectPayload so event (snd (guardFlood env so ev l w st)))"
  "inert so st (failWith so RealtimeErrorCode_RATE_LIMITED message (snd (guardFlood env so ev l w st)))"
  by (auto simp: inert_def rejectPayload_def failWith_def emit_def guardFlood_def newFrames_def Let_def
      prod.case_eq_if)

lemmas refusing_handlers = onQueueJoin_def onMatchSkip_def onMatchEnd_def onMatchConnected_def onSignal_def
  onChatMessage_def onUserBlock_def onUserReport_def onTipSend_def onTipRespond_def onStatsReport_def

text \<open>C12: A frame whose payload its schema refuses does nothing: no data, no queue, no ledger and no socket list
changes, nothing reaches anybody but its sender, and the sender gets exactly one error, that the payload was not
valid or, before the schema is even run, that it is too fast.\<close>

theorem refused_payload_is_inert:
  "refusedPayload fm name payload \<Longrightarrow> inert so st (onEvent fm env so name payload st)"
  unfolding refusedPayload_def
  by (elim disjE conjE; simp add: onEvent_def refusing_handlers prod.case_eq_if Let_def inert_replies)

lemma refused_payload_is_inert_witness:
  "inert (socketOf ''ana'') callState
     (onEvent anyIdFormats callEnv (socketOf ''ana'') ''chat:message'' Null callState)"
  by (rule refused_payload_is_inert) (simp add: refusedPayload_def chatMessageSchema_def)

end
