(* ===== verification/Admin_Safety.thy ===== *)
theory Admin_Safety
  imports Admin_Routes Moderation_Safety Auth_Safety Payload_Safety
begin

text \<open>The administration surface as a whole: who gets through to it, that nobody raises a role but a super
administrator, what every change leaves in the audit log, and that paging loses nobody.\<close>

section \<open>The guard\<close>

lemma requireRole_Ok [guard_simps]: "requireRole role (Some u) = Ok x \<longleftrightarrow> role \<le> au_role u"
  by (cases role; cases "au_role u")
     (auto simp: requireRole_def Let_def indexOf_def ROLE_HIERARCHY_def less_eq_UserRole_def)

lemma authenticate_Ok:
  "authenticate verify now revoked db header = Ok u \<Longrightarrow>
   \<exists>token c row. extractBearerToken header = Some token \<and> verify token = ValidToken c \<and> au_id u = ac_sub c \<and>
     live revoked now (ac_sid c) = None \<and> db_users db (ac_sub c) = Some row \<and> u_deletedAt row = None \<and>
     u_tokenGeneration row = ac_gen c \<and> u_status row \<notin> set NON_MATCHABLE_STATUSES \<and> au_role u = u_role row"
  by (auto simp: authenticate_def resolveUser_def NON_MATCHABLE_STATUSES_def
      split: option.splits VerifyResult.splits AccessTokenError.splits if_splits)

text \<open>Who is served: the account behind the header, as the database has it now.\<close>

definition standingStaff ::
    "(string \<Rightarrow> VerifyResult) \<Rightarrow> instant \<Rightarrow> (string, unit) register \<Rightarrow> Db \<Rightarrow> string option \<Rightarrow> UserRole \<Rightarrow> bool" where
  "standingStaff verify now revoked db header role \<longleftrightarrow>
     (\<exists>token c row. extractBearerToken header = Some token \<and> verify token = ValidToken c \<and>
        live revoked now (ac_sid c) = None \<and> db_users db (ac_sub c) = Some row \<and> u_deletedAt row = None \<and>
        u_tokenGeneration row = ac_gen c \<and> u_status row \<notin> set NON_MATCHABLE_STATUSES \<and> role \<le> u_role row)"

lemma adminServe_cases:
  obtains (refused) e where "adminServe verify env revoked header request s = (Throw e, s)"
  | (served) user row where "authenticate verify (ad_now env) revoked (w_db (si_world s)) header = Ok user"
      and "db_users (w_db (si_world s)) (au_id user) = Some row" and "u_deletedAt row = None"
      and "au_role user = u_role row" and "roleFor request \<le> au_role user"
      and "adminServe verify env revoked header request s = adminHandler env user request s"
proof (cases "authenticate verify (ad_now env) revoked (w_db (si_world s)) header")
  case (Inl e)
  then show thesis using refused by (simp add: adminServe_def)
next
  case (Inr user)
  show thesis
  proof (cases "requireRole (roleFor request) (Some user)")
    case (Inl e)
    with Inr show thesis using refused by (simp add: adminServe_def)
  next
    case r: (Inr x)
    with Inr have "adminServe verify env revoked header request s = adminHandler env user request s"
      by (simp add: adminServe_def)
    moreover have "roleFor request \<le> au_role user" using r requireRole_Ok by blast
    ultimately show thesis using authenticate_Ok [OF Inr] served [OF Inr] by fastforce
  qed
qed

text \<open>C27: Nobody gets past the guards. If a request to the administration routes answers with data or changes
anything at all, then its header carries a valid token of a session not revoked, and the account the token names
is, in the database at that moment and not merely in the token, undeleted, unrestricted, of the token's
generation, and at least of the role its route demands.\<close>

theorem admin_surface_is_gated:
  assumes "adminServe verify env revoked header request s = (r, s')" and "s' \<noteq> s \<or> (\<exists>a. r = Ok a)"
  shows "standingStaff verify (ad_now env) revoked (w_db (si_world s)) header (roleFor request)"
proof (cases rule: adminServe_cases [of verify env revoked header request s])
  case (served user row)
  then show ?thesis using authenticate_Ok unfolding standingStaff_def by metis
qed (use assms in auto)

section \<open>What a handler may do\<close>

fun mutates :: "AdminRequest \<Rightarrow> bool" where
  "mutates (PostResolve body) = True"
| "mutates (PostWarn body) = True"
| "mutates (PostSuspend body) = True"
| "mutates (PostBan body) = True"
| "mutates (PostUnban body) = True"
| "mutates (PostRole body) = True"
| "mutates (PostCampaign body) = True"
| "mutates (PatchCampaign cid body) = True"
| "mutates (PostCampaignStatus cid body) = True"
| "mutates request = False"

text \<open>The roles after a handler, given the caller: kept, or one other account's changed by a role request.\<close>

definition rolesKept :: "Db \<Rightarrow> Db \<Rightarrow> bool" where
  "rolesKept db db' \<longleftrightarrow> (\<forall>v. map_option u_role (db_users db' v) = map_option u_role (db_users db v))"

lemma rolesKept_same: "db_users db' = db_users db \<Longrightarrow> rolesKept db db'"
  by (simp add: rolesKept_def)

lemma actionOk_roles: "actionOk m role db db' \<Longrightarrow> rolesKept db db'"
  unfolding actionOk_def rolesKept_def by (metis option.simps(9))

text \<open>Exactly one audit entry more, by this caller, now.\<close>

definition recorded :: "instant \<Rightarrow> user_id \<Rightarrow> Db \<Rightarrow> Db \<Rightarrow> bool" where
  "recorded now m db db' \<longleftrightarrow>
     (\<exists>l. db_audit db' = db_audit db @ [l] \<and> l_actorId l = Some m \<and> l_actorType l = AuditActorType_ADMIN \<and>
          l_createdAt l = now)"

lemma recorded_intro:
  "db_audit db' = db_audit db \<Longrightarrow> recorded now m db (moderationAudit now m a t db')"
  "db_audit db' = db_audit db \<Longrightarrow> recorded now m db (campaignAudit now m a c db')"
  by (simp_all add: recorded_def campaignAudit_def)

lemma warn_effect:
  "warn now t r n m w = Ok w' \<Longrightarrow>
   rolesKept (w_db w) (w_db w') \<and> recorded now m (w_db w) (w_db w') \<and> w_redis w' = w_redis w"
  by (auto simp: warn_def guard_simps intro!: recorded_intro rolesKept_same)

lemma resolve_effect:
  assumes "resolve now i m role w = Ok w'"
  shows "rolesKept (w_db w) (w_db w') \<and> recorded now m (w_db w) (w_db w')"
proof
  show "rolesKept (w_db w) (w_db w')" using reports.act_ok [of "(now, i)"] assms actionOk_roles by (simp, blast)
  from assms show "recorded now m (w_db w) (w_db w')"
    by (rule resolve_Ok) (use resolveAction_effect in \<open>fastforce intro!: recorded_intro\<close>)
qed

lemma resolveDirect_effect:
  assumes "resolveDirect now i m role w = Ok w'"
  shows "rolesKept (w_db w) (w_db w') \<and> recorded now m (w_db w) (w_db w')"
proof
  show "rolesKept (w_db w) (w_db w')" using direct.act_ok [of "(now, i)"] assms actionOk_roles by (simp, blast)
  show "recorded now m (w_db w) (w_db w')"
    using assms by (auto simp: resolveDirect_Ok intro!: recorded_intro)
qed

lemma reinstate_effect:
  assumes "reinstate now t m r db = Ok db'"
  shows "rolesKept db db' \<and> recorded now m db db'"
proof
  show "rolesKept db db'"
    using assms by (cases "db_users db t")
      (auto simp: reinstate_def loadMatchCandidate_def Let_def rolesKept_def db_users_updateUser split: if_splits)
  show "recorded now m db db'"
    using assms
    by (auto simp: reinstate_def Let_def addModAction_def intro!: recorded_intro split: option.splits if_splits)
qed

lemma setRole_effect:
  assumes "setRole now t role m db = Ok db'"
  shows "t \<noteq> m" and "recorded now m db db'"
    and "db_users db' v = (if v = t then map_option (\<lambda>u. u\<lparr>u_role := role,
           u_tokenGeneration := u_tokenGeneration u + 1\<rparr>) (db_users db t) else db_users db v)"
  using assms by (auto simp: setRole_def db_users_updateUser intro!: recorded_intro split: if_splits)

lemma claimReport_effect:
  "claimReport i m db = Ok db' \<Longrightarrow> db' = db\<lparr>db_reports := db_reports db'\<rparr>"
  by (auto simp: claimReport_def Let_def split: if_splits)

section \<open>What a served request does\<close>

text \<open>A served result, taken apart.\<close>

lemma served_Ok:
  "parsed sch body s k = (Ok a, s') \<longleftrightarrow> (\<exists>i. parse sch body = Ok i \<and> k i = (Ok a, s'))"
  "answered s r = (Ok a, s') \<longleftrightarrow> r = Ok a \<and> s' = s"
  "wrote s rw = (Ok a, s') \<longleftrightarrow> a = DoneAnswer \<and> (\<exists>w. rw = Ok w \<and> s' = s\<lparr>si_world := w\<rparr>)"
  "wroteDb s rd = (Ok a, s') \<longleftrightarrow> a = DoneAnswer \<and> (\<exists>db. rd = Ok db \<and> s' = onDb (\<lambda>_. db) s)"
  "campaignChanged env user action cid s rc = (Ok a, s') \<longleftrightarrow> a = CampaignAnswer cid \<and>
     (\<exists>td. rc = Ok (True, td) \<and>
        s' = onDb (campaignAudit (ad_now env) (au_id user) action cid) (s\<lparr>si_tokens := td\<rparr>))"
  by (auto simp: parsed_def answered_def wrote_def wroteDb_def campaignChanged_def split: sum.splits if_splits)

lemma served_Throw:
  "parsed sch body s k = (Throw e, s') \<Longrightarrow> (\<And>i. k i = (Throw e, s') \<Longrightarrow> s' = s) \<Longrightarrow> s' = s"
  "answered s r = (Throw e, s') \<Longrightarrow> s' = s"
  "wrote s rw = (Throw e, s') \<Longrightarrow> s' = s"
  "wroteDb s rd = (Throw e, s') \<Longrightarrow> s' = s"
  "campaignChanged env user action cid s rc = (Throw e, s') \<Longrightarrow> s' = s"
  by (auto simp: parsed_def answered_def wrote_def wroteDb_def campaignChanged_def split: sum.splits if_splits)

lemma handler_error: "adminHandler env user request s = (Throw e, s') \<Longrightarrow> s' = s"
  by (cases request)
     (auto simp: postCampaign_def Let_def prod.case_eq_if elim!: served_Throw)

text \<open>The database of the site.\<close>

abbreviation siteDb :: "Site \<Rightarrow> Db" where "siteDb s \<equiv> w_db (si_world s)"

lemma onDb_simps [simp]:
  "siteDb (onDb f s) = f (siteDb s)" "si_tokens (onDb f s) = si_tokens s" "si_cache (onDb f s) = si_cache s"
  "w_redis (si_world (onDb f s)) = w_redis (si_world s)"
  by (simp_all add: onDb_def)

lemmas effects = warn_effect resolve_effect resolveDirect_effect reinstate_effect

lemma handler_records:
  assumes "mutates request" and "adminHandler env user request s = (Ok a, s')"
  shows "recorded (ad_now env) (au_id user) (siteDb s) (siteDb s')"
  using assms
  by (cases request)
     (auto simp: postCampaign_def Let_def served_Ok dest: effects setRole_effect(2) intro: recorded_intro)

lemma handler_reads:
  assumes "\<not> mutates request" and "adminHandler env user request s = (Ok a, s')"
  shows "si_tokens s' = si_tokens s \<and> w_redis (si_world s') = w_redis (si_world s) \<and>
         siteDb s' = (siteDb s)\<lparr>db_reports := db_reports (siteDb s')\<rparr>"
  using assms
  by (cases request) (auto simp: Let_def prod.case_eq_if served_Ok dest: claimReport_effect)

lemma rolesKept_other: "db_users db' = db_users db \<Longrightarrow> rolesKept db (campaignAudit now m a c db')"
  by (simp add: rolesKept_def campaignAudit_def)

lemma handler_roles:
  assumes "adminHandler env user request s = (Ok a, s')" and "\<nexists>body. request = PostRole body"
  shows "rolesKept (siteDb s) (siteDb s')"
proof (cases "mutates request")
  case False
  have "siteDb s' = (siteDb s)\<lparr>db_reports := db_reports (siteDb s')\<rparr>"
    using handler_reads [OF False assms(1)] by blast
  then have "db_users (siteDb s') = db_users (siteDb s)" by (metis Db.simps(1) Db.surjective Db.update_convs(10))
  then show ?thesis by (rule rolesKept_same)
next
  case True
  then show ?thesis using assms
    by (cases request)
       (auto simp: postCampaign_def Let_def served_Ok dest: effects intro: rolesKept_other)
qed

section \<open>Properties of the surface\<close>

text \<open>C29: Everything a request changes is on record. A request that is refused, for whatever reason, leaves the
site as it was. A request that resolves a report, warns, suspends, bans, reinstates, changes a role or writes a
campaign, when it is answered, has added exactly one entry to the audit log, with the caller's id and the time.
Any other request leaves the tokens, the volatile state and the whole database alone, but for the report a
moderator takes up, of which the audit log says nothing.\<close>

theorem admin_changes_are_audited:
  assumes "adminServe verify env revoked header request s = (r, s')"
  shows "(\<forall>e. r = Throw e \<longrightarrow> s' = s) \<and>
    (\<forall>a. r = Ok a \<and> mutates request \<longrightarrow>
       (\<exists>user. authenticate verify (ad_now env) revoked (siteDb s) header = Ok user \<and>
               recorded (ad_now env) (au_id user) (siteDb s) (siteDb s'))) \<and>
    (\<forall>a. r = Ok a \<and> \<not> mutates request \<longrightarrow>
       si_tokens s' = si_tokens s \<and> w_redis (si_world s') = w_redis (si_world s) \<and>
       siteDb s' = (siteDb s)\<lparr>db_reports := db_reports (siteDb s')\<rparr>)"
proof (cases rule: adminServe_cases [of verify env revoked header request s])
  case (served user row)
  with assms have h: "adminHandler env user request s = (r, s')" by simp
  show ?thesis
    using handler_error handler_records handler_reads served(1) h by blast
qed (use assms in auto)

text \<open>Requests in order, each with its time, its revoked sessions and its header.\<close>

type_synonym AdminCall = "AdminEnv \<times> (string, unit) register \<times> string option \<times> AdminRequest"

definition serveCall :: "(string \<Rightarrow> VerifyResult) \<Rightarrow> AdminCall \<Rightarrow> Site \<Rightarrow> Site" where
  "serveCall verify call s =
     (case call of (env, revoked, header, request) \<Rightarrow> snd (adminServe verify env revoked header request s))"

definition runAdmin :: "(string \<Rightarrow> VerifyResult) \<Rightarrow> AdminCall list \<Rightarrow> Site \<Rightarrow> Site" where
  "runAdmin verify calls s = fold (serveCall verify) calls s"

definition hasSuperAdmin :: "Db \<Rightarrow> bool" where
  "hasSuperAdmin db \<longleftrightarrow> (\<exists>i u. db_users db i = Some u \<and> u_role u = UserRole_SUPER_ADMIN)"

text \<open>A role request by a super administrator.\<close>

definition appointed :: "(string \<Rightarrow> VerifyResult) \<Rightarrow> AdminCall \<Rightarrow> Db \<Rightarrow> bool" where
  "appointed verify call db \<longleftrightarrow>
     (case call of (env, revoked, header, request) \<Rightarrow>
        (\<exists>body. request = PostRole body) \<and>
        standingStaff verify (ad_now env) revoked db header UserRole_SUPER_ADMIN)"

lemma hasSuperAdmin_iff:
  "hasSuperAdmin db \<longleftrightarrow> (\<exists>i. map_option u_role (db_users db i) = Some UserRole_SUPER_ADMIN)"
  by (auto simp: hasSuperAdmin_def)

lemma rolesKept_super: "rolesKept db db' \<Longrightarrow> hasSuperAdmin db' = hasSuperAdmin db"
  by (simp add: rolesKept_def hasSuperAdmin_iff)

lemma serveCall_roles:
  "rolesKept (siteDb s) (siteDb (serveCall verify call s)) \<or>
   appointed verify call (siteDb s) \<and> hasSuperAdmin (siteDb s) \<and> hasSuperAdmin (siteDb (serveCall verify call s))"
proof -
  obtain env revoked header request where c: "call = (env, revoked, header, request)" by (cases call)
  obtain r s' where r: "adminServe verify env revoked header request s = (r, s')" by fastforce
  then have s': "serveCall verify call s = s'" by (simp add: serveCall_def c)
  show ?thesis
  proof (cases rule: adminServe_cases [of verify env revoked header request s])
    case (refused e)
    then show ?thesis using r s' by (simp add: rolesKept_same)
  next
    case (served user row)
    then have h: "adminHandler env user request s = (r, s')" using r by simp
    show ?thesis
    proof (cases "\<exists>a body. r = Ok a \<and> request = PostRole body")
      case False
      then have "rolesKept (siteDb s) (siteDb s')"
        using h handler_error [of env user request s _ s'] handler_roles [of env user request s _ s']
        by (cases r) (auto simp: rolesKept_same)
      then show ?thesis by (simp add: s')
    next
      case True
      then obtain a body where p: "r = Ok a" "request = PostRole body" by blast
      then obtain t role reason where
        t: "setRole (ad_now env) t role (au_id user) (siteDb s) = Ok (siteDb s')"
        using h by (auto simp: served_Ok)
      have super: "u_role row = UserRole_SUPER_ADMIN" using served(4,5) p by (simp add: less_eq_UserRole_def)
        (cases "u_role row"; simp)
      then have "hasSuperAdmin (siteDb s)" using served(2) by (auto simp: hasSuperAdmin_def)
      moreover have "hasSuperAdmin (siteDb s')"
        using served(2) super setRole_effect(1,3) [OF t] unfolding hasSuperAdmin_def by metis
      moreover have "appointed verify call (siteDb s)"
        using authenticate_Ok [OF served(1)] served(2) super p
        unfolding appointed_def c standingStaff_def by fastforce
      ultimately show ?thesis by (simp add: s')
    qed
  qed
qed

text \<open>C28: Privilege cannot be made from below. Over any sequence of requests to the administration routes, by
anybody: there is a super administrator afterwards exactly if there was one before, since only one can appoint
another and none can step down; and an account whose role has changed got it in a request made by an account
that at that moment was a super administrator in good standing.\<close>

theorem super_admins_only_by_super_admins:
  "(hasSuperAdmin (siteDb (runAdmin verify calls s)) \<longleftrightarrow> hasSuperAdmin (siteDb s)) \<and>
   (rolesKept (siteDb s) (siteDb (runAdmin verify calls s)) \<or>
    (\<exists>before call later. calls = before @ call # later \<and>
       appointed verify call (siteDb (runAdmin verify before s))))"
proof (induction calls rule: rev_induct)
  case Nil
  show ?case by (simp add: runAdmin_def rolesKept_def)
next
  case (snoc call calls)
  let ?s = "runAdmin verify calls s"
  have run: "runAdmin verify (calls @ [call]) s = serveCall verify call ?s" by (simp add: runAdmin_def)
  show ?case
    using serveCall_roles [of ?s verify call]
  proof
    assume k: "rolesKept (siteDb ?s) (siteDb (serveCall verify call ?s))"
    then have "rolesKept (siteDb s) (siteDb ?s) \<Longrightarrow> rolesKept (siteDb s) (siteDb (serveCall verify call ?s))"
      by (simp add: rolesKept_def)
    then show ?thesis using snoc rolesKept_super [OF k] unfolding run by (metis append_Cons append_assoc)
  next
    assume "appointed verify call (siteDb ?s) \<and> hasSuperAdmin (siteDb ?s) \<and>
      hasSuperAdmin (siteDb (serveCall verify call ?s))"
    then show ?thesis using snoc unfolding run by blast
  qed
qed

section \<open>Paging\<close>

lemma pages_concat: "concat (map (\<lambda>p. pageOf p k xs) [1..<Suc n]) = take (n * k) xs"
proof (induction n)
  case (Suc n)
  have "[1..<Suc (Suc n)] = [1..<Suc n] @ [Suc n]" by simp
  then have "concat (map (\<lambda>p. pageOf p k xs) [1..<Suc (Suc n)]) = take (n * k) xs @ take k (drop (n * k) xs)"
    using Suc by (simp add: pageOf_def del: upt_Suc)
  also have "\<dots> = take (Suc n * k) xs" by (metis add.commute mult_Suc take_add)
  finally show ?case .
qed simp

lemma map_filter_concat: "List.map_filter f (concat xss) = concat (map (List.map_filter f) xss)"
  by (induction xss) (auto simp: List.map_filter_def)

lemma set_sorted_users:
  "accountsOk db \<Longrightarrow> set (matchingUsers env query db) = {i. \<exists>u. db_users db i = Some u \<and> userMatches env query u} \<and>
   distinct (matchingUsers env query db)"
  by (auto simp: matchingUsers_def accountsWhere_def newestFirst_def accountsOk_def Let_def dom_def
      split: option.splits)

lemma shown_ids: "map ui_id (List.map_filter (\<lambda>i. map_option (userItem db i) (db_users db i)) ids) =
    filter (\<lambda>i. db_users db i \<noteq> None) ids"
  by (induction ids) (auto simp: List.map_filter_def userItem_def)

text \<open>Paging loses nobody. Turning the pages of the user list, whatever the filter, the order and the page
size, until there are no more, shows every account that matches exactly once and no other.\<close>

theorem pages_show_everyone_once:
  assumes "accountsOk db" and "pg_total (listUsers env query db) \<le> n * uq_pageSize query"
  shows "let shown = concat (map (\<lambda>p. map ui_id (pg_items (listUsers env (query\<lparr>uq_page := p\<rparr>) db))) [1..<Suc n])
    in distinct shown \<and> set shown = {i. \<exists>u. db_users db i = Some u \<and> userMatches env query u}"
proof -
  let ?ids = "matchingUsers env query db"
  have same: "matchingUsers env (query\<lparr>uq_page := p\<rparr>) db = ?ids" for p
    by (simp add: matchingUsers_def userMatches_def [abs_def])
  have "concat (map (\<lambda>p. map ui_id (pg_items (listUsers env (query\<lparr>uq_page := p\<rparr>) db))) [1..<Suc n]) =
      filter (\<lambda>i. db_users db i \<noteq> None) (concat (map (\<lambda>p. pageOf p (uq_pageSize query) ?ids) [1..<Suc n]))"
    by (simp add: listUsers_def Let_def same shown_ids filter_concat comp_def del: upt_Suc)
  also have "\<dots> = filter (\<lambda>i. db_users db i \<noteq> None) ?ids"
    using assms(2) by (subst pages_concat) (simp add: listUsers_def Let_def)
  finally show ?thesis using set_sorted_users [OF assms(1), of env query] by (auto simp: Let_def)
qed

section \<open>A ban for a day\<close>

text \<open>A ban that is asked for as temporary is for good. Whatever the request says about its length, the ban
that an answered request leaves has no end, and the account's status is the ban's.\<close>

theorem temporary_ban_is_permanent:
  assumes "adminServe verify env revoked header (PostBan body) s = (Ok a, s')"
    and "adminBanUserSchema (ad_formats env) body = Some i" and "\<not> bu_permanent i" and "bu_hours i = Some h"
  shows "\<exists>n row. db_bans (siteDb s') = db_bans (siteDb s) @ [n] \<and> n_userId n = bu_userId i \<and> n_permanent n \<and>
    n_expiresAt n = None \<and> db_users (siteDb s') (bu_userId i) = Some row \<and> u_status row = AccountStatus_BANNED"
proof (cases rule: adminServe_cases [of verify env revoked header "PostBan body" s])
  case (served user row)
  with assms(1,2) show ?thesis
    by (auto simp: served_Ok parse_def resolveDirect_Ok banTx_def addBan_def addModAction_def restrictUser_def
        revokeSessions_def moderationAudit_def db_users_updateUser)
qed (use assms in auto)

section \<open>An example\<close>

text \<open>A super administrator and a user; the token is the administrator's.\<close>

definition rootRow :: UserRow where
  "rootRow = gateUser\<lparr>u_role := UserRole_SUPER_ADMIN\<rparr>"

definition exampleSite :: Site where
  "exampleSite =
     \<lparr>si_world = \<lparr>w_redis = emptyRedis,
        w_db = emptyDb\<lparr>db_users := [''u'' \<mapsto> rootRow, ''ana'' \<mapsto> gateUser], db_userIds := [''u'', ''ana'']\<rparr>\<rparr>,
      si_tokens = exampleTokenDb, si_cache = \<lparr>sk_memory = None, sk_redis = (\<lambda>k. None)\<rparr>\<rparr>"

definition exampleAdminEnv :: AdminEnv where
  "exampleAdminEnv = \<lparr>ad_now = 1000, ad_formats = anyIdFormats, ad_freshId = ''new'',
     ad_contains = (\<lambda>exact q text. includesText text q), ad_config = exampleConfig, ad_redisUp = True,
     ad_stored = None, ad_matchIds = []\<rparr>"

definition banForADay :: raw where
  "banForADay = Obj [(''userId'', Text ''ana''), (''reason'', Text ''abuse''), (''permanent'', Bool False),
     (''hours'', Num 24)]"

definition banForADayInput :: BanInput where
  "banForADayInput = \<lparr>bu_userId = ''ana'', bu_reason = ''abuse'', bu_notes = None, bu_permanent = False,
     bu_hours = Some 24\<rparr>"

lemma sanitizeText_clean: "cleanText (codeUnits s) \<Longrightarrow> sanitizeText s = s"
  by (simp add: sanitizeText_def sanitize_clean_id) (simp add: codeUnits_def comp_def)

lemma abuse_text: "displayTextSchema 500 (Text ''abuse'') = Some ''abuse''"
proof -
  have "sanitizeText ''abuse'' = ''abuse''"
    by (rule sanitizeText_clean)
      (simp add: codeUnits_def cleanText_def isInvisible_def isSpace_def INVISIBLE_CODE_POINT_RANGES_def)
  then show ?thesis by (simp add: displayTextSchema_def zRefine_def zMap_def)
qed

lemma banForADay_accepted: "adminBanUserSchema anyIdFormats banForADay = Some banForADayInput"
  by (simp add: adminBanUserSchema_def adminWarnUserSchema_def banForADay_def banForADayInput_def abuse_text
      uuidSchema_def anyIdFormats_def zOptional_def zDefault_def zInt_def zRefine_def)

abbreviation serveExample :: "AdminRequest \<Rightarrow> AdminResult" where
  "serveExample request \<equiv> adminServe (\<lambda>t. ValidToken gateClaims) exampleAdminEnv (\<lambda>k. None) (Some ''bearer tok'')
     request exampleSite"

lemma example_bearer: "extractBearerToken (Some ''bearer tok'') = Some ''tok''"
  by (simp add: extractBearerToken_def isJsSpace_def lowerAscii_def Let_def)

lemma serveExample_handler: "serveExample request = adminHandler exampleAdminEnv
    \<lparr>au_id = ''u'', au_role = UserRole_SUPER_ADMIN, au_plan = u_plan rootRow, au_sessionId = ''s''\<rparr> request exampleSite"
proof -
  have "authenticate (\<lambda>t. ValidToken gateClaims) 1000 (\<lambda>k. None) (siteDb exampleSite) (Some ''bearer tok'') =
    Ok \<lparr>au_id = ''u'', au_role = UserRole_SUPER_ADMIN, au_plan = u_plan rootRow, au_sessionId = ''s''\<rparr>"
    by (simp add: authenticate_def example_bearer resolveUser_def gateClaims_def exampleSite_def rootRow_def
        gateUser_def live_def)
  moreover have "requireRole (roleFor request) (Some
      \<lparr>au_id = ''u'', au_role = UserRole_SUPER_ADMIN, au_plan = u_plan rootRow, au_sessionId = ''s''\<rparr>) = Ok ()"
    by (simp add: requireRole_Ok)
  ultimately show ?thesis by (simp add: adminServe_def exampleAdminEnv_def)
qed

lemma ban_answered: "fst (serveExample (PostBan banForADay)) = Ok DoneAnswer"
  unfolding serveExample_handler
  by (simp add: exampleAdminEnv_def parsed_def parse_def banForADay_accepted banForADayInput_def resolveDirect_def
      assertActionable_def loadMatchCandidate_def assertMayBan_def throwIf_def exampleSite_def gateUser_def wrote_def
      exampleRow_def Let_def)

lemma temporary_ban_is_permanent_witness:
  "\<exists>n row. db_bans (siteDb (snd (serveExample (PostBan banForADay)))) = [n] \<and> n_permanent n \<and>
     db_users (siteDb (snd (serveExample (PostBan banForADay)))) ''ana'' = Some row \<and>
     u_status row = AccountStatus_BANNED"
proof -
  have "serveExample (PostBan banForADay) = (Ok DoneAnswer, snd (serveExample (PostBan banForADay)))"
    using ban_answered by (metis prod.collapse)
  from temporary_ban_is_permanent [OF this, of banForADayInput 24] show ?thesis
    by (auto simp: exampleAdminEnv_def banForADay_accepted banForADayInput_def exampleSite_def emptyDb_def)
qed

lemma admin_surface_is_gated_witness:
  "standingStaff (\<lambda>t. ValidToken gateClaims) 1000 (\<lambda>k. None) (siteDb exampleSite) (Some ''bearer tok'') UserRole_ADMIN"
proof -
  have "serveExample (PostBan banForADay) = (Ok DoneAnswer, snd (serveExample (PostBan banForADay)))"
    using ban_answered by (metis prod.collapse)
  from admin_surface_is_gated [OF this] show ?thesis by (simp add: exampleAdminEnv_def)
qed

lemma admin_changes_are_audited_witness:
  "\<exists>l. db_audit (siteDb (snd (serveExample (PostBan banForADay)))) = [l] \<and> l_createdAt l = 1000"
proof -
  have r: "serveExample (PostBan banForADay) = (Ok DoneAnswer, snd (serveExample (PostBan banForADay)))"
    using ban_answered by (metis prod.collapse)
  from admin_changes_are_audited [OF r] show ?thesis
    by (auto simp: recorded_def exampleAdminEnv_def exampleSite_def emptyDb_def)
qed

definition everyAccount :: UserQuery where
  "everyAccount = \<lparr>uq_page = 1, uq_pageSize = 1, uq_q = None, uq_status = None, uq_role = None, uq_country = None,
     uq_registeredAfter = None, uq_registeredBefore = None, uq_sort = ''createdAt'', uq_ascending = False\<rparr>"

lemma pages_show_everyone_once_witness:
  "let shown = concat (map (\<lambda>p. map ui_id (pg_items (listUsers exampleAdminEnv (everyAccount\<lparr>uq_page := p\<rparr>)
       (accountDb gateUser [] [])))) [1..<Suc 1])
   in distinct shown \<and> set shown = {i. i = ''u''}"
proof -
  have ok: "accountsOk (accountDb gateUser [] [])"
    by (rule accountsOk_accountDb) (simp_all add: gateUser_def exampleRow_def)
  have "pg_total (listUsers exampleAdminEnv everyAccount (accountDb gateUser [] [])) \<le> 1 * uq_pageSize everyAccount"
    by (simp add: listUsers_def matchingUsers_def accountsWhere_def everyAccount_def Let_def newestFirst_def)
  moreover have "(\<exists>u. db_users (accountDb gateUser [] []) i = Some u \<and> userMatches exampleAdminEnv everyAccount u)
      \<longleftrightarrow> i = ''u''" for i
    by (auto simp: userMatches_def everyAccount_def optionallyEqual_def gateUser_def split: if_splits)
  ultimately show ?thesis
    using pages_show_everyone_once [OF ok, of exampleAdminEnv everyAccount 1] by simp
qed

end
