(* ===== verification/Auth_Routes.thy ===== *)
theory Auth_Routes
  imports Profile Payloads Campaigns Auth_Service
begin

text \<open>The authentication routes, \<^verbatim>\<open>apps/api/src/routes/auth.routes.ts\<close>: each route from the HTTP request to the
answer, the refresh cookie, the mail it sends and the site after it. Rate limit, schema, settings, service and
promotional grants are those of the other theories; this one has their order, what reaches the client by the
cookie and what by the body, and what is answered to whom.\<close>

section \<open>Requests, answers and the site\<close>

text \<open>The tables, the marks of revoked sessions, the counters of the rate limiter (\<^const>\<open>None\<close> when Redis does not
answer), the settings cache. The token tables see the same users as the account tables.\<close>

record AuthSite =
  as_db :: Db
  as_tokens :: TokenDb
  as_revoked :: "(string, unit) register"
  as_limits :: "(string, nat) register option"
  as_cache :: SettingsCache

record HttpEnv =
  he_auth :: AuthEnv
  he_verify :: "string \<Rightarrow> VerifyResult"
  he_formats :: Formats
  he_clock :: Clock
  he_config :: AppConfig
  he_redisUp :: bool
  he_stored :: "StoredSettings option"
  he_prefix :: string

text \<open>A request: the \<^verbatim>\<open>client=native\<close> flag of its query, the refresh cookie, the authorization header, the body.\<close>

record HttpRequest =
  rq_context :: SessionContext
  rq_native :: bool
  rq_cookie :: "string option"
  rq_header :: "string option"
  rq_body :: raw

datatype CookieWrite = KeepCookie | SetCookie string | ClearCookie

datatype Mail = VerificationMail string string | ResetMail string string

record SelfView =
  sv_profile :: SelfProfile
  sv_role :: UserRole
  sv_status :: AccountStatus
  sv_birthDate :: "BirthDate option"
  sv_createdAt :: instant
  sv_restriction :: "Restriction option"

text \<open>The access token with its lifetime, and the refresh token when the body carries it.\<close>

record TokenAnswer =
  tk_access :: string
  tk_expiresIn :: int
  tk_refresh :: "string option"

datatype AuthAnswer =
    RegisteredAnswer user_id bool "GrantResult list"
  | SignedInAnswer SelfView TokenAnswer "GrantResult list"
  | RefreshedAnswer TokenAnswer
  | VerifiedAnswer "GrantResult list"
  | SelfAnswer SelfView
  | DeletionAnswer instant
  | MessageAnswer

record AuthReply =
  ap_answer :: "AppError + AuthAnswer"
  ap_cookie :: CookieWrite
  ap_mails :: "Mail list"

definition refusal :: "AppError \<Rightarrow> AuthReply" where
  "refusal e = \<lparr>ap_answer = Throw e, ap_cookie = KeepCookie, ap_mails = []\<rparr>"

definition answer :: "AuthAnswer \<Rightarrow> AuthReply" where
  "answer a = \<lparr>ap_answer = Ok a, ap_cookie = KeepCookie, ap_mails = []\<rparr>"

definition withCookie :: "CookieWrite \<Rightarrow> AuthReply \<Rightarrow> AuthReply" where
  "withCookie c r = r\<lparr>ap_cookie := c\<rparr>"

definition withMails :: "Mail list \<Rightarrow> AuthReply \<Rightarrow> AuthReply" where
  "withMails ms r = r\<lparr>ap_mails := ms\<rparr>"

section \<open>In front of the handlers\<close>

definition httpNow :: "HttpEnv \<Rightarrow> instant" where
  "httpNow env = ax_now (he_auth env)"

text \<open>The hook of \<^verbatim>\<open>app.rateLimit(bucket, rule, { keyBy: 'ip' })\<close>.\<close>

definition limited ::
    "HttpEnv \<Rightarrow> string \<Rightarrow> RateLimitRule \<Rightarrow> HttpRequest \<Rightarrow> AuthSite \<Rightarrow> (AuthSite \<Rightarrow> AuthReply \<times> AuthSite) \<Rightarrow>
     AuthReply \<times> AuthSite" where
  "limited env bucket rule request s handle =
     (case rateLimit (httpNow env) (he_prefix env) bucket rule
             (clientIdentity (ax_hashIp (he_auth env)) ByIp (sc_ip (rq_context request)) None) (as_limits s) of
        (Inl e, counters) \<Rightarrow> (refusal e, s\<lparr>as_limits := counters\<rparr>)
      | (Inr headers, counters) \<Rightarrow> handle (s\<lparr>as_limits := counters\<rparr>))"

definition authenticated ::
    "HttpEnv \<Rightarrow> HttpRequest \<Rightarrow> AuthSite \<Rightarrow> (AuthenticatedUser \<Rightarrow> AuthReply \<times> AuthSite) \<Rightarrow> AuthReply \<times> AuthSite" where
  "authenticated env request s handle =
     (case authenticate (he_verify env) (httpNow env) (as_revoked s) (as_db s) (rq_header request) of
        Inl e \<Rightarrow> (refusal e, s) | Inr user \<Rightarrow> handle user)"

text \<open>\<^verbatim>\<open>campaigns.applyEligible\<close>, over the accounts as they are now.\<close>

definition eligibilityIn :: "Db \<Rightarrow> user_id \<rightharpoonup> EligibilityContext" where
  "eligibilityIn db = (\<lambda>i. map_option (\<lambda>u. \<lparr>ec_createdAt = u_createdAt u, ec_emailVerified = u_emailVerified u,
     ec_deletedAt = u_deletedAt u\<rparr>) (db_users db i))"

definition grantsFor :: "HttpEnv \<Rightarrow> user_id \<Rightarrow> AuthSite \<Rightarrow> GrantResult list \<times> AuthSite" where
  "grantsFor env userId s =
     (let (granted, td) = applyEligible (httpNow env) (eligibilityIn (as_db s)) userId (as_tokens s)
      in (granted, s\<lparr>as_tokens := td\<rparr>))"

text \<open>\<^verbatim>\<open>loadSelf\<close>: reading the restriction may lift it.\<close>

definition loadSelf :: "HttpEnv \<Rightarrow> user_id \<Rightarrow> AuthSite \<Rightarrow> (AppError + SelfView) \<times> AuthSite" where
  "loadSelf env userId s =
     (case (db_users (as_db s) userId, loadProfile userId (ax_today (he_auth env)) (as_db s)) of
        (Some user, Inr profile) \<Rightarrow>
          (let (restriction, db) = getActiveRestriction userId (httpNow env) (as_db s)
           in (Ok \<lparr>sv_profile = profile, sv_role = u_role user, sv_status = u_status user,
                   sv_birthDate = map_option pr_birthDate (u_profile user), sv_createdAt = u_createdAt user,
                   sv_restriction = restriction\<rparr>, s\<lparr>as_db := db\<rparr>))
      | other \<Rightarrow> (Throw (Errors_notFound ''Your account''), s))"

section \<open>Registration and sign-in\<close>

definition postRegister :: "HttpEnv \<Rightarrow> HttpRequest \<Rightarrow> AuthSite \<Rightarrow> AuthReply \<times> AuthSite" where
  "postRegister env request s0 =
     limited env ''register'' (rls_register RATE_LIMITS) request s0 (\<lambda>s.
       case parse (registerSchema (he_formats env) (he_clock env)) (rq_body request) of
         Inl e \<Rightarrow> (refusal e, s)
       | Inr input \<Rightarrow>
           let (settings, cache) = getSettings (httpNow env) (he_config env) (he_redisUp env) (he_stored env) (as_cache s)
           in (case register (he_auth env) input settings (rq_context request) (as_db s) of
                 (Inl e, db) \<Rightarrow> (refusal e, s\<lparr>as_cache := cache, as_db := db\<rparr>)
               | (Inr (userId, token), db) \<Rightarrow>
                   let s1 = s\<lparr>as_cache := cache, as_db := db,
                              as_tokens := (as_tokens s)\<lparr>td_users := td_users (as_tokens s) @ [userId]\<rparr>\<rparr>;
                       (granted, s2) = grantsFor env userId s1
                   in (withMails (case token of None \<Rightarrow> [] | Some t \<Rightarrow> [VerificationMail (rg_email input) t])
                         (answer (RegisteredAnswer userId (token \<noteq> None) granted)), s2)))"

text \<open>The tokens of a result, the refresh token in the body or in the cookie.\<close>

definition tokensOf :: "bool \<Rightarrow> AuthResultInternal \<Rightarrow> TokenAnswer" where
  "tokensOf inBody r =
     \<lparr>tk_access = ar_accessToken r, tk_expiresIn = ar_expiresIn r,
      tk_refresh = (if inBody then Some (ar_refreshToken r) else None)\<rparr>"

definition refreshCookie :: "bool \<Rightarrow> AuthResultInternal \<Rightarrow> CookieWrite" where
  "refreshCookie inBody r = (if inBody then KeepCookie else SetCookie (ar_refreshToken r))"

definition postLogin :: "HttpEnv \<Rightarrow> HttpRequest \<Rightarrow> AuthSite \<Rightarrow> AuthReply \<times> AuthSite" where
  "postLogin env request s0 =
     limited env ''login'' (rls_login RATE_LIMITS) request s0 (\<lambda>s.
       case loginSchema (he_formats env) (rq_body request) of
         None \<Rightarrow> (refusal Errors_invalidCredentials, s)
       | Some (email, password, rememberMe) \<Rightarrow>
           (case login (he_auth env) email password (rq_context request) (as_db s) of
              (Inl e, db) \<Rightarrow> (refusal e, s\<lparr>as_db := db\<rparr>)
            | (Inr result, db) \<Rightarrow>
                let (granted, s1) = grantsFor env (ar_userId result) (s\<lparr>as_db := db\<rparr>)
                in (case loadSelf env (ar_userId result) s1 of
                      (Inl e, s2) \<Rightarrow> (refusal e, s2)
                    | (Inr self, s2) \<Rightarrow>
                        (withCookie (refreshCookie (rq_native request) result)
                          (answer (SignedInAnswer self (tokensOf (rq_native request) result) granted)), s2))))"

section \<open>Sessions\<close>

text \<open>The refresh token of a request: the cookie, and without one whatever the body has in its place. A value
that is not a text makes hashing throw.\<close>

definition presentedToken :: "HttpRequest \<Rightarrow> raw" where
  "presentedToken request =
     (case rq_cookie request of
        Some c \<Rightarrow> Text c
      | None \<Rightarrow> (case zObject (rq_body request) of None \<Rightarrow> Undefined | Some f \<Rightarrow> f ''refreshToken''))"

definition postRefresh :: "HttpEnv \<Rightarrow> HttpRequest \<Rightarrow> AuthSite \<Rightarrow> AuthReply \<times> AuthSite" where
  "postRefresh env request s =
     (let token = presentedToken request; inBody = (rq_native request \<or> rq_cookie request = None) in
      if zCoerceBoolean token = Some False
      then (refusal (Errors_unauthenticated ''NO_REFRESH_TOKEN''), s)
      else case token of
        Text t \<Rightarrow>
          (case refresh (he_auth env) t (rq_context request) (as_db s) of
             (Inl e, db) \<Rightarrow> (withCookie ClearCookie (refusal e), s\<lparr>as_db := db\<rparr>)
           | (Inr result, db) \<Rightarrow>
               (withCookie (refreshCookie inBody result) (answer (RefreshedAnswer (tokensOf inBody result))),
                s\<lparr>as_db := db\<rparr>))
      | other \<Rightarrow> (withCookie ClearCookie (refusal Errors_internal), s))"

definition postLogout :: "HttpEnv \<Rightarrow> HttpRequest \<Rightarrow> AuthSite \<Rightarrow> AuthReply \<times> AuthSite" where
  "postLogout env request s =
     authenticated env request s (\<lambda>user.
       (withCookie ClearCookie (answer MessageAnswer),
        s\<lparr>as_db := logout (httpNow env) (au_sessionId user) (as_db s),
          as_revoked := revokeSession (httpNow env) (ttl_revokedSession REDIS_TTL) (au_sessionId user) (as_revoked s)\<rparr>))"

definition postLogoutAll :: "HttpEnv \<Rightarrow> HttpRequest \<Rightarrow> AuthSite \<Rightarrow> AuthReply \<times> AuthSite" where
  "postLogoutAll env request s =
     authenticated env request s (\<lambda>user.
       (withCookie ClearCookie (answer MessageAnswer),
        s\<lparr>as_db := logoutAll (httpNow env) (au_id user) (as_db s)\<rparr>))"

section \<open>Links by mail\<close>

definition postVerifyEmail :: "HttpEnv \<Rightarrow> HttpRequest \<Rightarrow> AuthSite \<Rightarrow> AuthReply \<times> AuthSite" where
  "postVerifyEmail env request s =
     (case verifyEmailSchema (rq_body request) of
        None \<Rightarrow> (refusal (Errors_tokenInvalid None), s)
      | Some token \<Rightarrow>
          (case verifyEmail (he_auth env) token (as_db s) of
             Inl e \<Rightarrow> (refusal e, s)
           | Inr (userId, db) \<Rightarrow>
               let (granted, s1) = grantsFor env userId (s\<lparr>as_db := db\<rparr>)
               in (answer (VerifiedAnswer granted), s1)))"

definition postResendVerification :: "HttpEnv \<Rightarrow> HttpRequest \<Rightarrow> AuthSite \<Rightarrow> AuthReply \<times> AuthSite" where
  "postResendVerification env request s0 =
     limited env ''verify-resend'' (rls_emailVerificationResend RATE_LIMITS) request s0 (\<lambda>s.
       case resendVerificationSchema (he_formats env) (rq_body request) of
         None \<Rightarrow> (answer MessageAnswer, s)
       | Some email \<Rightarrow>
           let (token, db) = resendVerification (he_auth env) email (as_db s)
           in (withMails (case token of None \<Rightarrow> [] | Some t \<Rightarrow> [VerificationMail email t]) (answer MessageAnswer),
               s\<lparr>as_db := db\<rparr>))"

definition postForgotPassword :: "HttpEnv \<Rightarrow> HttpRequest \<Rightarrow> AuthSite \<Rightarrow> AuthReply \<times> AuthSite" where
  "postForgotPassword env request s0 =
     limited env ''password-reset'' (rls_passwordReset RATE_LIMITS) request s0 (\<lambda>s.
       case requestPasswordResetSchema (he_formats env) (rq_body request) of
         None \<Rightarrow> (answer MessageAnswer, s)
       | Some email \<Rightarrow>
           let (result, db) = createPasswordResetToken (he_auth env) email (as_db s)
           in (withMails (case result of None \<Rightarrow> [] | Some (userId, t) \<Rightarrow> [ResetMail email t]) (answer MessageAnswer),
               s\<lparr>as_db := db\<rparr>))"

definition postResetPassword :: "HttpEnv \<Rightarrow> HttpRequest \<Rightarrow> AuthSite \<Rightarrow> AuthReply \<times> AuthSite" where
  "postResetPassword env request s0 =
     limited env ''password-reset'' (rls_passwordReset RATE_LIMITS) request s0 (\<lambda>s.
       case parse resetPasswordSchema (rq_body request) of
         Inl e \<Rightarrow> (refusal e, s)
       | Inr (token, password) \<Rightarrow>
           (case resetPassword (he_auth env) token password (as_db s) of
              Inl e \<Rightarrow> (refusal e, s)
            | Inr (userId, db) \<Rightarrow> (withCookie ClearCookie (answer MessageAnswer), s\<lparr>as_db := db\<rparr>)))"

section \<open>Own account\<close>

definition postChangePassword :: "HttpEnv \<Rightarrow> HttpRequest \<Rightarrow> AuthSite \<Rightarrow> AuthReply \<times> AuthSite" where
  "postChangePassword env request s =
     authenticated env request s (\<lambda>user.
       case parse changePasswordSchema (rq_body request) of
         Inl e \<Rightarrow> (refusal e, s)
       | Inr (current, new) \<Rightarrow>
           (case changePassword (he_auth env) (au_id user) current new (au_sessionId user) (as_db s) of
              Inl e \<Rightarrow> (refusal e, s)
            | Inr db \<Rightarrow> (answer MessageAnswer, s\<lparr>as_db := db\<rparr>)))"

definition getMe :: "HttpEnv \<Rightarrow> HttpRequest \<Rightarrow> AuthSite \<Rightarrow> AuthReply \<times> AuthSite" where
  "getMe env request s =
     authenticated env request s (\<lambda>user.
       case loadSelf env (au_id user) s of
         (Inl e, s1) \<Rightarrow> (refusal e, s1) | (Inr self, s1) \<Rightarrow> (answer (SelfAnswer self), s1))"

definition postDeleteAccount :: "HttpEnv \<Rightarrow> HttpRequest \<Rightarrow> AuthSite \<Rightarrow> AuthReply \<times> AuthSite" where
  "postDeleteAccount env request s =
     authenticated env request s (\<lambda>user.
       case parse deleteAccountSchema (rq_body request) of
         Inl e \<Rightarrow> (refusal e, s)
       | Inr password \<Rightarrow>
           (case requestDeletion (he_auth env) (au_id user) password (as_db s) of
              Inl e \<Rightarrow> (refusal e, s)
            | Inr (scheduledFor, db) \<Rightarrow>
                (withCookie ClearCookie (answer (DeletionAnswer scheduledFor)), s\<lparr>as_db := db\<rparr>)))"

section \<open>The routes\<close>

datatype AuthRoute =
    PostRegister | PostLogin | PostRefresh | PostLogout | PostLogoutAll | PostVerifyEmail
  | PostResendVerification | PostForgotPassword | PostResetPassword | PostChangePassword | GetMe | PostDeleteAccount

fun authRoute :: "HttpEnv \<Rightarrow> AuthRoute \<Rightarrow> HttpRequest \<Rightarrow> AuthSite \<Rightarrow> AuthReply \<times> AuthSite" where
  "authRoute env PostRegister = postRegister env"
| "authRoute env PostLogin = postLogin env"
| "authRoute env PostRefresh = postRefresh env"
| "authRoute env PostLogout = postLogout env"
| "authRoute env PostLogoutAll = postLogoutAll env"
| "authRoute env PostVerifyEmail = postVerifyEmail env"
| "authRoute env PostResendVerification = postResendVerification env"
| "authRoute env PostForgotPassword = postForgotPassword env"
| "authRoute env PostResetPassword = postResetPassword env"
| "authRoute env PostChangePassword = postChangePassword env"
| "authRoute env GetMe = getMe env"
| "authRoute env PostDeleteAccount = postDeleteAccount env"

end
