(* ===== verification/Auth_Route_Safety.thy ===== *)
theory Auth_Route_Safety
  imports Auth_Routes Account_Life Validation_Safety
begin

text \<open>What the authentication routes promise and where they do not keep it: where the refresh token goes, what the
answers tell about who has an account, and what is over after a logout.\<close>

section \<open>Refreshing\<close>

lemma refresh_Ok:
  assumes "refresh env raw ctx db = (Ok r, db')"
  obtains session db1 where "find (\<lambda>s. s_refreshTokenHash s = ax_hashToken env raw) (db_sessions db) = Some session"
    and "s_revokedAt session = None" and "getActiveRestriction (s_userId session) (ax_now env) db = (None, db1)"
    and "db' = rotate env (s_id session) ctx db1" and "ar_sessionId r = s_id session"
    and "ar_refreshToken r = ax_freshToken env"
proof -
  obtain session where f: "find (\<lambda>s. s_refreshTokenHash s = ax_hashToken env raw) (db_sessions db) = Some session"
    using assms by (auto simp: refresh_def split: option.splits)
  obtain a db1 where g: "getActiveRestriction (s_userId session) (ax_now env) db = (a, db1)" by fastforce
  show thesis
    by (rule that [OF f _ _ _ _ _, of db1])
      (use assms f g in \<open>auto simp: refresh_def signedIn_def split: option.splits if_splits\<close>)
qed

lemma rotate_stores:
  assumes "session \<in> set (db_sessions db)"
  shows "\<exists>row \<in> set (db_sessions (rotate env (s_id session) ctx db)).
    s_id row = s_id session \<and> s_refreshTokenHash row = ax_hashToken env (ax_freshToken env)"
  using assms unfolding rotate_def updateWhere_def
  by (intro bexI [of _ "session\<lparr>s_refreshTokenHash := ax_hashToken env (ax_freshToken env),
        s_rotationCounter := s_rotationCounter session + 1, s_lastUsedAt := ax_now env,
        s_expiresAt := refreshTokenExpiry (ax_now env), s_ipHash := ax_hashIp env (sc_ip ctx)\<rparr>"])
     (simp, force)

text \<open>The cookie is sealed only against requests that do not ask. Two refresh requests that carry the same
cookie and nothing else differ only in the \<^verbatim>\<open>client=native\<close> flag of the address, which any script of the page
chooses. Without it the new refresh token is in the cookie and not in the body; with it the body carries the
token, and that token is stored as the session's.\<close>

theorem native_flag_unseals_the_cookie:
  assumes "rq_cookie request = Some c" and "c \<noteq> []"
    and "refresh (he_auth env) c (rq_context request) (as_db s) = (Ok result, db)"
  shows "fst (authRoute env PostRefresh (request\<lparr>rq_native := False\<rparr>) s) =
           \<lparr>ap_answer = Ok (RefreshedAnswer \<lparr>tk_access = ar_accessToken result, tk_expiresIn = ar_expiresIn result,
              tk_refresh = None\<rparr>), ap_cookie = SetCookie (ar_refreshToken result), ap_mails = []\<rparr> \<and>
         fst (authRoute env PostRefresh (request\<lparr>rq_native := True\<rparr>) s) =
           \<lparr>ap_answer = Ok (RefreshedAnswer \<lparr>tk_access = ar_accessToken result, tk_expiresIn = ar_expiresIn result,
              tk_refresh = Some (ar_refreshToken result)\<rparr>), ap_cookie = KeepCookie, ap_mails = []\<rparr> \<and>
         (\<exists>row \<in> set (db_sessions (as_db (snd (authRoute env PostRefresh (request\<lparr>rq_native := True\<rparr>) s)))).
            s_id row = ar_sessionId result \<and>
            s_refreshTokenHash row = ax_hashToken (he_auth env) (ar_refreshToken result))"
proof -
  obtain session db1 where f: "find (\<lambda>s. s_refreshTokenHash s = ax_hashToken (he_auth env) c) (db_sessions (as_db s)) =
      Some session"
    and g: "getActiveRestriction (s_userId session) (ax_now (he_auth env)) (as_db s) = (None, db1)"
    and db: "db = rotate (he_auth env) (s_id session) (rq_context request) db1"
    and r: "ar_sessionId result = s_id session" "ar_refreshToken result = ax_freshToken (he_auth env)"
    using assms(3) by (rule refresh_Ok)
  have "session \<in> set (db_sessions db1)"
    using f getActiveRestriction_sessions [of "s_userId session" "ax_now (he_auth env)" "as_db s"] g
    by (auto dest: find_Some_iff2)
  note stored = rotate_stores [OF this]
  show ?thesis
    using assms stored
    by (simp add: postRefresh_def presentedToken_def Let_def withCookie_def refreshCookie_def answer_def tokensOf_def
        r db)
qed

section \<open>Answers that do not tell\<close>

text \<open>The two routes that mail links do not tell who has an account. Whatever the database holds, the answer
to a request for a reset link or for another confirmation is the same, down to the cookie and the counters of the
rate limiter; only the mail differs.\<close>

theorem mail_routes_tell_nothing:
  "ap_answer (fst (authRoute env PostForgotPassword request (s\<lparr>as_db := db1\<rparr>))) =
   ap_answer (fst (authRoute env PostForgotPassword request (s\<lparr>as_db := db2\<rparr>))) \<and>
   ap_cookie (fst (authRoute env PostForgotPassword request (s\<lparr>as_db := db1\<rparr>))) =
   ap_cookie (fst (authRoute env PostForgotPassword request (s\<lparr>as_db := db2\<rparr>))) \<and>
   as_limits (snd (authRoute env PostForgotPassword request (s\<lparr>as_db := db1\<rparr>))) =
   as_limits (snd (authRoute env PostForgotPassword request (s\<lparr>as_db := db2\<rparr>))) \<and>
   ap_answer (fst (authRoute env PostResendVerification request (s\<lparr>as_db := db1\<rparr>))) =
   ap_answer (fst (authRoute env PostResendVerification request (s\<lparr>as_db := db2\<rparr>))) \<and>
   ap_cookie (fst (authRoute env PostResendVerification request (s\<lparr>as_db := db1\<rparr>))) =
   ap_cookie (fst (authRoute env PostResendVerification request (s\<lparr>as_db := db2\<rparr>))) \<and>
   as_limits (snd (authRoute env PostResendVerification request (s\<lparr>as_db := db1\<rparr>))) =
   as_limits (snd (authRoute env PostResendVerification request (s\<lparr>as_db := db2\<rparr>)))"
  by (auto simp: postForgotPassword_def postResendVerification_def limited_def withMails_def answer_def Let_def
      prod.case_eq_if split: sum.splits option.splits)

section \<open>Logging out\<close>

lemma revoked_for_an_hour:
  "now \<le> later \<Longrightarrow> later < now + ttl_revokedSession REDIS_TTL * 1000 \<Longrightarrow>
   live (revokeSession now (ttl_revokedSession REDIS_TTL) sid revoked) later sid \<noteq> None"
  by (simp add: revokeSession_def setEx_def live_def expiry_def)

text \<open>C24: A logout ends the session everywhere. From an answered logout on, for the hour that its mark lasts (four
times the life of an access token), every access token of the session is refused by the HTTP server and by the
socket server, whatever else happens to the database; and the session's refresh token opens nothing. Whoever
presents it is taken for a thief, and all the account's sessions are revoked.\<close>

theorem logout_ends_the_session:
  assumes "authRoute env PostLogout request s = (reply, s')" and "ap_answer reply = Ok a"
    and "httpNow env \<le> later" and "later < httpNow env + ttl_revokedSession REDIS_TTL * 1000"
  shows "\<exists>user. authenticate (he_verify env) (httpNow env) (as_revoked s) (as_db s) (rq_header request) = Ok user \<and>
    (\<forall>c db n t. ac_sid c = au_sessionId user \<longrightarrow>
       (\<nexists>u. resolveUser later (ValidToken c) (as_revoked s') db = Ok u) \<and>
       (\<nexists>d. authenticateSocket (\<lambda>t. ValidToken c) later n (as_revoked s') db (Some t) = Ok d)) \<and>
    (\<forall>env' raw ctx row. find (\<lambda>r. s_refreshTokenHash r = ax_hashToken env' raw) (db_sessions (as_db s')) = Some row \<and>
       s_id row = au_sessionId user \<longrightarrow>
       refresh env' raw ctx (as_db s') = (Throw (Errors_tokenInvalid (Some sessionExpired)),
         revokeAllSessions (ax_now env') (s_userId row) ''refresh-token-reuse'' (as_db s')))"
proof -
  obtain user where u: "authenticate (he_verify env) (httpNow env) (as_revoked s) (as_db s) (rq_header request) = Ok user"
    and s': "s' = s\<lparr>as_db := logout (httpNow env) (au_sessionId user) (as_db s),
       as_revoked := revokeSession (httpNow env) (ttl_revokedSession REDIS_TTL) (au_sessionId user) (as_revoked s)\<rparr>"
    using assms(1,2) by (auto simp: postLogout_def authenticated_def refusal_def split: sum.splits)
  have r: "live (as_revoked s') later (au_sessionId user) \<noteq> None"
    using assms(3,4) revoked_for_an_hour by (simp add: s')
  have rows: "s_revokedAt row \<noteq> None"
    if "row \<in> set (db_sessions (as_db s'))" and "s_id row = au_sessionId user" for row
  proof -
    have "row \<in> set (updateWhere (\<lambda>q. s_id q = au_sessionId user)
        (\<lambda>q. q\<lparr>s_revokedAt := Some (httpNow env), s_revokedReason := Some ''logout''\<rparr>) (db_sessions (as_db s)))"
      using that(1) by (simp add: s' logout_def)
    then obtain q where "row = (if s_id q = au_sessionId user
        then q\<lparr>s_revokedAt := Some (httpNow env), s_revokedReason := Some ''logout''\<rparr> else q)"
      unfolding set_updateWhere by blast
    with that(2) show ?thesis by (cases "s_id q = au_sessionId user") simp_all
  qed
  have thief: "refresh env' raw ctx (as_db s') = (Throw (Errors_tokenInvalid (Some sessionExpired)),
      revokeAllSessions (ax_now env') (s_userId row) ''refresh-token-reuse'' (as_db s'))"
    if "find (\<lambda>r. s_refreshTokenHash r = ax_hashToken env' raw) (db_sessions (as_db s')) = Some row"
      and "s_id row = au_sessionId user" for env' raw ctx row
  proof -
    have "s_revokedAt row \<noteq> None" using rows that by (metis find_Some_iff2)
    then show ?thesis using that(1) by (simp add: refresh_def)
  qed
  show ?thesis
    by (rule exI [of _ user]) (use u r thief in \<open>auto simp: resolveUser_def authenticateSocket_def\<close>)
qed

section \<open>Examples\<close>

definition exampleHttp :: "instant \<Rightarrow> HttpEnv" where
  "exampleHttp now = \<lparr>he_auth = exampleAuth now, he_verify = (\<lambda>t. ValidToken gateClaims),
     he_formats = exampleFormats, he_clock = exampleClock, he_config = exampleConfig, he_redisUp = True,
     he_stored = None, he_prefix = ''t2w''\<rparr>"

definition authSiteOf :: "Db \<Rightarrow> AuthSite" where
  "authSiteOf db = \<lparr>as_db = db, as_tokens = exampleTokenDb, as_revoked = (\<lambda>k. None), as_limits = None,
     as_cache = \<lparr>sk_memory = None, sk_redis = (\<lambda>k. None)\<rparr>\<rparr>"

definition cookieRequest :: HttpRequest where
  "cookieRequest = \<lparr>rq_context = exampleContext, rq_native = False, rq_cookie = Some ''old'',
     rq_header = Some ''bearer tok'', rq_body = Undefined\<rparr>"

lemma native_flag_unseals_the_cookie_witness:
  "\<exists>token. ap_answer (fst (authRoute (exampleHttp 5) PostRefresh (cookieRequest\<lparr>rq_native := True\<rparr>)
      (authSiteOf exampleAccount))) = Ok (RefreshedAnswer token) \<and> tk_refresh token \<noteq> None"
proof -
  obtain r db where "refresh (exampleAuth 5) ''old'' exampleContext exampleAccount = (Ok r, db)"
    by (simp add: refresh_def exampleAccount_def exampleSession_def exampleRow_def getActiveRestriction_def
        signedIn_def issueAccessToken_def)
  then have "refresh (he_auth (exampleHttp 5)) ''old'' (rq_context cookieRequest) (as_db (authSiteOf exampleAccount)) =
      (Ok r, db)"
    by (simp add: exampleHttp_def cookieRequest_def authSiteOf_def)
  from native_flag_unseals_the_cookie [OF _ _ this] show ?thesis by (simp add: cookieRequest_def)
qed

lemma logout_ends_the_session_witness:
  "\<nexists>u. resolveUser 3600004 (ValidToken gateClaims)
     (as_revoked (snd (authRoute (exampleHttp 5) PostLogout cookieRequest (authSiteOf gateDb)))) gateDb = Ok u"
proof -
  have bearer: "extractBearerToken (Some ''bearer tok'') = Some ''tok''"
    by (simp add: extractBearerToken_def isJsSpace_def lowerAscii_def Let_def)
  have user: "authenticate (he_verify (exampleHttp 5)) (httpNow (exampleHttp 5)) (as_revoked (authSiteOf gateDb))
      (as_db (authSiteOf gateDb)) (rq_header cookieRequest) =
    Ok \<lparr>au_id = ''u'', au_role = UserRole_USER, au_plan = u_plan gateUser, au_sessionId = ''s''\<rparr>"
    by (simp add: authenticate_def exampleHttp_def cookieRequest_def authSiteOf_def bearer resolveUser_def
        gateClaims_def gateDb_def gateUser_def exampleRow_def live_def)
  have answered: "ap_answer (fst (authRoute (exampleHttp 5) PostLogout cookieRequest (authSiteOf gateDb))) = Ok MessageAnswer"
    using user by (simp add: postLogout_def authenticated_def withCookie_def answer_def)
  have sid: "ac_sid gateClaims = ''s''" by (simp add: gateClaims_def)
  show ?thesis
    using logout_ends_the_session [OF prod.collapse [symmetric] answered, of 3600004] user sid
    by (auto simp: exampleHttp_def httpNow_def REDIS_TTL_def)
qed

end
