(* ===== verification/Http_Server.thy ===== *)
theory Http_Server
  imports Payloads Profile Settings Turn Tokens
begin

text \<open>The HTTP server around the routes (\<^verbatim>\<open>apps/api/src/server.ts\<close>): the maintenance hook and the one place
where thrown errors become answers; and the routes with no theory of their own: relay credentials
(\<^verbatim>\<open>ice.routes.ts\<close>), health (\<^verbatim>\<open>health.routes.ts\<close>), tokens and payments (\<^verbatim>\<open>tokens.routes.ts\<close>). The payment provider
is a parameter: what it answers to a new checkout, and which bytes it signed.\<close>

section \<open>Errors\<close>

definition Errors_featureDisabled :: "string \<Rightarrow> AppError" where
  "Errors_featureDisabled feature = appError FEATURE_DISABLED (feature @ '' is not available.'')"

definition Errors_maintenance :: AppError where
  "Errors_maintenance = appError MAINTENANCE ''Trip2World is undergoing maintenance. Back shortly.''"

text \<open>\<^verbatim>\<open>toApiError\<close> of \<^verbatim>\<open>tokens.service.ts\<close>, given the message the error was thrown with.\<close>

fun toApiError :: "TokenErrorCode \<Rightarrow> string \<Rightarrow> AppError" where
  "toApiError INSUFFICIENT_FUNDS message = Errors_conflict message"
| "toApiError SELF_TIP message = Errors_conflict message"
| "toApiError ALREADY_ANSWERED message = Errors_conflict message"
| "toApiError NO_OFFER message = Errors_conflict message"
| "toApiError INVALID_AMOUNT message = Errors_validation"
| "toApiError TOKEN_FORBIDDEN message = Errors_forbiddenWith message"
| "toApiError TOKEN_NOT_FOUND message = Errors_notFound ''That item''"

text \<open>What a handler can throw: an \<^verbatim>\<open>AppError\<close>, an error of the ledger, of zod, of Fastify (its code, status and
text), or anything else with its text.\<close>

datatype Thrown =
    ThrownApp AppError
  | ThrownToken TokenErrorCode string
  | ThrownZod
  | ThrownFastify string "nat option" string
  | ThrownOther string

text \<open>The error handler. The answer is a status with the body; the text of a malformed request is among the
details, which are the third component.\<close>

definition errorHandler :: "Thrown \<Rightarrow> nat \<times> (ApiErrorCode \<times> string \<times> int option) \<times> string option" where
  "errorHandler thrown =
     (let plain = (\<lambda>e. (statusCode e, toResponse e, None)) in
      case thrown of
        ThrownApp e \<Rightarrow> plain e
      | ThrownToken code message \<Rightarrow> plain (toApiError code message)
      | ThrownZod \<Rightarrow> plain Errors_validation
      | ThrownFastify code status message \<Rightarrow>
          if code = ''FST_ERR_CTP_BODY_TOO_LARGE''
          then plain (appError PAYLOAD_TOO_LARGE ''That request is too large.'')
          else (case status of
                  Some n \<Rightarrow>
                    if n \<noteq> 0 \<and> 400 \<le> n \<and> n < 500
                    then (statusCode Errors_validation, toResponse Errors_validation, Some message)
                    else plain Errors_internal
                | None \<Rightarrow> plain Errors_internal)
      | ThrownOther message \<Rightarrow> plain Errors_internal)"

definition notFoundHandler :: "nat \<times> (ApiErrorCode \<times> string \<times> int option)" where
  "notFoundHandler = (let e = Errors_notFound ''That endpoint'' in (statusCode e, toResponse e))"

section \<open>Maintenance\<close>

definition startsWith :: "string \<Rightarrow> string \<Rightarrow> bool" where
  "startsWith pfx s \<longleftrightarrow> take (length pfx) s = pfx"

text \<open>The hook in front of every route, on the request's address as sent, query included.\<close>

definition maintenanceHook ::
    "instant \<Rightarrow> AppConfig \<Rightarrow> bool \<Rightarrow> StoredSettings option \<Rightarrow> string \<Rightarrow> SettingsCache \<Rightarrow>
     (AppError + unit) \<times> SettingsCache" where
  "maintenanceHook now config redisUp stored url cache =
     (if \<not> startsWith ''/api'' url then (Ok (), cache)
      else if includesText url ''/health'' \<or> includesText url ''/ready'' then (Ok (), cache)
      else if startsWith ''/api/v1/admin'' url then (Ok (), cache)
      else let (current, cache1) = getSettings now config redisUp stored cache
           in (throwIf (ss_maintenanceMode current) Errors_maintenance, cache1))"

section \<open>Relay credentials\<close>

record IceAnswer =
  ia_iceServers :: "IceServerConfig list"
  ia_ttlSeconds :: nat
  ia_relayAvailable :: bool

definition PUBLIC_STUN_FALLBACKS :: "string list" where
  "PUBLIC_STUN_FALLBACKS = [''stun:stun.l.google.com:19302'', ''stun:stun1.l.google.com:19302'']"

text \<open>\<^verbatim>\<open>GET /ice/servers\<close>; the relay is configured when its host is, and \<open>fallback\<close> is
\<^verbatim>\<open>USE_PUBLIC_STUN_FALLBACK && !isProduction\<close>.\<close>

definition iceRoute ::
    "(string \<Rightarrow> string \<Rightarrow> string) \<Rightarrow> instant \<Rightarrow> TurnConfig option \<Rightarrow> bool \<Rightarrow> AuthenticatedUser \<Rightarrow> AppError + IceAnswer" where
  "iceRoute hmac now turn fallback user =
     (case turn of
        None \<Rightarrow>
          if fallback
          then Ok \<lparr>ia_iceServers = [\<lparr>ic_urls = PUBLIC_STUN_FALLBACKS, ic_username = None, ic_credential = None\<rparr>],
                   ia_ttlSeconds = TURN_CREDENTIAL_TTL_SECONDS, ia_relayAvailable = False\<rparr>
          else Throw Errors_internal
      | Some config \<Rightarrow>
          (case buildIceServers hmac now (au_id user) (config\<lparr>tc_ttlSeconds := Some TURN_CREDENTIAL_TTL_SECONDS\<rparr>) of
             None \<Rightarrow> Throw Errors_internal
           | Some servers \<Rightarrow> Ok \<lparr>ia_iceServers = servers, ia_ttlSeconds = TURN_CREDENTIAL_TTL_SECONDS,
                                 ia_relayAvailable = True\<rparr>))"

section \<open>Health\<close>

text \<open>\<^verbatim>\<open>/ready\<close>: a probe that fails or does not answer in time is \<open>False\<close>.\<close>

definition readyStatus :: "bool \<Rightarrow> bool \<Rightarrow> nat" where
  "readyStatus dbOk redisOk = (if dbOk \<and> redisOk then 200 else 503)"

record Metrics =
  me_users :: nat
  me_activeSessions :: nat
  me_online :: nat
  me_pendingReports :: nat

definition metrics :: "instant \<Rightarrow> bool \<Rightarrow> World \<Rightarrow> Metrics" where
  "metrics now redisUp w =
     \<lparr>me_users = length (filter (\<lambda>i. case db_users (w_db w) i of None \<Rightarrow> False
         | Some u \<Rightarrow> u_deletedAt u = None) (db_userIds (w_db w))),
      me_activeSessions = length (filter (\<lambda>s. s_revokedAt s = None \<and> now < s_expiresAt s) (db_sessions (w_db w))),
      me_online = (if redisUp then length (rd_onlineSet (w_redis w)) else 0),
      me_pendingReports = length (filter (\<lambda>r. r_status r = ReportStatus_PENDING) (db_reports (w_db w)))\<rparr>"

section \<open>Tokens and payments\<close>

record StripeEvent =
  ev_id :: string
  ev_type :: string
  ev_sessionId :: string
  ev_paymentStatus :: string

record Billing =
  bl_secretKey :: string
  bl_webhookSecret :: string
  bl_constructEvent :: "string \<Rightarrow> string \<Rightarrow> string \<Rightarrow> StripeEvent option"
  bl_createSession :: "user_id \<Rightarrow> PackageRow \<Rightarrow> (string \<times> string) option"
  bl_freshId :: row_id

text \<open>A failure of the ledger as the error handler answers it; the message of a missing package is the only one
these routes can meet.\<close>

definition tokenFailure :: "TokenFailure \<Rightarrow> AppError" where
  "tokenFailure f =
     (case f of
        TokenError code \<Rightarrow> toApiError code ''That package is not available.''
      | other \<Rightarrow> Errors_internal)"

definition balanceRoute :: "AuthenticatedUser \<Rightarrow> TokenDb \<Rightarrow> (AppError + TokenAccount) \<times> TokenDb" where
  "balanceRoute user td =
     (case getBalance (au_id user) td of
        Inl e \<Rightarrow> (Throw (tokenFailure e), td) | Inr (account, td') \<Rightarrow> (Ok account, td'))"

definition packagesRoute :: "Billing \<Rightarrow> TokenDb \<Rightarrow> PackageRow list \<times> bool" where
  "packagesRoute billing td = (listPackages td, bl_secretKey billing \<noteq> [])"

definition historyRoute ::
    "Formats \<Rightarrow> AuthenticatedUser \<Rightarrow> raw \<Rightarrow> TokenDb \<Rightarrow> AppError + LedgerRow list \<times> nat \<times> bool" where
  "historyRoute fm user query td =
     andThen (parse (paginationSchema fm) query) (\<lambda>(page, pageSize). Ok (history (au_id user) page pageSize td))"

text \<open>\<^verbatim>\<open>POST /checkout\<close>, behind its rate limit: the address to pay at.\<close>

definition checkout ::
    "Billing \<Rightarrow> Formats \<Rightarrow> AuthenticatedUser \<Rightarrow> raw \<Rightarrow> TokenDb \<Rightarrow> (AppError + string) \<times> TokenDb" where
  "checkout billing fm user body td =
     (if bl_secretKey billing = [] then (Throw (Errors_featureDisabled ''Buying tokens''), td)
      else case parse (buyTokensSchema fm) body of
        Inl e \<Rightarrow> (Throw e, td)
      | Inr packageId \<Rightarrow>
          (case find (\<lambda>p. pk_id p = packageId) (listPackages td) of
             None \<Rightarrow> (Throw (Errors_notFound ''That package''), td)
           | Some chosen \<Rightarrow>
               (case bl_createSession billing (au_id user) chosen of
                  None \<Rightarrow> (Throw Errors_internal, td)
                | Some (sessionId, url) \<Rightarrow>
                    (case createPurchase (bl_freshId billing) (au_id user) (pk_id chosen) sessionId td of
                       Inl e \<Rightarrow> (Throw (tokenFailure e), td)
                     | Inr (purchaseId, td') \<Rightarrow> (Ok url, td')))))"

text \<open>\<^verbatim>\<open>POST /webhook\<close>, with the signature header and the raw body.\<close>

definition webhook :: "Billing \<Rightarrow> string option \<Rightarrow> string option \<Rightarrow> TokenDb \<Rightarrow> (AppError + unit) \<times> TokenDb" where
  "webhook billing signature raw td =
     (if bl_secretKey billing = [] \<or> bl_webhookSecret billing = []
      then (Throw (Errors_featureDisabled ''Billing''), td)
      else case signature of
        None \<Rightarrow> (Throw (Errors_unauthenticated ''NO_STRIPE_SIGNATURE''), td)
      | Some sig \<Rightarrow>
          (case raw of
             None \<Rightarrow> (Throw Errors_internal, td)
           | Some bytes \<Rightarrow>
               (case bl_constructEvent billing bytes sig (bl_webhookSecret billing) of
                  None \<Rightarrow> (Throw (Errors_unauthenticated ''BAD_STRIPE_SIGNATURE''), td)
                | Some event \<Rightarrow>
                    if ev_type event = ''checkout.session.completed'' \<and> ev_paymentStatus event = ''paid''
                    then (case fulfilPurchase (ev_sessionId event) (ev_id event) td of
                            Inl e \<Rightarrow> (Throw (tokenFailure e), td)
                          | Inr (credited, td') \<Rightarrow> (Ok (), td'))
                    else (Ok (), td))))"

end
