(* ===== verification/Http_Safety.thy ===== *)
theory Http_Safety
  imports Http_Server
begin

text \<open>What the payment routes and the hook in front of all routes guarantee, and where they fall short: credits
come only from signed and paid events, a payment that completes late is never credited, and the maintenance hook
can be talked out of its refusal by the address.\<close>

section \<open>One delivery\<close>

text \<open>The event that \<open>webhook\<close> acts on.\<close>

definition paidEvent :: "Billing \<Rightarrow> string option \<Rightarrow> string option \<Rightarrow> StripeEvent \<Rightarrow> bool" where
  "paidEvent billing signature raw event \<longleftrightarrow>
     (\<exists>sig bytes. signature = Some sig \<and> raw = Some bytes \<and> bl_webhookSecret billing \<noteq> [] \<and>
        bl_constructEvent billing bytes sig (bl_webhookSecret billing) = Some event) \<and>
     ev_type event = ''checkout.session.completed'' \<and> ev_paymentStatus event = ''paid''"

lemma webhook_cases:
  obtains (idle) r where "webhook billing signature raw td = (r, td)"
  | (credits) event p td' where "webhook billing signature raw td = (Ok (), td')"
      and "paidEvent billing signature raw event" and "fulfilRead (ev_sessionId event) td = Some p"
      and "fulfilWrite p (ev_id event) td = Ok td'"
proof (cases "\<exists>event. paidEvent billing signature raw event \<and>
    snd (webhook billing signature raw td) \<noteq> td")
  case True
  then obtain event where e: "paidEvent billing signature raw event"
    "snd (webhook billing signature raw td) \<noteq> td" by blast
  obtain p where "fulfilRead (ev_sessionId event) td = Some p"
    using e by (cases "fulfilRead (ev_sessionId event) td")
      (auto simp: paidEvent_def webhook_def fulfilPurchase_def split: if_splits)
  moreover obtain td' where "fulfilWrite p (ev_id event) td = Ok td'"
    using e calculation by (cases "fulfilWrite p (ev_id event) td")
      (auto simp: paidEvent_def webhook_def fulfilPurchase_def split: if_splits TokenFailure.splits)
  ultimately show thesis
    using e by (intro credits [of td' event p])
      (auto simp: paidEvent_def webhook_def fulfilPurchase_def split: if_splits)
next
  case False
  have "snd (webhook billing signature raw td) = td"
  proof (rule ccontr)
    assume c: "snd (webhook billing signature raw td) \<noteq> td"
    then obtain event where "paidEvent billing signature raw event"
      by (auto simp: webhook_def paidEvent_def split: if_splits option.splits)
    with False c show False by blast
  qed
  then show thesis by (intro idle [of "fst (webhook billing signature raw td)"]) (metis prod.collapse)
qed

section \<open>Payments\<close>

text \<open>C8: Tokens come only from paid, signed events. If a delivery to the webhook, by whomever, changes the token
tables at all, then its bytes carry the provider's signature under the configured secret, the event is a completed
and paid session, a purchase was recorded for that session and not yet completed, and what changes is its owner's
balance, by exactly the tokens bought; the books stay balanced.\<close>

theorem webhook_credits_only_what_was_paid:
  assumes "webhook billing signature raw td = (r, td')" and "td' \<noteq> td" and "tokenInv td"
  shows "\<exists>event p. paidEvent billing signature raw event \<and> p \<in> set (td_purchases td) \<and>
    pu_providerRef p = ev_sessionId event \<and> pu_status p \<noteq> PurchaseStatus_COMPLETED \<and>
    balanceOf td' = (balanceOf td)(pu_userId p := balanceOf td (pu_userId p) + pu_tokens p) \<and> tokenInv td'"
proof (cases rule: webhook_cases [of billing signature raw td])
  case (credits event p td'')
  then have "td'' = td'" using assms(1) by simp
  note p = fulfilRead_Some [OF credits(3)]
  then have "0 \<le> pu_tokens p" using assms(3) by (auto simp: tokenInv_def amountsOk_def)
  note e = fulfilWrite_effect [OF credits(4) assms(3) this]
  show ?thesis using credits(2) p e \<open>td'' = td'\<close> by blast
qed (use assms in auto)

text \<open>Deliveries in order, each a signature and the bytes.\<close>

definition deliver :: "Billing \<Rightarrow> (string \<times> string) list \<Rightarrow> TokenDb \<Rightarrow> TokenDb" where
  "deliver billing deliveries td =
     fold (\<lambda>(sig, bytes) td. snd (webhook billing (Some sig) (Some bytes) td)) deliveries td"

definition purchasesOf :: "string \<Rightarrow> TokenDb \<Rightarrow> PurchaseRow list" where
  "purchasesOf ref td = filter (\<lambda>p. pu_providerRef p = ref) (td_purchases td)"

definition creditsOf :: "PurchaseRow list \<Rightarrow> TokenDb \<Rightarrow> LedgerRow list" where
  "creditsOf ps td = filter (\<lambda>l. lg_purchaseId l \<in> Some ` pu_id ` set ps) (td_ledger td)"

lemma fulfilWrite_elsewhere:
  assumes "fulfilWrite p ev td = Ok td'" and "p \<in> set (td_purchases td)" and "pu_providerRef p \<noteq> ref"
    and d: "distinct (map pu_id (td_purchases td))"
  shows "purchasesOf ref td' = purchasesOf ref td" and "map pu_id (td_purchases td') = map pu_id (td_purchases td)"
    and "creditsOf (purchasesOf ref td) td' = creditsOf (purchasesOf ref td) td"
proof -
  let ?f = "\<lambda>q. q\<lparr>pu_status := PurchaseStatus_COMPLETED, pu_providerEventId := Some ev\<rparr>"
  obtain b td2 where c: "credit (pu_userId p) (pu_tokens p) 0 (pu_tokens p)
      (td\<lparr>td_purchases := updateWhere (\<lambda>q. pu_id q = pu_id p) ?f (td_purchases td)\<rparr>) = Inr (b, td2)"
    and td': "td' = appendLedger ((ledgerRow (pu_userId p) (pu_tokens p) PURCHASE b)\<lparr>lg_purchaseId := Some (pu_id p)\<rparr>) td2"
    using fulfilWrite_Ok [OF assms(1)] by blast
  have rows: "td_purchases td' = updateWhere (\<lambda>q. pu_id q = pu_id p) ?f (td_purchases td)"
    "td_ledger td' = td_ledger td @ [(ledgerRow (pu_userId p) (pu_tokens p) PURCHASE b)\<lparr>lg_purchaseId := Some (pu_id p)\<rparr>]"
    using c by (auto simp: td' appendLedger_def guard_simps)
  have other: "pu_id q \<noteq> pu_id p" if "q \<in> set (td_purchases td)" "pu_providerRef q = ref" for q
    using that assms(2,3) d by (metis distinct_map inj_onD)
  have "filter (\<lambda>q. pu_providerRef q = ref) (updateWhere (\<lambda>q. pu_id q = pu_id p) ?f qs) =
      filter (\<lambda>q. pu_providerRef q = ref) qs" if "set qs \<subseteq> set (td_purchases td)" for qs
    using that other by (induction qs) (auto simp: updateWhere_def)
  then show "purchasesOf ref td' = purchasesOf ref td" by (simp add: purchasesOf_def rows)
  show "map pu_id (td_purchases td') = map pu_id (td_purchases td)" by (simp add: rows)
  have "pu_id p \<notin> pu_id ` set (purchasesOf ref td)"
  proof
    assume "pu_id p \<in> pu_id ` set (purchasesOf ref td)"
    then obtain q where "q \<in> set (purchasesOf ref td)" and "pu_id q = pu_id p" by (metis imageE)
    then show False using other [of q] by (simp add: purchasesOf_def)
  qed
  then show "creditsOf (purchasesOf ref td) td' = creditsOf (purchasesOf ref td) td"
    by (auto simp: creditsOf_def rows)
qed

text \<open>A payment that completes late is never credited. As long as the deliveries for a session hold no event
that is both completed and paid, and the provider's news that a delayed payment has come through is not one,
the purchase stays as it was and no tokens are booked for it, whatever else is delivered.\<close>

theorem delayed_payment_is_never_credited:
  assumes "distinct (map pu_id (td_purchases td))"
    and "\<forall>(sig, bytes) \<in> set deliveries. \<forall>event. paidEvent billing (Some sig) (Some bytes) event \<longrightarrow>
           ev_sessionId event \<noteq> ref"
  shows "purchasesOf ref (deliver billing deliveries td) = purchasesOf ref td \<and>
         creditsOf (purchasesOf ref td) (deliver billing deliveries td) = creditsOf (purchasesOf ref td) td"
  using assms
proof (induction deliveries arbitrary: td)
  case Nil
  show ?case by (simp add: deliver_def)
next
  case (Cons d deliveries)
  obtain sig bytes where [simp]: "d = (sig, bytes)" by (cases d)
  let ?td = "snd (webhook billing (Some sig) (Some bytes) td)"
  have rest: "deliver billing (d # deliveries) td = deliver billing deliveries ?td" by (simp add: deliver_def)
  have step: "purchasesOf ref ?td = purchasesOf ref td \<and> map pu_id (td_purchases ?td) = map pu_id (td_purchases td) \<and>
      creditsOf (purchasesOf ref td) ?td = creditsOf (purchasesOf ref td) td"
  proof (cases rule: webhook_cases [of billing "Some sig" "Some bytes" td])
    case (credits event p td')
    then have "ev_sessionId event \<noteq> ref" using Cons.prems(2) by auto
    then have "p \<in> set (td_purchases td)" "pu_providerRef p \<noteq> ref" using fulfilRead_Some [OF credits(3)] by auto
    from fulfilWrite_elsewhere [OF credits(4) this Cons.prems(1)] credits(1) show ?thesis by simp
  qed simp
  then show ?case using Cons.IH [of ?td] Cons.prems unfolding rest by simp
qed

section \<open>Maintenance\<close>

lemma includesText_append: "includesText (s @ needle) needle"
  by (induction s) (cases needle, auto)

text \<open>Maintenance closes the service to those who do not say \<^verbatim>\<open>/health\<close>. When the settings put the service into
maintenance every address under \<^verbatim>\<open>/api\<close> outside the administration and the probes is refused; but the hook looks for
the names of the probes anywhere in the address, query included, so the same address with \<^verbatim>\<open>?/health\<close> behind it is
let through, to any route and in any settings.\<close>

theorem maintenance_has_a_back_door:
  assumes "startsWith ''/api'' url" and "\<not> includesText url ''/health''" and "\<not> includesText url ''/ready''"
    and "\<not> startsWith ''/api/v1/admin'' url"
    and "ss_maintenanceMode (fst (getSettings now config up stored cache))"
  shows "fst (maintenanceHook now config up stored url cache) = Throw Errors_maintenance \<and>
         maintenanceHook now config up stored (url @ ''?/health'') cache = (Ok (), cache)"
proof
  show "fst (maintenanceHook now config up stored url cache) = Throw Errors_maintenance"
    using assms by (simp add: maintenanceHook_def throwIf_def case_prod_beta)
  have "includesText (url @ ''?/health'') ''/health''"
    using includesText_append [of "url @ ''?''" "''/health''"] by simp
  then show "maintenanceHook now config up stored (url @ ''?/health'') cache = (Ok (), cache)"
    by (simp add: maintenanceHook_def)
qed

section \<open>Examples\<close>

definition exampleBilling :: Billing where
  "exampleBilling = \<lparr>bl_secretKey = ''sk'', bl_webhookSecret = ''wh'',
     bl_constructEvent = (\<lambda>bytes sig secret. if sig \<noteq> secret then None
       else if bytes = ''done''
       then Some \<lparr>ev_id = ''ev_1'', ev_type = ''checkout.session.completed'', ev_sessionId = ''cs_1'', ev_paymentStatus = ''paid''\<rparr>
       else if bytes = ''delayed''
       then Some \<lparr>ev_id = ''ev_1'', ev_type = ''checkout.session.completed'', ev_sessionId = ''cs_1'', ev_paymentStatus = ''unpaid''\<rparr>
       else if bytes = ''late''
       then Some \<lparr>ev_id = ''ev_2'', ev_type = ''checkout.session.async_payment_succeeded'', ev_sessionId = ''cs_1'',
                  ev_paymentStatus = ''paid''\<rparr>
       else None),
     bl_createSession = (\<lambda>user package. Some (''cs_1'', ''https://pay'')), bl_freshId = ''p1''\<rparr>"

lemma webhook_credits_only_what_was_paid_witness:
  "\<exists>td'. webhook exampleBilling (Some ''wh'') (Some ''done'') exampleTokenDb = (Ok (), td') \<and>
     balanceOf td' ''ana'' = balanceOf exampleTokenDb ''ana'' + 100"
proof -
  obtain td' where f: "fulfilPurchase ''cs_1'' ''ev_1'' exampleTokenDb = Ok (True, td')" using exampleFulfil by blast
  then have w: "webhook exampleBilling (Some ''wh'') (Some ''done'') exampleTokenDb = (Ok (), td')"
    by (simp add: webhook_def exampleBilling_def)
  have "td' \<noteq> exampleTokenDb"
    using f by (auto simp: fulfilPurchase_def fulfilRead_def fulfilWrite_def exampleTokenDb_def emptyTokenDb_def
      credit_def Let_def creditedAccount_def fitsInt4_def INT4_MAX_def appendLedger_def)
  from webhook_credits_only_what_was_paid [OF w this exampleTokenDb_inv] obtain p
    where "p \<in> set (td_purchases exampleTokenDb)"
      and "balanceOf td' = (balanceOf exampleTokenDb)(pu_userId p := balanceOf exampleTokenDb (pu_userId p) + pu_tokens p)"
    by blast
  with w show ?thesis by (auto simp: exampleTokenDb_def)
qed

lemma delayed_payment_is_never_credited_witness:
  "purchasesOf ''cs_1'' (deliver exampleBilling [(''wh'', ''delayed''), (''wh'', ''late'')] exampleTokenDb) =
   td_purchases exampleTokenDb"
proof -
  have "purchasesOf ''cs_1'' (deliver exampleBilling [(''wh'', ''delayed''), (''wh'', ''late'')] exampleTokenDb) =
      purchasesOf ''cs_1'' exampleTokenDb"
    using delayed_payment_is_never_credited [of exampleTokenDb "[(''wh'', ''delayed''), (''wh'', ''late'')]"
        exampleBilling "''cs_1''"]
    by (simp add: paidEvent_def exampleBilling_def exampleTokenDb_def)
  then show ?thesis by (simp add: purchasesOf_def exampleTokenDb_def)
qed

lemma maintenance_has_a_back_door_witness:
  "fst (maintenanceHook 5 exampleConfig True None ''/api/v1/me?/health''
     \<lparr>sk_memory = Some (DEFAULT_SYSTEM_SETTINGS\<lparr>ss_maintenanceMode := True\<rparr>, 6), sk_redis = (\<lambda>k. None)\<rparr>) = Ok ()"
  using maintenance_has_a_back_door [of "''/api/v1/me''" 5 exampleConfig True None
     "\<lparr>sk_memory = Some (DEFAULT_SYSTEM_SETTINGS\<lparr>ss_maintenanceMode := True\<rparr>, 6), sk_redis = (\<lambda>k. None)\<rparr>"]
  by (simp add: startsWith_def getSettings_def)

end
