(* ===== verification/Config.thy ===== *)
theory Config
  imports Http_Server Worker_Jobs
begin

text \<open>Process configuration: the environment schemas of the three services, \<^verbatim>\<open>apps/api/src/config.ts\<close>,
\<^verbatim>\<open>apps/realtime/src/config.ts\<close> and \<^verbatim>\<open>apps/worker/src/main.ts\<close>, the origins a browser may call from, the
worker's schedule, and the matchmaking settings the realtime process keeps (\<^verbatim>\<open>apps/realtime/src/main.ts\<close>). An
environment maps names to texts. \<^const>\<open>None\<close> is the process printing its complaints and exiting.\<close>

section \<open>Reading variables\<close>

type_synonym environment = "string \<rightharpoonup> string"

definition envVar :: "environment \<Rightarrow> string \<Rightarrow> raw" where
  "envVar source name = (case source name of None \<Rightarrow> Undefined | Some s \<Rightarrow> Text s)"

definition PLACEHOLDER_VALUES :: "string list" where
  "PLACEHOLDER_VALUES = [''CHANGE_ME'', ''changeme'', ''secret'', ''password'', []]"

definition PLACEHOLDERS :: "string list" where
  "PLACEHOLDERS = [''CHANGE_ME'', ''changeme'', ''secret'', []]"

text \<open>\<^verbatim>\<open>strongSecret\<close> of both services, over their lists of placeholders.\<close>

definition strongSecret :: "string list \<Rightarrow> string schema" where
  "strongSecret placeholders = zRefine (\<lambda>v. 32 \<le> length v \<and> trimString v \<notin> set placeholders) zString"

fun booleanish :: "bool schema" where
  "booleanish (Bool b) = Some b"
| "booleanish (Text s) = Some (toLowerCase (trimString s) = ''true'')"
| "booleanish v = None"

definition csv :: "string list schema" where
  "csv = zMap (\<lambda>v. filter (\<lambda>s. s \<noteq> []) (map trimString (splitOn (CHR '','') v))) zString"

definition envOptional :: "'a schema \<Rightarrow> 'a option schema" where
  "envOptional sch v = (if v = Undefined \<or> v = Text [] then Some None else map_option Some (sch v))"

text \<open>\<^verbatim>\<open>z.coerce.number().int()\<close> with a check.\<close>

definition envInt :: "Formats \<Rightarrow> (int \<Rightarrow> bool) \<Rightarrow> int schema" where
  "envInt fm ok v = do { q \<leftarrow> fm_number fm v; if of_int \<lfloor>q\<rfloor> = q \<and> ok \<lfloor>q\<rfloor> then Some \<lfloor>q\<rfloor> else None }"

definition urlSchema :: "Formats \<Rightarrow> string schema" where
  "urlSchema fm = zRefine (fm_url fm) zString"

definition nonEmpty :: "string schema" where
  "nonEmpty = zRefine (\<lambda>s. s \<noteq> []) zString"

datatype NodeEnv = Development | Test | Production

fun nodeEnvText :: "NodeEnv \<Rightarrow> string" where
  "nodeEnvText Development = ''development''"
| "nodeEnvText Test = ''test''"
| "nodeEnvText Production = ''production''"

definition nodeEnvSchema :: "NodeEnv schema" where
  "nodeEnvSchema = zDefault Development (zEnum nodeEnvText [Development, Test, Production])"

definition logLevelSchema :: "string schema" where
  "logLevelSchema = zDefault ''info'' (zEnum id [''fatal'', ''error'', ''warn'', ''info'', ''debug'', ''trace''])"

datatype MailTransport = Smtp | Log

fun mailTransportText :: "MailTransport \<Rightarrow> string" where
  "mailTransportText Smtp = ''smtp''"
| "mailTransportText Log = ''log''"

definition mailTransportSchema :: "MailTransport schema" where
  "mailTransportSchema = zDefault Smtp (zEnum mailTransportText [Smtp, Log])"

section \<open>The API\<close>

record ApiEnv =
  ae_NODE_ENV :: NodeEnv
  ae_LOG_LEVEL :: string
  ae_PORT :: int
  ae_HOST :: string
  ae_APP_URL :: string
  ae_APP_DOMAIN :: string
  ae_ADMIN_URL :: "string option"
  ae_ADMIN_DOMAIN :: "string option"
  ae_CORS_ALLOWED_ORIGINS :: "string list"
  ae_TRUST_PROXY :: bool
  ae_DATABASE_URL :: string
  ae_REDIS_URL :: string
  ae_REDIS_PREFIX :: string
  ae_JWT_SECRET :: string
  ae_SESSION_SECRET :: string
  ae_IP_HASH_SALT :: string
  ae_TURN_SECRET :: string
  ae_TURN_DOMAIN :: "string option"
  ae_TURN_PORT :: int
  ae_TURN_TLS_PORT :: int
  ae_TURN_ENABLE_TCP :: bool
  ae_TURN_ENABLE_TLS :: bool
  ae_USE_PUBLIC_STUN_FALLBACK :: bool
  ae_SMTP_HOST :: string
  ae_SMTP_PORT :: int
  ae_SMTP_USER :: string
  ae_SMTP_PASSWORD :: string
  ae_SMTP_SECURE :: bool
  ae_MAIL_FROM :: string
  ae_MAIL_TRANSPORT :: MailTransport
  ae_GOOGLE_CLIENT_ID :: string
  ae_GOOGLE_CLIENT_SECRET :: string
  ae_APPLE_CLIENT_ID :: string
  ae_APPLE_TEAM_ID :: string
  ae_APPLE_KEY_ID :: string
  ae_APPLE_PRIVATE_KEY :: string
  ae_STRIPE_SECRET_KEY :: string
  ae_STRIPE_WEBHOOK_SECRET :: string
  ae_MINIMUM_AGE :: int
  ae_REGISTRATION_OPEN :: bool
  ae_REQUIRE_EMAIL_VERIFICATION :: bool
  ae_GUEST_ACCESS_ENABLED :: bool
  ae_MAINTENANCE_MODE :: bool
  ae_ENABLE_API_DOCS :: bool

text \<open>The object, before its cross-field rules.\<close>

definition apiEnvObject :: "Formats \<Rightarrow> environment \<Rightarrow> ApiEnv option" where
  "apiEnvObject fm source = (let e = envVar source in do {
     nodeEnv \<leftarrow> nodeEnvSchema (e ''NODE_ENV'');
     logLevel \<leftarrow> logLevelSchema (e ''LOG_LEVEL'');
     port \<leftarrow> zDefault 4000 (envInt fm (\<lambda>n. 1 \<le> n \<and> n \<le> 65535)) (e ''PORT'');
     host \<leftarrow> zDefault ''0.0.0.0'' zString (e ''HOST'');
     appUrl \<leftarrow> urlSchema fm (e ''APP_URL'');
     appDomain \<leftarrow> nonEmpty (e ''APP_DOMAIN'');
     adminUrl \<leftarrow> envOptional (urlSchema fm) (e ''ADMIN_URL'');
     adminDomain \<leftarrow> envOptional nonEmpty (e ''ADMIN_DOMAIN'');
     origins \<leftarrow> zDefault [] csv (e ''CORS_ALLOWED_ORIGINS'');
     trustProxy \<leftarrow> zDefault True booleanish (e ''TRUST_PROXY'');
     databaseUrl \<leftarrow> nonEmpty (e ''DATABASE_URL'');
     redisUrl \<leftarrow> nonEmpty (e ''REDIS_URL'');
     redisPrefix \<leftarrow> zDefault ''t2w'' zString (e ''REDIS_PREFIX'');
     jwtSecret \<leftarrow> strongSecret PLACEHOLDER_VALUES (e ''JWT_SECRET'');
     sessionSecret \<leftarrow> strongSecret PLACEHOLDER_VALUES (e ''SESSION_SECRET'');
     ipHashSalt \<leftarrow> strongSecret PLACEHOLDER_VALUES (e ''IP_HASH_SALT'');
     turnSecret \<leftarrow> strongSecret PLACEHOLDER_VALUES (e ''TURN_SECRET'');
     turnDomain \<leftarrow> envOptional nonEmpty (e ''TURN_DOMAIN'');
     turnPort \<leftarrow> zDefault 3478 (envInt fm (\<lambda>n. True)) (e ''TURN_PORT'');
     turnTlsPort \<leftarrow> zDefault 5349 (envInt fm (\<lambda>n. True)) (e ''TURN_TLS_PORT'');
     turnTcp \<leftarrow> zDefault True booleanish (e ''TURN_ENABLE_TCP'');
     turnTls \<leftarrow> zDefault False booleanish (e ''TURN_ENABLE_TLS'');
     stunFallback \<leftarrow> zDefault False booleanish (e ''USE_PUBLIC_STUN_FALLBACK'');
     smtpHost \<leftarrow> zDefault [] zString (e ''SMTP_HOST'');
     smtpPort \<leftarrow> zDefault 587 (envInt fm (\<lambda>n. True)) (e ''SMTP_PORT'');
     smtpUser \<leftarrow> zDefault [] zString (e ''SMTP_USER'');
     smtpPassword \<leftarrow> zDefault [] zString (e ''SMTP_PASSWORD'');
     smtpSecure \<leftarrow> zDefault False booleanish (e ''SMTP_SECURE'');
     mailFrom \<leftarrow> zDefault ''Trip2World <noreply@localhost>'' zString (e ''MAIL_FROM'');
     mailTransport \<leftarrow> mailTransportSchema (e ''MAIL_TRANSPORT'');
     googleId \<leftarrow> zDefault [] zString (e ''GOOGLE_CLIENT_ID'');
     googleSecret \<leftarrow> zDefault [] zString (e ''GOOGLE_CLIENT_SECRET'');
     appleClient \<leftarrow> zDefault [] zString (e ''APPLE_CLIENT_ID'');
     appleTeam \<leftarrow> zDefault [] zString (e ''APPLE_TEAM_ID'');
     appleKey \<leftarrow> zDefault [] zString (e ''APPLE_KEY_ID'');
     applePrivate \<leftarrow> zDefault [] zString (e ''APPLE_PRIVATE_KEY'');
     stripeSecret \<leftarrow> zDefault [] zString (e ''STRIPE_SECRET_KEY'');
     stripeWebhook \<leftarrow> zDefault [] zString (e ''STRIPE_WEBHOOK_SECRET'');
     minimumAge \<leftarrow> zDefault 18 (envInt fm (\<lambda>n. 18 \<le> n)) (e ''MINIMUM_AGE'');
     registration \<leftarrow> zDefault True booleanish (e ''REGISTRATION_OPEN'');
     verification \<leftarrow> zDefault True booleanish (e ''REQUIRE_EMAIL_VERIFICATION'');
     guests \<leftarrow> zDefault False booleanish (e ''GUEST_ACCESS_ENABLED'');
     maintenance \<leftarrow> zDefault False booleanish (e ''MAINTENANCE_MODE'');
     docs \<leftarrow> zDefault False booleanish (e ''ENABLE_API_DOCS'');
     Some \<lparr>ae_NODE_ENV = nodeEnv, ae_LOG_LEVEL = logLevel, ae_PORT = port, ae_HOST = host, ae_APP_URL = appUrl,
       ae_APP_DOMAIN = appDomain, ae_ADMIN_URL = adminUrl, ae_ADMIN_DOMAIN = adminDomain,
       ae_CORS_ALLOWED_ORIGINS = origins, ae_TRUST_PROXY = trustProxy, ae_DATABASE_URL = databaseUrl,
       ae_REDIS_URL = redisUrl, ae_REDIS_PREFIX = redisPrefix, ae_JWT_SECRET = jwtSecret,
       ae_SESSION_SECRET = sessionSecret, ae_IP_HASH_SALT = ipHashSalt, ae_TURN_SECRET = turnSecret,
       ae_TURN_DOMAIN = turnDomain, ae_TURN_PORT = turnPort, ae_TURN_TLS_PORT = turnTlsPort,
       ae_TURN_ENABLE_TCP = turnTcp, ae_TURN_ENABLE_TLS = turnTls, ae_USE_PUBLIC_STUN_FALLBACK = stunFallback,
       ae_SMTP_HOST = smtpHost, ae_SMTP_PORT = smtpPort, ae_SMTP_USER = smtpUser, ae_SMTP_PASSWORD = smtpPassword,
       ae_SMTP_SECURE = smtpSecure, ae_MAIL_FROM = mailFrom, ae_MAIL_TRANSPORT = mailTransport,
       ae_GOOGLE_CLIENT_ID = googleId, ae_GOOGLE_CLIENT_SECRET = googleSecret, ae_APPLE_CLIENT_ID = appleClient,
       ae_APPLE_TEAM_ID = appleTeam, ae_APPLE_KEY_ID = appleKey, ae_APPLE_PRIVATE_KEY = applePrivate,
       ae_STRIPE_SECRET_KEY = stripeSecret, ae_STRIPE_WEBHOOK_SECRET = stripeWebhook, ae_MINIMUM_AGE = minimumAge,
       ae_REGISTRATION_OPEN = registration, ae_REQUIRE_EMAIL_VERIFICATION = verification,
       ae_GUEST_ACCESS_ENABLED = guests, ae_MAINTENANCE_MODE = maintenance, ae_ENABLE_API_DOCS = docs\<rparr> })"

text \<open>The cross-field rules, as the names of the variables that are complained about.\<close>

definition secretsOf :: "ApiEnv \<Rightarrow> (string \<times> string) list" where
  "secretsOf env = [(''JWT_SECRET'', ae_JWT_SECRET env), (''SESSION_SECRET'', ae_SESSION_SECRET env),
     (''IP_HASH_SALT'', ae_IP_HASH_SALT env), (''TURN_SECRET'', ae_TURN_SECRET env)]"

fun reusedSecrets :: "(string \<rightharpoonup> string) \<Rightarrow> (string \<times> string) list \<Rightarrow> string list" where
  "reusedSecrets seen [] = []"
| "reusedSecrets seen ((name, value) # rest) =
     (if seen value = None then [] else [name]) @ reusedSecrets (seen(value \<mapsto> name)) rest"

definition productionIssues :: "ApiEnv \<Rightarrow> string list" where
  "productionIssues env =
     (if \<not> startsWith ''https://'' (ae_APP_URL env) then [''APP_URL''] else []) @
     (if ae_MAIL_TRANSPORT env = Log then [''MAIL_TRANSPORT''] else []) @
     (if ae_MAIL_TRANSPORT env = Smtp \<and> ae_SMTP_HOST env = [] then [''SMTP_HOST''] else []) @
     (if ae_TURN_DOMAIN env = None then [''TURN_DOMAIN''] else []) @
     (if ae_ENABLE_API_DOCS env then [''ENABLE_API_DOCS''] else [])"

definition envIssues :: "ApiEnv \<Rightarrow> string list" where
  "envIssues env =
     reusedSecrets Map.empty (secretsOf env) @ (if ae_NODE_ENV env = Production then productionIssues env else [])"

record ApiConfig =
  kc_env :: ApiEnv
  kc_isProduction :: bool
  kc_isDevelopment :: bool
  kc_isTest :: bool
  kc_corsOrigins :: "string list"
  kc_smtpConfigured :: bool
  kc_googleOAuthConfigured :: bool
  kc_appleOAuthConfigured :: bool
  kc_stripeConfigured :: bool
  kc_turnConfigured :: bool

definition loadApiConfig :: "Formats \<Rightarrow> environment \<Rightarrow> ApiConfig option" where
  "loadApiConfig fm source =
     (case apiEnvObject fm source of
        None \<Rightarrow> None
      | Some env \<Rightarrow>
          if envIssues env \<noteq> [] then None
          else Some \<lparr>kc_env = env, kc_isProduction = (ae_NODE_ENV env = Production),
            kc_isDevelopment = (ae_NODE_ENV env = Development), kc_isTest = (ae_NODE_ENV env = Test),
            kc_corsOrigins = dedup ([ae_APP_URL env] @ (case ae_ADMIN_URL env of None \<Rightarrow> [] | Some u \<Rightarrow> [u]) @
              ae_CORS_ALLOWED_ORIGINS env),
            kc_smtpConfigured = (ae_MAIL_TRANSPORT env = Smtp \<and> ae_SMTP_HOST env \<noteq> []),
            kc_googleOAuthConfigured = (ae_GOOGLE_CLIENT_ID env \<noteq> [] \<and> ae_GOOGLE_CLIENT_SECRET env \<noteq> []),
            kc_appleOAuthConfigured = (ae_APPLE_CLIENT_ID env \<noteq> [] \<and> ae_APPLE_PRIVATE_KEY env \<noteq> []),
            kc_stripeConfigured = (ae_STRIPE_SECRET_KEY env \<noteq> []),
            kc_turnConfigured = (ae_TURN_DOMAIN env \<noteq> None \<and> 32 \<le> length (ae_TURN_SECRET env))\<rparr>)"

section \<open>What the API does with it\<close>

text \<open>The origin callback of the CORS plugin.\<close>

definition corsAllows :: "ApiConfig \<Rightarrow> string option \<Rightarrow> bool" where
  "corsAllows config origin =
     (case origin of None \<Rightarrow> True | Some o' \<Rightarrow> if o' = [] then True else o' \<in> set (kc_corsOrigins config))"

definition settingsConfig :: "ApiConfig \<Rightarrow> AppConfig" where
  "settingsConfig config =
     (let e = kc_env config in
      \<lparr>cf_MINIMUM_AGE = ae_MINIMUM_AGE e, cf_MAINTENANCE_MODE = ae_MAINTENANCE_MODE e,
       cf_REGISTRATION_OPEN = ae_REGISTRATION_OPEN e, cf_REQUIRE_EMAIL_VERIFICATION = ae_REQUIRE_EMAIL_VERIFICATION e,
       cf_GUEST_ACCESS_ENABLED = ae_GUEST_ACCESS_ENABLED e\<rparr>)"

text \<open>The relay as \<^verbatim>\<open>ice.routes.ts\<close> sets it up from the configuration; ports are not negative.\<close>

definition turnSettings :: "ApiConfig \<Rightarrow> TurnConfig option" where
  "turnSettings config =
     (let e = kc_env config in
      if kc_turnConfigured config
      then Some \<lparr>tc_secret = ae_TURN_SECRET e, tc_host = orElse (ae_TURN_DOMAIN e) [],
             tc_port = Some (nat (ae_TURN_PORT e)), tc_tlsPort = Some (nat (ae_TURN_TLS_PORT e)), tc_stunUrls = None,
             tc_ttlSeconds = Some TURN_CREDENTIAL_TTL_SECONDS, tc_enableTcp = Some (ae_TURN_ENABLE_TCP e),
             tc_enableTls = Some (ae_TURN_ENABLE_TLS e)\<rparr>
      else None)"

definition stunFallback :: "ApiConfig \<Rightarrow> bool" where
  "stunFallback config = (ae_USE_PUBLIC_STUN_FALLBACK (kc_env config) \<and> \<not> kc_isProduction config)"

section \<open>The realtime server\<close>

record RealtimeEnv =
  re_NODE_ENV :: NodeEnv
  re_LOG_LEVEL :: string
  re_PORT :: int
  re_HOST :: string
  re_APP_URL :: string
  re_ADMIN_URL :: "string option"
  re_CORS_ALLOWED_ORIGINS :: "string list"
  re_TRUST_PROXY :: bool
  re_REALTIME_PATH :: string
  re_REALTIME_NODE_ID :: string
  re_DATABASE_URL :: string
  re_REDIS_URL :: string
  re_REDIS_PREFIX :: string
  re_JWT_SECRET :: string
  re_IP_HASH_SALT :: string
  re_TURN_SECRET :: string
  re_TURN_DOMAIN :: "string option"
  re_TURN_PORT :: int
  re_TURN_TLS_PORT :: int
  re_TURN_ENABLE_TCP :: bool
  re_TURN_ENABLE_TLS :: bool
  re_USE_PUBLIC_STUN_FALLBACK :: bool

definition realtimeEnvSchema :: "Formats \<Rightarrow> environment \<Rightarrow> RealtimeEnv option" where
  "realtimeEnvSchema fm source = (let e = envVar source in do {
     nodeEnv \<leftarrow> nodeEnvSchema (e ''NODE_ENV'');
     logLevel \<leftarrow> logLevelSchema (e ''LOG_LEVEL'');
     port \<leftarrow> zDefault 4001 (envInt fm (\<lambda>n. 1 \<le> n \<and> n \<le> 65535)) (e ''PORT'');
     host \<leftarrow> zDefault ''0.0.0.0'' zString (e ''HOST'');
     appUrl \<leftarrow> urlSchema fm (e ''APP_URL'');
     adminUrl \<leftarrow> envOptional (urlSchema fm) (e ''ADMIN_URL'');
     origins \<leftarrow> zDefault [] csv (e ''CORS_ALLOWED_ORIGINS'');
     trustProxy \<leftarrow> zDefault True booleanish (e ''TRUST_PROXY'');
     path \<leftarrow> zDefault ''/rt'' zString (e ''REALTIME_PATH'');
     nodeId \<leftarrow> zDefault ''rt-1'' zString (e ''REALTIME_NODE_ID'');
     databaseUrl \<leftarrow> nonEmpty (e ''DATABASE_URL'');
     redisUrl \<leftarrow> nonEmpty (e ''REDIS_URL'');
     redisPrefix \<leftarrow> zDefault ''t2w'' zString (e ''REDIS_PREFIX'');
     jwtSecret \<leftarrow> strongSecret PLACEHOLDERS (e ''JWT_SECRET'');
     ipHashSalt \<leftarrow> strongSecret PLACEHOLDERS (e ''IP_HASH_SALT'');
     turnSecret \<leftarrow> strongSecret PLACEHOLDERS (e ''TURN_SECRET'');
     turnDomain \<leftarrow> envOptional nonEmpty (e ''TURN_DOMAIN'');
     turnPort \<leftarrow> zDefault 3478 (envInt fm (\<lambda>n. True)) (e ''TURN_PORT'');
     turnTlsPort \<leftarrow> zDefault 5349 (envInt fm (\<lambda>n. True)) (e ''TURN_TLS_PORT'');
     turnTcp \<leftarrow> zDefault True booleanish (e ''TURN_ENABLE_TCP'');
     turnTls \<leftarrow> zDefault False booleanish (e ''TURN_ENABLE_TLS'');
     stunFallback \<leftarrow> zDefault False booleanish (e ''USE_PUBLIC_STUN_FALLBACK'');
     Some \<lparr>re_NODE_ENV = nodeEnv, re_LOG_LEVEL = logLevel, re_PORT = port, re_HOST = host, re_APP_URL = appUrl,
       re_ADMIN_URL = adminUrl, re_CORS_ALLOWED_ORIGINS = origins, re_TRUST_PROXY = trustProxy,
       re_REALTIME_PATH = path, re_REALTIME_NODE_ID = nodeId, re_DATABASE_URL = databaseUrl,
       re_REDIS_URL = redisUrl, re_REDIS_PREFIX = redisPrefix, re_JWT_SECRET = jwtSecret,
       re_IP_HASH_SALT = ipHashSalt, re_TURN_SECRET = turnSecret, re_TURN_DOMAIN = turnDomain,
       re_TURN_PORT = turnPort, re_TURN_TLS_PORT = turnTlsPort, re_TURN_ENABLE_TCP = turnTcp,
       re_TURN_ENABLE_TLS = turnTls, re_USE_PUBLIC_STUN_FALLBACK = stunFallback\<rparr> })"

record RealtimeConfig =
  rc_env :: RealtimeEnv
  rc_isProduction :: bool
  rc_isDevelopment :: bool
  rc_corsOrigins :: "string list"
  rc_turnConfigured :: bool

definition loadRealtimeConfig :: "Formats \<Rightarrow> environment \<Rightarrow> RealtimeConfig option" where
  "loadRealtimeConfig fm source =
     (case realtimeEnvSchema fm source of
        None \<Rightarrow> None
      | Some env \<Rightarrow>
          if re_NODE_ENV env = Production \<and> re_TURN_DOMAIN env = None then None
          else Some \<lparr>rc_env = env, rc_isProduction = (re_NODE_ENV env = Production),
            rc_isDevelopment = (re_NODE_ENV env = Development),
            rc_corsOrigins = dedup ([re_APP_URL env] @ (case re_ADMIN_URL env of None \<Rightarrow> [] | Some u \<Rightarrow> [u]) @
              re_CORS_ALLOWED_ORIGINS env),
            rc_turnConfigured = (re_TURN_DOMAIN env \<noteq> None \<and> 32 \<le> length (re_TURN_SECRET env))\<rparr>)"

text \<open>\<^verbatim>\<open>settings\<close> of the realtime process: the stored matchmaking policy, kept for thirty seconds, or the
built-in one for ten when the database fails (\<^const>\<open>None\<close>).\<close>

definition DEFAULT_MATCHMAKING :: MatchmakingSettings where
  "DEFAULT_MATCHMAKING = \<lparr>relaxationStages = DEFAULT_RELAXATION_STAGES, maxQueueSeconds = 180,
     skipCooldownSeconds = 1800, minSecondsBetweenSkips = 1, negotiationTimeoutMs = 20000\<rparr>"

type_synonym PolicyCache = "(MatchmakingSettings \<times> instant) option"

definition currentPolicy ::
    "instant \<Rightarrow> SystemSettings option \<Rightarrow> PolicyCache \<Rightarrow> MatchmakingSettings \<times> PolicyCache" where
  "currentPolicy now loaded cache =
     (let load = (case loaded of
            Some s \<Rightarrow> (ss_matchmaking s, Some (ss_matchmaking s, now + 30000))
          | None \<Rightarrow> (DEFAULT_MATCHMAKING, Some (DEFAULT_MATCHMAKING, now + 10000)))
      in case cache of
           Some (value, expiresAt) \<Rightarrow> if expiresAt > now then (value, cache) else load
         | None \<Rightarrow> load)"

section \<open>The worker\<close>

record WorkerEnv =
  we_NODE_ENV :: NodeEnv
  we_LOG_LEVEL :: string
  we_DATABASE_URL :: string
  we_REDIS_URL :: string
  we_REDIS_PREFIX :: string
  we_APP_URL :: string
  we_SMTP_HOST :: string
  we_SMTP_PORT :: int
  we_SMTP_USER :: string
  we_SMTP_PASSWORD :: string
  we_SMTP_SECURE :: bool
  we_MAIL_FROM :: string
  we_MAIL_TRANSPORT :: MailTransport
  we_AUDIT_RETENTION_DAYS :: int

definition workerEnvSchema :: "Formats \<Rightarrow> environment \<Rightarrow> WorkerEnv option" where
  "workerEnvSchema fm source = (let e = envVar source in do {
     nodeEnv \<leftarrow> nodeEnvSchema (e ''NODE_ENV'');
     logLevel \<leftarrow> logLevelSchema (e ''LOG_LEVEL'');
     databaseUrl \<leftarrow> nonEmpty (e ''DATABASE_URL'');
     redisUrl \<leftarrow> nonEmpty (e ''REDIS_URL'');
     redisPrefix \<leftarrow> zDefault ''t2w'' zString (e ''REDIS_PREFIX'');
     appUrl \<leftarrow> urlSchema fm (e ''APP_URL'');
     smtpHost \<leftarrow> zDefault [] zString (e ''SMTP_HOST'');
     smtpPort \<leftarrow> zDefault 587 (envInt fm (\<lambda>n. True)) (e ''SMTP_PORT'');
     smtpUser \<leftarrow> zDefault [] zString (e ''SMTP_USER'');
     smtpPassword \<leftarrow> zDefault [] zString (e ''SMTP_PASSWORD'');
     smtpSecure \<leftarrow> zDefault False booleanish (e ''SMTP_SECURE'');
     mailFrom \<leftarrow> zDefault ''Trip2World <noreply@localhost>'' zString (e ''MAIL_FROM'');
     mailTransport \<leftarrow> mailTransportSchema (e ''MAIL_TRANSPORT'');
     retention \<leftarrow> zDefault 730 (envInt fm (\<lambda>n. 30 \<le> n)) (e ''AUDIT_RETENTION_DAYS'');
     Some \<lparr>we_NODE_ENV = nodeEnv, we_LOG_LEVEL = logLevel, we_DATABASE_URL = databaseUrl, we_REDIS_URL = redisUrl,
       we_REDIS_PREFIX = redisPrefix, we_APP_URL = appUrl, we_SMTP_HOST = smtpHost, we_SMTP_PORT = smtpPort,
       we_SMTP_USER = smtpUser, we_SMTP_PASSWORD = smtpPassword, we_SMTP_SECURE = smtpSecure,
       we_MAIL_FROM = mailFrom, we_MAIL_TRANSPORT = mailTransport, we_AUDIT_RETENTION_DAYS = retention\<rparr> })"

definition SCHEDULE :: "(string \<times> string) list" where
  "SCHEDULE =
     [(''erase-deleted-accounts'', ''17 3 * * *''), (''expire-suspensions'', ''*/5 * * * *''),
      (''expire-bans'', ''*/5 * * * *''), (''close-stale-matches'', ''*/15 * * * *''),
      (''prune-verification-tokens'', ''31 4 * * *''), (''prune-sessions'', ''41 4 * * *''),
      (''prune-audit-log'', ''51 4 * * 0'')]"

text \<open>The repeatable jobs of the queue library in Redis, each with its key, its name and its times; \<open>keyOf\<close> is the key
the library gives a job.\<close>

record Repeatable =
  rp_key :: string
  rp_name :: string
  rp_cron :: string

definition addRepeatable ::
    "(string \<Rightarrow> string \<Rightarrow> string) \<Rightarrow> string \<times> string \<Rightarrow> Repeatable list \<Rightarrow> Repeatable list" where
  "addRepeatable keyOf job jobs =
     (let key = keyOf (fst job) (snd job) in
      if key \<in> set (map rp_key jobs) then jobs
      else jobs @ [\<lparr>rp_key = key, rp_name = fst job, rp_cron = snd job\<rparr>])"

definition registerSchedule :: "(string \<Rightarrow> string \<Rightarrow> string) \<Rightarrow> Repeatable list \<Rightarrow> Repeatable list" where
  "registerSchedule keyOf existing =
     fold (addRepeatable keyOf) SCHEDULE (filter (\<lambda>r. rp_name r \<in> set (map fst SCHEDULE)) existing)"

text \<open>The processor: a job's name picks what runs; an unknown name does nothing.\<close>

definition jobNamed :: "string \<Rightarrow> MaintenanceJob option" where
  "jobNamed name =
     map_of [(''erase-deleted-accounts'', EraseDeletedAccounts), (''expire-suspensions'', ExpireSuspensions),
       (''expire-bans'', ExpireBans), (''close-stale-matches'', CloseStaleMatches),
       (''prune-verification-tokens'', PruneVerificationTokens), (''prune-sessions'', PruneSessions),
       (''prune-audit-log'', PruneAuditLog)] name"

definition processJob :: "instant \<Rightarrow> WorkerEnv \<Rightarrow> string \<Rightarrow> Db \<times> TokenDb \<Rightarrow> Db \<times> TokenDb" where
  "processJob now env name s =
     (case jobNamed name of None \<Rightarrow> s | Some job \<Rightarrow> runJob now (we_AUDIT_RETENTION_DAYS env) job s)"

end
