(* ===== verification/Config_Safety.thy ===== *)
theory Config_Safety
  imports Config Validation_Safety
begin

text \<open>What a process that has started can rely on: the production rules, that the API and the realtime server agree
when they are given the same environment, and the worker's schedule over restarts.\<close>

section \<open>Schemas\<close>

lemma strongSecret_Some:
  "strongSecret placeholders v = Some s \<longleftrightarrow> v = Text s \<and> 32 \<le> length s \<and> trimString s \<notin> set placeholders"
  by (cases v) (auto simp: strongSecret_def zRefine_def)

lemma strongSecret_weaker:
  "strongSecret PLACEHOLDER_VALUES v = Some s \<Longrightarrow> strongSecret PLACEHOLDERS v = Some s"
  by (auto simp: strongSecret_Some PLACEHOLDER_VALUES_def PLACEHOLDERS_def)

lemma envInt_Some: "envInt fm ok v = Some n \<Longrightarrow> ok n"
  by (auto simp: envInt_def bind_eq_Some_conv split: if_splits)

lemma zDefault_Some: "zDefault d sch v = Some x \<longleftrightarrow> (if v = Undefined then x = d else sch v = Some x)"
  by (auto simp: zDefault_def)

lemma envVar_iff [simp]:
  "envVar source name = Text s \<longleftrightarrow> source name = Some s"
  "envVar source name = Undefined \<longleftrightarrow> source name = None"
  by (auto simp: envVar_def split: option.splits)

lemma text_variable: "\<exists>s. zDefault d zString (envVar source name) = Some s"
  by (cases "source name") (simp_all add: zDefault_def envVar_def)

lemma reusedSecrets_Nil:
  "reusedSecrets seen xs = [] \<longleftrightarrow> distinct (map snd xs) \<and> (\<forall>v \<in> snd ` set xs. seen v = None)"
proof (induction xs arbitrary: seen)
  case (Cons x xs)
  then show ?case by (cases x) (auto split: if_splits)
qed simp

lemma apiEnvObject_Some:
  assumes "apiEnvObject fm source = Some env"
  shows "(nodeEnvSchema (envVar source ''NODE_ENV'') = Some (ae_NODE_ENV env)) \<and>
    (logLevelSchema (envVar source ''LOG_LEVEL'') = Some (ae_LOG_LEVEL env)) \<and>
    (zDefault 4000 (envInt fm (\<lambda>n. 1 \<le> n \<and> n \<le> 65535)) (envVar source ''PORT'') = Some (ae_PORT env)) \<and>
    (zDefault ''0.0.0.0'' zString (envVar source ''HOST'') = Some (ae_HOST env)) \<and>
    (urlSchema fm (envVar source ''APP_URL'') = Some (ae_APP_URL env)) \<and>
    (envOptional (urlSchema fm) (envVar source ''ADMIN_URL'') = Some (ae_ADMIN_URL env)) \<and>
    (zDefault [] csv (envVar source ''CORS_ALLOWED_ORIGINS'') = Some (ae_CORS_ALLOWED_ORIGINS env)) \<and>
    (zDefault True booleanish (envVar source ''TRUST_PROXY'') = Some (ae_TRUST_PROXY env)) \<and>
    (nonEmpty (envVar source ''DATABASE_URL'') = Some (ae_DATABASE_URL env)) \<and>
    (nonEmpty (envVar source ''REDIS_URL'') = Some (ae_REDIS_URL env)) \<and>
    (zDefault ''t2w'' zString (envVar source ''REDIS_PREFIX'') = Some (ae_REDIS_PREFIX env)) \<and>
    (strongSecret PLACEHOLDER_VALUES (envVar source ''JWT_SECRET'') = Some (ae_JWT_SECRET env)) \<and>
    (strongSecret PLACEHOLDER_VALUES (envVar source ''SESSION_SECRET'') = Some (ae_SESSION_SECRET env)) \<and>
    (strongSecret PLACEHOLDER_VALUES (envVar source ''IP_HASH_SALT'') = Some (ae_IP_HASH_SALT env)) \<and>
    (strongSecret PLACEHOLDER_VALUES (envVar source ''TURN_SECRET'') = Some (ae_TURN_SECRET env)) \<and>
    (envOptional nonEmpty (envVar source ''TURN_DOMAIN'') = Some (ae_TURN_DOMAIN env)) \<and>
    (zDefault 3478 (envInt fm (\<lambda>n. True)) (envVar source ''TURN_PORT'') = Some (ae_TURN_PORT env)) \<and>
    (zDefault 5349 (envInt fm (\<lambda>n. True)) (envVar source ''TURN_TLS_PORT'') = Some (ae_TURN_TLS_PORT env)) \<and>
    (zDefault True booleanish (envVar source ''TURN_ENABLE_TCP'') = Some (ae_TURN_ENABLE_TCP env)) \<and>
    (zDefault False booleanish (envVar source ''TURN_ENABLE_TLS'') = Some (ae_TURN_ENABLE_TLS env)) \<and>
    (zDefault False booleanish (envVar source ''USE_PUBLIC_STUN_FALLBACK'') = Some (ae_USE_PUBLIC_STUN_FALLBACK env)) \<and>
    (zDefault 18 (envInt fm (\<lambda>n. 18 \<le> n)) (envVar source ''MINIMUM_AGE'') = Some (ae_MINIMUM_AGE env)) \<and>
    (zDefault [] zString (envVar source ''SMTP_HOST'') = Some (ae_SMTP_HOST env)) \<and>
    (zDefault 587 (envInt fm (\<lambda>n. True)) (envVar source ''SMTP_PORT'') = Some (ae_SMTP_PORT env)) \<and>
    (zDefault [] zString (envVar source ''SMTP_USER'') = Some (ae_SMTP_USER env)) \<and>
    (zDefault [] zString (envVar source ''SMTP_PASSWORD'') = Some (ae_SMTP_PASSWORD env)) \<and>
    (zDefault False booleanish (envVar source ''SMTP_SECURE'') = Some (ae_SMTP_SECURE env)) \<and>
    (zDefault ''Trip2World <noreply@localhost>'' zString (envVar source ''MAIL_FROM'') = Some (ae_MAIL_FROM env)) \<and>
    (mailTransportSchema (envVar source ''MAIL_TRANSPORT'') = Some (ae_MAIL_TRANSPORT env))"
  using assms unfolding apiEnvObject_def Let_def bind_eq_Some_conv by clarsimp

lemma apiEnvObject_secrets:
  assumes "apiEnvObject fm source = Some env"
  shows "(name, s) \<in> set (secretsOf env) \<Longrightarrow>
    source name = Some s \<and> 32 \<le> length s \<and> trimString s \<notin> set PLACEHOLDER_VALUES"
proof -
  have "strongSecret PLACEHOLDER_VALUES (envVar source ''JWT_SECRET'') = Some (ae_JWT_SECRET env)"
    "strongSecret PLACEHOLDER_VALUES (envVar source ''SESSION_SECRET'') = Some (ae_SESSION_SECRET env)"
    "strongSecret PLACEHOLDER_VALUES (envVar source ''IP_HASH_SALT'') = Some (ae_IP_HASH_SALT env)"
    "strongSecret PLACEHOLDER_VALUES (envVar source ''TURN_SECRET'') = Some (ae_TURN_SECRET env)"
    using apiEnvObject_Some [OF assms] by blast+
  then show "source name = Some s \<and> 32 \<le> length s \<and> trimString s \<notin> set PLACEHOLDER_VALUES"
    if "(name, s) \<in> set (secretsOf env)"
    using that unfolding secretsOf_def strongSecret_Some envVar_iff by auto
qed

lemma apiEnvObject_age:
  assumes "apiEnvObject fm source = Some env"
  shows "18 \<le> ae_MINIMUM_AGE env"
proof -
  have "zDefault 18 (envInt fm (\<lambda>n. 18 \<le> n)) (envVar source ''MINIMUM_AGE'') = Some (ae_MINIMUM_AGE env)"
    using apiEnvObject_Some [OF assms] by blast
  then show ?thesis using envInt_Some by (auto simp: zDefault_Some split: if_splits)
qed

lemma loadApiConfig_Some:
  assumes "loadApiConfig fm source = Some config"
  obtains env where "apiEnvObject fm source = Some env" and "kc_env config = env" and "envIssues env = []"
    and "kc_isProduction config = (ae_NODE_ENV env = Production)"
    and "kc_corsOrigins config = dedup ([ae_APP_URL env] @ (case ae_ADMIN_URL env of None \<Rightarrow> [] | Some u \<Rightarrow> [u]) @
           ae_CORS_ALLOWED_ORIGINS env)"
    and "kc_smtpConfigured config = (ae_MAIL_TRANSPORT env = Smtp \<and> ae_SMTP_HOST env \<noteq> [])"
    and "kc_turnConfigured config = (ae_TURN_DOMAIN env \<noteq> None \<and> 32 \<le> length (ae_TURN_SECRET env))"
  using assms by (auto simp: loadApiConfig_def split: option.splits if_splits)

section \<open>Production\<close>

text \<open>A production API only starts fit for production. If the process starts at all in production, its
address is over TLS, mail goes out by SMTP, the API documentation is not published, the age limit is at least the
law's, the four secrets are the environment's, pairwise different, long and no placeholders; and the relay is set
up, so that whoever signs in gets relay credentials from it, never an error and never the public fallback.\<close>

theorem production_starts_fit:
  assumes "loadApiConfig fm source = Some config" and "kc_isProduction config"
  shows "startsWith ''https://'' (ae_APP_URL (kc_env config)) \<and> kc_smtpConfigured config \<and>
    \<not> ae_ENABLE_API_DOCS (kc_env config) \<and> 18 \<le> cf_MINIMUM_AGE (settingsConfig config) \<and>
    (let secrets = map the (map source [''JWT_SECRET'', ''SESSION_SECRET'', ''IP_HASH_SALT'', ''TURN_SECRET'']) in
      distinct secrets \<and> (\<forall>s \<in> set secrets. 32 \<le> length s \<and> trimString s \<notin> set PLACEHOLDER_VALUES)) \<and>
    (\<exists>answer. iceRoute hmac now (turnSettings config) (stunFallback config) user = Ok answer \<and> ia_relayAvailable answer)"
proof -
  obtain env where env: "apiEnvObject fm source = Some env" "kc_env config = env" "envIssues env = []"
    "kc_isProduction config = (ae_NODE_ENV env = Production)"
    "kc_smtpConfigured config = (ae_MAIL_TRANSPORT env = Smtp \<and> ae_SMTP_HOST env \<noteq> [])"
    "kc_turnConfigured config = (ae_TURN_DOMAIN env \<noteq> None \<and> 32 \<le> length (ae_TURN_SECRET env))"
    using assms(1) by (rule loadApiConfig_Some)
  then have rules: "productionIssues env = []" "distinct (map snd (secretsOf env))"
    using assms(2) by (auto simp: envIssues_def reusedSecrets_Nil)
  have secret: "source name = Some s \<and> 32 \<le> length s \<and> trimString s \<notin> set PLACEHOLDER_VALUES"
    if "(name, s) \<in> set (secretsOf env)" for name s
    using apiEnvObject_secrets [OF env(1) that] .
  have "map the (map source [''JWT_SECRET'', ''SESSION_SECRET'', ''IP_HASH_SALT'', ''TURN_SECRET'']) = map snd (secretsOf env)"
    using secret by (simp add: secretsOf_def)
  moreover have "18 \<le> ae_MINIMUM_AGE env" using apiEnvObject_age [OF env(1)] .
  moreover have "kc_turnConfigured config"
    using rules(1) secret [of "''TURN_SECRET''"] by (auto simp: env productionIssues_def secretsOf_def split: if_splits)
  moreover have "\<exists>answer. iceRoute hmac now (turnSettings config) (stunFallback config) user = Ok answer \<and>
      ia_relayAvailable answer"
    using calculation(3) env
    by (auto simp: iceRoute_def turnSettings_def buildIceServers_def createTurnCredential_def Let_def)
  moreover have "startsWith ''https://'' (ae_APP_URL env) \<and> kc_smtpConfigured config \<and> \<not> ae_ENABLE_API_DOCS env"
    using rules(1) by (cases "ae_MAIL_TRANSPORT env") (auto simp: env productionIssues_def split: if_splits)
  moreover have "\<forall>s \<in> set (map snd (secretsOf env)). 32 \<le> length s \<and> trimString s \<notin> set PLACEHOLDER_VALUES"
    using secret by fastforce
  ultimately show ?thesis using rules(2) by (simp only: env Let_def settingsConfig_def AppConfig.simps) blast
qed

section \<open>One environment, two servers\<close>

text \<open>The API and the realtime server can be started from one environment, and then they agree. If the API
starts, the realtime server starts from the same variables (with a port of its own or none): it verifies access
tokens with the same key, finds its keys in Redis under the same prefix, hashes addresses with the same salt, hands
out credentials for the same relay, and lets the same origins in.\<close>

theorem one_environment_two_servers:
  assumes "loadApiConfig fm source = Some api"
    and "\<forall>name. name \<noteq> ''PORT'' \<longrightarrow> source' name = source name"
    and "source' ''PORT'' = None \<or> source' ''PORT'' = source ''PORT''"
  shows "\<exists>rt. loadRealtimeConfig fm source' = Some rt \<and> rc_isProduction rt = kc_isProduction api \<and>
    re_JWT_SECRET (rc_env rt) = ae_JWT_SECRET (kc_env api) \<and>
    re_REDIS_PREFIX (rc_env rt) = ae_REDIS_PREFIX (kc_env api) \<and>
    re_REDIS_URL (rc_env rt) = ae_REDIS_URL (kc_env api) \<and>
    re_DATABASE_URL (rc_env rt) = ae_DATABASE_URL (kc_env api) \<and>
    re_IP_HASH_SALT (rc_env rt) = ae_IP_HASH_SALT (kc_env api) \<and>
    re_TURN_SECRET (rc_env rt) = ae_TURN_SECRET (kc_env api) \<and>
    re_TURN_DOMAIN (rc_env rt) = ae_TURN_DOMAIN (kc_env api) \<and>
    rc_turnConfigured rt = kc_turnConfigured api \<and> rc_corsOrigins rt = kc_corsOrigins api"
proof -
  obtain env where env: "apiEnvObject fm source = Some env" "kc_env api = env" "envIssues env = []"
    "kc_isProduction api = (ae_NODE_ENV env = Production)"
    "kc_corsOrigins api = dedup ([ae_APP_URL env] @ (case ae_ADMIN_URL env of None \<Rightarrow> [] | Some u \<Rightarrow> [u]) @
       ae_CORS_ALLOWED_ORIGINS env)"
    "kc_turnConfigured api = (ae_TURN_DOMAIN env \<noteq> None \<and> 32 \<le> length (ae_TURN_SECRET env))"
    using assms(1) by (rule loadApiConfig_Some)
  note fields = apiEnvObject_Some [OF env(1)]
  have same: "envVar source' name = envVar source name" if "name \<noteq> ''PORT''" for name
    using assms(2) that by (simp add: envVar_def)
  obtain port where port: "zDefault 4001 (envInt fm (\<lambda>n. 1 \<le> n \<and> n \<le> 65535)) (envVar source' ''PORT'') = Some port"
  proof (cases "source' ''PORT''")
    case None
    then show thesis using that [of 4001] by (simp add: zDefault_def envVar_def)
  next
    case (Some p)
    then have "envVar source' ''PORT'' = envVar source ''PORT''" and "source ''PORT'' \<noteq> None"
      using assms(3) by (auto simp: envVar_def dest: sym)
    moreover have "zDefault 4000 (envInt fm (\<lambda>n. 1 \<le> n \<and> n \<le> 65535)) (envVar source ''PORT'') = Some (ae_PORT env)"
      using fields by blast
    ultimately show thesis using that [of "ae_PORT env"] by (simp add: zDefault_Some)
  qed
  obtain path where path: "zDefault ''/rt'' zString (envVar source ''REALTIME_PATH'') = Some path"
    using text_variable by blast
  obtain node where node: "zDefault ''rt-1'' zString (envVar source ''REALTIME_NODE_ID'') = Some node"
    using text_variable by blast
  have "\<exists>e. realtimeEnvSchema fm source' = Some e \<and> re_NODE_ENV e = ae_NODE_ENV env \<and> re_APP_URL e = ae_APP_URL env \<and>
      re_ADMIN_URL e = ae_ADMIN_URL env \<and> re_CORS_ALLOWED_ORIGINS e = ae_CORS_ALLOWED_ORIGINS env \<and>
      re_JWT_SECRET e = ae_JWT_SECRET env \<and> re_REDIS_PREFIX e = ae_REDIS_PREFIX env \<and>
      re_REDIS_URL e = ae_REDIS_URL env \<and> re_DATABASE_URL e = ae_DATABASE_URL env \<and>
      re_IP_HASH_SALT e = ae_IP_HASH_SALT env \<and> re_TURN_SECRET e = ae_TURN_SECRET env \<and>
      re_TURN_DOMAIN e = ae_TURN_DOMAIN env"
    using fields port path node by (simp add: realtimeEnvSchema_def same strongSecret_weaker)
  then obtain e where e: "realtimeEnvSchema fm source' = Some e" "re_NODE_ENV e = ae_NODE_ENV env"
    "re_APP_URL e = ae_APP_URL env" "re_ADMIN_URL e = ae_ADMIN_URL env"
    "re_CORS_ALLOWED_ORIGINS e = ae_CORS_ALLOWED_ORIGINS env" "re_JWT_SECRET e = ae_JWT_SECRET env"
    "re_REDIS_PREFIX e = ae_REDIS_PREFIX env" "re_REDIS_URL e = ae_REDIS_URL env"
    "re_DATABASE_URL e = ae_DATABASE_URL env" "re_IP_HASH_SALT e = ae_IP_HASH_SALT env"
    "re_TURN_SECRET e = ae_TURN_SECRET env" "re_TURN_DOMAIN e = ae_TURN_DOMAIN env"
    by blast
  have "\<not> (ae_NODE_ENV env = Production \<and> ae_TURN_DOMAIN env = None)"
    using env(3) by (auto simp: envIssues_def productionIssues_def split: if_splits)
  then show ?thesis using e by (simp add: loadRealtimeConfig_def env)
qed

section \<open>The schedule\<close>

lemma set_addRepeatable_old: "r \<in> set jobs \<Longrightarrow> r \<in> set (addRepeatable keyOf job jobs)"
  by (simp add: addRepeatable_def Let_def)

lemma fold_addRepeatable_old: "r \<in> set jobs \<Longrightarrow> r \<in> set (fold (addRepeatable keyOf) schedule jobs)"
  by (induction schedule arbitrary: jobs) (auto simp: set_addRepeatable_old)

lemma key_addRepeatable: "keyOf (fst job) (snd job) \<in> rp_key ` set (addRepeatable keyOf job jobs)"
  by (auto simp: addRepeatable_def Let_def)

lemma fold_addRepeatable_keys:
  "job \<in> set schedule \<Longrightarrow> keyOf (fst job) (snd job) \<in> rp_key ` set (fold (addRepeatable keyOf) schedule jobs)"
proof (induction schedule arbitrary: jobs)
  case (Cons j schedule)
  then show ?case using key_addRepeatable [of keyOf job jobs] 
      fold_addRepeatable_old [of _ "addRepeatable keyOf job jobs" keyOf schedule] by (auto simp: image_iff)
qed simp

lemma fold_addRepeatable_present:
  "\<forall>job \<in> set schedule. keyOf (fst job) (snd job) \<in> rp_key ` set jobs \<Longrightarrow> fold (addRepeatable keyOf) schedule jobs = jobs"
  by (induction schedule) (auto simp: addRepeatable_def Let_def)

lemma names_fold_addRepeatable:
  "rp_name ` set (fold (addRepeatable keyOf) schedule jobs) \<subseteq> rp_name ` set jobs \<union> fst ` set schedule"
proof (induction schedule arbitrary: jobs)
  case (Cons j schedule)
  have "rp_name ` set (addRepeatable keyOf j jobs) \<subseteq> insert (fst j) (rp_name ` set jobs)"
    by (auto simp: addRepeatable_def Let_def)
  moreover have "fold (addRepeatable keyOf) (j # schedule) jobs =
      fold (addRepeatable keyOf) schedule (addRepeatable keyOf j jobs)" by simp
  ultimately show ?case using Cons [of "addRepeatable keyOf j jobs"] by (simp only: list.set image_insert) blast
qed simp

text \<open>The schedule survives restarts, and so does its past. However often the worker starts, and whatever it
finds in Redis: the second start changes nothing more, every scheduled job is there under its key, no job is left
that the processor does not know; but whatever it finds under a name it still uses stays, so a job whose times were
changed keeps running at the old times beside the new ones.\<close>

theorem schedule_survives_restarts:
  "registerSchedule keyOf (registerSchedule keyOf existing) = registerSchedule keyOf existing \<and>
   (\<forall>(name, cron) \<in> set SCHEDULE. keyOf name cron \<in> rp_key ` set (registerSchedule keyOf existing)) \<and>
   (\<forall>r \<in> set (registerSchedule keyOf existing). jobNamed (rp_name r) \<noteq> None) \<and>
   (\<forall>r \<in> set existing. r \<in> set (registerSchedule keyOf existing) \<longleftrightarrow> rp_name r \<in> set (map fst SCHEDULE))"
proof -
  let ?kept = "filter (\<lambda>r. rp_name r \<in> set (map fst SCHEDULE)) existing"
  let ?now = "registerSchedule keyOf existing"
  have "rp_name ` set ?kept \<subseteq> fst ` set SCHEDULE" by auto
  then have names: "rp_name ` set ?now \<subseteq> fst ` set SCHEDULE"
    using names_fold_addRepeatable [of keyOf SCHEDULE ?kept] unfolding registerSchedule_def by blast
  have known: "rp_name r \<in> set (map fst SCHEDULE)" if "r \<in> set ?now" for r
    using subsetD [OF names imageI [OF that]] by simp
  then have "filter (\<lambda>r. rp_name r \<in> set (map fst SCHEDULE)) ?now = ?now" by (metis filter_True)
  moreover have keys: "\<forall>job \<in> set SCHEDULE. keyOf (fst job) (snd job) \<in> rp_key ` set ?now"
    using fold_addRepeatable_keys unfolding registerSchedule_def by blast
  ultimately have "registerSchedule keyOf ?now = ?now"
    using fold_addRepeatable_present [of SCHEDULE keyOf ?now] unfolding registerSchedule_def [of keyOf ?now] by simp
  moreover have "\<forall>r \<in> set ?now. jobNamed (rp_name r) \<noteq> None"
  proof
    fix r assume "r \<in> set ?now"
    then show "jobNamed (rp_name r) \<noteq> None" using known [of r] unfolding SCHEDULE_def jobNamed_def by auto
  qed
  moreover have "r \<in> set ?now" if "r \<in> set existing" "rp_name r \<in> set (map fst SCHEDULE)" for r
    using that fold_addRepeatable_old [of r ?kept keyOf SCHEDULE] unfolding registerSchedule_def by simp
  ultimately show ?thesis using keys known unfolding case_prod_beta by blast
qed

section \<open>Examples\<close>

definition exampleEnvironment :: environment where
  "exampleEnvironment = map_of
     [(''NODE_ENV'', ''production''), (''APP_URL'', ''https://t2w''), (''APP_DOMAIN'', ''t2w''), (''DATABASE_URL'', ''pg''),
      (''REDIS_URL'', ''rd''), (''JWT_SECRET'', replicate 32 (CHR ''j'')), (''SESSION_SECRET'', replicate 32 (CHR ''s'')),
      (''IP_HASH_SALT'', replicate 32 (CHR ''i'')), (''TURN_SECRET'', replicate 32 (CHR ''t'')),
      (''TURN_DOMAIN'', ''turn''), (''SMTP_HOST'', ''mail'')]"

lemma example_loads:
  "\<exists>config. loadApiConfig exampleFormats exampleEnvironment = Some config \<and> kc_isProduction config"
proof -
  have "(case loadApiConfig exampleFormats exampleEnvironment of None \<Rightarrow> False | Some c \<Rightarrow> kc_isProduction c)"
    by code_simp
  then show ?thesis by (auto split: option.splits)
qed

lemma production_starts_fit_witness:
  "\<exists>config. loadApiConfig exampleFormats exampleEnvironment = Some config \<and> kc_smtpConfigured config"
  using example_loads production_starts_fit by blast

lemma one_environment_two_servers_witness:
  "\<exists>rt. loadRealtimeConfig exampleFormats exampleEnvironment = Some rt \<and> rc_isProduction rt"
  using example_loads one_environment_two_servers [of exampleFormats exampleEnvironment _ exampleEnvironment] by metis

definition hourlyBans :: Repeatable where
  "hourlyBans = \<lparr>rp_key = ''old'', rp_name = ''expire-bans'', rp_cron = ''0 * * * *''\<rparr>"

lemma schedule_survives_restarts_witness:
  "hourlyBans \<in> set (registerSchedule (@) [hourlyBans]) \<and>
   ''expire-bans*/5 * * * *'' \<in> rp_key ` set (registerSchedule (@) [hourlyBans])"
proof
  have "rp_name hourlyBans \<in> set (map fst SCHEDULE)" by (simp add: hourlyBans_def SCHEDULE_def)
  then show "hourlyBans \<in> set (registerSchedule (@) [hourlyBans])"
    using schedule_survives_restarts [of "(@)" "[hourlyBans]"] by (meson list.set_intros(1))
  have "(''expire-bans'', ''*/5 * * * *'') \<in> set SCHEDULE" by (simp add: SCHEDULE_def)
  then have "''expire-bans'' @ ''*/5 * * * *'' \<in> rp_key ` set (registerSchedule (@) [hourlyBans])"
    using schedule_survives_restarts [of "(@)" "[hourlyBans]"] by fast
  then show "''expire-bans*/5 * * * *'' \<in> rp_key ` set (registerSchedule (@) [hourlyBans])" by simp
qed

end
