(* ===== verification/Mailer.thy ===== *)
theory Mailer
  imports Config_Safety Auth_Routes
begin

text \<open>Outbound mail: \<^verbatim>\<open>packages/mailer/src/index.ts\<close> with \<^verbatim>\<open>mail.service.ts\<close>, and what the routes' mails become. The SMTP
library is a parameter: whether a delivery succeeds.\<close>

record MailerConfig =
  mr_transport :: MailTransport
  mr_host :: string
  mr_port :: int
  mr_user :: string
  mr_password :: string
  mr_secure :: bool
  mr_from :: string
  mr_appUrl :: string

record MailMessage =
  mm_to :: string
  mm_subject :: string
  mm_text :: string

record TransportOptions =
  tr_host :: string
  tr_port :: int
  tr_secure :: bool
  tr_auth :: "(string \<times> string) option"
  tr_requireTLS :: bool

definition createMailService :: "ApiConfig \<Rightarrow> MailerConfig" where
  "createMailService config =
     (let e = kc_env config in
      \<lparr>mr_transport = ae_MAIL_TRANSPORT e, mr_host = ae_SMTP_HOST e, mr_port = ae_SMTP_PORT e, mr_user = ae_SMTP_USER e,
       mr_password = ae_SMTP_PASSWORD e, mr_secure = ae_SMTP_SECURE e, mr_from = ae_MAIL_FROM e,
       mr_appUrl = ae_APP_URL e\<rparr>)"

text \<open>The worker's, from its own environment.\<close>

definition workerMail :: "WorkerEnv \<Rightarrow> MailerConfig" where
  "workerMail e =
     \<lparr>mr_transport = we_MAIL_TRANSPORT e, mr_host = we_SMTP_HOST e, mr_port = we_SMTP_PORT e, mr_user = we_SMTP_USER e,
      mr_password = we_SMTP_PASSWORD e, mr_secure = we_SMTP_SECURE e, mr_from = we_MAIL_FROM e, mr_appUrl = we_APP_URL e\<rparr>"

definition getTransporter :: "MailerConfig \<Rightarrow> TransportOptions option" where
  "getTransporter config =
     (if mr_transport config = Log \<or> mr_host config = [] then None
      else Some \<lparr>tr_host = mr_host config, tr_port = mr_port config, tr_secure = mr_secure config,
        tr_auth = (if mr_user config \<noteq> [] then Some (mr_user config, mr_password config) else None),
        tr_requireTLS = (\<not> mr_secure config)\<rparr>)"

text \<open>What \<^verbatim>\<open>send\<close> does, which never fails: the whole text in the log, a delivery, or an error in the log.\<close>

datatype MailEvent =
    LoggedMail MailMessage | Delivered TransportOptions string MailMessage | FailedMail string

definition sendMessage :: "MailerConfig \<Rightarrow> bool \<Rightarrow> MailMessage \<Rightarrow> MailEvent" where
  "sendMessage config delivers message =
     (case getTransporter config of
        None \<Rightarrow> LoggedMail message
      | Some t \<Rightarrow> if delivers then Delivered t (mr_from config) message else FailedMail (mm_to message))"

definition verifyConnection :: "MailerConfig \<Rightarrow> bool \<Rightarrow> bool" where
  "verifyConnection config verifies = (case getTransporter config of None \<Rightarrow> True | Some t \<Rightarrow> verifies)"

definition dash :: string where
  "dash = [CHR 0xE2, CHR 0x80, CHR 0x94]"

definition textLines :: "string list \<Rightarrow> string" where
  "textLines ls = concat (map (\<lambda>l. l @ [CHR 0x0A]) (butlast ls)) @ last ls"

definition verificationEmail :: "(string \<Rightarrow> string) \<Rightarrow> MailerConfig \<Rightarrow> string \<Rightarrow> string \<Rightarrow> MailMessage" where
  "verificationEmail encodeURIComponent config recipient token =
     \<lparr>mm_to = recipient, mm_subject = ''Confirm your email '' @ dash @ '' Trip2World'',
      mm_text = textLines [''Welcome to Trip2World.'', [], ''Confirm your email address to start meeting people:'',
        mr_appUrl config @ ''/verify-email?token='' @ encodeURIComponent token, [],
        ''This link expires in 24 hours.'', ''If you did not create an account, you can ignore this message.'']\<rparr>"

definition passwordResetEmail :: "(string \<Rightarrow> string) \<Rightarrow> MailerConfig \<Rightarrow> string \<Rightarrow> string \<Rightarrow> MailMessage" where
  "passwordResetEmail encodeURIComponent config recipient token =
     \<lparr>mm_to = recipient, mm_subject = ''Reset your password '' @ dash @ '' Trip2World'',
      mm_text = textLines [''We received a request to reset your Trip2World password.'', [],
        mr_appUrl config @ ''/reset-password?token='' @ encodeURIComponent token, [],
        ''This link expires in 1 hour and can only be used once.'',
        ''If you did not request this, you can ignore this message '' @ dash @ '' your password has not changed.'']\<rparr>"

definition accountDeletedEmail :: "string \<Rightarrow> MailMessage" where
  "accountDeletedEmail recipient =
     \<lparr>mm_to = recipient, mm_subject = ''Your Trip2World account has been deleted'',
      mm_text = textLines [''Your Trip2World account and personal data have been permanently deleted.'', [],
        ''Reports filed about other accounts are retained without any link to you, as they'',
        ''concern the safety of other people.'', [],
        ''You are welcome back any time '' @ dash @ '' you would start with a fresh account.'']\<rparr>"

fun mailMessage :: "(string \<Rightarrow> string) \<Rightarrow> MailerConfig \<Rightarrow> Mail \<Rightarrow> MailMessage" where
  "mailMessage encodeURIComponent config (VerificationMail address token) =
     verificationEmail encodeURIComponent config address token"
| "mailMessage encodeURIComponent config (ResetMail address token) =
     passwordResetEmail encodeURIComponent config address token"

section \<open>Properties\<close>

text \<open>No link leaves through the log in production. A mail's text holds the one-time token, and the development
branch writes it to the log. An API that has started in production never takes that branch: whatever a route
sends goes out over SMTP with TLS demanded, or is noted as failed by its recipient alone. The worker reads the same
variables without the rule: what the API refuses to start with, the worker starts with in production, and logs.\<close>

theorem production_mail_never_logged:
  assumes "loadApiConfig fm source = Some config" and "kc_isProduction config"
  shows "(\<exists>t. sendMessage (createMailService config) True (mailMessage enc (createMailService config) mail) =
             Delivered t (ae_MAIL_FROM (kc_env config)) (mailMessage enc (createMailService config) mail) \<and>
           tr_secure t = (\<not> tr_requireTLS t)) \<and>
         sendMessage (createMailService config) False message = FailedMail (mm_to message) \<and>
         (\<exists>worker. workerEnvSchema fm (source(''MAIL_TRANSPORT'' \<mapsto> ''log'', ''AUDIT_RETENTION_DAYS'' := None)) = Some worker \<and>
            we_NODE_ENV worker = Production \<and> sendMessage (workerMail worker) delivers message = LoggedMail message) \<and>
         loadApiConfig fm (source(''MAIL_TRANSPORT'' \<mapsto> ''log'')) = None"
proof -
  obtain env where env: "apiEnvObject fm source = Some env" "kc_env config = env" "envIssues env = []"
    "kc_isProduction config = (ae_NODE_ENV env = Production)"
    using assms(1) by (rule loadApiConfig_Some)
  have prod: "ae_NODE_ENV env = Production" using assms(2) env(4) by simp
  then have "ae_MAIL_TRANSPORT env \<noteq> Log" "\<not> (ae_MAIL_TRANSPORT env = Smtp \<and> ae_SMTP_HOST env = [])"
    using env(3) by (auto simp: envIssues_def productionIssues_def split: if_splits)
  then have sends: "getTransporter (createMailService config) \<noteq> None"
    by (cases "ae_MAIL_TRANSPORT env") (auto simp: getTransporter_def createMailService_def env(2))
  have out: "\<exists>t. getTransporter (createMailService config) = Some t \<and> tr_secure t = (\<not> tr_requireTLS t)"
    using sends by (auto simp: getTransporter_def split: if_splits)
  let ?quiet = "source(''MAIL_TRANSPORT'' \<mapsto> ''log'', ''AUDIT_RETENTION_DAYS'' := None)"
  let ?log = "source(''MAIL_TRANSPORT'' \<mapsto> ''log'')"
  have same: "envVar ?quiet name = envVar source name" "envVar ?log name = envVar source name"
    if "name \<notin> {''MAIL_TRANSPORT'', ''AUDIT_RETENTION_DAYS''}" for name
    using that by (simp_all add: envVar_def)
  have new: "mailTransportSchema (envVar ?quiet ''MAIL_TRANSPORT'') = Some Log"
    "mailTransportSchema (envVar ?log ''MAIL_TRANSPORT'') = Some Log"
    "zDefault 730 (envInt fm (\<lambda>n. 30 \<le> n)) (envVar ?quiet ''AUDIT_RETENTION_DAYS'') = Some 730"
    by (simp_all add: mailTransportSchema_def zDefault_def zEnum_def envVar_def)
  note fields = apiEnvObject_Some [OF env(1)]
  have "\<exists>worker. workerEnvSchema fm ?quiet = Some worker \<and> we_NODE_ENV worker = Production \<and> we_MAIL_TRANSPORT worker = Log"
    using fields new(1,3) prod by (simp add: workerEnvSchema_def same)
  then have worker: "\<exists>worker. workerEnvSchema fm ?quiet = Some worker \<and> we_NODE_ENV worker = Production \<and>
      sendMessage (workerMail worker) delivers message = LoggedMail message"
    by (auto simp: sendMessage_def getTransporter_def workerMail_def)
  have "loadApiConfig fm ?log = None"
  proof (rule ccontr)
    assume "loadApiConfig fm ?log \<noteq> None"
    then obtain config' where "loadApiConfig fm ?log = Some config'" by blast
    then obtain env' where env': "apiEnvObject fm ?log = Some env'" "envIssues env' = []" by (rule loadApiConfig_Some)
    have "nodeEnvSchema (envVar ?log ''NODE_ENV'') = Some (ae_NODE_ENV env')"
      "mailTransportSchema (envVar ?log ''MAIL_TRANSPORT'') = Some (ae_MAIL_TRANSPORT env')"
      using apiEnvObject_Some [OF env'(1)] by blast+
    moreover have "nodeEnvSchema (envVar source ''NODE_ENV'') = Some (ae_NODE_ENV env)" using fields by blast
    ultimately have "ae_NODE_ENV env' = Production" "ae_MAIL_TRANSPORT env' = Log" using prod new(2) same(2) by auto
    then show False using env'(2) by (simp add: envIssues_def productionIssues_def)
  qed
  then show ?thesis using out worker by (auto simp: sendMessage_def env(2) createMailService_def [of config] Let_def)
qed

lemma production_mail_never_logged_witness:
  "\<exists>config t. loadApiConfig exampleFormats exampleEnvironment = Some config \<and>
     sendMessage (createMailService config) True (mailMessage id (createMailService config) (ResetMail ''a@b'' ''tok'')) =
       Delivered t (ae_MAIL_FROM (kc_env config)) (mailMessage id (createMailService config) (ResetMail ''a@b'' ''tok''))"
  using example_loads production_mail_never_logged by metis

end
