(* ===== verification/Session_Provider.thy ===== *)
theory Session_Provider
  imports Auth_Routes Api_Client
begin

text \<open>Being signed in, seen from the browser: the session providers of both web applications
(\<^verbatim>\<open>session-provider.tsx\<close>, \<^verbatim>\<open>admin-session.tsx\<close>) and the target after a sign-in (\<^verbatim>\<open>login/page.tsx\<close>), run over the
HTTP client of \<^verbatim>\<open>api-client.ts\<close>, a browser that keeps the refresh cookie, and the routes of \<^verbatim>\<open>auth.routes.ts\<close>. So one
call of \<open>signOut\<close> here goes through every layer, from the click to the tables and back. The components stay mounted.\<close>

section \<open>The browser and the wire\<close>

text \<open>The cookie of the origin, the server behind it, who is asking; and for every coming request what the server
has then (its clock, its fresh secrets), or \<^const>\<open>None\<close> where the network fails.\<close>

record Browser =
  bw_cookie :: "string option"
  bw_site :: AuthSite
  bw_context :: SessionContext
  bw_next :: "nat \<Rightarrow> HttpEnv option"

fun errorCodeText :: "ApiErrorCode \<Rightarrow> string" where
  "errorCodeText VALIDATION_ERROR = ''VALIDATION_ERROR''"
| "errorCodeText UNAUTHENTICATED = ''UNAUTHENTICATED''"
| "errorCodeText INVALID_CREDENTIALS = ''INVALID_CREDENTIALS''"
| "errorCodeText API_FORBIDDEN = ''FORBIDDEN''"
| "errorCodeText NOT_FOUND = ''NOT_FOUND''"
| "errorCodeText CONFLICT = ''CONFLICT''"
| "errorCodeText RATE_LIMITED = ''RATE_LIMITED''"
| "errorCodeText ACCOUNT_SUSPENDED = ''ACCOUNT_SUSPENDED''"
| "errorCodeText ACCOUNT_BANNED = ''ACCOUNT_BANNED''"
| "errorCodeText EMAIL_NOT_VERIFIED = ''EMAIL_NOT_VERIFIED''"
| "errorCodeText UNDERAGE = ''UNDERAGE''"
| "errorCodeText REGISTRATION_CLOSED = ''REGISTRATION_CLOSED''"
| "errorCodeText MAINTENANCE = ''MAINTENANCE''"
| "errorCodeText TOKEN_EXPIRED = ''TOKEN_EXPIRED''"
| "errorCodeText TOKEN_INVALID = ''TOKEN_INVALID''"
| "errorCodeText PAYLOAD_TOO_LARGE = ''PAYLOAD_TOO_LARGE''"
| "errorCodeText UNSUPPORTED_COUNTRY = ''UNSUPPORTED_COUNTRY''"
| "errorCodeText FEATURE_DISABLED = ''FEATURE_DISABLED''"
| "errorCodeText INTERNAL_ERROR = ''INTERNAL_ERROR''"

definition ME_PATH :: string where "ME_PATH = ''/v1/auth/me''"
definition LOGIN_PATH :: string where "LOGIN_PATH = ''/v1/auth/login''"
definition LOGOUT_PATH :: string where "LOGOUT_PATH = ''/v1/auth/logout''"

definition routeAt :: "string \<Rightarrow> AuthRoute option" where
  "routeAt path = map_of [(ME_PATH, GetMe), (LOGIN_PATH, PostLogin), (REFRESH_PATH, PostRefresh),
     (LOGOUT_PATH, PostLogout)] path"

definition applyCookie :: "CookieWrite \<Rightarrow> string option \<Rightarrow> string option" where
  "applyCookie w jar = (case w of KeepCookie \<Rightarrow> jar | SetCookie c \<Rightarrow> Some c | ClearCookie \<Rightarrow> None)"

definition wire :: "AuthReply \<Rightarrow> AuthAnswer Response" where
  "wire reply =
     (case ap_answer reply of
        Inl e \<Rightarrow> Response (int (statusCode e)) (Failure (errorCodeText (ae_code e)))
      | Inr a \<Rightarrow> Response 200 (Success a))"

definition requestOf :: "Browser \<Rightarrow> raw \<Rightarrow> Fetched \<Rightarrow> HttpRequest" where
  "requestOf b body f =
     \<lparr>rq_context = bw_context b, rq_native = False, rq_cookie = bw_cookie b,
      rq_header = map_option (\<lambda>t. ''Bearer '' @ t) (fx_bearer f),
      rq_body = (if fx_path f = REFRESH_PATH then Undefined else body)\<rparr>"

text \<open>One \<^verbatim>\<open>fetch\<close> with credentials, from the tab to the server and back.\<close>

definition exchange :: "raw \<Rightarrow> Fetched \<Rightarrow> Browser \<Rightarrow> AuthAnswer Response \<times> Browser" where
  "exchange body f b0 =
     (let b = b0\<lparr>bw_next := (\<lambda>n. bw_next b0 (Suc n))\<rparr> in
      case bw_next b0 0 of
        None \<Rightarrow> (NetworkError, b)
      | Some env \<Rightarrow>
          (case routeAt (fx_path f) of
             None \<Rightarrow> (Response 404 (Failure ''NOT_FOUND''), b)
           | Some route \<Rightarrow>
               let (reply, site) = authRoute env route (requestOf b body f) (bw_site b)
               in (wire reply, b\<lparr>bw_cookie := applyCookie (ap_cookie reply) (bw_cookie b), bw_site := site\<rparr>)))"

text \<open>\<^verbatim>\<open>data.tokens\<close>.\<close>

fun answerTokens :: "AuthAnswer \<Rightarrow> (string \<times> int) option" where
  "answerTokens (RefreshedAnswer t) = Some (tk_access t, tk_expiresIn t)"
| "answerTokens (SignedInAnswer self t grants) = Some (tk_access t, tk_expiresIn t)"
| "answerTokens a = None"

definition apiRequest ::
    "int \<Rightarrow> string \<Rightarrow> bool \<Rightarrow> raw \<Rightarrow> ApiState \<Rightarrow> Browser \<Rightarrow> (ClientError + AuthAnswer) \<times> ApiState \<times> Browser" where
  "apiRequest now path authenticated' body c b =
     request (exchange body) answerTokens now
       \<lparr>ro_path = path, ro_skipAuthRetry = False, ro_authenticated = authenticated'\<rparr> c b"

definition apiRefresh :: "int \<Rightarrow> ApiState \<Rightarrow> Browser \<Rightarrow> bool \<times> ApiState \<times> Browser" where
  "apiRefresh now c b = Api_Client.refresh (exchange Undefined) answerTokens now c b"

section \<open>The application\<close>

datatype SessionStatus = SessionLoading | SessionAuthenticated | SessionUnauthenticated

record WebSession =
  ws_status :: SessionStatus
  ws_user :: "SelfView option"
  ws_grants :: "GrantResult list"
  ws_client :: ApiState
  ws_browser :: Browser

definition loadUser :: "int \<Rightarrow> WebSession \<Rightarrow> WebSession" where
  "loadUser now ws =
     (case apiRequest now ME_PATH True Undefined (ws_client ws) (ws_browser ws) of
        (Inr (SelfAnswer profile), c, b) \<Rightarrow>
          ws\<lparr>ws_user := Some profile, ws_status := SessionAuthenticated, ws_client := c, ws_browser := b\<rparr>
      | (other, c, b) \<Rightarrow>
          ws\<lparr>ws_user := None, ws_status := SessionUnauthenticated, ws_client := c, ws_browser := b\<rparr>)"

text \<open>Opening the page: the access token was only in memory and is gone.\<close>

definition openPage :: "Browser \<Rightarrow> WebSession" where
  "openPage b = \<lparr>ws_status = SessionLoading, ws_user = None, ws_grants = [],
     ws_client = \<lparr>cs_accessToken = None, cs_accessTokenExpiresAt = 0\<rparr>, ws_browser = b\<rparr>"

definition boot :: "int \<Rightarrow> WebSession \<Rightarrow> WebSession" where
  "boot now ws =
     (case apiRefresh now (ws_client ws) (ws_browser ws) of
        (False, c, b) \<Rightarrow> ws\<lparr>ws_status := SessionUnauthenticated, ws_client := c, ws_browser := b\<rparr>
      | (True, c, b) \<Rightarrow> loadUser now (ws\<lparr>ws_client := c, ws_browser := b\<rparr>))"

definition credentials :: "string \<Rightarrow> string \<Rightarrow> raw" where
  "credentials email password = Obj [(''email'', Text email), (''password'', Text password)]"

text \<open>\<^verbatim>\<open>signIn\<close> and \<^verbatim>\<open>signOut\<close> with what they throw.\<close>

definition signIn :: "int \<Rightarrow> string \<Rightarrow> string \<Rightarrow> WebSession \<Rightarrow> ClientError option \<times> WebSession" where
  "signIn now email password ws =
     (case apiRequest now LOGIN_PATH False (credentials email password) (ws_client ws) (ws_browser ws) of
        (Inl e, c, b) \<Rightarrow> (Some e, ws\<lparr>ws_client := c, ws_browser := b\<rparr>)
      | (Inr (SignedInAnswer self t granted), c, b) \<Rightarrow>
          (None, ws\<lparr>ws_client := setAccessToken now (Some (tk_access t)) (tk_expiresIn t) c, ws_user := Some self,
                    ws_grants := granted, ws_status := SessionAuthenticated, ws_browser := b\<rparr>)
      | (Inr other, c, b) \<Rightarrow> (Some FetchFailed, ws\<lparr>ws_client := c, ws_browser := b\<rparr>))"

definition signOut :: "int \<Rightarrow> WebSession \<Rightarrow> ClientError option \<times> WebSession" where
  "signOut now ws =
     (let (result, c, b) = apiRequest now LOGOUT_PATH True Undefined (ws_client ws) (ws_browser ws) in
      (case result of Inl FetchFailed \<Rightarrow> Some FetchFailed | other \<Rightarrow> None,
       ws\<lparr>ws_client := setAccessToken now None 0 c, ws_user := None, ws_grants := [],
          ws_status := SessionUnauthenticated, ws_browser := b\<rparr>))"

section \<open>Where to go after signing in\<close>

text \<open>\<^verbatim>\<open>/^\/(?!\/)/\<close>.\<close>

definition nextTarget :: "string option \<Rightarrow> string" where
  "nextTarget nextParam =
     (case nextParam of
        Some p \<Rightarrow> if p \<noteq> [] \<and> take 1 p = ''/'' \<and> take 1 (drop 1 p) \<noteq> ''/'' then p else ''/discover''
      | None \<Rightarrow> ''/discover'')"

text \<open>\<^verbatim>\<open>useRequireAuth\<close>: the address a signed-out visitor is sent to.\<close>

definition requireAuth :: "(string \<Rightarrow> string) \<Rightarrow> string \<Rightarrow> SessionStatus \<Rightarrow> string option" where
  "requireAuth encodeURIComponent pathname status =
     (if status = SessionUnauthenticated then Some (''/login?next='' @ encodeURIComponent pathname) else None)"

section \<open>The administration panel\<close>

datatype AdminStatus = AdminLoading | AdminAuthenticated | AdminUnauthenticated | AdminForbidden

record AdminSession =
  as_status :: AdminStatus
  as_user :: "SelfView option"
  as_client :: ApiState
  as_browser :: Browser

definition hasRole :: "SelfView option \<Rightarrow> UserRole \<Rightarrow> bool" where
  "hasRole user required =
     (case user of
        None \<Rightarrow> False
      | Some u \<Rightarrow> let actual = indexOf ROLE_HIERARCHY (sv_role u); needed = indexOf ROLE_HIERARCHY required
                  in 0 \<le> actual \<and> needed \<le> actual)"

definition loadAdmin :: "int \<Rightarrow> AdminSession \<Rightarrow> AdminSession" where
  "loadAdmin now s =
     (case apiRequest now ME_PATH True Undefined (as_client s) (as_browser s) of
        (Inr (SelfAnswer profile), c, b) \<Rightarrow>
          if \<not> hasRole (Some profile) UserRole_MODERATOR
          then s\<lparr>as_user := None, as_status := AdminForbidden, as_client := c, as_browser := b\<rparr>
          else s\<lparr>as_user := Some profile, as_status := AdminAuthenticated, as_client := c, as_browser := b\<rparr>
      | (other, c, b) \<Rightarrow> s\<lparr>as_user := None, as_status := AdminUnauthenticated, as_client := c, as_browser := b\<rparr>)"

definition bootAdmin :: "int \<Rightarrow> AdminSession \<Rightarrow> AdminSession" where
  "bootAdmin now s =
     (case apiRefresh now (as_client s) (as_browser s) of
        (False, c, b) \<Rightarrow> s\<lparr>as_status := AdminUnauthenticated, as_client := c, as_browser := b\<rparr>
      | (True, c, b) \<Rightarrow> loadAdmin now (s\<lparr>as_client := c, as_browser := b\<rparr>))"

definition signInAdmin :: "int \<Rightarrow> string \<Rightarrow> string \<Rightarrow> AdminSession \<Rightarrow> ClientError option \<times> AdminSession" where
  "signInAdmin now email password s =
     (case apiRequest now LOGIN_PATH False (credentials email password) (as_client s) (as_browser s) of
        (Inl e, c, b) \<Rightarrow> (Some e, s\<lparr>as_client := c, as_browser := b\<rparr>)
      | (Inr (SignedInAnswer self t granted), c, b) \<Rightarrow>
          if \<not> hasRole (Some self) UserRole_MODERATOR
          then (let (result, c2, b2) = apiRequest now LOGOUT_PATH True Undefined (setAccessToken now None 0 c) b
                in (None, s\<lparr>as_client := c2, as_browser := b2, as_status := AdminForbidden\<rparr>))
          else (None, s\<lparr>as_client := setAccessToken now (Some (tk_access t)) (tk_expiresIn t) c,
                        as_browser := b, as_user := Some self, as_status := AdminAuthenticated\<rparr>)
      | (Inr other, c, b) \<Rightarrow> (Some FetchFailed, s\<lparr>as_client := c, as_browser := b\<rparr>))"

definition signOutAdmin :: "int \<Rightarrow> AdminSession \<Rightarrow> ClientError option \<times> AdminSession" where
  "signOutAdmin now s =
     (let (result, c, b) = apiRequest now LOGOUT_PATH True Undefined (as_client s) (as_browser s) in
      (case result of Inl FetchFailed \<Rightarrow> Some FetchFailed | other \<Rightarrow> None,
       s\<lparr>as_client := setAccessToken now None 0 c, as_user := None, as_status := AdminUnauthenticated,
         as_browser := b\<rparr>))"

text \<open>\<^verbatim>\<open>can\<close>.\<close>

definition can :: "AdminSession \<Rightarrow> UserRole \<Rightarrow> bool" where
  "can s role = hasRole (as_user s) role"

end
