(* ===== verification/Session_Safety.thy ===== *)
theory Session_Safety
  imports Session_Provider Auth_Route_Safety
begin

text \<open>Signing out, several tabs and the way back after a sign-in, from the browser through every layer: what a
sign-out ends and what it cannot, what two tabs do to each other, and where a crafted link can lead.\<close>

section \<open>Signing out\<close>

lemma refused_refresh:
  assumes "bw_cookie b = None"
  shows "fst (apiRefresh now c b) = False"
proof (cases "bw_next b 0")
  case None
  then show ?thesis
    by (simp add: apiRefresh_def Api_Client.refresh_def request_once refreshOptions_def exchange_def)
next
  case (Some env)
  have "routeAt REFRESH_PATH = Some PostRefresh"
    by (simp add: routeAt_def REFRESH_PATH_def ME_PATH_def LOGIN_PATH_def LOGOUT_PATH_def)
  then show ?thesis
    using Some assms
    by (simp add: apiRefresh_def Api_Client.refresh_def request_once refreshOptions_def exchange_def requestOf_def
        postRefresh_def presentedToken_def refusal_def wire_def Let_def)
qed

lemma boot_without_cookie:
  "bw_cookie b = None \<Longrightarrow> ws_status (boot now (openPage b)) = SessionUnauthenticated"
  using refused_refresh [of b now "ws_client (openPage b)"]
  by (auto simp: boot_def openPage_def split: prod.splits bool.splits)

text \<open>A sign-out is as good as the network. Whatever happens, the page shows nobody signed in and has dropped
its access token. If the request reaches the server with a valid token, the cookie is gone too, and whoever opens the
page later is not signed in, whatever happens in between on the server. If the network fails, cookie and server are
as before: opening the page later gives exactly what it would have given without the sign-out.\<close>

theorem sign_out_is_as_good_as_the_network:
  assumes "signOut now ws = (e, ws')"
  shows "ws_status ws' = SessionUnauthenticated \<and> ws_user ws' = None \<and> cs_accessToken (ws_client ws') = None \<and>
    (bw_next (ws_browser ws) 0 = None \<longrightarrow>
       e = Some FetchFailed \<and>
       (\<forall>later weather. boot later (openPage ((ws_browser ws')\<lparr>bw_next := weather\<rparr>)) =
                        boot later (openPage ((ws_browser ws)\<lparr>bw_next := weather\<rparr>)))) \<and>
    (\<forall>env token user. bw_next (ws_browser ws) 0 = Some env \<and> cs_accessToken (ws_client ws) = Some token \<and> token \<noteq> [] \<and>
       authenticate (he_verify env) (httpNow env) (as_revoked (bw_site (ws_browser ws))) (as_db (bw_site (ws_browser ws)))
         (Some (''Bearer '' @ token)) = Ok user \<longrightarrow>
       e = None \<and> bw_cookie (ws_browser ws') = None \<and>
       (\<forall>later weather site. ws_status (boot later (openPage
          ((ws_browser ws')\<lparr>bw_next := weather, bw_site := site\<rparr>))) = SessionUnauthenticated))"
proof (intro conjI impI allI)
  show "ws_status ws' = SessionUnauthenticated" "ws_user ws' = None" "cs_accessToken (ws_client ws') = None"
    using assms by (auto simp: signOut_def setAccessToken_def split: prod.splits)
next
  assume off: "bw_next (ws_browser ws) 0 = None"
  then have r: "apiRequest now LOGOUT_PATH True Undefined (ws_client ws) (ws_browser ws) =
      (Inl FetchFailed, ws_client ws, (ws_browser ws)\<lparr>bw_next := (\<lambda>n. bw_next (ws_browser ws) (Suc n))\<rparr>)"
    unfolding apiRequest_def by (subst request_refresh) (simp add: exchange_def)
  show "e = Some FetchFailed" using assms by (auto simp: signOut_def r)
  show "boot later (openPage ((ws_browser ws')\<lparr>bw_next := weather\<rparr>)) =
      boot later (openPage ((ws_browser ws)\<lparr>bw_next := weather\<rparr>))" for later weather
    using assms by (auto simp: signOut_def r)
next
  fix env token user
  assume on: "bw_next (ws_browser ws) 0 = Some env \<and> cs_accessToken (ws_client ws) = Some token \<and> token \<noteq> [] \<and>
       authenticate (he_verify env) (httpNow env) (as_revoked (bw_site (ws_browser ws))) (as_db (bw_site (ws_browser ws)))
         (Some (''Bearer '' @ token)) = Ok user"
  have "routeAt LOGOUT_PATH = Some PostLogout"
    by (simp add: routeAt_def REFRESH_PATH_def ME_PATH_def LOGIN_PATH_def LOGOUT_PATH_def)
  then have r: "exchange Undefined \<lparr>fx_path = LOGOUT_PATH, fx_bearer = Some token\<rparr> (ws_browser ws) = (Response 200 (Success MessageAnswer), b) \<Longrightarrow>
      bw_cookie b = None" for b
    using on by (auto simp: exchange_def requestOf_def postLogout_def authenticated_def withCookie_def answer_def
        applyCookie_def Let_def)
  obtain b where b: "exchange Undefined \<lparr>fx_path = LOGOUT_PATH, fx_bearer = Some token\<rparr> (ws_browser ws) =
      (Response 200 (Success MessageAnswer), b)"
    using on \<open>routeAt LOGOUT_PATH = Some PostLogout\<close>
    by (auto simp: exchange_def requestOf_def postLogout_def authenticated_def withCookie_def answer_def wire_def Let_def)
  have "bearerFor True (ws_client ws) = Some token" using on by (simp add: bearerFor_def)
  then have a: "apiRequest now LOGOUT_PATH True Undefined (ws_client ws) (ws_browser ws) = (Inr MessageAnswer, ws_client ws, b)"
    unfolding apiRequest_def by (subst request_refresh) (simp add: b responseOk_def)
  show "e = None" using assms by (auto simp: signOut_def a)
  show gone: "bw_cookie (ws_browser ws') = None" using assms r [OF b] by (auto simp: signOut_def a)
  show "ws_status (boot later (openPage ((ws_browser ws')\<lparr>bw_next := weather, bw_site := site\<rparr>))) = SessionUnauthenticated"
    for later weather site
    using gone by (intro boot_without_cookie) simp
qed

section \<open>Two tabs\<close>

lemma rotated_away:
  assumes "distinct (map s_refreshTokenHash (db_sessions db))" and "session \<in> set (db_sessions db)"
    and "ax_hashToken env (ax_freshToken env) \<noteq> s_refreshTokenHash session"
  shows "find (\<lambda>s. s_refreshTokenHash s = s_refreshTokenHash session) (db_sessions (rotate env (s_id session) ctx db)) = None"
proof -
  have "s_refreshTokenHash row \<noteq> s_refreshTokenHash session"
    if row: "row \<in> set (db_sessions (rotate env (s_id session) ctx db))" for row
  proof -
    obtain q where q: "q \<in> set (db_sessions db)" and
      "row = (if s_id q = s_id session then q\<lparr>s_refreshTokenHash := ax_hashToken env (ax_freshToken env),
         s_rotationCounter := s_rotationCounter q + 1, s_lastUsedAt := ax_now env,
         s_expiresAt := refreshTokenExpiry (ax_now env), s_ipHash := ax_hashIp env (sc_ip ctx)\<rparr> else q)"
      using row unfolding rotate_def by (auto simp: set_updateWhere)
    moreover have "s_refreshTokenHash q = s_refreshTokenHash session \<Longrightarrow> q = session"
      using assms(1,2) q by (metis distinct_map inj_onD)
    ultimately show ?thesis using assms(3) by (cases "s_id q = s_id session") auto
  qed
  then show ?thesis by (auto simp: find_None_iff2)
qed

text \<open>C25: Two tabs sign each other out. Callers of one tab share a refresh; two tabs that are opened together do
not, and both requests leave with the same cookie. The first is answered and the token rotated. The second finds no
session for the old token: it is refused, and the refusal clears the cookie that the first had just set. From then on
no page of this browser is signed in, while the session it belonged to is on the server, open and for as long as
if it had never been touched.\<close>

theorem two_tabs_sign_each_other_out:
  assumes "bw_cookie b = Some c" and "c \<noteq> []"
    and "authRoute env1 PostRefresh (requestOf b Undefined f) (bw_site b) = (reply1, site1)"
    and "ap_answer reply1 = Ok a" and "authRoute env2 PostRefresh (requestOf b Undefined f) site1 = (reply2, site2)"
    and "ax_hashToken (he_auth env2) = ax_hashToken (he_auth env1)"
    and "ax_hashToken (he_auth env1) (ax_freshToken (he_auth env1)) \<noteq> ax_hashToken (he_auth env1) c"
    and "distinct (map s_refreshTokenHash (db_sessions (as_db (bw_site b))))"
  shows "applyCookie (ap_cookie reply1) (bw_cookie b) = Some (ax_freshToken (he_auth env1)) \<and>
    (\<exists>e. ap_answer reply2 = Throw e) \<and>
    applyCookie (ap_cookie reply2) (applyCookie (ap_cookie reply1) (bw_cookie b)) = None \<and>
    (\<forall>later weather. ws_status (boot later (openPage (b\<lparr>bw_cookie := None, bw_site := site2, bw_next := weather\<rparr>))) =
       SessionUnauthenticated) \<and>
    (\<exists>row \<in> set (db_sessions (as_db site2)). s_revokedAt row = None \<and>
       s_refreshTokenHash row = ax_hashToken (he_auth env1) (ax_freshToken (he_auth env1)) \<and>
       s_expiresAt row = refreshTokenExpiry (httpNow env1))"
proof -
  let ?db = "as_db (bw_site b)"
  have asked: "presentedToken (requestOf b Undefined f) = Text c" "rq_cookie (requestOf b Undefined f) = Some c"
    "rq_native (requestOf b Undefined f) = False"
    using assms(1) by (simp_all add: presentedToken_def requestOf_def)
  have truthy: "zCoerceBoolean (Text c) \<noteq> Some False" using assms(2) by simp
  obtain result db where first: "Auth_Service.refresh (he_auth env1) c (rq_context (requestOf b Undefined f)) ?db =
      (Ok result, db)" and r1: "reply1 = withCookie (SetCookie (ar_refreshToken result))
         (answer (RefreshedAnswer (tokensOf False result)))" and s1: "site1 = (bw_site b)\<lparr>as_db := db\<rparr>"
    using assms(3,4) truthy
    by (auto simp: postRefresh_def asked Let_def refreshCookie_def withCookie_def refusal_def split: prod.splits sum.splits)
  obtain session db1 where session: "find (\<lambda>s. s_refreshTokenHash s = ax_hashToken (he_auth env1) c) (db_sessions ?db) = Some session"
    and open': "s_revokedAt session = None"
    and g: "getActiveRestriction (s_userId session) (ax_now (he_auth env1)) ?db = (None, db1)"
    and db: "db = rotate (he_auth env1) (s_id session) (rq_context (requestOf b Undefined f)) db1"
    and fresh: "ar_refreshToken result = ax_freshToken (he_auth env1)"
    using first by (rule refresh_Ok)
  have same: "db_sessions db1 = db_sessions ?db"
    using getActiveRestriction_sessions [of "s_userId session" "ax_now (he_auth env1)" ?db] g by simp
  have member: "session \<in> set (db_sessions db1)" and hash: "s_refreshTokenHash session = ax_hashToken (he_auth env1) c"
    using session same by (auto dest: find_Some_iff2)
  have "find (\<lambda>s. s_refreshTokenHash s = ax_hashToken (he_auth env2) c) (db_sessions db) = None"
    using rotated_away [OF _ member, of "he_auth env1"] assms(6,7,8) same hash db by simp
  then have second: "Auth_Service.refresh (he_auth env2) c (rq_context (requestOf b Undefined f)) db =
      (Throw (Errors_tokenInvalid (Some sessionExpired)), db)"
    by (simp add: Auth_Service.refresh_def)
  have r2: "reply2 = withCookie ClearCookie (refusal (Errors_tokenInvalid (Some sessionExpired)))" and s2: "as_db site2 = db"
    using assms(5) truthy second by (auto simp: postRefresh_def asked Let_def s1)
  let ?row = "session\<lparr>s_refreshTokenHash := ax_hashToken (he_auth env1) (ax_freshToken (he_auth env1)),
    s_rotationCounter := s_rotationCounter session + 1, s_lastUsedAt := ax_now (he_auth env1),
    s_expiresAt := refreshTokenExpiry (ax_now (he_auth env1)),
    s_ipHash := ax_hashIp (he_auth env1) (sc_ip (rq_context (requestOf b Undefined f)))\<rparr>"
  have "?row \<in> set (db_sessions db)" using member unfolding db rotate_def updateWhere_def by force
  then have "\<exists>row \<in> set (db_sessions (as_db site2)). s_revokedAt row = None \<and>
      s_refreshTokenHash row = ax_hashToken (he_auth env1) (ax_freshToken (he_auth env1)) \<and>
      s_expiresAt row = refreshTokenExpiry (httpNow env1)"
    using open' by (intro bexI [of _ ?row]) (simp_all add: s2 httpNow_def)
  moreover have "ws_status (boot later (openPage (b\<lparr>bw_cookie := None, bw_site := site2, bw_next := weather\<rparr>))) =
      SessionUnauthenticated" for later weather
    by (intro boot_without_cookie) simp
  ultimately show ?thesis by (simp add: r1 r2 fresh withCookie_def applyCookie_def refusal_def)
qed

section \<open>The way back\<close>

text \<open>Whether an address given to the browser leaves the site: tabs and line ends are taken out first, and after a
slash or backslash a second one begins a host.\<close>

definition urlIgnored :: "char \<Rightarrow> bool" where
  "urlIgnored c \<longleftrightarrow> (of_char c :: nat) \<in> {9, 10, 13}"

definition isSlash :: "char \<Rightarrow> bool" where
  "isSlash c \<longleftrightarrow> (of_char c :: nat) = 47 \<or> (of_char c :: nat) = 92"

definition leavesSite :: "string \<Rightarrow> bool" where
  "leavesSite address =
     (case filter (\<lambda>c. \<not> urlIgnored c) address of c # d # rest \<Rightarrow> isSlash c \<and> isSlash d | other \<Rightarrow> False)"

lemma slash: "isSlash d \<longleftrightarrow> (of_char d :: nat) = 92 \<or> d = CHR ''/''"
proof -
  have "(47 :: nat) = of_char (CHR ''/'')" by simp
  then show ?thesis unfolding isSlash_def by (metis of_char_eq_iff)
qed

lemma filter_dropWhile: "filter p xs = (case dropWhile (\<lambda>x. \<not> p x) xs of [] \<Rightarrow> [] | y # ys \<Rightarrow> y # filter p ys)"
  by (induction xs) auto

text \<open>The guard against open redirects can be written around. Of the targets a link can ask for, what is let
through and leaves the site is exactly: a slash, then any tabs and line ends, then a backslash; or a slash, at
least one tab or line end, and a slash. An address with two slashes in front, and any that does not begin with a
slash, is refused.\<close>

theorem login_target_can_leave_the_site:
  "leavesSite (nextTarget nextParam) \<longleftrightarrow>
     (\<exists>rest. nextParam = Some (CHR ''/'' # rest) \<and>
        (\<exists>d more. dropWhile urlIgnored rest = d # more \<and>
           ((of_char d :: nat) = 92 \<or> d = CHR ''/'' \<and> hd rest \<noteq> CHR ''/'')))"
proof -
  have discover: "\<not> leavesSite ''/discover''" by (simp add: leavesSite_def urlIgnored_def isSlash_def)
  have begins: "leavesSite (CHR ''/'' # rest) \<longleftrightarrow> (\<exists>d more. dropWhile urlIgnored rest = d # more \<and> isSlash d)" for rest
    using filter_dropWhile [of "\<lambda>c. \<not> urlIgnored c" rest]
    by (cases "dropWhile urlIgnored rest")
      (simp_all del: dropWhile_eq_Nil_conv add: leavesSite_def urlIgnored_def [of "CHR ''/''"] isSlash_def [of "CHR ''/''"])
  have refused: "dropWhile urlIgnored (CHR ''/'' # more) = CHR ''/'' # more" for more
    by (simp add: urlIgnored_def)
  show ?thesis
  proof (cases nextParam)
    case None
    then show ?thesis by (simp add: nextTarget_def discover)
  next
    case (Some p)
    show ?thesis
    proof (cases p)
      case Nil
      then show ?thesis by (simp add: nextTarget_def discover Some)
    next
      case (Cons c rest)
      show ?thesis
      proof (cases "c = CHR ''/'' \<and> take 1 rest \<noteq> ''/''")
        case True
        then have "nextTarget nextParam = CHR ''/'' # rest" by (simp add: nextTarget_def Some Cons)
        moreover have "hd rest \<noteq> CHR ''/''" if "dropWhile urlIgnored rest = d # more" for d more
          using True that by (cases rest) auto
        ultimately show ?thesis using True begins by (auto simp: slash Some Cons)
      next
        case False
        then have "nextTarget nextParam = ''/discover''" by (auto simp: nextTarget_def Some Cons)
        moreover have "\<exists>more. rest = CHR ''/'' # more" if "c = CHR ''/''"
          using False that by (cases rest) auto
        ultimately show ?thesis using discover refused by (auto simp: Some Cons)
      qed
    qed
  qed
qed

section \<open>Examples\<close>

definition exampleBrowser :: Browser where
  "exampleBrowser = \<lparr>bw_cookie = Some ''old'', bw_site = authSiteOf exampleAccount, bw_context = exampleContext,
     bw_next = (\<lambda>n. None)\<rparr>"

definition signedInPage :: WebSession where
  "signedInPage = \<lparr>ws_status = SessionAuthenticated, ws_user = None, ws_grants = [],
     ws_client = \<lparr>cs_accessToken = Some ''tok'', cs_accessTokenExpiresAt = 900\<rparr>, ws_browser = exampleBrowser\<rparr>"

lemma sign_out_is_as_good_as_the_network_witness:
  "fst (signOut 5 signedInPage) = Some FetchFailed \<and>
   boot 6 (openPage ((ws_browser (snd (signOut 5 signedInPage)))\<lparr>bw_next := (\<lambda>n. Some (exampleHttp 6))\<rparr>)) =
   boot 6 (openPage (exampleBrowser\<lparr>bw_next := (\<lambda>n. Some (exampleHttp 6))\<rparr>))"
  using sign_out_is_as_good_as_the_network [of 5 signedInPage, OF prod.collapse [symmetric]]
  by (simp add: signedInPage_def exampleBrowser_def)

lemma two_tabs_sign_each_other_out_witness:
  "\<exists>reply1 site1 reply2 site2 f. authRoute (exampleHttp 5) PostRefresh (requestOf exampleBrowser Undefined f)
      (bw_site exampleBrowser) = (reply1, site1) \<and>
    authRoute (exampleHttp 6) PostRefresh (requestOf exampleBrowser Undefined f) site1 = (reply2, site2) \<and>
    applyCookie (ap_cookie reply2) (applyCookie (ap_cookie reply1) (Some ''old'')) = None"
proof -
  let ?f = "\<lparr>fx_path = REFRESH_PATH, fx_bearer = None\<rparr>"
  obtain r db where r: "Auth_Service.refresh (exampleAuth 5) ''old'' exampleContext exampleAccount = (Ok r, db)"
    by (simp add: Auth_Service.refresh_def exampleAccount_def exampleSession_def exampleRow_def getActiveRestriction_def
        signedIn_def issueAccessToken_def)
  obtain reply1 site1 where one: "authRoute (exampleHttp 5) PostRefresh (requestOf exampleBrowser Undefined ?f)
      (bw_site exampleBrowser) = (reply1, site1)" by (cases "authRoute (exampleHttp 5) PostRefresh
      (requestOf exampleBrowser Undefined ?f) (bw_site exampleBrowser)")
  obtain reply2 site2 where two: "authRoute (exampleHttp 6) PostRefresh (requestOf exampleBrowser Undefined ?f) site1 =
      (reply2, site2)" by (cases "authRoute (exampleHttp 6) PostRefresh (requestOf exampleBrowser Undefined ?f) site1")
  have "ap_answer reply1 = Ok (RefreshedAnswer (tokensOf False r))"
    using one r by (auto simp: exampleBrowser_def authSiteOf_def exampleHttp_def requestOf_def postRefresh_def
        presentedToken_def withCookie_def answer_def refreshCookie_def Let_def)
  moreover have "bw_cookie exampleBrowser = Some ''old''" by (simp add: exampleBrowser_def)
  moreover have "ax_hashToken (he_auth (exampleHttp 6)) = ax_hashToken (he_auth (exampleHttp 5))"
    "ax_hashToken (he_auth (exampleHttp 5)) (ax_freshToken (he_auth (exampleHttp 5))) \<noteq>
     ax_hashToken (he_auth (exampleHttp 5)) ''old''"
    by (simp_all add: exampleHttp_def exampleAuth_def)
  moreover have "distinct (map s_refreshTokenHash (db_sessions (as_db (bw_site exampleBrowser))))"
    by (simp add: exampleBrowser_def authSiteOf_def exampleAccount_def accountDb_def)
  ultimately have "applyCookie (ap_cookie reply2) (applyCookie (ap_cookie reply1) (bw_cookie exampleBrowser)) = None"
    using two_tabs_sign_each_other_out [OF _ _ one _ two] by blast
  then show ?thesis using one two \<open>bw_cookie exampleBrowser = Some ''old''\<close> by metis
qed

end
