(* ===== verification/Bootstrap.thy ===== *)
theory Bootstrap
  imports Validation_Safety Worker_Jobs Account_Life
begin

text \<open>The first administrator, \<^verbatim>\<open>packages/database/scripts/create-admin.ts\<close>: the only way to a super administrator that
does not go through the API. Reading the terminal is left out: what the operator types is an argument. Also the
wrappers around the password library, \<^verbatim>\<open>packages/auth/src/password.ts\<close>.\<close>

section \<open>Passwords\<close>

text \<open>The library's verification and parameter check throw on a hash that is none (\<^const>\<open>None\<close>).\<close>

definition verifyPassword :: "(string \<Rightarrow> string \<Rightarrow> bool option) \<Rightarrow> string \<Rightarrow> string \<Rightarrow> bool" where
  "verifyPassword argon2 hash password = (case argon2 hash password of None \<Rightarrow> False | Some ok \<Rightarrow> ok)"

definition needsRehash :: "(string \<Rightarrow> bool option) \<Rightarrow> string \<Rightarrow> bool" where
  "needsRehash argon2 hash = (case argon2 hash of None \<Rightarrow> True | Some weak \<Rightarrow> weak)"

section \<open>The script\<close>

record AdminInput =
  ai_email :: string
  ai_username :: string
  ai_displayName :: string
  ai_password :: string
  ai_confirm :: string

definition validatePassword :: "string \<Rightarrow> string option" where
  "validatePassword password =
     (if length password < 10 then Some ''Password must be at least 10 characters.''
      else if length password > 128 then Some ''Password must be at most 128 characters.''
      else if length (dedup password) < 4 then Some ''Password is too repetitive.''
      else None)"

text \<open>\<^verbatim>\<open>/^[^@\s]+@[^@\s]+\.[^@\s]+$/\<close>.\<close>

definition looksLikeEmail :: "string \<Rightarrow> bool" where
  "looksLikeEmail s =
     (case splitOn (CHR ''@'') s of
        [local, domain] \<Rightarrow>
          local \<noteq> [] \<and> list_all (\<lambda>c. \<not> isJsSpace c) (local @ domain) \<and> CHR ''.'' \<in> set (butlast (tl domain))
      | other \<Rightarrow> False)"

text \<open>The first account with the address or the name.\<close>

definition existingAccount :: "string \<Rightarrow> string \<Rightarrow> Db \<Rightarrow> user_id option" where
  "existingAccount email username db = userWhere (\<lambda>u. u_email u = email \<or> u_username u = username) db"

definition promote :: "AuthEnv \<Rightarrow> string \<Rightarrow> user_id \<Rightarrow> Db \<Rightarrow> Db" where
  "promote env password userId db =
     systemAudit (ax_now env) (Some userId) ''admin.bootstrap.promote'' (Some userId)
       (revokeSessions (ax_now env) ''admin-bootstrap'' (\<lambda>s. s_userId s = userId)
         (updateUser userId
           (\<lambda>u. u\<lparr>u_role := UserRole_SUPER_ADMIN, u_passwordHash := Some (ax_hashPassword env password),
                  u_status := AccountStatus_ACTIVE, u_emailVerified := True, u_emailVerifiedAt := Some (ax_now env),
                  u_tokenGeneration := u_tokenGeneration u + 1, u_failedLoginAttempts := 0, u_lockedUntil := None\<rparr>)
           db))"

definition administratorRow :: "AuthEnv \<Rightarrow> AdminInput \<Rightarrow> string \<Rightarrow> UserRow" where
  "administratorRow env input displayName =
     \<lparr>u_email = ai_email input, u_username = ai_username input,
      u_passwordHash = Some (ax_hashPassword env (ai_password input)), u_role = UserRole_SUPER_ADMIN,
      u_status = AccountStatus_ACTIVE, u_plan = PlanTier_FREE, u_emailVerified = True,
      u_emailVerifiedAt = Some (ax_now env), u_tokenGeneration = 0, u_failedLoginAttempts = 0, u_lockedUntil = None,
      u_lastLoginAt = None, u_lastIpHash = None, u_createdAt = ax_now env, u_deletionRequestedAt = None,
      u_deletedAt = None,
      u_profile = Some \<lparr>pr_displayName = Some displayName, pr_avatarUrl = None, pr_bio = None,
        pr_birthDate = BirthDate \<lparr>utcYear = 1970, utcMonth = 0, utcDay = 1\<rparr>, pr_gender = Gender_UNSPECIFIED,
        pr_country = None, pr_languages = [], pr_locale = ''en''\<rparr>,
      u_privacy = Some DEFAULT_PRIVACY_SETTINGS,
      u_preference = Some \<lparr>pf_preferredGender = GenderPreference_ANY, pf_preferredCountries = [],
        pf_preferredLanguages = [], pf_preferredAgeBrackets = []\<rparr>,
      u_interests = []\<rparr>"

text \<open>What was typed, trimmed and lowered as the script does; the variables of the non-interactive run have the
confirmation equal to the password.\<close>

definition normalised :: "AdminInput \<Rightarrow> AdminInput" where
  "normalised raw =
     raw\<lparr>ai_email := toLowerCase (trimString (ai_email raw)), ai_username := toLowerCase (trimString (ai_username raw)),
         ai_displayName := trimString (ai_displayName raw)\<rparr>"

definition createAdmin :: "AuthEnv \<Rightarrow> bool \<Rightarrow> AdminInput \<Rightarrow> string \<Rightarrow> Db \<Rightarrow> (string + user_id) \<times> Db" where
  "createAdmin env nonInteractive raw answer db =
     (let input = normalised raw; email = ai_email input; username = ai_username input in
      if nonInteractive \<and> (email = [] \<or> username = [] \<or> ai_password input = [])
      then (Throw ''ADMIN_EMAIL, ADMIN_USERNAME and ADMIN_PASSWORD must all be set.'', db)
      else if \<not> nonInteractive \<and> ai_password input \<noteq> ai_confirm input
      then (Throw ''Passwords do not match.'', db)
      else if \<not> looksLikeEmail email then (Throw ''That is not a valid email address.'', db)
      else if \<not> USERNAME_PATTERN username
      then (Throw ''Username must be 3-24 lowercase letters, numbers or underscores.'', db)
      else case validatePassword (ai_password input) of
        Some problem \<Rightarrow> (Throw problem, db)
      | None \<Rightarrow>
          (let displayName = (if ai_displayName input = [] then username else ai_displayName input) in
           case existingAccount email username db of
             Some userId \<Rightarrow>
               if nonInteractive
               then (Throw ''An account already exists. Refusing to modify it in non-interactive mode.'', db)
               else if toLowerCase (trimString answer) \<notin> {''y'', ''yes''}
               then (Throw ''Aborted. No changes were made.'', db)
               else (Ok userId, promote env (ai_password input) userId db)
           | None \<Rightarrow>
               let userId = ax_freshUserId env
               in (Ok userId,
                   systemAudit (ax_now env) (Some userId) ''admin.bootstrap.create'' (Some userId)
                     (db\<lparr>db_users := (db_users db)(userId \<mapsto> administratorRow env input displayName),
                         db_userIds := db_userIds db @ [userId]\<rparr>))))"

section \<open>Properties\<close>

text \<open>The script's password policy is not the service's. \<^verbatim>\<open>passwordSchema\<close> accepts exactly those passwords
that the script accepts and that are not on the list of common ones, whatever their case; so the most common
passwords are good enough for the one account that may do everything.\<close>

theorem admin_policy_is_weaker:
  "passwordSchema (Text p) = Some p \<longleftrightarrow> validatePassword p = None \<and> toLowerCase p \<notin> set COMMON_PASSWORDS"
  by (auto simp: passwordSchema_def zRefine_def lengthIn_def validatePassword_def)

text \<open>The script makes one super administrator and touches nobody else. A run that fails changes nothing. One
that succeeds makes one account an active super administrator and leaves every other account's row as it was. Unattended
it only ever creates: an account that exists is never changed. An account it promotes loses every session, and no
access token issued before is accepted by either server.\<close>

theorem bootstrap_touches_one_account:
  assumes "createAdmin env nonInteractive raw answer db = (result, db')" and "db_users db (ax_freshUserId env) = None"
  shows "(\<forall>e. result = Throw e \<longrightarrow> db' = db) \<and>
    (\<forall>userId. result = Ok userId \<longrightarrow>
       (\<exists>u. db_users db' userId = Some u \<and> u_role u = UserRole_SUPER_ADMIN \<and> u_status u = AccountStatus_ACTIVE) \<and>
       (\<forall>other. other \<noteq> userId \<longrightarrow> db_users db' other = db_users db other) \<and>
       (\<forall>before. db_users db userId = Some before \<longrightarrow> \<not> nonInteractive \<and>
          (\<forall>s \<in> set (db_sessions db'). s_userId s = userId \<longrightarrow> s_revokedAt s \<noteq> None) \<and>
          (\<forall>c later n revoked. ac_sub c = userId \<and> ac_gen c \<le> u_tokenGeneration before \<longrightarrow>
             (\<nexists>a. resolveUser later (ValidToken c) revoked db' = Ok a) \<and>
             (\<nexists>d. authenticateSocket (\<lambda>t. ValidToken c) later n revoked db' (Some t) = Ok d))))"
proof (cases "existingAccount (ai_email (normalised raw)) (ai_username (normalised raw)) db")
  case None
  then have "db' = db \<and> (\<exists>e. result = Throw e) \<or>
      result = Ok (ax_freshUserId env) \<and>
      (\<exists>name. db_users db' = (db_users db)(ax_freshUserId env \<mapsto> administratorRow env (normalised raw) name))"
    using assms(1) by (auto simp: createAdmin_def Let_def systemAudit_def split: if_splits option.splits)
  moreover have "u_role (administratorRow env (normalised raw) name) = UserRole_SUPER_ADMIN"
    "u_status (administratorRow env (normalised raw) name) = AccountStatus_ACTIVE" for name
    by (simp_all add: administratorRow_def)
  ultimately show ?thesis using assms(2) by fastforce
next
  case (Some userId)
  obtain u where u: "db_users db userId = Some u"
    using Some userWhere_Some unfolding existingAccount_def by blast
  have choices: "db' = db \<and> (\<exists>e. result = Throw e) \<or>
      result = Ok userId \<and> \<not> nonInteractive \<and> db' = promote env (ai_password (normalised raw)) userId db"
    using assms(1) Some by (auto simp: createAdmin_def Let_def split: if_splits option.splits)
  let ?db = "promote env (ai_password (normalised raw)) userId db"
  let ?v = "u\<lparr>u_role := UserRole_SUPER_ADMIN, u_passwordHash := Some (ax_hashPassword env (ai_password (normalised raw))),
      u_status := AccountStatus_ACTIVE, u_emailVerified := True, u_emailVerifiedAt := Some (ax_now env),
      u_tokenGeneration := u_tokenGeneration u + 1, u_failedLoginAttempts := 0, u_lockedUntil := None\<rparr>"
  have v: "db_users ?db userId = Some ?v" using u by (simp add: promote_def systemAudit_def db_users_updateUser)
  have others: "db_users ?db other = db_users db other" if "other \<noteq> userId" for other
    using that by (simp add: promote_def systemAudit_def db_users_updateUser)
  have rows: "\<forall>s \<in> set (db_sessions ?db). s_userId s = userId \<longrightarrow> s_revokedAt s \<noteq> None"
    using revoked_rows [of userId "''admin-bootstrap''" "ax_now env" "db_sessions db"]
    by (simp add: promote_def systemAudit_def revokeSessions_def)
  have refused: "resolveUser later (ValidToken c) revoked ?db \<noteq> Ok a"
      "authenticateSocket (\<lambda>t. ValidToken c) later n revoked ?db (Some t) \<noteq> Ok d"
    if "ac_sub c = userId" "ac_gen c \<le> u_tokenGeneration u" for c later n revoked a d t
  proof -
    have row: "db_users ?db (ac_sub c) = Some ?v" "ac_gen c \<noteq> u_tokenGeneration ?v" using that v by auto
    show "resolveUser later (ValidToken c) revoked ?db \<noteq> Ok a"
      "authenticateSocket (\<lambda>t. ValidToken c) later n revoked ?db (Some t) \<noteq> Ok d"
      by (rule generation_refused(1) [OF row]) (rule generation_refused(2) [OF row refl])
  qed
  from choices show ?thesis
  proof (elim disjE conjE)
    assume eq: "db' = ?db" "result = Ok userId" "\<not> nonInteractive"
    have made: "\<exists>w. db_users ?db userId = Some w \<and> u_role w = UserRole_SUPER_ADMIN \<and> u_status w = AccountStatus_ACTIVE"
      by (intro exI [of _ ?v]) (simp add: v)
    have before: "w = u" if "db_users db userId = Some w" for w using that u by simp
    show ?thesis unfolding eq(1,2) sum.inject using eq(3) made others rows refused before by blast
  qed (elim exE, simp)
qed

section \<open>Example\<close>

definition rootInput :: AdminInput where
  "rootInput = \<lparr>ai_email = ''r@t.net'', ai_username = ''root'', ai_displayName = [], ai_password = ''password123'',
     ai_confirm = ''password123''\<rparr>"

lemma bootstrap_touches_one_account_witness:
  "\<exists>db'. createAdmin (exampleAuth 5) True rootInput [] emptyDb = (Ok ''u'', db') \<and>
     db_users db' ''x'' = None \<and> (\<exists>u. db_users db' ''u'' = Some u \<and> u_role u = UserRole_SUPER_ADMIN)"
proof -
  have "fst (createAdmin (exampleAuth 5) True rootInput [] emptyDb) = Ok ''u''" by code_simp
  then obtain db' where c: "createAdmin (exampleAuth 5) True rootInput [] emptyDb = (Ok ''u'', db')"
    by (metis prod.collapse)
  have "db_users emptyDb (ax_freshUserId (exampleAuth 5)) = None" by (simp add: emptyDb_def)
  from bootstrap_touches_one_account [OF c this] c show ?thesis by (fastforce simp: emptyDb_def)
qed

end
