(* ===== verification/System_Money.thy ===== *)
theory System_Money
  imports Http_Safety Admin_Safety Auth_Route_Safety Worker_Safety
begin

text \<open>The token tables as the whole system uses them. Whatever the entrance, a socket frame, a route of any of the
servers, a delivery of the payment provider or a maintenance job, the books stay balanced; which entrance can
move tokens, and in which direction, is stated once for all of them.\<close>

section \<open>Every way in\<close>

datatype Entrance =
    FrameOf user_id
  | AuthRequest
  | AdminRequestIn
  | TokenRequest
  | ProviderDelivery
  | MaintenanceRun

text \<open>One request, frame, delivery or job, with any payload, in any state of everything else.\<close>

inductive systemStep :: "Entrance \<Rightarrow> TokenDb \<Rightarrow> TokenDb \<Rightarrow> bool" where
  sys_frame: "rt_tokens st = td \<Longrightarrow>
    systemStep (FrameOf (so_userId so)) td (rt_tokens (onEvent fm env so name payload st))"
| sys_auth: "as_tokens s = td \<Longrightarrow> systemStep AuthRequest td (as_tokens (snd (authRoute aenv route request s)))"
| sys_admin: "si_tokens s = td \<Longrightarrow>
    systemStep AdminRequestIn td (si_tokens (snd (adminServe verify env revoked header areq s)))"
| sys_balance: "systemStep TokenRequest td (snd (balanceRoute user td))"
| sys_checkout: "systemStep TokenRequest td (snd (checkout billing fm user body td))"
| sys_webhook: "systemStep ProviderDelivery td (snd (webhook billing signature raw td))"
| sys_job: "systemStep MaintenanceRun (snd s) (snd (runJob now retention job s))"

section \<open>How a step moves tokens\<close>

text \<open>It does not; it credits only; it pays one partner of a conversation from the other.\<close>

definition moves :: "(user_id \<Rightarrow> bool) \<Rightarrow> bool \<Rightarrow> TokenDb \<Rightarrow> TokenDb \<Rightarrow> bool" where
  "moves pays mints td td' \<longleftrightarrow>
     tokenInv td' \<and> (\<forall>u. balanceOf td' u < balanceOf td u \<longrightarrow> pays u) \<and>
     (\<exists>rows. td_ledger td' = td_ledger td @ rows \<and> 0 \<le> sum_list (map lg_delta rows) \<and>
        (sum_list (map lg_delta rows) = 0 \<or> mints))"

lemma moves_refl [simp]: "moves p m td td \<longleftrightarrow> tokenInv td"
  by (auto simp: moves_def)

lemma moves_inv: "moves p m td td' \<Longrightarrow> tokenInv td'"
  by (simp add: moves_def)

lemma moves_trans: "moves p m td td1 \<Longrightarrow> moves p m td1 td2 \<Longrightarrow> moves p m td td2"
proof -
  assume a: "moves p m td td1" "moves p m td1 td2"
  then obtain r1 r2 where "td_ledger td1 = td_ledger td @ r1" "0 \<le> sum_list (map lg_delta r1)"
    "sum_list (map lg_delta r1) = 0 \<or> m" "td_ledger td2 = td_ledger td1 @ r2" "0 \<le> sum_list (map lg_delta r2)"
    "sum_list (map lg_delta r2) = 0 \<or> m" by (auto simp: moves_def)
  then have "td_ledger td2 = td_ledger td @ (r1 @ r2) \<and> 0 \<le> sum_list (map lg_delta (r1 @ r2)) \<and>
    (sum_list (map lg_delta (r1 @ r2)) = 0 \<or> m)" by auto
  moreover have "p u" if lt: "balanceOf td2 u < balanceOf td u" for u
  proof -
    have "balanceOf td1 u < balanceOf td u \<or> balanceOf td2 u < balanceOf td1 u" using lt by linarith
    then show ?thesis using a unfolding moves_def by blast
  qed
  ultimately show ?thesis using moves_inv [OF a(2)] unfolding moves_def by blast
qed

text \<open>A write that leaves balances and ledger alone.\<close>

lemma moves_still:
  "tokenInv td' \<Longrightarrow> balanceOf td' = balanceOf td \<Longrightarrow> td_ledger td' = td_ledger td \<Longrightarrow> moves p m td td'"
  by (simp add: moves_def)

lemma moves_credit:
  "tokenInv td' \<Longrightarrow> balanceOf td' = (balanceOf td)(u := balanceOf td u + n) \<Longrightarrow>
   td_ledger td' = td_ledger td @ [r] \<Longrightarrow> lg_delta r = n \<Longrightarrow> 0 \<le> n \<Longrightarrow> moves p True td td'"
  by (auto simp: moves_def)

section \<open>The operations of the ledger\<close>

lemma moves_getBalance: "getBalance u td = Inr (a, td') \<Longrightarrow> tokenInv td \<Longrightarrow> moves p m td td'"
proof (rule moves_still)
  assume g: "getBalance u td = Inr (a, td')" "tokenInv td"
  show "tokenInv td'" using getBalance_tokenInv [OF g] .
  show "balanceOf td' = balanceOf td" "td_ledger td' = td_ledger td"
    using g by (auto simp: getBalance_def balanceOf_def newAccount_def fun_eq_iff split: option.splits if_splits)
qed

lemma moves_respond: "respondToOffer now t u acc td = Inr (r, td') \<Longrightarrow> tokenInv td \<Longrightarrow> moves p m td td'"
proof (rule moves_still)
  assume "respondToOffer now t u acc td = Inr (r, td')" "tokenInv td"
  moreover from this have "td' = respondWrite now t acc td" by (auto simp: respondToOffer_def andThen_Inr)
  ultimately show "tokenInv td'" "balanceOf td' = balanceOf td" "td_ledger td' = td_ledger td"
    by (simp_all add: respondWrite_tokenInv) (simp_all add: respondWrite_def)
qed

lemma moves_tip:
  assumes "sendTip tipId i td = Inr ((t, sb), td')" and "tokenInv td"
  shows "moves (\<lambda>u. u = ti_fromUserId i) m td td'"
proof -
  obtain td1 td2 td3 rb where
    d: "debit (ti_fromUserId i) \<lfloor>ti_tokens i\<rfloor> td = Inr (sb, td1)" and c: "createTip tipId i td1 = Inr td2" and
    k: "credit (ti_toUserId i) \<lfloor>ti_tokens i\<rfloor> \<lfloor>ti_tokens i\<rfloor> 0 td2 = Inr (rb, td3)" and
    td': "td' = appendLedger ((ledgerRow (ti_toUserId i) \<lfloor>ti_tokens i\<rfloor> TIP_RECEIVED rb)
        \<lparr>lg_counterpartyId := Some (ti_fromUserId i), lg_matchId := ti_matchId i, lg_tipId := Some tipId\<rparr>)
      (appendLedger ((ledgerRow (ti_fromUserId i) (- \<lfloor>ti_tokens i\<rfloor>) TIP_SENT sb)
        \<lparr>lg_counterpartyId := Some (ti_toUserId i), lg_matchId := ti_matchId i, lg_tipId := Some tipId\<rparr>) td3)"
    by (rule sendTip_OkE [OF assms(1)]) blast
  have "td_ledger td3 = td_ledger td" using d c k by (auto simp: guard_simps)
  then have "\<exists>rows. td_ledger td' = td_ledger td @ rows \<and> sum_list (map lg_delta rows) = 0"
    by (simp add: td')
  moreover note e = sendTip_effect [OF assms]
  have "u = ti_fromUserId i" if "balanceOf td' u < balanceOf td u" for u
    using that e(3) unfolding e(7) by (auto split: if_splits)
  ultimately show ?thesis using e(1) unfolding moves_def by fastforce
qed

section \<open>Frames\<close>

text \<open>No handler but the two of tips touches the token tables.\<close>

lemma rt_tokens_world [simp]: "rt_tokens (st\<lparr>rt_world := w\<rparr>) = rt_tokens st"
  by simp

lemma rt_tokens_replies [simp]:
  "rt_tokens (failWith so code msg st) = rt_tokens st"
  "rt_tokens (rejectPayload so ev st) = rt_tokens st"
  "rt_tokens (tipFailure so e st) = rt_tokens st"
  by (simp_all add: failWith_def rejectPayload_def tipFailure_def)

lemma rt_tokens_steps [simp]:
  "rt_tokens (snd (teardownMatch env m actor reason st)) = rt_tokens st"
  "rt_tokens (snd (attemptMatch env u st)) = rt_tokens st"
  "rt_tokens (snd (blockedFor env u st)) = rt_tokens st"
  by (auto simp: teardownMatch_def attemptMatch_def announceMatch_def matchFound_def blockedFor_def Let_def
      prod.case_eq_if split: option.splits)

lemma rt_tokens_leave [simp]: "rt_tokens (leaveNamedMatch env so m reason st) = rt_tokens st"
  by (simp add: leaveNamedMatch_def Let_def prod.case_eq_if split: option.split)

lemma rt_tokens_handlers:
  "rt_tokens (onHeartbeat env so st) = rt_tokens st"
  "rt_tokens (onQueueJoin env so q st) = rt_tokens st"
  "rt_tokens (onQueueLeave env so st) = rt_tokens st"
  "rt_tokens (onMatchSkip env so k st) = rt_tokens st"
  "rt_tokens (onMatchEnd env so e st) = rt_tokens st"
  "rt_tokens (onMatchConnected env so c st) = rt_tokens st"
  "rt_tokens (onSignal env so ev f st) = rt_tokens st"
  "rt_tokens (onChatMessage env so i st) = rt_tokens st"
  "rt_tokens (onUserBlock env so b st) = rt_tokens st"
  "rt_tokens (onUserReport env so r st) = rt_tokens st"
  "rt_tokens (onStatsReport so s st) = rt_tokens st"
  by (simp_all add: onHeartbeat_def onQueueJoin_def onQueueLeave_def onMatchSkip_def onMatchEnd_def
      onMatchConnected_def onSignal_def onChatMessage_def onUserBlock_def onUserReport_def onStatsReport_def
      enterQueue_def Let_def prod.case_eq_if split: option.split)

lemma moves_tip_then_read:
  assumes "sendTip tipId i td = Inr ((t, sb), td1)" and "ti_fromUserId i = me" and "tokenInv td"
  shows "moves (\<lambda>u. u = me) m td td1"
    and "getBalance peer td1 = Inr (a, td2) \<Longrightarrow> moves (\<lambda>u. u = me) m td td2"
proof -
  show first: "moves (\<lambda>u. u = me) m td td1" using moves_tip [OF assms(1,3)] assms(2) by simp
  show "moves (\<lambda>u. u = me) m td td2" if "getBalance peer td1 = Inr (a, td2)"
    using moves_trans [OF first moves_getBalance [OF that moves_inv [OF first]]] .
qed

lemma moves_onTipSend:
  "tokenInv (rt_tokens st) \<Longrightarrow>
   moves (\<lambda>u. u = so_userId so) m (rt_tokens st) (rt_tokens (onTipSend env so payload st))"
  by (auto simp: onTipSend_def Let_def prod.case_eq_if split: option.split sum.split)
     (erule moves_tip_then_read; simp)+

lemma moves_onTipRespond:
  "tokenInv (rt_tokens st) \<Longrightarrow> moves p m (rt_tokens st) (rt_tokens (onTipRespond env so payload st))"
  by (auto simp: onTipRespond_def Let_def prod.case_eq_if intro: moves_respond split: option.split sum.split)

lemma moves_onEvent:
  "tokenInv (rt_tokens st) \<Longrightarrow>
   moves (\<lambda>u. u = so_userId so \<and> name = ''tip:send'') m (rt_tokens st) (rt_tokens (onEvent fm env so name payload st))"
  using moves_onTipSend [of st so m env "sendTipSocketSchema fm payload"]
  by (cases "name = ''tip:send''") (simp_all add: onEvent_def rt_tokens_handlers moves_onTipRespond)

section \<open>Grants\<close>

lemma moves_grant:
  assumes "grantTx c u td = Inr td'" and "tokenInv td" and "0 \<le> cg_tokens c"
  shows "moves p True td td'"
proof -
  have "\<exists>b. td_ledger td' = td_ledger td @ [(ledgerRow u (cg_tokens c) PROMO b)
      \<lparr>lg_campaignId := Some (cg_id c), lg_note := Some (take 200 (cg_name c))\<rparr>]"
    using assms(1) by (auto simp: grantTx_def andThen_Inr guard_simps split: if_splits)
  then show ?thesis
    using grantTx_Ok(4,5) [OF assms(1)] assms(2,3) by (auto intro: moves_credit)
qed

lemma moves_campaigns:
  "tokenInv td' \<Longrightarrow> td' = td\<lparr>td_campaigns := cs\<rparr> \<Longrightarrow> moves p m td td'"
  by (rule moves_still) simp_all

lemma moves_setIssued: "tokenInv td \<Longrightarrow> moves p m td (setIssued cid f td)"
  by (rule moves_campaigns [OF tokenInv_setIssued]) (simp_all add: setIssued_def)

lemma moves_claim:
  assumes inv: "tokenInv td"
  shows "moves p True td (snd (claim cid u td))"
proof (cases "claimRead cid u td")
  case (Some c)
  have nn: "0 \<le> cg_tokens c"
    using claimRead_Some [OF Some] findCampaign_Some inv by (auto simp: tokenInv_def amountsOk_def)
  show ?thesis
  proof (cases "reserveSlot c td")
    case r: (Some td1)
    then have m: "moves p True td td1"
      using inv by (auto simp: reserveSlot_def moves_setIssued split: option.splits if_splits)
    have "moves p True td1 (releaseSlot cid td1)"
      using moves_inv [OF m] by (auto simp: releaseSlot_def moves_setIssued split: option.split)
    then show ?thesis
      using m moves_trans [OF m] moves_grant [OF _ moves_inv [OF m] nn] Some r inv
      by (auto simp: claim_def split: sum.split TokenFailure.split)
  qed (simp add: claim_def Some inv)
qed (simp add: claim_def inv)

lemma moves_claimAll: "tokenInv td \<Longrightarrow> moves p True td (snd (claimAll ctx u cs granted td))"
proof (induction cs arbitrary: granted td)
  case (Cons c cs)
  note step = moves_claim [OF Cons.prems, of p "cg_id c" u]
  show ?case
    using Cons step moves_trans [OF step] moves_inv [OF step]
    by (auto split: prod.split sum.split option.split)
qed simp

lemma moves_applyEligible: "tokenInv td \<Longrightarrow> moves p True td (snd (applyEligible now users u td))"
  by (simp add: applyEligible_def moves_claimAll split: option.split)

section \<open>Authentication routes\<close>

lemma moves_grantsFor:
  "moves p True td (as_tokens s) \<Longrightarrow> moves p True td (as_tokens (snd (grantsFor env u s)))"
  using moves_trans [OF _ moves_applyEligible [OF moves_inv]] by (simp add: grantsFor_def prod.case_eq_if)

lemma as_tokens_loadSelf [simp]: "as_tokens (snd (loadSelf env u s)) = as_tokens s"
  by (simp add: loadSelf_def prod.case_eq_if split: option.split sum.split)

lemma moves_newUser: "tokenInv td \<Longrightarrow> moves p m td (td\<lparr>td_users := us\<rparr>)"
  by (rule moves_still) (auto simp: tokenInv_def amountsOk_def balanceOf_def)

lemma moves_limited:
  assumes "\<And>lim. moves p m td (as_tokens (snd (handle (s\<lparr>as_limits := lim\<rparr>))))" and "moves p m td (as_tokens s)"
  shows "moves p m td (as_tokens (snd (limited env scope l request s handle)))"
  using assms by (auto simp: limited_def prod.case_eq_if split: sum.split prod.split)

lemma moves_authenticated:
  assumes "\<And>user. moves p m td (as_tokens (snd (handle user)))" and "moves p m td (as_tokens s)"
  shows "moves p m td (as_tokens (snd (authenticated env request s handle)))"
  using assms by (auto simp: authenticated_def split: sum.split)

lemma moves_authRoute:
  "tokenInv (as_tokens s) \<Longrightarrow>
   moves p True (as_tokens s) (as_tokens (snd (authRoute env route request s)))"
  by (cases route)
     (auto simp: postRegister_def postLogin_def postRefresh_def postLogout_def postLogoutAll_def
        postVerifyEmail_def postResendVerification_def postForgotPassword_def postResetPassword_def
        postChangePassword_def getMe_def postDeleteAccount_def Let_def prod.case_eq_if
        intro!: moves_limited moves_authenticated moves_grantsFor moves_newUser
        split: sum.split option.split raw.split)

section \<open>Administration\<close>

lemma createSchema_tokens: "createCampaignSchema fm v = Some i \<Longrightarrow> 0 \<le> ca_tokens i"
  unfolding createCampaignSchema_def bind_eq_Some_conv
  by (clarsimp simp: grantTokensSchema_def schema_Some split: if_splits)

lemma updateSchema_tokens: "updateCampaignSchema fm v = Some i \<Longrightarrow> cu_tokens i = Some t \<Longrightarrow> 0 \<le> t"
  unfolding updateCampaignSchema_def bind_eq_Some_conv
  by (clarsimp simp: grantTokensSchema_def schema_Some split: if_splits dest!: zOptional_value)

lemma moves_campaignChanged:
  assumes "\<And>td. r = Inr (True, td) \<Longrightarrow> moves p m (si_tokens s) td" and "tokenInv (si_tokens s)"
  shows "moves p m (si_tokens s) (si_tokens (snd (campaignChanged env user action cid s r)))"
  using assms by (auto simp: campaignChanged_def split: sum.split)

lemma moves_createCampaign:
  "0 \<le> n \<Longrightarrow> tokenInv td \<Longrightarrow> moves p m td (createCampaign i now nm d n a st e mx v c td)"
  by (rule moves_campaigns [OF createCampaign_tokenInv]) (auto simp: createCampaign_def)

lemma moves_updateCampaign:
  assumes "updateCampaign cid i td = Inr (b, td')" "tokenInv td" "\<And>t. cu_tokens i = Some t \<Longrightarrow> 0 \<le> t"
  shows "moves p m td td'"
  using assms
  by (intro moves_still updateCampaign_tokenInv [OF assms(1,2)])
     (auto simp: updateCampaign_def split: option.splits if_splits)

lemma moves_setStatus:
  "setStatus cid status td = Inr (b, td') \<Longrightarrow> tokenInv td \<Longrightarrow> moves p m td td'"
  by (rule moves_still) (auto simp: setStatus_tokenInv setStatus_def split: option.splits if_splits)

lemma moves_parsed:
  assumes "\<And>i. parse sch body = Inr i \<Longrightarrow> moves p m td (si_tokens (snd (k i)))" and "moves p m td (si_tokens s)"
  shows "moves p m td (si_tokens (snd (parsed sch body s k)))"
  using assms by (auto simp: parsed_def split: sum.split)

lemma si_tokens_served [simp]:
  "si_tokens (snd (answered s r)) = si_tokens s" "si_tokens (snd (wrote s rw)) = si_tokens s"
  "si_tokens (snd (wroteDb s rd)) = si_tokens s"
  by (simp_all add: answered_def wrote_def wroteDb_def split: sum.split)

lemma parse_Inr: "parse sch v = Inr i \<Longrightarrow> sch v = Some i"
  by (simp add: parse_def split: option.splits)

lemma moves_adminHandler:
  assumes inv: "tokenInv (si_tokens s)"
  shows "moves p m (si_tokens s) (si_tokens (snd (adminHandler env user request s)))"
proof (cases request)
  case (PostCampaign body)
  then show ?thesis
    using inv by (auto simp: postCampaign_def Let_def
        intro!: moves_parsed moves_createCampaign dest!: parse_Inr createSchema_tokens)
next
  case (PatchCampaign cid body)
  then show ?thesis
    using inv by (auto intro!: moves_parsed moves_campaignChanged intro: moves_updateCampaign
        dest!: parse_Inr dest: updateSchema_tokens)
next
  case (PostCampaignStatus cid body)
  then show ?thesis
    using inv by (auto intro!: moves_parsed moves_campaignChanged intro: moves_setStatus)
qed (use inv in \<open>auto simp: Let_def prod.case_eq_if intro!: moves_parsed\<close>)

lemma moves_adminServe:
  "tokenInv (si_tokens s) \<Longrightarrow>
   moves p m (si_tokens s) (si_tokens (snd (adminServe verify env revoked header request s)))"
  by (cases rule: adminServe_cases [of verify env revoked header request s]) (simp_all add: moves_adminHandler)

section \<open>Tokens, payments and erasure\<close>

lemma moves_balanceRoute: "tokenInv td \<Longrightarrow> moves p m td (snd (balanceRoute user td))"
  by (auto simp: balanceRoute_def intro: moves_getBalance split: sum.split)

lemma moves_createPurchase:
  "createPurchase newId u pkg ref td = Inr (x, td') \<Longrightarrow> tokenInv td \<Longrightarrow> moves p m td td'"
  by (rule moves_still) (auto simp: createPurchase_tokenInv createPurchase_def split: option.splits if_splits)

lemma moves_checkout: "tokenInv td \<Longrightarrow> moves p m td (snd (checkout billing fm user body td))"
  by (auto simp: checkout_def intro: moves_createPurchase split: sum.split option.split)

lemma moves_webhook:
  assumes inv: "tokenInv td"
  shows "moves p True td (snd (webhook billing signature raw td))"
proof (cases rule: webhook_cases [of billing signature raw td])
  case (credits event pu td')
  have nn: "0 \<le> pu_tokens pu" using fulfilRead_Some [OF credits(3)] inv by (auto simp: tokenInv_def amountsOk_def)
  have "\<exists>b. td_ledger td' = td_ledger td @ [(ledgerRow (pu_userId pu) (pu_tokens pu) PURCHASE b)
      \<lparr>lg_purchaseId := Some (pu_id pu)\<rparr>]"
    using fulfilWrite_Ok [OF credits(4)] by (auto simp: guard_simps)
  then show ?thesis
    using fulfilWrite_effect(1,2) [OF credits(4) inv nn] nn credits(1) by (auto intro: moves_credit)
qed (simp add: inv)

text \<open>Erasing the accounts that are due empties exactly their balances.\<close>

definition erases :: "TokenDb \<Rightarrow> TokenDb \<Rightarrow> bool" where
  "erases td td' \<longleftrightarrow>
     tokenInv td' \<and> (\<forall>u. balanceOf td' u = balanceOf td u \<or> balanceOf td' u = 0) \<and>
     circulation td' \<le> circulation td"

lemma erases_fold:
  "tokenInv (snd s) \<Longrightarrow> erases (snd s) (snd (fold (eraseUser now) ids s))"
proof (induction ids arbitrary: s)
  case (Cons i ids)
  obtain db td where s: "s = (db, td)" by (cases s)
  have inv: "tokenInv td" using Cons.prems s by simp
  then have "0 \<le> balanceOf td i" unfolding tokenInv_def by blast
  with erasure_keeps_the_books [OF inv, of i]
  have e: "tokenInv (deleteTokenUser i td)" "balanceOf (deleteTokenUser i td) = (balanceOf td)(i := 0)"
    "circulation (deleteTokenUser i td) \<le> circulation td" by simp_all
  have "erases (deleteTokenUser i td) (snd (fold (eraseUser now) (i # ids) s))"
    using Cons.IH [of "eraseUser now i s"] e(1)
    by (simp add: s eraseUser_def [of now i] del: split_paired_All)
  then show ?case using e(2,3) unfolding erases_def s by (metis fun_upd_apply order_trans snd_conv)
qed (simp add: erases_def)

lemma erases_job:
  assumes inv: "tokenInv (snd s)"
  shows "erases (snd s) (snd (runJob now retention job s))"
proof -
  have "erases (snd s) (snd s)" using inv by (simp add: erases_def)
  then show ?thesis
    using erases_fold [OF inv] by (cases job) (simp_all add: eraseDeletedAccounts_def Let_def)
qed

section \<open>The whole system\<close>

fun spender :: "Entrance \<Rightarrow> user_id \<Rightarrow> bool" where
  "spender (FrameOf u) v \<longleftrightarrow> u = v"
| "spender who v \<longleftrightarrow> False"

definition mint :: "Entrance \<Rightarrow> bool" where
  "mint who \<longleftrightarrow> who = AuthRequest \<or> who = ProviderDelivery"

lemma moves_weaken: "moves p m td td' \<Longrightarrow> (\<And>u. p u \<Longrightarrow> q u) \<Longrightarrow> (m \<Longrightarrow> n) \<Longrightarrow> moves q n td td'"
  unfolding moves_def by blast

lemma systemStep_moves:
  assumes "systemStep who td td'" and "tokenInv td"
  shows "who \<noteq> MaintenanceRun \<and> moves (spender who) (mint who) td td' \<or> who = MaintenanceRun \<and> erases td td'"
  using assms
proof (induction rule: systemStep.induct)
  case (sys_frame st td so fm env name payload)
  then have "moves (\<lambda>u. u = so_userId so \<and> name = ''tip:send'') False td (rt_tokens (onEvent fm env so name payload st))"
    using moves_onEvent by blast
  then show ?case by (auto intro: moves_weaken)
qed (auto simp: mint_def erases_job moves_authRoute moves_adminServe moves_balanceRoute moves_checkout moves_webhook)

text \<open>Where nobody loses and nothing is minted, nobody gains.\<close>

lemma userSum_append: "userSum u (xs @ ys) = userSum u xs + userSum u ys"
  by (simp add: userSum_def)

lemma sum_of_gains: "(\<And>u. 0 \<le> userSum u rows) \<Longrightarrow> 0 \<le> sum_list (map lg_delta rows)"
proof (induction rows rule: length_induct)
  case (1 rows)
  show ?case
  proof (cases rows)
    case (Cons r rs)
    let ?rest = "filter (\<lambda>x. lg_userId x \<noteq> lg_userId r) rows"
    have "length ?rest < length rows" using Cons by (simp add: le_imp_less_Suc)
    then have "0 \<le> sum_list (map lg_delta ?rest)" using 1 by (simp add: userSum_filter)
    then show ?thesis using 1(2) [of "lg_userId r"] sum_filter_user [of "lg_userId r" rows] by linarith
  qed simp
qed

lemma moves_nothing:
  assumes m: "moves (\<lambda>u. False) False td td'" and inv: "tokenInv td"
  shows "balanceOf td' u = balanceOf td u"
proof -
  obtain rows where rows: "td_ledger td' = td_ledger td @ rows" and zero: "sum_list (map lg_delta rows) = 0"
    using m by (auto simp: moves_def)
  have b: "balanceOf td' v = balanceOf td v + userSum v rows" for v
    using inv moves_inv [OF m] rows unfolding tokenInv_def by (simp add: userSum_append)
  have gains: "0 \<le> userSum v rows" for v
    using m b [of v] unfolding moves_def by (metis add_less_same_cancel1 not_less)
  have "0 \<le> sum_list (map lg_delta (filter (\<lambda>r. lg_userId r \<noteq> u) rows))"
    by (rule sum_of_gains) (simp add: userSum_filter gains)
  then show ?thesis using b [of u] gains [of u] zero sum_filter_user [of u rows] by linarith
qed

text \<open>From the seeded packages on, any requests, frames, deliveries and jobs in any order.\<close>

inductive systemReachable :: "TokenDb \<Rightarrow> bool" where
  sr_init: "\<forall>p\<in>set packages. 0 \<le> pk_tokens p \<Longrightarrow>
    systemReachable ((emptyTokenDb users)\<lparr>td_packages := packages\<rparr>)"
| sr_step: "systemReachable td \<Longrightarrow> systemStep who td td' \<Longrightarrow> systemReachable td'"

lemma systemStep_inv: "systemStep who td td' \<Longrightarrow> tokenInv td \<Longrightarrow> tokenInv td'"
  using systemStep_moves by (auto simp: moves_def erases_def)

lemma systemReachable_inv: "systemReachable td \<Longrightarrow> tokenInv td"
  by (induction rule: systemReachable.induct) (blast intro: tokenInv_init systemStep_inv)+

lemma moves_circulation:
  "moves p m td td' \<Longrightarrow> circulation td \<le> circulation td' \<and> (circulation td' = circulation td \<or> m) \<and>
     take (length (td_ledger td)) (td_ledger td') = td_ledger td"
  by (auto simp: moves_def circulation_def)


text \<open>Ana buys the seeded package and the provider delivers the payment.\<close>

definition buyer :: AuthenticatedUser where
  "buyer = \<lparr>au_id = ''ana'', au_role = UserRole_USER, au_plan = PlanTier_FREE, au_sessionId = ''s1''\<rparr>"

definition seededTokens :: TokenDb where
  "seededTokens = (emptyTokenDb [''ana''])\<lparr>td_packages :=
     [\<lparr>pk_id = ''pk'', pk_tokens = 100, pk_priceCents = 500, pk_currency = ''usd'', pk_active = True, pk_sortOrder = 0\<rparr>]\<rparr>"

definition boughtTokens :: TokenDb where
  "boughtTokens = snd (checkout exampleBilling anyIdFormats buyer (Obj [(''packageId'', Text ''pk'')]) seededTokens)"

definition paidTokens :: TokenDb where
  "paidTokens = snd (webhook exampleBilling (Some ''wh'') (Some ''done'') boughtTokens)"

lemma bought_reachable: "systemReachable boughtTokens"
  unfolding boughtTokens_def seededTokens_def by (rule sr_step [OF sr_init sys_checkout]) simp

lemma paidTokens_eval:
  "balanceOf paidTokens ''ana'' = 100" "circulation boughtTokens = 0" "circulation paidTokens = 100"
  by (simp_all add: paidTokens_def boughtTokens_def seededTokens_def checkout_def webhook_def exampleBilling_def
      parse_def buyTokensSchema_def uuidSchema_def anyIdFormats_def zRefine_def listPackages_def emptyTokenDb_def
      createPurchase_def buyer_def fulfilPurchase_def fulfilRead_def fulfilWrite_def credit_def Let_def
      creditedAccount_def fitsInt4_def INT4_MAX_def appendLedger_def circulation_def balanceOf_def
      Option.bind_eq_Some_conv updateWhere_def ledgerRow_def)


end
