(* ===== verification/Media.thy ===== *)
theory Media
  imports Utils
begin

text \<open>Camera and microphone acquisition in the browser, \<^verbatim>\<open>apps/web/src/lib/media.ts\<close>. What the browser answers, the
streams \<^verbatim>\<open>getUserMedia\<close> grants, the devices it lists, what a track reports of itself, is an argument of each
function; a fractional number is a rational.\<close>

section \<open>Failures\<close>

datatype MediaErrorKind =
    MediaErrorKind_PERMISSION_DENIED | MediaErrorKind_NO_DEVICE | MediaErrorKind_DEVICE_BUSY
  | MediaErrorKind_INSECURE_CONTEXT | MediaErrorKind_UNSUPPORTED | MediaErrorKind_OVERCONSTRAINED
  | MediaErrorKind_UNKNOWN

record MediaError =
  mx_kind :: MediaErrorKind
  mx_message :: string

fun MEDIA_ERROR_RETRYABLE :: "MediaErrorKind \<Rightarrow> bool" where
  "MEDIA_ERROR_RETRYABLE MediaErrorKind_PERMISSION_DENIED = True"
| "MEDIA_ERROR_RETRYABLE MediaErrorKind_NO_DEVICE = True"
| "MEDIA_ERROR_RETRYABLE MediaErrorKind_DEVICE_BUSY = True"
| "MEDIA_ERROR_RETRYABLE MediaErrorKind_INSECURE_CONTEXT = False"
| "MEDIA_ERROR_RETRYABLE MediaErrorKind_UNSUPPORTED = False"
| "MEDIA_ERROR_RETRYABLE MediaErrorKind_OVERCONSTRAINED = True"
| "MEDIA_ERROR_RETRYABLE MediaErrorKind_UNKNOWN = True"

text \<open>A rejection is the name of the error it carries, or \<open>None\<close> for a value that is no \<^verbatim>\<open>Error\<close>.\<close>

type_synonym rejection = "string option"

definition classify :: "rejection \<Rightarrow> MediaErrorKind" where
  "classify error =
     (case error of
        None \<Rightarrow> MediaErrorKind_UNKNOWN
      | Some name \<Rightarrow>
          if name = ''NotAllowedError'' \<or> name = ''SecurityError'' then MediaErrorKind_PERMISSION_DENIED
          else if name = ''NotFoundError'' \<or> name = ''DevicesNotFoundError'' then MediaErrorKind_NO_DEVICE
          else if name = ''NotReadableError'' \<or> name = ''TrackStartError'' then MediaErrorKind_DEVICE_BUSY
          else if name = ''OverconstrainedError'' \<or> name = ''ConstraintNotSatisfiedError''
          then MediaErrorKind_OVERCONSTRAINED
          else MediaErrorKind_UNKNOWN)"

section \<open>Constraints\<close>

record AudioConstraints =
  aco_echoCancellation :: bool
  aco_noiseSuppression :: bool
  aco_autoGainControl :: bool

definition AUDIO_CONSTRAINTS :: AudioConstraints where
  "AUDIO_CONSTRAINTS = \<lparr>aco_echoCancellation = True, aco_noiseSuppression = True, aco_autoGainControl = True\<rparr>"

text \<open>What is read of \<^verbatim>\<open>window\<close> and \<^verbatim>\<open>navigator\<close>: the answer of the orientation query, where there is one.\<close>

record Window =
  wi_present :: bool
  wi_portraitQuery :: "bool option"
  wi_innerWidth :: nat
  wi_innerHeight :: nat
  wi_secureContext :: bool
  wi_getUserMedia :: bool

definition isPortrait :: "Window \<Rightarrow> bool" where
  "isPortrait w =
     (if \<not> wi_present w then False
      else case wi_portraitQuery w of
             Some matches \<Rightarrow> matches
           | None \<Rightarrow> wi_innerWidth w \<le> wi_innerHeight w)"

record CameraOptions =
  cam_facingMode :: "string option"
  cam_deviceId :: "string option"

record VideoConstraints =
  vc_width :: nat
  vc_height :: nat
  vc_aspectRatio :: rat
  vc_frameRate :: "nat \<times> nat"
  vc_exactDeviceId :: "string option"
  vc_facingMode :: "string option"

definition videoConstraints :: "Window \<Rightarrow> CameraOptions \<Rightarrow> VideoConstraints" where
  "videoConstraints w options =
     (let portrait = isPortrait w;
          device = (case cam_deviceId options of None \<Rightarrow> None | Some d \<Rightarrow> if d = [] then None else Some d)
      in \<lparr>vc_width = (if portrait then 720 else 1280), vc_height = (if portrait then 1280 else 720),
          vc_aspectRatio = (if portrait then 9 / 16 else 16 / 9), vc_frameRate = (30, 30),
          vc_exactDeviceId = device,
          vc_facingMode = (if device \<noteq> None then None
             else Some (case cam_facingMode options of None \<Rightarrow> ''user'' | Some f \<Rightarrow> f))\<rparr>)"

datatype VideoRequest = AnyVideo | VideoWith VideoConstraints

record MediaRequest =
  mq_video :: VideoRequest
  mq_audio :: "AudioConstraints option"

definition noOptions :: CameraOptions where
  "noOptions = \<lparr>cam_facingMode = None, cam_deviceId = None\<rparr>"

definition buildConstraints :: "Window \<Rightarrow> CameraOptions \<Rightarrow> MediaRequest" where
  "buildConstraints w options =
     \<lparr>mq_video = VideoWith (videoConstraints w options), mq_audio = Some AUDIO_CONSTRAINTS\<rparr>"

definition FALLBACK_CONSTRAINTS :: MediaRequest where
  "FALLBACK_CONSTRAINTS = \<lparr>mq_video = AnyVideo, mq_audio = Some AUDIO_CONSTRAINTS\<rparr>"

section \<open>Acquisition\<close>

definition isMediaSupported :: "Window \<Rightarrow> bool" where
  "isMediaSupported w = wi_getUserMedia w"

text \<open>\<open>grant k\<close> is the browser's answer to the \<open>k\<close>-th request of a call.\<close>

type_synonym 's browser = "nat \<Rightarrow> MediaRequest \<Rightarrow> rejection + 's"

definition requestUserMedia :: "Window \<Rightarrow> 's browser \<Rightarrow> MediaRequest \<Rightarrow> MediaError + 's" where
  "requestUserMedia w grant constraints =
     (if wi_present w \<and> \<not> wi_secureContext w
      then Throw \<lparr>mx_kind = MediaErrorKind_INSECURE_CONTEXT, mx_message = ''Camera access requires HTTPS.''\<rparr>
      else if \<not> isMediaSupported w
      then Throw \<lparr>mx_kind = MediaErrorKind_UNSUPPORTED, mx_message = ''getUserMedia is not available.''\<rparr>
      else case grant 0 constraints of
        Inr stream \<Rightarrow> Ok stream
      | Inl error \<Rightarrow>
          if classify error = MediaErrorKind_OVERCONSTRAINED
          then (case grant 1 FALLBACK_CONSTRAINTS of
                  Inr stream \<Rightarrow> Ok stream
                | Inl fallbackError \<Rightarrow>
                    Throw \<lparr>mx_kind = classify fallbackError, mx_message = ''Could not start camera.''\<rparr>)
          else Throw \<lparr>mx_kind = classify error, mx_message = ''Could not start camera.''\<rparr>)"

section \<open>Devices\<close>

datatype DeviceKind = VideoInput | AudioInput | AudioOutput

record DeviceInfo =
  dv_kind :: DeviceKind
  dv_deviceId :: string
  dv_label :: string

record MediaDeviceOption =
  do_deviceId :: string
  do_label :: string

definition deviceOptions :: "DeviceKind \<Rightarrow> string \<Rightarrow> DeviceInfo list \<Rightarrow> MediaDeviceOption list" where
  "deviceOptions kind fallback devices =
     map (\<lambda>(index, device). \<lparr>do_deviceId = dv_deviceId device,
            do_label = (if dv_label device = [] then fallback @ '' '' @ natText (index + 1) else dv_label device)\<rparr>)
       (List.enumerate 0 (filter (\<lambda>d. dv_kind d = kind) devices))"

text \<open>Cameras and microphones; \<open>devices\<close> is what \<^verbatim>\<open>enumerateDevices\<close> answers.\<close>

definition listDevices ::
    "Window \<Rightarrow> rejection + DeviceInfo list \<Rightarrow> rejection + MediaDeviceOption list \<times> MediaDeviceOption list" where
  "listDevices w devices =
     (if \<not> isMediaSupported w then Ok ([], [])
      else case devices of
        Inl error \<Rightarrow> Throw error
      | Inr ds \<Rightarrow> Ok (deviceOptions VideoInput ''Camera'' ds, deviceOptions AudioInput ''Microphone'' ds))"

definition hasMultipleCameras :: "Window \<Rightarrow> rejection + DeviceInfo list \<Rightarrow> rejection + bool" where
  "hasMultipleCameras w devices = andThen (listDevices w devices) (\<lambda>(cameras, microphones). Ok (1 < length cameras))"

section \<open>Zoom\<close>

text \<open>What a track reports: whether it can be asked for its capabilities at all, and what it answers.\<close>

record ZoomRange =
  zr_min :: rat
  zr_max :: "rat option"
  zr_step :: "rat option"

datatype Capabilities = NoSuchMethod | Throws | Reports "ZoomRange option"

record TrackSettings =
  trs_capabilities :: Capabilities
  trs_zoom :: "rat option"
  trs_facingMode :: "string option"
  trs_deviceId :: "string option"

record ZoomCapability =
  zc_min :: rat
  zc_max :: rat
  zc_step :: rat
  zc_current :: rat

definition getZoomCapability :: "TrackSettings option \<Rightarrow> ZoomCapability option" where
  "getZoomCapability track =
     (case track of
        None \<Rightarrow> None
      | Some t \<Rightarrow>
          (case trs_capabilities t of
             Reports (Some zoom) \<Rightarrow>
               (case zr_max zoom of
                  None \<Rightarrow> None
                | Some hi \<Rightarrow>
                    if hi \<le> zr_min zoom then None
                    else Some \<lparr>zc_min = zr_min zoom, zc_max = hi,
                           zc_step = (case zr_step zoom of
                              Some s \<Rightarrow> if 0 < s then s else (hi - zr_min zoom) / 100
                            | None \<Rightarrow> (hi - zr_min zoom) / 100),
                           zc_current = (case trs_zoom t of None \<Rightarrow> zr_min zoom | Some z \<Rightarrow> z)\<rparr>)
           | other \<Rightarrow> None))"

text \<open>\<open>applied\<close> is whether \<^verbatim>\<open>applyConstraints\<close> resolves.\<close>

definition applyZoom :: "TrackSettings option \<Rightarrow> bool \<Rightarrow> bool" where
  "applyZoom track applied = (case track of None \<Rightarrow> False | Some t \<Rightarrow> applied)"

section \<open>The other camera\<close>

definition getFacingMode :: "TrackSettings option \<Rightarrow> string option" where
  "getFacingMode track =
     (case track of
        None \<Rightarrow> None
      | Some t \<Rightarrow>
          (case trs_facingMode t of
             None \<Rightarrow> None
           | Some facing \<Rightarrow> if facing = ''user'' \<or> facing = ''environment'' then Some facing else None))"

datatype CameraFailure = BrowserError rejection | MediaFailure MediaError

text \<open>The device after the current one; \<^verbatim>\<open>findIndex\<close> answers -1 for a device that is not listed.\<close>

definition nextCamera :: "string list \<Rightarrow> string option \<Rightarrow> string" where
  "nextCamera cameras current =
     (let index = (case current of
            None \<Rightarrow> -1
          | Some i \<Rightarrow> if i \<in> set cameras then int (length (takeWhile (\<lambda>c. c \<noteq> i) cameras)) else -1)
      in cameras ! nat ((index + 1) mod int (length cameras)))"

definition videoOnly :: "Window \<Rightarrow> CameraOptions \<Rightarrow> MediaRequest" where
  "videoOnly w options = \<lparr>mq_video = VideoWith (videoConstraints w options), mq_audio = None\<rparr>"

definition rotateCamera ::
    "Window \<Rightarrow> 't list browser \<Rightarrow> rejection + DeviceInfo list \<Rightarrow> TrackSettings option \<Rightarrow> CameraFailure + 't" where
  "rotateCamera w grant devices current =
     (case listDevices w devices of
        Inl error \<Rightarrow> Throw (BrowserError error)
      | Inr (cameras, microphones) \<Rightarrow>
          if length cameras < 2
          then Throw (MediaFailure \<lparr>mx_kind = MediaErrorKind_NO_DEVICE, mx_message = ''No second camera.''\<rparr>)
          else (let chosen = nextCamera (map do_deviceId cameras) (Option.bind current trs_deviceId)
                in case grant 1 (videoOnly w \<lparr>cam_facingMode = None, cam_deviceId = Some chosen\<rparr>) of
                     Inl error \<Rightarrow> Throw (BrowserError error)
                   | Inr [] \<Rightarrow> Throw (MediaFailure \<lparr>mx_kind = MediaErrorKind_NO_DEVICE,
                                          mx_message = ''Could not open the other camera.''\<rparr>)
                   | Inr (track # rest) \<Rightarrow> Ok track))"

definition getOppositeCameraTrack ::
    "Window \<Rightarrow> 't list browser \<Rightarrow> rejection + DeviceInfo list \<Rightarrow> TrackSettings option \<Rightarrow> CameraFailure + 't" where
  "getOppositeCameraTrack w grant devices current =
     (case getFacingMode current of
        None \<Rightarrow> rotateCamera w grant devices current
      | Some facing \<Rightarrow>
          (let chosen = (if facing = ''user'' then ''environment'' else ''user'')
           in case grant 0 (videoOnly w \<lparr>cam_facingMode = Some chosen, cam_deviceId = None\<rparr>) of
                Inl error \<Rightarrow> Throw (BrowserError error)
              | Inr [] \<Rightarrow> rotateCamera w grant devices current
              | Inr (track # rest) \<Rightarrow> Ok track))"

section \<open>What the functions guarantee\<close>

text \<open>The page offers a second attempt exactly when the first could have gone otherwise: not on a page without TLS,
and not in a browser without cameras.\<close>

theorem retry_is_offered_honestly:
  assumes "requestUserMedia w grant constraints = Inl e"
  shows "MEDIA_ERROR_RETRYABLE (mx_kind e) \<longleftrightarrow> isMediaSupported w \<and> (wi_present w \<longrightarrow> wi_secureContext w)"
proof -
  have "MEDIA_ERROR_RETRYABLE (classify r)" for r
    by (simp add: classify_def split: option.split)
  then show ?thesis
    using assms by (auto simp: requestUserMedia_def split: if_splits sum.splits)
qed

text \<open>A slider that is shown has a range and a step.\<close>

theorem zoom_slider_moves:
  "getZoomCapability track = Some z \<Longrightarrow> zc_min z < zc_max z \<and> 0 < zc_step z"
  by (auto simp: getZoomCapability_def not_le split: option.splits Capabilities.splits if_splits)

text \<open>A granted stream is one the browser granted, to the first request or, when only that one was too much to
ask, to the second.\<close>

theorem acquisition_asks_at_most_twice:
  "requestUserMedia w grant constraints = Inr s \<longleftrightarrow>
     isMediaSupported w \<and> (wi_present w \<longrightarrow> wi_secureContext w) \<and>
     (grant 0 constraints = Inr s \<or>
      (\<exists>r. grant 0 constraints = Inl r \<and> classify r = MediaErrorKind_OVERCONSTRAINED) \<and>
        grant 1 FALLBACK_CONSTRAINTS = Inr s)"
  by (auto simp: requestUserMedia_def split: sum.split)

lemma position_of: "distinct xs \<Longrightarrow> i < length xs \<Longrightarrow> length (takeWhile (\<lambda>c. c \<noteq> xs ! i) xs) = i"
proof (induction xs arbitrary: i)
  case (Cons x xs)
  then show ?case by (cases i) (auto simp: nth_Cons')
qed simp

lemma next_position:
  assumes "distinct cameras" and "i < length cameras"
  shows "nextCamera cameras (Some (cameras ! i)) = cameras ! (Suc i mod length cameras)"
proof -
  have "nat ((int i + 1) mod int (length cameras)) = Suc i mod length cameras"
    by (metis Suc_eq_plus1 nat_int of_nat_1 of_nat_add zmod_int)
  then show ?thesis using assms by (simp add: nextCamera_def position_of)
qed

text \<open>Pressing the switch again and again visits the cameras of a device that reports no facing modes in the order
of their list, and comes back to the first after as many presses as there are cameras.\<close>

theorem every_camera_in_turn:
  assumes "distinct cameras" and "i < length cameras"
  shows "((\<lambda>c. nextCamera cameras (Some c)) ^^ k) (cameras ! i) = cameras ! ((i + k) mod length cameras)"
proof (induction k)
  case (Suc k)
  have "(i + k) mod length cameras < length cameras" using assms(2) by (intro mod_less_divisor) auto
  from next_position [OF assms(1) this] Suc show ?case by (simp add: mod_Suc_eq)
qed (use assms in simp)

end
