(* ===== verification/Camera.thy ===== *)
theory Camera
  imports Media
begin

text \<open>The hook's own camera and microphone, \<^verbatim>\<open>apps/web/src/hooks/use-conversation.ts\<close>, track by track: acquiring them,
muting them, zooming, switching cameras in a call and releasing them when the page goes. Tracks, streams and peer
connections are objects that closures hold on to, so they live in stores and are named by numbers; what follows an
\<^verbatim>\<open>await\<close> waits in \<open>md_pending\<close> with what its closure captured. \<^verbatim>\<open>use-wake-lock.ts\<close> is in \<^theory_text>\<open>Wake_Lock\<close>.\<close>

section \<open>State\<close>

record MediaTrack =
  mt_video :: bool
  mt_enabled :: bool
  mt_live :: bool
  mt_settings :: TrackSettings

text \<open>An acquisition of both, an acquisition of the other camera for a stream and the track it replaces, and the
swap on the sender of a peer connection.\<close>

datatype Pending =
    Starting
  | Opening nat "nat option"
  | Replacing nat "nat option" nat nat

record Media =
  md_tracks :: "nat \<rightharpoonup> MediaTrack"
  md_streams :: "nat \<Rightarrow> nat list"
  md_local :: "nat option"
  md_peer :: "nat option"
  md_senders :: "nat \<rightharpoonup> nat"
  md_pending :: "Pending list"
  md_fresh :: nat
  md_mounted :: bool
  md_cameraEnabled :: bool
  md_microphoneEnabled :: bool
  md_zoom :: "ZoomCapability option"
  md_canSwitch :: bool
  md_switching :: bool
  md_mediaError :: "MediaError option"
  md_switchFailed :: bool

definition initialMedia :: Media where
  "initialMedia =
     \<lparr>md_tracks = (\<lambda>k. None), md_streams = (\<lambda>k. []), md_local = None, md_peer = None, md_senders = (\<lambda>k. None),
      md_pending = [], md_fresh = 0, md_mounted = True, md_cameraEnabled = True, md_microphoneEnabled = True,
      md_zoom = None, md_canSwitch = False, md_switching = False, md_mediaError = None, md_switchFailed = False\<rparr>"

section \<open>Tracks\<close>

definition localTracks :: "Media \<Rightarrow> nat list" where
  "localTracks m = (case md_local m of None \<Rightarrow> [] | Some s \<Rightarrow> md_streams m s)"

definition isVideo :: "Media \<Rightarrow> nat \<Rightarrow> bool" where
  "isVideo m t = (case md_tracks m t of None \<Rightarrow> False | Some r \<Rightarrow> mt_video r)"

definition videoTracks :: "Media \<Rightarrow> nat list" where
  "videoTracks m = filter (isVideo m) (localTracks m)"

definition audioTracks :: "Media \<Rightarrow> nat list" where
  "audioTracks m = filter (\<lambda>t. \<not> isVideo m t) (localTracks m)"

definition firstOf :: "nat list \<Rightarrow> nat option" where
  "firstOf ts = (case ts of [] \<Rightarrow> None | t # rest \<Rightarrow> Some t)"

definition isEnabled :: "Media \<Rightarrow> nat \<Rightarrow> bool" where
  "isEnabled m t = (case md_tracks m t of None \<Rightarrow> False | Some r \<Rightarrow> mt_enabled r)"

definition trackLive :: "Media \<Rightarrow> nat \<Rightarrow> bool" where
  "trackLive m t = (case md_tracks m t of None \<Rightarrow> False | Some r \<Rightarrow> mt_live r)"

definition settingsOf :: "Media \<Rightarrow> nat option \<Rightarrow> TrackSettings option" where
  "settingsOf m track = map_option mt_settings (Option.bind track (md_tracks m))"

definition onTracks :: "nat set \<Rightarrow> (MediaTrack \<Rightarrow> MediaTrack) \<Rightarrow> Media \<Rightarrow> Media" where
  "onTracks ts f m =
     m\<lparr>md_tracks := (\<lambda>t. if t \<in> ts then map_option f (md_tracks m t) else md_tracks m t)\<rparr>"

definition stopTracks :: "nat set \<Rightarrow> Media \<Rightarrow> Media" where
  "stopTracks ts m = onTracks ts (\<lambda>r. r\<lparr>mt_live := False\<rparr>) m"

definition stopStream :: "nat option \<Rightarrow> Media \<Rightarrow> Media" where
  "stopStream stream m = (case stream of None \<Rightarrow> m | Some s \<Rightarrow> stopTracks (set (md_streams m s)) m)"

text \<open>The browser hands out a track: live, under a name not used before.\<close>

definition newTrack :: "bool \<Rightarrow> TrackSettings \<Rightarrow> MediaTrack" where
  "newTrack video settings = \<lparr>mt_video = video, mt_enabled = True, mt_live = True, mt_settings = settings\<rparr>"

definition withTracks :: "(bool \<times> TrackSettings) list \<Rightarrow> Media \<Rightarrow> nat list \<times> Media" where
  "withTracks granted m =
     (let names = [md_fresh m ..< md_fresh m + length granted]
      in (names, m\<lparr>md_tracks := (\<lambda>t. if t \<in> set names
                     then (let (video, settings) = granted ! (t - md_fresh m) in Some (newTrack video settings))
                     else md_tracks m t),
                   md_fresh := md_fresh m + length granted\<rparr>))"

definition finished :: "Pending \<Rightarrow> Media \<Rightarrow> Media" where
  "finished p m = m\<lparr>md_pending := remove1 p (md_pending m)\<rparr>"

section \<open>Acquiring\<close>

definition startMediaBegins :: "Media \<Rightarrow> Media" where
  "startMediaBegins m = m\<lparr>md_mediaError := None, md_pending := md_pending m @ [Starting]\<rparr>"

definition startMediaGranted :: "(bool \<times> TrackSettings) list \<Rightarrow> Media \<Rightarrow> Media" where
  "startMediaGranted granted m =
     (let (names, m1) = withTracks granted (finished Starting m);
          stream = md_fresh m1;
          m2 = m1\<lparr>md_streams := (md_streams m1)(stream := names), md_fresh := Suc stream, md_local := Some stream\<rparr>
      in m2\<lparr>md_cameraEnabled := list_ex (isEnabled m2) (videoTracks m2),
            md_microphoneEnabled := list_ex (isEnabled m2) (audioTracks m2),
            md_zoom := getZoomCapability (settingsOf m2 (firstOf (videoTracks m2)))\<rparr>)"

text \<open>\<^verbatim>\<open>await hasMultipleCameras().catch(() => false)\<close>.\<close>

definition camerasCounted :: "rejection + bool \<Rightarrow> Media \<Rightarrow> Media" where
  "camerasCounted answer m = m\<lparr>md_canSwitch := (case answer of Inl e \<Rightarrow> False | Inr b \<Rightarrow> b)\<rparr>"

definition startMediaRefused :: "MediaError \<Rightarrow> Media \<Rightarrow> Media" where
  "startMediaRefused e m = (finished Starting m)\<lparr>md_mediaError := Some e\<rparr>"

section \<open>Muting and zoom\<close>

definition toggleVideo :: "Media \<Rightarrow> Media" where
  "toggleVideo m =
     (let tracks = videoTracks m; next = (\<not> list_ex (isEnabled m) tracks)
      in (onTracks (set tracks) (\<lambda>r. r\<lparr>mt_enabled := next\<rparr>) m)\<lparr>md_cameraEnabled := next\<rparr>)"

definition toggleAudio :: "Media \<Rightarrow> Media" where
  "toggleAudio m =
     (let tracks = audioTracks m; next = (\<not> list_ex (isEnabled m) tracks)
      in (onTracks (set tracks) (\<lambda>r. r\<lparr>mt_enabled := next\<rparr>) m)\<lparr>md_microphoneEnabled := next\<rparr>)"

text \<open>What \<^verbatim>\<open>applyZoom\<close> answers is not waited for.\<close>

definition setZoom :: "rat \<Rightarrow> Media \<Rightarrow> Media" where
  "setZoom v m =
     (case firstOf (videoTracks m) of
        None \<Rightarrow> m
      | Some t \<Rightarrow> m\<lparr>md_zoom := map_option (\<lambda>z. z\<lparr>zc_current := v\<rparr>) (md_zoom m)\<rparr>)"

section \<open>Switching cameras\<close>

definition switchCameraBegins :: "Media \<Rightarrow> Media" where
  "switchCameraBegins m =
     (case md_local m of
        None \<Rightarrow> m
      | Some stream \<Rightarrow>
          if md_switching m then m
          else m\<lparr>md_switching := True,
                 md_pending := md_pending m @ [Opening stream (firstOf (videoTracks m))]\<rparr>)"

definition switchFinishes :: "nat \<Rightarrow> nat option \<Rightarrow> nat \<Rightarrow> Media \<Rightarrow> Media" where
  "switchFinishes stream oldTrack new m =
     (let m1 = (case oldTrack of
                  None \<Rightarrow> m
                | Some t \<Rightarrow> stopTracks {t} (m\<lparr>md_streams := (md_streams m)(stream := removeAll t (md_streams m stream))\<rparr>));
          m2 = m1\<lparr>md_streams := (md_streams m1)(stream := md_streams m1 stream @ [new])\<rparr>
      in m2\<lparr>md_zoom := getZoomCapability (settingsOf m2 (Some new)), md_switching := False\<rparr>)"

text \<open>The other camera is open: the new track takes over the old one's mute state, and goes onto the sender of the
peer connection there is now, if it has one for video.\<close>

definition switchCameraOpened :: "nat \<Rightarrow> nat option \<Rightarrow> TrackSettings \<Rightarrow> Media \<Rightarrow> Media" where
  "switchCameraOpened stream oldTrack settings m =
     (let (names, m1) = withTracks [(True, settings)] (finished (Opening stream oldTrack) m);
          new = md_fresh m;
          enabled = (case oldTrack of None \<Rightarrow> True | Some t \<Rightarrow> isEnabled m t);
          m2 = onTracks {new} (\<lambda>r. r\<lparr>mt_enabled := enabled\<rparr>) m1
      in case md_peer m2 of
           None \<Rightarrow> switchFinishes stream oldTrack new m2
         | Some peer \<Rightarrow>
             (case md_senders m2 peer of
                None \<Rightarrow> switchFinishes stream oldTrack new m2
              | Some sent \<Rightarrow> m2\<lparr>md_pending := md_pending m2 @ [Replacing stream oldTrack new peer]\<rparr>))"

definition switchCameraReplaced :: "nat \<Rightarrow> nat option \<Rightarrow> nat \<Rightarrow> nat \<Rightarrow> Media \<Rightarrow> Media" where
  "switchCameraReplaced stream oldTrack new peer m =
     (let m1 = finished (Replacing stream oldTrack new peer) m
      in switchFinishes stream oldTrack new (m1\<lparr>md_senders := (md_senders m1)(peer \<mapsto> new)\<rparr>))"

text \<open>The \<^verbatim>\<open>catch\<close> of both awaits.\<close>

definition switchCameraFailed :: "Pending \<Rightarrow> Media \<Rightarrow> Media" where
  "switchCameraFailed p m = (finished p m)\<lparr>md_switchFailed := True, md_switching := False\<rparr>"

section \<open>Peer connections and leaving\<close>

text \<open>\<^verbatim>\<open>createPeer\<close> publishes the local tracks; the video sender is the one found first.\<close>

definition peerCreated :: "Media \<Rightarrow> Media" where
  "peerCreated m =
     m\<lparr>md_peer := Some (md_fresh m), md_fresh := Suc (md_fresh m),
       md_senders := (md_senders m)(md_fresh m := firstOf (videoTracks m))\<rparr>"

definition peerClosed :: "Media \<Rightarrow> Media" where
  "peerClosed m = m\<lparr>md_peer := None\<rparr>"

definition leavePage :: "Media \<Rightarrow> Media" where
  "leavePage m = (stopStream (md_local m) (peerClosed m))\<lparr>md_local := None, md_mounted := False\<rparr>"

end
