(* ===== verification/Camera_Safety.thy ===== *)
theory Camera_Safety
  imports Camera Conversation "HOL-Library.Sublist"
begin

text \<open>When the camera is on. The step relation is everything that can happen to the hook's camera and microphone, in
any order the page and the browser allow; the results say which tracks are live, and whether they send a picture,
while the page is open and after it is left. At the end the call model's view of the stream is shown to be an
abstraction of this one.\<close>

section \<open>Everything that can happen\<close>

text \<open>The page starts media only without a stream and shows no start button while it waits; user actions and
socket events end with the page, answers of the browser do not. The swap that the browser refuses is kept
apart.\<close>

inductive calmStep :: "Media \<Rightarrow> Media \<Rightarrow> bool" where
  cs_start: "md_mounted m \<Longrightarrow> md_local m = None \<Longrightarrow> Starting \<notin> set (md_pending m) \<Longrightarrow> calmStep m (startMediaBegins m)"
| cs_granted: "Starting \<in> set (md_pending m) \<Longrightarrow> calmStep m (startMediaGranted granted m)"
| cs_refused: "Starting \<in> set (md_pending m) \<Longrightarrow> calmStep m (startMediaRefused e m)"
| cs_counted: "calmStep m (camerasCounted answer m)"
| cs_video: "md_mounted m \<Longrightarrow> calmStep m (toggleVideo m)"
| cs_audio: "md_mounted m \<Longrightarrow> calmStep m (toggleAudio m)"
| cs_zoom: "md_mounted m \<Longrightarrow> calmStep m (setZoom v m)"
| cs_switch: "md_mounted m \<Longrightarrow> calmStep m (switchCameraBegins m)"
| cs_opened: "Opening s old \<in> set (md_pending m) \<Longrightarrow> calmStep m (switchCameraOpened s old settings m)"
| cs_unopened: "Opening s old \<in> set (md_pending m) \<Longrightarrow> calmStep m (switchCameraFailed (Opening s old) m)"
| cs_replaced: "Replacing s old new p \<in> set (md_pending m) \<Longrightarrow> calmStep m (switchCameraReplaced s old new p m)"
| cs_peer: "md_mounted m \<Longrightarrow> calmStep m (peerCreated m)"
| cs_closed: "md_mounted m \<Longrightarrow> calmStep m (peerClosed m)"
| cs_leave: "md_mounted m \<Longrightarrow> calmStep m (leavePage m)"

inductive mediaStep :: "Media \<Rightarrow> Media \<Rightarrow> bool" where
  ms_calm: "calmStep m m' \<Longrightarrow> mediaStep m m'"
| ms_swapRefused: "Replacing s old new p \<in> set (md_pending m) \<Longrightarrow>
    mediaStep m (switchCameraFailed (Replacing s old new p) m)"

inductive_cases calmStepE: "calmStep m m'"
inductive_cases mediaStepE: "mediaStep m m'"

section \<open>Tracks of the operations\<close>

definition known :: "Media \<Rightarrow> nat set" where
  "known m = dom (md_tracks m)"

lemma trackLive_onTracks [simp]: "(\<And>r. mt_live (f r) = mt_live r) \<Longrightarrow> trackLive (onTracks ts f m) t = trackLive m t"
  by (simp add: trackLive_def onTracks_def split: option.split)

lemma trackLive_stop [simp]: "trackLive (stopTracks ts m) t \<longleftrightarrow> trackLive m t \<and> t \<notin> ts"
  by (simp add: trackLive_def stopTracks_def onTracks_def split: option.split)

lemma onTracks_frame [simp]:
  "md_streams (onTracks ts f m) = md_streams m" "md_local (onTracks ts f m) = md_local m"
  "md_pending (onTracks ts f m) = md_pending m" "md_mounted (onTracks ts f m) = md_mounted m"
  "md_switching (onTracks ts f m) = md_switching m" "md_fresh (onTracks ts f m) = md_fresh m"
  "md_peer (onTracks ts f m) = md_peer m" "md_senders (onTracks ts f m) = md_senders m"
  "md_cameraEnabled (onTracks ts f m) = md_cameraEnabled m"
  "known (onTracks ts f m) = known m"
  by (auto simp: onTracks_def known_def dom_def split: if_splits)

lemma trackLive_update [simp]:
  "trackLive (m\<lparr>md_streams := ss\<rparr>) = trackLive m" "trackLive (m\<lparr>md_local := l\<rparr>) = trackLive m"
  "trackLive (m\<lparr>md_pending := ps\<rparr>) = trackLive m" "trackLive (m\<lparr>md_fresh := n\<rparr>) = trackLive m"
  "trackLive (m\<lparr>md_mounted := b\<rparr>) = trackLive m" "trackLive (m\<lparr>md_peer := q\<rparr>) = trackLive m"
  "trackLive (m\<lparr>md_senders := sd\<rparr>) = trackLive m" "trackLive (m\<lparr>md_cameraEnabled := b\<rparr>) = trackLive m"
  "trackLive (m\<lparr>md_microphoneEnabled := b\<rparr>) = trackLive m" "trackLive (m\<lparr>md_zoom := z\<rparr>) = trackLive m"
  "trackLive (m\<lparr>md_canSwitch := b\<rparr>) = trackLive m" "trackLive (m\<lparr>md_switching := b\<rparr>) = trackLive m"
  "trackLive (m\<lparr>md_mediaError := e\<rparr>) = trackLive m" "trackLive (m\<lparr>md_switchFailed := b\<rparr>) = trackLive m"
  by (simp_all add: trackLive_def fun_eq_iff)

lemma known_update [simp]:
  "known (m\<lparr>md_streams := ss\<rparr>) = known m" "known (m\<lparr>md_local := l\<rparr>) = known m"
  "known (m\<lparr>md_pending := ps\<rparr>) = known m" "known (m\<lparr>md_fresh := n\<rparr>) = known m"
  "known (m\<lparr>md_mounted := b\<rparr>) = known m" "known (m\<lparr>md_peer := q\<rparr>) = known m"
  "known (m\<lparr>md_senders := sd\<rparr>) = known m" "known (m\<lparr>md_cameraEnabled := b\<rparr>) = known m"
  "known (m\<lparr>md_microphoneEnabled := b\<rparr>) = known m" "known (m\<lparr>md_zoom := z\<rparr>) = known m"
  "known (m\<lparr>md_canSwitch := b\<rparr>) = known m" "known (m\<lparr>md_switching := b\<rparr>) = known m"
  "known (m\<lparr>md_mediaError := e\<rparr>) = known m" "known (m\<lparr>md_switchFailed := b\<rparr>) = known m"
  by (simp_all add: known_def)

lemma trackLive_withTracks [simp]:
  "trackLive (snd (withTracks g m)) t \<longleftrightarrow> md_fresh m \<le> t \<and> t < md_fresh m + length g \<or>
     \<not> (md_fresh m \<le> t \<and> t < md_fresh m + length g) \<and> trackLive m t"
  by (auto simp: trackLive_def withTracks_def newTrack_def Let_def split: option.split prod.split)

lemma withTracks_frame [simp]:
  "fst (withTracks g m) = [md_fresh m ..< md_fresh m + length g]"
  "md_streams (snd (withTracks g m)) = md_streams m" "md_local (snd (withTracks g m)) = md_local m"
  "md_pending (snd (withTracks g m)) = md_pending m" "md_mounted (snd (withTracks g m)) = md_mounted m"
  "md_switching (snd (withTracks g m)) = md_switching m" "md_peer (snd (withTracks g m)) = md_peer m"
  "md_senders (snd (withTracks g m)) = md_senders m" "md_fresh (snd (withTracks g m)) = md_fresh m + length g"
  "md_cameraEnabled (snd (withTracks g m)) = md_cameraEnabled m"
  "known (snd (withTracks g m)) = known m \<union> {md_fresh m ..< md_fresh m + length g}"
  by (auto simp: withTracks_def Let_def known_def split: prod.splits if_splits)

lemma trackLive_stopStream [simp]:
  "trackLive (stopStream s m) t \<longleftrightarrow> trackLive m t \<and> (case s of None \<Rightarrow> True | Some x \<Rightarrow> t \<notin> set (md_streams m x))"
  by (simp add: stopStream_def split: option.split)

lemma stopStream_frame [simp]:
  "md_streams (stopStream s m) = md_streams m" "md_local (stopStream s m) = md_local m"
  "md_pending (stopStream s m) = md_pending m" "md_switching (stopStream s m) = md_switching m"
  "md_fresh (stopStream s m) = md_fresh m" "md_peer (stopStream s m) = md_peer m"
  by (simp_all add: stopStream_def stopTracks_def split: option.split)

lemma finished_frame [simp]:
  "md_streams (finished p m) = md_streams m" "md_local (finished p m) = md_local m"
  "md_mounted (finished p m) = md_mounted m" "md_switching (finished p m) = md_switching m"
  "md_peer (finished p m) = md_peer m" "md_senders (finished p m) = md_senders m"
  "md_fresh (finished p m) = md_fresh m" "md_pending (finished p m) = remove1 p (md_pending m)"
  "trackLive (finished p m) = trackLive m" "md_cameraEnabled (finished p m) = md_cameraEnabled m"
  "known (finished p m) = known m"
  by (simp_all add: finished_def known_def)

lemmas media_ops = startMediaBegins_def startMediaGranted_def startMediaRefused_def camerasCounted_def
  toggleVideo_def toggleAudio_def setZoom_def switchCameraBegins_def switchCameraOpened_def
  switchCameraReplaced_def switchCameraFailed_def switchFinishes_def peerCreated_def peerClosed_def leavePage_def
  stopTracks_def

section \<open>One thing at a time\<close>

text \<open>At most one acquisition is under way, and while the page is open it concerns the stream it holds.\<close>

fun phase :: "bool \<Rightarrow> nat option \<Rightarrow> bool \<Rightarrow> (nat \<Rightarrow> nat list) \<Rightarrow> Pending list \<Rightarrow> bool" where
  "phase mounted local switching streams [] \<longleftrightarrow> (mounted \<longrightarrow> \<not> switching)"
| "phase mounted local switching streams [Starting] \<longleftrightarrow> (mounted \<longrightarrow> local = None \<and> \<not> switching)"
| "phase mounted local switching streams [Opening s old] \<longleftrightarrow> (mounted \<longrightarrow> local = Some s \<and> switching)"
| "phase mounted local switching streams [Replacing s old new p] \<longleftrightarrow>
     (\<forall>x. new \<notin> set (streams x)) \<and> old \<noteq> Some new \<and> (mounted \<longrightarrow> local = Some s \<and> switching)"
| "phase mounted local switching streams ps \<longleftrightarrow> False"

abbreviation phaseOf :: "Media \<Rightarrow> bool" where
  "phaseOf m \<equiv> phase (md_mounted m) (md_local m) (md_switching m) (md_streams m) (md_pending m)"

lemma phase_member: "phase b l w ss ps \<Longrightarrow> x \<in> set ps \<Longrightarrow> ps = [x]"
  by (cases "(b, l, w, ss, ps)" rule: phase.cases) auto

text \<open>Names are fresh: nothing refers to a track that has not been handed out.\<close>

definition pendingTracks :: "Pending \<Rightarrow> nat set" where
  "pendingTracks p = (case p of
     Starting \<Rightarrow> {} | Opening s old \<Rightarrow> set_option old | Replacing s old new q \<Rightarrow> insert new (set_option old))"

definition namesOk :: "Media \<Rightarrow> bool" where
  "namesOk m \<longleftrightarrow>
     (\<forall>t \<in> known m. t < md_fresh m) \<and> (\<forall>s. \<forall>t \<in> set (md_streams m s). t \<in> known m) \<and>
     (\<forall>p \<in> set (md_pending m). \<forall>t \<in> pendingTracks p. t \<in> known m)"

definition mediaInv :: "Media \<Rightarrow> bool" where
  "mediaInv m \<longleftrightarrow> namesOk m \<and> phaseOf m"

lemma pendingTracks_simps [simp]:
  "pendingTracks Starting = {}" "pendingTracks (Opening s old) = set_option old"
  "pendingTracks (Replacing s old new q) = insert new (set_option old)"
  by (simp_all add: pendingTracks_def)

lemma mediaInv_initial: "mediaInv initialMedia"
  by (simp add: mediaInv_def namesOk_def initialMedia_def known_def)

lemma firstOf_set: "firstOf ts = Some t \<Longrightarrow> t \<in> set ts"
  by (cases ts) (auto simp: firstOf_def)

lemma first_video_named:
  "namesOk m \<Longrightarrow> firstOf (videoTracks m) = Some t \<Longrightarrow> t \<in> known m"
  by (auto simp: namesOk_def videoTracks_def localTracks_def dest!: firstOf_set split: option.splits)

lemma namesOk_onTracks [simp]: "namesOk (onTracks ts f m) = namesOk m"
  by (auto simp: namesOk_def)

lemma namesOk_update [simp]:
  "namesOk (m\<lparr>md_local := l\<rparr>) = namesOk m" "namesOk (m\<lparr>md_mounted := b\<rparr>) = namesOk m"
  "namesOk (m\<lparr>md_peer := q\<rparr>) = namesOk m" "namesOk (m\<lparr>md_senders := sd\<rparr>) = namesOk m"
  "namesOk (m\<lparr>md_cameraEnabled := b\<rparr>) = namesOk m" "namesOk (m\<lparr>md_microphoneEnabled := b\<rparr>) = namesOk m"
  "namesOk (m\<lparr>md_zoom := z\<rparr>) = namesOk m" "namesOk (m\<lparr>md_canSwitch := b\<rparr>) = namesOk m"
  "namesOk (m\<lparr>md_switching := b\<rparr>) = namesOk m" "namesOk (m\<lparr>md_mediaError := e\<rparr>) = namesOk m"
  "namesOk (m\<lparr>md_switchFailed := b\<rparr>) = namesOk m"
  by (simp_all add: namesOk_def)

lemma namesOk_finished: "namesOk m \<Longrightarrow> namesOk (finished p m)"
  by (auto simp: namesOk_def finished_def dest: notin_set_remove1 set_remove1_subset [THEN subsetD])

lemma namesOk_withTracks: "namesOk m \<Longrightarrow> namesOk (snd (withTracks g m))"
  by (auto simp: namesOk_def)

lemma namesOk_stream:
  "namesOk m \<Longrightarrow> \<forall>t \<in> set ts. t \<in> known m \<Longrightarrow> namesOk (m\<lparr>md_streams := (md_streams m)(s := ts)\<rparr>)"
  by (auto simp: namesOk_def)

lemma namesOk_fresh: "namesOk m \<Longrightarrow> md_fresh m \<le> n \<Longrightarrow> namesOk (m\<lparr>md_fresh := n\<rparr>)"
  by (force simp: namesOk_def)

lemma namesOk_pending:
  "namesOk m \<Longrightarrow> \<forall>t \<in> pendingTracks p. t \<in> known m \<Longrightarrow> namesOk (m\<lparr>md_pending := md_pending m @ [p]\<rparr>)"
  by (auto simp: namesOk_def)

lemma stream_known: "namesOk m \<Longrightarrow> t \<in> set (md_streams m s) \<Longrightarrow> t \<in> known m"
  by (auto simp: namesOk_def)

lemma pending_known: "namesOk m \<Longrightarrow> p \<in> set (md_pending m) \<Longrightarrow> t \<in> pendingTracks p \<Longrightarrow> t \<in> known m"
  by (auto simp: namesOk_def)

lemma fresh_unknown: "namesOk m \<Longrightarrow> md_fresh m \<notin> known m"
  by (auto simp: namesOk_def)

lemma namesOk_switchFinishes:
  assumes "namesOk m" and "new \<in> known m"
  shows "namesOk (switchFinishes s old new m)"
proof -
  define m1 where "m1 = (case old of None \<Rightarrow> m
    | Some t \<Rightarrow> stopTracks {t} (m\<lparr>md_streams := (md_streams m)(s := removeAll t (md_streams m s))\<rparr>))"
  have m1: "namesOk m1" "new \<in> known m1"
    using assms unfolding m1_def
    by (auto simp: stopTracks_def intro!: namesOk_stream dest: stream_known split: option.split)
  then have "\<forall>t \<in> set (md_streams m1 s @ [new]). t \<in> known m1" using stream_known [OF m1(1)] by auto
  from namesOk_stream [OF m1(1) this] show ?thesis
    by (simp add: switchFinishes_def m1_def Let_def)
qed

text \<open>The state once the other camera is open, before it goes anywhere.\<close>

definition cameraOpen :: "nat \<Rightarrow> nat option \<Rightarrow> TrackSettings \<Rightarrow> Media \<Rightarrow> Media" where
  "cameraOpen s old settings m =
     onTracks {md_fresh m} (\<lambda>r. r\<lparr>mt_enabled := (case old of None \<Rightarrow> True | Some t \<Rightarrow> isEnabled m t)\<rparr>)
       (snd (withTracks [(True, settings)] (finished (Opening s old) m)))"

lemma opened_cases:
  obtains (swap) q where "md_peer m = Some q"
      and "switchCameraOpened s old settings m = (cameraOpen s old settings m)\<lparr>md_pending :=
             remove1 (Opening s old) (md_pending m) @ [Replacing s old (md_fresh m) q]\<rparr>"
  | (direct) "switchCameraOpened s old settings m = switchFinishes s old (md_fresh m) (cameraOpen s old settings m)"
  by (cases "md_peer m"; cases "md_senders m (the (md_peer m))")
     (auto simp: switchCameraOpened_def cameraOpen_def Let_def prod.case_eq_if)

lemma cameraOpen_frame [simp]:
  "md_streams (cameraOpen s old st m) = md_streams m" "md_local (cameraOpen s old st m) = md_local m"
  "md_mounted (cameraOpen s old st m) = md_mounted m" "md_switching (cameraOpen s old st m) = md_switching m"
  "md_fresh (cameraOpen s old st m) = Suc (md_fresh m)"
  "md_pending (cameraOpen s old st m) = remove1 (Opening s old) (md_pending m)"
  "trackLive (cameraOpen s old st m) t \<longleftrightarrow> t = md_fresh m \<or> trackLive m t"
  "known (cameraOpen s old st m) = insert (md_fresh m) (known m)"
  by (auto simp: cameraOpen_def)

lemma namesOk_cameraOpen: "namesOk m \<Longrightarrow> namesOk (cameraOpen s old st m)"
  by (simp add: cameraOpen_def namesOk_withTracks namesOk_finished)

lemma namesOk_opened:
  assumes n: "namesOk m" and p: "Opening s old \<in> set (md_pending m)"
  shows "namesOk (switchCameraOpened s old settings m)"
proof (cases rule: opened_cases [of m s old settings])
  case (swap q)
  have "\<forall>t \<in> pendingTracks (Replacing s old (md_fresh m) q). t \<in> known (cameraOpen s old settings m)"
    using pending_known [OF n p] by auto
  from namesOk_pending [OF namesOk_cameraOpen [OF n] this] show ?thesis by (simp add: swap)
qed (simp add: namesOk_switchFinishes namesOk_cameraOpen [OF n])

lemma namesOk_granted: "namesOk m \<Longrightarrow> namesOk (startMediaGranted g m)"
proof -
  assume n: "namesOk m"
  define m1 where "m1 = snd (withTracks g (finished Starting m))"
  have m1: "namesOk m1" "md_fresh m1 = md_fresh m + length g"
    using n by (simp_all add: m1_def namesOk_withTracks namesOk_finished)
  have "\<forall>t \<in> set [md_fresh m ..< md_fresh m + length g]. t \<in> known m1"
    by (auto simp: m1_def)
  from namesOk_fresh [OF namesOk_stream [OF m1(1) this, of "md_fresh m1"], of "Suc (md_fresh m1)"]
  show ?thesis using m1(2)
    by (simp add: startMediaGranted_def Let_def prod.case_eq_if m1_def [symmetric])
qed

lemma namesOk_calm:
  assumes "calmStep m m'" and n: "namesOk m"
  shows "namesOk m'"
  using assms(1)
proof (cases rule: calmStep.cases)
  case cs_start
  then show ?thesis using n namesOk_pending [of "m\<lparr>md_mediaError := None\<rparr>" Starting] by (simp add: startMediaBegins_def)
next
  case (cs_granted g)
  then show ?thesis using namesOk_granted n by blast
next
  case cs_refused
  then show ?thesis using n by (simp add: startMediaRefused_def namesOk_finished)
next
  case cs_counted
  then show ?thesis using n by (simp add: camerasCounted_def)
next
  case cs_video
  then show ?thesis using n by (simp add: toggleVideo_def Let_def)
next
  case cs_audio
  then show ?thesis using n by (simp add: toggleAudio_def Let_def)
next
  case cs_zoom
  then show ?thesis using n by (simp add: setZoom_def split: option.split)
next
  case cs_switch
  then show ?thesis
    using n first_video_named [OF n]
      namesOk_pending [of "m\<lparr>md_switching := True\<rparr>" "Opening x (firstOf (videoTracks m))" for x]
    by (auto simp: switchCameraBegins_def split: option.splits)
next
  case cs_opened
  then show ?thesis using namesOk_opened n by blast
next
  case cs_unopened
  then show ?thesis using n by (simp add: switchCameraFailed_def namesOk_finished)
next
  case (cs_replaced s old new q)
  then show ?thesis
    using n pending_known [OF n cs_replaced(2), of new]
    by (simp add: switchCameraReplaced_def namesOk_switchFinishes namesOk_finished)
next
  case cs_peer
  then show ?thesis using n namesOk_fresh [of "m\<lparr>md_peer := Some (md_fresh m)\<rparr>" "Suc (md_fresh m)"]
    by (simp add: peerCreated_def)
next
  case cs_closed
  then show ?thesis using n by (simp add: peerClosed_def)
next
  case cs_leave
  then show ?thesis using n by (simp add: leavePage_def stopStream_def stopTracks_def peerClosed_def split: option.split)
qed

lemma phase_switchFinishes:
  "phase (md_mounted m) l False ss [] \<Longrightarrow> md_pending m = [] \<Longrightarrow> phaseOf (switchFinishes s old new m)"
  by (simp add: switchFinishes_def Let_def stopTracks_def split: option.split)

lemma phase_calm:
  assumes "calmStep m m'" and n: "namesOk m" and ph: "phaseOf m"
  shows "phaseOf m'"
  using assms(1)
proof (cases rule: calmStep.cases)
  case cs_start
  then show ?thesis using ph
    by (cases "(md_mounted m, md_local m, md_switching m, md_streams m, md_pending m)" rule: phase.cases)
       (auto simp: startMediaBegins_def)
next
  case (cs_granted g)
  have "md_pending m = [Starting]" using phase_member [OF ph cs_granted(2)] .
  then show ?thesis using ph by (simp add: cs_granted startMediaGranted_def Let_def prod.case_eq_if)
next
  case (cs_refused e)
  have "md_pending m = [Starting]" using phase_member [OF ph cs_refused(2)] .
  then show ?thesis using ph by (simp add: cs_refused startMediaRefused_def)
next
  case cs_switch
  then show ?thesis using ph
    by (cases "(md_mounted m, md_local m, md_switching m, md_streams m, md_pending m)" rule: phase.cases)
       (auto simp: switchCameraBegins_def split: option.splits)
next
  case (cs_opened s old settings)
  have one: "md_pending m = [Opening s old]" using phase_member [OF ph cs_opened(2)] .
  show ?thesis
  proof (cases rule: opened_cases [of m s old settings])
    case (swap q)
    have "md_fresh m \<notin> set (md_streams m x)" for x
      using stream_known [OF n, of "md_fresh m" x] fresh_unknown [OF n] by blast
    moreover have "old \<noteq> Some (md_fresh m)" using pending_known [OF n cs_opened(2), of "md_fresh m"] fresh_unknown [OF n] by auto
    ultimately show ?thesis using ph by (simp add: cs_opened(1) swap one)
  next
    case direct
    then show ?thesis by (simp add: cs_opened(1) phase_switchFinishes one)
  qed
next
  case (cs_unopened s old)
  have "md_pending m = [Opening s old]" using phase_member [OF ph cs_unopened(2)] .
  then show ?thesis by (simp add: cs_unopened switchCameraFailed_def)
next
  case (cs_replaced s old new q)
  have "md_pending m = [Replacing s old new q]" using phase_member [OF ph cs_replaced(2)] .
  then show ?thesis by (simp add: cs_replaced switchCameraReplaced_def Let_def phase_switchFinishes)
next
  case cs_leave
  then show ?thesis using ph
    by (cases "(md_mounted m, md_local m, md_switching m, md_streams m, md_pending m)" rule: phase.cases)
       (auto simp: leavePage_def peerClosed_def)
qed (use ph in \<open>auto simp: camerasCounted_def toggleVideo_def toggleAudio_def setZoom_def peerCreated_def
      peerClosed_def Let_def split: option.split\<close>)

lemma mediaInv_step:
  assumes "mediaStep m m'" and inv: "mediaInv m"
  shows "mediaInv m'"
  using assms(1)
proof (cases rule: mediaStep.cases)
  case (ms_swapRefused s old new q)
  then have "md_pending m = [Replacing s old new q]"
    using phase_member inv by (auto simp: mediaInv_def)
  then show ?thesis
    using inv by (simp add: ms_swapRefused(1) mediaInv_def switchCameraFailed_def namesOk_finished)
qed (use inv namesOk_calm phase_calm in \<open>auto simp: mediaInv_def\<close>)

section \<open>What is live\<close>

text \<open>While the page is open, a live track is one of its stream's, or about to become one.\<close>

definition lit :: "Media \<Rightarrow> bool" where
  "lit m \<longleftrightarrow> (\<forall>t. trackLive m t \<longrightarrow>
     (\<exists>s. md_local m = Some s \<and> t \<in> set (md_streams m s)) \<or> (\<exists>s old q. Replacing s old t q \<in> set (md_pending m)))"

lemma trackLive_switchFinishes:
  "trackLive (switchFinishes s old new m) t \<longleftrightarrow> trackLive m t \<and> old \<noteq> Some t"
  by (auto simp: switchFinishes_def Let_def split: option.split)

lemma stream_switchFinishes:
  "md_local (switchFinishes s old new m) = md_local m" "md_pending (switchFinishes s old new m) = md_pending m"
  "set (md_streams (switchFinishes s old new m) s) = insert new (set (md_streams m s) - set_option old)"
  "s' \<noteq> s \<Longrightarrow> md_streams (switchFinishes s old new m) s' = md_streams m s'"
  "md_mounted (switchFinishes s old new m) = md_mounted m"
  by (auto simp: switchFinishes_def Let_def stopTracks_def split: option.split)

lemma lit_calm:
  assumes "calmStep m m'" and inv: "mediaInv m" and lit: "lit m" and open1: "md_mounted m" and open2: "md_mounted m'"
  shows "lit m'"
  using assms(1)
proof (cases rule: calmStep.cases)
  case cs_start
  then show ?thesis using lit by (auto simp: lit_def startMediaBegins_def)
next
  case (cs_granted g)
  have one: "md_pending m = [Starting]" using phase_member cs_granted(2) inv by (auto simp: mediaInv_def)
  then have "md_local m = None" using inv open1 by (simp add: mediaInv_def)
  then have "\<not> trackLive m t" for t using lit one by (auto simp: lit_def)
  then show ?thesis by (auto simp: cs_granted(1) lit_def startMediaGranted_def Let_def prod.case_eq_if)
next
  case (cs_refused e)
  then show ?thesis using lit by (auto simp: lit_def startMediaRefused_def)
next
  case cs_switch
  then show ?thesis using lit by (auto simp: lit_def switchCameraBegins_def split: option.split)
next
  case (cs_opened s old settings)
  have one: "md_pending m = [Opening s old]" using phase_member cs_opened(2) inv by (auto simp: mediaInv_def)
  then have s: "md_local m = Some s" using inv open1 by (simp add: mediaInv_def)
  have live: "trackLive m t \<Longrightarrow> t \<in> set (md_streams m s)" for t using lit one s by (auto simp: lit_def)
  show ?thesis
  proof (cases rule: opened_cases [of m s old settings])
    case (swap q)
    then show ?thesis using live s by (auto simp: lit_def cs_opened(1))
  next
    case direct
    then show ?thesis
      using live s by (auto simp: lit_def cs_opened(1) trackLive_switchFinishes stream_switchFinishes)
  qed
next
  case (cs_unopened s old)
  then show ?thesis using lit by (auto simp: lit_def switchCameraFailed_def)
next
  case (cs_replaced s old new q)
  have one: "md_pending m = [Replacing s old new q]" using phase_member cs_replaced(2) inv by (auto simp: mediaInv_def)
  then have s: "md_local m = Some s" using inv open1 by (simp add: mediaInv_def)
  have "trackLive m t \<Longrightarrow> t = new \<or> t \<in> set (md_streams m s)" for t using lit one s by (auto simp: lit_def)
  then show ?thesis
    using s one
    by (auto simp: lit_def cs_replaced(1) switchCameraReplaced_def Let_def trackLive_switchFinishes stream_switchFinishes)
qed (use lit open2 in \<open>auto simp: lit_def camerasCounted_def toggleVideo_def toggleAudio_def setZoom_def peerCreated_def
      peerClosed_def leavePage_def Let_def split: option.split\<close>)

lemma mounted_before: "calmStep m m' \<Longrightarrow> md_mounted m' \<Longrightarrow> md_mounted m"
proof (induction rule: calmStep.induct)
  case (cs_opened s old m settings)
  then show ?case
    by (cases rule: opened_cases [of m s old settings]) (simp_all add: stream_switchFinishes)
qed (auto simp: media_ops switchFinishes_def Let_def prod.case_eq_if split: option.splits)

lemma calm_reached:
  "calmStep\<^sup>*\<^sup>* initialMedia m \<Longrightarrow> mediaInv m \<and> (md_mounted m \<longrightarrow> lit m)"
proof (induction rule: rtranclp_induct)
  case base
  then show ?case using mediaInv_initial by (simp add: lit_def trackLive_def initialMedia_def)
next
  case (step m m')
  then show ?case using mediaInv_step ms_calm lit_calm mounted_before by blast
qed

lemma media_reached: "mediaStep\<^sup>*\<^sup>* initialMedia m \<Longrightarrow> mediaInv m"
  by (induction rule: rtranclp_induct) (auto intro: mediaInv_initial mediaInv_step)

text \<open>After the page is left and nothing is under way, nothing happens any more.\<close>

lemma left_step:
  assumes "mediaStep m m'" and "\<not> md_mounted m" and "md_pending m = []"
  shows "\<not> md_mounted m' \<and> md_pending m' = [] \<and> trackLive m' = trackLive m"
  using assms by (auto simp: camerasCounted_def elim!: mediaStepE calmStepE)

lemma left_steps:
  "mediaStep\<^sup>*\<^sup>* m m' \<Longrightarrow> \<not> md_mounted m \<Longrightarrow> md_pending m = [] \<Longrightarrow>
   \<not> md_mounted m' \<and> md_pending m' = [] \<and> trackLive m' = trackLive m"
  by (induction rule: rtranclp_induct) (auto dest: left_step)

section \<open>The light goes out\<close>

text \<open>C19: The camera is released. Whatever has happened while the page was open, as long as no swap of tracks was
refused: if nothing is being acquired when the page is left, every track the browser ever handed out, camera or
microphone, is stopped, and none is ever live again.\<close>

theorem camera_is_released:
  assumes "calmStep\<^sup>*\<^sup>* initialMedia m" and "md_mounted m" and "md_pending m = []"
    and "mediaStep\<^sup>*\<^sup>* (leavePage m) m'"
  shows "\<not> trackLive m' t"
proof -
  have "lit m" using calm_reached [OF assms(1)] assms(2) by blast
  then have dark: "\<not> trackLive (leavePage m) t" for t
    using assms(3) by (auto simp: lit_def leavePage_def peerClosed_def split: option.split)
  moreover have "\<not> md_mounted (leavePage m)" "md_pending (leavePage m) = []"
    using assms(3) by (simp_all add: leavePage_def peerClosed_def)
  ultimately show ?thesis using left_steps [OF assms(4)] by metis
qed

section \<open>The light stays on\<close>

text \<open>A track that no stream and no swap knows of is out of everybody's reach.\<close>

definition orphan :: "nat \<Rightarrow> Media \<Rightarrow> bool" where
  "orphan t m \<longleftrightarrow>
     trackLive m t \<and> t < md_fresh m \<and> (\<forall>s. t \<notin> set (md_streams m s)) \<and> (\<forall>p \<in> set (md_pending m). t \<notin> pendingTracks p)"

lemma orphan_switchFinishes:
  "orphan t m \<Longrightarrow> new \<noteq> t \<Longrightarrow> old \<noteq> Some t \<Longrightarrow> orphan t (switchFinishes s old new m)"
proof -
  have "md_fresh (switchFinishes s old new m) = md_fresh m"
    and "set (md_streams (switchFinishes s old new m) s') \<subseteq> insert new (set (md_streams m s'))" for s'
    by (auto simp: switchFinishes_def stopTracks_def Let_def split: option.split)
  moreover assume "orphan t m" "new \<noteq> t" "old \<noteq> Some t"
  ultimately show ?thesis by (auto simp: orphan_def trackLive_switchFinishes stream_switchFinishes)
qed

lemma orphan_finished: "orphan t m \<Longrightarrow> orphan t (finished p m)"
  by (auto simp: orphan_def dest: notin_set_remove1 set_remove1_subset [THEN subsetD])

lemma orphan_opened:
  assumes "orphan t m" and "Opening s old \<in> set (md_pending m)"
  shows "orphan t (switchCameraOpened s old settings m)"
proof -
  have o: "orphan t (cameraOpen s old settings m)" "old \<noteq> Some t" "md_fresh m \<noteq> t"
    using assms by (auto simp: orphan_def dest: set_remove1_subset [THEN subsetD])
  show ?thesis
  proof (cases rule: opened_cases [of m s old settings])
    case (swap q)
    then show ?thesis using o by (auto simp: orphan_def)
  next
    case direct
    then show ?thesis using o orphan_switchFinishes by simp
  qed
qed

lemma orphan_step: "mediaStep m m' \<Longrightarrow> orphan t m \<Longrightarrow> orphan t m'"
proof (induction rule: mediaStep.induct)
  case (ms_swapRefused s old new q m)
  then have "orphan t (finished (Replacing s old new q) m)" using orphan_finished by blast
  then show ?case by (simp add: switchCameraFailed_def orphan_def)
next
  case (ms_calm m m')
  from ms_calm(1) show ?case
  proof (cases rule: calmStep.cases)
    case cs_opened
    then show ?thesis using ms_calm(2) orphan_opened by blast
  next
    case (cs_replaced s old new q)
    have "orphan t ((finished (Replacing s old new q) m)\<lparr>md_senders := (md_senders m)(q \<mapsto> new)\<rparr>)"
      using orphan_finished [OF ms_calm(2)] by (simp add: orphan_def)
    moreover have "new \<noteq> t" "old \<noteq> Some t" using cs_replaced(2) ms_calm(2) by (auto simp: orphan_def)
    ultimately show ?thesis
      by (simp add: cs_replaced(1) switchCameraReplaced_def Let_def orphan_switchFinishes)
  next
    case cs_switch
    then show ?thesis using ms_calm(2)
      by (auto simp: orphan_def switchCameraBegins_def videoTracks_def localTracks_def dest!: firstOf_set split: option.splits)
  next
    case cs_granted
    then show ?thesis using orphan_finished [OF ms_calm(2), of Starting]
      by (auto simp: orphan_def startMediaGranted_def Let_def prod.case_eq_if)
  next
    case cs_refused
    then show ?thesis using orphan_finished [OF ms_calm(2), of Starting]
      by (simp add: orphan_def startMediaRefused_def)
  next
    case (cs_unopened s old)
    then show ?thesis using orphan_finished [OF ms_calm(2), of "Opening s old"]
      by (simp add: orphan_def switchCameraFailed_def)
  qed (use ms_calm(2) in \<open>auto simp: orphan_def startMediaBegins_def camerasCounted_def toggleVideo_def toggleAudio_def
        setZoom_def peerCreated_def peerClosed_def leavePage_def Let_def split: option.split\<close>)
qed

lemma orphan_steps: "mediaStep\<^sup>*\<^sup>* m m' \<Longrightarrow> orphan t m \<Longrightarrow> orphan t m'"
  by (induction rule: rtranclp_induct) (auto intro: orphan_step)

text \<open>The track being swapped in is live.\<close>

definition swapLive :: "Media \<Rightarrow> bool" where
  "swapLive m \<longleftrightarrow> (\<forall>s old new q. Replacing s old new q \<in> set (md_pending m) \<longrightarrow> trackLive m new)"

lemma swapLive_step:
  assumes "mediaStep m m'" and inv: "mediaInv m" and "swapLive m"
  shows "swapLive m'"
  using assms(1)
proof (cases rule: mediaStep.cases)
  case (ms_swapRefused s old new q)
  then have "md_pending m = [Replacing s old new q]" using phase_member inv by (auto simp: mediaInv_def)
  then show ?thesis by (simp add: ms_swapRefused(1) swapLive_def switchCameraFailed_def)
next
  case ms_calm
  then show ?thesis
  proof (cases rule: calmStep.cases)
    case (cs_opened s old settings)
    have "md_pending m = [Opening s old]" using phase_member cs_opened(2) inv by (auto simp: mediaInv_def)
    then show ?thesis
      by (cases rule: opened_cases [of m s old settings])
         (auto simp: cs_opened(1) swapLive_def stream_switchFinishes)
  next
    case (cs_replaced s old new q)
    have "md_pending m = [Replacing s old new q]" using phase_member cs_replaced(2) inv by (auto simp: mediaInv_def)
    then show ?thesis by (simp add: cs_replaced(1) swapLive_def switchCameraReplaced_def Let_def stream_switchFinishes)
  next
    case (cs_granted g)
    have "md_pending m = [Starting]" using phase_member cs_granted(2) inv by (auto simp: mediaInv_def)
    then show ?thesis by (simp add: cs_granted(1) swapLive_def startMediaGranted_def Let_def prod.case_eq_if)
  next
    case cs_leave
    have "phaseOf m" using inv by (simp add: mediaInv_def)
    then show ?thesis using assms(3) cs_leave
      by (cases "(md_mounted m, md_local m, md_switching m, md_streams m, md_pending m)" rule: phase.cases)
         (auto simp: swapLive_def leavePage_def peerClosed_def)
  qed (use assms(3) in \<open>auto simp: swapLive_def startMediaBegins_def camerasCounted_def toggleVideo_def toggleAudio_def
        setZoom_def peerCreated_def peerClosed_def switchCameraBegins_def switchCameraFailed_def startMediaRefused_def
        Let_def split: option.splits dest: set_remove1_subset [THEN subsetD]\<close>)
qed

lemma swapLive_reached: "mediaStep\<^sup>*\<^sup>* initialMedia m \<Longrightarrow> swapLive m"
proof (induction rule: rtranclp_induct)
  case base
  then show ?case by (simp add: swapLive_def initialMedia_def)
next
  case (step m m')
  then show ?case using swapLive_step media_reached by blast
qed

text \<open>C20: The camera can outlive the page, three ways. If the page is left while the permission prompt is open and
the user then agrees, the tracks granted are live in every later state: nothing holds them any more. The same
happens to the other camera if the page is left while it is being opened. And when the swap on the sender is
refused, the camera just opened is never stopped, whether the page is left or not.\<close>

theorem camera_outlives_the_page:
  assumes "mediaStep\<^sup>*\<^sup>* initialMedia m" and "md_mounted m"
  shows "(Starting \<in> set (md_pending m) \<and> granted \<noteq> [] \<and>
       mediaStep\<^sup>*\<^sup>* (startMediaGranted granted (leavePage m)) m1 \<longrightarrow> trackLive m1 (md_fresh m)) \<and>
     (Opening s old \<in> set (md_pending m) \<and>
       mediaStep\<^sup>*\<^sup>* (switchCameraOpened s old settings (leavePage m)) m2 \<longrightarrow> trackLive m2 (md_fresh m)) \<and>
     (Replacing s old new q \<in> set (md_pending m) \<and>
       mediaStep\<^sup>*\<^sup>* (switchCameraFailed (Replacing s old new q) m) m3 \<longrightarrow> trackLive m3 new)"
proof (intro conjI impI; elim conjE)
  have inv: "mediaInv m" by (rule media_reached [OF assms(1)])
  {
    assume a: "Starting \<in> set (md_pending m)" "granted \<noteq> []"
      and s: "mediaStep\<^sup>*\<^sup>* (startMediaGranted granted (leavePage m)) m1"
    have "md_pending m = [Starting]" using phase_member a(1) inv by (auto simp: mediaInv_def)
    then show "trackLive m1 (md_fresh m)"
      using left_steps [OF s] a(2)
      by (simp add: startMediaGranted_def Let_def prod.case_eq_if leavePage_def peerClosed_def)
  next
    assume a: "Opening s old \<in> set (md_pending m)"
      and s: "mediaStep\<^sup>*\<^sup>* (switchCameraOpened s old settings (leavePage m)) m2"
    have "md_pending m = [Opening s old]" using phase_member a inv by (auto simp: mediaInv_def)
    moreover have "old \<noteq> Some (md_fresh m)"
      using pending_known [of m "Opening s old" "md_fresh m"] a fresh_unknown [of m] inv by (auto simp: mediaInv_def)
    moreover have "switchCameraOpened s old settings (leavePage m) =
        switchFinishes s old (md_fresh m) (cameraOpen s old settings (leavePage m))"
      by (simp add: switchCameraOpened_def cameraOpen_def Let_def prod.case_eq_if leavePage_def peerClosed_def)
    ultimately show "trackLive m2 (md_fresh m)"
      using left_steps [OF s]
      by (simp add: stream_switchFinishes trackLive_switchFinishes leavePage_def peerClosed_def)
  next
    assume a: "Replacing s old new q \<in> set (md_pending m)"
      and s: "mediaStep\<^sup>*\<^sup>* (switchCameraFailed (Replacing s old new q) m) m3"
    have one: "md_pending m = [Replacing s old new q]" using phase_member a inv by (auto simp: mediaInv_def)
    have "trackLive m new" using swapLive_reached [OF assms(1)] a by (auto simp: swapLive_def)
    moreover have "new < md_fresh m"
      using inv a by (auto simp: mediaInv_def namesOk_def)
    moreover have "new \<notin> set (md_streams m x)" for x using inv one by (simp add: mediaInv_def)
    ultimately have "orphan new (switchCameraFailed (Replacing s old new q) m)"
      by (simp add: orphan_def switchCameraFailed_def one)
    then show "trackLive m3 new" using orphan_steps [OF s] by (simp add: orphan_def)
  }
qed

section \<open>Muting\<close>

lemma isEnabled_onTracks:
  "isEnabled (onTracks ts f m) t = (case md_tracks m t of None \<Rightarrow> False | Some r \<Rightarrow> mt_enabled (if t \<in> ts then f r else r))"
  by (auto simp: isEnabled_def onTracks_def split: option.split)

lemma isEnabled_update [simp]:
  "isEnabled (m\<lparr>md_streams := ss\<rparr>) = isEnabled m" "isEnabled (m\<lparr>md_cameraEnabled := b\<rparr>) = isEnabled m"
  "isEnabled (m\<lparr>md_microphoneEnabled := b\<rparr>) = isEnabled m" "isEnabled (m\<lparr>md_senders := sd\<rparr>) = isEnabled m"
  "isEnabled (m\<lparr>md_zoom := z\<rparr>) = isEnabled m" "isEnabled (m\<lparr>md_switching := b\<rparr>) = isEnabled m"
  "isEnabled (m\<lparr>md_local := l\<rparr>) = isEnabled m" "isEnabled (m\<lparr>md_fresh := n\<rparr>) = isEnabled m"
  "isEnabled (m\<lparr>md_pending := ps\<rparr>) = isEnabled m" "isEnabled (m\<lparr>md_mediaError := e\<rparr>) = isEnabled m"
  "isEnabled (finished p m) = isEnabled m"
  by (simp_all add: isEnabled_def finished_def fun_eq_iff)

lemma isEnabled_switchFinishes [simp]: "isEnabled (switchFinishes s old new m) t = isEnabled m t"
  by (auto simp: switchFinishes_def stopTracks_def isEnabled_onTracks Let_def split: option.split)
     (auto simp: isEnabled_def split: option.splits)

text \<open>A camera that was switched off comes back. If the user turns the camera off in the moment in which the
other camera replaces it on the connection, the page says off and the partner sees a live picture: the track that
is on the sender from then on is live and enabled. The mute state was carried over before the swap, and the swap
is not instantaneous.\<close>

theorem muted_camera_comes_back:
  assumes "mediaStep\<^sup>*\<^sup>* initialMedia m" and "md_mounted m" and "Replacing s (Some old) new q \<in> set (md_pending m)"
    and "old \<in> set (videoTracks m)" and "isEnabled m old" and "isEnabled m new"
  shows "mediaStep\<^sup>*\<^sup>* m (switchCameraReplaced s (Some old) new q (toggleVideo m)) \<and>
     \<not> md_cameraEnabled (switchCameraReplaced s (Some old) new q (toggleVideo m)) \<and>
     md_senders (switchCameraReplaced s (Some old) new q (toggleVideo m)) q = Some new \<and>
     trackLive (switchCameraReplaced s (Some old) new q (toggleVideo m)) new \<and>
     isEnabled (switchCameraReplaced s (Some old) new q (toggleVideo m)) new"
proof -
  let ?off = "toggleVideo m" and ?last = "switchCameraReplaced s (Some old) new q (toggleVideo m)"
  have inv: "mediaInv m" by (rule media_reached [OF assms(1)])
  have one: "md_pending m = [Replacing s (Some old) new q]" using phase_member assms(3) inv by (auto simp: mediaInv_def)
  have "mediaStep m ?off" using ms_calm [OF cs_video [OF assms(2)]] .
  moreover have "mediaStep ?off ?last"
    by (rule ms_calm, rule cs_replaced) (simp add: toggleVideo_def Let_def assms(3))
  moreover have off: "\<not> md_cameraEnabled ?off"
    using assms(4,5) by (auto simp: toggleVideo_def Let_def list_ex_iff)
  moreover have "new \<notin> set (videoTracks m)"
    using inv one by (auto simp: mediaInv_def videoTracks_def localTracks_def split: option.splits)
  then have "isEnabled ?off new" using assms(6)
    by (auto simp: toggleVideo_def Let_def isEnabled_onTracks) (auto simp: isEnabled_def split: option.splits)
  moreover have "trackLive ?off new" "old \<noteq> new"
    using swapLive_reached [OF assms(1)] assms(3) inv one
    by (auto simp: swapLive_def toggleVideo_def Let_def mediaInv_def)
  ultimately show ?thesis
    by (auto simp: switchCameraReplaced_def Let_def trackLive_switchFinishes)
       (auto simp: switchFinishes_def stopTracks_def Let_def)
qed

section \<open>The call's view of the stream\<close>

text \<open>\<open>Conversation\<close> knows of the stream only which of its tracks are enabled.\<close>

definition streamOf :: "Media \<Rightarrow> LocalStream option" where
  "streamOf m = map_option (\<lambda>s. \<lparr>ls_video = map (isEnabled m) (videoTracks m), ls_audio = map (isEnabled m) (audioTracks m)\<rparr>)
     (md_local m)"

definition agrees :: "Media \<Rightarrow> Client \<Rightarrow> bool" where
  "agrees m c \<longleftrightarrow>
     cl_stream c = streamOf m \<and> cl_cameraEnabled c = md_cameraEnabled m \<and>
     cl_microphoneEnabled c = md_microphoneEnabled m \<and> cl_mediaError c = (md_mediaError m \<noteq> None)"

lemma isVideo_onTracks: "(\<And>r. mt_video (f r) = mt_video r) \<Longrightarrow> isVideo (onTracks ts f m) = isVideo m"
  by (auto simp: isVideo_def onTracks_def fun_eq_iff split: option.split)

lemma tracks_enabled:
  assumes "\<And>r. mt_video (f r) = mt_video r"
  shows "videoTracks (onTracks ts f m) = videoTracks m" "audioTracks (onTracks ts f m) = audioTracks m"
  by (simp_all add: videoTracks_def audioTracks_def localTracks_def isVideo_onTracks [OF assms] split: option.split)

lemma isVideo_update [simp]:
  "isVideo (m\<lparr>md_cameraEnabled := b\<rparr>) = isVideo m"
  "isVideo (m\<lparr>md_microphoneEnabled := b\<rparr>) = isVideo m"
  "isVideo (m\<lparr>md_zoom := z\<rparr>) = isVideo m"
  "isVideo (m\<lparr>md_pending := ps\<rparr>) = isVideo m"
  "isVideo (m\<lparr>md_mediaError := e\<rparr>) = isVideo m"
  by (simp_all add: isVideo_def fun_eq_iff)

lemma localTracks_update [simp]:
  "localTracks (m\<lparr>md_cameraEnabled := b\<rparr>) = localTracks m"
  "localTracks (m\<lparr>md_microphoneEnabled := b\<rparr>) = localTracks m"
  "localTracks (m\<lparr>md_zoom := z\<rparr>) = localTracks m"
  "localTracks (m\<lparr>md_pending := ps\<rparr>) = localTracks m"
  "localTracks (m\<lparr>md_mediaError := e\<rparr>) = localTracks m"
  by (simp_all add: localTracks_def cong: option.case_cong)

lemma tracks_update [simp]:
  "videoTracks (m\<lparr>md_cameraEnabled := b\<rparr>) = videoTracks m"
  "videoTracks (m\<lparr>md_microphoneEnabled := b\<rparr>) = videoTracks m"
  "videoTracks (m\<lparr>md_zoom := z\<rparr>) = videoTracks m"
  "videoTracks (m\<lparr>md_pending := ps\<rparr>) = videoTracks m"
  "videoTracks (m\<lparr>md_mediaError := e\<rparr>) = videoTracks m"
  "audioTracks (m\<lparr>md_cameraEnabled := b\<rparr>) = audioTracks m"
  "audioTracks (m\<lparr>md_microphoneEnabled := b\<rparr>) = audioTracks m"
  "audioTracks (m\<lparr>md_zoom := z\<rparr>) = audioTracks m"
  "audioTracks (m\<lparr>md_pending := ps\<rparr>) = audioTracks m"
  "audioTracks (m\<lparr>md_mediaError := e\<rparr>) = audioTracks m"
  by (simp_all add: videoTracks_def audioTracks_def)

lemma local_known: "namesOk m \<Longrightarrow> t \<in> set (localTracks m) \<Longrightarrow> t \<in> known m"
  by (auto simp: localTracks_def namesOk_def split: option.splits)

lemma enabled_after:
  assumes "namesOk m" and "set ts \<subseteq> set (localTracks m)"
  shows "map (isEnabled (onTracks (set ts) (\<lambda>r. r\<lparr>mt_enabled := b\<rparr>) m)) ts = map (\<lambda>_. b) ts"
proof (rule map_cong [OF refl])
  fix t assume "t \<in> set ts"
  with assms have "t \<in> known m" using local_known by blast
  then show "isEnabled (onTracks (set ts) (\<lambda>r. r\<lparr>mt_enabled := b\<rparr>) m) t = b"
    using \<open>t \<in> set ts\<close> by (auto simp: isEnabled_onTracks known_def)
qed

lemma enabled_elsewhere:
  "set ts \<inter> set us = {} \<Longrightarrow> map (isEnabled (onTracks (set us) f m)) ts = map (isEnabled m) ts"
  by (rule map_cong) (auto simp: isEnabled_def onTracks_def)

lemma kinds_apart: "set (videoTracks m) \<inter> set (audioTracks m) = {}"
  by (auto simp: videoTracks_def audioTracks_def)

lemma list_ex_map_id: "list_ex (\<lambda>b. b) (map f xs) = list_ex f xs"
  by (induction xs) simp_all

lemma agrees_toggles:
  assumes n: "namesOk m" and a: "agrees m c"
  shows "agrees (toggleVideo m) (toggleCamera c)" and "agrees (toggleAudio m) (toggleMicrophone c)"
proof -
  have v: "set (videoTracks m) \<subseteq> set (localTracks m)" and u: "set (audioTracks m) \<subseteq> set (localTracks m)"
    by (auto simp: videoTracks_def audioTracks_def)
  have none: "videoTracks m = []" "audioTracks m = []" if "md_local m = None"
    using that by (simp_all add: videoTracks_def audioTracks_def localTracks_def)
  have keep: "md_mediaError (onTracks ts f m) = md_mediaError m" "md_microphoneEnabled (onTracks ts f m) = md_microphoneEnabled m" for ts f
    by (simp_all add: onTracks_def)
  show "agrees (toggleVideo m) (toggleCamera c)"
    using a none kinds_apart [of m]
    by (cases "md_local m")
       (auto simp: agrees_def streamOf_def toggleVideo_def toggleCamera_def toggleTracks_def Let_def tracks_enabled
         list_ex_map_id enabled_after [OF n v] enabled_elsewhere inf.commute keep)
  show "agrees (toggleAudio m) (toggleMicrophone c)"
    using a none kinds_apart [of m]
    by (cases "md_local m")
       (auto simp: agrees_def streamOf_def toggleAudio_def toggleMicrophone_def toggleTracks_def Let_def tracks_enabled
         list_ex_map_id enabled_after [OF n u] enabled_elsewhere inf.commute keep)
qed

text \<open>The stream as granted: every track enabled.\<close>

definition grantedStream :: "(bool \<times> TrackSettings) list \<Rightarrow> LocalStream" where
  "grantedStream granted =
     \<lparr>ls_video = map (\<lambda>_. True) (filter fst granted), ls_audio = map (\<lambda>_. True) (filter (\<lambda>g. \<not> fst g) granted)\<rparr>"

lemma filter_positions:
  "length (filter (\<lambda>t. P (xs ! (t - n))) [n ..< n + length xs]) = length (filter P xs)"
proof -
  have "map (\<lambda>t. xs ! (t - n)) [n ..< n + length xs] = xs"
    by (rule nth_equalityI) simp_all
  with filter_map [of P "\<lambda>t. xs ! (t - n)" "[n ..< n + length xs]"]
  have "filter P xs = map (\<lambda>t. xs ! (t - n)) (filter (\<lambda>t. P (xs ! (t - n))) [n ..< n + length xs])"
    by (simp only: o_def)
  from arg_cong [OF this, of length] show ?thesis by simp
qed

lemma granted_stream:
  "streamOf (startMediaGranted g m) = Some (grantedStream g)"
  "md_cameraEnabled (startMediaGranted g m) = list_ex (\<lambda>b. b) (ls_video (grantedStream g))"
  "md_microphoneEnabled (startMediaGranted g m) = list_ex (\<lambda>b. b) (ls_audio (grantedStream g))"
proof -
  let ?names = "[md_fresh m ..< md_fresh m + length g]"
  define m2 where "m2 = (snd (withTracks g (finished Starting m)))
    \<lparr>md_streams := (md_streams m)(md_fresh m + length g := ?names), md_fresh := Suc (md_fresh m + length g),
     md_local := Some (md_fresh m + length g)\<rparr>"
  have tracks: "md_tracks m2 t = Some (newTrack (fst (g ! (t - md_fresh m))) (snd (g ! (t - md_fresh m))))"
    if "t \<in> set ?names" for t
    using that by (auto simp: m2_def withTracks_def finished_def Let_def prod.case_eq_if)
  have l: "localTracks m2 = ?names" by (simp add: m2_def localTracks_def)
  have v: "videoTracks m2 = filter (\<lambda>t. fst (g ! (t - md_fresh m))) ?names"
    and u: "audioTracks m2 = filter (\<lambda>t. \<not> fst (g ! (t - md_fresh m))) ?names"
    unfolding videoTracks_def audioTracks_def l
    by (rule filter_cong; simp add: isVideo_def tracks newTrack_def)+
  have on: "map (isEnabled m2) (filter P ?names) = map (\<lambda>_. True) (filter P ?names)" for P
    by (rule map_cong [OF refl]) (simp add: isEnabled_def tracks newTrack_def)
  have same: "map (\<lambda>_. True) (filter (\<lambda>t. P (g ! (t - md_fresh m))) ?names) = map (\<lambda>_. True) (filter P g)" for P
    by (simp add: map_replicate_const filter_positions [of P g "md_fresh m"])
  have video: "map (isEnabled m2) (videoTracks m2) = ls_video (grantedStream g)"
    and audio: "map (isEnabled m2) (audioTracks m2) = ls_audio (grantedStream g)"
    by (simp_all only: v u on same [of fst] same [of "\<lambda>x. \<not> fst x"] grantedStream_def LocalStream.simps)
  have g2: "startMediaGranted g m = m2\<lparr>md_cameraEnabled := list_ex (isEnabled m2) (videoTracks m2),
      md_microphoneEnabled := list_ex (isEnabled m2) (audioTracks m2),
      md_zoom := getZoomCapability (settingsOf m2 (firstOf (videoTracks m2)))\<rparr>"
    by (simp add: startMediaGranted_def Let_def prod.case_eq_if m2_def)
  show "md_cameraEnabled (startMediaGranted g m) = list_ex (\<lambda>b. b) (ls_video (grantedStream g))"
    "md_microphoneEnabled (startMediaGranted g m) = list_ex (\<lambda>b. b) (ls_audio (grantedStream g))"
    by (simp_all add: g2 video [symmetric] audio [symmetric] list_ex_map_id)
  have "md_local m2 = Some (md_fresh m + length g)" by (simp add: m2_def)
  then show "streamOf (startMediaGranted g m) = Some (grantedStream g)"
    using video audio by (simp add: g2 streamOf_def grantedStream_def)
qed

text \<open>C21: The model of the call, which knows of the local stream only which of its tracks are enabled, is an
abstraction of the camera's: when the two agree in a state that is reached, they agree after muting either kind of
track, after the stream is granted or refused, and after leaving the page.\<close>

theorem camera_refines_the_call:
  assumes "mediaStep\<^sup>*\<^sup>* initialMedia m" and "agrees m c"
  shows "agrees (toggleVideo m) (toggleCamera c) \<and> agrees (toggleAudio m) (toggleMicrophone c) \<and>
     agrees (startMediaGranted granted (startMediaBegins m)) (snd (startMedia (Some (grantedStream granted)) c)) \<and>
     agrees (startMediaRefused e (startMediaBegins m)) (snd (startMedia None c)) \<and>
     agrees (leavePage m) (unmount c)"
proof -
  have n: "namesOk m" using media_reached [OF assms(1)] by (simp add: mediaInv_def)
  have "agrees (startMediaGranted granted (startMediaBegins m)) (snd (startMedia (Some (grantedStream granted)) c))"
    by (simp add: agrees_def granted_stream startMedia_def Let_def transitionTo_def)
       (simp add: startMediaGranted_def startMediaBegins_def Let_def prod.case_eq_if finished_def withTracks_def)
  moreover have "streamOf (startMediaRefused e (startMediaBegins m)) = streamOf m"
    by (simp add: streamOf_def startMediaRefused_def startMediaBegins_def finished_def)
  then have "agrees (startMediaRefused e (startMediaBegins m)) (snd (startMedia None c))"
    using assms(2) by (simp add: agrees_def startMedia_def Let_def transitionTo_def)
      (simp add: startMediaRefused_def startMediaBegins_def finished_def)
  moreover have "agrees (leavePage m) (unmount c)"
    using assms(2) by (simp add: agrees_def unmount_def closePeer_def clearTimers_def streamOf_def leavePage_def)
      (simp add: peerClosed_def stopStream_def stopTracks_def onTracks_def split: option.split)
  ultimately show ?thesis using agrees_toggles [OF n assms(2)] by blast
qed

section \<open>Examples\<close>

text \<open>A phone with one camera in use, and a call in which the other one is being swapped in.\<close>

definition plainTrack :: TrackSettings where
  "plainTrack = \<lparr>trs_capabilities = NoSuchMethod, trs_zoom = None, trs_facingMode = Some ''user'', trs_deviceId = None\<rparr>"

definition filming :: Media where
  "filming = startMediaGranted [(True, plainTrack), (False, plainTrack)] (startMediaBegins initialMedia)"

definition swapping :: Media where
  "swapping = switchCameraOpened 2 (Some 0) plainTrack (switchCameraBegins (peerCreated filming))"

lemmas camera_eval = filming_def swapping_def startMediaGranted_def startMediaBegins_def switchCameraBegins_def
  switchCameraOpened_def peerCreated_def initialMedia_def withTracks_def finished_def newTrack_def onTracks_def
  isEnabled_def isVideo_def videoTracks_def audioTracks_def localTracks_def firstOf_def

lemma waiting_reached: "calmStep\<^sup>*\<^sup>* initialMedia (startMediaBegins initialMedia)"
  by (rule r_into_rtranclp, rule cs_start) (simp_all add: initialMedia_def)

lemma filming_reached: "calmStep\<^sup>*\<^sup>* initialMedia filming"
  unfolding filming_def
  by (rule rtranclp.rtrancl_into_rtrancl [OF waiting_reached], rule cs_granted)
     (simp add: startMediaBegins_def initialMedia_def)

lemma calm_media: "calmStep\<^sup>*\<^sup>* m m' \<Longrightarrow> mediaStep\<^sup>*\<^sup>* m m'"
  by (induction rule: rtranclp_induct) (auto intro: ms_calm rtranclp.rtrancl_into_rtrancl)

lemma filming_eval: "md_mounted filming" "md_pending filming = []" "videoTracks filming = [0]"
  "md_local filming = Some 2" "\<not> md_switching filming" "md_fresh filming = 3"
  by (simp_all add: camera_eval Let_def upt_rec)

lemma swapping_reached: "mediaStep\<^sup>*\<^sup>* initialMedia swapping"
proof -
  have "calmStep\<^sup>*\<^sup>* initialMedia (switchCameraBegins (peerCreated filming))"
    by (rule rtranclp.rtrancl_into_rtrancl, rule rtranclp.rtrancl_into_rtrancl [OF filming_reached cs_peer])
       (simp_all add: filming_eval cs_switch peerCreated_def)
  moreover have "Opening 2 (Some 0) \<in> set (md_pending (switchCameraBegins (peerCreated filming)))"
    by (simp add: camera_eval Let_def upt_rec)
  ultimately have "calmStep\<^sup>*\<^sup>* initialMedia swapping"
    unfolding swapping_def by (blast intro: rtranclp.rtrancl_into_rtrancl cs_opened)
  then show ?thesis by (rule calm_media)
qed

lemma swapping_eval: "md_mounted swapping" "Replacing 2 (Some 0) 4 3 \<in> set (md_pending swapping)"
  "0 \<in> set (videoTracks swapping)" "isEnabled swapping 0" "isEnabled swapping 4"
  by (simp_all add: camera_eval Let_def upt_rec)

lemma camera_is_released_witness: "trackLive filming 0 \<and> \<not> trackLive (leavePage filming) 0"
  using camera_is_released [OF filming_reached filming_eval(1,2) rtranclp.rtrancl_refl, of 0]
  by (simp add: trackLive_def camera_eval Let_def upt_rec)

lemma camera_outlives_the_page_witness:
  "trackLive (startMediaGranted [(True, plainTrack)] (leavePage (startMediaBegins initialMedia))) 0"
  using camera_outlives_the_page [OF calm_media [OF waiting_reached], of "[(True, plainTrack)]"
      "startMediaGranted [(True, plainTrack)] (leavePage (startMediaBegins initialMedia))"]
  by (simp add: startMediaBegins_def initialMedia_def)

lemma muted_camera_comes_back_witness:
  "isEnabled (switchCameraReplaced 2 (Some 0) 4 3 (toggleVideo swapping)) 4 \<and>
   \<not> md_cameraEnabled (switchCameraReplaced 2 (Some 0) 4 3 (toggleVideo swapping))"
  using muted_camera_comes_back [OF swapping_reached swapping_eval] by blast

lemma camera_refines_the_call_witness: "agrees (toggleVideo initialMedia) (toggleCamera initialClient)"
  using camera_refines_the_call [OF rtranclp.rtrancl_refl, of initialClient "[]"
      "\<lparr>mx_kind = MediaErrorKind_UNKNOWN, mx_message = []\<rparr>"]
  by (simp add: agrees_def streamOf_def initialMedia_def initialClient_def)

end
