(* ===== verification/Wake_Lock.thy ===== *)
theory Wake_Lock
  imports Prelude
begin

text \<open>The screen's wake lock during a call, \<^verbatim>\<open>apps/web/src/hooks/use-wake-lock.ts\<close>. An effect of the hook is named by a
number; what waits for the browser is in \<open>wl_requests\<close>, the release events on their way are in \<open>wl_events\<close>, and
\<open>wl_held\<close> are the locks the browser holds, which is what keeps the screen on. The results say when the screen may
sleep again.\<close>

section \<open>The hook\<close>

record WakeLock =
  wl_visible :: bool
  wl_effect :: "nat option"
  wl_ref :: "nat option"
  wl_requests :: "nat list"
  wl_held :: "nat set"
  wl_events :: "nat list"
  wl_listeners :: "nat set"
  wl_fresh :: nat

definition initialWakeLock :: WakeLock where
  "initialWakeLock = \<lparr>wl_visible = True, wl_effect = None, wl_ref = None, wl_requests = [], wl_held = {}, wl_events = [],
     wl_listeners = {}, wl_fresh = 0\<rparr>"

text \<open>\<^verbatim>\<open>acquire\<close> of an effect, up to its \<^verbatim>\<open>await\<close>; \<open>cancelled\<close> is that the effect is not the current one.\<close>

definition acquire :: "nat \<Rightarrow> WakeLock \<Rightarrow> WakeLock" where
  "acquire effect w =
     (if wl_effect w \<noteq> Some effect \<or> \<not> wl_visible w then w
      else if wl_ref w \<noteq> None then w
      else w\<lparr>wl_requests := wl_requests w @ [effect]\<rparr>)"

text \<open>The call has become live (where the browser has the interface): a new effect.\<close>

definition activate :: "WakeLock \<Rightarrow> WakeLock" where
  "activate w = acquire (wl_fresh w) (w\<lparr>wl_effect := Some (wl_fresh w), wl_fresh := Suc (wl_fresh w)\<rparr>)"

text \<open>The browser lets go of a lock; the event reaches its listener later.\<close>

definition release :: "nat \<Rightarrow> WakeLock \<Rightarrow> WakeLock" where
  "release lock w =
     (if lock \<in> wl_held w then w\<lparr>wl_held := wl_held w - {lock}, wl_events := wl_events w @ [lock]\<rparr> else w)"

text \<open>The request of an effect was granted.\<close>

definition granted :: "nat \<Rightarrow> WakeLock \<Rightarrow> WakeLock" where
  "granted effect w =
     (let lock = wl_fresh w;
          w1 = w\<lparr>wl_requests := remove1 effect (wl_requests w), wl_fresh := Suc lock, wl_held := insert lock (wl_held w)\<rparr>
      in if wl_effect w1 \<noteq> Some effect then release lock w1
         else w1\<lparr>wl_ref := Some lock, wl_listeners := insert lock (wl_listeners w1)\<rparr>)"

definition refused :: "nat \<Rightarrow> WakeLock \<Rightarrow> WakeLock" where
  "refused effect w = w\<lparr>wl_requests := remove1 effect (wl_requests w)\<rparr>"

text \<open>The listener of \<^verbatim>\<open>release\<close> clears the reference, whichever lock that holds by then.\<close>

definition releaseEvent :: "nat \<Rightarrow> WakeLock \<Rightarrow> WakeLock" where
  "releaseEvent lock w =
     (let w1 = w\<lparr>wl_events := remove1 lock (wl_events w)\<rparr>
      in if lock \<in> wl_listeners w then w1\<lparr>wl_ref := None\<rparr> else w1)"

text \<open>The page is hidden, and the browser releases every lock; the page is shown again.\<close>

definition hidden :: "WakeLock \<Rightarrow> WakeLock" where
  "hidden w = w\<lparr>wl_visible := False, wl_held := {}, wl_events := wl_events w @ sorted_list_of_set (wl_held w)\<rparr>"

definition shown :: "WakeLock \<Rightarrow> WakeLock" where
  "shown w =
     (let w1 = w\<lparr>wl_visible := True\<rparr> in case wl_effect w1 of None \<Rightarrow> w1 | Some effect \<Rightarrow> acquire effect w1)"

text \<open>The cleanup of the effect.\<close>

definition deactivate :: "WakeLock \<Rightarrow> WakeLock" where
  "deactivate w =
     (case wl_effect w of
        None \<Rightarrow> w
      | Some effect \<Rightarrow>
          (case wl_ref w of None \<Rightarrow> w | Some lock \<Rightarrow> release lock w)\<lparr>wl_effect := None, wl_ref := None\<rparr>)"

section \<open>When the screen may sleep\<close>

text \<open>What can happen in a browser that delivers a release before it grants the next request, and refuses what is
pending when it hides the page.\<close>

inductive orderlyStep :: "WakeLock \<Rightarrow> WakeLock \<Rightarrow> bool" where
  os_activate: "wl_effect w = None \<Longrightarrow> orderlyStep w (activate w)"
| os_granted: "e \<in> set (wl_requests w) \<Longrightarrow> wl_visible w \<Longrightarrow> wl_events w = [] \<Longrightarrow> orderlyStep w (granted e w)"
| os_refused: "e \<in> set (wl_requests w) \<Longrightarrow> orderlyStep w (refused e w)"
| os_event: "l \<in> set (wl_events w) \<Longrightarrow> orderlyStep w (releaseEvent l w)"
| os_hidden: "wl_visible w \<Longrightarrow> orderlyStep w (hidden w)"
| os_shown: "\<not> wl_visible w \<Longrightarrow> wl_requests w = [] \<Longrightarrow> orderlyStep w (shown w)"
| os_deactivate: "orderlyStep w (deactivate w)"

definition lockInv :: "WakeLock \<Rightarrow> bool" where
  "lockInv w \<longleftrightarrow>
     wl_held w \<subseteq> set_option (wl_ref w) \<and> (wl_effect w = None \<longrightarrow> wl_ref w = None) \<and>
     (\<forall>e. wl_effect w = Some e \<longrightarrow> e < wl_fresh w) \<and> (\<forall>e \<in> set (wl_requests w). e < wl_fresh w) \<and>
     distinct (wl_requests w) \<and> (\<forall>e \<in> set (wl_requests w). wl_effect w = Some e \<longrightarrow> wl_ref w = None) \<and>
     set (wl_events w) \<inter> wl_held w = {} \<and>
     (\<forall>l \<in> set (wl_events w) \<inter> wl_listeners w. wl_ref w = None \<or> wl_ref w = Some l) \<and> finite (wl_held w) \<and>
     (\<forall>l \<in> wl_held w \<union> wl_listeners w. l < wl_fresh w)"

lemma lockInv_acquire:
  assumes "lockInv w" and "e \<notin> set (wl_requests w)"
  shows "lockInv (acquire e w)"
  using assms by (auto simp: lockInv_def acquire_def)

lemma lockInv_activate: "lockInv w \<Longrightarrow> wl_effect w = None \<Longrightarrow> lockInv (activate w)"
  unfolding activate_def
  by (rule lockInv_acquire) (auto simp: lockInv_def less_Suc_eq)

lemma lockInv_granted:
  assumes inv: "lockInv w" and "e \<in> set (wl_requests w)" and "wl_events w = []"
  shows "lockInv (granted e w)"
proof (cases "wl_effect w = Some e")
  case True
  then have "wl_ref w = None" "wl_held w = {}" using inv assms(2) by (auto simp: lockInv_def)
  then show ?thesis
    using inv assms True by (auto simp: lockInv_def granted_def Let_def set_remove1_eq less_SucI)
next
  case False
  have "wl_fresh w \<notin> wl_held w" using inv by (auto simp: lockInv_def)
  with False show ?thesis
    using inv assms by (auto simp: lockInv_def granted_def release_def Let_def set_remove1_eq less_SucI)
qed

lemma lockInv_event:
  assumes inv: "lockInv w" and l: "l \<in> set (wl_events w)"
  shows "lockInv (releaseEvent l w)"
proof (cases "l \<in> wl_listeners w")
  case True
  then have "wl_ref w = None \<or> wl_ref w = Some l" "l \<notin> wl_held w" using inv l by (auto simp: lockInv_def)
  then have "wl_held w = {}" using inv by (auto simp: lockInv_def)
  then show ?thesis using inv True by (auto simp: lockInv_def releaseEvent_def Let_def)
next
  case False
  then show ?thesis using inv by (auto simp: lockInv_def releaseEvent_def Let_def dest: set_remove1_subset [THEN subsetD])
qed

lemma lockInv_step: "orderlyStep w w' \<Longrightarrow> lockInv w \<Longrightarrow> lockInv w'"
proof (induction rule: orderlyStep.induct)
  case (os_refused e w)
  then show ?case by (auto simp: lockInv_def refused_def set_remove1_eq)
next
  case (os_hidden w)
  then show ?case by (auto simp: lockInv_def hidden_def)
next
  case (os_shown w)
  then have "lockInv (w\<lparr>wl_visible := True\<rparr>)" by (simp add: lockInv_def)
  then show ?case
    using os_shown lockInv_acquire by (simp add: shown_def Let_def split: option.split)
next
  case (os_deactivate w)
  then show ?case by (auto simp: lockInv_def deactivate_def release_def split: option.split)
qed (simp_all add: lockInv_activate lockInv_granted lockInv_event)

text \<open>Once the call is over, no lock is left: the screen may sleep again, whatever happened during the call.\<close>

theorem screen_may_sleep_again:
  assumes "orderlyStep\<^sup>*\<^sup>* initialWakeLock w" and "wl_effect w = None"
  shows "wl_held w = {}"
proof -
  have "lockInv w"
    using assms(1)
  proof (induction rule: rtranclp_induct)
    case base
    show ?case by (simp add: lockInv_def initialWakeLock_def)
  next
    case (step w w')
    then show ?case using lockInv_step by blast
  qed
  then show ?thesis using assms(2) by (auto simp: lockInv_def)
qed

text \<open>Without the order it fails: the call ends and another begins, its request is granted, and only then the release
of the first lock is heard. The listener clears the reference to the second lock, and nobody releases that.\<close>

theorem late_release_keeps_the_screen_on:
  "wl_effect w = None \<and> wl_held w = {3}"
  if "w = deactivate (releaseEvent 1 (granted 2 (activate (deactivate (granted 0 (activate initialWakeLock))))))"
  by (simp add: that initialWakeLock_def activate_def acquire_def granted_def release_def deactivate_def
      releaseEvent_def Let_def insert_Diff_if)

end
