(* ===== verification/Discover.thy ===== *)
theory Discover
  imports Conversation Media
begin

text \<open>The conversation page, \<^verbatim>\<open>apps/web/src/app/[locale]/discover/page.tsx\<close>, over the state of the hook: which message is
on the stage, which buttons there are and which of them can be pressed, and what a press does; and the tip dialog
of \<^verbatim>\<open>components/tips.tsx\<close>. Texts are the keys of the message catalogue. Layout, styling and the video elements are
left out.\<close>

section \<open>State of the page\<close>

datatype ConnectState = ConnectIdle | ConnectSending | ConnectSent

text \<open>Beside the hook's state: the session still loading, the kind of media failure, what the camera can do, the
open dialogs with what is chosen in them, and the request to stay in touch.\<close>

record TipForm =
  tf_amount :: int
  tf_offeredSeconds :: int
  tf_message :: string

record DiscoverPage =
  dp_client :: Client
  dp_loading :: bool
  dp_mediaError :: "MediaErrorKind option"
  dp_zoom :: bool
  dp_canSwitch :: bool
  dp_switching :: bool
  dp_reportOpen :: bool
  dp_reportForm :: "ReportCategory option \<times> string"
  dp_blockOpen :: bool
  dp_tipOpen :: bool
  dp_tipForm :: TipForm
  dp_connect :: ConnectState
  dp_connectError :: "string option"

abbreviation stateOf :: "DiscoverPage \<Rightarrow> SessionState" where
  "stateOf d \<equiv> cl_state (dp_client d)"

definition inCall :: "SessionState \<Rightarrow> bool" where
  "inCall s \<longleftrightarrow> s = SessionState_CONNECTED \<or> s = SessionState_CONNECTING \<or> s = SessionState_SIGNALING \<or>
     s = SessionState_RECONNECTING"

definition isSearching :: "SessionState \<Rightarrow> bool" where
  "isSearching s \<longleftrightarrow> s = SessionState_QUEUED \<or> s = SessionState_MATCH_FOUND"

definition SEARCH_HINT_COUNT :: int where
  "SEARCH_HINT_COUNT = 4"

definition hintIndex :: "Client \<Rightarrow> int" where
  "hintIndex c = min (cl_waitingSeconds c div 8) (SEARCH_HINT_COUNT - 1)"

definition alone :: "Client \<Rightarrow> bool" where
  "alone c \<longleftrightarrow> cl_queueConfirmed c \<and> cl_searchingNow c = Some 1"

text \<open>The states in which \<^verbatim>\<open>useWakeLock\<close> is told to keep the screen on.\<close>

definition keepsAwake :: "SessionState \<Rightarrow> bool" where
  "keepsAwake s \<longleftrightarrow> inCall s \<or> isSearching s"

definition QUICK_AMOUNTS :: "int list" where
  "QUICK_AMOUNTS = [10, 50, 100, 250]"

definition TIME_OFFERS :: "int list" where
  "TIME_OFFERS = [0, 120, 300, 600]"

definition emptyTipForm :: TipForm where
  "emptyTipForm = \<lparr>tf_amount = QUICK_AMOUNTS ! 1, tf_offeredSeconds = 0, tf_message = []\<rparr>"

definition initialPage :: DiscoverPage where
  "initialPage =
     \<lparr>dp_client = initialClient, dp_loading = True, dp_mediaError = None, dp_zoom = False, dp_canSwitch = False,
      dp_switching = False, dp_reportOpen = False, dp_reportForm = (None, []), dp_blockOpen = False,
      dp_tipOpen = False, dp_tipForm = emptyTipForm, dp_connect = ConnectIdle, dp_connectError = None\<rparr>"

section \<open>The stage\<close>

datatype Stage =
    StageReady bool
  | StageMedia MediaErrorKind
  | StageSearching string
  | StagePartnerLeft
  | StageError ConversationErrorKey "string option"
  | StageConnecting bool
  | StageOffer row_id

definition searchTitle :: "Client \<Rightarrow> string" where
  "searchTitle c =
     (if alone c then ''aloneTitle''
      else if \<not> cl_connected c then ''reconnectingToServer''
      else if \<not> cl_queueConfirmed c then ''connectingToServer''
      else ''searchHints.'' @ natText (nat (hintIndex c)))"

definition stages :: "DiscoverPage \<Rightarrow> Stage list" where
  "stages d =
     (let c = dp_client d; s = cl_state c in
      (if (s = SessionState_IDLE \<or> s = SessionState_READY \<or> s = SessionState_REQUESTING_PERMISSIONS) \<and>
          dp_mediaError d = None
       then [StageReady (s = SessionState_REQUESTING_PERMISSIONS)] else []) @
      (case dp_mediaError d of None \<Rightarrow> [] | Some kind \<Rightarrow> [StageMedia kind]) @
      (if isSearching s then [StageSearching (searchTitle c)] else []) @
      (if s = SessionState_PARTNER_LEFT then [StagePartnerLeft] else []) @
      (case cl_error c of
         None \<Rightarrow> []
       | Some (key, detail, retry) \<Rightarrow> if s = SessionState_ERROR then [StageError key detail] else []) @
      (if s = SessionState_SIGNALING \<or> s = SessionState_CONNECTING \<or> s = SessionState_RECONNECTING
       then [StageConnecting (s = SessionState_RECONNECTING)] else []) @
      (case cl_pendingOffer c of None \<Rightarrow> [] | Some offer \<Rightarrow> [StageOffer (tr_tipId offer)]))"

section \<open>Buttons\<close>

datatype Control =
    StartButton | RetryMediaButton | CancelButton | FindNewButton | StopButton | TryAgainButton | HomeLink
  | AcceptButton | DeclineButton
  | MicrophoneButton | CameraButton | SwitchButton | NextButton | TipButton | ConnectButton | BlockButton
  | ReportButton | EndButton
  | HomeBar | TokensBar | ConnectionsBar | SettingsBar
  | BlockConfirm | BlockCancel | ReportSubmit | ReportCancel | TipSend | TipCancel

text \<open>The buttons on the stage, of its messages from top to bottom.\<close>

definition stageButtons :: "DiscoverPage \<Rightarrow> Control list" where
  "stageButtons d =
     (let c = dp_client d; s = cl_state c in
      (if (s = SessionState_IDLE \<or> s = SessionState_READY) \<and> dp_mediaError d = None then [StartButton] else []) @
      (case dp_mediaError d of
         None \<Rightarrow> [] | Some kind \<Rightarrow> if MEDIA_ERROR_RETRYABLE kind then [RetryMediaButton] else []) @
      (if isSearching s then [CancelButton] else []) @
      (if s = SessionState_PARTNER_LEFT then [FindNewButton, StopButton] else []) @
      (case cl_error c of
         None \<Rightarrow> []
       | Some (key, detail, retry) \<Rightarrow>
           if s \<noteq> SessionState_ERROR then [] else if retry then [TryAgainButton] else [HomeLink]) @
      (if cl_pendingOffer c \<noteq> None then [DeclineButton, AcceptButton] else []))"

text \<open>The bars above and below, each button with whether it can be pressed.\<close>

definition bars :: "DiscoverPage \<Rightarrow> (Control \<times> bool) list" where
  "bars d =
     (let c = dp_client d; s = cl_state c; live = inCall s; media = (cl_stream c \<noteq> None);
          partner = (cl_partner c \<noteq> None) in
      [(HomeBar, \<not> live), (TokensBar, \<not> live), (ConnectionsBar, \<not> live), (SettingsBar, \<not> live),
       (MicrophoneButton, media), (CameraButton, media)] @
      (if dp_canSwitch d then [(SwitchButton, media \<and> \<not> dp_switching d)] else []) @
      [(NextButton, live), (TipButton, live \<and> partner),
       (ConnectButton, live \<and> partner \<and> dp_connect d = ConnectIdle), (BlockButton, live \<and> partner),
       (ReportButton, live \<and> partner), (EndButton, live \<or> s = SessionState_QUEUED)])"

text \<open>Dialogs are there with a partner only; a report needs a category, a tip a balance that covers it.\<close>

definition insufficient :: "Client \<Rightarrow> TipForm \<Rightarrow> bool" where
  "insufficient c form = (case cl_tokenBalance c of None \<Rightarrow> False | Some balance \<Rightarrow> balance < tf_amount form)"

definition dialogs :: "DiscoverPage \<Rightarrow> (Control \<times> bool) list" where
  "dialogs d =
     (let c = dp_client d in
      if cl_partner c = None then []
      else (if dp_blockOpen d then [(BlockCancel, True), (BlockConfirm, True)] else []) @
           (if dp_tipOpen d then [(TipCancel, True), (TipSend, \<not> insufficient c (dp_tipForm d))] else []) @
           (if dp_reportOpen d then [(ReportCancel, True), (ReportSubmit, fst (dp_reportForm d) \<noteq> None)] else []))"

definition pressable :: "DiscoverPage \<Rightarrow> Control list" where
  "pressable d =
     (if dp_loading d then []
      else stageButtons d @ map fst (filter snd (bars d)) @ map fst (filter snd (dialogs d)))"

section \<open>What a press does\<close>

text \<open>A dialog that is not shown loses what was filled in; the request to stay in touch belongs to one match, the
one before the step being \<open>before\<close>.\<close>

definition rendered :: "match_id option \<Rightarrow> DiscoverPage \<Rightarrow> DiscoverPage" where
  "rendered before d =
     (let c = dp_client d; partner = (cl_partner c \<noteq> None);
          d1 = (if dp_reportOpen d \<and> partner then d else d\<lparr>dp_reportForm := (None, [])\<rparr>);
          d2 = (if dp_tipOpen d1 \<and> partner then d1 else d1\<lparr>dp_tipForm := emptyTipForm\<rparr>)
      in if cl_matchId c = before then d2 else d2\<lparr>dp_connect := ConnectIdle, dp_connectError := None\<rparr>)"

definition onClient :: "(Client \<Rightarrow> Client) \<Rightarrow> DiscoverPage \<Rightarrow> DiscoverPage" where
  "onClient f d = rendered (cl_matchId (dp_client d)) (d\<lparr>dp_client := f (dp_client d)\<rparr>)"

text \<open>What the browser answers to a request for the camera: the stream, whether it can zoom and whether there is a
second camera.\<close>

record PageEnv =
  pe_now :: instant
  pe_media :: "MediaErrorKind + LocalStream"
  pe_zoom :: bool
  pe_canSwitch :: bool

definition acquireMedia :: "PageEnv \<Rightarrow> DiscoverPage \<Rightarrow> bool \<times> DiscoverPage" where
  "acquireMedia env d =
     (case pe_media env of
        Inl kind \<Rightarrow> (False, (onClient (\<lambda>c. snd (startMedia None c)) d)\<lparr>dp_mediaError := Some kind\<rparr>)
      | Inr stream \<Rightarrow>
          (True, (onClient (\<lambda>c. snd (startMedia (Some stream) c)) d)
             \<lparr>dp_mediaError := None, dp_zoom := pe_zoom env, dp_canSwitch := pe_canSwitch env\<rparr>))"

definition trimmed :: "string \<Rightarrow> string option" where
  "trimmed s = (if trimString s = [] then None else Some (trimString s))"

fun pressed :: "PageEnv \<Rightarrow> Control \<Rightarrow> DiscoverPage \<Rightarrow> DiscoverPage" where
  "pressed env StartButton d =
     (if cl_stream (dp_client d) \<noteq> None then onClient (joinQueue (pe_now env)) d
      else let (ready, d1) = acquireMedia env d in if ready then onClient (joinQueue (pe_now env)) d1 else d1)"
| "pressed env RetryMediaButton d = snd (acquireMedia env d)"
| "pressed env CancelButton d = onClient leaveQueue d"
| "pressed env FindNewButton d = onClient (joinQueue (pe_now env)) d"
| "pressed env StopButton d = onClient endConversation d"
| "pressed env TryAgainButton d = onClient (joinQueue (pe_now env)) d"
| "pressed env HomeLink d = onClient unmount d"
| "pressed env AcceptButton d =
     (case cl_pendingOffer (dp_client d) of
        None \<Rightarrow> d | Some offer \<Rightarrow> onClient (clientRespondToOffer (tr_tipId offer) True) d)"
| "pressed env DeclineButton d =
     (case cl_pendingOffer (dp_client d) of
        None \<Rightarrow> d | Some offer \<Rightarrow> onClient (clientRespondToOffer (tr_tipId offer) False) d)"
| "pressed env MicrophoneButton d = onClient toggleMicrophone d"
| "pressed env CameraButton d = onClient toggleCamera d"
| "pressed env SwitchButton d = d\<lparr>dp_switching := True\<rparr>"
| "pressed env NextButton d = onClient (skip (pe_now env) True) d"
| "pressed env TipButton d = d\<lparr>dp_tipOpen := True\<rparr>"
| "pressed env ConnectButton d =
     (if cl_partner (dp_client d) = None \<or> dp_connect d \<noteq> ConnectIdle then d
      else d\<lparr>dp_connect := ConnectSending, dp_connectError := None\<rparr>)"
| "pressed env BlockButton d = d\<lparr>dp_blockOpen := True\<rparr>"
| "pressed env ReportButton d = d\<lparr>dp_reportOpen := True\<rparr>"
| "pressed env EndButton d = onClient endConversation d"
| "pressed env HomeBar d = onClient unmount d"
| "pressed env TokensBar d = onClient unmount d"
| "pressed env ConnectionsBar d = onClient unmount d"
| "pressed env SettingsBar d = onClient unmount d"
| "pressed env BlockConfirm d = (onClient blockPartner d)\<lparr>dp_blockOpen := False\<rparr>"
| "pressed env BlockCancel d = d\<lparr>dp_blockOpen := False\<rparr>"
| "pressed env ReportSubmit d =
     (case fst (dp_reportForm d) of
        None \<Rightarrow> d
      | Some category \<Rightarrow>
          (onClient (reportPartner category (trimmed (snd (dp_reportForm d)))) d)\<lparr>dp_reportOpen := False\<rparr>)"
| "pressed env ReportCancel d = d\<lparr>dp_reportOpen := False\<rparr>"
| "pressed env TipSend d =
     (let form = dp_tipForm d
      in (onClient (clientSendTip (tf_amount form) (trimmed (tf_message form))
            (if tf_offeredSeconds form = 0 then None else Some (tf_offeredSeconds form))) d)\<lparr>dp_tipOpen := False\<rparr>)"
| "pressed env TipCancel d = d\<lparr>dp_tipOpen := False\<rparr>"

definition press :: "PageEnv \<Rightarrow> Control \<Rightarrow> DiscoverPage \<Rightarrow> DiscoverPage" where
  "press env button d = rendered (cl_matchId (dp_client d)) (pressed env button d)"

text \<open>The answer to the request to stay in touch: \<open>None\<close> is success.\<close>

definition connectAnswered :: "ApiErrorCode option \<Rightarrow> DiscoverPage \<Rightarrow> DiscoverPage" where
  "connectAnswered answer d =
     (case answer of
        None \<Rightarrow> d\<lparr>dp_connect := ConnectSent\<rparr>
      | Some code \<Rightarrow> d\<lparr>dp_connect := ConnectIdle, dp_connectError := Some
          (if code = API_FORBIDDEN then ''controls.connectDeclinedSetting'' else ''controls.connectFailed'')\<rparr>)"

text \<open>Filling in a dialog.\<close>

datatype DialogInput =
  PickCategory ReportCategory | TypeDetails string | PickAmount int | PickTime int | TypeMessage string

fun fill :: "DialogInput \<Rightarrow> DiscoverPage \<Rightarrow> DiscoverPage" where
  "fill (PickCategory category) d = d\<lparr>dp_reportForm := (Some category, snd (dp_reportForm d))\<rparr>"
| "fill (TypeDetails details) d = d\<lparr>dp_reportForm := (fst (dp_reportForm d), take 1000 details)\<rparr>"
| "fill (PickAmount n) d =
     (if n \<in> set QUICK_AMOUNTS then d\<lparr>dp_tipForm := (dp_tipForm d)\<lparr>tf_amount := n\<rparr>\<rparr> else d)"
| "fill (PickTime n) d =
     (if n \<in> set TIME_OFFERS then d\<lparr>dp_tipForm := (dp_tipForm d)\<lparr>tf_offeredSeconds := n\<rparr>\<rparr> else d)"
| "fill (TypeMessage message) d = d\<lparr>dp_tipForm := (dp_tipForm d)\<lparr>tf_message := take 200 message\<rparr>\<rparr>"

end
