(* ===== verification/Discover_Safety.thy ===== *)
theory Discover_Safety
  imports Discover Conversation_Safety
begin

text \<open>What the buttons of the conversation page lead to: screens with no way on, buttons that tell the server nothing,
dialogs that act on somebody else, messages nobody sees.\<close>

section \<open>Frames of the operations\<close>

lemma rendered_frame [simp]:
  "dp_client (rendered b d) = dp_client d" "dp_mediaError (rendered b d) = dp_mediaError d"
  "dp_reportOpen (rendered b d) = dp_reportOpen d" "dp_blockOpen (rendered b d) = dp_blockOpen d"
  "dp_loading (rendered b d) = dp_loading d"
  by (simp_all add: rendered_def Let_def)

lemma onClient_frame [simp]:
  "dp_client (onClient f d) = f (dp_client d)" "dp_mediaError (onClient f d) = dp_mediaError d"
  "dp_reportOpen (onClient f d) = dp_reportOpen d" "dp_blockOpen (onClient f d) = dp_blockOpen d"
  "dp_loading (onClient f d) = dp_loading d"
  by (simp_all add: onClient_def)

section \<open>Everything that can happen to the page\<close>

text \<open>Presses of what can be pressed, except links away from the page; filling in; the connection; timers and
callbacks of the call; frames of the server. The frame that ends a match for good is kept apart.\<close>

inductive pageStep :: "DiscoverPage \<Rightarrow> DiscoverPage \<Rightarrow> bool" where
  ps_press: "b \<in> set (pressable d) \<Longrightarrow> b \<notin> {HomeLink, HomeBar, TokensBar, ConnectionsBar, SettingsBar} \<Longrightarrow>
    pageStep d (press env b d)"
| ps_fill: "pageStep d (fill i d)"
| ps_answer: "pageStep d (connectAnswered a d)"
| ps_connect_error: "pageStep d (onClient socketConnectError d)"
| ps_connect: "pageStep d (onClient socketConnect d)"
| ps_disconnect: "pageStep d (onClient socketDisconnect d)"
| ps_frame: "(\<And>m r. e \<noteq> MatchEnded m r False) \<Longrightarrow> pageStep d (onClient (onFrame now neg e) d)"
| ps_deadline: "pageStep d (onClient (negotiationExpired now) d)"
| ps_offer: "pageStep d (onClient (offerReady now m sdp) d)"
| ps_late: "pageStep d (onClient (lateNegotiationFailure now) d)"
| ps_peer: "pageStep d (onClient (connectionStateChanged m ps) d)"
| ps_reconnect: "pageStep d (onClient (reconnectExpired alive) d)"
| ps_ice: "pageStep d (onClient (iceGathered m k) d)"
| ps_heartbeat: "pageStep d (onClient heartbeatTick d)"
| ps_queue: "pageStep d (onClient (queueTick now) d)"
| ps_sample: "pageStep d (onClient (sampleQuality rtt loss) d)"

section \<open>The error screen\<close>

definition stranded :: "DiscoverPage \<Rightarrow> bool" where
  "stranded d \<longleftrightarrow> stateOf d = SessionState_ERROR \<and> dp_mediaError d = None \<and> \<not> dp_reportOpen d \<and> \<not> dp_blockOpen d"

lemma error_stays:
  assumes "cl_state c = SessionState_ERROR"
  shows "cl_state (joinQueue now c) = SessionState_ERROR" "cl_state (skip now True c) = SessionState_ERROR"
    "cl_state (socketConnectError c) = SessionState_ERROR" "cl_state (socketConnect c) = SessionState_ERROR"
    "cl_state (socketDisconnect c) = SessionState_ERROR" "cl_state (negotiationExpired now c) = SessionState_ERROR"
    "cl_state (offerReady now m sdp c) = SessionState_ERROR" "cl_state (lateNegotiationFailure now c) = SessionState_ERROR"
    "cl_state (connectionStateChanged m ps c) = SessionState_ERROR" "cl_state (reconnectExpired alive c) = SessionState_ERROR"
    "cl_state (iceGathered m k c) = SessionState_ERROR" "cl_state (heartbeatTick c) = SessionState_ERROR"
    "cl_state (queueTick now c) = SessionState_ERROR" "cl_state (sampleQuality rtt loss c) = SessionState_ERROR"
    "cl_state (toggleCamera c) = SessionState_ERROR" "cl_state (toggleMicrophone c) = SessionState_ERROR"
    "cl_state (clientSendTip n msg secs c) = SessionState_ERROR" "cl_state (clientRespondToOffer t b c) = SessionState_ERROR"
  using assms
  by (auto simp: joinQueue_def skip_def socketConnectError_def socketConnect_def socketDisconnect_def negotiationExpired_def
      offerReady_def lateNegotiationFailure_def connectionStateChanged_def reconnectExpired_def endMatchLocally_def
      iceGathered_def heartbeatTick_def queueTick_def sampleQuality_def toggleCamera_def toggleMicrophone_def
      clientSendTip_def clientRespondToOffer_def dropOffer_def clearTimers_def Let_def transitionTo_def session_simps
      split: option.split PeerState.split)

lemma error_frame:
  assumes "cl_state c = SessionState_ERROR" and "\<And>m r. e \<noteq> MatchEnded m r False"
  shows "cl_state (onFrame now neg e c) = SessionState_ERROR"
proof -
  have cp: "cl_state (closePeer c) = SessionState_ERROR" using assms(1) by simp
  show ?thesis
  proof (cases e)
    case (Signal f)
    then show ?thesis using assms(1)
      by (cases f) (auto simp: onFrame_def offerReceived_def answerReceived_def iceReceived_def error_stays
          flushPendingCandidates_def setRemoteDescription_def transitionTo_def session_simps split: option.split)
  next
    case (MatchFound p)
    then show ?thesis using assms(1) by (simp add: onFrame_def handleMatchFound_def transitionTo_def session_simps)
  next
    case (MatchEnded m r requeued)
    then have requeued using assms(2) by (cases requeued) auto
    then show ?thesis using MatchEnded cp by (simp add: onFrame_def Let_def transitionTo_def session_simps)
  qed (use assms(1) cp in \<open>auto simp: onFrame_def dropOffer_def Let_def transitionTo_def session_simps\<close>)
qed

text \<open>What there is to press on the error screen.\<close>

lemma stranded_buttons:
  assumes "stranded d" and "b \<in> set (pressable d)"
  shows "b \<in> {TryAgainButton, HomeLink, AcceptButton, DeclineButton, MicrophoneButton, CameraButton, SwitchButton,
      TipSend, TipCancel, HomeBar, TokensBar, ConnectionsBar, SettingsBar}"
  using assms
  by (auto simp: stranded_def pressable_def stageButtons_def bars_def dialogs_def inCall_def isSearching_def Let_def
      split: if_splits option.splits)

lemma stranded_press:
  assumes "stranded d" and "b \<in> set (pressable d)" and "b \<notin> {HomeLink, HomeBar, TokensBar, ConnectionsBar, SettingsBar}"
  shows "stranded (press env b d)"
proof -
  have "cl_state (dp_client d) = SessionState_ERROR" using assms(1) by (simp add: stranded_def)
  note e = error_stays [OF this]
  show ?thesis
    using stranded_buttons [OF assms(1,2)] assms(1,3) e
    by (cases "cl_pendingOffer (dp_client d)") (auto simp: press_def stranded_def Let_def)
qed

lemma stranded_onClient: "stranded d \<Longrightarrow> cl_state (f (dp_client d)) = SessionState_ERROR \<Longrightarrow> stranded (onClient f d)"
  by (simp add: stranded_def)

lemma stranded_fill: "stranded d \<Longrightarrow> stranded (fill i d)"
  by (cases i) (auto simp: stranded_def)

lemma stranded_step: "pageStep d d' \<Longrightarrow> stranded d \<Longrightarrow> stranded d'"
proof (induction rule: pageStep.induct)
  case (ps_answer d a)
  then show ?case by (auto simp: stranded_def connectAnswered_def split: option.split)
next
  case (ps_frame e d now neg)
  then show ?case using error_frame by (intro stranded_onClient) (auto simp: stranded_def)
next
  case (ps_press b d env)
  then show ?case using stranded_press by blast
next
  case (ps_fill d i)
  then show ?case by (rule stranded_fill)
qed (auto intro!: stranded_onClient error_stays simp: stranded_def)


section \<open>Leaving the queue\<close>

text \<open>A client that shows the start screen without a call takes no part in one.\<close>

definition aside :: "Client \<Rightarrow> bool" where
  "aside c \<longleftrightarrow> cl_state c = SessionState_READY \<and> cl_peer c = None \<and> cl_matchId c = None"

definition pairingFrame :: "ServerEvent \<Rightarrow> bool" where
  "pairingFrame e \<longleftrightarrow> (\<exists>p. e = MatchFound p) \<or> (\<exists>f. e = Signal f) \<or> (\<exists>q. e = QueueWaiting q)"

lemma aside_frame:
  assumes "aside c" and "pairingFrame e"
  shows "aside (onFrame now neg e c) \<and> cl_sent (onFrame now neg e c) = cl_sent c"
proof -
  from assms(2) consider p where "e = MatchFound p" | f where "e = Signal f" | q where "e = QueueWaiting q"
    by (auto simp: pairingFrame_def)
  then show ?thesis
  proof cases
    case (2 f)
    then show ?thesis using assms(1)
      by (cases f) (simp_all add: aside_def onFrame_def offerReceived_def answerReceived_def iceReceived_def concernsCurrent_def)
  qed (use assms(1) in \<open>simp_all add: aside_def onFrame_def handleMatchFound_def transitionTo_def session_simps\<close>)
qed

text \<open>C15: The leave button leaves the user in the queue. While searching, the button at the end of the bar shows
the start screen and, unlike cancel on the stage, tells the server nothing. The server goes on offering the user:
every match it announces and every frame of a partner is dropped without an answer, so the partner waits for
somebody who is not there.\<close>

theorem leave_button_stays_in_the_queue:
  assumes "stateOf d = SessionState_QUEUED" and "cl_matchId (dp_client d) = None" and "\<not> dp_loading d"
    and "\<forall>e \<in> set es. pairingFrame e"
  shows "EndButton \<in> set (pressable d) \<and> CancelButton \<in> set (pressable d) \<and>
     stateOf (press env EndButton d) = SessionState_READY \<and>
     cl_sent (receive now es (dp_client (press env EndButton d))) = cl_sent (dp_client d) \<and>
     cl_state (receive now es (dp_client (press env EndButton d))) = SessionState_READY \<and>
     cl_sent (dp_client (press env CancelButton d)) = cl_sent (dp_client d) @ [CE_queue_leave]"
proof -
  let ?c = "dp_client (press env EndButton d)"
  have c: "aside ?c" "cl_sent ?c = cl_sent (dp_client d)"
    using assms(1,2)
    by (simp_all add: aside_def press_def endConversation_def closePeer_def clearTimers_def transitionTo_def session_simps)
  have "aside (fold (onFrame now None) es c) \<and> cl_sent (fold (onFrame now None) es c) = cl_sent c"
    if "aside c" "\<forall>e \<in> set es. pairingFrame e" for c
    using that
  proof (induction es arbitrary: c)
    case (Cons e es)
    then have "aside (onFrame now None e c)" "cl_sent (onFrame now None e c) = cl_sent c"
      using aside_frame [of c e now None] by auto
    then show ?case using Cons by simp
  qed simp
  from this [OF c(1) assms(4)] c show ?thesis
    using assms(1,3)
    by (simp add: aside_def receive_def pressable_def stageButtons_def bars_def isSearching_def Let_def press_def
        leaveQueue_def send_def transitionTo_def session_simps)
qed

section \<open>Dialogs\<close>

text \<open>A dialog opened about one person acts on the next. The dialogs close with the partner only on the screen:
when the partner leaves while the confirmation of a block is open and another match is found, the confirmation is
there again, about the new partner, and confirming it blocks the one nobody asked about.\<close>

theorem dialog_acts_on_the_next_partner:
  assumes "dp_blockOpen d" and "\<not> dp_loading d" and "inCall (stateOf d)" and "cl_stream (dp_client d) \<noteq> None"
    and d1: "d1 = press env FindNewButton (onClient (onFrame now None (PartnerLeft m reason)) d)"
    and d2: "d2 = onClient (onFrame now' None (MatchFound p)) d1"
  shows "cl_partner (dp_client d1) = None \<and> BlockConfirm \<notin> set (pressable d1) \<and>
     BlockConfirm \<in> set (pressable d2) \<and>
     last (cl_sent (dp_client (press env BlockConfirm d2))) = CE_block (pp_id (mf_partner p)) (Some (mf_matchId p))"
proof -
  let ?left = "onFrame now None (PartnerLeft m reason) (dp_client d)"
  have left: "cl_state ?left = SessionState_PARTNER_LEFT" "cl_partner ?left = None" "cl_stream ?left = cl_stream (dp_client d)"
    using assms(3) by (auto simp: onFrame_def inCall_def closePeer_def clearTimers_def transitionTo_def session_simps)
  have c1: "dp_client d1 = joinQueue (pe_now env) ?left" by (simp add: d1 press_def)
  have j: "cl_state (dp_client d1) = SessionState_QUEUED" "cl_partner (dp_client d1) = None"
    using left assms(4) by (auto simp: c1 joinQueue_def send_def Let_def transitionTo_def session_simps)
  have c2: "cl_partner (dp_client d2) = Some (mf_partner p)" "cl_matchId (dp_client d2) = Some (mf_matchId p)"
    using j(1) by (simp_all add: d2 onFrame_def handleMatchFound_def Let_def transitionTo_def session_simps)
  have flags: "dp_blockOpen d1" "dp_blockOpen d2" "\<not> dp_loading d1" "\<not> dp_loading d2"
    using assms(1,2) by (simp_all add: d1 d2 press_def)
  have "BlockConfirm \<notin> set (pressable d1)"
    using j(2) by (auto simp: pressable_def stageButtons_def bars_def dialogs_def Let_def split: if_splits option.splits)
  moreover have "BlockConfirm \<in> set (pressable d2)"
    using c2 flags by (simp add: pressable_def dialogs_def Let_def)
  moreover have "last (cl_sent (dp_client (press env BlockConfirm d2))) = CE_block (pp_id (mf_partner p)) (Some (mf_matchId p))"
    using c2 by (simp add: press_def blockPartner_def send_def closePeer_def clearTimers_def transitionTo_def)
  ultimately show ?thesis using j(2) by blast
qed

section \<open>Messages nobody sees\<close>

text \<open>Outside the error state an error of the hook shows nowhere: a camera that could not be switched, and whatever the
server refuses, leave the page as it was.\<close>

theorem errors_go_unseen:
  assumes "stateOf d \<noteq> SessionState_ERROR"
  shows "stages (d\<lparr>dp_client := (dp_client d)\<lparr>cl_error := e\<rparr>\<rparr>) = stages d"
    and "pressable (d\<lparr>dp_client := (dp_client d)\<lparr>cl_error := e\<rparr>\<rparr>) = pressable d"
  using assms
  by (cases e; cases "cl_error (dp_client d)";
      simp add: stages_def searchTitle_def alone_def hintIndex_def pressable_def stageButtons_def bars_def
        dialogs_def insufficient_def Let_def prod.case_eq_if split del: if_split
        cong del: option.case_cong_weak if_weak_cong)+

section \<open>Examples\<close>

text \<open>A page in use, on which four handshakes have failed.\<close>

definition usedPage :: DiscoverPage where
  "usedPage = initialPage\<lparr>dp_loading := False, dp_client := initialClient\<lparr>cl_connectAttempts := 4\<rparr>\<rparr>"


definition searchingPage :: DiscoverPage where
  "searchingPage = usedPage\<lparr>dp_client := initialClient\<lparr>cl_state := SessionState_QUEUED\<rparr>\<rparr>"

definition plainEnv :: PageEnv where
  "plainEnv = \<lparr>pe_now = 0, pe_media = Inl MediaErrorKind_UNKNOWN, pe_zoom = False, pe_canSwitch = False\<rparr>"

lemma leave_button_stays_in_the_queue_witness:
  "cl_sent (receive 0 [MatchFound exampleFound] (dp_client (press plainEnv EndButton searchingPage))) = []"
  using leave_button_stays_in_the_queue [of searchingPage "[MatchFound exampleFound]" plainEnv 0]
  by (simp add: searchingPage_def usedPage_def initialPage_def initialClient_def pairingFrame_def)

definition blockingPage :: DiscoverPage where
  "blockingPage = usedPage\<lparr>dp_client := callingClient, dp_blockOpen := True\<rparr>"

lemma dialog_acts_on_the_next_partner_witness:
  "BlockConfirm \<in> set (pressable (onClient (onFrame 0 None (MatchFound exampleFound))
     (press plainEnv FindNewButton (onClient (onFrame 0 None (PartnerLeft ''m'' MatchEndReason_SKIPPED)) blockingPage))))"
  using dialog_acts_on_the_next_partner [OF _ _ _ _ refl refl, of blockingPage plainEnv 0 "''m''" MatchEndReason_SKIPPED 0 exampleFound]
  by (simp add: blockingPage_def usedPage_def initialPage_def inCall_def client_eval Let_def)

end
