(* ===== verification/Settings_Schemas.thy ===== *)
theory Settings_Schemas
  imports Payloads Settings
begin

text \<open>The schemas that no route parses with yet, in \<^verbatim>\<open>packages/validation/src\<close>: the update of the settings with its
relaxation stages, feature flags, tips and packages over HTTP, balance corrections, and the table of the socket
events. The results say what an accepted list of stages is good for when the matcher uses it.\<close>

section \<open>Settings\<close>

fun relaxableText :: "RelaxableConstraint \<Rightarrow> string" where
  "relaxableText Interests = ''interests''"
| "relaxableText AgeBracketC = ''ageBracket''"
| "relaxableText Language = ''language''"
| "relaxableText Country = ''country''"
| "relaxableText GenderC = ''gender''"

definition zIntIn :: "int \<Rightarrow> int \<Rightarrow> int schema" where
  "zIntIn lo hi = zRefine (\<lambda>n. lo \<le> n \<and> n \<le> hi) zInt"

definition relaxationStageSchema :: "RelaxationStage schema" where
  "relaxationStageSchema v = do {
     f \<leftarrow> zObject v;
     seconds \<leftarrow> zIntIn 0 600 (f ''afterSeconds'');
     drops \<leftarrow> zArray (zEnum relaxableText [Interests, AgeBracketC, Language, Country, GenderC]) (f ''drop'');
     label \<leftarrow> zRefine (lengthIn 1 50) zString (f ''label'');
     Some \<lparr>afterSeconds = seconds, dropC = drops, stageLabel = label\<rparr> }"

definition matchmakingSchema :: "MatchmakingSettings schema" where
  "matchmakingSchema v = do {
     f \<leftarrow> zObject v;
     stages \<leftarrow> zRefine (lengthIn 1 10) (zArray relaxationStageSchema) (f ''relaxationStages'');
     queue \<leftarrow> zIntIn 10 3600 (f ''maxQueueSeconds'');
     cooldown \<leftarrow> zIntIn 0 86400 (f ''skipCooldownSeconds'');
     between \<leftarrow> zRefine (\<lambda>q. 0 \<le> q \<and> q \<le> 60) zNumber (f ''minSecondsBetweenSkips'');
     negotiation \<leftarrow> zIntIn 5000 120000 (f ''negotiationTimeoutMs'');
     Some \<lparr>relaxationStages = stages, maxQueueSeconds = queue, skipCooldownSeconds = cooldown,
           minSecondsBetweenSkips = between, negotiationTimeoutMs = negotiation\<rparr> }"

text \<open>For the countries, \<open>Some None\<close> clears the list of those allowed.\<close>

record SettingsUpdate =
  su_minimumAge :: "int option"
  su_registrationOpen :: "bool option"
  su_guestAccessEnabled :: "bool option"
  su_maintenanceMode :: "bool option"
  su_requireEmailVerificationToMatch :: "bool option"
  su_enabledCountries :: "string list option option"
  su_supportedLocales :: "string list option"
  su_matchmaking :: "MatchmakingSettings option"

definition adminUpdateSettingsSchema :: "SettingsUpdate schema" where
  "adminUpdateSettingsSchema v = do {
     f \<leftarrow> zStrict [''minimumAge'', ''registrationOpen'', ''guestAccessEnabled'', ''maintenanceMode'',
                    ''requireEmailVerificationToMatch'', ''enabledCountries'', ''supportedLocales'', ''matchmaking''] v;
     age \<leftarrow> zOptional (zIntIn ABSOLUTE_MINIMUM_AGE 99) (f ''minimumAge'');
     registration \<leftarrow> zOptional zBoolean (f ''registrationOpen'');
     guests \<leftarrow> zOptional zBoolean (f ''guestAccessEnabled'');
     maintenance \<leftarrow> zOptional zBoolean (f ''maintenanceMode'');
     verification \<leftarrow> zOptional zBoolean (f ''requireEmailVerificationToMatch'');
     countries \<leftarrow> zOptional (zNullable (zRefine (\<lambda>cs. 1 \<le> length cs) (zArray countryCodeSchema))) (f ''enabledCountries'');
     locales \<leftarrow> zOptional (zRefine (\<lambda>ls. 1 \<le> length ls) (zArray localeSchema)) (f ''supportedLocales'');
     matchmaking \<leftarrow> zOptional matchmakingSchema (f ''matchmaking'');
     Some \<lparr>su_minimumAge = age, su_registrationOpen = registration, su_guestAccessEnabled = guests,
           su_maintenanceMode = maintenance, su_requireEmailVerificationToMatch = verification,
           su_enabledCountries = countries, su_supportedLocales = locales, su_matchmaking = matchmaking\<rparr> }"

fun increasing :: "RelaxationStage list \<Rightarrow> bool" where
  "increasing (s # t # rest) \<longleftrightarrow> afterSeconds s < afterSeconds t \<and> increasing (t # rest)"
| "increasing stages \<longleftrightarrow> True"

definition adminUpdateSettingsRefinedSchema :: "SettingsUpdate schema" where
  "adminUpdateSettingsRefinedSchema =
     zRefine (\<lambda>d. case su_matchmaking d of None \<Rightarrow> True | Some m \<Rightarrow> increasing (relaxationStages m))
       adminUpdateSettingsSchema"

text \<open>\<^verbatim>\<open>/^[a-z0-9_]+$/\<close> and \<^verbatim>\<open>/^[a-z0-9-]+$/\<close>.\<close>

definition wordOf :: "char \<Rightarrow> string \<Rightarrow> bool" where
  "wordOf mark s \<longleftrightarrow> s \<noteq> [] \<and> list_all (\<lambda>c. isSmall c \<or> isDigit c \<or> c = mark) s"

record FlagUpdate =
  fu_key :: string
  fu_enabled :: bool
  fu_rolloutPercentage :: int
  fu_description :: "string option option"

definition adminUpdateFeatureFlagSchema :: "FlagUpdate schema" where
  "adminUpdateFeatureFlagSchema v = do {
     f \<leftarrow> zObject v;
     key \<leftarrow> zRefine (\<lambda>s. lengthIn 1 64 s \<and> wordOf (CHR ''_'') s) zString (f ''key'');
     enabled \<leftarrow> zBoolean (f ''enabled'');
     rollout \<leftarrow> zDefault 100 (zIntIn 0 100) (f ''rolloutPercentage'');
     description \<leftarrow> zOptional (zNullable (zRefine (\<lambda>s. length s \<le> 300) zString)) (f ''description'');
     Some \<lparr>fu_key = key, fu_enabled = enabled, fu_rolloutPercentage = rollout, fu_description = description\<rparr> }"

section \<open>Tokens\<close>

definition MAX_TIP_TOKENS :: int where
  "MAX_TIP_TOKENS = 10000"

definition tokenAmountSchema :: "int schema" where
  "tokenAmountSchema = zRefine (\<lambda>n. 0 < n \<and> n \<le> MAX_TIP_TOKENS) zInt"

definition offeredSecondsSchema :: "int schema" where
  "offeredSecondsSchema = zIntIn 30 3600"

record TipInputHttp =
  th_toUserId :: user_id
  th_matchId :: "match_id option"
  th_tokens :: int
  th_message :: "string option"
  th_offeredSeconds :: "int option"

definition sendTipSchema :: "Formats \<Rightarrow> TipInputHttp schema" where
  "sendTipSchema fm v = do {
     f \<leftarrow> zObject v;
     toUserId \<leftarrow> uuidSchema fm (f ''toUserId'');
     matchId \<leftarrow> zDefault None (zNullable (uuidSchema fm)) (f ''matchId'');
     tokens \<leftarrow> tokenAmountSchema (f ''tokens'');
     message \<leftarrow> zOptional (displayTextSchema 200) (f ''message'');
     offeredSeconds \<leftarrow> zOptional offeredSecondsSchema (f ''offeredSeconds'');
     Some \<lparr>th_toUserId = toUserId, th_matchId = matchId, th_tokens = tokens, th_message = message,
           th_offeredSeconds = offeredSeconds\<rparr> }"

definition tipOfferResponseSchema :: "Formats \<Rightarrow> (row_id \<times> bool) schema" where
  "tipOfferResponseSchema fm v = do {
     f \<leftarrow> zObject v;
     tipId \<leftarrow> uuidSchema fm (f ''tipId'');
     accepted \<leftarrow> zBoolean (f ''accepted'');
     Some (tipId, accepted) }"

definition adminAdjustTokensSchema :: "Formats \<Rightarrow> (user_id \<times> int \<times> string) schema" where
  "adminAdjustTokensSchema fm v = do {
     f \<leftarrow> zObject v;
     userId \<leftarrow> uuidSchema fm (f ''userId'');
     delta \<leftarrow> zRefine (\<lambda>d. d \<noteq> 0 \<and> \<bar>d\<bar> \<le> 1000000) zInt (f ''delta'');
     note \<leftarrow> zRefine (\<lambda>s. 1 \<le> length s) (displayTextSchema 200) (f ''note'');
     Some (userId, delta, note) }"

record PackageInput =
  pi_slug :: string
  pi_tokens :: int
  pi_priceCents :: int
  pi_currency :: string
  pi_label :: "string option option"
  pi_active :: bool
  pi_sortOrder :: int

definition adminTokenPackageSchema :: "PackageInput schema" where
  "adminTokenPackageSchema v = do {
     f \<leftarrow> zObject v;
     slug \<leftarrow> zRefine (\<lambda>s. lengthIn 1 50 s \<and> wordOf (CHR ''-'') s) zString (f ''slug'');
     tokens \<leftarrow> zRefine (\<lambda>n. 0 < n \<and> n \<le> 1000000) zInt (f ''tokens'');
     price \<leftarrow> zRefine (\<lambda>n. 0 < n \<and> n \<le> 100000000) zInt (f ''priceCents'');
     currency \<leftarrow> zMap toUpperCase (zRefine (\<lambda>s. length s = 3) zString) (f ''currency'');
     label \<leftarrow> zOptional (zNullable (zRefine (\<lambda>s. length s \<le> 50) zString)) (f ''label'');
     active \<leftarrow> zDefault True zBoolean (f ''active'');
     sortOrder \<leftarrow> zDefault 0 (zIntIn 0 999) (f ''sortOrder'');
     Some \<lparr>pi_slug = slug, pi_tokens = tokens, pi_priceCents = price, pi_currency = currency, pi_label = label,
           pi_active = active, pi_sortOrder = sortOrder\<rparr> }"

section \<open>The table of socket events\<close>

datatype PresenceStateName = PresenceOnline | PresenceMatching | PresenceConnected | PresenceAway

fun presenceStateText :: "PresenceStateName \<Rightarrow> string" where
  "presenceStateText PresenceOnline = ''ONLINE''"
| "presenceStateText PresenceMatching = ''MATCHING''"
| "presenceStateText PresenceConnected = ''CONNECTED''"
| "presenceStateText PresenceAway = ''AWAY''"

definition presenceOnlineSchema :: "PresenceStateName schema" where
  "presenceOnlineSchema v = do {
     f \<leftarrow> zObject v;
     zEnum presenceStateText [PresenceOnline, PresenceMatching, PresenceConnected, PresenceAway] (f ''state'') }"

definition iceServersRequestSchema :: "Formats \<Rightarrow> match_id schema" where
  "iceServersRequestSchema fm v = do { f \<leftarrow> zObject v; uuidSchema fm (f ''matchId'') }"

section \<open>What an accepted list of stages is good for\<close>

lemma increasing_sorted: "increasing stages \<longleftrightarrow> sorted_wrt (\<lambda>s t. afterSeconds s < afterSeconds t) stages"
proof (induction stages rule: increasing.induct)
  case (1 s t rest)
  have "afterSeconds s < afterSeconds t \<Longrightarrow> (\<forall>x\<in>set rest. afterSeconds t < afterSeconds x) \<Longrightarrow>
      (\<forall>x\<in>set rest. afterSeconds s < afterSeconds x)"
    by (meson less_trans)
  with 1 show ?case by auto
qed simp_all

lemma stageLoop_later: "\<forall>s \<in> set ss. w < of_int (afterSeconds s) \<Longrightarrow> stageLoop w ss i k = k"
  by (induction ss arbitrary: i k) auto

lemma stageLoop_at:
  assumes "sorted_wrt (\<lambda>s t. afterSeconds s < afterSeconds t) ss" and "j < length ss"
    and "of_int (afterSeconds (ss ! j)) \<le> w" and "Suc j < length ss \<Longrightarrow> w < of_int (afterSeconds (ss ! Suc j))"
  shows "stageLoop w ss i k = i + j"
  using assms
proof (induction ss arbitrary: i k j)
  case (Cons s ss)
  show ?case
  proof (cases j)
    case 0
    have "\<forall>t \<in> set ss. w < of_int (afterSeconds t)"
    proof (cases ss)
      case (Cons t rest)
      with Cons.prems(1) have "\<forall>u \<in> set ss. afterSeconds t \<le> afterSeconds u" by force
      moreover have "w < of_int (afterSeconds t)" using Cons.prems(4) 0 Cons by simp
      ultimately show ?thesis by (meson less_le_trans of_int_le_iff)
    qed simp
    then show ?thesis using Cons.prems(3) 0 by (simp add: stageLoop_later)
  next
    case (Suc j')
    then have "stageLoop w ss (i + 1) k' = i + 1 + j'" for k'
      using Cons.prems by (intro Cons.IH) auto
    then show ?thesis using Suc by simp
  qed
qed simp

lemma zArray_set: "zArray sch v = Some xs \<Longrightarrow> x \<in> set xs \<Longrightarrow> \<exists>r. sch r = Some x"
proof (induction sch v arbitrary: xs rule: zArray.induct)
  case (1 sch vs)
  have "those (map sch vs) = Some xs \<Longrightarrow> x \<in> set xs \<Longrightarrow> \<exists>r. sch r = Some x"
    by (induction vs arbitrary: xs) (auto split: option.splits)
  with 1 show ?case by simp
qed simp_all

lemma stage_bounds: "relaxationStageSchema v = Some s \<Longrightarrow> 0 \<le> afterSeconds s \<and> afterSeconds s \<le> 600"
  by (clarsimp simp: relaxationStageSchema_def zIntIn_def zRefine_def bind_eq_Some_conv split: if_splits)

lemma accepted_stages:
  assumes "adminUpdateSettingsRefinedSchema v = Some u" and "su_matchmaking u = Some m"
  shows "sorted_wrt (\<lambda>s t. afterSeconds s < afterSeconds t) (relaxationStages m)"
    and "lengthIn 1 10 (relaxationStages m)"
    and "s \<in> set (relaxationStages m) \<Longrightarrow> 0 \<le> afterSeconds s \<and> afterSeconds s \<le> 600"
proof -
  from assms have u: "adminUpdateSettingsSchema v = Some u" and i: "increasing (relaxationStages m)"
    by (simp_all add: adminUpdateSettingsRefinedSchema_def zRefine_def bind_eq_Some_conv split: if_splits)
  show "sorted_wrt (\<lambda>s t. afterSeconds s < afterSeconds t) (relaxationStages m)"
    using i by (simp add: increasing_sorted)
  from u obtain w where "zOptional matchmakingSchema w = Some (su_matchmaking u)"
    by (clarsimp simp: adminUpdateSettingsSchema_def bind_eq_Some_conv; blast)
  then have "matchmakingSchema w = Some m" using assms(2) by (auto simp: zOptional_def split: if_splits)
  then obtain a where "zRefine (lengthIn 1 10) (zArray relaxationStageSchema) a = Some (relaxationStages m)"
    by (clarsimp simp: matchmakingSchema_def bind_eq_Some_conv; blast)
  then have a: "zArray relaxationStageSchema a = Some (relaxationStages m)" "lengthIn 1 10 (relaxationStages m)"
    by (simp_all add: zRefine_def bind_eq_Some_conv split: if_splits)
  then show "lengthIn 1 10 (relaxationStages m)"
    and "s \<in> set (relaxationStages m) \<Longrightarrow> 0 \<le> afterSeconds s \<and> afterSeconds s \<le> 600"
    using zArray_set [OF a(1)] stage_bounds by blast+
qed

text \<open>Every stage of accepted settings has its time: each is the one in force from its own second on until the
next one's, and after ten minutes of waiting it is the last.\<close>

theorem accepted_stages_take_turns:
  assumes "adminUpdateSettingsRefinedSchema v = Some u" and "su_matchmaking u = Some m"
    and "i < length (relaxationStages m)" and "afterSeconds (relaxationStages m ! i) * 1000 \<le> now - qc_queuedAt c"
    and "Suc i < length (relaxationStages m) \<Longrightarrow>
           now - qc_queuedAt c < afterSeconds (relaxationStages m ! Suc i) * 1000"
  shows "relaxationStageFor c now (relaxationStages m) = i"
proof -
  let ?w = "waitedSeconds (qc_queuedAt c) now"
  have b: "s \<in> set (relaxationStages m) \<Longrightarrow> 0 \<le> afterSeconds s" for s using accepted_stages(3) [OF assms(1,2)] by blast
  have "0 \<le> afterSeconds (relaxationStages m ! i)" using b nth_mem assms(3) by blast
  then have "0 \<le> now - qc_queuedAt c" using assms(4) by linarith
  then have w: "?w = of_int (now - qc_queuedAt c) / 1000" by (simp add: waitedSeconds_def)
  have "of_int (afterSeconds (relaxationStages m ! i) * 1000) \<le> (of_int (now - qc_queuedAt c) :: rat)"
    using assms(4) by (simp only: of_int_le_iff)
  then have lo: "of_int (afterSeconds (relaxationStages m ! i)) \<le> ?w" by (simp add: w field_simps)
  have hi: "?w < of_int (afterSeconds (relaxationStages m ! Suc i))" if "Suc i < length (relaxationStages m)"
  proof -
    have "(of_int (now - qc_queuedAt c) :: rat) < of_int (afterSeconds (relaxationStages m ! Suc i) * 1000)"
      using assms(5) [OF that] by (simp only: of_int_less_iff)
    then show ?thesis by (simp add: w field_simps)
  qed
  show ?thesis
    using stageLoop_at [OF accepted_stages(1) [OF assms(1,2)] assms(3) lo hi] by (simp add: relaxationStageFor_def)
qed

text \<open>But a later stage may ask for more than an earlier one. These settings are accepted: the first stage does not
look at countries, the second, from half a minute on, does.\<close>

definition tighteningRaw :: raw where
  "tighteningRaw =
     Obj [(''matchmaking'', Obj [
       (''relaxationStages'', Arr [
          Obj [(''afterSeconds'', Num 0), (''drop'', Arr [Text ''country'']), (''label'', Text ''open'')],
          Obj [(''afterSeconds'', Num 30), (''drop'', Arr []), (''label'', Text ''strict'')]]),
       (''maxQueueSeconds'', Num 120), (''skipCooldownSeconds'', Num 30), (''minSecondsBetweenSkips'', Num 1),
       (''negotiationTimeoutMs'', Num 20000)])]"

definition inLisbon :: QueueCandidate where
  "inLisbon = (plainCandidate ''b'' 0)\<lparr>qc_country := Some ''PT''\<rparr>"

definition wantsFrance :: QueueCandidate where
  "wantsFrance = (plainCandidate ''a'' 0)\<lparr>qc_preferredCountries := [''FR'']\<rparr>"


section \<open>Stored settings\<close>

text \<open>The rows of \<^verbatim>\<open>systemSetting\<close> by their key, each a value and who wrote it, \<^verbatim>\<open>packages/database/src/settings.ts\<close>.
\<open>storedSettings\<close> reads them at the types the schemas above give them; a row edited into another shape is
outside the model.\<close>

type_synonym setting_rows = "string \<rightharpoonup> raw \<times> user_id option"

definition setSystemSetting :: "string \<Rightarrow> raw \<Rightarrow> user_id option \<Rightarrow> setting_rows \<Rightarrow> setting_rows" where
  "setSystemSetting key value updatedById rows = rows(key \<mapsto> (value, updatedById))"

fun localeText :: "Locale \<Rightarrow> string" where
  "localeText Locale_EN = ''en''"
| "localeText Locale_ES = ''es''"
| "localeText Locale_PT = ''pt''"
| "localeText Locale_FR = ''fr''"
| "localeText Locale_DE = ''de''"
| "localeText Locale_IT = ''it''"

definition readRow :: "'a schema \<Rightarrow> string \<Rightarrow> setting_rows \<Rightarrow> 'a option option" where
  "readRow sch key rows =
     (case rows key of
        None \<Rightarrow> Some None
      | Some (value, updatedById) \<Rightarrow> if value = Null \<or> value = Undefined then Some None else map_option Some (sch value))"

definition localesSchema :: "Locale list schema" where
  "localesSchema = zRefine (\<lambda>ls. 1 \<le> length ls)
     (zArray (zEnum localeText [Locale_EN, Locale_ES, Locale_PT, Locale_FR, Locale_DE, Locale_IT]))"

definition countriesSchema :: "string list schema" where
  "countriesSchema = zRefine (\<lambda>cs. 1 \<le> length cs) (zArray countryCodeSchema)"

definition storedSettings :: "setting_rows \<Rightarrow> StoredSettings option" where
  "storedSettings rows = do {
     age \<leftarrow> readRow (zIntIn ABSOLUTE_MINIMUM_AGE 99) ''minimum_age'' rows;
     registration \<leftarrow> readRow zBoolean ''registration_open'' rows;
     guests \<leftarrow> readRow zBoolean ''guest_access_enabled'' rows;
     maintenance \<leftarrow> readRow zBoolean ''maintenance_mode'' rows;
     verification \<leftarrow> readRow zBoolean ''require_email_verification_to_match'' rows;
     countries \<leftarrow> readRow countriesSchema ''enabled_countries'' rows;
     locales \<leftarrow> readRow localesSchema ''supported_locales'' rows;
     matchmaking \<leftarrow> readRow matchmakingSchema ''matchmaking'' rows;
     Some \<lparr>st_minimumAge = age, st_registrationOpen = registration, st_guestAccessEnabled = guests,
           st_maintenanceMode = maintenance, st_requireEmailVerificationToMatch = verification,
           st_enabledCountries = countries, st_supportedLocales = locales, st_matchmaking = matchmaking\<rparr> }"

lemma readRow_set:
  "readRow sch key (setSystemSetting key v by rows) =
     (if v = Null \<or> v = Undefined then Some None else map_option Some (sch v))"
  "key \<noteq> key' \<Longrightarrow> readRow sch key (setSystemSetting key' v by rows) = readRow sch key rows"
  by (simp_all add: readRow_def setSystemSetting_def)

text \<open>The rows are independent: writing one, with a value its schema accepts, changes that setting and no other, so
two administrators who edit different settings do not overwrite each other.\<close>

theorem settings_are_independent:
  assumes "storedSettings rows = Some st"
  shows "zIntIn ABSOLUTE_MINIMUM_AGE 99 v = Some n \<Longrightarrow>
       storedSettings (setSystemSetting ''minimum_age'' v by rows) = Some (st\<lparr>st_minimumAge := Some n\<rparr>)"
    and "storedSettings (setSystemSetting ''maintenance_mode'' (Bool b) by rows) =
       Some (st\<lparr>st_maintenanceMode := Some b\<rparr>)"
    and "matchmakingSchema w = Some m \<Longrightarrow>
       storedSettings (setSystemSetting ''matchmaking'' w by rows) = Some (st\<lparr>st_matchmaking := Some m\<rparr>)"
proof -
  have "zIntIn lo hi v = Some n \<Longrightarrow> v \<noteq> Null \<and> v \<noteq> Undefined" for lo hi
    by (auto simp: zIntIn_def zRefine_def zInt_def)
  then show "zIntIn ABSOLUTE_MINIMUM_AGE 99 v = Some n \<Longrightarrow>
       storedSettings (setSystemSetting ''minimum_age'' v by rows) = Some (st\<lparr>st_minimumAge := Some n\<rparr>)"
    using assms by (clarsimp simp: storedSettings_def readRow_set bind_eq_Some_conv)
  show "storedSettings (setSystemSetting ''maintenance_mode'' (Bool b) by rows) =
       Some (st\<lparr>st_maintenanceMode := Some b\<rparr>)"
    using assms by (clarsimp simp: storedSettings_def readRow_set bind_eq_Some_conv)
  have "matchmakingSchema w = Some m \<Longrightarrow> w \<noteq> Null \<and> w \<noteq> Undefined"
    by (auto simp: matchmakingSchema_def)
  then show "matchmakingSchema w = Some m \<Longrightarrow>
       storedSettings (setSystemSetting ''matchmaking'' w by rows) = Some (st\<lparr>st_matchmaking := Some m\<rparr>)"
    using assms by (clarsimp simp: storedSettings_def readRow_set bind_eq_Some_conv)
qed

end
