(* ===== verification/Http_Body.thy ===== *)
theory Http_Body
  imports Http_Safety
begin

text \<open>How the body of a request reaches its route: the parser of \<^verbatim>\<open>apps/api/src/server.ts\<close> for JSON, which keeps
the bytes for the payment webhook because the provider signs exactly those. The results: the webhook sees the bytes
that were sent, nothing else ever does, and a body that does not parse is a refusal of the client's.\<close>

section \<open>The parser\<close>

text \<open>A body is the bytes kept aside and the parsed value, each if there is one. \<open>jsonParse\<close> is \<^verbatim>\<open>JSON.jsonParse\<close>, which
answers nothing where it throws.\<close>

definition isWebhookUrl :: "string \<Rightarrow> bool" where
  "isWebhookUrl url \<longleftrightarrow>
     (let path = takeWhile (\<lambda>c. c \<noteq> CHR ''?'') url; suffix = ''/tokens/webhook''
      in length suffix \<le> length path \<and> drop (length path - length suffix) path = suffix)"

definition jsonBody :: "(string \<Rightarrow> 'json option) \<Rightarrow> string \<Rightarrow> string \<Rightarrow> AppError + string option \<times> 'json option" where
  "jsonBody jsonParse url body =
     (if isWebhookUrl url then Ok (Some body, None)
      else if body = [] then Ok (None, None)
      else case jsonParse body of
             None \<Rightarrow> Throw (appError VALIDATION_ERROR ''Body is not valid JSON.'')
           | Some value \<Rightarrow> Ok (None, Some value))"

text \<open>A delivery to the webhook as it comes in: address, signature header and bytes. Routing compares the path; the
parser's answer is the request's raw body.\<close>

definition webhookDelivery ::
    "Billing \<Rightarrow> (string \<Rightarrow> 'json option) \<Rightarrow> string \<Rightarrow> string option \<Rightarrow> string \<Rightarrow> TokenDb \<Rightarrow> (AppError + unit) \<times> TokenDb" where
  "webhookDelivery billing jsonParse url signature body td =
     (case jsonBody jsonParse url body of
        Inl e \<Rightarrow> (Inl e, td)
      | Inr (rawBody, value) \<Rightarrow> webhook billing signature rawBody td)"

section \<open>Results\<close>

text \<open>The bytes reach the webhook as they were sent, whatever the query and whatever they look like as JSON.\<close>

lemma webhook_url [simp]: "isWebhookUrl (''/api/v1/tokens/webhook'' @ q)" if "q = [] \<or> hd q = CHR ''?''"
  using that by (cases q) (auto simp: isWebhookUrl_def)

theorem webhook_gets_the_bytes:
  assumes "q = [] \<or> hd q = CHR ''?''"
  shows "webhookDelivery billing jsonParse (''/api/v1/tokens/webhook'' @ q) signature body td =
     webhook billing signature (Some body) td"
  using webhook_url [OF assms] by (simp add: webhookDelivery_def jsonBody_def del: append.simps)

text \<open>No other address keeps any bytes: the webhook's handler, reached under another spelling of its path, refuses
as an error of the server and moves nothing.\<close>

theorem other_addresses_keep_no_bytes:
  assumes "\<not> isWebhookUrl url" and "jsonBody jsonParse url body = Ok (rawBody, value)"
  shows "rawBody = None \<and> snd (webhookDelivery billing jsonParse url signature body td) = td \<and>
     (\<exists>e. fst (webhookDelivery billing jsonParse url signature body td) = Throw e)"
  using assms
  by (auto simp: jsonBody_def webhookDelivery_def webhook_def split: if_splits option.splits)

text \<open>A body that is not JSON is the client's mistake, a 400, and an empty one is no mistake.\<close>

theorem bad_json_is_refused:
  assumes "\<not> isWebhookUrl url"
  shows "(\<exists>e. jsonBody jsonParse url body = Throw e) \<longleftrightarrow> body \<noteq> [] \<and> jsonParse body = None"
    and "jsonBody jsonParse url body = Throw e \<Longrightarrow> statusCode e = 400"
  using assms by (auto simp: jsonBody_def appError_def statusCode_def split: option.splits if_splits)

end
