(* ===== verification/Campaign_Panel.thy ===== *)
theory Campaign_Panel
  imports Admin_Safety
begin

text \<open>The promotions screen of the administration panel, \<^verbatim>\<open>apps/admin/src/app/campaigns/page.tsx\<close>: what it says
of a campaign, the buttons of a row, the form with its warnings and what it submits. The results compare what the
screen tells the operator with what the server does.\<close>

section \<open>What a campaign is doing\<close>

datatype EffectiveState = EffDraft | EffScheduled | EffRunning | EffExpired | EffFull | EffPaused | EffEnded

definition effectiveState :: "CampaignRow \<Rightarrow> instant \<Rightarrow> EffectiveState" where
  "effectiveState c now =
     (if cg_status c = CampaignStatus_DRAFT then EffDraft
      else if cg_status c = CampaignStatus_PAUSED then EffPaused
      else if cg_status c = CampaignStatus_ENDED then EffEnded
      else if (case cg_startsAt c of None \<Rightarrow> False | Some t \<Rightarrow> now < t) then EffScheduled
      else if (case cg_endsAt c of None \<Rightarrow> False | Some t \<Rightarrow> t < now) then EffExpired
      else if (case cg_maxGrants c of None \<Rightarrow> False | Some m \<Rightarrow> m \<le> cg_grantsIssued c) then EffFull
      else EffRunning)"

fun STATE_LABEL :: "EffectiveState \<Rightarrow> string" where
  "STATE_LABEL EffDraft = ''draft''"
| "STATE_LABEL EffScheduled = ''starts later''"
| "STATE_LABEL EffRunning = ''granting''"
| "STATE_LABEL EffExpired = ''window passed''"
| "STATE_LABEL EffFull = ''limit reached''"
| "STATE_LABEL EffPaused = ''paused''"
| "STATE_LABEL EffEnded = ''ended''"

fun hasReason :: "EffectiveState \<Rightarrow> bool" where
  "hasReason EffScheduled = True"
| "hasReason EffExpired = True"
| "hasReason EffFull = True"
| "hasReason s = False"

section \<open>The page\<close>

record CampaignsPage =
  kp_campaigns :: "CampaignRow list"
  kp_loading :: bool
  kp_error :: "string option"
  kp_creating :: bool
  kp_busyId :: "row_id option"

definition initialCampaignsPage :: CampaignsPage where
  "initialCampaignsPage =
     \<lparr>kp_campaigns = [], kp_loading = True, kp_error = None, kp_creating = False, kp_busyId = None\<rparr>"

text \<open>\<^verbatim>\<open>load\<close>: what it does at once, and what with the answer.\<close>

definition loadBegins :: "CampaignsPage \<Rightarrow> CampaignsPage" where
  "loadBegins p = p\<lparr>kp_loading := True\<rparr>"

definition campaignsLoaded :: "CampaignRow list option \<Rightarrow> CampaignsPage \<Rightarrow> CampaignsPage" where
  "campaignsLoaded answer p =
     (case answer of
        None \<Rightarrow> p\<lparr>kp_error := Some ''Could not load campaigns.'', kp_loading := False\<rparr>
      | Some cs \<Rightarrow> p\<lparr>kp_campaigns := cs, kp_loading := False\<rparr>)"

text \<open>\<^verbatim>\<open>setStatus\<close>: the message of a refusal, if the server sent one; after a success the list is loaded again
before the row is released.\<close>

definition statusBegins :: "row_id \<Rightarrow> CampaignsPage \<Rightarrow> CampaignsPage" where
  "statusBegins cid p = p\<lparr>kp_busyId := Some cid, kp_error := None\<rparr>"

definition statusAnswered :: "string option option \<Rightarrow> CampaignRow list option \<Rightarrow> CampaignsPage \<Rightarrow> CampaignsPage" where
  "statusAnswered refusal reloaded p =
     (case refusal of
        None \<Rightarrow> (campaignsLoaded reloaded (loadBegins p))\<lparr>kp_busyId := None\<rparr>
      | Some message \<Rightarrow>
          p\<lparr>kp_error := Some (case message of None \<Rightarrow> ''Could not update.'' | Some m \<Rightarrow> m), kp_busyId := None\<rparr>)"

definition liveRows :: "instant \<Rightarrow> CampaignsPage \<Rightarrow> CampaignRow list" where
  "liveRows now p = filter (\<lambda>c. effectiveState c now = EffRunning) (kp_campaigns p)"

definition restRows :: "instant \<Rightarrow> CampaignsPage \<Rightarrow> CampaignRow list" where
  "restRows now p = filter (\<lambda>c. effectiveState c now \<noteq> EffRunning) (kp_campaigns p)"

text \<open>The buttons of a row, each with the status it asks for.\<close>

definition rowButtons :: "CampaignRow \<Rightarrow> (string \<times> CampaignStatus) list" where
  "rowButtons c =
     (if cg_status c \<noteq> CampaignStatus_ENDED \<and> cg_status c \<noteq> CampaignStatus_ACTIVE
      then [(''Start'', CampaignStatus_ACTIVE)] else []) @
     (if cg_status c = CampaignStatus_ACTIVE then [(''Pause'', CampaignStatus_PAUSED)] else []) @
     (if cg_status c \<noteq> CampaignStatus_ENDED then [(''End'', CampaignStatus_ENDED)] else [])"

definition spent :: "CampaignRow \<Rightarrow> int" where
  "spent c = cg_grantsIssued c * cg_tokens c"

definition statusBody :: "CampaignStatus \<Rightarrow> raw" where
  "statusBody next = Obj [(''status'', Text (campaignStatusText next))]"

section \<open>The form\<close>

text \<open>What is typed stays text. \<^verbatim>\<open>Number\<close>, \<^verbatim>\<open>new Date(...).getTime()\<close> and \<^verbatim>\<open>toISOString\<close> are parameters; the first two
answer nothing where JavaScript has \<^verbatim>\<open>NaN\<close> (or an infinite number).\<close>

record FormEnv =
  fe_number :: "string \<Rightarrow> rat option"
  fe_time :: "string \<Rightarrow> instant option"
  fe_iso :: "instant \<Rightarrow> string"

record CampaignForm =
  kf_name :: string
  kf_description :: string
  kf_tokens :: string
  kf_audience :: CampaignAudience
  kf_startsAt :: string
  kf_endsAt :: string
  kf_maxGrants :: string
  kf_requiresVerifiedEmail :: bool

definition emptyCampaignForm :: CampaignForm where
  "emptyCampaignForm =
     \<lparr>kf_name = [], kf_description = [], kf_tokens = ''50'', kf_audience = NEW_USERS, kf_startsAt = [], kf_endsAt = [],
      kf_maxGrants = [], kf_requiresVerifiedEmail = True\<rparr>"

definition formAmount :: "FormEnv \<Rightarrow> CampaignForm \<Rightarrow> rat option" where
  "formAmount env f = fe_number env (kf_tokens f)"

text \<open>No limit is \<open>None\<close>, a limit that is no number \<open>Some None\<close>.\<close>

definition capOf :: "FormEnv \<Rightarrow> CampaignForm \<Rightarrow> rat option option" where
  "capOf env f = (if kf_maxGrants f = [] then None else Some (fe_number env (kf_maxGrants f)))"

datatype FormNotice = UpTo rat | NoCeiling rat | NothingUntil instant | EndInPast | NewAccountsOnly

definition formNotices :: "FormEnv \<Rightarrow> instant \<Rightarrow> CampaignForm \<Rightarrow> FormNotice list" where
  "formNotices env now f =
     (case (capOf env f, formAmount env f) of
        (Some (Some cap), Some a) \<Rightarrow> if 0 < cap * a then [UpTo (cap * a)] else []
      | (None, Some a) \<Rightarrow> if 0 < a then [NoCeiling a] else []
      | other \<Rightarrow> []) @
     (case fe_time env (kf_startsAt f) of
        None \<Rightarrow> [] | Some t \<Rightarrow> if kf_startsAt f \<noteq> [] \<and> now < t then [NothingUntil t] else []) @
     (case fe_time env (kf_endsAt f) of
        None \<Rightarrow> [] | Some t \<Rightarrow> if kf_endsAt f \<noteq> [] \<and> t < now then [EndInPast] else []) @
     (if kf_audience f = NEW_USERS then [NewAccountsOnly] else [])"

definition canCreate :: "FormEnv \<Rightarrow> CampaignForm \<Rightarrow> bool" where
  "canCreate env f \<longleftrightarrow>
     trimString (kf_name f) \<noteq> [] \<and> (case formAmount env f of None \<Rightarrow> False | Some a \<Rightarrow> 1 \<le> a)"

text \<open>The body of the request: what is no number goes out as null; a date that is none makes \<^verbatim>\<open>toISOString\<close> throw.\<close>

definition numberBody :: "rat option \<Rightarrow> raw" where
  "numberBody q = (case q of None \<Rightarrow> Null | Some x \<Rightarrow> Num x)"

definition dateBody :: "FormEnv \<Rightarrow> string \<Rightarrow> raw option" where
  "dateBody env s = (if s = [] then Some Null else map_option (\<lambda>t. Text (fe_iso env t)) (fe_time env s))"

definition campaignBody :: "FormEnv \<Rightarrow> CampaignForm \<Rightarrow> raw option" where
  "campaignBody env f = do {
     startsAt \<leftarrow> dateBody env (kf_startsAt f);
     endsAt \<leftarrow> dateBody env (kf_endsAt f);
     Some (Obj ([(''name'', Text (trimString (kf_name f)))] @
       (if trimString (kf_description f) = [] then [] else [(''description'', Text (trimString (kf_description f)))]) @
       [(''tokens'', numberBody (formAmount env f)),
        (''audience'', Text (case kf_audience f of NEW_USERS \<Rightarrow> ''NEW_USERS'' | ALL_USERS \<Rightarrow> ''ALL_USERS'')),
        (''startsAt'', startsAt), (''endsAt'', endsAt),
        (''maxGrants'', case capOf env f of None \<Rightarrow> Null | Some cap \<Rightarrow> numberBody cap),
        (''requiresVerifiedEmail'', Bool (kf_requiresVerifiedEmail f))])) }"

section \<open>What the screen says is what happens\<close>

lemma running_iff:
  "effectiveState c now = EffRunning \<longleftrightarrow>
     isLive now c \<and> (case cg_maxGrants c of None \<Rightarrow> True | Some m \<Rightarrow> cg_grantsIssued c < m)"
  by (cases "cg_status c") (auto simp: effectiveState_def isLive_def split: option.split)

lemma claimAll_eligible:
  "g \<in> set (fst (claimAll ctx u cs granted td)) \<Longrightarrow>
   g \<in> set granted \<or> (\<exists>c \<in> set cs. isEligible ctx c \<and> gt_campaignId g = cg_id c)"
proof (induction cs arbitrary: granted td)
  case (Cons c cs)
  show ?case
  proof (cases "isEligible ctx c")
    case True
    obtain r td' where r: "claim (cg_id c) u td = (r, td')" by fastforce
    show ?thesis
    proof (cases r)
      case (Inl e)
      then show ?thesis using Cons.prems True r by simp
    next
      case (Inr o')
      show ?thesis
      proof (cases o')
        case None
        then show ?thesis using Cons.prems Cons.IH True r Inr by (simp; blast)
      next
        case (Some x)
        have "gt_campaignId x = cg_id c"
          using r Inr Some by (auto simp: claim_def split: option.splits sum.splits TokenFailure.splits)
        moreover have "g \<in> set (granted @ [x]) \<or> (\<exists>d \<in> set cs. isEligible ctx d \<and> gt_campaignId g = cg_id d)"
          using Cons.prems True r Inr Some by (intro Cons.IH) simp
        ultimately show ?thesis using True by auto
      qed
    qed
  next
    case False
    then show ?thesis using Cons.prems Cons.IH by (simp; blast)
  qed
qed simp

lemma claim_not_refused:
  assumes f: "findCampaign cid td = Some c" and r: "effectiveState c now = EffRunning" and h: "\<not> hasGrant cid u td"
  shows "fst (claim cid u td) \<noteq> Ok None"
proof -
  have i: "cg_id c = cid" using findCampaign_Some [OF f] by simp
  obtain td1 where td1: "reserveSlot c td = Some td1"
    using r f i by (auto simp: running_iff reserveSlot_def isLive_def split: option.splits)
  then have "\<not> hasGrant cid u td1"
    using h by (auto simp: reserveSlot_def hasGrant_def split: option.splits if_splits)
  then have "grantTx c u td1 \<noteq> Inl UniqueViolation"
    by (auto simp: grantTx_def credit_def Let_def i)
  then show ?thesis
    using f h td1 by (auto simp: claim_def claimRead_def split: sum.split TokenFailure.split)
qed



section \<open>Who counts as new\<close>

text \<open>The form says of new accounts that only those created after the promotion starts qualify, that existing ones
are never paid retroactively, and that a promotion without a start date starts when it is switched on. The moment of
switching on is recorded nowhere: what counts is when the campaign was written down. However long it stays a draft,
everybody who signed up meanwhile is paid once it is switched on.\<close>

theorem draft_accounts_are_paid:
  assumes "findCampaign cid td = Some c" and "cg_status c = CampaignStatus_DRAFT" and "cg_audience c = NEW_USERS"
    and "cg_startsAt c = None" and "cg_endsAt c = None" and "cg_maxGrants c = None"
    and "cg_createdAt c \<le> ec_createdAt ctx" and "cg_requiresVerifiedEmail c \<Longrightarrow> ec_emailVerified ctx"
    and "\<not> hasGrant cid u td" and "setStatus cid CampaignStatus_ACTIVE td = Ok (True, td')"
  shows "\<exists>c'. findCampaign cid td' = Some c' \<and> effectiveState c' now = EffRunning \<and> isEligible ctx c' \<and>
     fst (claim cid u td') \<noteq> Ok None"
proof -
  let ?c = "c\<lparr>cg_status := CampaignStatus_ACTIVE\<rparr>"
  have td': "td' = td\<lparr>td_campaigns := updateWhere (\<lambda>c. cg_id c = cid)
      (\<lambda>c. c\<lparr>cg_status := CampaignStatus_ACTIVE\<rparr>) (td_campaigns td)\<rparr>"
    using assms(1,2,10) by (simp add: setStatus_def)
  have f: "findCampaign cid td' = Some ?c"
    using assms(1) findCampaign_Some [OF assms(1)] by (simp add: td' findCampaign_def find_updateWhere)
  have r: "effectiveState ?c now = EffRunning" using assms(4-6) by (simp add: effectiveState_def)
  have "\<not> hasGrant cid u td'" using assms(9) by (simp add: td' hasGrant_def)
  then have "fst (claim cid u td') \<noteq> Ok None" using claim_not_refused [OF f r] by blast
  moreover have "isEligible ctx ?c" using assms(3,4,6-8) by (simp add: isEligible_def)
  ultimately show ?thesis using f r by blast
qed

section \<open>From the form to the table\<close>

text \<open>What the form submits, once the server accepts it, is a stopped campaign: the screen shows it as a draft with
the amount typed, and the two buttons of its row are start and end.\<close>

theorem submitted_promotions_are_stopped:
  assumes "canCreate env f" and "campaignBody env f = Some body" and "createCampaignSchema (ad_formats aenv) body = Some i"
    and "adminHandler aenv user (PostCampaign body) s = (r, s')"
    and "\<forall>c \<in> set (td_campaigns (si_tokens s)). cg_id c \<noteq> ad_freshId aenv"
  shows "\<exists>c. findCampaign (ad_freshId aenv) (si_tokens s') = Some c \<and> effectiveState c now = EffDraft \<and>
     formAmount env f = Some (of_int (cg_tokens c)) \<and> map fst (rowButtons c) = [''Start'', ''End'']"
proof -
  have t: "grantTokensSchema (numberBody (formAmount env f)) = Some (ca_tokens i)"
    using assms(2,3)
    by (auto simp: campaignBody_def createCampaignSchema_def bind_eq_Some_conv split: if_splits)
  have "formAmount env f = Some (of_int (ca_tokens i))"
    using t by (cases "formAmount env f")
      (auto simp: numberBody_def grantTokensSchema_def zRefine_def zInt_def bind_eq_Some_conv split: if_splits)
  moreover have "si_tokens s' = createCampaign (ad_freshId aenv) (ad_now aenv) (ca_name i) (ca_description i) (ca_tokens i)
                 (ca_audience i) (Option.bind (ca_startsAt i) id) (Option.bind (ca_endsAt i) id)
                 (Option.bind (ca_maxGrants i) id) (Some (ca_requiresVerifiedEmail i)) (au_id user) (si_tokens s)"
    using assms(3,4) by (auto simp: parsed_def parse_def postCampaign_def onDb_def Let_def)
  moreover have "find (\<lambda>c. cg_id c = ad_freshId aenv) (td_campaigns (si_tokens s) @ [x]) = Some x"
    if "cg_id x = ad_freshId aenv" for x
  proof -
    have "find (\<lambda>c. cg_id c = ad_freshId aenv) (cs @ [x]) = Some x" if "\<forall>c \<in> set cs. cg_id c \<noteq> ad_freshId aenv" for cs
      using that \<open>cg_id x = ad_freshId aenv\<close> by (induction cs) auto
    then show ?thesis using assms(5) by blast
  qed
  ultimately show ?thesis
    by (simp add: findCampaign_def createCampaign_def effectiveState_def rowButtons_def)
qed

section \<open>Examples\<close>



end
