(* ===== verification/Settings_Page.thy ===== *)
theory Settings_Page
  imports Profile_Safety
begin

text \<open>The settings screen, \<^verbatim>\<open>apps/web/src/app/[locale]/settings/page.tsx\<close>: its tabs, what each form starts from,
what can be pressed, what is sent, and what becomes of the answer. The results run the screen against the profile
routes: saving what was not touched changes nothing, where it can be saved at all.\<close>

section \<open>The screen\<close>

datatype SettingsTab = TabProfile | TabPrivacy | TabMatching | TabBlocked | TabAccount

definition TABS :: "SettingsTab list" where
  "TABS = [TabProfile, TabPrivacy, TabMatching, TabBlocked, TabAccount]"

record SettingsPage =
  sp_tab :: SettingsTab
  sp_profile :: "SelfProfile option"
  sp_interests :: "string list"
  sp_error :: "string option"
  sp_saved :: bool

definition initialSettingsPage :: SettingsPage where
  "initialSettingsPage =
     \<lparr>sp_tab = TabProfile, sp_profile = None, sp_interests = [], sp_error = None, sp_saved = False\<rparr>"

definition settingsLoaded :: "(SelfProfile \<times> string list) option \<Rightarrow> SettingsPage \<Rightarrow> SettingsPage" where
  "settingsLoaded answer p =
     (case answer of
        None \<Rightarrow> p\<lparr>sp_error := Some ''loadFailed''\<rparr>
      | Some (me, catalogue) \<Rightarrow> p\<lparr>sp_profile := Some me, sp_interests := catalogue\<rparr>)"

text \<open>Why a save failed: refused by the server, with its complaints by field and its message, or not answered.\<close>

datatype SaveFailure = SaveRefused "(string \<times> string list) list" string | SaveUnanswered

fun failureText :: "SaveFailure \<Rightarrow> string" where
  "failureText (SaveRefused ((field, complaint # others) # rest) message) = complaint"
| "failureText (SaveRefused complaints message) = message"
| "failureText SaveUnanswered = ''saveFailed''"

definition saveAnswered :: "SaveFailure + SelfProfile \<Rightarrow> SettingsPage \<Rightarrow> SettingsPage" where
  "saveAnswered answer p =
     (case answer of
        Inl e \<Rightarrow> p\<lparr>sp_error := Some (failureText e)\<rparr>
      | Inr me \<Rightarrow> p\<lparr>sp_error := None, sp_profile := Some me, sp_saved := True\<rparr>)"

section \<open>Profile\<close>

record ProfileForm =
  fp_displayName :: string
  fp_bio :: string
  fp_country :: string
  fp_gender :: string
  fp_chosen :: "string list"

definition profileForm :: "SelfProfile \<Rightarrow> ProfileForm" where
  "profileForm me =
     \<lparr>fp_displayName = orElse (sf_displayName me) [], fp_bio = orElse (sf_bio me) [],
      fp_country = orElse (sf_country me) [],
      fp_gender = (case sf_gender me of None \<Rightarrow> ''UNSPECIFIED'' | Some g \<Rightarrow> genderText g),
      fp_chosen = sf_interests me\<rparr>"

text \<open>A chip: those not chosen cannot be pressed at the limit.\<close>

definition chipPressed :: "nat \<Rightarrow> string \<Rightarrow> string list \<Rightarrow> string list" where
  "chipPressed limit x chosen =
     (if x \<in> set chosen then filter (\<lambda>y. y \<noteq> x) chosen
      else if limit \<le> length chosen then chosen else chosen @ [x])"

definition interestPressed :: "string \<Rightarrow> ProfileForm \<Rightarrow> ProfileForm" where
  "interestPressed slug f = f\<lparr>fp_chosen := chipPressed MAX_INTERESTS_PER_USER slug (fp_chosen f)\<rparr>"

definition textOrNull :: "string \<Rightarrow> raw" where
  "textOrNull s = (if trimString s = [] then Null else Text (trimString s))"

definition profileBody :: "ProfileForm \<Rightarrow> raw" where
  "profileBody f =
     Obj [(''displayName'', textOrNull (fp_displayName f)), (''bio'', textOrNull (fp_bio f)),
          (''country'', Text (fp_country f)), (''gender'', Text (fp_gender f))]"

definition interestsBody :: "ProfileForm \<Rightarrow> raw" where
  "interestsBody f = Obj [(''interests'', Arr (map Text (fp_chosen f)))]"

text \<open>Two requests; the second is sent when the first has succeeded.\<close>

definition saveProfileTab ::
    "Formats \<Rightarrow> (string \<times> bool) list \<Rightarrow> UtcDate \<Rightarrow> AuthenticatedUser \<Rightarrow> ProfileForm \<Rightarrow> Db \<Rightarrow>
     (AppError + SelfProfile) \<times> Db" where
  "saveProfileTab fm stored today user f db =
     (case profileRoute fm stored today user (PatchProfile (profileBody f)) db of
        (Inl e, db1) \<Rightarrow> (Inl e, db1)
      | (Inr me, db1) \<Rightarrow> profileRoute fm stored today user (PutInterests (interestsBody f)) db1)"

section \<open>Privacy\<close>

definition PRIVACY_TOGGLES :: "(string \<times> bool) list" where
  "PRIVACY_TOGGLES =
     [(''showDisplayName'', True), (''showCountry'', True), (''showAgeBracket'', True), (''showGender'', False),
      (''showInterests'', False), (''showBio'', False), (''allowConnectionRequests'', True)]"

text \<open>The settings as the profile route sends them: the seven switches, whatever else the stored row has, and the
overrides, which are always sent as an empty object (\<^verbatim>\<open>profile.routes.ts\<close>, line 73).\<close>

definition privacyJson :: "(string \<times> raw) list \<Rightarrow> SelfProfile \<Rightarrow> (string \<times> raw) list" where
  "privacyJson columns me =
     (let s = sf_privacy me in
      [(''showDisplayName'', Bool (showDisplayName s)), (''showCountry'', Bool (showCountry s)),
       (''showAgeBracket'', Bool (showAgeBracket s)), (''showGender'', Bool (showGender s)),
       (''showInterests'', Bool (showInterests s)), (''showBio'', Bool (showBio s)),
       (''allowConnectionRequests'', Bool (allowConnectionRequests s))] @ columns @ [(''fieldOverrides'', Obj [])])"

definition checkedToggle :: "string \<Rightarrow> (string \<times> raw) list \<Rightarrow> bool" where
  "checkedToggle key vals = (case map_of vals key of Some (Bool b) \<Rightarrow> b | other \<Rightarrow> True)"

text \<open>\<^verbatim>\<open>{ ...previous, [toggle.key]: checked }\<close>.\<close>

definition toggled :: "string \<Rightarrow> bool \<Rightarrow> (string \<times> raw) list \<Rightarrow> (string \<times> raw) list" where
  "toggled key b vals =
     (if key \<in> fst ` set vals then map (\<lambda>(k, v). if k = key then (k, Bool b) else (k, v)) vals
      else vals @ [(key, Bool b)])"

definition savePrivacyTab ::
    "Formats \<Rightarrow> (string \<times> bool) list \<Rightarrow> UtcDate \<Rightarrow> AuthenticatedUser \<Rightarrow> (string \<times> raw) list \<Rightarrow> Db \<Rightarrow>
     (AppError + SelfProfile) \<times> Db" where
  "savePrivacyTab fm stored today user vals db = profileRoute fm stored today user (PatchPrivacy (Obj vals)) db"

section \<open>Matching\<close>

record MatchingForm =
  pm_gender :: string
  pm_countries :: "string list"
  pm_autoRequeue :: bool
  pm_startMuted :: bool
  pm_startCameraOff :: bool

text \<open>The three switches only the browser reads are beside the model of the row, so they are arguments.\<close>

definition matchingForm :: "bool option \<Rightarrow> bool option \<Rightarrow> bool option \<Rightarrow> SelfProfile \<Rightarrow> MatchingForm" where
  "matchingForm autoRequeue startMuted startCameraOff me =
     \<lparr>pm_gender = (case sf_preferences me of None \<Rightarrow> ''ANY'' | Some p \<Rightarrow> genderPreferenceText (pf_preferredGender p)),
      pm_countries = (case sf_preferences me of None \<Rightarrow> [] | Some p \<Rightarrow> pf_preferredCountries p),
      pm_autoRequeue = orElse autoRequeue True, pm_startMuted = orElse startMuted False,
      pm_startCameraOff = orElse startCameraOff False\<rparr>"

definition countryPressed :: "PlanTier \<Rightarrow> string \<Rightarrow> MatchingForm \<Rightarrow> MatchingForm" where
  "countryPressed plan code f = f\<lparr>pm_countries := chipPressed (PREFERRED_COUNTRY_LIMIT plan) code (pm_countries f)\<rparr>"

definition matchingBody :: "MatchingForm \<Rightarrow> raw" where
  "matchingBody f =
     Obj [(''preferredGender'', Text (pm_gender f)), (''preferredCountries'', Arr (map Text (pm_countries f))),
          (''autoRequeue'', Bool (pm_autoRequeue f)), (''startMuted'', Bool (pm_startMuted f)),
          (''startCameraOff'', Bool (pm_startCameraOff f))]"

definition saveMatchingTab ::
    "Formats \<Rightarrow> (string \<times> bool) list \<Rightarrow> UtcDate \<Rightarrow> AuthenticatedUser \<Rightarrow> MatchingForm \<Rightarrow> Db \<Rightarrow>
     (AppError + SelfProfile) \<times> Db" where
  "saveMatchingTab fm stored today user f db = profileRoute fm stored today user (PatchPreferences (matchingBody f)) db"

section \<open>Blocked people\<close>

record BlockedTab =
  bk_blocked :: "user_id list"
  bk_loading :: bool

datatype BlockedView = BlockedLoading | BlockedEmpty | BlockedRows "user_id list"

definition blockedView :: "BlockedTab \<Rightarrow> BlockedView" where
  "blockedView b =
     (if bk_loading b then BlockedLoading else if bk_blocked b = [] then BlockedEmpty else BlockedRows (bk_blocked b))"

definition initialBlockedTab :: BlockedTab where
  "initialBlockedTab = \<lparr>bk_blocked = [], bk_loading = True\<rparr>"

text \<open>\<^verbatim>\<open>try ... finally\<close>: a failure only ends the loading.\<close>

definition blockedLoaded :: "user_id list option \<Rightarrow> BlockedTab \<Rightarrow> BlockedTab" where
  "blockedLoaded answer b =
     (case answer of
        None \<Rightarrow> b\<lparr>bk_loading := False\<rparr> | Some items \<Rightarrow> \<lparr>bk_blocked = items, bk_loading = False\<rparr>)"

text \<open>\<^verbatim>\<open>unblock\<close>: the list is loaded again when the request succeeded, and nothing happens when it did not.\<close>

definition unblockAnswered :: "bool \<Rightarrow> user_id list option \<Rightarrow> BlockedTab \<Rightarrow> BlockedTab" where
  "unblockAnswered ok reloaded b = (if ok then blockedLoaded reloaded (b\<lparr>bk_loading := True\<rparr>) else b)"

section \<open>Account\<close>

record AccountTab =
  ac_confirming :: bool
  ac_password :: string
  ac_confirmation :: string
  ac_error :: "string option"
  ac_busy :: bool
  ac_scheduled :: "instant option"

definition DELETE_CONFIRMATION :: string where
  "DELETE_CONFIRMATION = ''DELETE''"

definition canDelete :: "AccountTab \<Rightarrow> bool" where
  "canDelete a \<longleftrightarrow>
     ac_scheduled a = None \<and> ac_confirming a \<and> \<not> ac_busy a \<and> ac_confirmation a = DELETE_CONFIRMATION"

definition deleteBody :: "AccountTab \<Rightarrow> raw" where
  "deleteBody a = Obj [(''password'', Text (ac_password a)), (''confirmation'', Text (ac_confirmation a))]"

definition deleteAnswered :: "string option + instant \<Rightarrow> AccountTab \<Rightarrow> AccountTab" where
  "deleteAnswered answer a =
     (case answer of
        Inl message \<Rightarrow> a\<lparr>ac_error := Some (orElse message ''deleteFailed''), ac_busy := False\<rparr>
      | Inr scheduledFor \<Rightarrow> a\<lparr>ac_error := None, ac_scheduled := Some scheduledFor, ac_busy := False\<rparr>)"

section \<open>The privacy tab cannot save\<close>

lemma toggled_keys: "fst ` set vals \<subseteq> fst ` set (toggled key b vals)"
  by (force simp: toggled_def image_iff)

lemma toggles_keys: "fst ` set vals \<subseteq> fst ` set (fold (\<lambda>(key, b). toggled key b) switches vals)"
proof (induction switches arbitrary: vals)
  case (Cons sw switches)
  obtain key b where sw: "sw = (key, b)" by fastforce
  show ?case using toggled_keys [of vals key b] Cons.IH [of "toggled key b vals"] by (simp add: sw)
qed simp

text \<open>C16: Nobody can change their privacy settings here. The form starts from the settings as the server sends them
and sends all of that back, with the switches turned; among it are the overrides, which the server always sends and
never accepts. So whatever was turned, saving is refused as invalid and changes nothing: a user who wants to hide
the country, the age or the picture of what they like stays as visible as before.\<close>

theorem privacy_tab_never_saves:
  "savePrivacyTab fm stored today user (fold (\<lambda>(key, b). toggled key b) switches (privacyJson columns me)) db =
     (Throw Errors_validation, db)"
proof -
  let ?vals = "fold (\<lambda>(key, b). toggled key b) switches (privacyJson columns me)"
  have "''fieldOverrides'' \<in> fst ` set (privacyJson columns me)" by (simp add: privacyJson_def Let_def)
  then have "''fieldOverrides'' \<in> fst ` set ?vals" using toggles_keys by blast
  then have "updatePrivacySchema (Obj ?vals) = None" by (auto simp: updatePrivacySchema_def)
  then show ?thesis by (simp add: savePrivacyTab_def patchPrivacy_def parse_def)
qed

section \<open>Saving what was not touched\<close>

text \<open>A text of a profile as the schema stores it, not empty.\<close>

definition settledText :: "nat \<Rightarrow> string option \<Rightarrow> bool" where
  "settledText mx t = (case t of None \<Rightarrow> True | Some x \<Rightarrow> x \<noteq> [] \<and> displayTextSchema mx (Text x) = Some x)"

lemma jsSpace_isSpace: "isJsSpace c \<Longrightarrow> isSpace (of_char c)"
  by (auto simp: isJsSpace_def isSpace_def)

lemma trim_settled: "displayTextSchema mx v = Some x \<Longrightarrow> trimString x = x"
proof (cases "x = []")
  case True
  then show ?thesis by (simp add: trimString_def)
next
  case False
  assume "displayTextSchema mx v = Some x"
  then obtain t where "x = sanitizeText t" by (auto simp: displayTextSchema_def schema_Some)
  then have "cleanText (codeUnits x)" by (simp add: codeUnits_sanitizeText cleanText_sanitize)
  then have "\<not> isSpace (hd (codeUnits x))" "\<not> isSpace (last (codeUnits x))"
    using False by (auto simp: cleanText_def codeUnits_def)
  then have "\<not> isJsSpace (hd x)" "\<not> isJsSpace (last x)"
    using False jsSpace_isSpace by (auto simp: codeUnits_def hd_map last_map)
  with False show ?thesis by (rule trimString_id)
qed

lemma settled_again:
  "settledText mx t \<Longrightarrow> zOptional (zNullable (displayTextSchema mx)) (textOrNull (orElse t [])) = Some (Some t)"
proof (cases t)
  case None
  then show ?thesis by (simp add: textOrNull_def orElse_def zOptional_def zNullable_def trimString_def)
next
  case (Some x)
  moreover assume "settledText mx t"
  ultimately have "x \<noteq> []" "displayTextSchema mx (Text x) = Some x" by (simp_all add: settledText_def)
  moreover from this(2) have "trimString x = x" by (rule trim_settled)
  ultimately show ?thesis using Some by (simp add: textOrNull_def orElse_def zOptional_def zNullable_def)
qed

lemma genderSchema_text: "genderSchema (Text (genderText g)) = Some g"
  by (cases g) (simp_all add: genderSchema_def zEnum_def GENDERS_def)

lemma slugs_again:
  assumes "\<forall>x \<in> set xs. interestSlugSchema (Text x) = Some x"
  shows "zArray interestSlugSchema (Arr (map Text xs)) = Some xs"
  using assms by (induction xs) simp_all

lemma countries_again:
  assumes "\<forall>x \<in> set xs. countryCodeSchema (Text x) = Some x"
  shows "zArray countryCodeSchema (Arr (map Text xs)) = Some xs"
  using assms by (induction xs) simp_all

lemma left_out: "zOptional sch Undefined = Some None"
  by (simp add: zOptional_def)

lemma profileBody_again:
  assumes "settledText 40 (pr_displayName p)" and "settledText 300 (pr_bio p)"
    and "pr_country p = Some c" and "countryCodeSchema (Text c) = Some c"
    and me: "sf_displayName me = pr_displayName p" "sf_bio me = pr_bio p" "sf_country me = pr_country p"
      "sf_gender me = Some (pr_gender p)"
  shows "updateProfileSchema fm (profileBody (profileForm me)) = Some
     \<lparr>up_displayName = Some (pr_displayName p), up_bio = Some (pr_bio p), up_avatarUrl = None, up_country = Some c,
      up_gender = Some (pr_gender p), up_languages = None, up_locale = None\<rparr>"
proof -
  have n: "zOptional (zNullable displayNameSchema) (textOrNull (orElse (pr_displayName p) [])) = Some (Some (pr_displayName p))"
    and b: "zOptional (zNullable bioSchema) (textOrNull (orElse (pr_bio p) [])) = Some (Some (pr_bio p))"
    using settled_again assms(1,2) by (simp_all add: displayNameSchema_def bioSchema_def)
  have "zOptional countryCodeSchema (Text c) = Some (Some c)"
    and "zOptional genderSchema (Text (genderText (pr_gender p))) = Some (Some (pr_gender p))"
    using assms(4) genderSchema_text by (simp_all add: zOptional_def)
  then show ?thesis
    using n b by (simp add: updateProfileSchema_def profileBody_def profileForm_def me assms(3) orElse_def left_out)
qed

lemma interestsBody_again:
  assumes "\<forall>x \<in> set xs. interestSlugSchema (Text x) = Some x" and "distinct xs" and "length xs \<le> MAX_INTERESTS_PER_USER"
    and "fp_chosen f = xs"
  shows "updateInterestsSchema (interestsBody f) = Some xs"
  using assms slugs_again [of xs]
  by (simp add: updateInterestsSchema_def interestsBody_def zMap_def zRefine_def atMost_def MAX_INTERESTS_PER_USER_def
      dedup_distinct)

lemma matchingBody_again:
  assumes "\<forall>x \<in> set (pf_preferredCountries pf). countryCodeSchema (Text x) = Some x"
    and "length (pf_preferredCountries pf) \<le> 20" and "sf_preferences me = Some pf"
  shows "\<exists>r. updatePreferencesSchema (matchingBody (matchingForm a b c me)) = Some r \<and>
     uf_preferredCountries r = Some (pf_preferredCountries pf) \<and> applyPreferences r pf = pf"
proof -
  have "genderPreferenceSchema (Text (genderPreferenceText g)) = Some g" for g
    by (cases g) (simp_all add: genderPreferenceSchema_def zEnum_def GENDER_PREFERENCES_def)
  then show ?thesis
    using assms countries_again [OF assms(1)]
    by (simp add: updatePreferencesSchema_def matchingBody_def matchingForm_def zOptional_def zRefine_def atMost_def
        applyPreferences_def orElse_def)
qed

text \<open>C17: Opening the settings and saving without touching anything changes nothing. For an account with a country,
whose texts, interests and preferred countries are as the schemas store them and within the limits of its plan, the
profile tab and the matching tab each send back what they were given, the server accepts it, and answers with the
same profile; the tables are as they were.\<close>

theorem untouched_save_changes_nothing:
  assumes u: "db_users db (au_id user) = Some u" and p: "u_profile u = Some p" and pf: "u_preference u = Some pf"
    and texts: "settledText 40 (pr_displayName p)" "settledText 300 (pr_bio p)"
    and country: "pr_country p = Some c" "countryCodeSchema (Text c) = Some c"
    and interests: "u_interests u = filter (\<lambda>s. s \<in> set (u_interests u)) (interestCatalogue stored)"
      "\<forall>x \<in> set (u_interests u). interestSlugSchema (Text x) = Some x" "distinct (u_interests u)"
      "length (u_interests u) \<le> MAX_INTERESTS_PER_USER"
    and countries: "\<forall>x \<in> set (pf_preferredCountries pf). countryCodeSchema (Text x) = Some x"
      "length (pf_preferredCountries pf) \<le> PREFERRED_COUNTRY_LIMIT (au_plan user)"
    and me: "loadProfile (au_id user) today db = Ok me"
  shows "saveProfileTab fm stored today user (profileForm me) db = (Ok me, db) \<and>
     saveMatchingTab fm stored today user (matchingForm autoRequeue startMuted startCameraOff me) db = (Ok me, db)"
proof
  have m: "sf_displayName me = pr_displayName p" "sf_bio me = pr_bio p" "sf_country me = pr_country p"
      "sf_gender me = Some (pr_gender p)" "sf_interests me = u_interests u" "sf_preferences me = Some pf"
    using me by (auto simp: loadProfile_def u p pf Let_def)
  let ?i = "\<lparr>up_displayName = Some (pr_displayName p), up_bio = Some (pr_bio p), up_avatarUrl = None, up_country = Some c,
      up_gender = Some (pr_gender p), up_languages = None, up_locale = None\<rparr>"
  have keep: "u\<lparr>u_profile := Some p\<rparr> = u" "u\<lparr>u_preference := Some pf\<rparr> = u" using p pf by (cases u; simp)+
  have "applyProfile ?i p = p" by (simp add: applyProfile_def orElse_def country(1))
  then have same: "u\<lparr>u_profile := map_option (applyProfile ?i) (u_profile u)\<rparr> = u" by (simp only: p option.map keep)
  have first: "updateUser (au_id user) (\<lambda>u. u\<lparr>u_profile := map_option (applyProfile ?i) (u_profile u)\<rparr>) db = db"
  proof (rule updateUser_self)
    fix r
    assume "db_users db (au_id user) = Some r"
    with u have "r = u" by (simp only: option.inject)
    then show "r\<lparr>u_profile := map_option (applyProfile ?i) (u_profile r)\<rparr> = r" using same by (simp only:)
  qed
  from this have one: "patchProfile fm (au_id user) today (profileBody (profileForm me)) db = (Ok me, db)"
    by (simp add: patchProfile_def parse_def profileBody_again [OF texts country m(1-4)] me)
  have "fp_chosen (profileForm me) = u_interests u" by (simp add: profileForm_def m(5))
  then have body: "updateInterestsSchema (interestsBody (profileForm me)) = Some (u_interests u)"
    by (intro interestsBody_again interests)
  have "updateUser (au_id user) (\<lambda>v. v\<lparr>u_interests := u_interests u\<rparr>) db = db"
    by (rule updateUser_self) (simp add: u)
  then have "putInterests stored (au_id user) today (interestsBody (profileForm me)) db = (Ok me, db)"
    using interests(4) by (simp add: putInterests_def parse_def body u me flip: interests(1))
  with one show "saveProfileTab fm stored today user (profileForm me) db = (Ok me, db)"
    by (simp add: saveProfileTab_def)
  have "PREFERRED_COUNTRY_LIMIT (au_plan user) \<le> 20" by (cases "au_plan user") simp_all
  then obtain r where r: "updatePreferencesSchema (matchingBody (matchingForm autoRequeue startMuted startCameraOff me)) = Some r"
      "uf_preferredCountries r = Some (pf_preferredCountries pf)" "applyPreferences r pf = pf"
    using matchingBody_again [OF countries(1) _ m(6)] countries(2) by fastforce
  have "updateUser (au_id user) (\<lambda>u. u\<lparr>u_preference := Some (applyPreferences r (orElse (u_preference u) defaultPreference))\<rparr>) db = db"
  proof (rule updateUser_self)
    fix v
    assume "db_users db (au_id user) = Some v"
    with u have "v = u" by (simp only: option.inject)
    then show "v\<lparr>u_preference := Some (applyPreferences r (orElse (u_preference v) defaultPreference))\<rparr> = v"
      by (simp only: pf orElse_def option.case r(3) keep)
  qed
  then show "saveMatchingTab fm stored today user (matchingForm autoRequeue startMuted startCameraOff me) db = (Ok me, db)"
    using r countries(2) by (simp add: saveMatchingTab_def patchPreferences_def parse_def overLimit_def u me)
qed

section \<open>Where it cannot be saved\<close>

text \<open>An account without a country, which the administrator script makes, cannot save its profile at all: the form
shows the first country of the list and sends none.\<close>

theorem no_country_no_save:
  assumes "sf_country me = None" and "fp_country f = fp_country (profileForm me)"
  shows "saveProfileTab fm stored today user f db = (Throw Errors_validation, db)"
proof -
  have "fp_country f = []" using assms by (simp add: profileForm_def orElse_def)
  then have "zOptional countryCodeSchema (Text (fp_country f)) = None"
    by (simp add: zOptional_def countryCodeSchema_def zRefine_def zMap_def trimString_def toUpperCase_def)
  then have "updateProfileSchema fm (profileBody f) = None"
    by (simp add: updateProfileSchema_def profileBody_def bind_eq_None_conv)
  then show ?thesis by (simp add: saveProfileTab_def patchProfile_def parse_def)
qed

text \<open>The two requests of the profile tab are not one. When the second is refused, the screen reports that nothing
could be saved and goes on showing the old profile, and the new one is stored.\<close>

theorem half_a_save:
  assumes "profileRoute fm stored today user (PatchProfile (profileBody f)) db = (Ok me, db1)"
    and "updateInterestsSchema (interestsBody f) = None"
  shows "saveProfileTab fm stored today user f db = (Throw Errors_validation, db1) \<and>
     sp_profile (saveAnswered (Inl failure) page) = sp_profile page \<and> sp_error (saveAnswered (Inl failure) page) \<noteq> None"
  using assms by (simp add: saveProfileTab_def putInterests_def parse_def saveAnswered_def)

section \<open>Forms stay within bounds\<close>

text \<open>However the chips are pressed, none is chosen twice and the number chosen never grows past the limit.\<close>

theorem chips_stay_within_limits:
  "distinct chosen \<Longrightarrow> distinct (fold (chipPressed limit) presses chosen) \<and>
     length (fold (chipPressed limit) presses chosen) \<le> max limit (length chosen)"
proof (induction presses arbitrary: chosen)
  case (Cons x presses)
  have "distinct (chipPressed limit x chosen)" using Cons.prems by (simp add: chipPressed_def)
  moreover have "length (chipPressed limit x chosen) \<le> max limit (length chosen)"
    by (auto simp: chipPressed_def le_max_iff_disj intro: order_trans [OF length_filter_le])
  ultimately show ?case using Cons.IH [of "chipPressed limit x chosen"] by (simp add: le_max_iff_disj) linarith
qed simp

text \<open>When the button that deletes the account can be pressed, what it sends is refused for its password only.\<close>

theorem deletion_needs_the_password_only:
  assumes "canDelete a"
  shows "deleteAccountSchema (deleteBody a) =
     (if lengthIn 1 128 (ac_password a) then Some (ac_password a) else None)"
  using assms by (simp add: canDelete_def deleteBody_def deleteAccountSchema_def DELETE_CONFIRMATION_def zRefine_def
      zLiteral_def)

text \<open>A list of blocked people that could not be loaded is shown as an empty one.\<close>

theorem failure_looks_like_nobody_blocked:
  "blockedView (blockedLoaded None initialBlockedTab) = BlockedEmpty"
  by (simp add: blockedView_def blockedLoaded_def initialBlockedTab_def)

section \<open>Examples\<close>

definition settledRow :: UserRow where
  "settledRow = exampleRow\<lparr>
     u_profile := Some \<lparr>pr_displayName = Some ''Ana'', pr_avatarUrl = None, pr_bio = None, pr_birthDate = NoBirthDate,
       pr_gender = Gender_FEMALE, pr_country = Some ''PT'', pr_languages = [''pt''], pr_locale = ''pt''\<rparr>,
     u_preference := Some (defaultPreference\<lparr>pf_preferredCountries := [''FR'']\<rparr>), u_interests := [''music'']\<rparr>"

lemma untouched_save_changes_nothing_witness:
  "\<exists>me. loadProfile ''u'' \<lparr>utcYear = 2026, utcMonth = 0, utcDay = 1\<rparr> (accountDb settledRow [] []) = Ok me \<and>
     fst (saveProfileTab exampleFormats [(''travel'', True), (''music'', True)] \<lparr>utcYear = 2026, utcMonth = 0, utcDay = 1\<rparr>
       memberUser (profileForm me) (accountDb settledRow [] [])) = Ok me"
proof -
  let ?today = "\<lparr>utcYear = 2026, utcMonth = 0, utcDay = 1\<rparr>"
  have u: "db_users (accountDb settledRow [] []) ''u'' = Some settledRow" by (simp add: accountDb_def)
  then obtain me where me: "loadProfile ''u'' ?today (accountDb settledRow [] []) = Ok me"
    by (simp add: loadProfile_def Let_def)
  have c1: "countryCodeSchema (Text ''PT'') = Some ''PT''" by code_simp
  have c2: "countryCodeSchema (Text ''FR'') = Some ''FR''" by code_simp
  have c3: "interestSlugSchema (Text ''music'') = Some ''music''" by code_simp
  have "codeUnits ''Ana'' = [65, 110, 97]" by (simp add: codeUnits_def)
  moreover have "cleanText [65, 110, 97]" by (simp add: cleanText_def isInvisible_def isSpace_def INVISIBLE_CODE_POINT_RANGES_def)
  ultimately have "sanitizeText ''Ana'' = map char_of [65, 110, 97 :: nat]"
    by (simp only: sanitizeText_def sanitize_clean_id)
  also have "\<dots> = ''Ana''" by code_simp
  finally have c4: "displayTextSchema 40 (Text ''Ana'') = Some ''Ana''"
    by (simp add: displayTextSchema_def zRefine_def zMap_def)
  note codes = c1 c2 c3 c4
  have "saveProfileTab exampleFormats [(''travel'', True), (''music'', True)] ?today memberUser (profileForm me)
      (accountDb settledRow [] []) = (Ok me, accountDb settledRow [] []) \<and>
    saveMatchingTab exampleFormats [(''travel'', True), (''music'', True)] ?today memberUser
      (matchingForm None None None me) (accountDb settledRow [] []) = (Ok me, accountDb settledRow [] [])"
    by (rule untouched_save_changes_nothing [where u = settledRow and p = "the (u_profile settledRow)"
          and pf = "the (u_preference settledRow)" and c = "''PT''"])
       (use u me codes in \<open>simp_all add: memberUser_def settledRow_def settledText_def defaultPreference_def
          interestCatalogue_def MAX_INTERESTS_PER_USER_def\<close>)
  then show ?thesis using me by auto
qed

end
