(* ===== verification/Register_Page.thy ===== *)
theory Register_Page
  imports Validation_Safety
begin

text \<open>The registration form, \<^verbatim>\<open>apps/web/src/app/[locale]/register/page.tsx\<close>: what is typed, what is sent, and what the
page makes of the answer. The results compare the form with the schema that the route parses with.\<close>

section \<open>The form\<close>

record RegisterForm =
  rf_email :: string
  rf_username :: string
  rf_password :: string
  rf_confirmPassword :: string
  rf_birthDate :: string
  rf_country :: string

record RegisterPage =
  rp_form :: RegisterForm
  rp_accepted :: bool
  rp_error :: "string option"
  rp_fieldErrors :: "(string \<times> string list) list"
  rp_submitting :: bool
  rp_done :: bool

definition emptyRegisterForm :: RegisterForm where
  "emptyRegisterForm =
     \<lparr>rf_email = [], rf_username = [], rf_password = [], rf_confirmPassword = [], rf_birthDate = [], rf_country = []\<rparr>"

definition initialRegisterPage :: RegisterPage where
  "initialRegisterPage = \<lparr>rp_form = emptyRegisterForm, rp_accepted = False, rp_error = None, rp_fieldErrors = [],
     rp_submitting = False, rp_done = False\<rparr>"

definition DEFAULT_MINIMUM_AGE_WEB :: int where
  "DEFAULT_MINIMUM_AGE_WEB = 18"

definition maxBirthDate :: "UtcDate \<Rightarrow> string" where
  "maxBirthDate today = birthText (yearsBefore DEFAULT_MINIMUM_AGE_WEB today)"

text \<open>Typing; a user name is lowered as it is typed.\<close>

datatype RegisterInputField = InEmail string | InUsername string | InPassword string | InConfirm string
  | InBirthDate string | InCountry string

fun typed :: "RegisterInputField \<Rightarrow> RegisterForm \<Rightarrow> RegisterForm" where
  "typed (InEmail s) f = f\<lparr>rf_email := s\<rparr>"
| "typed (InUsername s) f = f\<lparr>rf_username := toLowerCase s\<rparr>"
| "typed (InPassword s) f = f\<lparr>rf_password := s\<rparr>"
| "typed (InConfirm s) f = f\<lparr>rf_confirmPassword := s\<rparr>"
| "typed (InBirthDate s) f = f\<lparr>rf_birthDate := s\<rparr>"
| "typed (InCountry s) f = f\<lparr>rf_country := s\<rparr>"

definition languagesOf :: "string \<Rightarrow> string list" where
  "languagesOf country =
     (case find (\<lambda>c. co_code c = country) COUNTRIES of None \<Rightarrow> [''en''] | Some c \<Rightarrow> co_languages c)"

definition registerBody :: "string \<Rightarrow> RegisterForm \<Rightarrow> raw" where
  "registerBody locale f =
     Obj [(''email'', Text (rf_email f)), (''username'', Text (rf_username f)), (''password'', Text (rf_password f)),
          (''confirmPassword'', Text (rf_confirmPassword f)), (''birthDate'', Text (rf_birthDate f)),
          (''country'', Text (rf_country f)), (''languages'', Arr (map Text (languagesOf (rf_country f)))),
          (''locale'', Text locale), (''acceptedTerms'', Bool True), (''acceptedGuidelines'', Bool True)]"

section \<open>Submitting\<close>

definition submitBegins :: "RegisterPage \<Rightarrow> RegisterPage" where
  "submitBegins p = p\<lparr>rp_error := None, rp_fieldErrors := [], rp_submitting := True\<rparr>"

text \<open>A request's failure: refused, with complaints by field and a message, or not answered.\<close>

datatype FormFailure = FormRefused "(string \<times> string list) list" string | FormUnanswered

definition formFailed :: "FormFailure \<Rightarrow> RegisterPage \<Rightarrow> RegisterPage" where
  "formFailed e p =
     (case e of
        FormRefused complaints message \<Rightarrow>
          p\<lparr>rp_fieldErrors := complaints, rp_error := (if 0 < length complaints then None else Some message), rp_submitting := False\<rparr>
      | FormUnanswered \<Rightarrow> p\<lparr>rp_error := Some ''networkError'', rp_submitting := False\<rparr>)"

text \<open>The answer to the registration, whether verification is required; where it is not, the page signs in, and
\<open>entered\<close> is how that goes. The flag says that the page moves on to the conversation page.\<close>

definition registerAnswered ::
    "FormFailure + bool \<Rightarrow> FormFailure + unit \<Rightarrow> RegisterPage \<Rightarrow> RegisterPage \<times> bool" where
  "registerAnswered answer entered p =
     (case answer of
        Inl e \<Rightarrow> (formFailed e p, False)
      | Inr requiresVerification \<Rightarrow>
          if requiresVerification then (p\<lparr>rp_done := True, rp_submitting := False\<rparr>, False)
          else case entered of
                 Inl e \<Rightarrow> (formFailed e p, False)
               | Inr u \<Rightarrow> (p\<lparr>rp_submitting := False\<rparr>, True))"

definition canRegister :: "RegisterPage \<Rightarrow> bool" where
  "canRegister p \<longleftrightarrow> rp_accepted p \<and> \<not> rp_submitting p \<and> \<not> rp_done p"

section \<open>The form and the schema\<close>

lemma country_languages:
  "list_all (\<lambda>c. lengthIn 1 5 (co_languages c) \<and>
     zArray languageCodeSchema (Arr (map Text (co_languages c))) = Some (co_languages c)) COUNTRIES"
  by code_simp

lemma languagesOf_accepted:
  "zDefault [''en''] (zRefine (lengthIn 1 5) (zArray languageCodeSchema)) (Arr (map Text (languagesOf country))) =
     Some (languagesOf country)"
proof (cases "find (\<lambda>c. co_code c = country) COUNTRIES")
  case None
  have "languageCodeSchema (Text ''en'') = Some ''en''" by code_simp
  with None show ?thesis by (simp add: languagesOf_def zDefault_def zRefine_def lengthIn_def)
next
  case (Some c)
  then have "c \<in> set COUNTRIES" using find_Some_iff2 by metis
  with country_languages Some show ?thesis
    by (auto simp: languagesOf_def zDefault_def zRefine_def list_all_iff)
qed

text \<open>C18: Only what the user typed can make the form fail. What the page adds by itself, the languages of the country
chosen, the language of the page and the two consents, is never refused: the schema accepts the form exactly if the
address, the name, the password typed twice, the birth date and the country are acceptable and the password does not
contain the name; and what it accepts is what was typed, normalised.\<close>

theorem registration_form_is_sufficient:
  assumes "locale \<in> set LOCALES"
  shows "registerSchema fm clock (registerBody locale f) = Some i \<longleftrightarrow>
     emailSchema fm (Text (rf_email f)) = Some (rg_email i) \<and> usernameSchema (Text (rf_username f)) = Some (rg_username i) \<and>
     passwordSchema (Text (rf_password f)) = Some (rg_password i) \<and> rf_confirmPassword f = rg_password i \<and>
     birthDateSchema clock (Text (rf_birthDate f)) = Some (rg_birthDate i) \<and>
     countryCodeSchema (Text (rf_country f)) = Some (rg_country i) \<and>
     \<not> includesText (toLowerCase (rg_password i)) (toLowerCase (rg_username i)) \<and>
     rg_displayName i = None \<and> rg_locale i = locale \<and> rg_languages i = languagesOf (rf_country f)"
proof -
  have loc: "zDefault ''en'' localeSchema (Text locale) = Some locale"
    using assms by (auto simp: zDefault_def localeSchema_def zEnum_def LOCALES_def)
  have flag: "zLiteral (Bool True) (Bool True) = Some ()" by (simp add: zLiteral_def)
  have "registerSchema fm clock (registerBody locale f) =
      Option.bind (emailSchema fm (Text (rf_email f))) (\<lambda>email.
      Option.bind (usernameSchema (Text (rf_username f))) (\<lambda>username.
      Option.bind (passwordSchema (Text (rf_password f))) (\<lambda>password.
      Option.bind (birthDateSchema clock (Text (rf_birthDate f))) (\<lambda>birthDate.
      Option.bind (countryCodeSchema (Text (rf_country f))) (\<lambda>country.
        if password = rf_confirmPassword f \<and> \<not> includesText (toLowerCase password) (toLowerCase username)
        then Some \<lparr>rg_email = email, rg_username = username, rg_displayName = None, rg_password = password,
                   rg_birthDate = birthDate, rg_country = country, rg_locale = locale,
                   rg_languages = languagesOf (rf_country f)\<rparr>
        else None)))))"
    by (simp add: registerSchema_def registerBody_def loc languagesOf_accepted [unfolded One_nat_def] flag zOptional_def)
  then show ?thesis by (cases i) (auto simp: bind_eq_Some_conv)
qed

text \<open>Where no verification is needed, an account that was made is reported as an error when the sign-in behind it
fails: the form is there again, and submitting it again can only say that the address is taken.\<close>

theorem made_but_reported_as_failed:
  "registerAnswered (Inr False) (Inl e) p = (formFailed e p, False) \<and> rp_form (formFailed e p) = rp_form p \<and>
   \<not> (rp_done (formFailed e p) \<and> \<not> rp_done p) \<and>
   (canRegister p \<longrightarrow> canRegister (fst (registerAnswered (Inr False) (Inl e) (submitBegins p))))"
  by (cases e) (auto simp: registerAnswered_def formFailed_def canRegister_def submitBegins_def)

definition exampleForm :: RegisterForm where
  "exampleForm = \<lparr>rf_email = '' Bo@example.com'', rf_username = ''bo_1'', rf_password = ''correct horse'',
     rf_confirmPassword = ''correct horse'', rf_birthDate = ''2000-01-01'', rf_country = ''PT''\<rparr>"

lemma registration_form_is_sufficient_witness:
  "map_option rg_languages (registerSchema exampleFormats exampleClock (registerBody ''pt'' exampleForm)) =
     Some (languagesOf ''PT'')"
proof -
  let ?i = "\<lparr>rg_email = ''bo@example.com'', rg_username = ''bo_1'', rg_displayName = None, rg_password = ''correct horse'',
      rg_birthDate = \<lparr>utcYear = 2000, utcMonth = 0, utcDay = 1\<rparr>, rg_country = ''PT'', rg_locale = ''pt'',
      rg_languages = languagesOf ''PT''\<rparr>"
  have a: "emailSchema exampleFormats (Text '' Bo@example.com'') = Some ''bo@example.com''" by code_simp
  have b: "usernameSchema (Text ''bo_1'') = Some ''bo_1''" by code_simp
  have c: "passwordSchema (Text ''correct horse'') = Some ''correct horse''" by code_simp
  have d: "birthDateSchema exampleClock (Text ''2000-01-01'') = Some \<lparr>utcYear = 2000, utcMonth = 0, utcDay = 1\<rparr>" by code_simp
  have e: "countryCodeSchema (Text ''PT'') = Some ''PT''" by code_simp
  have g: "\<not> includesText (toLowerCase ''correct horse'') (toLowerCase ''bo_1'')" by code_simp
  have "''pt'' \<in> set LOCALES" by (simp add: LOCALES_def)
  from registration_form_is_sufficient [OF this, of exampleFormats exampleClock exampleForm ?i]
  have "registerSchema exampleFormats exampleClock (registerBody ''pt'' exampleForm) = Some ?i"
    using a b c d e g by (simp add: exampleForm_def)
  then show ?thesis by simp
qed

end
