(* ===== verification/Spec2Isabelle.thy ===== *)
theory Spec2Isabelle
  imports Utils Redis_Keys Session_Machine Matchmaker Campaigns Conversation_Safety Account_Life Connection_Safety
    Api_Client Profile_Safety Admin_Safety Auth_Route_Safety Http_Safety
    Mailer Session_Safety Bootstrap System_Money Camera_Safety Wake_Lock Discover_Safety
    Settings_Schemas Http_Body Campaign_Panel Settings_Page Register_Page
begin

text \<open>A model of Trip2World, a random video chat: users wait in a queue, are paired, talk over WebRTC,
skip, tip, block and report each other.

\<^bold>\<open>The program.\<close> A socket server (\<^verbatim>\<open>apps/realtime\<close>) keeps its volatile state in Redis and its records in
Postgres; an HTTP server (\<^verbatim>\<open>apps/api\<close>) shares both; a browser application (\<^verbatim>\<open>apps/web\<close>) drives the calls.
The rules they share are pure functions in \<^verbatim>\<open>packages/shared\<close>. A user's browser sends \<^verbatim>\<open>queue:join\<close>; the
socket server stores a candidate in the Redis queue and pairs it at once or at the next tick; both sides
learn of the match, exchange signals through the server, and leave by skipping, ending, blocking,
reporting or disconnecting.

\<^bold>\<open>The theories.\<close>
  \<^item> \<^theory_text>\<open>Prelude\<close>: names of the model's types, the result type, tables of rows, lemma collections.
    \<^theory_text>\<open>Enums\<close>: the enumerations of \<^verbatim>\<open>packages/types/src/enums.ts\<close>; roles are a linear order.
  \<^item> \<^theory_text>\<open>Session_Machine\<close> (\<^verbatim>\<open>session-machine.ts\<close>): the table of session states, with reachability over it.
  \<^item> \<^theory_text>\<open>Matchmaking\<close> (\<^verbatim>\<open>matchmaking.ts\<close>): relaxation over time, hard rules, preferences, the score, the choice
    of a partner, regional shards. The choice is shown to be a best legal one, never to be a blocked pair,
    and never to be kept from a pair by preferences after sixty seconds.
  \<^item> \<^theory_text>\<open>Privacy\<close> (\<^verbatim>\<open>privacy.ts\<close>): the only function from a stored profile to what a stranger sees, as
    noninterference; the assertion over payloads; ages. \<^theory_text>\<open>Utils\<close> (\<^verbatim>\<open>utils.ts\<close>), \<^theory_text>\<open>Redis_Keys\<close>
    (\<^verbatim>\<open>redis-keys.ts\<close>, injectivity of the key builder).
  \<^item> \<^theory_text>\<open>Redis_Store\<close>: the Redis commands the code uses, over registers with expiry instants and sorted sets;
    \<^theory_text>\<open>Queue_Repository\<close> (\<^verbatim>\<open>queue.repository.ts\<close>): the queue, its locks and occupancy claims.
    \<^theory_text>\<open>Database\<close> (\<^verbatim>\<open>queries.ts\<close> over the rows of \<^verbatim>\<open>schema.prisma\<close>).
    \<^theory_text>\<open>Matchmaker\<close> (\<^verbatim>\<open>matchmaker.ts\<close>): one attempt to pair, its commit and its undoing, the end of a match, as
    functions of the whole world; and the interleaving of attempts on many nodes as a step relation, in
    which nobody is ever booked twice.
  \<^item> \<^theory_text>\<open>Tokens\<close> (\<^verbatim>\<open>tokens.service.ts\<close>): balances, ledger, tips, purchases. \<^theory_text>\<open>Campaigns\<close>
    (\<^verbatim>\<open>campaigns.service.ts\<close>): grants under concurrent claims. The ledger invariant spans both.
  \<^item> \<^theory_text>\<open>Presence\<close> (\<^verbatim>\<open>presence.ts\<close>): sockets of a user, refined to the set of open tabs.
    \<^theory_text>\<open>Access_Control\<close> (\<^verbatim>\<open>auth.plugin.ts\<close>, \<^verbatim>\<open>socket-auth.ts\<close>, \<^verbatim>\<open>errors.ts\<close>): the two entrances, both
    interpretations of one locale. \<^theory_text>\<open>Rate_Limit\<close>: the two fixed-window counters, likewise. \<^theory_text>\<open>Turn\<close>
    (\<^verbatim>\<open>turn.ts\<close>): relay credentials.
  \<^item> \<^theory_text>\<open>Realtime_Server\<close> (\<^verbatim>\<open>apps/realtime/src/server.ts\<close>): every socket handler, the tick and the shutdown, as
    functions from the server's state and outbox to the new ones. \<^theory_text>\<open>Realtime_Safety\<close>: who receives what.
  \<^item> \<^theory_text>\<open>Conversation\<close> (\<^verbatim>\<open>use-conversation.ts\<close>): the browser's side, its actions, frames, timers and
    continuations. \<^theory_text>\<open>Conversation_Safety\<close>: its invariant, and client and server run against each other.

  \<^item> \<^theory_text>\<open>Moderation\<close> (\<^verbatim>\<open>moderation.service.ts\<close>): warnings, reports, restrictions and their lifting.
    \<^theory_text>\<open>Moderation_Safety\<close>: the bounds of a moderator's power as a locale over the three kinds of action, what
    a restriction reaches and where it stops short.
  \<^item> \<^theory_text>\<open>Settings\<close> (\<^verbatim>\<open>settings.ts\<close>, \<^verbatim>\<open>settings.service.ts\<close>): the rows, the environment and two caches.
    \<^theory_text>\<open>Auth_Service\<close> (\<^verbatim>\<open>auth.service.ts\<close>): registration, sign-in with its lock, rotating sessions, links sent
    by mail, the request for deletion. \<^theory_text>\<open>Auth_Safety\<close>: the identity tables as an invariant of a step relation
    over all requests that write them, moderation's included.
  \<^item> \<^theory_text>\<open>Worker_Jobs\<close> (\<^verbatim>\<open>apps/worker/src/jobs.ts\<close>, with the cascades of \<^verbatim>\<open>schema.prisma\<close>): erasure, the sweeps of
    restrictions, retention. \<^theory_text>\<open>Worker_Safety\<close>: what an erasure takes and leaves, also of the token ledger, and
    that jobs can be repeated. \<^theory_text>\<open>Account_Life\<close>: properties along the life of an account, from registration
    through resets, rotations and locks to deletion, over all of these theories.
  \<^item> \<^theory_text>\<open>Connections\<close> (\<^verbatim>\<open>connections.routes.ts\<close>, \<^verbatim>\<open>safety.routes.ts\<close>): requests to stay in touch, connections,
    blocks and reports outside a call. \<^theory_text>\<open>Connection_Safety\<close>: that both sides have to agree, as a locale over
    the routes.
  \<^item> \<^theory_text>\<open>Api_Client\<close> (\<^verbatim>\<open>packages/ui/src/api-client.ts\<close>): the applications' HTTP client, its token, the refresh
    that callers share and the one retry.
  \<^item> \<^theory_text>\<open>Countries\<close> (\<^verbatim>\<open>countries.ts\<close>, \<^verbatim>\<open>interests.ts\<close>): reference data and its lookup. \<^theory_text>\<open>Validation\<close>
    (\<^verbatim>\<open>packages/validation/src\<close>): the schemas every request passes, from JSON values to the inputs of the
    services. \<^theory_text>\<open>Validation_Safety\<close>: what has passed is normalised and stable, and the age gate exactly.
    \<^theory_text>\<open>Profile\<close> (\<^verbatim>\<open>profile.routes.ts\<close>): what account holders write themselves. \<^theory_text>\<open>Profile_Safety\<close>: how far that
    reaches, and the age limit as an invariant over every request and job that writes accounts.
  \<^item> \<^theory_text>\<open>Payloads\<close> (\<^verbatim>\<open>realtime.schema.ts\<close>, \<^verbatim>\<open>safety.schema.ts\<close>, \<^verbatim>\<open>tokens.schema.ts\<close>, \<^verbatim>\<open>admin.schema.ts\<close>): the
    remaining schemas, and a socket frame from its name and unparsed payload. \<^theory_text>\<open>Payload_Safety\<close>: bounds of
    all a frame can make the server send, and that a refused payload does nothing.
  \<^item> \<^theory_text>\<open>Admin_Routes\<close> (\<^verbatim>\<open>admin.routes.ts\<close>): the administration surface as one pipeline, from the header
    through role guard and schema to the handler. \<^theory_text>\<open>Admin_Safety\<close>: who gets through, privilege as an
    invariant over any requests, the audit log, paging.
  \<^item> \<^theory_text>\<open>Auth_Routes\<close> (\<^verbatim>\<open>auth.routes.ts\<close>): registration, sign-in, refresh and the rest from the HTTP request to
    body, cookie and mail. \<^theory_text>\<open>Auth_Route_Safety\<close>: where the refresh token goes and what a logout ends.
    \<^theory_text>\<open>Http_Server\<close> (\<^verbatim>\<open>apps/api/src/server.ts\<close>, \<^verbatim>\<open>tokens.routes.ts\<close>, \<^verbatim>\<open>ice.routes.ts\<close>, \<^verbatim>\<open>health.routes.ts\<close>): the
    maintenance hook, the error handler, relay credentials, checkout and the payment webhook.
    \<^theory_text>\<open>Http_Safety\<close>: what credits tokens and what does not, and how far maintenance reaches.

  \<^item> \<^theory_text>\<open>Config\<close> (both \<^verbatim>\<open>config.ts\<close>, \<^verbatim>\<open>apps/worker/src/main.ts\<close>, \<^verbatim>\<open>apps/realtime/src/main.ts\<close>): the environment of
    the three services, variable by variable, and the worker's schedule. \<^theory_text>\<open>Config_Safety\<close>: what a started
    production process has, and that two servers of one environment fit together. \<^theory_text>\<open>Mailer\<close>
    (\<^verbatim>\<open>packages/mailer\<close>): outbound mail.
  \<^item> \<^theory_text>\<open>Session_Provider\<close> (\<^verbatim>\<open>session-provider.tsx\<close>, \<^verbatim>\<open>admin-session.tsx\<close>): being signed in, from the browser with its
    cookie through \<^theory_text>\<open>Api_Client\<close> and \<^theory_text>\<open>Auth_Routes\<close> to the tables. \<^theory_text>\<open>Session_Safety\<close>: signing out, two tabs,
    the address after a sign-in.
  \<^item> \<^theory_text>\<open>Bootstrap\<close> (\<^verbatim>\<open>create-admin.ts\<close>, \<^verbatim>\<open>password.ts\<close>): the script that makes the first administrator.

  \<^item> \<^theory_text>\<open>System_Money\<close>: every entrance of the program, the socket frames, the HTTP routes, the administration, the
    webhook and the worker, as one step relation; what moves tokens in it and what does not.
  \<^item> \<^theory_text>\<open>Media\<close> (\<^verbatim>\<open>apps/web/src/lib/media.ts\<close>): what is asked of the browser's camera and what its refusals mean.
    \<^theory_text>\<open>Camera\<close> (\<^verbatim>\<open>use-conversation.ts\<close>): tracks, streams and senders as stores, every operation split where it
    awaits. \<^theory_text>\<open>Camera_Safety\<close>: whether a camera is released and stays muted; the tracks refine the coarser local
    stream of \<^theory_text>\<open>Conversation\<close>. \<^theory_text>\<open>Wake_Lock\<close> (\<^verbatim>\<open>use-wake-lock.ts\<close>): the lock on the screen and its races.
  \<^item> \<^theory_text>\<open>Discover\<close> (\<^verbatim>\<open>discover/page.tsx\<close>, \<^verbatim>\<open>tips.tsx\<close>): the page of a conversation, its messages, buttons, dialogs and
    forms over the hook's state. \<^theory_text>\<open>Discover_Safety\<close>: where the page leads, and where it leads nowhere.
  \<^item> \<^theory_text>\<open>Settings_Schemas\<close> (\<^verbatim>\<open>admin.schema.ts\<close>, \<^verbatim>\<open>tokens.schema.ts\<close>, \<^verbatim>\<open>realtime.schema.ts\<close>, \<^verbatim>\<open>settings.ts\<close>): the schemas no
    route parses with yet, and the rows settings are stored in. \<^theory_text>\<open>Http_Body\<close> (\<^verbatim>\<open>apps/api/src/server.ts\<close>): the parser
    of request bodies, which keeps the bytes of the payment webhook.
  \<^item> \<^theory_text>\<open>Campaign_Panel\<close> (\<^verbatim>\<open>apps/admin/src/app/campaigns/page.tsx\<close>), \<^theory_text>\<open>Settings_Page\<close> (\<^verbatim>\<open>settings/page.tsx\<close>),
    \<^theory_text>\<open>Register_Page\<close> (\<^verbatim>\<open>register/page.tsx\<close>): the forms of the two applications against the routes and schemas
    they talk to: what they show is so, what they send is accepted, and where that fails.

\<^bold>\<open>How the code is read.\<close> Interfaces and object literals are records, enumerations datatypes, exceptions and
early returns the left of a sum or \<^const>\<open>None\<close>. A Redis pipeline or transaction is one function; where the
code reads, awaits and then writes, the two halves are separate functions and a step relation interleaves
them. Instants are integers in milliseconds. The clock, fresh identifiers, the answer of a payload schema,
the outcome of the token library, the keyed hash and the browser's media answers are arguments. Fractional
numbers are rationals; hashes are on 32-bit words. No function needs fuel: every loop of the code runs over
a finite list, and the client's recursive request ends by a measure, the retry it has left.

\<^bold>\<open>Not modelled.\<close> Layout, texts and the pages that only show what a route answered, logging and metrics, the
start and stop of the processes, the HTTP framework's plumbing, mail texts, the seed script, the Prisma client
and the Redis client themselves, failures of Redis and Postgres except where the code handles them, and the
operations \<^verbatim>\<open>PROJECT.json\<close> lists as such.\<close>

end
